(* ===== verification/Prelude.thy ===== *)
theory Prelude
  imports Complex_Main "HOL-Library.Sublist" "HOL-Library.Multiset" "HOL-Library.List_Lexorder" "HOL-Library.Char_ord" "HOL-Library.Product_Lexorder"
begin

text \<open>
  Shared vocabulary of the development: exceptions as values, the result type and its
  sequencing operators, the scanning loop that the numeric routines use, and the handful of
  string operations of Python that the sources call.  A Python exception is a pair of its
  class and the constant part of its message, so that two raises of one class with different
  texts stay different branches.  A datetime is the number of microseconds since the epoch,
  in UTC when it is timezone-aware.
\<close>

named_theorems result_simps \<open>evaluation of results and their sequencing\<close>
named_theorems scan_simps \<open>the scanning loop\<close>

subsection \<open>Exceptions as values\<close>

datatype exc_class =
    ValueError
  | TypeError
  | KeyError
  | IndexError
  | AssertionError
  | PermissionError
  | RuntimeError
  | AttributeError
  | InvalidOperation
  | DecimalOverflow
  | UnicodeDecodeError
  | LookupError
  | OSError
  | OverflowError
  | IntegrityError
  | StopIteration
  | InsufficientDataError
  | InvalidCandleSeriesError
  | NormalizationError
  | ProviderTimeoutError
  | ProviderRateLimitedError
  | ProviderUnavailableError
  | ProviderDataError
  | StaleDataError
  | ProviderUnsupportedOperationError
  | InvalidBacktestConfigError
  | InvalidHistoryError
  | InsufficientHistoryError
  | InvalidExecutionConfigError
  | InsufficientSampleSizeError
  | InvalidPartitionError
  | CsvError

datatype error = Err (err_class: exc_class) (err_text: string)

type_synonym 'a result = "error + 'a"

abbreviation ok :: "'a \<Rightarrow> 'a result" where
  "ok x \<equiv> Inr x"

abbreviation raise :: "exc_class \<Rightarrow> string \<Rightarrow> 'a result" where
  "raise c t \<equiv> Inl (Err c t)"

fun bind_result :: "'a result \<Rightarrow> ('a \<Rightarrow> 'b result) \<Rightarrow> 'b result" where
  "bind_result (Inl e) f = Inl e"
| "bind_result (Inr x) f = f x"

text \<open>A guard: raise when the source's condition holds, else go on.\<close>

definition raise_if :: "bool \<Rightarrow> exc_class \<Rightarrow> string \<Rightarrow> 'a result \<Rightarrow> 'a result" where
  "raise_if b c t k = (if b then raise c t else k)"

fun map_result :: "('a \<Rightarrow> 'b result) \<Rightarrow> 'a list \<Rightarrow> 'b list result" where
  "map_result f [] = ok []"
| "map_result f (x # xs) =
     bind_result (f x) (\<lambda>y. bind_result (map_result f xs) (\<lambda>ys. ok (y # ys)))"

text \<open>A \<open>for\<close> loop whose body may raise: the first exception ends it.\<close>

fun fold_result :: "('s \<Rightarrow> 'a \<Rightarrow> 's result) \<Rightarrow> 's \<Rightarrow> 'a list \<Rightarrow> 's result" where
  "fold_result f s [] = ok s"
| "fold_result f s (x # xs) = bind_result (f s x) (\<lambda>s'. fold_result f s' xs)"

lemma bind_result_Inr [result_simps]:
  "bind_result r f = Inr y \<longleftrightarrow> (\<exists>x. r = Inr x \<and> f x = Inr y)"
  by (cases r) auto

lemma bind_result_Inl [result_simps]:
  "bind_result r f = Inl e \<longleftrightarrow> r = Inl e \<or> (\<exists>x. r = Inr x \<and> f x = Inl e)"
  by (cases r) auto

text \<open>A computation that does not raise.\<close>

definition succeeds :: "'a result \<Rightarrow> bool" where
  "succeeds r \<longleftrightarrow> (\<exists>x. r = Inr x)"

lemma succeeds_ok [simp, intro]: "succeeds (Inr x)"
  by (simp add: succeeds_def)

lemma succeeds_bind [intro]: "succeeds r \<Longrightarrow> (\<And>x. r = Inr x \<Longrightarrow> succeeds (f x)) \<Longrightarrow> succeeds (bind_result r f)"
  by (auto simp: succeeds_def)

lemma succeeds_if [intro]: "(b \<Longrightarrow> succeeds r) \<Longrightarrow> (\<not> b \<Longrightarrow> succeeds s) \<Longrightarrow> succeeds (if b then r else s)"
  by simp

lemma succeedsE: "succeeds r \<Longrightarrow> (\<And>x. r = Inr x \<Longrightarrow> thesis) \<Longrightarrow> thesis"
  by (auto simp: succeeds_def)

lemma bind_result_ok [simp]: "bind_result r Inr = r"
  by (cases r) auto

lemma bind_result_cong [fundef_cong]:
  "r = r' \<Longrightarrow> (\<And>x. r' = Inr x \<Longrightarrow> f x = g x) \<Longrightarrow> bind_result r f = bind_result r' g"
  by (cases r') auto

lemma raise_if_simps [simp]: "raise_if True c t k = raise c t" "raise_if False c t k = k"
  by (simp_all add: raise_if_def)

lemma raise_if_Inr [simp]:
  "raise_if b c t k = Inr y \<longleftrightarrow> \<not> b \<and> k = Inr y"
  by (simp add: raise_if_def)

lemma raise_if_Inl [result_simps]:
  "raise_if b c t k = Inl e \<longleftrightarrow> b \<and> e = Err c t \<or> \<not> b \<and> k = Inl e"
  by (auto simp: raise_if_def)

lemma fold_result_append [result_simps]:
  "fold_result f s (xs @ ys) = bind_result (fold_result f s xs) (\<lambda>s'. fold_result f s' ys)"
proof (induction xs arbitrary: s)
  case (Cons x xs)
  then show ?case by (cases "f s x") auto
qed simp

lemma fold_result_invariant:
  assumes "fold_result f s xs = Inr t" and "P s"
    and "\<And>s x s'. P s \<Longrightarrow> x \<in> set xs \<Longrightarrow> f s x = Inr s' \<Longrightarrow> P s'"
  shows "P t"
  using assms
proof (induction xs arbitrary: s)
  case (Cons x xs)
  from Cons.prems(1) obtain s' where s': "f s x = Inr s'" "fold_result f s' xs = Inr t"
    by (auto simp: result_simps)
  have "P s'" by (rule Cons.prems(3) [OF Cons.prems(2) _ s'(1)]) simp
  with s'(2) show ?case by (rule Cons.IH) (erule Cons.prems(3), simp_all)
qed simp

lemma map_result_Inr_length: "map_result f xs = Inr ys \<Longrightarrow> length ys = length xs"
  by (induction xs arbitrary: ys) (auto simp: result_simps)

lemma map_result_Inr_nth:
  "map_result f xs = Inr ys \<Longrightarrow> i < length xs \<Longrightarrow> f (xs ! i) = Inr (ys ! i)"
proof (induction xs arbitrary: ys i)
  case (Cons x xs)
  then show ?case by (cases i) (auto simp: result_simps)
qed simp

lemma map_result_Inr_set:
  "map_result f xs = Inr ys \<Longrightarrow> y \<in> set ys \<Longrightarrow> \<exists>x\<in>set xs. f x = Inr y"
  by (induction xs arbitrary: ys) (auto simp: result_simps)

lemma map_result_Inl: "map_result f xs = Inl e \<Longrightarrow> \<exists>x\<in>set xs. f x = Inl e"
  by (induction xs) (auto simp: result_simps)

lemma map_result_ok_iff: "(\<exists>ys. map_result f xs = Inr ys) \<longleftrightarrow> (\<forall>x\<in>set xs. \<exists>y. f x = Inr y)"
  by (induction xs) (auto simp: result_simps)

lemma map_result_append [result_simps]:
  "map_result f (xs @ ys) =
     bind_result (map_result f xs) (\<lambda>us. bind_result (map_result f ys) (\<lambda>vs. ok (us @ vs)))"
proof (induction xs)
  case Nil
  show ?case by (cases "map_result f ys") auto
next
  case (Cons x xs)
  then show ?case
    by (cases "f x"; cases "map_result f xs"; cases "map_result f ys") auto
qed

subsection \<open>The scanning loop\<close>

text \<open>
  A loop that carries a state over a list and appends the state after every iteration to its
  output: the running sums, moving averages and equity paths of the sources.
\<close>

fun scan :: "('s \<Rightarrow> 'a \<Rightarrow> 's) \<Rightarrow> 's \<Rightarrow> 'a list \<Rightarrow> 's list" where
  "scan f s [] = []"
| "scan f s (x # xs) = f s x # scan f (f s x) xs"

lemma length_scan [simp]: "length (scan f s xs) = length xs"
  by (induction xs arbitrary: s) auto

lemma scan_append [scan_simps]: "scan f s (xs @ ys) = scan f s xs @ scan f (foldl f s xs) ys"
  by (induction xs arbitrary: s) auto

lemma scan_nth: "i < length xs \<Longrightarrow> scan f s xs ! i = foldl f s (take (Suc i) xs)"
proof (induction xs arbitrary: s i)
  case (Cons x xs)
  then show ?case by (cases i) auto
qed simp

lemma scan_invariant:
  assumes "P s" and "\<And>s x. P s \<Longrightarrow> x \<in> set xs \<Longrightarrow> P (f s x)" and "t \<in> set (scan f s xs)"
  shows "P t"
  using assms
proof (induction xs arbitrary: s)
  case (Cons x xs)
  from Cons.prems have "P (f s x)" by simp
  moreover from Cons.prems(3) have "t = f s x \<or> t \<in> set (scan f (f s x) xs)" by simp
  ultimately show ?case using Cons.IH [of "f s x"] Cons.prems(2) by auto
qed simp

lemma foldl_invariant:
  assumes "P s" and "\<And>s x. P s \<Longrightarrow> x \<in> set xs \<Longrightarrow> P (f s x)"
  shows "P (foldl f s xs)"
  using assms by (induction xs arbitrary: s) auto

subsection \<open>Lists\<close>

text \<open>Python's \<open>xs[i:j]\<close> for \<open>0 \<le> i\<close> and \<open>0 \<le> j\<close>.\<close>

definition slice :: "nat \<Rightarrow> nat \<Rightarrow> 'a list \<Rightarrow> 'a list" where
  "slice i j xs = take (j - i) (drop i xs)"

lemma slice_append [simp]: "j \<le> length xs \<Longrightarrow> slice i j (xs @ ys) = slice i j xs"
  by (cases "i \<le> j") (auto simp: slice_def)

lemma length_slice [simp]: "j \<le> length xs \<Longrightarrow> length (slice i j xs) = j - i"
  by (auto simp: slice_def)

lemma set_slice: "set (slice i j xs) \<subseteq> set xs"
  by (metis slice_def set_drop_subset set_take_subset subset_trans)

text \<open>
  Adjacent pairs, \<open>zip(xs, xs[1:])\<close>: the sources check orderings over them.
\<close>

fun adjacent :: "('a \<Rightarrow> 'a \<Rightarrow> bool) \<Rightarrow> 'a list \<Rightarrow> bool" where
  "adjacent p (x # y # zs) \<longleftrightarrow> p x y \<and> adjacent p (y # zs)"
| "adjacent p _ \<longleftrightarrow> True"

lemma adjacent_sorted_wrt:
  assumes "transp p"
  shows "adjacent p xs \<longleftrightarrow> sorted_wrt p xs"
  using assms
proof (induction p xs rule: adjacent.induct)
  case (1 p x y zs)
  then show ?case by (auto dest: transpD)
qed auto

lemma adjacent_append: "adjacent p (xs @ ys) \<Longrightarrow> adjacent p xs \<and> adjacent p ys"
proof (induction xs)
  case (Cons x xs)
  then have "adjacent p (xs @ ys)" by (cases "xs @ ys") auto
  with Cons show ?case by (cases xs) auto
qed simp

lemma sorted_wrt_nth_strict_mono:
  fixes xs :: "int list"
  shows "sorted_wrt (<) xs \<Longrightarrow> i < j \<Longrightarrow> j < length xs \<Longrightarrow> xs ! i < xs ! j"
  by (rule sorted_wrt_nth_less)

lemma subseq_set: "subseq xs ys \<Longrightarrow> set xs \<subseteq> set ys"
  by (auto simp: subseq_conv_nths dest: in_set_nthsD)

lemma subseq_sorted_wrt: "subseq xs ys \<Longrightarrow> sorted_wrt p ys \<Longrightarrow> sorted_wrt p xs"
  by (induction xs ys rule: list_emb.induct) (auto dest: subseq_set)

lemma sorted_last_max:
  fixes xs :: "'a :: linorder list"
  assumes "sorted_wrt (<) xs" and "x \<in> set xs"
  shows "x \<le> last xs"
proof -
  from assms(2) have "xs \<noteq> []" by auto
  then have "xs = butlast xs @ [last xs]" by simp
  with assms show ?thesis by (metis Un_iff less_imp_le list.set_intros(1) order_refl set_ConsD
      set_append sorted_wrt_append empty_iff list.set(1))
qed

subsection \<open>Strings\<close>

text \<open>
  Python's \<open>str.strip\<close>, \<open>str.upper\<close> and \<open>str.lower\<close> on ASCII text, and the decimal
  rendering of a natural number that an f-string gives.
\<close>

definition is_space :: "char \<Rightarrow> bool" where
  "is_space c \<longleftrightarrow> of_char c \<in> {9, 10, 11, 12, 13, 28, 29, 30, 31, 32 :: nat}"

definition lstrip :: "string \<Rightarrow> string" where
  "lstrip s = dropWhile is_space s"

definition strip :: "string \<Rightarrow> string" where
  "strip s = rev (lstrip (rev (lstrip s)))"

definition upper_char :: "char \<Rightarrow> char" where
  "upper_char c = (let n = of_char c :: nat in if 97 \<le> n \<and> n \<le> 122 then char_of (n - 32) else c)"

definition lower_char :: "char \<Rightarrow> char" where
  "lower_char c = (let n = of_char c :: nat in if 65 \<le> n \<and> n \<le> 90 then char_of (n + 32) else c)"

definition upper :: "string \<Rightarrow> string" where
  "upper = map upper_char"

definition lower :: "string \<Rightarrow> string" where
  "lower = map lower_char"

definition blank :: "string \<Rightarrow> bool" where
  "blank s \<longleftrightarrow> strip s = []"

fun show_nat :: "nat \<Rightarrow> string" where
  "show_nat n =
     (if n < 10 then [char_of (48 + n)] else show_nat (n div 10) @ [char_of (48 + n mod 10)])"

declare show_nat.simps [simp del]

definition show_int :: "int \<Rightarrow> string" where
  "show_int i = (if i < 0 then ''-'' @ show_nat (nat (- i)) else show_nat (nat i))"

text \<open>Evaluation on the bits of a character.\<close>

lemma lower_char_bits [code]:
  "lower_char (Char b0 b1 b2 b3 b4 b5 b6 b7) =
     (if b6 \<and> \<not> b5 \<and> \<not> b7 \<and> (b0 \<or> b1 \<or> b2 \<or> b3 \<or> b4) \<and> \<not> (b4 \<and> b3 \<and> (b2 \<or> b1 \<and> b0))
      then Char b0 b1 b2 b3 b4 True b6 b7 else Char b0 b1 b2 b3 b4 b5 b6 b7)"
  by (cases b0; cases b1; cases b2; cases b3; cases b4; cases b5; cases b6; cases b7)
    (simp_all add: lower_char_def of_char_def char_of_def bit_0)

lemma upper_char_bits [code]:
  "upper_char (Char b0 b1 b2 b3 b4 b5 b6 b7) =
     (if b6 \<and> b5 \<and> \<not> b7 \<and> (b0 \<or> b1 \<or> b2 \<or> b3 \<or> b4) \<and> \<not> (b4 \<and> b3 \<and> (b2 \<or> b1 \<and> b0))
      then Char b0 b1 b2 b3 b4 False b6 b7 else Char b0 b1 b2 b3 b4 b5 b6 b7)"
  by (cases b0; cases b1; cases b2; cases b3; cases b4; cases b5; cases b6; cases b7)
    (simp_all add: upper_char_def of_char_def char_of_def bit_0)

lemma is_space_bits [code]:
  "is_space (Char b0 b1 b2 b3 b4 b5 b6 b7) \<longleftrightarrow> \<not> b6 \<and> \<not> b7 \<and>
     (if b5 then \<not> (b0 \<or> b1 \<or> b2 \<or> b3 \<or> b4) else if b4 then b3 \<and> b2 else b3 \<and> (b0 \<or> b1 \<or> b2) \<and> \<not> (b2 \<and> b1))"
  by (cases b0; cases b1; cases b2; cases b3; cases b4; cases b5; cases b6; cases b7)
    (simp_all add: is_space_def of_char_def)

lemma upper_char_idem [simp]: "upper_char (upper_char c) = upper_char c"
  by (auto simp: upper_char_def Let_def)

lemma upper_idem [simp]: "upper (upper s) = upper s"
  by (simp add: upper_def)

lemma is_space_upper_char [simp]: "is_space (upper_char c) = is_space c"
  by (auto simp: is_space_def upper_char_def Let_def)

lemma lstrip_upper: "lstrip (upper s) = upper (lstrip s)"
  by (induction s) (auto simp: lstrip_def upper_def)

lemma strip_upper: "strip (upper s) = upper (strip s)"
proof -
  have "rev (upper t) = upper (rev t)" for t
    by (simp add: upper_def rev_map)
  then show ?thesis by (simp add: strip_def lstrip_upper)
qed

lemma lstrip_idem [simp]: "lstrip (lstrip s) = lstrip s"
  by (simp add: lstrip_def)

lemma lstrip_rev_idem: "lstrip s = s \<Longrightarrow> lstrip (rev (lstrip (rev s))) = rev (lstrip (rev s))"
proof (cases s)
  case (Cons c cs)
  moreover assume "lstrip s = s"
  ultimately have c: "\<not> is_space c"
    by (metis lstrip_def dropWhile_eq_Cons_conv)
  have "rev (lstrip (rev (c # cs))) = c # rev (lstrip (rev cs))"
  proof -
    have "dropWhile is_space (rev cs @ [c]) = dropWhile is_space (rev cs) @ [c]"
      using c by (metis dropWhile_append3)
    then show ?thesis by (simp add: lstrip_def)
  qed
  with Cons c show ?thesis by (simp add: lstrip_def)
qed (simp add: lstrip_def)

lemma strip_idem [simp]: "strip (strip s) = strip s"
proof -
  have "lstrip (strip s) = strip s"
    unfolding strip_def by (rule lstrip_rev_idem) simp
  then show ?thesis by (simp add: strip_def)
qed

lemma show_nat_nonempty [simp]: "show_nat n \<noteq> []"
  by (subst show_nat.simps) simp

text \<open>Rendered numbers can be read back, so equal texts are equal numbers.\<close>

definition read_nat :: "string \<Rightarrow> nat" where
  "read_nat s = foldl (\<lambda>a c. 10 * a + (of_char c - 48)) 0 s"

lemma read_show_nat [simp]: "read_nat (show_nat n) = n"
proof (induction n rule: show_nat.induct)
  case (1 n)
  have digit: "of_char (char_of (48 + d) :: char) = 48 + d" if "d < 10" for d :: nat
    using that by simp
  show ?case
  proof (cases "n < 10")
    case True
    with digit [of n] show ?thesis by (simp add: show_nat.simps [of n] read_nat_def)
  next
    case False
    with 1 have "read_nat (show_nat (n div 10)) = n div 10" by simp
    with False digit [of "n mod 10"] show ?thesis
      by (simp add: show_nat.simps [of n] read_nat_def)
  qed
qed

lemma show_nat_inject [simp]: "show_nat m = show_nat n \<longleftrightarrow> m = n"
  by (metis read_show_nat)

lemma show_nat_digits: "c \<in> set (show_nat n) \<Longrightarrow> 48 \<le> (of_char c :: nat) \<and> (of_char c :: nat) \<le> 57"
proof (induction n rule: show_nat.induct)
  case (1 n)
  then show ?case
    by (subst (asm) (2) show_nat.simps) (auto split: if_splits)
qed

lemma show_nat_no_minus: "show_nat n \<noteq> CHR ''-'' # s"
  using show_nat_digits [of "CHR ''-''" n] by auto

lemma show_int_inject [simp]: "show_int i = show_int j \<longleftrightarrow> i = j"
  using show_nat_no_minus [of "nat i"] show_nat_no_minus [of "nat j"]
  by (auto simp: show_int_def split: if_splits) (metis show_nat_no_minus)+

end
