(* ===== verification/Py_Decimal.thy ===== *)
theory Py_Decimal
  imports Prelude
begin

text \<open>
  Python's numbers.  A \<open>Decimal\<close> is its rational value; every arithmetic operation rounds its
  exact result to the 28 significant digits of the default context, ties to even, and a float
  operation rounds to 53 bits.  The exponent range of the context (\<open>10 ^ 999999\<close>) and of the
  double format is taken as unlimited.  One rounding function serves both bases; the locale
  \<open>rounding\<close> states what the routines of the program rely on, and both formats interpret it.
\<close>

type_synonym decimal = rat

subsection \<open>Powers, digits and exponents\<close>

definition pw :: "int \<Rightarrow> int \<Rightarrow> rat" where
  "pw b k = (if 0 \<le> k then of_int b ^ nat k else 1 / of_int b ^ nat (- k))"

function digits_in :: "int \<Rightarrow> int \<Rightarrow> nat" where
  "digits_in b n = (if n < b \<or> b < 2 then 1 else Suc (digits_in b (n div b)))"
  by pat_completeness auto
termination
proof (relation "measure (\<lambda>(b, n). nat n)")
  fix b n :: int
  assume "\<not> (n < b \<or> b < 2)"
  then show "((b, n div b), b, n) \<in> measure (\<lambda>(b, n). nat n)"
    by (auto intro: int_div_less_self)
qed simp

declare digits_in.simps [simp del]

definition expo :: "int \<Rightarrow> rat \<Rightarrow> int" where
  "expo b x =
     (let (p, q) = quotient_of \<bar>x\<bar>;
          k = int (digits_in b p) - int (digits_in b q)
      in if pw b k \<le> \<bar>x\<bar> then k else k - 1)"

definition round_half_even :: "rat \<Rightarrow> int" where
  "round_half_even y =
     (let f = \<lfloor>y\<rfloor>; d = y - of_int f
      in if d < 1 / 2 then f else if 1 / 2 < d then f + 1 else if even f then f else f + 1)"

definition round_to :: "int \<Rightarrow> nat \<Rightarrow> rat \<Rightarrow> rat" where
  "round_to b p x =
     (if x = 0 then 0
      else let u = pw b (expo b x - (int p - 1)) in of_int (round_half_even (x / u)) * u)"

lemma pw_powi: "pw b k = of_int b powi k"
  by (simp add: pw_def power_int_def divide_inverse power_inverse)

lemma pw_pos [simp]: "2 \<le> b \<Longrightarrow> 0 < pw b k"
  by (simp add: pw_def)

lemma pw_nonzero [simp]: "2 \<le> b \<Longrightarrow> pw b k \<noteq> 0"
  by (simp add: pw_def)

lemma pw_add: "2 \<le> b \<Longrightarrow> pw b (i + j) = pw b i * pw b j"
  by (simp add: pw_powi power_int_add)

lemma pw_diff: "2 \<le> b \<Longrightarrow> pw b (i - j) = pw b i / pw b j"
  by (simp add: pw_powi power_int_diff)

lemma pw_nat [simp]: "pw b (int n) = of_int b ^ n"
  by (simp add: pw_def)

lemma pw_mono: "2 \<le> b \<Longrightarrow> i \<le> j \<Longrightarrow> pw b i \<le> pw b j"
  by (simp add: pw_powi power_int_increasing)

lemma pw_less: "2 \<le> b \<Longrightarrow> i < j \<Longrightarrow> pw b i < pw b j"
  by (simp add: pw_powi power_int_strict_increasing)

lemma pw_less_iff: "2 \<le> b \<Longrightarrow> pw b i < pw b j \<longleftrightarrow> i < j"
  by (metis linorder_not_le pw_less pw_mono)

lemma digits_in_bounds:
  assumes "2 \<le> b" and "0 < n"
  shows "b ^ (digits_in b n - 1) \<le> n \<and> n < b ^ digits_in b n"
  using assms
proof (induction b n rule: digits_in.induct)
  case (1 b n)
  show ?case
  proof (cases "n < b")
    case True
    with 1(2,3) show ?thesis by (simp add: digits_in.simps [of b n])
  next
    case False
    let ?d = "digits_in b (n div b)"
    from False 1(2) have pos: "0 < n div b" by (simp add: pos_imp_zdiv_pos_iff)
    with False 1 have IH: "b ^ (?d - 1) \<le> n div b" "n div b < b ^ ?d" by auto
    have d: "0 < ?d" by (subst digits_in.simps) simp
    have "b * b ^ (?d - 1) \<le> b * (n div b)"
      using IH(1) 1(2) by (intro mult_left_mono) auto
    also have "\<dots> \<le> n"
      using 1(2) pos_mod_sign [of b n] mult_div_mod_eq [of b n] by linarith
    finally have "b ^ ?d \<le> n" using d by (metis Suc_diff_1 power_Suc)
    moreover have "n < b * b ^ ?d"
    proof -
      have "n = b * (n div b) + n mod b" and "n mod b < b" using 1(2) by auto
      moreover have "b * (n div b + 1) \<le> b * b ^ ?d"
        using IH(2) 1(2) by (intro mult_left_mono) auto
      moreover have "b * (n div b + 1) = b * (n div b) + b" by (simp add: distrib_left)
      ultimately show ?thesis by linarith
    qed
    ultimately show ?thesis using False 1(2) by (simp add: digits_in.simps [of b n])
  qed
qed

lemma expo_bounds:
  assumes b: "2 \<le> b" and x: "x \<noteq> 0"
  shows "pw b (expo b x) \<le> \<bar>x\<bar> \<and> \<bar>x\<bar> < pw b (expo b x + 1)"
proof -
  obtain p q where pq: "quotient_of \<bar>x\<bar> = (p, q)" by (cases "quotient_of \<bar>x\<bar>")
  then have q: "0 < q" and eq: "\<bar>x\<bar> = of_int p / of_int q"
    by (auto dest: quotient_of_denom_pos quotient_of_div)
  with x have "0 < (of_int p :: rat)"
    by (metis abs_0_eq abs_ge_zero order_le_less zero_less_divide_iff of_int_0_less_iff not_less_iff_gr_or_eq)
  then have p: "0 < p" by simp
  define a where "a = digits_in b p"
  define c where "c = digits_in b q"
  have one: "1 \<le> a" "1 \<le> c" unfolding a_def c_def by (subst digits_in.simps, simp)+
  have pb: "b ^ (a - 1) \<le> p" "p < b ^ a"
    using digits_in_bounds [OF b p] by (auto simp: a_def)
  have qb: "b ^ (c - 1) \<le> q" "q < b ^ c"
    using digits_in_bounds [OF b q] by (auto simp: c_def)
  have P: "of_int b ^ (a - 1) \<le> (of_int p :: rat)" "(of_int p :: rat) < of_int b ^ a"
    using pb by (simp_all flip: of_int_power)
  have Q: "of_int b ^ (c - 1) \<le> (of_int q :: rat)" "(of_int q :: rat) < of_int b ^ c"
    using qb by (simp_all flip: of_int_power)
  let ?k = "int a - int c"
  have lo: "pw b (?k - 1) \<le> \<bar>x\<bar>"
  proof -
    have "?k - 1 = int (a - 1) - int c" using one by simp
    then have "pw b (?k - 1) = pw b (int (a - 1)) / pw b (int c)"
      by (simp only: pw_diff [OF b])
    also have "\<dots> = of_int b ^ (a - 1) / of_int b ^ c" by simp
    also have "\<dots> \<le> of_int p / of_int q"
      using P(1) Q(2) q p by (intro frac_le) auto
    finally show ?thesis by (simp add: eq)
  qed
  have hi: "\<bar>x\<bar> < pw b (?k + 1)"
  proof -
    have "of_int p / of_int q < (of_int b ^ a / of_int b ^ (c - 1) :: rat)"
      using P(2) Q(1) q p b by (intro frac_less) auto
    also have "\<dots> = pw b (int a) / pw b (int (c - 1))" by simp
    also have "\<dots> = pw b (?k + 1)"
    proof -
      have "?k + 1 = int a - int (c - 1)" using one by simp
      then show ?thesis by (simp only: pw_diff [OF b])
    qed
    finally show ?thesis by (simp add: eq)
  qed
  show ?thesis
    using lo hi by (auto simp: expo_def pq a_def [symmetric] c_def [symmetric] Let_def)
qed

lemma expo_unique:
  assumes "2 \<le> b" and "pw b k \<le> \<bar>x\<bar>" and "\<bar>x\<bar> < pw b (k + 1)"
  shows "expo b x = k"
proof -
  have "x \<noteq> 0" using less_le_trans [OF pw_pos [OF assms(1), of k] assms(2)] by auto
  from expo_bounds [OF assms(1) this]
  have "pw b (expo b x) < pw b (k + 1)" "pw b k < pw b (expo b x + 1)"
    using assms(2,3) by auto
  then show ?thesis using assms(1) by (auto simp: pw_less_iff)
qed

lemma expo_mono: "2 \<le> b \<Longrightarrow> x \<noteq> 0 \<Longrightarrow> \<bar>x\<bar> \<le> \<bar>y\<bar> \<Longrightarrow> expo b x \<le> expo b y"
  by (smt (verit, best) abs_0_eq abs_ge_zero expo_bounds order.trans order_le_less_trans pw_less_iff
      dual_order.antisym)

lemma expo_minus [simp]: "expo b (- x) = expo b x"
  by (simp add: expo_def)

subsection \<open>Rounding half to even\<close>

lemma round_half_even_bounds: "\<bar>of_int (round_half_even y) - y\<bar> \<le> 1 / 2"
proof -
  have "of_int \<lfloor>y\<rfloor> \<le> y" "y < of_int \<lfloor>y\<rfloor> + 1" by linarith+
  then show ?thesis by (auto simp: round_half_even_def Let_def)
qed

lemma round_half_even_of_int [simp]: "round_half_even (of_int m) = m"
  by (simp add: round_half_even_def)

lemma round_half_even_cases:
  "round_half_even y = \<lfloor>y\<rfloor> \<and> y - of_int \<lfloor>y\<rfloor> \<le> 1 / 2 \<or>
   round_half_even y = \<lfloor>y\<rfloor> + 1 \<and> 1 / 2 \<le> y - of_int \<lfloor>y\<rfloor>"
  by (auto simp: round_half_even_def Let_def)

lemma round_half_even_mono:
  assumes "x \<le> y"
  shows "round_half_even x \<le> round_half_even y"
proof -
  have fl: "\<lfloor>x\<rfloor> \<le> \<lfloor>y\<rfloor>" using assms by (rule floor_mono)
  show ?thesis
  proof (cases "\<lfloor>x\<rfloor> = \<lfloor>y\<rfloor>")
    case True
    with assms show ?thesis by (auto simp: round_half_even_def Let_def)
  next
    case False
    with fl show ?thesis using round_half_even_cases [of x] round_half_even_cases [of y] by auto
  qed
qed

lemma round_half_even_minus: "round_half_even (- y) = - round_half_even y"
proof (cases "y = of_int \<lfloor>y\<rfloor>")
  case True
  then show ?thesis by (metis of_int_minus round_half_even_of_int)
next
  case False
  then have "\<lfloor>- y\<rfloor> = - \<lfloor>y\<rfloor> - 1" by linarith
  then show ?thesis by (auto simp: round_half_even_def Let_def)
qed

subsection \<open>Rounding to a precision\<close>

lemma round_to_zero [simp]: "round_to b p 0 = 0"
  by (simp add: round_to_def)

lemma round_to_minus: "round_to b p (- x) = - round_to b p x"
  by (simp add: round_to_def Let_def round_half_even_minus)

lemma scaled_bounds:
  assumes b: "2 \<le> b" and p: "1 \<le> p" and x: "0 < x"
  shows "of_int b ^ (p - 1) \<le> x / pw b (expo b x - (int p - 1))"
    and "x / pw b (expo b x - (int p - 1)) < of_int b ^ p"
proof -
  let ?e = "expo b x" and ?u = "pw b (expo b x - (int p - 1))"
  have bd: "pw b ?e \<le> x" "x < pw b (?e + 1)" using expo_bounds [OF b, of x] x by auto
  have "pw b ?e = pw b (int (p - 1)) * ?u"
    using b p by (simp del: pw_nat flip: pw_add)
  with bd(1) b show "of_int b ^ (p - 1) \<le> x / ?u" by (simp add: le_divide_eq)
  have "pw b (?e + 1) = pw b (int p) * ?u" using b by (simp del: pw_nat flip: pw_add)
  with bd(2) b show "x / ?u < of_int b ^ p" by (simp add: divide_less_eq)
qed

lemma round_to_pos_bounds:
  assumes b: "2 \<le> b" and p: "1 \<le> p" and x: "0 < x"
  shows "pw b (expo b x) \<le> round_to b p x" and "round_to b p x \<le> pw b (expo b x + 1)"
proof -
  let ?u = "pw b (expo b x - (int p - 1))" and ?m = "round_half_even (x / pw b (expo b x - (int p - 1)))"
  have u: "0 < ?u" using b by simp
  have eq: "round_to b p x = of_int ?m * ?u" using x by (simp add: round_to_def Let_def)
  have "round_half_even (of_int (b ^ (p - 1))) \<le> ?m"
    using scaled_bounds(1) [OF b p x] by (intro round_half_even_mono) simp
  then have "of_int b ^ (p - 1) \<le> (of_int ?m :: rat)"
    by (metis round_half_even_of_int of_int_le_iff of_int_of_nat_eq of_int_power)
  then have "of_int b ^ (p - 1) * ?u \<le> of_int ?m * ?u" using u by simp
  moreover have "of_int b ^ (p - 1) * ?u = pw b (expo b x)"
  proof -
    have "pw b (int (p - 1)) * ?u = pw b (expo b x)"
      using b p by (simp del: pw_nat flip: pw_add)
    then show ?thesis by simp
  qed
  ultimately show "pw b (expo b x) \<le> round_to b p x" by (simp add: eq)
  have "?m \<le> round_half_even (of_int (b ^ p))"
    using scaled_bounds(2) [OF b p x] by (intro round_half_even_mono) simp
  then have "(of_int ?m :: rat) \<le> of_int b ^ p"
    by (metis round_half_even_of_int of_int_le_iff of_int_of_nat_eq of_int_power)
  then have "of_int ?m * ?u \<le> of_int b ^ p * ?u" using u by simp
  moreover have "of_int b ^ p * ?u = pw b (expo b x + 1)"
    using b pw_add [OF b, of "int p" "expo b x - (int p - 1)"] by simp
  ultimately show "round_to b p x \<le> pw b (expo b x + 1)" by (simp add: eq)
qed

lemma round_to_mono_pos:
  assumes b: "2 \<le> b" and p: "1 \<le> p" and x: "0 < x" and xy: "x \<le> y"
  shows "round_to b p x \<le> round_to b p y"
proof (cases "expo b x = expo b y")
  case True
  have "x / pw b (expo b y - (int p - 1)) \<le> y / pw b (expo b y - (int p - 1))"
    using xy pw_pos [OF b, THEN less_imp_le] by (rule divide_right_mono)
  from round_half_even_mono [OF this] True x xy b show ?thesis
    by (simp add: round_to_def Let_def)
next
  case False
  with expo_mono [OF b, of x y] x xy have "expo b x + 1 \<le> expo b y" by auto
  with b have "pw b (expo b x + 1) \<le> pw b (expo b y)" by (simp add: pw_mono)
  with round_to_pos_bounds(2) [OF b p x] round_to_pos_bounds(1) [OF b p, of y] x xy show ?thesis
    by linarith
qed

lemma round_to_mono:
  assumes b: "2 \<le> b" and p: "1 \<le> p" and xy: "x \<le> y"
  shows "round_to b p x \<le> round_to b p y"
proof -
  have pos: "0 < z \<Longrightarrow> 0 < round_to b p z" for z
    using round_to_pos_bounds(1) [OF b p, of z] pw_pos [OF b] by (meson order.strict_trans2)
  consider "0 < x" | "x = 0" | "x < 0" "y < 0" | "x < 0" "0 \<le> y" by linarith
  then show ?thesis
  proof cases
    case 1
    with b p xy show ?thesis by (intro round_to_mono_pos)
  next
    case 2
    with xy pos [of y] show ?thesis by (cases "y = 0") auto
  next
    case 3
    then have "round_to b p (- y) \<le> round_to b p (- x)"
      using b p xy by (intro round_to_mono_pos) auto
    then show ?thesis by (simp add: round_to_minus)
  next
    case 4
    then have "round_to b p x \<le> 0" using pos [of "- x"] by (simp add: round_to_minus)
    moreover have "0 \<le> round_to b p y" using 4 pos [of y] by (cases "y = 0") auto
    ultimately show ?thesis by linarith
  qed
qed

text \<open>Numbers with at most \<open>p\<close> digits, at any scale, are kept as they are.\<close>

lemma round_to_exact_pos:
  assumes b: "2 \<le> b" and p: "1 \<le> p" and z: "z = of_int m * pw b e" and m: "0 < m" "m \<le> b ^ p"
  shows "round_to b p z = z"
proof -
  have zpos: "0 < z" using z m b by simp
  let ?u = "pw b (expo b z - (int p - 1))"
  have "\<exists>n. z / ?u = of_int n"
  proof (cases "expo b z - (int p - 1) \<le> e")
    case True
    then have "pw b e / ?u = pw b (int (nat (e - (expo b z - (int p - 1)))))"
      using b by (simp del: pw_nat flip: pw_diff)
    moreover have "z / ?u = of_int m * (pw b e / ?u)" by (subst z) simp
    ultimately have "z / ?u = of_int (m * b ^ nat (e - (expo b z - (int p - 1))))"
      by (simp only: pw_nat of_int_mult of_int_power of_int_of_nat_eq)
    then show ?thesis by blast
  next
    case False
    have "pw b (expo b z) \<le> z" using expo_bounds [OF b, of z] zpos by simp
    also have "z \<le> pw b (int p + e)"
    proof -
      have "(of_int m :: rat) \<le> of_int b ^ p"
        using m(2) by (metis of_int_le_iff of_int_of_nat_eq of_int_power)
      then show ?thesis using b by (simp add: z pw_add)
    qed
    finally have "expo b z \<le> int p + e" using b by (metis linorder_not_le pw_less_iff)
    with False have ez: "expo b z = int p + e" by linarith
    with \<open>pw b (expo b z) \<le> z\<close> \<open>z \<le> pw b (int p + e)\<close> have "z = pw b (expo b z)" by simp
    then have "z / ?u = pw b (int (p - 1))" using b p by (metis pw_diff diff_diff_eq2 add_diff_cancel_left'
          cancel_comm_monoid_add_class.diff_cancel diff_add_cancel int_ops(6) of_nat_1 of_nat_diff)
    then have "z / ?u = of_int (b ^ (p - 1))" by simp
    then show ?thesis by blast
  qed
  then obtain n where n: "z / ?u = of_int n" by blast
  then have "z = of_int n * ?u" using b by (simp add: divide_eq_eq)
  with n zpos show ?thesis by (simp add: round_to_def)
qed

lemma round_to_exact:
  assumes b: "2 \<le> b" and p: "1 \<le> p" and z: "z = of_int m * pw b e" and m: "\<bar>m\<bar> \<le> b ^ p"
  shows "round_to b p z = z"
proof -
  consider "m = 0" | "0 < m" | "m < 0" by linarith
  then show ?thesis
  proof cases
    case 1 with z show ?thesis by simp
  next
    case 2 with assms show ?thesis by (intro round_to_exact_pos [where m = m and e = e]) auto
  next
    case 3
    then have "round_to b p (- z) = - z"
      using assms by (intro round_to_exact_pos [where m = "- m" and e = e]) auto
    then show ?thesis by (simp add: round_to_minus)
  qed
qed

lemma round_to_idem:
  assumes b: "2 \<le> b" and p: "1 \<le> p"
  shows "round_to b p (round_to b p x) = round_to b p x"
proof -
  have pos: "round_to b p (round_to b p z) = round_to b p z" if z: "0 < z" for z
  proof -
    let ?u = "pw b (expo b z - (int p - 1))"
    have "0 < z / ?u" using z b by simp
    then have lo: "0 \<le> round_half_even (z / ?u)"
      using round_half_even_mono [of 0 "z / ?u"] round_half_even_of_int [of 0] by simp
    have "round_half_even (z / ?u) \<le> round_half_even (of_int (b ^ p))"
      using scaled_bounds(2) [OF b p z] by (intro round_half_even_mono) simp
    then have "round_half_even (z / ?u) \<le> b ^ p"
      by (simp only: round_half_even_of_int)
    with lo have "\<bar>round_half_even (z / ?u)\<bar> \<le> b ^ p" by simp
    then show ?thesis
      using z by (intro round_to_exact [OF b p]) (auto simp: round_to_def Let_def)
  qed
  consider "x = 0" | "0 < x" | "x < 0" by linarith
  then show ?thesis
  proof cases
    case 3
    then show ?thesis using pos [of "- x"] by (simp add: round_to_minus)
  qed (simp_all add: pos)
qed

subsection \<open>The rounding interface\<close>

text \<open>
  What the numeric routines of the program rely on: rounding is monotone, odd, keeps a number
  that is already rounded and never turns a nonzero number into zero.
\<close>

locale rounding =
  fixes rnd :: "rat \<Rightarrow> rat"
  assumes rnd_mono: "x \<le> y \<Longrightarrow> rnd x \<le> rnd y"
    and rnd_minus: "rnd (- x) = - rnd x"
    and rnd_idem: "rnd (rnd x) = rnd x"
    and rnd_pos: "0 < x \<Longrightarrow> 0 < rnd x"
begin

lemma rnd_zero: "rnd 0 = 0"
  using rnd_minus [of 0] by simp

lemma rnd_nonneg: "0 \<le> x \<Longrightarrow> 0 \<le> rnd x"
  using rnd_pos [of x] rnd_zero by (cases "x = 0") auto

lemma rnd_nonpos: "x \<le> 0 \<Longrightarrow> rnd x \<le> 0"
  using rnd_nonneg [of "- x"] by (simp add: rnd_minus)

lemma rnd_neg: "x < 0 \<Longrightarrow> rnd x < 0"
  using rnd_pos [of "- x"] by (simp add: rnd_minus)

lemma rnd_eq_zero: "rnd x = 0 \<longleftrightarrow> x = 0"
  using rnd_pos [of x] rnd_neg [of x] rnd_zero by (metis less_irrefl linorder_cases)

lemma rnd_pos_iff: "0 < rnd x \<longleftrightarrow> 0 < x"
  using rnd_pos [of x] rnd_nonpos [of x] by (meson linorder_not_le)

lemma rnd_nonneg_iff: "0 \<le> rnd x \<longleftrightarrow> 0 \<le> x"
  using rnd_nonneg [of x] rnd_neg [of x] by (meson linorder_not_le)

lemma rnd_above: "rnd a = a \<Longrightarrow> a \<le> x \<Longrightarrow> a \<le> rnd x"
  using rnd_mono [of a x] by simp

lemma rnd_below: "rnd a = a \<Longrightarrow> x \<le> a \<Longrightarrow> rnd x \<le> a"
  using rnd_mono [of x a] by simp

lemma rnd_abs: "rnd \<bar>x\<bar> = \<bar>rnd x\<bar>"
  using rnd_nonneg [of x] rnd_nonpos [of x] by (cases "0 \<le> x") (auto simp: rnd_minus)

lemma foldl_add_nonneg: "0 \<le> s \<Longrightarrow> (\<And>x. x \<in> set xs \<Longrightarrow> 0 \<le> x) \<Longrightarrow> 0 \<le> foldl (\<lambda>a x. rnd (a + x)) s xs"
  by (rule foldl_invariant [where P = "\<lambda>a. 0 \<le> a"]) (auto intro: rnd_nonneg)

end

lemma round_to_pos: "2 \<le> b \<Longrightarrow> 1 \<le> p \<Longrightarrow> 0 < x \<Longrightarrow> 0 < round_to b p x"
  using round_to_pos_bounds(1) [of b p x] pw_pos [of b "expo b x"] by linarith

subsection \<open>The default decimal context\<close>

definition dec_round :: "rat \<Rightarrow> decimal" where
  "dec_round = round_to 10 28"

interpretation dec: rounding dec_round
  by unfold_locales
    (simp_all add: dec_round_def round_to_mono round_to_minus round_to_idem round_to_pos)

definition dadd :: "decimal \<Rightarrow> decimal \<Rightarrow> decimal" where
  "dadd x y = dec_round (x + y)"

definition dsub :: "decimal \<Rightarrow> decimal \<Rightarrow> decimal" where
  "dsub x y = dec_round (x - y)"

definition dmul :: "decimal \<Rightarrow> decimal \<Rightarrow> decimal" where
  "dmul x y = dec_round (x * y)"

text \<open>\<open>x / y\<close> for a divisor the caller has checked; Python raises for \<open>y = 0\<close>.\<close>

definition ddiv :: "decimal \<Rightarrow> decimal \<Rightarrow> decimal" where
  "ddiv x y = dec_round (x / y)"

definition dneg :: "decimal \<Rightarrow> decimal" where
  "dneg x = dec_round (- x)"

definition dabs :: "decimal \<Rightarrow> decimal" where
  "dabs x = dec_round \<bar>x\<bar>"

text \<open>\<open>x ** 2\<close>: CPython multiplies with three guard digits and rounds the result again.\<close>

definition dsquare :: "decimal \<Rightarrow> decimal" where
  "dsquare x = dec_round (round_to 10 31 (x * x))"

text \<open>\<open>sum(xs, start=Decimal(0))\<close>.\<close>

definition dsum :: "decimal list \<Rightarrow> decimal" where
  "dsum xs = foldl dadd 0 xs"

definition representable :: "decimal \<Rightarrow> bool" where
  "representable x \<longleftrightarrow> dec_round x = x"

named_theorems dec_defs \<open>the decimal operations as roundings of the exact ones\<close>

declare dadd_def [dec_defs] dsub_def [dec_defs] dmul_def [dec_defs] ddiv_def [dec_defs]
  dneg_def [dec_defs] dabs_def [dec_defs] dsquare_def [dec_defs]

lemma representable_round [simp, intro]: "representable (dec_round x)"
  by (simp add: representable_def dec.rnd_idem)

lemma representable_ops [simp]:
  "representable (dadd x y)" "representable (dsub x y)" "representable (dmul x y)"
  "representable (ddiv x y)" "representable (dneg x)" "representable (dabs x)"
  "representable (dsquare x)"
  by (simp_all add: dec_defs)

lemma representable_grid:
  "x = of_int m * pw 10 e \<Longrightarrow> \<bar>m\<bar> \<le> 10 ^ 28 \<Longrightarrow> representable x"
  unfolding representable_def dec_round_def by (rule round_to_exact [where m = m and e = e]) auto

lemma representable_int [simp]: "\<bar>m\<bar> \<le> 10 ^ 28 \<Longrightarrow> representable (of_int m)"
  by (rule representable_grid [where m = m and e = 0]) (auto simp: pw_def)

lemma representable_numeral [simp]: "representable 0" "representable 1"
  using representable_int [of 0] representable_int [of 1] by simp_all

lemma representable_minus [simp]: "representable (- x) \<longleftrightarrow> representable x"
  by (auto simp: representable_def dec.rnd_minus)

lemma representable_abs [simp]: "representable \<bar>x\<bar> \<longleftrightarrow> representable x"
  by (cases "0 \<le> x") auto

lemma dec_round_id [simp]: "representable x \<Longrightarrow> dec_round x = x"
  by (simp add: representable_def)

lemma dadd_exact: "representable (x + y) \<Longrightarrow> dadd x y = x + y"
  and dsub_exact: "representable (x - y) \<Longrightarrow> dsub x y = x - y"
  and dmul_exact: "representable (x * y) \<Longrightarrow> dmul x y = x * y"
  and ddiv_exact: "representable (x / y) \<Longrightarrow> ddiv x y = x / y"
  by (simp_all add: dec_defs)

lemma dneg_exact [simp]: "representable x \<Longrightarrow> dneg x = - x"
  by (simp add: dneg_def)

lemma dabs_exact [simp]: "representable x \<Longrightarrow> dabs x = \<bar>x\<bar>"
  by (simp add: dabs_def)

lemma dsub_nonneg_iff: "0 \<le> dsub x y \<longleftrightarrow> y \<le> x"
  and dsub_pos_iff: "0 < dsub x y \<longleftrightarrow> y < x"
  and dsub_zero_iff: "dsub x y = 0 \<longleftrightarrow> x = y"
  by (simp_all add: dsub_def dec.rnd_nonneg_iff dec.rnd_pos_iff dec.rnd_eq_zero)

lemma dadd_nonneg: "0 \<le> x \<Longrightarrow> 0 \<le> y \<Longrightarrow> 0 \<le> dadd x y"
  and dmul_nonneg: "0 \<le> x \<Longrightarrow> 0 \<le> y \<Longrightarrow> 0 \<le> dmul x y"
  and ddiv_nonneg: "0 \<le> x \<Longrightarrow> 0 \<le> y \<Longrightarrow> 0 \<le> ddiv x y"
  by (simp_all add: dec_defs dec.rnd_nonneg)

lemma dmul_pos: "0 < x \<Longrightarrow> 0 < y \<Longrightarrow> 0 < dmul x y"
  and ddiv_pos: "0 < x \<Longrightarrow> 0 < y \<Longrightarrow> 0 < ddiv x y"
  by (simp_all add: dec_defs dec.rnd_pos)

lemma round31_nonneg: "0 \<le> x \<Longrightarrow> 0 \<le> round_to 10 31 x"
  using round_to_pos [of 10 31 x] by (cases "x = 0") auto

lemma dsquare_nonneg [simp]: "0 \<le> dsquare x"
  by (simp add: dsquare_def dec.rnd_nonneg round31_nonneg)

lemma dsum_nonneg: "(\<And>x. x \<in> set xs \<Longrightarrow> 0 \<le> x) \<Longrightarrow> 0 \<le> dsum xs"
  unfolding dsum_def dadd_def [abs_def] by (rule dec.foldl_add_nonneg) auto

lemma dsum_append: "dsum (xs @ [x]) = dadd (dsum xs) x"
  by (simp add: dsum_def)

text \<open>A quotient of a part by its whole is a fraction, also after rounding.\<close>

lemma ddiv_fraction: "0 \<le> x \<Longrightarrow> x \<le> y \<Longrightarrow> 0 < y \<Longrightarrow> 0 \<le> ddiv x y \<and> ddiv x y \<le> 1"
  by (auto simp: ddiv_def intro: dec.rnd_nonneg dec.rnd_below)

lemma ddiv_fraction_abs: "\<bar>x\<bar> \<le> y \<Longrightarrow> 0 < y \<Longrightarrow> \<bar>ddiv x y\<bar> \<le> 1"
  unfolding ddiv_def dec.rnd_abs [symmetric] by (rule dec.rnd_below) (auto simp: dec_round_id)

subsection \<open>Tick grids\<close>

text \<open>
  Prices quoted to \<open>k\<close> decimal places and volumes are integer multiples of a tick; sums and
  differences of such numbers stay on the grid, and as long as they stay below \<open>10 ^ 28\<close> ticks
  the context never rounds them.
\<close>

definition on_grid :: "nat \<Rightarrow> decimal \<Rightarrow> bool" where
  "on_grid k x \<longleftrightarrow> x * 10 ^ k \<in> \<int>"

lemma on_grid_zero [simp]: "on_grid k 0"
  and on_grid_add [intro]: "on_grid k x \<Longrightarrow> on_grid k y \<Longrightarrow> on_grid k (x + y)"
  and on_grid_diff [intro]: "on_grid k x \<Longrightarrow> on_grid k y \<Longrightarrow> on_grid k (x - y)"
  by (simp_all add: on_grid_def distrib_right left_diff_distrib)

lemma on_grid_mult [intro]: "on_grid j x \<Longrightarrow> on_grid k y \<Longrightarrow> on_grid (j + k) (x * y)"
proof -
  assume "on_grid j x" "on_grid k y"
  then have "x * 10 ^ j * (y * 10 ^ k) \<in> \<int>" unfolding on_grid_def by (rule Ints_mult)
  moreover have "x * y * 10 ^ (j + k) = x * 10 ^ j * (y * 10 ^ k)" by (simp add: power_add)
  ultimately show ?thesis by (simp only: on_grid_def)
qed

lemma on_grid_minus [simp]: "on_grid k (- x) \<longleftrightarrow> on_grid k x"
  by (simp add: on_grid_def)

lemma on_grid_sum_list: "(\<And>x. x \<in> set xs \<Longrightarrow> on_grid k x) \<Longrightarrow> on_grid k (sum_list xs)"
  by (induction xs) auto

lemma representable_on_grid:
  assumes "on_grid k x" and "\<bar>x\<bar> * 10 ^ k \<le> 10 ^ 28"
  shows "representable x"
proof -
  from assms(1) obtain m where m: "x * 10 ^ k = of_int m" unfolding on_grid_def by (elim Ints_cases)
  have "(of_int \<bar>m\<bar> :: rat) = \<bar>x\<bar> * 10 ^ k" by (simp add: m [symmetric] abs_mult)
  also have "\<dots> \<le> of_int (10 ^ 28)" using assms(2) by simp
  finally have "\<bar>m\<bar> \<le> 10 ^ 28" by (simp only: of_int_le_iff)
  moreover have "x = of_int m * pw 10 (- int k)"
    by (simp add: m [symmetric] pw_def)
  ultimately show ?thesis by (intro representable_grid [where m = m and e = "- int k"])
qed

text \<open>Evaluation: a short number on the grid of eight decimal places is returned at once.\<close>

lemma dec_round_code [code]:
  "dec_round x =
     (case quotient_of x of (p, q) \<Rightarrow>
        if 100000000 mod q = 0 \<and> \<bar>p\<bar> \<le> 100000000000000000000 then x else round_to 10 28 x)"
proof -
  obtain p q where pq: "quotient_of x = (p, q)" by (cases "quotient_of x")
  then have q: "0 < q" and x: "x = of_int p / of_int q"
    by (auto dest: quotient_of_denom_pos quotient_of_div)
  have "dec_round x = x" if g: "100000000 mod q = 0" "\<bar>p\<bar> \<le> 100000000000000000000"
  proof -
    from g(1) have "q dvd 100000000" by (simp add: mod_eq_0_iff_dvd)
    then obtain r where r: "100000000 = q * r" ..
    then have "(of_int q * of_int r :: rat) = 100000000"
      by (simp flip: of_int_mult)
    then have "x * 10 ^ 8 = of_int (p * r)" using q by (simp add: x field_simps)
    then have grid: "on_grid 8 x" by (simp add: on_grid_def)
    have "\<bar>x\<bar> \<le> \<bar>of_int p\<bar>"
      using q by (simp add: x abs_div divide_le_eq mult_le_cancel_left1)
    also have "(\<bar>of_int p\<bar> :: rat) \<le> 10 ^ 20"
      using g(2) by (simp flip: of_int_abs)
    finally have "\<bar>x\<bar> * 10 ^ 8 \<le> 10 ^ 20 * 10 ^ 8" by (rule mult_right_mono) simp
    then have "\<bar>x\<bar> * 10 ^ 8 \<le> 10 ^ 28" by simp
    from representable_on_grid [OF grid this] show ?thesis by simp
  qed
  then show ?thesis by (simp add: pq dec_round_def)
qed

lemma dsum_exact_grid:
  assumes "\<And>x. x \<in> set xs \<Longrightarrow> on_grid k x" and "\<And>x. x \<in> set xs \<Longrightarrow> \<bar>x\<bar> \<le> B"
    and "of_nat (length xs) * B * 10 ^ k \<le> 10 ^ 28"
  shows "dsum xs = sum_list xs \<and> \<bar>sum_list xs\<bar> \<le> of_nat (length xs) * B"
  using assms
proof (induction xs rule: rev_induct)
  case Nil
  then show ?case by (simp add: dsum_def)
next
  case (snoc x xs)
  have B: "0 \<le> B" using snoc.prems(2) [of x] by simp
  have "of_nat (length xs) * B * 10 ^ k \<le> of_nat (length (xs @ [x])) * B * 10 ^ k"
    using B by (intro mult_right_mono) auto
  with snoc have IH: "dsum xs = sum_list xs" "\<bar>sum_list xs\<bar> \<le> of_nat (length xs) * B" by auto
  have bd: "\<bar>sum_list xs + x\<bar> \<le> of_nat (length (xs @ [x])) * B"
    using IH(2) snoc.prems(2) [of x] by (simp add: distrib_right)
  then have "\<bar>sum_list xs + x\<bar> * 10 ^ k \<le> of_nat (length (xs @ [x])) * B * 10 ^ k"
    by (rule mult_right_mono) simp
  with snoc.prems(3) have "\<bar>sum_list xs + x\<bar> * 10 ^ k \<le> 10 ^ 28" by (rule order_trans [rotated])
  moreover have "on_grid k (sum_list xs + x)"
    using snoc.prems(1) by (intro on_grid_add on_grid_sum_list) auto
  ultimately have "representable (sum_list xs + x)" by (intro representable_on_grid)
  with bd show ?case by (simp add: dsum_append IH(1) dadd_exact)
qed

subsection \<open>Square roots\<close>

function isqrt :: "int \<Rightarrow> int" where
  "isqrt n =
     (if n \<le> 0 then 0
      else let r = 2 * isqrt (n div 4) in if (r + 1) * (r + 1) \<le> n then r + 1 else r)"
  by pat_completeness auto
termination
  by (relation "measure nat") auto

declare isqrt.simps [simp del]

lemma isqrt_bounds: "0 \<le> n \<Longrightarrow> 0 \<le> isqrt n \<and> isqrt n * isqrt n \<le> n \<and> n < (isqrt n + 1) * (isqrt n + 1)"
proof (induction n rule: isqrt.induct)
  case (1 n)
  show ?case
  proof (cases "n = 0")
    case True
    then show ?thesis by (simp add: isqrt.simps)
  next
    case False
    let ?s = "isqrt (n div 4)"
    from 1 False have IH: "0 \<le> ?s" "?s * ?s \<le> n div 4" "n div 4 < (?s + 1) * (?s + 1)" by auto
    have "4 * (?s * ?s) \<le> n" using IH(2) by linarith
    moreover have "n < 4 * ((?s + 1) * (?s + 1))" using IH(3) by linarith
    ultimately show ?thesis
      using False 1(2) IH(1) by (auto simp: isqrt.simps [of n] Let_def algebra_simps)
  qed
qed

definition nearest_root :: "rat \<Rightarrow> int" where
  "nearest_root y =
     (let s = isqrt \<lfloor>y\<rfloor>; c = (of_int s + 1 / 2) * (of_int s + 1 / 2)
      in if y < c then s else if c < y then s + 1 else if even s then s else s + 1)"

text \<open>\<open>x.sqrt()\<close> of a non-negative number: the nearest number of 28 digits.\<close>

definition dsqrt :: "decimal \<Rightarrow> decimal" where
  "dsqrt x =
     (if x \<le> 0 then 0
      else let u = pw 10 (expo 10 x div 2 - 27) in of_int (nearest_root (x / (u * u))) * u)"

lemma isqrt_floor_bounds:
  fixes y :: rat
  assumes "0 \<le> y"
  defines "s \<equiv> isqrt \<lfloor>y\<rfloor>"
  shows "0 \<le> s" and "of_int s * of_int s \<le> y" and "y < (of_int s + 1) * (of_int s + 1)"
proof -
  have b: "0 \<le> s" "s * s \<le> \<lfloor>y\<rfloor>" "\<lfloor>y\<rfloor> < (s + 1) * (s + 1)"
    using isqrt_bounds [of "\<lfloor>y\<rfloor>"] assms(1) by (simp_all add: s_def)
  show "0 \<le> s" by (rule b)
  show "of_int s * of_int s \<le> y" using b(2) by (simp add: le_floor_iff)
  show "y < (of_int s + 1) * (of_int s + 1)" using b(3) by (simp add: floor_less_iff)
qed

lemma nearest_root_bounds:
  assumes "0 \<le> y"
  defines "r \<equiv> of_int (nearest_root y) :: rat"
  shows "(r - 1 / 2) * (r - 1 / 2) \<le> y \<or> r = 0" and "y \<le> (r + 1 / 2) * (r + 1 / 2)" and "0 \<le> r"
proof -
  define s where "s = isqrt \<lfloor>y\<rfloor>"
  define c where "c = (of_int s + 1 / 2 :: rat) * (of_int s + 1 / 2)"
  have r: "r = of_int s \<and> y \<le> c \<or> r = of_int s + 1 \<and> c \<le> y"
    by (auto simp: r_def nearest_root_def s_def [symmetric] c_def [symmetric] Let_def)
  have s0: "0 \<le> s" and lo: "of_int s * of_int s \<le> y" and hi: "y < (of_int s + 1) * (of_int s + 1)"
    using isqrt_floor_bounds [OF assms(1)] by (simp_all add: s_def)
  show "0 \<le> r" using r s0 by auto
  show "(r - 1 / 2) * (r - 1 / 2) \<le> y \<or> r = 0"
  proof (cases "r = of_int s")
    case True
    have "(of_int s - 1 / 2) * (of_int s - 1 / 2) \<le> (of_int s * of_int s :: rat) \<or> s = 0"
      using s0 by (cases "s = 0") (auto simp: algebra_simps)
    with True lo show ?thesis by auto
  next
    case False
    with r have "r - 1 / 2 = of_int s + 1 / 2" "c \<le> y" by auto
    then have "(r - 1 / 2) * (r - 1 / 2) \<le> y" by (simp only: c_def)
    then show ?thesis ..
  qed
  show "y \<le> (r + 1 / 2) * (r + 1 / 2)"
  proof (cases "r = of_int s")
    case True
    with r have "y \<le> c" by auto
    with True show ?thesis by (simp only: c_def)
  next
    case False
    with r have "r = of_int s + 1" by auto
    then have "(of_int s + 1) * (of_int s + 1) \<le> (r + 1 / 2) * (r + 1 / 2)"
      using s0 by (simp add: algebra_simps)
    with hi show ?thesis by linarith
  qed
qed

lemma nearest_root_pos:
  assumes "1 \<le> y"
  shows "0 < nearest_root y"
proof -
  have "(1 :: rat) / 4 < y" using assms by simp
  then show ?thesis using nearest_root_bounds(2,3) [of y] assms by (cases "nearest_root y = 0") auto
qed

lemma dsqrt_nonneg [simp]: "0 \<le> dsqrt x"
proof (cases "x \<le> 0")
  case False
  let ?u = "pw 10 (expo 10 x div 2 - 27)"
  have "0 \<le> (of_int (nearest_root (x / (?u * ?u))) :: rat)"
    using False by (intro nearest_root_bounds(3) divide_nonneg_nonneg) (auto intro: less_imp_le)
  with False show ?thesis by (simp add: dsqrt_def Let_def less_imp_le)
qed (simp add: dsqrt_def)

lemma dsqrt_zero [simp]: "dsqrt 0 = 0"
  by (simp add: dsqrt_def)

lemma dsqrt_pos:
  assumes "0 < x"
  shows "0 < dsqrt x"
proof -
  let ?u = "pw 10 (expo 10 x div 2 - 27)"
  have "?u * ?u = pw 10 (2 * (expo 10 x div 2 - 27))"
    by (simp only: mult_2 pw_add [of 10])
  also have "\<dots> \<le> pw 10 (expo 10 x)"
  proof (rule pw_mono)
    show "2 * (expo 10 x div 2 - 27) \<le> expo 10 x" by presburger
  qed simp
  also have "\<dots> \<le> x" using expo_bounds [of 10 x] assms by simp
  finally have "1 \<le> x / (?u * ?u)" by (simp add: le_divide_eq)
  then have "0 < nearest_root (x / (?u * ?u))" by (rule nearest_root_pos)
  then show ?thesis using assms by (simp add: dsqrt_def Let_def)
qed

lemma dsqrt_eq_zero_iff: "0 \<le> x \<Longrightarrow> dsqrt x = 0 \<longleftrightarrow> x = 0"
  using dsqrt_pos [of x] by (cases "x = 0") auto

text \<open>The result is within half a unit in the 28th digit of the exact root.\<close>

lemma dsqrt_nearest:
  assumes "0 < x"
  defines "u \<equiv> pw 10 (expo 10 x div 2 - 27)"
  shows "(dsqrt x - u / 2) * (dsqrt x - u / 2) \<le> x" and "x \<le> (dsqrt x + u / 2) * (dsqrt x + u / 2)"
proof -
  have u: "0 < u * u" by (simp add: u_def)
  define r where "r = (of_int (nearest_root (x / (u * u))) :: rat)"
  have eq: "dsqrt x = r * u" using assms(1) by (simp add: dsqrt_def Let_def u_def r_def)
  have "r \<noteq> 0" using dsqrt_pos [OF assms(1)] eq by auto
  with nearest_root_bounds [of "x / (u * u)"] assms(1) u
  have b: "(r - 1 / 2) * (r - 1 / 2) \<le> x / (u * u)" "x / (u * u) \<le> (r + 1 / 2) * (r + 1 / 2)"
    by (auto simp: r_def)
  from b(1) u have "(r - 1 / 2) * (r - 1 / 2) * (u * u) \<le> x" by (simp only: pos_le_divide_eq)
  then show "(dsqrt x - u / 2) * (dsqrt x - u / 2) \<le> x" by (simp add: eq algebra_simps)
  from b(2) u have "x \<le> (r + 1 / 2) * (r + 1 / 2) * (u * u)" by (simp only: pos_divide_le_eq)
  then show "x \<le> (dsqrt x + u / 2) * (dsqrt x + u / 2)" by (simp add: eq algebra_simps)
qed

subsection \<open>Floats\<close>

definition fl53 :: "rat \<Rightarrow> rat" where
  "fl53 = round_to 2 53"

interpretation flt: rounding fl53
  by unfold_locales
    (simp_all add: fl53_def round_to_mono round_to_minus round_to_idem round_to_pos)

text \<open>
  \<open>str(f)\<close> of a float, read back as a decimal: the shortest decimal that rounds to the float,
  the nearer neighbour where two of that length do.
\<close>

definition repr_candidate :: "rat \<Rightarrow> nat \<Rightarrow> rat option" where
  "repr_candidate f n =
     (let u = pw 10 (expo 10 f - (int n - 1));
          lo = of_int \<lfloor>f / u\<rfloor> * u; hi = of_int \<lceil>f / u\<rceil> * u
      in if fl53 lo = f \<and> (fl53 hi \<noteq> f \<or> f - lo \<le> hi - f) then Some lo
         else if fl53 hi = f then Some hi else None)"

definition float_repr :: "rat \<Rightarrow> decimal" where
  "float_repr f =
     (if f = 0 then 0
      else case List.map_filter (repr_candidate f) [1..<18] of [] \<Rightarrow> f | d # _ \<Rightarrow> d)"

subsection \<open>Durations\<close>

text \<open>
  A \<open>timedelta\<close> is a number of microseconds.  \<open>total_seconds()\<close> is one correctly rounded
  division; \<open>timedelta(seconds=f)\<close> splits the float, scales its fraction and rounds the total
  half to even.
\<close>

type_synonym instant = int
type_synonym duration = int

definition total_seconds :: "duration \<Rightarrow> rat" where
  "total_seconds d = fl53 (of_int d / 1000000)"

definition trunc_rat :: "rat \<Rightarrow> int" where
  "trunc_rat x = (if 0 \<le> x then \<lfloor>x\<rfloor> else \<lceil>x\<rceil>)"

definition timedelta_seconds :: "rat \<Rightarrow> duration" where
  "timedelta_seconds f =
     (let whole = trunc_rat f
      in round_half_even (of_int (whole * 1000000) + fl53 (1000000 * (f - of_int whole))))"

datatype py_datetime = Naive int | Aware instant

fun is_aware :: "py_datetime \<Rightarrow> bool" where
  "is_aware (Aware t) = True"
| "is_aware (Naive t) = False"

fun ticks :: "py_datetime \<Rightarrow> int" where
  "ticks (Aware t) = t"
| "ticks (Naive t) = t"

definition minutes :: "int \<Rightarrow> duration" where
  "minutes n = n * 60000000"

definition hours :: "int \<Rightarrow> duration" where
  "hours n = minutes (60 * n)"

definition days :: "int \<Rightarrow> duration" where
  "days n = hours (24 * n)"

end
