(* ===== verification/Domain_Models.thy ===== *)
theory Domain_Models
  imports Py_Decimal
begin

text \<open>
  The shared domain models (\<open>shared/models\<close>): candles, quotes, signals, strategy profiles, trade
  proposals and validation outcomes.  A constructor of the model validates its fields in the order
  pydantic does (length and range constraints of a field, then its validators, then the model's
  own validator) and raises at the first failure; pydantic collects every failing field in one
  \<open>ValidationError\<close>, of which the model keeps the first.  A length constraint is checked on the
  text as given, the upper-casing validator runs after it.
\<close>

subsection \<open>Candles\<close>

datatype timeframe = M1 | M5 | M15 | M30 | H1 | H4 | D1 | W1

fun timeframe_value :: "timeframe \<Rightarrow> string" where
  "timeframe_value M1 = ''1m''"
| "timeframe_value M5 = ''5m''"
| "timeframe_value M15 = ''15m''"
| "timeframe_value M30 = ''30m''"
| "timeframe_value H1 = ''1h''"
| "timeframe_value H4 = ''4h''"
| "timeframe_value D1 = ''1d''"
| "timeframe_value W1 = ''1w''"

record candle =
  c_symbol :: string
  c_timeframe :: timeframe
  c_timestamp :: instant
  c_open :: decimal
  c_high :: decimal
  c_low :: decimal
  c_close :: decimal
  c_volume :: decimal

text \<open>The constraints and validators the models share.\<close>

definition symbol_field :: "string \<Rightarrow> string result" where
  "symbol_field s =
     raise_if (length s < 1) ValueError ''String should have at least 1 character''
     (raise_if (32 < length s) ValueError ''String should have at most 32 characters''
     (ok (upper (strip s))))"

definition aware_field :: "string \<Rightarrow> py_datetime \<Rightarrow> instant result" where
  "aware_field field t =
     (case t of Naive n \<Rightarrow> raise ValueError (field @ '' must be timezone-aware'') | Aware u \<Rightarrow> ok u)"

definition positive_field :: "decimal \<Rightarrow> decimal result" where
  "positive_field x = raise_if (\<not> 0 < x) ValueError ''Input should be greater than 0'' (ok x)"

definition nonneg_field :: "decimal \<Rightarrow> decimal result" where
  "nonneg_field x =
     raise_if (\<not> 0 \<le> x) ValueError ''Input should be greater than or equal to 0'' (ok x)"

definition unit_field :: "rat \<Rightarrow> rat result" where
  "unit_field x =
     bind_result (nonneg_field x) (\<lambda>x.
     raise_if (\<not> x \<le> 1) ValueError ''Input should be less than or equal to 1'' (ok x))"

definition text_field :: "string \<Rightarrow> string result" where
  "text_field s =
     raise_if (length s < 1) ValueError ''String should have at least 1 character'' (ok s)"

fun optional_field :: "('a \<Rightarrow> 'b result) \<Rightarrow> 'a option \<Rightarrow> 'b option result" where
  "optional_field f None = ok None"
| "optional_field f (Some x) = map_sum id Some (f x)"

definition mk_candle ::
    "string \<Rightarrow> timeframe \<Rightarrow> py_datetime \<Rightarrow> decimal \<Rightarrow> decimal \<Rightarrow> decimal \<Rightarrow> decimal \<Rightarrow> decimal
      \<Rightarrow> candle result" where
  "mk_candle symbol timeframe timestamp opn high low cls volume =
     bind_result (symbol_field symbol) (\<lambda>symbol.
     bind_result (aware_field ''timestamp'' timestamp) (\<lambda>timestamp.
     bind_result (positive_field opn) (\<lambda>opn.
     bind_result (positive_field high) (\<lambda>high.
     bind_result (positive_field low) (\<lambda>low.
     bind_result (positive_field cls) (\<lambda>cls.
     bind_result (nonneg_field volume) (\<lambda>volume.
     raise_if (high < low) ValueError ''high must be >= low''
     (raise_if (high < opn \<or> high < cls) ValueError ''high must be >= open and >= close''
     (raise_if (low > opn \<or> low > cls) ValueError ''low must be <= open and <= close''
     (ok \<lparr>c_symbol = symbol, c_timeframe = timeframe, c_timestamp = timestamp, c_open = opn,
          c_high = high, c_low = low, c_close = cls, c_volume = volume\<rparr>))))))))))"

text \<open>What every constructed candle satisfies.\<close>

definition valid_candle :: "candle \<Rightarrow> bool" where
  "valid_candle c \<longleftrightarrow>
     upper (strip (c_symbol c)) = c_symbol c \<and> length (c_symbol c) \<le> 32 \<and>
     0 < c_low c \<and> c_low c \<le> c_open c \<and> c_low c \<le> c_close c \<and>
     c_open c \<le> c_high c \<and> c_close c \<le> c_high c \<and> 0 \<le> c_volume c"

named_theorems field_defs \<open>constraints and validators of the model fields\<close>

declare symbol_field_def [field_defs] aware_field_def [field_defs] positive_field_def [field_defs]
  nonneg_field_def [field_defs] unit_field_def [field_defs] text_field_def [field_defs]

lemma length_strip: "length (strip s) \<le> length s"
  by (metis strip_def lstrip_def length_dropWhile_le length_rev order_trans)

lemma positive_field_ok [simp]: "positive_field x = Inr y \<longleftrightarrow> y = x \<and> 0 < x"
  and nonneg_field_ok [simp]: "nonneg_field x = Inr y \<longleftrightarrow> y = x \<and> 0 \<le> x"
  and text_field_ok [simp]: "text_field s = Inr t \<longleftrightarrow> t = s \<and> s \<noteq> []"
  by (auto simp: field_defs Suc_le_eq)

lemma symbol_field_ok:
  "symbol_field s = Inr t \<longleftrightarrow> t = upper (strip s) \<and> 1 \<le> length s \<and> length s \<le> 32"
  by (auto simp: symbol_field_def Suc_le_eq)

lemma symbol_field_normal:
  assumes "symbol_field s = Inr t"
  shows "upper (strip t) = t \<and> length t \<le> 32"
  using assms length_strip [of s]
  by (auto simp: symbol_field_ok strip_upper) (simp add: upper_def)

lemma aware_field_ok: "aware_field f t = Inr u \<longleftrightarrow> t = Aware u"
  by (auto simp: aware_field_def split: py_datetime.splits)

lemma mk_candle_ok_iff:
  "mk_candle symbol tf ts opn high low cls vol = Inr c \<longleftrightarrow>
     (\<exists>t. ts = Aware t \<and> 1 \<le> length symbol \<and> length symbol \<le> 32 \<and>
       0 < low \<and> low \<le> opn \<and> low \<le> cls \<and> opn \<le> high \<and> cls \<le> high \<and> 0 \<le> vol \<and>
       c = \<lparr>c_symbol = upper (strip symbol), c_timeframe = tf, c_timestamp = t, c_open = opn,
            c_high = high, c_low = low, c_close = cls, c_volume = vol\<rparr>)"
  by (auto simp: mk_candle_def result_simps symbol_field_ok aware_field_ok)

lemma mk_candle_valid: "mk_candle symbol tf ts opn high low cls vol = Inr c \<Longrightarrow> valid_candle c"
  using symbol_field_normal [of symbol "upper (strip symbol)"]
  by (auto simp: mk_candle_ok_iff valid_candle_def symbol_field_ok)

text \<open>Rebuilding a candle from its own fields gives the same candle, when its symbol has a letter.\<close>

lemma mk_candle_rebuild:
  assumes "valid_candle c" and "c_symbol c \<noteq> []"
  shows "mk_candle (c_symbol c) (c_timeframe c) (Aware (c_timestamp c)) (c_open c) (c_high c)
           (c_low c) (c_close c) (c_volume c) = Inr c"
  using assms by (auto simp: mk_candle_ok_iff valid_candle_def Suc_le_eq)

lemma valid_candleD:
  assumes "valid_candle c"
  shows "0 < c_low c" and "0 < c_open c" and "0 < c_close c" and "0 < c_high c"
    and "c_low c \<le> c_high c" and "c_low c \<le> c_close c" and "c_close c \<le> c_high c"
    and "c_low c \<le> c_open c" and "c_open c \<le> c_high c" and "0 \<le> c_volume c"
  using assms by (auto simp: valid_candle_def)

text \<open>The candles the witnesses evaluate on: one symbol, one minute apart.\<close>

definition sample_candle :: "int \<Rightarrow> decimal \<Rightarrow> decimal \<Rightarrow> decimal \<Rightarrow> decimal \<Rightarrow> candle" where
  "sample_candle minute high low cls volume =
     \<lparr>c_symbol = ''SPY'', c_timeframe = M1, c_timestamp = minutes minute, c_open = cls, c_high = high,
      c_low = low, c_close = cls, c_volume = volume\<rparr>"

definition sample_series :: "candle list" where
  "sample_series =
     [sample_candle 1 12 9 10 100, sample_candle 2 13 10 12 200, sample_candle 3 13 8 9 150,
      sample_candle 4 11 9 10 0, sample_candle 5 15 10 14 300]"

subsection \<open>Quotes\<close>

record quote =
  q_symbol :: string
  q_timestamp :: instant
  q_bid :: decimal
  q_ask :: decimal
  q_last :: decimal
  q_volume :: "decimal option"

definition mk_quote ::
    "string \<Rightarrow> py_datetime \<Rightarrow> decimal \<Rightarrow> decimal \<Rightarrow> decimal \<Rightarrow> decimal option \<Rightarrow> quote result" where
  "mk_quote symbol timestamp bid ask lst volume =
     bind_result (symbol_field symbol) (\<lambda>symbol.
     bind_result (aware_field ''timestamp'' timestamp) (\<lambda>timestamp.
     bind_result (positive_field bid) (\<lambda>bid.
     bind_result (positive_field ask) (\<lambda>ask.
     bind_result (positive_field lst) (\<lambda>lst.
     bind_result (optional_field nonneg_field volume) (\<lambda>volume.
     raise_if (ask < bid) ValueError ''ask must be >= bid''
     (ok \<lparr>q_symbol = symbol, q_timestamp = timestamp, q_bid = bid, q_ask = ask, q_last = lst,
          q_volume = volume\<rparr>)))))))"

definition quote_spread :: "quote \<Rightarrow> decimal" where
  "quote_spread q = dsub (q_ask q) (q_bid q)"

lemma optional_field_ok:
  "optional_field f x = Inr y \<longleftrightarrow>
     (case x of None \<Rightarrow> y = None | Some a \<Rightarrow> \<exists>b. f a = Inr b \<and> y = Some b)"
proof (cases x)
  case (Some a)
  then show ?thesis by (cases "f a") auto
qed auto

lemma mk_quote_valid:
  assumes "mk_quote symbol ts bid ask lst vol = Inr q"
  shows "0 < q_bid q \<and> q_bid q \<le> q_ask q \<and> 0 < q_last q \<and> 0 \<le> quote_spread q"
  using assms
  by (auto simp: mk_quote_def result_simps quote_spread_def dsub_nonneg_iff)

subsection \<open>Signals and strategy profiles\<close>

datatype signal_direction = LONG | SHORT
datatype signal_grade = Grade_A_PLUS | Grade_A | Grade_B | Grade_C | Grade_D
datatype strategy_status = EXPERIMENTAL | WATCH | ACTIVE | REDUCED | SUSPENDED

record signal =
  s_symbol :: string
  s_company :: "string option"
  s_direction :: signal_direction
  s_strategy_id :: string
  s_strategy_version :: string
  s_entry :: decimal
  s_stop :: decimal
  s_targets :: "decimal list"
  s_risk_reward :: "rat option"
  s_confidence :: rat
  s_quantitative_score :: "rat option"
  s_technical_score :: "rat option"
  s_fundamental_score :: "rat option"
  s_sentiment_score :: "rat option"
  s_detected_patterns :: "string list"
  s_indicators :: "(string \<times> rat) list"
  s_reasoning :: string
  s_grade :: signal_grade
  s_timestamp :: instant
  s_expiration :: "instant option"

text \<open>The keyword arguments of \<open>Signal(...)\<close>: its fields, with the datetimes as given.\<close>

record signal_args = signal +
  arg_timestamp :: py_datetime
  arg_expiration :: "py_datetime option"

definition mk_signal :: "signal_args \<Rightarrow> signal result" where
  "mk_signal a =
     bind_result (symbol_field (s_symbol a)) (\<lambda>symbol.
     bind_result (text_field (s_strategy_id a)) (\<lambda>_.
     bind_result (text_field (s_strategy_version a)) (\<lambda>_.
     bind_result (positive_field (s_entry a)) (\<lambda>_.
     bind_result (positive_field (s_stop a)) (\<lambda>_.
     bind_result (map_result positive_field (s_targets a)) (\<lambda>_.
     bind_result (optional_field nonneg_field (s_risk_reward a)) (\<lambda>_.
     bind_result (unit_field (s_confidence a)) (\<lambda>_.
     bind_result (optional_field unit_field (s_quantitative_score a)) (\<lambda>_.
     bind_result (optional_field unit_field (s_technical_score a)) (\<lambda>_.
     bind_result (optional_field unit_field (s_fundamental_score a)) (\<lambda>_.
     bind_result (optional_field unit_field (s_sentiment_score a)) (\<lambda>_.
     bind_result (aware_field ''timestamp/expiration'' (arg_timestamp a)) (\<lambda>timestamp.
     bind_result (optional_field (aware_field ''timestamp/expiration'') (arg_expiration a))
       (\<lambda>expiration.
     ok ((signal.truncate a)\<lparr>s_symbol := symbol, s_timestamp := timestamp,
           s_expiration := expiration\<rparr>)))))))))))))))"

lemma unit_field_ok: "unit_field x = Inr y \<longleftrightarrow> y = x \<and> 0 \<le> x \<and> x \<le> 1"
  by (auto simp: unit_field_def result_simps)

lemma mk_signal_bounds:
  assumes "mk_signal a = Inr s"
  shows "0 < s_entry s \<and> 0 < s_stop s \<and> 0 \<le> s_confidence s \<and> s_confidence s \<le> 1"
    and "\<And>t. t \<in> set (s_targets s) \<Longrightarrow> 0 < t"
    and "arg_timestamp a = Aware (s_timestamp s)"
proof -
  note r = assms [unfolded mk_signal_def result_simps]
  from r show "0 < s_entry s \<and> 0 < s_stop s \<and> 0 \<le> s_confidence s \<and> s_confidence s \<le> 1"
    by (auto simp: unit_field_ok signal.truncate_def)
  from r show "arg_timestamp a = Aware (s_timestamp s)"
    by (auto simp: aware_field_ok)
  fix t
  assume "t \<in> set (s_targets s)"
  moreover from r obtain us where "map_result positive_field (s_targets a) = Inr us"
      and eq: "s_targets s = s_targets a"
    by (auto simp: signal.truncate_def)
  ultimately have "\<exists>y. positive_field t = Inr y" by (metis map_result_ok_iff)
  then show "0 < t" by auto
qed

record strategy_profile =
  sp_strategy_id :: string
  sp_name :: string
  sp_version :: string
  sp_status :: strategy_status
  sp_rules :: "(string \<times> string) list"
  sp_indicators :: "string list"
  sp_entry_logic :: string
  sp_exit_logic :: string
  sp_stop_logic :: string
  sp_risk_rules :: "(string \<times> rat) list"
  sp_supported_timeframes :: "string list"
  sp_supported_instruments :: "string list"
  sp_historical_statistics :: "(string \<times> rat) list"

definition mk_strategy_profile :: "strategy_profile \<Rightarrow> strategy_profile result" where
  "mk_strategy_profile p =
     bind_result (text_field (sp_strategy_id p)) (\<lambda>_.
     bind_result (text_field (sp_name p)) (\<lambda>_.
     bind_result (text_field (sp_version p)) (\<lambda>_. ok p)))"

subsection \<open>Trade proposals and validation outcomes\<close>

datatype trade_proposal_source = AI | STRATEGY_ENGINE | MANUAL
datatype trade_proposal_status = PENDING_VALIDATION | REJECTED | VALIDATED

record trade_proposal =
  tp_proposal_id :: string
  tp_signal_id :: "string option"
  tp_strategy_id :: string
  tp_strategy_version :: string
  tp_symbol :: string
  tp_direction :: signal_direction
  tp_proposed_quantity :: decimal
  tp_proposed_entry :: decimal
  tp_proposed_stop :: decimal
  tp_proposed_targets :: "decimal list"
  tp_source :: trade_proposal_source
  tp_created_at :: instant

definition mk_trade_proposal :: "trade_proposal \<Rightarrow> py_datetime \<Rightarrow> trade_proposal result" where
  "mk_trade_proposal p created_at =
     bind_result (text_field (tp_proposal_id p)) (\<lambda>_.
     bind_result (text_field (tp_strategy_id p)) (\<lambda>_.
     bind_result (text_field (tp_strategy_version p)) (\<lambda>_.
     bind_result (symbol_field (tp_symbol p)) (\<lambda>symbol.
     bind_result (positive_field (tp_proposed_quantity p)) (\<lambda>_.
     bind_result (positive_field (tp_proposed_entry p)) (\<lambda>_.
     bind_result (positive_field (tp_proposed_stop p)) (\<lambda>_.
     bind_result (map_result positive_field (tp_proposed_targets p)) (\<lambda>_.
     bind_result (aware_field ''created_at'' created_at) (\<lambda>t.
     ok (p\<lparr>tp_symbol := symbol, tp_created_at := t\<rparr>))))))))))"

text \<open>
  The object a caller passes as \<open>authority\<close>: an instance of \<open>_ValidationPipelineAuthority\<close> or
  something else.
\<close>

datatype authority_arg = Authority_token | Other_object

record trade_validation_outcome =
  vo_proposal :: trade_proposal
  vo_status :: trade_proposal_status

definition mk_outcome ::
    "trade_proposal \<Rightarrow> trade_proposal_status \<Rightarrow> authority_arg \<Rightarrow> trade_validation_outcome result" where
  "mk_outcome proposal status authority =
     raise_if (status = PENDING_VALIDATION) ValueError
       ''a TradeValidationOutcome must be VALIDATED or REJECTED''
     (raise_if (authority \<noteq> Authority_token) ValueError ''is_instance_of''
     (ok \<lparr>vo_proposal = proposal, vo_status = status\<rparr>))"

definition record_outcome ::
    "trade_proposal \<Rightarrow> bool \<Rightarrow> authority_arg \<Rightarrow> trade_validation_outcome result" where
  "record_outcome proposal approved authority =
     mk_outcome proposal (if approved then VALIDATED else REJECTED) authority"

definition outcome_model_copy ::
    "trade_validation_outcome \<Rightarrow> trade_proposal_status option \<Rightarrow> trade_validation_outcome result" where
  "outcome_model_copy self update =
     raise TypeError ''TradeValidationOutcome cannot be copied or mutated via model_copy''"

definition outcome_model_construct ::
    "trade_proposal \<Rightarrow> trade_proposal_status \<Rightarrow> trade_validation_outcome result" where
  "outcome_model_construct proposal status =
     raise TypeError ''TradeValidationOutcome.model_construct() is refused''"

text \<open>The ways the class offers to obtain an outcome.\<close>

datatype outcome_call =
    Direct_call trade_proposal trade_proposal_status authority_arg
  | Record_call trade_proposal bool authority_arg
  | Copy_call trade_validation_outcome "trade_proposal_status option"
  | Construct_call trade_proposal trade_proposal_status

fun outcome_api :: "outcome_call \<Rightarrow> trade_validation_outcome result" where
  "outcome_api (Direct_call p s a) = mk_outcome p s a"
| "outcome_api (Record_call p b a) = record_outcome p b a"
| "outcome_api (Copy_call v u) = outcome_model_copy v u"
| "outcome_api (Construct_call p s) = outcome_model_construct p s"

fun call_authority :: "outcome_call \<Rightarrow> authority_arg" where
  "call_authority (Direct_call p s a) = a"
| "call_authority (Record_call p b a) = a"
| "call_authority _ = Other_object"

lemma mk_outcome_ok:
  "mk_outcome p s a = Inr v \<longleftrightarrow>
     s \<noteq> PENDING_VALIDATION \<and> a = Authority_token \<and> v = \<lparr>vo_proposal = p, vo_status = s\<rparr>"
  by (auto simp: mk_outcome_def)

lemma outcome_api_gate:
  "outcome_api call = Inr v \<Longrightarrow>
     call_authority call = Authority_token \<and> vo_status v \<noteq> PENDING_VALIDATION"
  by (cases call) (auto simp: mk_outcome_ok record_outcome_def outcome_model_copy_def
      outcome_model_construct_def)

lemma record_outcome_total:
  "record_outcome p approved Authority_token =
     Inr \<lparr>vo_proposal = p, vo_status = (if approved then VALIDATED else REJECTED)\<rparr>"
  by (simp add: record_outcome_def mk_outcome_def)

end
