(* ===== verification/Indicator_Core.thy ===== *)
theory Indicator_Core
  imports Domain_Models
begin

text \<open>
  The indicator engine (\<open>backend/app/indicators\<close>): result types, the rolling-window primitives of
  \<open>rolling.py\<close>, the validation of a candle series, and the interface every indicator implements.
  A \<open>causal\<close> series function is one whose value at an index is computed from the elements up to
  that index; the lemmas on causal functions carry the no-lookahead proofs of the library.
\<close>

subsection \<open>Results\<close>

record indicator_point =
  pt_timestamp :: instant
  pt_values :: "(string \<times> decimal) list"

record indicator_result =
  ir_name :: string
  ir_timeframe :: timeframe
  ir_points :: "indicator_point list"

definition ir_latest :: "indicator_result \<Rightarrow> indicator_point option" where
  "ir_latest r = (if ir_points r = [] then None else Some (last (ir_points r)))"

definition point :: "instant \<Rightarrow> (string \<times> decimal) list \<Rightarrow> indicator_point" where
  "point t vs = \<lparr>pt_timestamp = t, pt_values = vs\<rparr>"

lemma pt_simps [simp]: "pt_timestamp (point t vs) = t" "pt_values (point t vs) = vs"
  by (simp_all add: point_def)

subsection \<open>Rolling-window primitives\<close>

definition require_minimum_length :: "nat \<Rightarrow> nat \<Rightarrow> string \<Rightarrow> unit result" where
  "require_minimum_length len minimum label =
     raise_if (minimum < 1) ValueError ''minimum must be >= 1''
     (raise_if (len < minimum) InsufficientDataError label (ok ()))"

definition rolling_mean :: "decimal list \<Rightarrow> nat \<Rightarrow> decimal list result" where
  "rolling_mean values window =
     bind_result (require_minimum_length (length values) window ''rolling_mean'') (\<lambda>_.
     let window_decimal = of_nat window;
         running_sum = dsum (take window values);
         running_sums = scan (\<lambda>s index. dadd s (dsub (values ! index) (values ! (index - window))))
           running_sum [window..<length values]
     in ok (map (\<lambda>s. ddiv s window_decimal) (running_sum # running_sums)))"

definition ema_series :: "decimal list \<Rightarrow> nat \<Rightarrow> decimal list result" where
  "ema_series values window =
     bind_result (require_minimum_length (length values) window ''ema_series'') (\<lambda>_.
     let window_decimal = of_nat window;
         multiplier = ddiv 2 (dadd window_decimal 1);
         seed = ddiv (dsum (take window values)) window_decimal
     in ok (seed # scan (\<lambda>previous index.
              dadd (dmul (dsub (values ! index) previous) multiplier) previous)
            seed [window..<length values]))"

lemma require_minimum_length_ok [simp]:
  "1 \<le> m \<Longrightarrow> m \<le> n \<Longrightarrow> require_minimum_length n m label = ok ()"
  by (simp add: require_minimum_length_def)

text \<open>\<open>zip(xs, ys, strict=True)\<close>.\<close>

definition zip_strict :: "'a list \<Rightarrow> 'b list \<Rightarrow> ('a \<times> 'b) list result" where
  "zip_strict xs ys =
     raise_if (length xs \<noteq> length ys) ValueError ''zip() arguments differ in length'' (ok (zip xs ys))"

lemma zip_strict_ok [simp]: "length xs = length ys \<Longrightarrow> zip_strict xs ys = ok (zip xs ys)"
  by (simp add: zip_strict_def)

lemma adjacent_timestamps:
  "adjacent (\<lambda>p c. c_timestamp p < c_timestamp c) cs \<longleftrightarrow> sorted_wrt (<) (map c_timestamp cs)"
  by (subst adjacent_sorted_wrt) (auto intro!: transpI simp: sorted_wrt_map)

subsection \<open>Causal series\<close>

definition causal :: "nat \<Rightarrow> ('a list \<Rightarrow> 'b list) \<Rightarrow> bool" where
  "causal k f \<longleftrightarrow>
     (\<forall>xs. k < length xs \<longrightarrow> length (f xs) = length xs - k) \<and>
     (\<forall>xs ys. k < length xs \<longrightarrow> prefix (f xs) (f (xs @ ys)))"

lemma causalI:
  assumes "\<And>xs. k < length xs \<Longrightarrow> length (f xs) = length xs - k"
    and "\<And>xs ys. k < length xs \<Longrightarrow> prefix (f xs) (f (xs @ ys))"
  shows "causal k f"
  using assms by (simp add: causal_def)

lemma causal_length: "causal k f \<Longrightarrow> k < length xs \<Longrightarrow> length (f xs) = length xs - k"
  and causal_prefix: "causal k f \<Longrightarrow> k < length xs \<Longrightarrow> prefix (f xs) (f (xs @ ys))"
  by (simp_all add: causal_def)

lemma causal_map: "causal k f \<Longrightarrow> causal k (\<lambda>xs. map g (f xs))"
  by (rule causalI) (auto simp: causal_length intro: map_mono_prefix causal_prefix)

lemma prefix_zip:
  assumes "prefix xs xs'" and "prefix ys ys'" and "length xs = length ys"
  shows "prefix (zip xs ys) (zip xs' ys')"
  using assms by (auto simp: prefix_def)

lemma causal_zip:
  assumes "causal k f" and "causal k g"
  shows "causal k (\<lambda>xs. zip (f xs) (g xs))"
proof (rule causalI)
  fix xs ys :: "'a list"
  assume "k < length xs"
  with assms show "length (zip (f xs) (g xs)) = length xs - k"
    and "prefix (zip (f xs) (g xs)) (zip (f (xs @ ys)) (g (xs @ ys)))"
    by (simp_all add: causal_length causal_prefix prefix_zip)
qed

lemma prefix_drop: "prefix xs ys \<Longrightarrow> prefix (drop n xs) (drop n ys)"
  by (auto simp: prefix_def)

lemma causal_drop: "causal k f \<Longrightarrow> causal (k + n) (\<lambda>xs. drop n (f xs))"
  by (rule causalI) (auto simp: causal_length intro!: prefix_drop causal_prefix)

lemma causal_skip: "causal n (drop n)"
  by (rule causalI) auto

lemma causal_comp:
  assumes "causal k f" and "causal n g"
  shows "causal (k + n) (\<lambda>xs. g (f xs))"
proof (rule causalI)
  fix xs ys :: "'a list"
  assume len: "k + n < length xs"
  with assms(1) have f: "length (f xs) = length xs - k" by (intro causal_length) auto
  with len assms(2) show "length (g (f xs)) = length xs - (k + n)"
    by (simp add: causal_length)
  from len assms(1) obtain zs where "f (xs @ ys) = f xs @ zs"
    by (meson causal_prefix add_lessD1 prefixE)
  with f len assms(2) show "prefix (g (f xs)) (g (f (xs @ ys)))"
    by (simp add: causal_prefix)
qed

lemma prefix_map_upt:
  assumes "\<And>i. k \<le> i \<Longrightarrow> i < n \<Longrightarrow> f i = g i" and "n \<le> m"
  shows "prefix (map f [k..<n]) (map g [k..<m])"
proof (cases "k \<le> n")
  case True
  with \<open>n \<le> m\<close> have "[k..<m] = [k..<n] @ [n..<m]" by (metis le_add_diff_inverse upt_add_eq_append)
  with assms(1) have "map g [k..<m] = map f [k..<n] @ map g [n..<m]" by simp
  then show ?thesis by simp
qed simp

lemma causal_index:
  assumes "\<And>xs ys i. k \<le> i \<Longrightarrow> i < length xs \<Longrightarrow> f (xs @ ys) i = f xs i"
  shows "causal k (\<lambda>xs. map (f xs) [k..<length xs])"
  by (rule causalI) (auto intro!: prefix_map_upt simp: assms)

lemma scan_cong:
  "(\<And>s x. x \<in> set xs \<Longrightarrow> f s x = g s x) \<Longrightarrow> scan f s xs = scan g s xs"
  by (induction xs arbitrary: s) auto

lemma causal_scan:
  assumes "\<And>xs ys. k < length xs \<Longrightarrow> seed (xs @ ys) = seed xs"
    and "\<And>xs ys s i. k < i \<Longrightarrow> i < length xs \<Longrightarrow> step (xs @ ys) s i = step xs s i"
  shows "causal k (\<lambda>xs. seed xs # scan (step xs) (seed xs) [Suc k..<length xs])"
proof (rule causalI)
  fix xs ys :: "'a list"
  assume k: "k < length xs"
  then show "length (seed xs # scan (step xs) (seed xs) [Suc k..<length xs]) = length xs - k"
    by simp
  have upt: "[Suc k..<length (xs @ ys)] = [Suc k..<length xs] @ [length xs..<length xs + length ys]"
    using k upt_add_eq_append [of "Suc k" "length xs" "length ys"] by simp
  have "scan (step (xs @ ys)) (seed xs) [Suc k..<length xs] = scan (step xs) (seed xs) [Suc k..<length xs]"
    by (rule scan_cong) (simp add: assms(2))
  then show "prefix (seed xs # scan (step xs) (seed xs) [Suc k..<length xs])
      (seed (xs @ ys) # scan (step (xs @ ys)) (seed (xs @ ys)) [Suc k..<length (xs @ ys)])"
    unfolding upt scan_append assms(1) [OF k] by simp
qed

subsection \<open>The rolling primitives are causal\<close>

definition rolling_mean_values :: "nat \<Rightarrow> decimal list \<Rightarrow> decimal list" where
  "rolling_mean_values window values = projr (rolling_mean values window)"

definition ema_values :: "nat \<Rightarrow> decimal list \<Rightarrow> decimal list" where
  "ema_values window values = projr (ema_series values window)"

lemma rolling_mean_ok:
  "1 \<le> w \<Longrightarrow> w \<le> length vs \<Longrightarrow> rolling_mean vs w = Inr (rolling_mean_values w vs)"
  by (simp add: rolling_mean_values_def rolling_mean_def Let_def)

lemma ema_series_ok:
  "1 \<le> w \<Longrightarrow> w \<le> length vs \<Longrightarrow> ema_series vs w = Inr (ema_values w vs)"
  by (simp add: ema_values_def ema_series_def Let_def)

lemma rolling_mean_short:
  "1 \<le> w \<Longrightarrow> length vs < w \<Longrightarrow> rolling_mean vs w = raise InsufficientDataError ''rolling_mean''"
  and ema_series_short:
  "1 \<le> w \<Longrightarrow> length vs < w \<Longrightarrow> ema_series vs w = raise InsufficientDataError ''ema_series''"
  by (simp_all add: rolling_mean_def ema_series_def require_minimum_length_def)

lemma causal_congI:
  assumes "causal k f" and "\<And>xs. k < length xs \<Longrightarrow> g xs = f xs"
  shows "causal k g"
  using assms by (auto simp: causal_def)

lemma causal_rolling_mean: "1 \<le> w \<Longrightarrow> causal (w - 1) (rolling_mean_values w)"
proof -
  assume w: "1 \<le> w"
  let ?sums = "\<lambda>vs. dsum (take w vs) #
    scan (\<lambda>s i. dadd s (dsub (vs ! i) (vs ! (i - w)))) (dsum (take w vs)) [Suc (w - 1)..<length vs]"
  have "causal (w - 1) ?sums"
    by (rule causal_scan) (use w in \<open>auto simp: nth_append\<close>)
  from causal_map [OF this, of "\<lambda>s. ddiv s (of_nat w)"] show ?thesis
    by (rule causal_congI)
      (use w in \<open>simp add: rolling_mean_values_def rolling_mean_def Let_def\<close>)
qed

lemma causal_ema: "1 \<le> w \<Longrightarrow> causal (w - 1) (ema_values w)"
proof -
  assume w: "1 \<le> w"
  let ?m = "ddiv 2 (dadd (of_nat w) 1)"
  have "causal (w - 1) (\<lambda>vs. ddiv (dsum (take w vs)) (of_nat w) #
      scan (\<lambda>p i. dadd (dmul (dsub (vs ! i) p) ?m) p) (ddiv (dsum (take w vs)) (of_nat w))
        [Suc (w - 1)..<length vs])"
    by (rule causal_scan) (use w in \<open>auto simp: nth_append\<close>)
  then show ?thesis
    by (rule causal_congI)
      (use w in \<open>simp add: ema_values_def ema_series_def Let_def\<close>)
qed

subsection \<open>The running sum is the window sum\<close>

text \<open>
  On quoted values (multiples of a tick whose window sums stay below \<open>10 ^ 28\<close> ticks) the running
  sum of \<open>rolling_mean\<close>, which adds the difference of the entering and the leaving value, never
  rounds, and equals the sum of the window.
\<close>

lemma sum_list_slice_Suc:
  fixes vs :: "rat list"
  assumes "j + w < length vs"
  shows "sum_list (slice (Suc j) (Suc j + w) vs) = sum_list (slice j (j + w) vs) + (vs ! (j + w) - vs ! j)"
proof -
  have "sum_list (take (Suc w) (drop j vs)) = sum_list (take w (drop j vs)) + vs ! (j + w)"
    using assms by (simp add: take_Suc_conv_app_nth)
  moreover have "take (Suc w) (drop j vs) = vs ! j # take w (drop (Suc j) vs)"
    using assms by (simp flip: Cons_nth_drop_Suc)
  ultimately show ?thesis by (simp add: slice_def)
qed

lemma window_sum_exact:
  assumes grid: "\<And>x. x \<in> set vs \<Longrightarrow> on_grid k x \<and> \<bar>x\<bar> \<le> M"
    and small: "of_nat w * M * 10 ^ k \<le> 10 ^ 28" and "i + w \<le> length vs"
  shows "dsum (slice i (i + w) vs) = sum_list (slice i (i + w) vs) \<and>
    \<bar>sum_list (slice i (i + w) vs)\<bar> \<le> of_nat w * M \<and> on_grid k (sum_list (slice i (i + w) vs))"
proof -
  have len: "length (slice i (i + w) vs) = w" using assms(3) by simp
  have g: "on_grid k x" "\<bar>x\<bar> \<le> M" if "x \<in> set (slice i (i + w) vs)" for x
    using grid [OF subsetD [OF set_slice that]] by simp_all
  have "dsum (slice i (i + w) vs) = sum_list (slice i (i + w) vs) \<and>
      \<bar>sum_list (slice i (i + w) vs)\<bar> \<le> of_nat (length (slice i (i + w) vs)) * M"
    by (rule dsum_exact_grid [where k = k], erule g(1), erule g(2)) (simp only: len small)
  moreover have "on_grid k (sum_list (slice i (i + w) vs))"
    by (rule on_grid_sum_list) (erule g(1))
  ultimately show ?thesis by (simp only: len simp_thms)
qed

lemma running_sum_exact:
  assumes w: "1 \<le> w" and grid: "\<And>x. x \<in> set vs \<Longrightarrow> on_grid k x \<and> \<bar>x\<bar> \<le> M"
    and small: "of_nat w * M * 10 ^ k \<le> 10 ^ 28" "2 * M * 10 ^ k \<le> 10 ^ 28"
    and "j + w \<le> length vs"
  shows "foldl (\<lambda>s i. dadd s (dsub (vs ! i) (vs ! (i - w)))) (dsum (take w vs)) [w..<w + j] =
         sum_list (slice j (j + w) vs)"
  using assms(5)
proof (induction j)
  note window = window_sum_exact [of vs k M w, OF grid small(1), simplified]
  {
    case 0
    with window [of 0] show ?case by (simp add: slice_def)
  next
    case (Suc j)
    then have j: "j + w < length vs" by simp
    from grid have M: "0 \<le> M" using j by (metis abs_ge_zero nth_mem order_trans)
    let ?a = "vs ! (j + w)" and ?b = "vs ! j"
    have ab: "on_grid k ?a" "\<bar>?a\<bar> \<le> M" "on_grid k ?b" "\<bar>?b\<bar> \<le> M" using grid [OF nth_mem, of "j + w"] grid [OF nth_mem, of j] j by simp_all
    have diff: "dsub ?a ?b = ?a - ?b"
    proof (rule dsub_exact, rule representable_on_grid [OF on_grid_diff [OF ab(1,3)]])
      have "\<bar>?a - ?b\<bar> \<le> 2 * M" using ab(2,4) by linarith
      then have "\<bar>?a - ?b\<bar> * 10 ^ k \<le> 2 * M * 10 ^ k" by (rule mult_right_mono) simp
      with small(2) show "\<bar>?a - ?b\<bar> * 10 ^ k \<le> 10 ^ 28" by linarith
    qed
    let ?s = "sum_list (slice (Suc j) (Suc j + w) vs)"
    have "\<bar>?s\<bar> * 10 ^ k \<le> of_nat w * M * 10 ^ k" (is ?bd)
      using window [of "Suc j"] j by (intro mult_right_mono) auto
    then have "representable ?s"
      using window [of "Suc j"] j order_trans [OF \<open>?bd\<close> small(1)]
      by (intro representable_on_grid [where k = k]) simp_all
    moreover have "sum_list (slice j (j + w) vs) + (?a - ?b) = ?s"
      using sum_list_slice_Suc [OF j] by simp
    ultimately have "dadd (sum_list (slice j (j + w) vs)) (?a - ?b) = ?s"
      by (metis dadd_exact)
    with Suc diff show ?case by (simp add: add.commute [of w])
  }
qed

lemma rolling_mean_window_sums:
  assumes "1 \<le> w" and "w \<le> length vs" and "\<And>x. x \<in> set vs \<Longrightarrow> on_grid k x \<and> \<bar>x\<bar> \<le> M"
    and "of_nat w * M * 10 ^ k \<le> 10 ^ 28" and "2 * M * 10 ^ k \<le> 10 ^ 28"
  shows "rolling_mean vs w =
    Inr (map (\<lambda>j. ddiv (sum_list (slice j (j + w) vs)) (of_nat w)) [0..<Suc (length vs - w)])"
proof -
  let ?step = "\<lambda>s i. dadd s (dsub (vs ! i) (vs ! (i - w)))"
  let ?sums = "dsum (take w vs) # scan ?step (dsum (take w vs)) [w..<length vs]"
  have "?sums = map (\<lambda>j. sum_list (slice j (j + w) vs)) [0..<Suc (length vs - w)]"
  proof (rule nth_equalityI)
    show "length ?sums = length (map (\<lambda>j. sum_list (slice j (j + w) vs)) [0..<Suc (length vs - w)])"
      by simp
    fix j
    assume "j < length ?sums"
    then have j: "j + w \<le> length vs" using assms(2) by simp
    have "?sums ! j = foldl ?step (dsum (take w vs)) [w..<w + j]"
      using j by (cases j) (simp_all add: scan_nth)
    moreover have "[0..<Suc (length vs - w)] ! j = j" using j by (subst nth_upt) auto
    ultimately show "?sums ! j = map (\<lambda>j. sum_list (slice j (j + w) vs)) [0..<Suc (length vs - w)] ! j"
      using running_sum_exact [OF assms(1,3,4,5) j] j by (simp del: upt_Suc)
  qed
  then show ?thesis
    using assms(1,2) by (simp add: rolling_mean_def Let_def del: upt_Suc flip: list.map(2))
qed

subsection \<open>The indicator interface\<close>

text \<open>
  What \<open>base.py\<close> demands of an indicator: with fewer candles than its warm-up period it raises
  \<open>InsufficientDataError\<close>, otherwise it returns points stamped with candles of the series, in
  their order, and appending later candles only appends points, stamped with those candles.
\<close>

locale causal_indicator =
  fixes compute :: "candle list \<Rightarrow> indicator_result result" and warmup :: nat
  assumes short: "length cs < warmup \<Longrightarrow> \<exists>t. compute cs = raise InsufficientDataError t"
    and enough: "warmup \<le> length cs \<Longrightarrow> \<exists>r. compute cs = Inr r"
    and extends: "compute cs = Inr r \<Longrightarrow> compute (cs @ ds) = Inr r' \<Longrightarrow>
      \<exists>ps. ir_points r' = ir_points r @ ps \<and> set (map pt_timestamp ps) \<subseteq> set (map c_timestamp ds)"
    and stamped: "compute cs = Inr r \<Longrightarrow> subseq (map pt_timestamp (ir_points r)) (map c_timestamp cs)"
begin

lemma outcome:
  "(length cs < warmup \<longrightarrow> (\<exists>t. compute cs = raise InsufficientDataError t)) \<and>
   (warmup \<le> length cs \<longrightarrow> (\<exists>r. compute cs = Inr r))"
  by (simp add: short enough)

lemma ordered:
  assumes "sorted_wrt (<) (map c_timestamp cs)" and "compute cs = Inr r"
  shows "sorted_wrt (<) (map pt_timestamp (ir_points r))"
  using stamped [OF assms(2)] assms(1) by (rule subseq_sorted_wrt)

lemma computed_iff: "(\<exists>r. compute cs = Inr r) \<longleftrightarrow> warmup \<le> length cs"
  by (metis enough short linorder_not_le old.sum.distinct(1))

text \<open>
  No lookahead: the points up to the last candle of a history are the ones computed from that
  history alone, whatever follows it.
\<close>

lemma no_lookahead:
  assumes "sorted_wrt (<) (map c_timestamp (cs @ ds))" and "cs \<noteq> []"
    and "compute cs = Inr r" and "compute (cs @ ds) = Inr r'"
  shows "filter (\<lambda>p. pt_timestamp p \<le> c_timestamp (last cs)) (ir_points r') = ir_points r"
proof -
  from extends [OF assms(3,4)] obtain ps where ps: "ir_points r' = ir_points r @ ps"
      and new: "set (map pt_timestamp ps) \<subseteq> set (map c_timestamp ds)" by blast
  have "c_timestamp (last cs) < t" if "t \<in> set (map c_timestamp ds)" for t
    using that assms(1,2) by (auto simp: sorted_wrt_append)
  with new have "filter (\<lambda>p. pt_timestamp p \<le> c_timestamp (last cs)) ps = []"
    by (fastforce simp: filter_empty_conv)
  moreover have "\<forall>p\<in>set (ir_points r). pt_timestamp p \<le> c_timestamp (last cs)"
  proof
    fix p
    assume "p \<in> set (ir_points r)"
    then have "pt_timestamp p \<in> set (map c_timestamp cs)"
      using subseq_set [OF stamped [OF assms(3)]] by auto
    moreover have "sorted_wrt (<) (map c_timestamp cs)"
      using assms(1) by (simp add: sorted_wrt_append)
    ultimately show "pt_timestamp p \<le> c_timestamp (last cs)"
      using assms(2) by (metis sorted_last_max last_map)
  qed
  ultimately show ?thesis by (simp add: ps)
qed

end

subsection \<open>Series that emit points\<close>

text \<open>
  The points an indicator emits when its values are a causal series over the candles from index
  \<open>k\<close> on; a missing value emits no point.
\<close>

definition emit :: "candle list \<Rightarrow> (string \<times> decimal) list option list \<Rightarrow> indicator_point list" where
  "emit cs vs =
     List.map_filter (\<lambda>(c, v). map_option (point (c_timestamp c)) v) (zip cs vs)"

lemma map_filter_append: "List.map_filter f (xs @ ys) = List.map_filter f xs @ List.map_filter f ys"
  by (simp add: List.map_filter_def)

lemma emit_append:
  "length cs = length vs \<Longrightarrow> emit (cs @ ds) (vs @ ws) = emit cs vs @ emit ds ws"
  by (simp add: emit_def map_filter_append)

lemma emit_stamped: "subseq (map pt_timestamp (emit cs vs)) (map c_timestamp cs)"
proof (induction cs arbitrary: vs)
  case Nil
  show ?case by (simp add: emit_def List.map_filter_def)
next
  case (Cons c cs)
  show ?case
  proof (cases vs)
    case Nil
    then show ?thesis by (simp add: emit_def List.map_filter_def)
  next
    case (Cons v ws)
    then show ?thesis
      using Cons.IH [of ws] by (cases v) (auto simp: emit_def List.map_filter_def intro: subseq_Cons2)
  qed
qed

lemma map_filter_point:
  assumes "\<And>i. k \<le> i \<Longrightarrow> i < length cs \<Longrightarrow> f i = map_option (point (c_timestamp (cs ! i))) (g i)"
  shows "List.map_filter f [k..<length cs] = emit (drop k cs) (map g [k..<length cs])"
proof -
  have "zip (drop k cs) (map g [k..<length cs]) = map (\<lambda>i. (cs ! i, g i)) [k..<length cs]"
    by (rule nth_equalityI) auto
  then have "emit (drop k cs) (map g [k..<length cs]) =
      List.map_filter (\<lambda>i. map_option (point (c_timestamp (cs ! i))) (g i)) [k..<length cs]"
    by (simp add: emit_def List.map_filter_def filter_map o_def)
  also have "\<dots> = List.map_filter f [k..<length cs]"
    unfolding List.map_filter_def using assms by (intro arg_cong2 [where f = map] ext map_cong filter_cong) auto
  finally show ?thesis by simp
qed

lemma map_point_emit:
  "map (\<lambda>(c, v). point (c_timestamp c) (g v)) (zip cs vs) = emit cs (map (\<lambda>v. Some (g v)) vs)"
  by (simp add: emit_def List.map_filter_def zip_map2 filter_map o_def case_prod_beta)

lemma causal_indicatorI:
  assumes f: "causal k f"
    and short: "\<And>cs. length cs \<le> k \<Longrightarrow> \<exists>t. compute cs = raise InsufficientDataError t"
    and enough: "\<And>cs. k < length cs \<Longrightarrow>
      compute cs = Inr \<lparr>ir_name = nm, ir_timeframe = tf cs, ir_points = emit (drop k cs) (f cs)\<rparr>"
  shows "causal_indicator compute (Suc k)"
proof
  fix cs ds r r'
  assume r: "compute cs = Inr r"
  then have k: "k < length cs" using short [of cs] by (cases "k < length cs") auto
  with r enough have points: "ir_points r = emit (drop k cs) (f cs)" by auto
  with subseq_order.trans [OF emit_stamped] show "subseq (map pt_timestamp (ir_points r)) (map c_timestamp cs)"
    by (metis drop_map suffix_drop suffix_imp_subseq)
  assume "compute (cs @ ds) = Inr r'"
  with enough [of "cs @ ds"] k have points': "ir_points r' = emit (drop k cs @ ds) (f (cs @ ds))" by auto
  obtain vs where vs: "f (cs @ ds) = f cs @ vs" using causal_prefix [OF f k] by (metis prefixE)
  have "length (drop k cs) = length (f cs)" using causal_length [OF f k] by simp
  with points points' vs have "ir_points r' = ir_points r @ emit ds vs" by (simp add: emit_append)
  moreover have "set (map pt_timestamp (emit ds vs)) \<subseteq> set (map c_timestamp ds)"
    by (rule subseq_set [OF emit_stamped])
  ultimately show "\<exists>ps. ir_points r' = ir_points r @ ps \<and>
      set (map pt_timestamp ps) \<subseteq> set (map c_timestamp ds)" by blast
qed (use short enough in \<open>auto simp: less_Suc_eq_le Suc_le_eq\<close>)

end
