(* ===== verification/Indicator_Library.thy ===== *)
theory Indicator_Library
  imports Indicator_Core
begin

text \<open>
  The twelve indicators of \<open>backend/app/indicators/library\<close>, each as its constructor's checks, its
  name, its warm-up period and its \<open>compute\<close>.  Every one is a causal series over the candles, so
  every one interprets the indicator interface; the bounds of the bounded oscillators hold for the
  rounded arithmetic.
\<close>

subsection \<open>The indicators\<close>

datatype indicator =
    SMA nat
  | EMA nat
  | BollingerBands nat int
  | ATR nat
  | RSI nat
  | MACD nat nat nat
  | WilliamsPercentR nat
  | Volume
  | AverageVolume nat
  | RelativeVolume nat
  | OBV
  | ChaikinMoneyFlow nat

definition period_init :: "(nat \<Rightarrow> indicator) \<Rightarrow> int \<Rightarrow> indicator result" where
  "period_init mk period =
     raise_if (period < 1) ValueError ''period must be >= 1'' (ok (mk (nat period)))"

definition bollinger_init :: "int \<Rightarrow> int \<Rightarrow> indicator result" where
  "bollinger_init period num_std =
     raise_if (period < 2) ValueError ''period must be >= 2''
     (raise_if (num_std \<le> 0) ValueError ''num_std must be > 0''
     (ok (BollingerBands (nat period) num_std)))"

definition macd_init :: "int \<Rightarrow> int \<Rightarrow> int \<Rightarrow> indicator result" where
  "macd_init fast slow signal =
     raise_if (fast < 1 \<or> slow < 1 \<or> signal < 1) ValueError
       ''fast, slow, and signal periods must be >= 1''
     (raise_if (slow \<le> fast) ValueError ''fast period must be < slow period''
     (ok (MACD (nat fast) (nat slow) (nat signal))))"

text \<open>What the constructors guarantee.\<close>

fun valid_indicator :: "indicator \<Rightarrow> bool" where
  "valid_indicator (BollingerBands p n) \<longleftrightarrow> 2 \<le> p \<and> 0 < n"
| "valid_indicator (MACD f s g) \<longleftrightarrow> 1 \<le> f \<and> f < s \<and> 1 \<le> g"
| "valid_indicator (SMA p) \<longleftrightarrow> 1 \<le> p"
| "valid_indicator (EMA p) \<longleftrightarrow> 1 \<le> p"
| "valid_indicator (ATR p) \<longleftrightarrow> 1 \<le> p"
| "valid_indicator (RSI p) \<longleftrightarrow> 1 \<le> p"
| "valid_indicator (WilliamsPercentR p) \<longleftrightarrow> 1 \<le> p"
| "valid_indicator (AverageVolume p) \<longleftrightarrow> 1 \<le> p"
| "valid_indicator (RelativeVolume p) \<longleftrightarrow> 1 \<le> p"
| "valid_indicator (ChaikinMoneyFlow p) \<longleftrightarrow> 1 \<le> p"
| "valid_indicator Volume \<longleftrightarrow> True"
| "valid_indicator OBV \<longleftrightarrow> True"

fun indicator_name :: "indicator \<Rightarrow> string" where
  "indicator_name (SMA p) = ''sma_'' @ show_nat p"
| "indicator_name (EMA p) = ''ema_'' @ show_nat p"
| "indicator_name (BollingerBands p n) = ''bollinger_'' @ show_nat p @ ''_'' @ show_int n"
| "indicator_name (ATR p) = ''atr_'' @ show_nat p"
| "indicator_name (RSI p) = ''rsi_'' @ show_nat p"
| "indicator_name (MACD f s g) = ''macd_'' @ show_nat f @ ''_'' @ show_nat s @ ''_'' @ show_nat g"
| "indicator_name (WilliamsPercentR p) = ''williams_r_'' @ show_nat p"
| "indicator_name Volume = ''volume''"
| "indicator_name (AverageVolume p) = ''avg_volume_'' @ show_nat p"
| "indicator_name (RelativeVolume p) = ''rvol_'' @ show_nat p"
| "indicator_name OBV = ''obv''"
| "indicator_name (ChaikinMoneyFlow p) = ''cmf_'' @ show_nat p"

fun warmup_period :: "indicator \<Rightarrow> nat" where
  "warmup_period (SMA p) = p"
| "warmup_period (EMA p) = p"
| "warmup_period (BollingerBands p n) = p"
| "warmup_period (ATR p) = p + 1"
| "warmup_period (RSI p) = p + 1"
| "warmup_period (MACD f s g) = s + g - 1"
| "warmup_period (WilliamsPercentR p) = p"
| "warmup_period Volume = 1"
| "warmup_period (AverageVolume p) = p"
| "warmup_period (RelativeVolume p) = p + 1"
| "warmup_period OBV = 1"
| "warmup_period (ChaikinMoneyFlow p) = p"

text \<open>The check and the result every \<open>compute\<close> shares.\<close>

definition require_warmup :: "indicator \<Rightarrow> candle list \<Rightarrow> 'a result \<Rightarrow> 'a result" where
  "require_warmup i cs k =
     raise_if (length cs < warmup_period i) InsufficientDataError
       (indicator_name i @ '' needs at least'') k"

definition result_of :: "indicator \<Rightarrow> candle list \<Rightarrow> indicator_point list \<Rightarrow> indicator_result" where
  "result_of i cs ps =
     \<lparr>ir_name = indicator_name i, ir_timeframe = c_timeframe (hd cs), ir_points = ps\<rparr>"

definition points_of :: "string \<Rightarrow> (candle \<times> decimal) list \<Rightarrow> indicator_point list" where
  "points_of key pairs = map (\<lambda>(c, v). point (c_timestamp c) [(key, v)]) pairs"

subsection \<open>Moving averages\<close>

definition sma_compute :: "nat \<Rightarrow> candle list \<Rightarrow> indicator_result result" where
  "sma_compute period cs =
     require_warmup (SMA period) cs
     (bind_result (rolling_mean (map c_close cs) period) (\<lambda>values.
      bind_result (zip_strict (drop (period - 1) cs) values) (\<lambda>pairs.
      ok (result_of (SMA period) cs (points_of ''sma'' pairs)))))"

definition ema_compute :: "nat \<Rightarrow> candle list \<Rightarrow> indicator_result result" where
  "ema_compute period cs =
     require_warmup (EMA period) cs
     (bind_result (ema_series (map c_close cs) period) (\<lambda>values.
      bind_result (zip_strict (drop (period - 1) cs) values) (\<lambda>pairs.
      ok (result_of (EMA period) cs (points_of ''ema'' pairs)))))"

subsection \<open>Volatility\<close>

definition bollinger_values :: "nat \<Rightarrow> int \<Rightarrow> decimal list \<Rightarrow> nat \<Rightarrow> (string \<times> decimal) list" where
  "bollinger_values period num_std closes index =
     (let window = slice (index + 1 - period) (index + 1) closes;
          mean = ddiv (dsum window) (of_nat period);
          variance = ddiv (dsum (map (\<lambda>v. dsquare (dsub v mean)) window)) (of_nat period);
          std_dev = dsqrt variance
      in [(''middle'', mean),
          (''upper'', dadd mean (dmul (of_int num_std) std_dev)),
          (''lower'', dsub mean (dmul (of_int num_std) std_dev))])"

definition bollinger_compute :: "nat \<Rightarrow> int \<Rightarrow> candle list \<Rightarrow> indicator_result result" where
  "bollinger_compute period num_std cs =
     require_warmup (BollingerBands period num_std) cs
     (ok (result_of (BollingerBands period num_std) cs
        (map (\<lambda>index. point (c_timestamp (cs ! index))
             (bollinger_values period num_std (map c_close cs) index))
          [period - 1..<length cs])))"

definition true_range :: "candle list \<Rightarrow> nat \<Rightarrow> decimal" where
  "true_range cs index =
     (let high = c_high (cs ! index); low = c_low (cs ! index);
          previous_close = c_close (cs ! (index - 1))
      in max (dsub high low)
           (max (dabs (dsub high previous_close)) (dabs (dsub low previous_close))))"

text \<open>Wilder's smoothing: the mean of the first window, then a weighted running average.\<close>

definition wilder_step :: "nat \<Rightarrow> decimal list \<Rightarrow> decimal \<Rightarrow> nat \<Rightarrow> decimal" where
  "wilder_step period xs avg index =
     ddiv (dadd (dmul avg (dsub (of_nat period) 1)) (xs ! index)) (of_nat period)"

definition wilder_seed :: "nat \<Rightarrow> decimal list \<Rightarrow> decimal" where
  "wilder_seed period xs = ddiv (dsum (take period xs)) (of_nat period)"

definition atr_compute :: "nat \<Rightarrow> candle list \<Rightarrow> indicator_result result" where
  "atr_compute period cs =
     require_warmup (ATR period) cs
     (let true_ranges = map (true_range cs) [1..<length cs];
          atr = wilder_seed period true_ranges;
          atr_values = atr # scan (wilder_step period true_ranges) atr [period..<length true_ranges]
      in bind_result (zip_strict (drop period cs) atr_values) (\<lambda>pairs.
         ok (result_of (ATR period) cs (points_of ''atr'' pairs))))"

subsection \<open>Momentum\<close>

definition rsi_from_averages :: "decimal \<Rightarrow> decimal \<Rightarrow> decimal" where
  "rsi_from_averages avg_gain avg_loss =
     (if avg_gain = 0 \<and> avg_loss = 0 then 50
      else if avg_loss = 0 then 100
      else let relative_strength = ddiv avg_gain avg_loss
           in dsub 100 (ddiv 100 (dadd 1 relative_strength)))"

definition close_change :: "candle list \<Rightarrow> nat \<Rightarrow> decimal" where
  "close_change cs index = dsub (c_close (cs ! index)) (c_close (cs ! (index - 1)))"

definition gain :: "candle list \<Rightarrow> nat \<Rightarrow> decimal" where
  "gain cs index = (let change = close_change cs index in if 0 < change then change else 0)"

definition loss :: "candle list \<Rightarrow> nat \<Rightarrow> decimal" where
  "loss cs index = (let change = close_change cs index in if change < 0 then dneg change else 0)"

definition rsi_compute :: "nat \<Rightarrow> candle list \<Rightarrow> indicator_result result" where
  "rsi_compute period cs =
     require_warmup (RSI period) cs
     (let gains = map (gain cs) [1..<length cs];
          losses = map (loss cs) [1..<length cs];
          avg_gain = wilder_seed period gains;
          avg_loss = wilder_seed period losses;
          averages = (avg_gain, avg_loss) #
            scan (\<lambda>(g, l) index. (wilder_step period gains g index, wilder_step period losses l index))
              (avg_gain, avg_loss) [period..<length gains];
          rsi_values = map (\<lambda>(g, l). rsi_from_averages g l) averages
      in bind_result (zip_strict (drop period cs) rsi_values) (\<lambda>pairs.
         ok (result_of (RSI period) cs (points_of ''rsi'' pairs))))"

definition macd_compute :: "nat \<Rightarrow> nat \<Rightarrow> nat \<Rightarrow> candle list \<Rightarrow> indicator_result result" where
  "macd_compute fast slow signal cs =
     require_warmup (MACD fast slow signal) cs
     (let closes = map c_close cs
      in bind_result (ema_series closes fast) (\<lambda>fast_series.
         bind_result (ema_series closes slow) (\<lambda>slow_series.
         bind_result (zip_strict (drop (slow - fast) fast_series) slow_series) (\<lambda>aligned.
         let macd_line = map (\<lambda>(f, s). dsub f s) aligned
         in bind_result (ema_series macd_line signal) (\<lambda>signal_line.
            let aligned_macd = drop (signal - 1) macd_line
            in bind_result (zip_strict aligned_macd signal_line) (\<lambda>ms.
               let histogram = map (\<lambda>(m, s). dsub m s) ms
               in bind_result (zip_strict ms histogram) (\<lambda>msh.
                  bind_result (zip_strict (drop (slow + signal - 2) cs) msh) (\<lambda>rows.
                  ok (result_of (MACD fast slow signal) cs
                    (map (\<lambda>(c, ((m, s), h)). point (c_timestamp c)
                            [(''macd'', m), (''signal'', s), (''histogram'', h)]) rows))))))))))"

definition williams_value :: "nat \<Rightarrow> candle list \<Rightarrow> nat \<Rightarrow> decimal option" where
  "williams_value period cs index =
     (let window = slice (index + 1 - period) (index + 1) cs;
          highest_high = Max (set (map c_high window));
          lowest_low = Min (set (map c_low window));
          denominator = dsub highest_high lowest_low
      in if denominator = 0 then None
         else Some (dmul (ddiv (dsub highest_high (c_close (cs ! index))) denominator) (- 100)))"

definition indexed_points ::
    "string \<Rightarrow> (candle list \<Rightarrow> nat \<Rightarrow> decimal option) \<Rightarrow> candle list \<Rightarrow> nat list \<Rightarrow> indicator_point list" where
  "indexed_points key val cs indices =
     List.map_filter (\<lambda>index. case val cs index of None \<Rightarrow> None
       | Some v \<Rightarrow> Some (point (c_timestamp (cs ! index)) [(key, v)])) indices"

definition williams_compute :: "nat \<Rightarrow> candle list \<Rightarrow> indicator_result result" where
  "williams_compute period cs =
     require_warmup (WilliamsPercentR period) cs
     (ok (result_of (WilliamsPercentR period) cs
        (indexed_points ''williams_r'' (williams_value period) cs [period - 1..<length cs])))"

subsection \<open>Volume\<close>

definition volume_compute :: "candle list \<Rightarrow> indicator_result result" where
  "volume_compute cs =
     require_warmup Volume cs
     (ok (result_of Volume cs (map (\<lambda>c. point (c_timestamp c) [(''volume'', c_volume c)]) cs)))"

definition avg_volume_compute :: "nat \<Rightarrow> candle list \<Rightarrow> indicator_result result" where
  "avg_volume_compute period cs =
     require_warmup (AverageVolume period) cs
     (bind_result (rolling_mean (map c_volume cs) period) (\<lambda>values.
      bind_result (zip_strict (drop (period - 1) cs) values) (\<lambda>pairs.
      ok (result_of (AverageVolume period) cs (points_of ''avg_volume'' pairs)))))"

definition rvol_value :: "nat \<Rightarrow> candle list \<Rightarrow> nat \<Rightarrow> decimal option" where
  "rvol_value period cs index =
     (let window = slice (index - period) index cs;
          avg_volume = ddiv (dsum (map c_volume window)) (of_nat period)
      in if avg_volume = 0 then None else Some (ddiv (c_volume (cs ! index)) avg_volume))"

definition rvol_compute :: "nat \<Rightarrow> candle list \<Rightarrow> indicator_result result" where
  "rvol_compute period cs =
     require_warmup (RelativeVolume period) cs
     (ok (result_of (RelativeVolume period) cs
        (indexed_points ''rvol'' (rvol_value period) cs [period..<length cs])))"

definition obv_step :: "candle list \<Rightarrow> decimal \<Rightarrow> nat \<Rightarrow> decimal" where
  "obv_step cs obv index =
     (if c_close (cs ! index) > c_close (cs ! (index - 1)) then dadd obv (c_volume (cs ! index))
      else if c_close (cs ! index) < c_close (cs ! (index - 1)) then dsub obv (c_volume (cs ! index))
      else obv)"

definition obv_compute :: "candle list \<Rightarrow> indicator_result result" where
  "obv_compute cs =
     require_warmup OBV cs
     (bind_result (zip_strict cs (0 # scan (obv_step cs) 0 [1..<length cs])) (\<lambda>pairs.
      ok (result_of OBV cs (points_of ''obv'' pairs))))"

definition money_flow_volume :: "candle \<Rightarrow> decimal" where
  "money_flow_volume c =
     (let price_range = dsub (c_high c) (c_low c);
          multiplier =
            (if price_range = 0 then 0
             else ddiv (dsub (dsub (c_close c) (c_low c)) (dsub (c_high c) (c_close c))) price_range)
      in dmul multiplier (c_volume c))"

definition cmf_value :: "nat \<Rightarrow> candle list \<Rightarrow> nat \<Rightarrow> decimal option" where
  "cmf_value period cs index =
     (let window_candles = slice (index + 1 - period) (index + 1) cs;
          window_mfv = slice (index + 1 - period) (index + 1) (map money_flow_volume cs);
          window_volume = dsum (map c_volume window_candles)
      in if window_volume = 0 then None else Some (ddiv (dsum window_mfv) window_volume))"

definition cmf_compute :: "nat \<Rightarrow> candle list \<Rightarrow> indicator_result result" where
  "cmf_compute period cs =
     require_warmup (ChaikinMoneyFlow period) cs
     (ok (result_of (ChaikinMoneyFlow period) cs
        (indexed_points ''cmf'' (cmf_value period) cs [period - 1..<length cs])))"

fun indicator_compute :: "indicator \<Rightarrow> candle list \<Rightarrow> indicator_result result" where
  "indicator_compute (SMA p) = sma_compute p"
| "indicator_compute (EMA p) = ema_compute p"
| "indicator_compute (BollingerBands p n) = bollinger_compute p n"
| "indicator_compute (ATR p) = atr_compute p"
| "indicator_compute (RSI p) = rsi_compute p"
| "indicator_compute (MACD f s g) = macd_compute f s g"
| "indicator_compute (WilliamsPercentR p) = williams_compute p"
| "indicator_compute Volume = volume_compute"
| "indicator_compute (AverageVolume p) = avg_volume_compute p"
| "indicator_compute (RelativeVolume p) = rvol_compute p"
| "indicator_compute OBV = obv_compute"
| "indicator_compute (ChaikinMoneyFlow p) = cmf_compute p"

subsection \<open>Every indicator is causal\<close>

lemma require_warmup_simps:
  "length cs < warmup_period i \<Longrightarrow>
     require_warmup i cs k = raise InsufficientDataError (indicator_name i @ '' needs at least'')"
  "warmup_period i \<le> length cs \<Longrightarrow> require_warmup i cs k = k"
  by (simp_all add: require_warmup_def)

lemma points_of_emit: "points_of key (zip cs vs) = emit cs (map (\<lambda>v. Some [(key, v)]) vs)"
  unfolding points_of_def by (rule map_point_emit)

lemma indexed_points_emit:
  "indexed_points key val cs [k..<length cs] =
     emit (drop k cs) (map (\<lambda>i. map_option (\<lambda>v. [(key, v)]) (val cs i)) [k..<length cs])"
  unfolding indexed_points_def by (rule map_filter_point) (simp split: option.split)

lemma map_points_emit:
  "map (\<lambda>i. point (c_timestamp (cs ! i)) (g i)) [k..<length cs] =
     emit (drop k cs) (map (\<lambda>i. Some (g i)) [k..<length cs])"
  using map_filter_point [of k cs "\<lambda>i. Some (point (c_timestamp (cs ! i)) (g i))" "\<lambda>i. Some (g i)"]
  by (simp add: List.map_filter_def o_def)

lemma causal_on_map: "causal k g \<Longrightarrow> causal k (\<lambda>xs. g (map h xs))"
  using causal_comp [of 0 "map h" k g] by (simp add: causal_def)

lemma windowed_causal:
  assumes "causal k g" and w: "1 \<le> p" "k = p - 1"
    and "\<And>cs. length cs < p \<Longrightarrow> \<exists>t. compute cs = raise InsufficientDataError t"
    and "\<And>cs. p \<le> length cs \<Longrightarrow>
      compute cs = ok (result_of i cs (points_of key (zip (drop (p - 1) cs) (g cs))))"
  shows "causal_indicator compute p"
proof -
  have "causal_indicator compute (Suc k)"
    by (rule causal_indicatorI [OF causal_map [OF assms(1), of "\<lambda>v. Some [(key, v)]"]])
      (use assms in \<open>auto simp: result_of_def points_of_emit\<close>)
  with w show ?thesis by simp
qed

lemma indexed_causal:
  assumes w: "1 \<le> p"
    and "\<And>cs ds i. p - 1 \<le> i \<Longrightarrow> i < length cs \<Longrightarrow> val (cs @ ds) i = val cs i"
    and "\<And>cs. length cs < p \<Longrightarrow> \<exists>t. compute cs = raise InsufficientDataError t"
    and "\<And>cs. p \<le> length cs \<Longrightarrow>
      compute cs = ok (result_of i cs (indexed_points key val cs [p - 1..<length cs]))"
  shows "causal_indicator compute p"
proof -
  let ?f = "\<lambda>cs. map (\<lambda>i. map_option (\<lambda>v. [(key, v)]) (val cs i)) [p - 1..<length cs]"
  have "causal (p - 1) ?f" by (rule causal_index) (simp add: assms(2))
  then have "causal_indicator compute (Suc (p - 1))"
    by (rule causal_indicatorI) (use assms in \<open>auto simp: result_of_def indexed_points_emit\<close>)
  with w show ?thesis by simp
qed

lemmas causal_means =
  causal_on_map [OF causal_rolling_mean] causal_on_map [OF causal_rolling_mean, simplified]
  causal_on_map [OF causal_ema] causal_on_map [OF causal_ema, simplified]

lemma sma_causal: "1 \<le> p \<Longrightarrow> causal_indicator (sma_compute p) p"
  by (rule windowed_causal [where g = "\<lambda>cs. rolling_mean_values p (map c_close cs)" and key = "''sma''"
        and i = "SMA p"])
    (simp_all add: causal_means sma_compute_def require_warmup_simps
      rolling_mean_ok causal_length [OF causal_rolling_mean])

lemma ema_causal: "1 \<le> p \<Longrightarrow> causal_indicator (ema_compute p) p"
  by (rule windowed_causal [where g = "\<lambda>cs. ema_values p (map c_close cs)" and key = "''ema''"
        and i = "EMA p"])
    (simp_all add: causal_means ema_compute_def require_warmup_simps
      ema_series_ok causal_length [OF causal_ema])

lemma avg_volume_causal: "1 \<le> p \<Longrightarrow> causal_indicator (avg_volume_compute p) p"
  by (rule windowed_causal [where g = "\<lambda>cs. rolling_mean_values p (map c_volume cs)"
        and key = "''avg_volume''" and i = "AverageVolume p"])
    (simp_all add: causal_means avg_volume_compute_def require_warmup_simps
      rolling_mean_ok causal_length [OF causal_rolling_mean])

lemma bollinger_causal:
  assumes p: "2 \<le> p"
  shows "causal_indicator (bollinger_compute p n) p"
proof -
  let ?g = "\<lambda>cs i. bollinger_values p n (map c_close cs) i"
  have "causal (p - 1) (\<lambda>cs. map (\<lambda>i. Some (?g cs i)) [p - 1..<length cs])"
    by (rule causal_index) (simp add: bollinger_values_def)
  then have "causal_indicator (bollinger_compute p n) (Suc (p - 1))"
    by (rule causal_indicatorI)
      (use p in \<open>auto simp: bollinger_compute_def require_warmup_simps result_of_def map_points_emit\<close>)
  with p show ?thesis by simp
qed

lemma williams_causal: "1 \<le> p \<Longrightarrow> causal_indicator (williams_compute p) p"
  by (rule indexed_causal [where val = "williams_value p" and i = "WilliamsPercentR p"
        and key = "''williams_r''"])
    (simp_all add: williams_value_def williams_compute_def require_warmup_simps Let_def nth_append_left)

lemma cmf_causal: "1 \<le> p \<Longrightarrow> causal_indicator (cmf_compute p) p"
  by (rule indexed_causal [where val = "cmf_value p" and i = "ChaikinMoneyFlow p" and key = "''cmf''"])
    (simp_all add: cmf_value_def cmf_compute_def require_warmup_simps Let_def)

lemma rvol_causal: "1 \<le> p \<Longrightarrow> causal_indicator (rvol_compute p) (p + 1)"
  by (rule indexed_causal [where val = "rvol_value p" and i = "RelativeVolume p" and key = "''rvol''"])
    (simp_all add: rvol_value_def rvol_compute_def require_warmup_simps Let_def nth_append_left)

lemma volume_causal: "causal_indicator volume_compute 1"
  by (rule windowed_causal [where g = "map c_volume" and key = "''volume''" and i = Volume and k = 0])
    (auto simp: causal_def volume_compute_def require_warmup_def points_of_def zip_map2 zip_same_conv_map
      o_def)

lemma causal_wilder:
  "1 \<le> p \<Longrightarrow>
     causal (p - 1) (\<lambda>xs. wilder_seed p xs # scan (wilder_step p xs) (wilder_seed p xs) [p..<length xs])"
proof -
  assume p: "1 \<le> p"
  have "causal (p - 1) (\<lambda>xs. wilder_seed p xs #
      scan (wilder_step p xs) (wilder_seed p xs) [Suc (p - 1)..<length xs])"
    by (rule causal_scan) (use p in \<open>auto simp: wilder_seed_def wilder_step_def nth_append\<close>)
  with p show ?thesis by simp
qed

lemma causal_true_range: "causal 1 (\<lambda>cs. map (true_range cs) [1..<length cs])"
  and causal_gain: "causal 1 (\<lambda>cs. map (gain cs) [1..<length cs])"
  and causal_loss: "causal 1 (\<lambda>cs. map (loss cs) [1..<length cs])"
  by (rule causal_index, simp add: true_range_def gain_def loss_def close_change_def Let_def nth_append_left)+

definition atr_values :: "nat \<Rightarrow> candle list \<Rightarrow> decimal list" where
  "atr_values p cs =
     (let xs = map (true_range cs) [1..<length cs]
      in wilder_seed p xs # scan (wilder_step p xs) (wilder_seed p xs) [p..<length xs])"

lemma causal_atr_values:
  assumes p: "1 \<le> p"
  shows "causal p (atr_values p)"
  using causal_comp [OF causal_true_range causal_wilder [OF p]] p
  by (simp add: atr_values_def [abs_def] Let_def)

lemma atr_compute_ok:
  assumes "1 \<le> p" and "Suc p \<le> length cs"
  shows "atr_compute p cs = ok (result_of (ATR p) cs (points_of ''atr'' (zip (drop p cs) (atr_values p cs))))"
  using assms causal_length [OF causal_atr_values, of p cs]
  by (auto simp: atr_compute_def require_warmup_simps atr_values_def Let_def)

lemma atr_causal:
  assumes p: "1 \<le> p"
  shows "causal_indicator (atr_compute p) (p + 1)"
  by (rule windowed_causal [where key = "''atr''" and i = "ATR p", OF causal_atr_values [OF p]])
    (simp_all add: atr_compute_ok [OF p], simp add: atr_compute_def require_warmup_simps)

definition rsi_values :: "nat \<Rightarrow> candle list \<Rightarrow> decimal list" where
  "rsi_values p cs =
     (let gs = map (gain cs) [1..<length cs]; ls = map (loss cs) [1..<length cs];
          s = (wilder_seed p gs, wilder_seed p ls)
      in map (\<lambda>(g, l). rsi_from_averages g l)
           (s # scan (\<lambda>(g, l) i. (wilder_step p gs g i, wilder_step p ls l i)) s [p..<length gs]))"

lemma scan_pair:
  "scan (\<lambda>(a, b) i. (f a i, g b i)) (s, t) xs = zip (scan f s xs) (scan g t xs)"
  by (induction xs arbitrary: s t) auto

lemma causal_rsi_values:
  assumes p: "1 \<le> p"
  shows "causal p (rsi_values p)"
proof -
  let ?w = "\<lambda>xs. wilder_seed p xs # scan (wilder_step p xs) (wilder_seed p xs) [p..<length xs]"
  have "causal (1 + (p - 1)) (\<lambda>cs. zip (?w (map (gain cs) [1..<length cs])) (?w (map (loss cs) [1..<length cs])))"
    by (intro causal_zip causal_comp [OF causal_gain causal_wilder [OF p]]
        causal_comp [OF causal_loss causal_wilder [OF p]])
  from causal_map [OF this, of "\<lambda>(g, l). rsi_from_averages g l"] p
  show ?thesis by (simp add: rsi_values_def [abs_def] Let_def scan_pair)
qed

lemma rsi_compute_ok:
  assumes "1 \<le> p" and "Suc p \<le> length cs"
  shows "rsi_compute p cs = ok (result_of (RSI p) cs (points_of ''rsi'' (zip (drop p cs) (rsi_values p cs))))"
  using assms causal_length [OF causal_rsi_values, of p cs]
  by (auto simp: rsi_compute_def require_warmup_simps rsi_values_def Let_def)

lemma rsi_causal:
  assumes p: "1 \<le> p"
  shows "causal_indicator (rsi_compute p) (p + 1)"
  by (rule windowed_causal [where key = "''rsi''" and i = "RSI p", OF causal_rsi_values [OF p]])
    (simp_all add: rsi_compute_ok [OF p], simp add: rsi_compute_def require_warmup_simps)

definition obv_values :: "candle list \<Rightarrow> decimal list" where
  "obv_values cs = 0 # scan (obv_step cs) 0 [Suc 0..<length cs]"

lemma obv_causal: "causal_indicator obv_compute 1"
proof -
  have c: "causal 0 obv_values"
    unfolding obv_values_def [abs_def]
    by (rule causal_scan) (simp_all add: obv_step_def nth_append_left)
  then show ?thesis
    by (rule windowed_causal [where key = "''obv''" and i = OBV])
      (use causal_length [OF c] in \<open>auto simp: obv_compute_def require_warmup_def obv_values_def Suc_le_eq\<close>)
qed

definition macd_line :: "nat \<Rightarrow> nat \<Rightarrow> candle list \<Rightarrow> decimal list" where
  "macd_line fast slow cs =
     map (\<lambda>(f, s). dsub f s)
       (zip (drop (slow - fast) (ema_values fast (map c_close cs))) (ema_values slow (map c_close cs)))"

definition macd_rows :: "nat \<Rightarrow> nat \<Rightarrow> nat \<Rightarrow> candle list \<Rightarrow> ((decimal \<times> decimal) \<times> decimal) list" where
  "macd_rows fast slow signal cs =
     (let ms = zip (drop (signal - 1) (macd_line fast slow cs)) (ema_values signal (macd_line fast slow cs))
      in zip ms (map (\<lambda>(m, s). dsub m s) ms))"

lemma causal_macd_line:
  assumes "1 \<le> f" and "f < s"
  shows "causal (s - 1) (macd_line f s)"
proof -
  have "causal (f - 1 + (s - f)) (\<lambda>cs. drop (s - f) (ema_values f (map c_close cs)))"
    using assms by (intro causal_drop causal_on_map causal_ema)
  moreover have "causal (s - 1) (\<lambda>cs. ema_values s (map c_close cs))"
    using assms by (intro causal_on_map causal_ema) auto
  ultimately show ?thesis
    unfolding macd_line_def [abs_def] using assms by (intro causal_map causal_zip) auto
qed

lemma causal_macd_rows:
  assumes "1 \<le> f" and "f < s" and "1 \<le> g"
  shows "causal (s + g - 2) (macd_rows f s g)"
proof -
  note line = causal_macd_line [OF assms(1,2)]
  have k: "s + g - 2 = s - 1 + (g - 1)" using assms by auto
  have c: "causal (s + g - 2) (\<lambda>cs. zip (drop (g - 1) (macd_line f s cs)) (ema_values g (macd_line f s cs)))"
    unfolding k by (intro causal_zip causal_drop line causal_comp [OF line causal_ema [OF assms(3)]])
  show ?thesis
    unfolding macd_rows_def Let_def by (rule causal_zip [OF c causal_map [OF c]])
qed

lemma macd_compute_rows:
  assumes "1 \<le> f" and "f < s" and "1 \<le> g" and len: "s + g - 1 \<le> length cs"
  shows "macd_compute f s g cs = ok (result_of (MACD f s g) cs
    (map (\<lambda>(c, ((m, s), h)). point (c_timestamp c) [(''macd'', m), (''signal'', s), (''histogram'', h)])
      (zip (drop (s + g - 2) cs) (macd_rows f s g cs))))"
proof -
  let ?cl = "map c_close cs"
  note line = causal_macd_line [OF assms(1,2)]
  have n: "s - 1 < length cs" "f - 1 < length cs" "s + g - 2 < length cs" using assms by auto
  have fast: "length (ema_values f ?cl) = length cs - (f - 1)"
    using causal_length [OF causal_ema, of f ?cl] assms n by simp
  have slow: "length (ema_values s ?cl) = length cs - (s - 1)"
    using causal_length [OF causal_ema, of s ?cl] assms n by simp
  have mlen: "length (macd_line f s cs) = length cs - (s - 1)" using causal_length [OF line n(1)] .
  have sig: "length (ema_values g (macd_line f s cs)) = length cs - (s - 1) - (g - 1)"
    using causal_length [OF causal_ema, of g "macd_line f s cs"] assms n mlen by simp
  have e: "ema_series ?cl f = ok (ema_values f ?cl)" "ema_series ?cl s = ok (ema_values s ?cl)"
    using assms n by (auto intro!: ema_series_ok)
  have z: "zip_strict (drop (s - f) (ema_values f ?cl)) (ema_values s ?cl) =
      ok (zip (drop (s - f) (ema_values f ?cl)) (ema_values s ?cl))"
    using assms fast slow by (intro zip_strict_ok) simp
  have e3: "ema_series (macd_line f s cs) g = ok (ema_values g (macd_line f s cs))"
    using assms len mlen by (intro ema_series_ok) auto
  show ?thesis
    unfolding macd_compute_def using len mlen sig assms
    by (simp add: require_warmup_simps Let_def e z e3 macd_rows_def flip: macd_line_def)
qed

lemma macd_causal:
  assumes "1 \<le> f" and "f < s" and "1 \<le> g"
  shows "causal_indicator (macd_compute f s g) (s + g - 1)"
proof -
  have "causal_indicator (macd_compute f s g) (Suc (s + g - 2))"
  proof (rule causal_indicatorI)
    show "causal (s + g - 2) (\<lambda>cs. map (\<lambda>v. Some (case v of ((m, s), h) \<Rightarrow>
        [(''macd'', m), (''signal'', s), (''histogram'', h)])) (macd_rows f s g cs))"
      by (rule causal_map [OF causal_macd_rows [OF assms]])
    show "\<exists>t. macd_compute f s g cs = raise InsufficientDataError t" if "length cs \<le> s + g - 2" for cs
      using that assms by (simp add: macd_compute_def require_warmup_simps)
    show "macd_compute f s g cs = ok \<lparr>ir_name = indicator_name (MACD f s g),
        ir_timeframe = c_timeframe (hd cs), ir_points = emit (drop (s + g - 2) cs)
          (map (\<lambda>v. Some (case v of ((m, s), h) \<Rightarrow>
            [(''macd'', m), (''signal'', s), (''histogram'', h)])) (macd_rows f s g cs))\<rparr>"
      if "s + g - 2 < length cs" for cs
      using that assms macd_compute_rows [OF assms, of cs]
      by (simp add: result_of_def flip: map_point_emit) (simp add: case_prod_beta)
  qed
  moreover have "Suc (s + g - 2) = s + g - 1" using assms by arith
  ultimately show ?thesis by simp
qed

text \<open>The interface, interpreted on each class of the library at the periods its constructor admits.\<close>

interpretation sma: causal_indicator "sma_compute (Suc p)" "Suc p" for p
  by (rule sma_causal) simp

interpretation ema: causal_indicator "ema_compute (Suc p)" "Suc p" for p
  by (rule ema_causal) simp

interpretation bollinger: causal_indicator "bollinger_compute (Suc (Suc p)) n" "Suc (Suc p)" for p n
  by (rule bollinger_causal) simp

interpretation atr: causal_indicator "atr_compute (Suc p)" "Suc p + 1" for p
  by (rule atr_causal) simp

interpretation rsi: causal_indicator "rsi_compute (Suc p)" "Suc p + 1" for p
  by (rule rsi_causal) simp

interpretation macd: causal_indicator "macd_compute (Suc f) (Suc f + Suc d) (Suc g)"
    "Suc f + Suc d + Suc g - 1" for f d g
  by (rule macd_causal) simp_all

interpretation williams: causal_indicator "williams_compute (Suc p)" "Suc p" for p
  by (rule williams_causal) simp

interpretation volume: causal_indicator volume_compute 1
  by (rule volume_causal)

interpretation avg_volume: causal_indicator "avg_volume_compute (Suc p)" "Suc p" for p
  by (rule avg_volume_causal) simp

interpretation rvol: causal_indicator "rvol_compute (Suc p)" "Suc p + 1" for p
  by (rule rvol_causal) simp

interpretation obv: causal_indicator obv_compute 1
  by (rule obv_causal)

interpretation cmf: causal_indicator "cmf_compute (Suc p)" "Suc p" for p
  by (rule cmf_causal) simp

lemma library_causal:
  "valid_indicator i \<Longrightarrow> causal_indicator (indicator_compute i) (warmup_period i)"
  by (cases i) (simp_all add: sma_causal ema_causal bollinger_causal atr_causal [simplified]
      rsi_causal [simplified] macd_causal [simplified] williams_causal volume_causal [simplified]
      avg_volume_causal rvol_causal [simplified] obv_causal [simplified] cmf_causal)

subsection \<open>Bounds of the oscillators\<close>

lemma representable_of_int_numeral [simp]: "\<bar>m\<bar> \<le> 10 ^ 28 \<Longrightarrow> dec_round (of_int m) = of_int m"
  by (rule dec_round_id) simp

lemma dec_round_numerals [simp]: "dec_round 100 = 100" "dec_round 50 = 50" "dec_round 1 = 1"
  using representable_of_int_numeral [of 100] representable_of_int_numeral [of 50]
    representable_of_int_numeral [of 1] by simp_all

lemma rsi_from_averages_bounds:
  assumes "0 \<le> g" and "0 \<le> l"
  shows "0 \<le> rsi_from_averages g l \<and> rsi_from_averages g l \<le> 100"
proof (cases "l = 0")
  case False
  let ?rs = "ddiv g l"
  have "1 \<le> dadd 1 ?rs"
    unfolding dadd_def by (rule dec.rnd_above) (use assms in \<open>simp_all add: ddiv_nonneg\<close>)
  then have "0 \<le> 100 / dadd 1 ?rs" "100 / dadd 1 ?rs \<le> 100" by (simp_all add: divide_le_eq)
  then have "0 \<le> ddiv 100 (dadd 1 ?rs)" "ddiv 100 (dadd 1 ?rs) \<le> 100"
    unfolding ddiv_def [of 100] by (auto intro: dec.rnd_nonneg dec.rnd_below)
  then have "0 \<le> dsub 100 (ddiv 100 (dadd 1 ?rs))" "dsub 100 (ddiv 100 (dadd 1 ?rs)) \<le> 100"
    by (auto simp: dsub_nonneg_iff) (auto simp: dsub_def intro: dec.rnd_below)
  with False show ?thesis by (simp add: rsi_from_averages_def Let_def)
qed (simp add: rsi_from_averages_def)

lemma wilder_nonneg:
  assumes p: "1 \<le> p" and xs: "\<And>x. x \<in> set xs \<Longrightarrow> 0 \<le> x"
    and v: "v \<in> set (wilder_seed p xs # scan (wilder_step p xs) (wilder_seed p xs) [p..<length xs])"
  shows "0 \<le> v"
proof -
  have seed: "0 \<le> wilder_seed p xs"
    unfolding wilder_seed_def using xs by (intro ddiv_nonneg dsum_nonneg) (auto dest: in_set_takeD)
  moreover have "0 \<le> t" if "t \<in> set (scan (wilder_step p xs) (wilder_seed p xs) [p..<length xs])" for t
  proof (rule scan_invariant [where P = "\<lambda>t. 0 \<le> t" and t = t, OF seed _ that])
    fix s :: rat and i
    assume "0 \<le> s" and "i \<in> set [p..<length xs]"
    then show "0 \<le> wilder_step p xs s i"
      unfolding wilder_step_def using p xs
      by (intro ddiv_nonneg dadd_nonneg dmul_nonneg) (auto simp: dsub_nonneg_iff)
  qed
  ultimately show ?thesis using v by auto
qed

lemma rsi_values_bounds:
  assumes p: "1 \<le> p" and v: "v \<in> set (rsi_values p cs)"
  shows "0 \<le> v \<and> v \<le> 100"
proof -
  let ?gs = "map (gain cs) [1..<length cs]" and ?ls = "map (loss cs) [1..<length cs]"
  let ?w = "\<lambda>xs. wilder_seed p xs # scan (wilder_step p xs) (wilder_seed p xs) [p..<length xs]"
  have "v \<in> set (map (\<lambda>(g, l). rsi_from_averages g l) (zip (?w ?gs) (?w ?ls)))"
    using v by (simp add: rsi_values_def Let_def scan_pair)
  then obtain g l where z: "(g, l) \<in> set (zip (?w ?gs) (?w ?ls))" and eq: "v = rsi_from_averages g l"
    by (auto simp del: zip_Cons_Cons)
  note gl = set_zip_leftD [OF z] set_zip_rightD [OF z]
  have "0 \<le> g"
    by (rule wilder_nonneg [OF p _ gl(1)]) (auto simp: gain_def Let_def)
  moreover have "0 \<le> l"
    by (rule wilder_nonneg [OF p _ gl(2)]) (auto simp: loss_def Let_def dneg_def dec.rnd_nonneg)
  ultimately show ?thesis by (simp add: eq rsi_from_averages_bounds)
qed

lemma points_of_bounded:
  "pt \<in> set (points_of key (zip cs vs)) \<Longrightarrow> \<exists>v\<in>set vs. pt_values pt = [(key, v)]"
  by (auto simp: points_of_def dest: set_zip_rightD)

lemma indexed_points_val:
  assumes "pt \<in> set (indexed_points key val cs is)"
  shows "\<exists>i\<in>set is. \<exists>v. val cs i = Some v \<and> pt_values pt = [(key, v)]"
  using assms by (auto simp: indexed_points_def List.map_filter_def split: option.splits)

lemma slice_nth_mem: "i < j \<Longrightarrow> j \<le> length xs \<Longrightarrow> xs ! (j - 1) \<in> set (slice i j xs)"
proof -
  assume a: "i < j" "j \<le> length xs"
  then have "slice i j xs ! (j - 1 - i) = xs ! (j - 1)" by (simp add: slice_def)
  then show ?thesis using a by (metis diff_less length_slice nth_mem zero_less_diff
      zero_less_one diff_commute)
qed

lemma williams_value_bounds:
  assumes valid: "\<And>c. c \<in> set cs \<Longrightarrow> valid_candle c" and p: "1 \<le> p"
    and i: "i < length cs" and v: "williams_value p cs i = Some v"
  shows "-100 \<le> v \<and> v \<le> 0"
proof -
  let ?win = "slice (i + 1 - p) (i + 1) cs"
  let ?hh = "Max (set (map c_high ?win))" and ?ll = "Min (set (map c_low ?win))"
  have m: "cs ! i \<in> set ?win" using slice_nth_mem [of "i + 1 - p" "i + 1" cs] p i by simp
  have c: "valid_candle (cs ! i)" using valid i by simp
  from m have "c_high (cs ! i) \<le> ?hh" "?ll \<le> c_low (cs ! i)" by auto
  with valid_candleD(6,7) [OF c] have close: "?ll \<le> c_close (cs ! i)" "c_close (cs ! i) \<le> ?hh" by auto
  let ?d = "dsub ?hh ?ll" and ?n = "dsub ?hh (c_close (cs ! i))"
  from v have d0: "?d \<noteq> 0" and veq: "v = dmul (ddiv ?n ?d) (- 100)"
    by (auto simp: williams_value_def Let_def split: if_splits)
  have "0 \<le> ?n" "?n \<le> ?d"
    using close by (simp_all add: dsub_nonneg_iff) (simp add: dsub_def dec.rnd_mono)
  moreover have "0 < ?d" using calculation d0 by linarith
  ultimately have f: "0 \<le> ddiv ?n ?d" "ddiv ?n ?d \<le> 1" using ddiv_fraction [of ?n ?d] by auto
  have "dmul (ddiv ?n ?d) (- 100) = - dec_round (ddiv ?n ?d * 100)"
    by (simp add: dmul_def flip: dec.rnd_minus)
  moreover have "0 \<le> dec_round (ddiv ?n ?d * 100)" "dec_round (ddiv ?n ?d * 100) \<le> 100"
    using f by (auto intro: dec.rnd_nonneg dec.rnd_below)
  ultimately show ?thesis by (simp add: veq)
qed

lemma money_flow_bound:
  assumes "valid_candle c" and "representable (c_volume c)"
  shows "\<bar>money_flow_volume c\<bar> \<le> c_volume c"
proof -
  let ?r = "dsub (c_high c) (c_low c)"
  let ?a = "dsub (c_close c) (c_low c)" and ?b = "dsub (c_high c) (c_close c)"
  let ?m = "if ?r = 0 then 0 else ddiv (dsub ?a ?b) ?r"
  note c = valid_candleD [OF assms(1)]
  have ab: "0 \<le> ?a" "?a \<le> ?r" "0 \<le> ?b" "?b \<le> ?r"
    using c by (simp_all add: dsub_nonneg_iff) (simp_all add: dsub_def dec.rnd_mono)
  have "\<bar>?a - ?b\<bar> \<le> ?r" using ab by linarith
  then have "\<bar>dsub ?a ?b\<bar> \<le> ?r"
    unfolding dsub_def [of ?a] dec.rnd_abs [symmetric]
    by (intro dec.rnd_below) (simp_all add: dsub_def dec.rnd_idem)
  then have m: "\<bar>?m\<bar> \<le> 1" using ab by (auto intro!: ddiv_fraction_abs)
  have "money_flow_volume c = dec_round (?m * c_volume c)"
    by (simp add: money_flow_volume_def dmul_def Let_def)
  moreover have "\<bar>?m * c_volume c\<bar> \<le> c_volume c"
    using mult_right_mono [OF m, of "c_volume c"] c(10) by (simp add: abs_mult)
  ultimately show ?thesis
    using assms(2) by (auto simp flip: dec.rnd_abs simp: representable_def intro: dec.rnd_below)
qed

lemma dsum_abs_le:
  assumes "\<And>i. i \<in> set is \<Longrightarrow> \<bar>f i\<bar> \<le> g i"
  shows "\<bar>dsum (map f is)\<bar> \<le> dsum (map g is)"
  using assms
proof (induction "is" rule: rev_induct)
  case (snoc i "is")
  then have "\<bar>dsum (map f is) + f i\<bar> \<le> dsum (map g is) + g i"
    by (auto intro!: order_trans [OF abs_triangle_ineq] add_mono)
  then show ?case
    by (auto simp: dsum_append dadd_def dec.rnd_mono simp flip: dec.rnd_abs)
qed (simp add: dsum_def)

lemma cmf_value_bounds:
  assumes valid: "\<And>c. c \<in> set cs \<Longrightarrow> valid_candle c \<and> representable (c_volume c)"
    and v: "cmf_value p cs i = Some v"
  shows "-1 \<le> v \<and> v \<le> 1"
proof -
  let ?win = "slice (i + 1 - p) (i + 1) cs"
  have win: "slice (i + 1 - p) (i + 1) (map money_flow_volume cs) = map money_flow_volume ?win"
    by (simp add: slice_def drop_map take_map)
  let ?v = "dsum (map c_volume ?win)"
  from v have v0: "?v \<noteq> 0" and veq: "v = ddiv (dsum (map money_flow_volume ?win)) ?v"
    by (auto simp: cmf_value_def Let_def win [simplified] split: if_splits)
  have mem: "c \<in> set cs" if "c \<in> set ?win" for c using that subsetD [OF set_slice] by fast
  have le: "\<bar>dsum (map money_flow_volume ?win)\<bar> \<le> ?v"
    by (rule dsum_abs_le) (use mem valid in \<open>auto intro: money_flow_bound\<close>)
  then have "0 < ?v" using v0 by linarith
  with le have "\<bar>v\<bar> \<le> 1" unfolding veq by (intro ddiv_fraction_abs)
  then show ?thesis by (simp add: abs_le_iff)
qed

lemma bollinger_values_ordered:
  assumes "0 < n"
  obtains m u l where "bollinger_values p n closes i = [(''middle'', m), (''upper'', u), (''lower'', l)]"
    and "l \<le> m" and "m \<le> u"
proof -
  let ?win = "slice (i + 1 - p) (i + 1) closes"
  define m where "m = ddiv (dsum ?win) (of_nat p)"
  define d where "d = dmul (of_int n)
    (dsqrt (ddiv (dsum (map (\<lambda>v. dsquare (dsub v m)) ?win)) (of_nat p)))"
  have d: "0 \<le> d" unfolding d_def using assms by (intro dmul_nonneg) auto
  have r: "dec_round m = m" by (simp add: m_def)
  from d have "dsub m d \<le> m" unfolding dsub_def by (intro dec.rnd_below r) simp
  moreover from d have "m \<le> dadd m d" unfolding dadd_def by (intro dec.rnd_above r) simp
  moreover have "bollinger_values p n closes i =
      [(''middle'', m), (''upper'', dadd m d), (''lower'', dsub m d)]"
    by (simp add: bollinger_values_def Let_def m_def d_def)
  ultimately show ?thesis using that by blast
qed

lemma atr_values_nonneg:
  assumes p: "1 \<le> p" and v: "v \<in> set (atr_values p cs)"
  shows "0 \<le> v"
  by (rule wilder_nonneg [OF p _ v [unfolded atr_values_def Let_def]])
    (auto simp: true_range_def Let_def dabs_def le_max_iff_disj dec.rnd_nonneg)

end
