(* ===== verification/Indicator_Engine.thy ===== *)
theory Indicator_Engine
  imports Indicator_Library
begin

text \<open>
  The registry of indicators (\<open>registry.py\<close>, \<open>library/__init__.py\<close>) and the engine that validates
  a candle series before it computes (\<open>engine.py\<close>).  A registry is the dict of its indicators in
  insertion order.  The properties of the indicator package stand at the end.
\<close>

subsection \<open>Validating a series\<close>

definition validate_candle_series :: "candle list \<Rightarrow> unit result" where
  "validate_candle_series cs =
     raise_if (cs = []) InvalidCandleSeriesError ''candle series is empty''
     (raise_if (1 < length (remdups (map c_symbol cs))) InvalidCandleSeriesError
        ''candle series mixes multiple symbols''
     (raise_if (1 < length (remdups (map c_timeframe cs))) InvalidCandleSeriesError
        ''candle series mixes multiple timeframes''
     (raise_if (\<not> adjacent (\<lambda>p c. c_timestamp p < c_timestamp c) cs) InvalidCandleSeriesError
        ''candle series must be strictly ordered by ascending timestamp''
     (ok ()))))"

definition valid_series :: "candle list \<Rightarrow> bool" where
  "valid_series cs \<longleftrightarrow> cs \<noteq> [] \<and>
     (\<forall>c\<in>set cs. c_symbol c = c_symbol (hd cs) \<and> c_timeframe c = c_timeframe (hd cs)) \<and>
     sorted_wrt (<) (map c_timestamp cs)"

lemma remdups_single: "1 < length (remdups xs) \<longleftrightarrow> (\<exists>x\<in>set xs. x \<noteq> hd xs)"
proof
  assume "1 < length (remdups xs)"
  moreover have "card (set xs) \<le> 1" if "\<forall>x\<in>set xs. x = hd xs"
  proof -
    from that have "set xs \<subseteq> {hd xs}" by auto
    then show ?thesis by (metis card_mono card_1_singleton_iff
        finite.emptyI finite_insert is_singletonI is_singleton_altdef)
  qed
  ultimately show "\<exists>x\<in>set xs. x \<noteq> hd xs" by (auto simp: length_remdups_card_conv)
next
  assume "\<exists>x\<in>set xs. x \<noteq> hd xs"
  then obtain x where "x \<in> set xs" "hd xs \<in> set xs" "x \<noteq> hd xs"
    by (metis hd_in_set list.set(1) empty_iff)
  then have "card {x, hd xs} \<le> card (set xs)" by (intro card_mono) auto
  with \<open>x \<noteq> hd xs\<close> show "1 < length (remdups xs)" by (simp add: length_remdups_card_conv)
qed

lemma remdups_map_single: "1 < length (remdups (map f xs)) \<longleftrightarrow> (\<exists>x\<in>set xs. f x \<noteq> f (hd xs))"
proof (cases "xs = []")
  case False
  then show ?thesis by (simp only: remdups_single) (auto simp: hd_map)
qed simp

lemma validate_ok_iff: "validate_candle_series cs = Inr u \<longleftrightarrow> valid_series cs"
  unfolding validate_candle_series_def valid_series_def adjacent_timestamps raise_if_Inr
    remdups_map_single by auto

lemma validate_error: "validate_candle_series cs = Inl e \<Longrightarrow> err_class e = InvalidCandleSeriesError"
  by (auto simp: validate_candle_series_def result_simps)

lemma valid_series_prefix: "valid_series (cs @ ds) \<Longrightarrow> cs \<noteq> [] \<Longrightarrow> valid_series cs"
  by (cases cs) (auto simp: valid_series_def sorted_wrt_append)

subsection \<open>The registry\<close>

type_synonym registry = "(string \<times> indicator) list"

definition register :: "registry \<Rightarrow> indicator \<Rightarrow> registry result" where
  "register reg i =
     raise_if (indicator_name i \<in> fst ` set reg) ValueError ''indicator is already registered''
     (ok (reg @ [(indicator_name i, i)]))"

definition registry_get :: "registry \<Rightarrow> string \<Rightarrow> indicator result" where
  "registry_get reg nm =
     (case map_of reg nm of None \<Rightarrow> raise KeyError ''no indicator registered under name'' | Some i \<Rightarrow> ok i)"

definition registry_names :: "registry \<Rightarrow> string list" where
  "registry_names reg = sort (map fst reg)"

definition registry_contains :: "registry \<Rightarrow> string \<Rightarrow> bool" where
  "registry_contains reg nm \<longleftrightarrow> nm \<in> fst ` set reg"

definition build_default_registry :: "registry result" where
  "build_default_registry =
     bind_result (fold_result (\<lambda>reg p. bind_result (period_init EMA p) (register reg)) []
       [9, 20, 50, 100, 200]) (\<lambda>reg.
     bind_result (fold_result (\<lambda>reg p. bind_result (period_init SMA p) (register reg)) reg
       [50, 100, 200]) (\<lambda>reg.
     bind_result (bind_result (period_init RSI 14) (register reg)) (\<lambda>reg.
     bind_result (bind_result (macd_init 12 26 9) (register reg)) (\<lambda>reg.
     bind_result (bind_result (bollinger_init 20 2) (register reg)) (\<lambda>reg.
     bind_result (bind_result (period_init ATR 14) (register reg)) (\<lambda>reg.
     bind_result (register reg Volume) (\<lambda>reg.
     bind_result (bind_result (period_init AverageVolume 20) (register reg)) (\<lambda>reg.
     bind_result (bind_result (period_init RelativeVolume 20) (register reg)) (\<lambda>reg.
     bind_result (bind_result (period_init WilliamsPercentR 14) (register reg)) (\<lambda>reg.
     bind_result (register reg OBV) (\<lambda>reg.
     bind_result (period_init ChaikinMoneyFlow 20) (register reg))))))))))))"

text \<open>A registry maps distinct names to the validated indicators that carry them.\<close>

definition registry_ok :: "registry \<Rightarrow> bool" where
  "registry_ok reg \<longleftrightarrow> distinct (map fst reg) \<and>
     (\<forall>(nm, i)\<in>set reg. nm = indicator_name i \<and> valid_indicator i)"

lemma register_ok: "registry_ok reg \<Longrightarrow> valid_indicator i \<Longrightarrow> register reg i = Inr reg' \<Longrightarrow> registry_ok reg'"
  by (auto simp: register_def registry_ok_def)

lemma register_lookup:
  assumes "register reg i = Inr reg'"
  shows "registry_get reg' nm =
    (if nm = indicator_name i then ok i else registry_get reg nm)"
  using assms
  by (auto simp: register_def registry_get_def map_add_def dest: map_of_SomeD
      split: option.splits intro: rev_image_eqI)

lemma registry_get_valid: "registry_ok reg \<Longrightarrow> registry_get reg nm = Inr i \<Longrightarrow> valid_indicator i \<and> indicator_name i = nm"
  by (auto simp: registry_get_def registry_ok_def dest: map_of_SomeD split: option.splits)

lemma registry_get_names: "(\<exists>i. registry_get reg nm = Inr i) \<longleftrightarrow> nm \<in> set (registry_names reg)"
proof (cases "map_of reg nm")
  case None
  then have "nm \<notin> fst ` set reg" by (simp add: map_of_eq_None_iff)
  with None show ?thesis by (simp add: registry_get_def registry_names_def)
next
  case (Some i)
  then have "nm \<in> fst ` set reg" by (metis domI dom_map_of_conv_image_fst)
  with Some show ?thesis by (simp add: registry_get_def registry_names_def)
qed

subsection \<open>The engine\<close>

definition engine_compute :: "registry \<Rightarrow> string \<Rightarrow> candle list \<Rightarrow> indicator_result result" where
  "engine_compute reg nm cs =
     bind_result (validate_candle_series cs) (\<lambda>_.
     bind_result (registry_get reg nm) (\<lambda>i. indicator_compute i cs))"

definition engine_compute_all :: "registry \<Rightarrow> candle list \<Rightarrow> (string \<times> indicator_result) list result" where
  "engine_compute_all reg cs =
     bind_result (validate_candle_series cs) (\<lambda>_.
     map_result (\<lambda>nm. bind_result (registry_get reg nm) (\<lambda>i.
       map_sum id (Pair nm) (indicator_compute i cs))) (registry_names reg))"

lemma indicator_compute_name:
  "indicator_compute i cs = Inr r \<Longrightarrow> ir_name r = indicator_name i \<and> ir_timeframe r = c_timeframe (hd cs)"
  by (cases i) (auto simp: sma_compute_def ema_compute_def bollinger_compute_def atr_compute_def
      rsi_compute_def macd_compute_def williams_compute_def volume_compute_def avg_volume_compute_def
      rvol_compute_def obv_compute_def cmf_compute_def require_warmup_def result_of_def result_simps
      Let_def)

lemma map_sum_Inr: "map_sum id f r = Inr y \<longleftrightarrow> (\<exists>x. r = Inr x \<and> y = f x)"
  by (cases r) auto

lemma map_result_keys:
  assumes "map_result (\<lambda>k. bind_result (f k) (\<lambda>i. map_sum id (Pair k) (g i))) ks = Inr rs"
  shows "map fst rs = ks"
  using assms by (induction ks arbitrary: rs) (auto simp: result_simps map_sum_Inr)

lemma compute_all_entry:
  assumes "engine_compute_all reg cs = Inr rs" and "(nm, r) \<in> set rs"
  shows "engine_compute reg nm cs = Inr r"
proof -
  from assms(1) have v: "validate_candle_series cs = Inr ()" and
    m: "map_result (\<lambda>nm. bind_result (registry_get reg nm) (\<lambda>i.
       map_sum id (Pair nm) (indicator_compute i cs))) (registry_names reg) = Inr rs"
    by (auto simp: engine_compute_all_def result_simps)
  from map_result_Inr_set [OF m assms(2)] v show ?thesis
    by (auto simp: engine_compute_def result_simps map_sum_Inr)
qed

subsection \<open>Consequences of the interface\<close>

lemma warmup_pos: "valid_indicator i \<Longrightarrow> 0 < warmup_period i"
  by (cases i) auto

lemma indicator_no_lookahead:
  assumes i: "valid_indicator i" and "sorted_wrt (<) (map c_timestamp (cs @ ds))"
    and "indicator_compute i cs = Inr r" and "indicator_compute i (cs @ ds) = Inr r'"
  shows "filter (\<lambda>p. pt_timestamp p \<le> c_timestamp (last cs)) (ir_points r') = ir_points r"
proof -
  have "cs \<noteq> []"
    using causal_indicator.short [OF library_causal [OF i], of "[]"] warmup_pos [OF i] assms(3) by auto
  from causal_indicator.no_lookahead [OF library_causal [OF i] assms(2) this assms(3,4)] show ?thesis .
qed

lemma engine_compute_ok_iff:
  assumes "registry_ok reg"
  shows "engine_compute reg nm cs = Inr r \<longleftrightarrow>
    valid_series cs \<and> (\<exists>i. registry_get reg nm = Inr i \<and> valid_indicator i \<and> indicator_compute i cs = Inr r)"
  using registry_get_valid [OF assms]
  by (auto simp: engine_compute_def result_simps validate_ok_iff)

lemma rsi_points_bounds:
  assumes "1 \<le> p" and "rsi_compute p cs = Inr r" and "pt \<in> set (ir_points r)"
  shows "\<exists>v. pt_values pt = [(''rsi'', v)] \<and> 0 \<le> v \<and> v \<le> 100"
proof -
  have len: "Suc p \<le> length cs"
    using assms(2) by (auto simp: rsi_compute_def require_warmup_def)
  with assms rsi_compute_ok [OF assms(1) len]
  have "pt \<in> set (points_of ''rsi'' (zip (drop p cs) (rsi_values p cs)))"
    by (auto simp: result_of_def)
  from points_of_bounded [OF this] obtain v where v: "v \<in> set (rsi_values p cs)" "pt_values pt = [(''rsi'', v)]"
    by blast
  with rsi_values_bounds [OF assms(1) v(1)] show ?thesis by blast
qed

text \<open>The range of an indicator that has one.\<close>

fun oscillator_range :: "indicator \<Rightarrow> (decimal \<times> decimal) option" where
  "oscillator_range (RSI p) = Some (0, 100)"
| "oscillator_range (WilliamsPercentR p) = Some (- 100, 0)"
| "oscillator_range (ChaikinMoneyFlow p) = Some (- 1, 1)"
| "oscillator_range i = None"

lemma indexed_compute:
  assumes "require_warmup i cs (ok (result_of i cs ps)) = Inr r"
  shows "ir_points r = ps"
  using assms by (auto simp: require_warmup_def result_of_def)

definition default_entries :: registry where
  "default_entries =
     [(''ema_9'', EMA 9), (''ema_20'', EMA 20), (''ema_50'', EMA 50), (''ema_100'', EMA 100),
      (''ema_200'', EMA 200), (''sma_50'', SMA 50), (''sma_100'', SMA 100), (''sma_200'', SMA 200),
      (''rsi_14'', RSI 14), (''macd_12_26_9'', MACD 12 26 9), (''bollinger_20_2'', BollingerBands 20 2),
      (''atr_14'', ATR 14), (''volume'', Volume), (''avg_volume_20'', AverageVolume 20),
      (''rvol_20'', RelativeVolume 20), (''williams_r_14'', WilliamsPercentR 14), (''obv'', OBV),
      (''cmf_20'', ChaikinMoneyFlow 20)]"

lemma default_registry: "build_default_registry = Inr default_entries"
  by code_simp

lemma default_registry_ok: "registry_ok default_entries"
  by code_simp

text \<open>For a registered name and a valid series the only error is a history that is too short.\<close>

lemma engine_error_class:
  assumes "registry_ok reg" and "nm \<in> set (registry_names reg)" and "valid_series cs"
    and "engine_compute reg nm cs = Inl e"
  shows "err_class e = InsufficientDataError"
proof -
  obtain i where i: "registry_get reg nm = Inr i"
    using assms(2) registry_get_names [of reg nm] by blast
  have "validate_candle_series cs = Inr ()" using assms(3) by (simp add: validate_ok_iff)
  with i assms(4) have "indicator_compute i cs = Inl e" by (simp add: engine_compute_def)
  moreover have "causal_indicator (indicator_compute i) (warmup_period i)"
    using registry_get_valid [OF assms(1) i] by (simp add: library_causal)
  ultimately show ?thesis using causal_indicator.outcome [of "indicator_compute i" "warmup_period i" cs]
    by (cases "length cs < warmup_period i") auto
qed

subsection \<open>Properties of the indicator package\<close>

text \<open>
C11: No lookahead.  Whatever candles follow a history, the points that the engine computes up to the
history's last candle are the points it computes from the history alone: no registered indicator
uses a future candle.
\<close>

theorem engine_no_lookahead:
  assumes "registry_ok reg"
    and "engine_compute reg nm cs = Inr r" and "engine_compute reg nm (cs @ ds) = Inr r'"
  shows "filter (\<lambda>p. pt_timestamp p \<le> c_timestamp (last cs)) (ir_points r') = ir_points r"
proof -
  from assms obtain i where "valid_indicator i" "indicator_compute i cs = Inr r"
      "indicator_compute i (cs @ ds) = Inr r'" and "valid_series (cs @ ds)"
    by (auto simp: engine_compute_ok_iff)
  then show ?thesis by (intro indicator_no_lookahead) (simp_all add: valid_series_def)
qed

definition sample_registry :: registry where
  "sample_registry = [(''sma_2'', SMA 2), (''rsi_2'', RSI 2), (''williams_r_2'', WilliamsPercentR 2)]"

definition sample_sma :: "candle list \<Rightarrow> indicator_result" where
  "sample_sma cs = projr (engine_compute sample_registry ''sma_2'' cs)"

lemma sample_sma_runs:
  "registry_ok sample_registry"
  "engine_compute sample_registry ''sma_2'' (take 3 sample_series) =
     Inr (sample_sma (take 3 sample_series))"
  "engine_compute sample_registry ''sma_2'' (take 3 sample_series @ drop 3 sample_series) =
     Inr (sample_sma (take 3 sample_series @ drop 3 sample_series))"
  by code_simp+

theorem engine_no_lookahead_witness:
  "filter (\<lambda>p. pt_timestamp p \<le> c_timestamp (last (take 3 sample_series)))
     (ir_points (sample_sma (take 3 sample_series @ drop 3 sample_series))) =
   ir_points (sample_sma (take 3 sample_series))"
  by (rule engine_no_lookahead [OF sample_sma_runs])

text \<open>
Fail closed.  For an indicator of the registry and a valid series the engine returns a result
exactly when the series reaches the warm-up period, and raises InsufficientDataError otherwise; an
invalid series raises InvalidCandleSeriesError and an unknown name KeyError.
\<close>

theorem engine_fail_closed:
  assumes "registry_ok reg"
  shows "case engine_compute reg nm cs of
      Inr r \<Rightarrow> valid_series cs \<and> (\<exists>i. registry_get reg nm = Inr i \<and> warmup_period i \<le> length cs) \<and>
        ir_name r = nm
    | Inl e \<Rightarrow>
        (\<not> valid_series cs \<and> err_class e = InvalidCandleSeriesError) \<or>
        (valid_series cs \<and> nm \<notin> set (registry_names reg) \<and> err_class e = KeyError) \<or>
        (valid_series cs \<and> (\<exists>i. registry_get reg nm = Inr i \<and> length cs < warmup_period i) \<and>
           err_class e = InsufficientDataError)"
proof (cases "engine_compute reg nm cs")
  case (Inr r)
  then obtain i where i: "registry_get reg nm = Inr i" "valid_indicator i" "indicator_compute i cs = Inr r"
      and v: "valid_series cs"
    by (auto simp: engine_compute_ok_iff [OF assms])
  then have "warmup_period i \<le> length cs"
    using causal_indicator.computed_iff [OF library_causal] by blast
  with Inr i v indicator_compute_name [OF i(3)] registry_get_valid [OF assms i(1)] show ?thesis by auto
next
  case (Inl e)
  then consider "validate_candle_series cs = Inl e"
    | "validate_candle_series cs = Inr ()" "registry_get reg nm = Inl e"
    | i where "validate_candle_series cs = Inr ()" "registry_get reg nm = Inr i" "indicator_compute i cs = Inl e"
    by (auto simp: engine_compute_def result_simps)
  then show ?thesis
  proof cases
    case 1
    then have "\<not> valid_series cs" by (metis Inl_Inr_False validate_ok_iff)
    with 1 Inl validate_error show ?thesis by simp
  next
    case 2
    then have "nm \<notin> set (registry_names reg)" by (metis Inl_Inr_False registry_get_names)
    with 2 Inl show ?thesis
      by (auto simp: validate_ok_iff registry_get_def split: option.splits)
  next
    case 3
    with registry_get_valid [OF assms 3(2)] have lib: "causal_indicator (indicator_compute i) (warmup_period i)"
      by (simp add: library_causal)
    from causal_indicator.outcome [OF lib, of cs] 3 Inl show ?thesis
      by (cases "length cs < warmup_period i") (auto simp: validate_ok_iff)
  qed
qed

theorem engine_fail_closed_witness:
  "registry_ok sample_registry \<and>
   (case engine_compute sample_registry ''sma_2'' (take 3 sample_series) of
      Inr r \<Rightarrow> valid_series (take 3 sample_series) \<and>
        (\<exists>i. registry_get sample_registry ''sma_2'' = Inr i \<and>
           warmup_period i \<le> length (take 3 sample_series)) \<and> ir_name r = ''sma_2''
    | Inl e \<Rightarrow> False)"
  using sample_sma_runs(1,2)
    engine_fail_closed [OF sample_sma_runs(1), where nm = "''sma_2''" and cs = "take 3 sample_series"]
  by simp

text \<open>
The running sum of the rolling mean is the mean of each window.  On values quoted in ticks
(multiples of \<open>10 ^ - k\<close>, at most \<open>M\<close> in size, with windows of at most \<open>10 ^ 28\<close> ticks) the
routine that adds the entering and subtracts the leaving value returns, for every full window, the
correctly rounded mean of that window.
\<close>

theorem rolling_mean_is_window_mean:
  assumes "1 \<le> w" and "w \<le> length vs" and "\<And>x. x \<in> set vs \<Longrightarrow> on_grid k x \<and> \<bar>x\<bar> \<le> M"
    and "of_nat w * M * 10 ^ k \<le> 10 ^ 28" and "2 * M * 10 ^ k \<le> 10 ^ 28"
  shows "rolling_mean vs w =
    Inr (map (\<lambda>j. dec_round (sum_list (slice j (j + w) vs) / of_nat w)) [0..<Suc (length vs - w)])"
  using rolling_mean_window_sums [OF assms] by (simp only: ddiv_def)

theorem rolling_mean_is_window_mean_witness:
  "rolling_mean [10, 11, 13, 9] 2 =
     Inr (map (\<lambda>j. dec_round (sum_list (slice j (j + 2) [10, 11, 13, 9]) / of_nat 2))
       [0..<Suc (length [10, 11, 13, 9 :: decimal] - 2)])"
  by (rule rolling_mean_is_window_mean [where k = 2 and M = 13]) (auto simp: on_grid_def)

text \<open>
The oscillators stay in their ranges under the rounding of the decimal context: RSI in
\<open>[0, 100]\<close>, Williams %R in \<open>[-100, 0]\<close> and Chaikin Money Flow in \<open>[-1, 1]\<close>, for every candle the
model admits whose volume has at most 28 digits.
\<close>

theorem oscillators_in_range:
  assumes "valid_indicator i" and "oscillator_range i = Some (lo, hi)"
    and "\<And>c. c \<in> set cs \<Longrightarrow> valid_candle c \<and> representable (c_volume c)"
    and "indicator_compute i cs = Inr r" and "pt \<in> set (ir_points r)"
  shows "\<exists>key v. pt_values pt = [(key, v)] \<and> lo \<le> v \<and> v \<le> hi"
proof (cases i)
  case (RSI p)
  with assms rsi_points_bounds [of p cs r pt] show ?thesis by auto
next
  case (WilliamsPercentR p)
  with assms(4) indexed_compute have "ir_points r =
      indexed_points ''williams_r'' (williams_value p) cs [p - 1..<length cs]"
    by (simp add: williams_compute_def)
  from indexed_points_val [OF assms(5) [unfolded this]]
  obtain j v where "j < length cs" "williams_value p cs j = Some v" "pt_values pt = [(''williams_r'', v)]"
    by auto
  with williams_value_bounds [of cs p j v] WilliamsPercentR assms(1,2,3) show ?thesis by auto
next
  case (ChaikinMoneyFlow p)
  with assms(4) indexed_compute have "ir_points r =
      indexed_points ''cmf'' (cmf_value p) cs [p - 1..<length cs]"
    by (simp add: cmf_compute_def)
  from indexed_points_val [OF assms(5) [unfolded this]]
  obtain j v where "cmf_value p cs j = Some v" "pt_values pt = [(''cmf'', v)]"
    by auto
  with cmf_value_bounds [of cs p j v] ChaikinMoneyFlow assms(2,3) show ?thesis by auto
qed (use assms(2) in auto)

lemma sample_candles_valid: "c \<in> set sample_series \<Longrightarrow> valid_candle c \<and> representable (c_volume c)"
proof -
  have "representable (of_int m)" if "\<bar>m\<bar> \<le> 1000" for m using that by (intro representable_int) simp
  from this [of 100] this [of 200] this [of 150] this [of 300]
  show "c \<in> set sample_series \<Longrightarrow> valid_candle c \<and> representable (c_volume c)"
    by (auto simp: sample_series_def sample_candle_def valid_candle_def upper_def upper_char_def
        strip_def lstrip_def is_space_def Let_def)
qed

text \<open>
Bollinger bands are ordered and the average true range is non-negative: at every point of the
bands the lower band is at most the middle and the middle at most the upper, whatever the rounding.
\<close>

theorem volatility_order:
  assumes "valid_indicator i" and "indicator_compute i cs = Inr r" and "pt \<in> set (ir_points r)"
  shows "case i of
      BollingerBands p n \<Rightarrow> \<exists>m u l. pt_values pt = [(''middle'', m), (''upper'', u), (''lower'', l)] \<and> l \<le> m \<and> m \<le> u
    | ATR p \<Rightarrow> \<exists>v. pt_values pt = [(''atr'', v)] \<and> 0 \<le> v
    | _ \<Rightarrow> True"
proof (cases i)
  case (BollingerBands p n)
  with assms(2,3) obtain j where
      "pt = point (c_timestamp (cs ! j)) (bollinger_values p n (map c_close cs) j)"
    by (auto simp: bollinger_compute_def require_warmup_def result_of_def)
  moreover from BollingerBands assms(1) obtain m u l where
      "bollinger_values p n (map c_close cs) j = [(''middle'', m), (''upper'', u), (''lower'', l)]"
      "l \<le> m" "m \<le> u"
    using bollinger_values_ordered [of n p "map c_close cs" j] by auto
  ultimately show ?thesis using BollingerBands by simp
next
  case (ATR p)
  with assms(1,2) have p: "1 \<le> p" and len: "Suc p \<le> length cs"
    by (auto simp: atr_compute_def require_warmup_def)
  with ATR assms(2,3) atr_compute_ok [OF p len]
  have "pt \<in> set (points_of ''atr'' (zip (drop p cs) (atr_values p cs)))" by (auto simp: result_of_def)
  with ATR atr_values_nonneg [OF p] show ?thesis by (auto dest!: points_of_bounded)
qed simp_all

lemma sample_bollinger_runs:
  "indicator_compute (BollingerBands 2 2) sample_series =
     Inr (projr (indicator_compute (BollingerBands 2 2) sample_series))"
  "ir_points (projr (indicator_compute (BollingerBands 2 2) sample_series)) \<noteq> []"
  by (simp_all add: bollinger_compute_def require_warmup_def sample_series_def result_of_def)

theorem volatility_order_witness:
  "let r = projr (indicator_compute (BollingerBands 2 2) sample_series)
   in \<exists>m u l. pt_values (hd (ir_points r)) = [(''middle'', m), (''upper'', u), (''lower'', l)] \<and> l \<le> m \<and> m \<le> u"
  using volatility_order [of "BollingerBands 2 2", OF _ sample_bollinger_runs(1)
      hd_in_set [OF sample_bollinger_runs(2)]]
  by (simp add: Let_def)

end
