(* ===== verification/Backtest_Config.thy ===== *)
theory Backtest_Config
  imports Domain_Models
begin

text \<open>
  The recipe of a backtest run and the records of the simulation
  (\<open>backtesting/config.py\<close>, \<open>types.py\<close>, \<open>strategy/intent.py\<close>, \<open>strategy/context.py\<close>,
  \<open>strategy/base.py\<close>, \<open>execution/fill.py\<close>): every dataclass with the checks of its
  \<open>__post_init__\<close>, and the translation of a decision into an order intent.  A datetime field that
  every caller takes from a candle is an instant; where the caller's value may be naive it is a
  \<open>py_datetime\<close>.
\<close>

subsection \<open>Strategy parameters\<close>

text \<open>
  A parameter value with its runtime type; a \<open>Decimal\<close> and a \<open>float\<close> carry the text that \<open>repr\<close>
  shows of them, which is what the sources compare.
\<close>

datatype strategy_parameter =
    PDecimal string
  | PInt int
  | PFloat string
  | PStr string
  | PBool bool

text \<open>\<open>repr\<close> of a string: bytes from 128 on, the UTF-8 codes of printable letters, are kept.\<close>

definition hex_digit :: "nat \<Rightarrow> char" where
  "hex_digit d = (if d < 10 then char_of (48 + d) else char_of (87 + d))"

definition repr_char :: "char \<Rightarrow> char \<Rightarrow> string" where
  "repr_char q c =
     (let n = of_char c :: nat in
      if c = q then [CHR 0x5C, c]
      else if n = 92 then [CHR 0x5C, CHR 0x5C]
      else if n = 9 then [CHR 0x5C, CHR ''t'']
      else if n = 10 then [CHR 0x5C, CHR ''n'']
      else if n = 13 then [CHR 0x5C, CHR ''r'']
      else if n < 32 \<or> n = 127 then [CHR 0x5C, CHR ''x'', hex_digit (n div 16), hex_digit (n mod 16)]
      else [c])"

definition repr_quote :: "string \<Rightarrow> char" where
  "repr_quote s = (if CHR 0x27 \<in> set s \<and> CHR 0x22 \<notin> set s then CHR 0x22 else CHR 0x27)"

definition repr_str :: "string \<Rightarrow> string" where
  "repr_str s = repr_quote s # concat (map (repr_char (repr_quote s)) s) @ [repr_quote s]"

fun canonical_parameter_repr :: "strategy_parameter \<Rightarrow> string" where
  "canonical_parameter_repr (PDecimal t) = ''Decimal:Decimal('' @ [CHR 0x27] @ t @ [CHR 0x27] @ '')''"
| "canonical_parameter_repr (PInt i) = ''int:'' @ show_int i"
| "canonical_parameter_repr (PFloat t) = ''float:'' @ t"
| "canonical_parameter_repr (PStr s) = ''str:'' @ repr_str s"
| "canonical_parameter_repr (PBool b) = ''bool:'' @ (if b then ''True'' else ''False'')"

type_synonym parameters = "(string \<times> strategy_parameter) list"

definition canonical_parameters :: "parameters \<Rightarrow> (string \<times> string) list" where
  "canonical_parameters ps = sort (map (\<lambda>(k, v). (k, canonical_parameter_repr v)) ps)"

text \<open>Reading one escaped character back: the escapes are a prefix code.\<close>

definition unhex :: "char \<Rightarrow> nat" where
  "unhex c = (let n = of_char c in if n < 58 then n - 48 else n - 87)"

fun read_char :: "string \<Rightarrow> char \<times> string" where
  "read_char (b # e # rest) =
     (if of_char b \<noteq> (92 :: nat) then (b, e # rest)
      else if e = CHR ''t'' then (CHR 9, rest)
      else if e = CHR ''n'' then (CHR 10, rest)
      else if e = CHR ''r'' then (CHR 13, rest)
      else if e = CHR ''x'' then (char_of (16 * unhex (rest ! 0) + unhex (rest ! 1)), drop 2 rest)
      else (e, rest))"
| "read_char s = (hd s, tl s)"

lemma unhex_digit: "d < 16 \<Longrightarrow> unhex (hex_digit d) = d"
  by (auto simp: unhex_def hex_digit_def Let_def)

lemma char_eqI: "(of_char c :: nat) = of_char d \<Longrightarrow> c = d"
  by (metis char_of_char)

lemma read_repr_char:
  assumes q: "q = CHR 0x27 \<or> q = CHR 0x22" and u: "u \<noteq> []"
  shows "read_char (repr_char q c @ u) = (c, u)"
proof -
  let ?n = "of_char c :: nat"
  consider "c = q" | "c \<noteq> q" "?n = 92" | "?n = 9" | "?n = 10" | "?n = 13"
    | "c \<noteq> q" "?n \<noteq> 92" "?n \<noteq> 9" "?n \<noteq> 10" "?n \<noteq> 13" "?n < 32 \<or> ?n = 127"
    | "c \<noteq> q" "?n \<noteq> 92" "?n \<noteq> 9" "?n \<noteq> 10" "?n \<noteq> 13" "\<not> (?n < 32 \<or> ?n = 127)"
    by linarith
  then show ?thesis
  proof cases
    case 1
    with q show ?thesis by (auto simp: repr_char_def)
  next
    case 2
    then have "c = CHR 0x5C" by (intro char_eqI) simp
    with 2 show ?thesis by (simp add: repr_char_def)
  next
    case 3
    then have "c = CHR 9" by (intro char_eqI) simp
    with q show ?thesis by (auto simp: repr_char_def)
  next
    case 4
    then have "c = CHR 10" by (intro char_eqI) simp
    with q show ?thesis by (auto simp: repr_char_def)
  next
    case 5
    then have "c = CHR 13" by (intro char_eqI) simp
    with q show ?thesis by (auto simp: repr_char_def)
  next
    case 6
    then have "?n div 16 < 16" "?n mod 16 < 16" by auto
    then have "16 * unhex (hex_digit (?n div 16)) + unhex (hex_digit (?n mod 16)) = ?n"
      by (simp only: unhex_digit mult_div_mod_eq)
    with 6 show ?thesis by (simp add: repr_char_def Let_def)
  next
    case 7
    with u show ?thesis by (cases u) (simp_all add: repr_char_def Let_def)
  qed
qed

lemma repr_char_head:
  assumes "q = CHR 0x27 \<or> q = CHR 0x22"
  shows "hd (repr_char q c) \<noteq> q" and "repr_char q c \<noteq> []"
  using assms by (auto simp: repr_char_def Let_def)

lemma repr_char_neq:
  assumes "q = CHR 0x27 \<or> q = CHR 0x22"
  shows "repr_char q c @ u \<noteq> q # v"
  using repr_char_head [OF assms, of c] by (cases "repr_char q c") auto

lemma repr_body_code:
  assumes q: "q = CHR 0x27 \<or> q = CHR 0x22"
    and "concat (map (repr_char q) s) @ q # u = concat (map (repr_char q) t) @ q # v"
  shows "s = t \<and> u = v"
  using assms(2)
proof (induction s arbitrary: t)
  case Nil
  show ?case
  proof (cases t)
    case (Cons d ds)
    with Nil have "repr_char q d @ (concat (map (repr_char q) ds) @ q # v) = q # u" by simp
    with repr_char_neq [OF q] show ?thesis by blast
  qed (use Nil in simp)
next
  case (Cons c s)
  show ?case
  proof (cases t)
    case Nil
    with Cons.prems have "repr_char q c @ (concat (map (repr_char q) s) @ q # u) = q # v" by simp
    with repr_char_neq [OF q] show ?thesis by blast
  next
    case (Cons d ds)
    let ?u = "concat (map (repr_char q) s) @ q # u" and ?v = "concat (map (repr_char q) ds) @ q # v"
    have eq: "repr_char q c @ ?u = repr_char q d @ ?v" using Cons.prems Cons by simp
    have "(c, ?u) = read_char (repr_char q c @ ?u)" by (rule read_repr_char [OF q, symmetric]) simp
    also have "\<dots> = (d, ?v)" unfolding eq by (rule read_repr_char [OF q]) simp
    finally have "c = d" and "?u = ?v" by (simp_all only: prod.inject)
    with Cons.IH [OF \<open>?u = ?v\<close>] Cons show ?thesis by simp
  qed
qed

lemma repr_str_code: "repr_str s @ u = repr_str t @ v \<Longrightarrow> s = t \<and> u = v"
  using repr_body_code [of "repr_quote t" s u t v]
  by (auto simp: repr_str_def) (auto simp: repr_quote_def split: if_splits)

lemma repr_str_inject [simp]: "repr_str s = repr_str t \<longleftrightarrow> s = t"
  using repr_str_code [of s "[]" t "[]"] by auto

lemma canonical_parameter_repr_inject [simp]:
  "canonical_parameter_repr v = canonical_parameter_repr w \<longleftrightarrow> v = w"
  by (cases v; cases w) (auto split: if_splits)

lemma canonical_parameters_eq_iff:
  "canonical_parameters ps = canonical_parameters qs \<longleftrightarrow> mset ps = mset qs"
proof -
  let ?f = "\<lambda>(k, v). (k :: string, canonical_parameter_repr v)"
  have inj: "inj ?f" by (auto simp: inj_def)
  have "sort (map ?f ps) = sort (map ?f qs) \<longleftrightarrow> mset (map ?f ps) = mset (map ?f qs)"
  proof
    assume "sort (map ?f ps) = sort (map ?f qs)"
    then show "mset (map ?f ps) = mset (map ?f qs)" by (metis mset_sort)
  next
    assume "mset (map ?f ps) = mset (map ?f qs)"
    then show "sort (map ?f ps) = sort (map ?f qs)"
      by (intro properties_for_sort) simp_all
  qed
  also have "mset (map ?f ps) = mset (map ?f qs) \<longleftrightarrow> mset ps = mset qs"
    by (simp only: mset_map inj_eq [OF multiset.inj_map [OF inj]])
  finally show ?thesis by (simp only: canonical_parameters_def)
qed

subsection \<open>Configuration\<close>

record cost_config =
  commission_rate :: decimal
  spread :: decimal
  slippage_rate :: decimal

definition mk_cost_config :: "decimal \<Rightarrow> decimal \<Rightarrow> decimal \<Rightarrow> cost_config result" where
  "mk_cost_config commission spr slippage =
     raise_if (commission < 0) InvalidExecutionConfigError ''commission_rate must be >= 0''
     (raise_if (spr < 0) InvalidExecutionConfigError ''spread must be >= 0''
     (raise_if (slippage < 0) InvalidExecutionConfigError ''slippage_rate must be >= 0''
     (ok \<lparr>commission_rate = commission, spread = spr, slippage_rate = slippage\<rparr>)))"

datatype fill_timing = NEXT_BAR_OPEN | SAME_BAR_CLOSE

fun fill_timing_value :: "fill_timing \<Rightarrow> string" where
  "fill_timing_value NEXT_BAR_OPEN = ''next_bar_open''"
| "fill_timing_value SAME_BAR_CLOSE = ''same_bar_close''"

record position_sizing_config =
  equity_fraction :: decimal
  max_participation_rate :: "decimal option"

definition mk_position_sizing_config ::
    "decimal \<Rightarrow> decimal option \<Rightarrow> position_sizing_config result" where
  "mk_position_sizing_config fraction max_rate =
     raise_if (\<not> (0 < fraction \<and> fraction \<le> 1)) InvalidExecutionConfigError
       ''equity_fraction must be in (0, 1]''
     (raise_if (case max_rate of None \<Rightarrow> False | Some r \<Rightarrow> \<not> (0 < r \<and> r \<le> 1))
        InvalidExecutionConfigError ''max_participation_rate must be in (0, 1]''
     (ok \<lparr>equity_fraction = fraction, max_participation_rate = max_rate\<rparr>))"

record execution_config =
  ec_cost :: cost_config
  ec_fill_timing :: fill_timing
  ec_position_sizing :: position_sizing_config

record backtest_config =
  bc_strategy_id :: string
  bc_strategy_version :: string
  bc_symbol :: string
  bc_timeframe :: timeframe
  bc_start :: instant
  bc_end :: instant
  bc_initial_capital :: decimal
  bc_parameters :: parameters
  bc_execution_config :: execution_config
  bc_random_seed :: "int option"
  bc_data_source_id :: "string option"
  bc_reproducibility_id :: "string option"

text \<open>The fields as given, with the two datetimes that may be naive.\<close>

definition mk_backtest_config ::
    "backtest_config \<Rightarrow> py_datetime \<Rightarrow> py_datetime \<Rightarrow> backtest_config result" where
  "mk_backtest_config c start end' =
     raise_if (blank (bc_strategy_id c)) InvalidBacktestConfigError ''strategy_id must not be blank''
     (raise_if (blank (bc_strategy_version c)) InvalidBacktestConfigError
        ''strategy_version must not be blank''
     (raise_if (blank (bc_symbol c)) InvalidBacktestConfigError ''symbol must not be blank''
     (raise_if (\<not> is_aware start \<or> \<not> is_aware end') InvalidBacktestConfigError
        ''start and end must be timezone-aware''
     (raise_if (ticks end' \<le> ticks start) InvalidBacktestConfigError ''end must be after start''
     (raise_if (bc_initial_capital c \<le> 0) InvalidBacktestConfigError ''initial_capital must be > 0''
     (ok (c\<lparr>bc_start := ticks start, bc_end := ticks end'\<rparr>)))))))"

definition valid_cost_config :: "cost_config \<Rightarrow> bool" where
  "valid_cost_config c \<longleftrightarrow> 0 \<le> commission_rate c \<and> 0 \<le> spread c \<and> 0 \<le> slippage_rate c"

definition valid_sizing_config :: "position_sizing_config \<Rightarrow> bool" where
  "valid_sizing_config c \<longleftrightarrow> 0 < equity_fraction c \<and> equity_fraction c \<le> 1 \<and>
     (case max_participation_rate c of None \<Rightarrow> True | Some r \<Rightarrow> 0 < r \<and> r \<le> 1)"

definition valid_execution_config :: "execution_config \<Rightarrow> bool" where
  "valid_execution_config e \<longleftrightarrow> valid_cost_config (ec_cost e) \<and> valid_sizing_config (ec_position_sizing e)"

definition valid_backtest_config :: "backtest_config \<Rightarrow> bool" where
  "valid_backtest_config c \<longleftrightarrow> \<not> blank (bc_strategy_id c) \<and> \<not> blank (bc_strategy_version c) \<and>
     \<not> blank (bc_symbol c) \<and> bc_start c < bc_end c \<and> 0 < bc_initial_capital c \<and>
     valid_execution_config (bc_execution_config c)"

lemma mk_cost_config_valid: "mk_cost_config a b s = Inr c \<Longrightarrow> valid_cost_config c"
  by (auto simp: mk_cost_config_def valid_cost_config_def)

lemma mk_position_sizing_config_valid: "mk_position_sizing_config f m = Inr c \<Longrightarrow> valid_sizing_config c"
  by (auto simp: mk_position_sizing_config_def valid_sizing_config_def split: option.splits)

lemma mk_backtest_config_valid:
  "mk_backtest_config c s e = Inr c' \<Longrightarrow> valid_execution_config (bc_execution_config c) \<Longrightarrow>
     valid_backtest_config c'"
  by (auto simp: mk_backtest_config_def valid_backtest_config_def)

subsection \<open>Positions, observations and trades\<close>

record position_state =
  ps_quantity :: decimal
  ps_average_entry_price :: "decimal option"

definition mk_position_state :: "decimal \<Rightarrow> decimal option \<Rightarrow> position_state result" where
  "mk_position_state quantity entry =
     raise_if (quantity = 0 \<and> entry \<noteq> None) ValueError
       ''a flat position (quantity=0) cannot have an entry price''
     (raise_if (quantity \<noteq> 0 \<and> entry = None) ValueError ''a non-flat position must have an entry price''
     (raise_if (case entry of None \<Rightarrow> False | Some p \<Rightarrow> p \<le> 0) ValueError
        ''average_entry_price must be > 0''
     (ok \<lparr>ps_quantity = quantity, ps_average_entry_price = entry\<rparr>)))"

definition is_flat :: "position_state \<Rightarrow> bool" where
  "is_flat p \<longleftrightarrow> ps_quantity p = 0"

definition direction :: "position_state \<Rightarrow> signal_direction option" where
  "direction p = (if 0 < ps_quantity p then Some LONG else if ps_quantity p < 0 then Some SHORT else None)"

definition FLAT_POSITION :: position_state where
  "FLAT_POSITION = \<lparr>ps_quantity = 0, ps_average_entry_price = None\<rparr>"

record equity_observation =
  eo_timestamp :: instant
  eo_equity :: decimal
  eo_cash :: decimal
  eo_position :: position_state

record simulated_trade =
  st_symbol :: string
  st_direction :: signal_direction
  st_entry_time :: instant
  st_entry_price :: decimal
  st_exit_time :: instant
  st_exit_price :: decimal
  st_quantity :: decimal
  st_fees_paid :: decimal
  st_pnl :: decimal
  st_stop_price :: "decimal option"

definition check_simulated_trade :: "simulated_trade \<Rightarrow> simulated_trade result" where
  "check_simulated_trade t =
     raise_if (st_exit_time t < st_entry_time t) ValueError ''exit_time must be >= entry_time''
     (raise_if (st_quantity t \<le> 0) ValueError ''quantity must be a positive magnitude''
     (raise_if (st_entry_price t \<le> 0 \<or> st_exit_price t \<le> 0) ValueError
        ''entry_price and exit_price must be > 0''
     (raise_if (st_fees_paid t < 0) ValueError ''fees_paid must be >= 0''
     (raise_if (case st_stop_price t of None \<Rightarrow> False | Some p \<Rightarrow> p \<le> 0) ValueError ''stop_price must be > 0''
     (ok t)))))"

record backtest_run =
  br_config :: backtest_config
  br_run_id :: string
  br_generated_at :: instant

definition mk_backtest_run :: "backtest_config \<Rightarrow> string \<Rightarrow> py_datetime \<Rightarrow> backtest_run result" where
  "mk_backtest_run config rid generated_at =
     raise_if (\<not> is_aware generated_at) ValueError ''BacktestRun.generated_at must be timezone-aware''
     (ok \<lparr>br_config = config, br_run_id = rid, br_generated_at = ticks generated_at\<rparr>)"

record backtest_result =
  btr_run :: backtest_run
  btr_equity_curve :: "equity_observation list"
  btr_trades :: "simulated_trade list"
  btr_final_position :: position_state

subsection \<open>Decisions and order intents\<close>

datatype strategy_action = HOLD | ENTER_LONG | ENTER_SHORT | EXIT

record strategy_decision =
  sd_action :: strategy_action
  sd_stop_price :: "decimal option"
  sd_target_price :: "decimal option"
  sd_reason :: string

definition mk_strategy_decision ::
    "strategy_action \<Rightarrow> decimal option \<Rightarrow> decimal option \<Rightarrow> string \<Rightarrow> strategy_decision result" where
  "mk_strategy_decision action stop target reason =
     raise_if (case stop of None \<Rightarrow> False | Some p \<Rightarrow> p \<le> 0) ValueError ''stop_price must be > 0''
     (raise_if (case target of None \<Rightarrow> False | Some p \<Rightarrow> p \<le> 0) ValueError ''target_price must be > 0''
     (ok \<lparr>sd_action = action, sd_stop_price = stop, sd_target_price = target, sd_reason = reason\<rparr>))"

definition HOLD_DECISION :: strategy_decision where
  "HOLD_DECISION = \<lparr>sd_action = HOLD, sd_stop_price = None, sd_target_price = None, sd_reason = []\<rparr>"

datatype intent_action = OPEN_LONG | OPEN_SHORT | CLOSE

record simulated_order_intent =
  oi_action :: intent_action
  oi_signal_time :: instant
  oi_signal_index :: nat
  oi_stop_price :: "decimal option"
  oi_target_price :: "decimal option"

fun translate_decision ::
    "strategy_decision \<Rightarrow> position_state \<Rightarrow> instant \<Rightarrow> nat \<Rightarrow> simulated_order_intent option" where
  "translate_decision decision position signal_time signal_index =
     (case sd_action decision of
        HOLD \<Rightarrow> None
      | ENTER_LONG \<Rightarrow>
          if direction position \<noteq> None then None
          else Some \<lparr>oi_action = OPEN_LONG, oi_signal_time = signal_time, oi_signal_index = signal_index,
                     oi_stop_price = sd_stop_price decision, oi_target_price = sd_target_price decision\<rparr>
      | ENTER_SHORT \<Rightarrow>
          if direction position \<noteq> None then None
          else Some \<lparr>oi_action = OPEN_SHORT, oi_signal_time = signal_time, oi_signal_index = signal_index,
                     oi_stop_price = sd_stop_price decision, oi_target_price = sd_target_price decision\<rparr>
      | EXIT \<Rightarrow>
          if is_flat position then None
          else Some \<lparr>oi_action = CLOSE, oi_signal_time = signal_time, oi_signal_index = signal_index,
                     oi_stop_price = None, oi_target_price = None\<rparr>)"

declare translate_decision.simps [simp del]

text \<open>What a strategy sees at one bar.\<close>

record strategy_context =
  sc_visible_candles :: "candle list"
  sc_position :: position_state
  sc_parameters :: parameters

definition mk_strategy_context ::
    "candle list \<Rightarrow> position_state \<Rightarrow> parameters \<Rightarrow> strategy_context result" where
  "mk_strategy_context visible position ps =
     raise_if (visible = []) ValueError ''StrategyContext requires at least one visible candle''
     (ok \<lparr>sc_visible_candles = visible, sc_position = position, sc_parameters = ps\<rparr>)"

definition current_candle :: "strategy_context \<Rightarrow> candle" where
  "current_candle ctx = last (sc_visible_candles ctx)"

text \<open>A strategy: its identity, its parameters, its warm-up period and its decision function.\<close>

record strategy =
  strategy_id :: string
  strategy_version :: string
  strategy_parameters :: parameters
  strategy_warmup_period :: int
  strategy_decide :: "strategy_context \<Rightarrow> strategy_decision result"

text \<open>A fill.\<close>

record simulated_fill =
  sf_action :: intent_action
  sf_signal_time :: instant
  sf_fill_time :: instant
  sf_fill_price :: decimal
  sf_quantity :: decimal
  sf_commission :: decimal
  sf_stop_price :: "decimal option"

definition check_simulated_fill :: "simulated_fill \<Rightarrow> simulated_fill result" where
  "check_simulated_fill f =
     raise_if (sf_fill_time f < sf_signal_time f) ValueError ''fill_time must be >= signal_time''
     (raise_if (sf_fill_price f \<le> 0) ValueError ''fill_price must be > 0''
     (raise_if (sf_quantity f \<le> 0) ValueError ''quantity must be a positive magnitude''
     (raise_if (sf_commission f < 0) ValueError ''commission must be >= 0''
     (raise_if (case sf_stop_price f of None \<Rightarrow> False | Some p \<Rightarrow> p \<le> 0) ValueError ''stop_price must be > 0''
     (ok f)))))"

text \<open>A decision, an intent and a fill that passed their checks.\<close>

definition positive_option :: "decimal option \<Rightarrow> bool" where
  "positive_option p \<longleftrightarrow> (case p of None \<Rightarrow> True | Some x \<Rightarrow> 0 < x)"

definition valid_decision :: "strategy_decision \<Rightarrow> bool" where
  "valid_decision d \<longleftrightarrow> positive_option (sd_stop_price d) \<and> positive_option (sd_target_price d)"

definition valid_fill :: "simulated_fill \<Rightarrow> bool" where
  "valid_fill f \<longleftrightarrow> sf_signal_time f \<le> sf_fill_time f \<and> 0 < sf_fill_price f \<and> 0 < sf_quantity f \<and>
     0 \<le> sf_commission f \<and> positive_option (sf_stop_price f)"

lemma positive_option_simps [simp]: "positive_option None" "positive_option (Some x) \<longleftrightarrow> 0 < x"
  by (simp_all add: positive_option_def)

lemma nonpositive_option: "(case p of None \<Rightarrow> False | Some x \<Rightarrow> x \<le> 0) \<longleftrightarrow> \<not> positive_option p"
  by (auto split: option.split)

lemma mk_strategy_decision_ok:
  "mk_strategy_decision a s t r = Inr d \<longleftrightarrow> positive_option s \<and> positive_option t \<and>
     d = \<lparr>sd_action = a, sd_stop_price = s, sd_target_price = t, sd_reason = r\<rparr>"
  by (auto simp: mk_strategy_decision_def nonpositive_option)

lemma check_fill_ok_iff: "check_simulated_fill f = Inr g \<longleftrightarrow> valid_fill f \<and> g = f"
  by (auto simp: check_simulated_fill_def valid_fill_def nonpositive_option)

lemma direction_None [simp]: "direction p = None \<longleftrightarrow> is_flat p"
  and direction_LONG [simp]: "direction p = Some LONG \<longleftrightarrow> 0 < ps_quantity p"
  and direction_SHORT [simp]: "direction p = Some SHORT \<longleftrightarrow> ps_quantity p < 0"
  by (auto simp: direction_def is_flat_def)

lemma is_flat_FLAT [simp]: "is_flat FLAT_POSITION"
  by (simp add: is_flat_def FLAT_POSITION_def)

text \<open>An intent opens only from a flat position and closes only an open one.\<close>

lemma translate_decision_sound:
  assumes "translate_decision d p t i = Some oi"
  shows "oi_signal_time oi = t \<and> oi_signal_index oi = i \<and>
    (oi_action oi = CLOSE \<longleftrightarrow> \<not> is_flat p) \<and> (valid_decision d \<longrightarrow> positive_option (oi_stop_price oi))"
  using assms
  by (auto split: strategy_action.splits if_splits simp: valid_decision_def translate_decision.simps)

end
