(* ===== verification/Execution_Sim.thy ===== *)
theory Execution_Sim
  imports Backtest_Config
begin

text \<open>
  The execution simulator (\<open>backtesting/execution/simulator.py\<close>) and the portfolio it drives
  (\<open>backtesting/portfolio.py\<close>).  A fill reads the candle its timing rule permits and nothing else,
  and an order intent that passed the translation of a decision never makes the portfolio raise.
\<close>

subsection \<open>Filling an intent\<close>

definition resolve_fill_candle ::
    "execution_config \<Rightarrow> candle list \<Rightarrow> nat \<Rightarrow> (candle option \<times> bool) result" where
  "resolve_fill_candle cfg cs signal_index =
     (case ec_fill_timing cfg of
        SAME_BAR_CLOSE \<Rightarrow>
          if signal_index < length cs then ok (Some (cs ! signal_index), True)
          else raise IndexError ''tuple index out of range''
      | NEXT_BAR_OPEN \<Rightarrow>
          let next_index = signal_index + 1 in
          if length cs \<le> next_index then ok (None, False) else ok (Some (cs ! next_index), False))"

definition is_buy_side :: "intent_action \<Rightarrow> position_state \<Rightarrow> bool result" where
  "is_buy_side action position =
     (case action of
        OPEN_LONG \<Rightarrow> ok True
      | OPEN_SHORT \<Rightarrow> ok False
      | CLOSE \<Rightarrow>
          (case direction position of
             Some LONG \<Rightarrow> ok False
           | Some SHORT \<Rightarrow> ok True
           | None \<Rightarrow> raise InvalidExecutionConfigError ''cannot fill a CLOSE intent against a flat position''))"

definition apply_costs :: "cost_config \<Rightarrow> decimal \<Rightarrow> bool \<Rightarrow> decimal result" where
  "apply_costs cost base_price is_buy =
     (let adjustment = dadd (ddiv (spread cost) 2) (dmul base_price (slippage_rate cost));
          fill_price = (if is_buy then dadd base_price adjustment else dsub base_price adjustment)
      in raise_if (fill_price \<le> 0) InvalidExecutionConfigError
           ''cost configuration produced a non-positive fill price'' (ok fill_price))"

definition size_entry :: "position_sizing_config \<Rightarrow> decimal \<Rightarrow> decimal \<Rightarrow> candle \<Rightarrow> decimal" where
  "size_entry sizing equity fill_price fill_candle =
     (let quantity = ddiv (dmul equity (equity_fraction sizing)) fill_price
      in case max_participation_rate sizing of
           None \<Rightarrow> quantity
         | Some rate \<Rightarrow> min quantity (dmul (c_volume fill_candle) rate))"

definition fill_intent ::
    "execution_config \<Rightarrow> simulated_order_intent \<Rightarrow> candle list \<Rightarrow> position_state \<Rightarrow> decimal
      \<Rightarrow> simulated_fill option result" where
  "fill_intent cfg intent cs position equity_at_signal =
     bind_result (resolve_fill_candle cfg cs (oi_signal_index intent)) (\<lambda>(candle, use_close).
     case candle of
       None \<Rightarrow> ok None
     | Some fill_candle \<Rightarrow>
         let base_price = (if use_close then c_close fill_candle else c_open fill_candle) in
         bind_result (is_buy_side (oi_action intent) position) (\<lambda>is_buy.
         bind_result (apply_costs (ec_cost cfg) base_price is_buy) (\<lambda>fill_price.
         let quantity =
               (if oi_action intent = CLOSE then dabs (ps_quantity position)
                else size_entry (ec_position_sizing cfg) equity_at_signal fill_price fill_candle) in
         if oi_action intent \<noteq> CLOSE \<and> quantity \<le> 0 then ok None
         else
           let commission = dmul (dmul fill_price quantity) (commission_rate (ec_cost cfg)) in
           bind_result (check_simulated_fill
             \<lparr>sf_action = oi_action intent, sf_signal_time = oi_signal_time intent,
              sf_fill_time = c_timestamp fill_candle, sf_fill_price = fill_price,
              sf_quantity = quantity, sf_commission = commission,
              sf_stop_price = (if oi_action intent \<noteq> CLOSE then oi_stop_price intent else None)\<rparr>)
             (\<lambda>f. ok (Some f)))))"

subsection \<open>The portfolio\<close>

record portfolio =
  pf_symbol :: string
  pf_cash :: decimal
  pf_position :: position_state
  pf_entry_time :: "instant option"
  pf_entry_commission :: decimal
  pf_entry_stop_price :: "decimal option"
  pf_trades :: "simulated_trade list"

definition mk_portfolio :: "decimal \<Rightarrow> string \<Rightarrow> portfolio result" where
  "mk_portfolio initial_capital symbol =
     raise_if (initial_capital \<le> 0) ValueError ''initial_capital must be > 0''
     (ok \<lparr>pf_symbol = symbol, pf_cash = initial_capital, pf_position = FLAT_POSITION,
          pf_entry_time = None, pf_entry_commission = 0, pf_entry_stop_price = None, pf_trades = []\<rparr>)"

definition portfolio_equity :: "portfolio \<Rightarrow> decimal \<Rightarrow> decimal" where
  "portfolio_equity pf current_price =
     dadd (pf_cash pf) (dmul (ps_quantity (pf_position pf)) current_price)"

definition portfolio_open ::
    "decimal \<Rightarrow> decimal \<Rightarrow> decimal \<Rightarrow> instant \<Rightarrow> decimal option \<Rightarrow> portfolio \<Rightarrow> portfolio result" where
  "portfolio_open quantity price commission time stop_price pf =
     raise_if (\<not> is_flat (pf_position pf)) ValueError
       ''cannot open a new position while one is already open''
     (bind_result (mk_position_state quantity (Some price)) (\<lambda>position.
      ok (pf\<lparr>pf_cash := dsub (dsub (pf_cash pf) (dmul quantity price)) commission,
            pf_position := position, pf_entry_time := Some time,
            pf_entry_commission := commission, pf_entry_stop_price := stop_price\<rparr>)))"

definition portfolio_close :: "simulated_fill \<Rightarrow> portfolio \<Rightarrow> portfolio result" where
  "portfolio_close fill pf =
     (let position = pf_position pf in
      raise_if (is_flat position) ValueError ''cannot close a position while flat''
      (case ps_average_entry_price position of
         None \<Rightarrow> raise AssertionError ''average_entry_price''
       | Some entry_price \<Rightarrow>
      (case pf_entry_time pf of
         None \<Rightarrow> raise AssertionError ''entry_time''
       | Some entry_time \<Rightarrow>
      (case direction position of
         None \<Rightarrow> raise AssertionError ''direction''
       | Some dir \<Rightarrow>
         let quantity_magnitude = dabs (ps_quantity position);
             cash = dsub (dadd (pf_cash pf) (dmul (ps_quantity position) (sf_fill_price fill)))
                      (sf_commission fill);
             gross_pnl =
               (if dir = LONG then dmul (dsub (sf_fill_price fill) entry_price) quantity_magnitude
                else dmul (dsub entry_price (sf_fill_price fill)) quantity_magnitude);
             total_fees = dadd (pf_entry_commission pf) (sf_commission fill)
         in bind_result (check_simulated_trade
              \<lparr>st_symbol = pf_symbol pf, st_direction = dir, st_entry_time = entry_time,
               st_entry_price = entry_price, st_exit_time = sf_fill_time fill,
               st_exit_price = sf_fill_price fill, st_quantity = quantity_magnitude,
               st_fees_paid = total_fees, st_pnl = dsub gross_pnl total_fees,
               st_stop_price = pf_entry_stop_price pf\<rparr>) (\<lambda>trade.
            ok (pf\<lparr>pf_cash := cash, pf_trades := pf_trades pf @ [trade],
                  pf_position := FLAT_POSITION, pf_entry_time := None,
                  pf_entry_commission := 0, pf_entry_stop_price := None\<rparr>))))))"

definition apply_fill :: "simulated_fill \<Rightarrow> portfolio \<Rightarrow> portfolio result" where
  "apply_fill fill pf =
     (case sf_action fill of
        OPEN_LONG \<Rightarrow> portfolio_open (sf_quantity fill) (sf_fill_price fill) (sf_commission fill)
          (sf_fill_time fill) (sf_stop_price fill) pf
      | OPEN_SHORT \<Rightarrow> portfolio_open (dneg (sf_quantity fill)) (sf_fill_price fill) (sf_commission fill)
          (sf_fill_time fill) (sf_stop_price fill) pf
      | CLOSE \<Rightarrow> portfolio_close fill pf)"

subsection \<open>The invariant of the portfolio\<close>

definition valid_trade :: "simulated_trade \<Rightarrow> bool" where
  "valid_trade t \<longleftrightarrow> st_entry_time t \<le> st_exit_time t \<and> 0 < st_quantity t \<and> 0 < st_entry_price t \<and>
     0 < st_exit_price t \<and> 0 \<le> st_fees_paid t \<and> positive_option (st_stop_price t)"

lemma check_trade_ok_iff: "check_simulated_trade t = Inr u \<longleftrightarrow> valid_trade t \<and> u = t"
  by (auto simp: check_simulated_trade_def valid_trade_def nonpositive_option)

text \<open>
  The position is flat exactly when no entry is recorded; the trades are valid, in order and
  disjoint in time, and every recorded time is at most \<open>now\<close>.
\<close>

definition portfolio_inv :: "instant \<Rightarrow> portfolio \<Rightarrow> bool" where
  "portfolio_inv now pf \<longleftrightarrow>
     (case pf_entry_time pf of
        None \<Rightarrow> pf_position pf = FLAT_POSITION \<and> pf_entry_commission pf = 0 \<and> pf_entry_stop_price pf = None
      | Some t \<Rightarrow> t \<le> now \<and> ps_quantity (pf_position pf) \<noteq> 0 \<and> representable (ps_quantity (pf_position pf)) \<and>
          (\<exists>p. ps_average_entry_price (pf_position pf) = Some p \<and> 0 < p) \<and>
          (\<forall>u\<in>set (pf_trades pf). st_exit_time u \<le> t)) \<and>
     0 \<le> pf_entry_commission pf \<and> positive_option (pf_entry_stop_price pf) \<and>
     (\<forall>t\<in>set (pf_trades pf). valid_trade t \<and> st_exit_time t \<le> now) \<and>
     sorted_wrt (\<lambda>t u. st_exit_time t \<le> st_entry_time u) (pf_trades pf)"

lemma portfolio_inv_mono: "portfolio_inv now pf \<Longrightarrow> now \<le> later \<Longrightarrow> portfolio_inv later pf"
  by (fastforce simp: portfolio_inv_def split: option.splits)

lemma mk_portfolio_inv: "mk_portfolio c s = Inr pf \<Longrightarrow> portfolio_inv now pf"
  by (auto simp: mk_portfolio_def portfolio_inv_def)

lemma portfolio_inv_flat: "portfolio_inv now pf \<Longrightarrow> is_flat (pf_position pf) \<longleftrightarrow> pf_entry_time pf = None"
  by (auto simp: portfolio_inv_def is_flat_def FLAT_POSITION_def split: option.splits)

lemma portfolio_open_ok:
  assumes inv: "portfolio_inv now pf" and flat: "is_flat (pf_position pf)"
    and q: "quantity \<noteq> 0" "representable quantity" and p: "0 < price" and c: "0 \<le> commission"
    and t: "now \<le> time" and s: "positive_option stop"
  shows "\<exists>pf'. portfolio_open quantity price commission time stop pf = Inr pf' \<and>
    portfolio_inv time pf' \<and> \<not> is_flat (pf_position pf') \<and> pf_trades pf' = pf_trades pf"
  using assms portfolio_inv_flat [OF inv]
  by (fastforce simp: portfolio_open_def mk_position_state_def portfolio_inv_def is_flat_def
      split: option.splits)

lemma portfolio_close_ok:
  assumes inv: "portfolio_inv now pf" and held: "\<not> is_flat (pf_position pf)"
    and f: "valid_fill fill" and t: "now \<le> sf_fill_time fill"
  shows "\<exists>pf' trade. portfolio_close fill pf = Inr pf' \<and> portfolio_inv (sf_fill_time fill) pf' \<and>
    pf_position pf' = FLAT_POSITION \<and> pf_trades pf' = pf_trades pf @ [trade]"
proof -
  let ?q = "ps_quantity (pf_position pf)"
  from inv held portfolio_inv_flat [OF inv] obtain et p where
    e: "pf_entry_time pf = Some et" "et \<le> now" "?q \<noteq> 0" "representable ?q"
      "ps_average_entry_price (pf_position pf) = Some p" "0 < p"
      "\<forall>u\<in>set (pf_trades pf). st_exit_time u \<le> et"
    by (auto simp: portfolio_inv_def)
  from e(3) obtain dir where dir: "direction (pf_position pf) = Some dir"
    by (cases "direction (pf_position pf)") (auto simp: is_flat_def)
  have fees: "0 \<le> dadd (pf_entry_commission pf) (sf_commission fill)"
    using inv f by (intro dadd_nonneg) (auto simp: portfolio_inv_def valid_fill_def)
  have stop: "positive_option (pf_entry_stop_price pf)" using inv by (simp add: portfolio_inv_def)
  have trades: "\<forall>t\<in>set (pf_trades pf). valid_trade t \<and> st_exit_time t \<le> now"
    and sorted: "sorted_wrt (\<lambda>t u. st_exit_time t \<le> st_entry_time u) (pf_trades pf)"
    using inv by (simp_all add: portfolio_inv_def)
  show ?thesis
    using e t f fees stop trades sorted held
    unfolding portfolio_close_def Let_def e dir
    by (auto simp: result_simps check_trade_ok_iff valid_trade_def valid_fill_def portfolio_inv_def
        sorted_wrt_append intro: order_trans)
qed

text \<open>What opening and closing leave.\<close>

lemma portfolio_open_shape:
  "portfolio_open q p c t stop pf = Inr pf' \<Longrightarrow>
     q \<noteq> 0 \<and> pf' = pf\<lparr>pf_cash := dsub (dsub (pf_cash pf) (dmul q p)) c,
       pf_position := \<lparr>ps_quantity = q, ps_average_entry_price = Some p\<rparr>, pf_entry_time := Some t,
       pf_entry_commission := c, pf_entry_stop_price := stop\<rparr>"
  by (auto simp: portfolio_open_def mk_position_state_def result_simps)

lemma portfolio_close_shape:
  assumes "portfolio_close f pf = Inr pf'" and "ps_average_entry_price (pf_position pf) = Some p"
    and "pf_entry_time pf = Some t" and "direction (pf_position pf) = Some dir"
  shows "\<exists>tr. pf_trades pf' = pf_trades pf @ [tr] \<and> pf_position pf' = FLAT_POSITION \<and>
    pf_cash pf' = dsub (dadd (pf_cash pf) (dmul (ps_quantity (pf_position pf)) (sf_fill_price f)))
      (sf_commission f) \<and>
    st_pnl tr = dsub (if dir = LONG
        then dmul (dsub (sf_fill_price f) p) (dabs (ps_quantity (pf_position pf)))
        else dmul (dsub p (sf_fill_price f)) (dabs (ps_quantity (pf_position pf))))
      (dadd (pf_entry_commission pf) (sf_commission f))"
  using assms(1) unfolding portfolio_close_def Let_def assms(2-4)
  by (auto simp: result_simps check_trade_ok_iff)

text \<open>Filling an intent that agrees with the position of a valid portfolio.\<close>

definition intent_agrees :: "simulated_order_intent \<Rightarrow> position_state \<Rightarrow> bool" where
  "intent_agrees intent position \<longleftrightarrow> (oi_action intent = CLOSE \<longleftrightarrow> \<not> is_flat position)"

lemma apply_fill_ok:
  assumes inv: "portfolio_inv now pf" and f: "valid_fill fill" and t: "now \<le> sf_fill_time fill"
    and agree: "sf_action fill = CLOSE \<longleftrightarrow> \<not> is_flat (pf_position pf)" and q: "representable (sf_quantity fill)"
  shows "\<exists>pf'. apply_fill fill pf = Inr pf' \<and> portfolio_inv (sf_fill_time fill) pf' \<and>
    prefix (pf_trades pf) (pf_trades pf')"
proof (cases "sf_action fill")
  case OPEN_LONG
  with assms portfolio_open_ok [OF inv, of "sf_quantity fill" "sf_fill_price fill" "sf_commission fill"
      "sf_fill_time fill" "sf_stop_price fill"]
  show ?thesis by (fastforce simp: apply_fill_def valid_fill_def)
next
  case OPEN_SHORT
  with assms portfolio_open_ok [OF inv, of "dneg (sf_quantity fill)" "sf_fill_price fill"
      "sf_commission fill" "sf_fill_time fill" "sf_stop_price fill"]
  show ?thesis by (fastforce simp: apply_fill_def valid_fill_def)
next
  case CLOSE
  with assms portfolio_close_ok [OF inv _ f t] show ?thesis by (fastforce simp: apply_fill_def)
qed

lemma representable_min: "representable a \<Longrightarrow> representable b \<Longrightarrow> representable (min a b)"
  by (simp add: min_def)

lemma size_entry_representable: "representable (size_entry sizing e p c)"
  by (simp add: size_entry_def Let_def representable_min split: option.split)

text \<open>
  Under the next-bar rule a fill reads the candle after its signal and no later one, and it is what
  the costs and the sizing make of that candle.
\<close>

lemma fill_intent_local:
  "ec_fill_timing cfg = NEXT_BAR_OPEN \<Longrightarrow> oi_signal_index intent + 1 < length cs \<Longrightarrow>
     fill_intent cfg intent (cs @ ds) position equity = fill_intent cfg intent cs position equity"
  by (simp add: fill_intent_def resolve_fill_candle_def nth_append_left)

lemma fill_intent_outcome:
  assumes cfg: "valid_execution_config cfg" "ec_fill_timing cfg = NEXT_BAR_OPEN"
    and idx: "oi_signal_index intent + 1 < length cs"
    and time: "oi_signal_time intent \<le> c_timestamp (cs ! (oi_signal_index intent + 1))"
    and stop: "positive_option (oi_stop_price intent)"
    and agree: "intent_agrees intent position" and rep: "representable (ps_quantity position)"
  shows "case fill_intent cfg intent cs position equity of
      Inl e \<Rightarrow> e = Err InvalidExecutionConfigError ''cost configuration produced a non-positive fill price''
    | Inr None \<Rightarrow> oi_action intent \<noteq> CLOSE
    | Inr (Some f) \<Rightarrow> valid_fill f \<and> sf_action f = oi_action intent \<and> representable (sf_quantity f) \<and>
        sf_fill_time f = c_timestamp (cs ! (oi_signal_index intent + 1))"
proof -
  let ?c = "cs ! (oi_signal_index intent + 1)"
  have "\<exists>b. is_buy_side (oi_action intent) position = Inr b"
  proof (cases "oi_action intent")
    case CLOSE
    with agree obtain dir where "direction position = Some dir"
      by (cases "direction position") (auto simp: intent_agrees_def)
    then have "is_buy_side CLOSE position = (case dir of LONG \<Rightarrow> ok False | SHORT \<Rightarrow> ok True)"
      by (simp only: is_buy_side_def intent_action.case option.case)
    with CLOSE show ?thesis by (cases dir) auto
  qed (auto simp: is_buy_side_def)
  then obtain b where b: "is_buy_side (oi_action intent) position = Inr b" ..
  show ?thesis
  proof (cases "apply_costs (ec_cost cfg) (c_open ?c) b")
    case (Inl e)
    then have "e = Err InvalidExecutionConfigError ''cost configuration produced a non-positive fill price''"
      by (auto simp: apply_costs_def result_simps Let_def)
    with Inl b cfg idx show ?thesis by (simp add: fill_intent_def resolve_fill_candle_def Let_def)
  next
    case (Inr p)
    then have p: "0 < p" by (auto simp: apply_costs_def Let_def)
    let ?q = "if oi_action intent = CLOSE then dabs (ps_quantity position)
      else size_entry (ec_position_sizing cfg) equity p ?c"
    let ?f = "\<lparr>sf_action = oi_action intent, sf_signal_time = oi_signal_time intent,
      sf_fill_time = c_timestamp ?c, sf_fill_price = p, sf_quantity = ?q,
      sf_commission = dmul (dmul p ?q) (commission_rate (ec_cost cfg)),
      sf_stop_price = (if oi_action intent \<noteq> CLOSE then oi_stop_price intent else None)\<rparr>"
    have eq: "fill_intent cfg intent cs position equity =
        (if oi_action intent \<noteq> CLOSE \<and> ?q \<le> 0 then ok None
         else bind_result (check_simulated_fill ?f) (\<lambda>f. ok (Some f)))"
      using Inr b cfg idx by (simp add: fill_intent_def resolve_fill_candle_def Let_def)
    show ?thesis
    proof (cases "oi_action intent \<noteq> CLOSE \<and> ?q \<le> 0")
      case False
      then have q: "0 < ?q" using agree rep by (auto simp: intent_agrees_def is_flat_def)
      have "0 \<le> dmul (dmul p ?q) (commission_rate (ec_cost cfg))"
        using p q cfg(1)
        by (intro dmul_nonneg) (auto simp: valid_execution_config_def valid_cost_config_def)
      with p q time stop have "valid_fill ?f" by (simp add: valid_fill_def)
      then have "check_simulated_fill ?f = Inr ?f" by (simp only: check_fill_ok_iff)
      with eq False \<open>valid_fill ?f\<close> show ?thesis
        by (simp add: size_entry_representable)
    next
      case True
      show ?thesis unfolding eq if_P [OF True] using conjunct1 [OF True] by simp
    qed
  qed
qed

subsection \<open>A round trip conserves cash\<close>

text \<open>
  The amounts of a round trip quoted on grids: quantity in \<open>10 ^ - a\<close>, prices in \<open>10 ^ - b\<close>, cash
  and commissions in \<open>10 ^ - (a + b)\<close>, none above \<open>N\<close>, and small enough that no operation rounds.
\<close>

definition exact_round_trip ::
    "nat \<Rightarrow> nat \<Rightarrow> rat \<Rightarrow> decimal \<Rightarrow> decimal \<Rightarrow> decimal \<Rightarrow> decimal \<Rightarrow> decimal \<Rightarrow> decimal \<Rightarrow> bool" where
  "exact_round_trip a b N cash q p1 p2 c1 c2 \<longleftrightarrow>
     on_grid a q \<and> on_grid b p1 \<and> on_grid b p2 \<and> on_grid (a + b) c1 \<and> on_grid (a + b) c2 \<and>
     on_grid (a + b) cash \<and> \<bar>cash\<bar> \<le> N \<and> \<bar>q * p1\<bar> \<le> N \<and> \<bar>q * p2\<bar> \<le> N \<and> \<bar>c1\<bar> \<le> N \<and> \<bar>c2\<bar> \<le> N \<and>
     \<bar>q\<bar> \<le> N \<and> \<bar>p1\<bar> \<le> N \<and> \<bar>p2\<bar> \<le> N \<and> 5 * N * 10 ^ (a + b) \<le> 10 ^ 28"

lemma exact_within:
  assumes "on_grid k x" and "\<bar>x\<bar> \<le> 5 * N" and "k \<le> g" and "5 * N * 10 ^ g \<le> 10 ^ 28"
  shows "representable x"
proof (rule representable_on_grid [OF assms(1)])
  have "\<bar>x\<bar> * 10 ^ k \<le> 5 * N * 10 ^ k" using assms(2) by (rule mult_right_mono) simp
  also have "\<dots> \<le> 5 * N * 10 ^ g"
    using assms(2,3) by (intro mult_left_mono power_increasing) auto
  finally show "\<bar>x\<bar> * 10 ^ k \<le> 10 ^ 28" using assms(4) by simp
qed

lemma round_trip_exact:
  assumes "exact_round_trip a b N cash q p1 p2 c1 c2"
  shows "dsub (dadd (dsub (dsub cash (dmul q p1)) c1) (dmul q p2)) c2 = cash - q * p1 - c1 + q * p2 - c2"
    and "dmul (dsub p2 p1) q = (p2 - p1) * q" and "dmul (dsub p1 p2) q = (p1 - p2) * q"
    and "dadd c1 c2 = c1 + c2"
    and "dsub (dmul (dsub p2 p1) q) (dadd c1 c2) = (p2 - p1) * q - (c1 + c2)"
    and "dsub (dmul (dsub p1 p2) q) (dadd c1 c2) = (p1 - p2) * q - (c1 + c2)"
proof -
  note f = assms [unfolded exact_round_trip_def]
  have s5: "5 * N * 10 ^ (a + b) \<le> 10 ^ 28" and gc: "on_grid (a + b) c1" "on_grid (a + b) c2" "on_grid (a + b) cash"
    and gp: "on_grid b p1" "on_grid b p2" and gq: "on_grid a q" using f by blast+
  have m: "\<bar>cash\<bar> \<le> N" "\<bar>q * p1\<bar> \<le> N" "\<bar>q * p2\<bar> \<le> N" "\<bar>c1\<bar> \<le> N" "\<bar>c2\<bar> \<le> N" "\<bar>p1\<bar> \<le> N" "\<bar>p2\<bar> \<le> N"
    using f by blast+
  have g: "on_grid (a + b) (q * p1)" "on_grid (a + b) (q * p2)" using gp gq by blast+
  note ex = exact_within [where g = "a + b" and N = N]
  have sum: "representable x" if "on_grid (a + b) x" "\<bar>x\<bar> \<le> 5 * N" for x
    by (rule ex [OF that order_refl s5])
  have 1: "dmul q p1 = q * p1" by (rule dmul_exact [OF sum [OF g(1)]]) (use m(2) in linarith)
  have 2: "dmul q p2 = q * p2" by (rule dmul_exact [OF sum [OF g(2)]]) (use m(3) in linarith)
  note g3 = on_grid_diff [OF gc(3) g(1)]
  have 3: "dsub cash (q * p1) = cash - q * p1"
    by (rule dsub_exact [OF sum [OF g3]]) (use m(1,2) in linarith)
  note g4 = on_grid_diff [OF g3 gc(1)]
  have 4: "dsub (cash - q * p1) c1 = cash - q * p1 - c1"
    by (rule dsub_exact [OF sum [OF g4]]) (use m(1,2,4) in linarith)
  note g5 = on_grid_add [OF g4 g(2)]
  have 5: "dadd (cash - q * p1 - c1) (q * p2) = cash - q * p1 - c1 + q * p2"
    by (rule dadd_exact [OF sum [OF g5]]) (use m(1,2,3,4) in linarith)
  have 6: "dsub (cash - q * p1 - c1 + q * p2) c2 = cash - q * p1 - c1 + q * p2 - c2"
    by (rule dsub_exact [OF sum [OF on_grid_diff [OF g5 gc(2)]]]) (use m(1-5) in linarith)
  show "dsub (dadd (dsub (dsub cash (dmul q p1)) c1) (dmul q p2)) c2 = cash - q * p1 - c1 + q * p2 - c2"
    by (simp only: 1 2 3 4 5 6)
  have d: "dsub p2 p1 = p2 - p1" "dsub p1 p2 = p1 - p2"
    by (rule dsub_exact [OF ex [OF on_grid_diff [OF gp(2) gp(1)] _ le_add2 s5]]; use m(6,7) in linarith)
      (rule dsub_exact [OF ex [OF on_grid_diff [OF gp(1) gp(2)] _ le_add2 s5]]; use m(6,7) in linarith)
  have eq: "(p2 - p1) * q = q * p2 - q * p1" "(p1 - p2) * q = q * p1 - q * p2" by (simp_all add: algebra_simps)
  have gd: "on_grid (a + b) ((p2 - p1) * q)" "on_grid (a + b) ((p1 - p2) * q)"
    unfolding eq using g by blast+
  have bd: "\<bar>(p2 - p1) * q\<bar> \<le> 2 * N" "\<bar>(p1 - p2) * q\<bar> \<le> 2 * N"
    unfolding eq using m(2,3) by linarith+
  show m1: "dmul (dsub p2 p1) q = (p2 - p1) * q"
    unfolding d by (rule dmul_exact [OF sum [OF gd(1)]]) (use bd(1) in linarith)
  show m2: "dmul (dsub p1 p2) q = (p1 - p2) * q"
    unfolding d by (rule dmul_exact [OF sum [OF gd(2)]]) (use bd(2) in linarith)
  show fees: "dadd c1 c2 = c1 + c2"
    by (rule dadd_exact [OF sum [OF on_grid_add [OF gc(1,2)]]]) (use m(4,5) in linarith)
  have gf: "on_grid (a + b) (c1 + c2)" by (rule on_grid_add [OF gc(1,2)])
  note c = m(4,5)
  have "\<bar>(p2 - p1) * q - (c1 + c2)\<bar> \<le> 5 * N" using bd(1) c by linarith
  then show "dsub (dmul (dsub p2 p1) q) (dadd c1 c2) = (p2 - p1) * q - (c1 + c2)"
    unfolding m1 fees by (rule dsub_exact [OF ex [OF on_grid_diff [OF gd(1) gf] _ order_refl s5]])
  have "\<bar>(p1 - p2) * q - (c1 + c2)\<bar> \<le> 5 * N" using bd(2) c by linarith
  then show "dsub (dmul (dsub p1 p2) q) (dadd c1 c2) = (p1 - p2) * q - (c1 + c2)"
    unfolding m2 fees by (rule dsub_exact [OF ex [OF on_grid_diff [OF gd(2) gf] _ order_refl s5]])
qed

end
