(* ===== verification/Backtest_History.thy ===== *)
theory Backtest_History
  imports Execution_Sim Indicator_Core
begin

text \<open>
  Candle histories of a backtest (\<open>backtesting/history.py\<close>): their validation, the chronological
  steps that hand out exactly the visible prefix, and the identity of a run.  What the hashers are
  fed is a byte string, each field framed by its length in eight bytes; a text is its UTF-8 bytes.
  SHA-256 (as its hexadecimal digest) and the rendering of datetimes and decimals are parameters.
\<close>

subsection \<open>Validation and steps\<close>

definition validate_backtest_history :: "candle list \<Rightarrow> backtest_config \<Rightarrow> unit result" where
  "validate_backtest_history cs cfg =
     raise_if (cs = []) InvalidHistoryError ''no candles supplied for backtest''
     (raise_if (set (map c_symbol cs) \<noteq> {upper (strip (bc_symbol cfg))}) InvalidHistoryError
        ''candle history symbol(s) do not match config symbol''
     (raise_if (set (map c_timeframe cs) \<noteq> {bc_timeframe cfg}) InvalidHistoryError
        ''candle history timeframe(s) do not match config timeframe''
     (raise_if (\<not> adjacent (\<lambda>p c. c_timestamp p < c_timestamp c) cs) InvalidHistoryError
        ''candle history must be strictly ordered by ascending timestamp''
     (raise_if (c_timestamp (last cs) < bc_start cfg) InsufficientHistoryError
        ''all supplied candles end before the configured start''
     (raise_if (list_ex (\<lambda>c. bc_end cfg < c_timestamp c) cs) InvalidHistoryError
        ''candle history extends beyond the configured end''
     (ok ()))))))"

record backtest_step =
  bs_index :: nat
  bs_candle :: candle
  bs_visible_candles :: "candle list"
  bs_is_active :: bool

definition backtest_step_at :: "candle list \<Rightarrow> backtest_config \<Rightarrow> nat \<Rightarrow> backtest_step" where
  "backtest_step_at cs cfg index =
     \<lparr>bs_index = index, bs_candle = cs ! index, bs_visible_candles = take (index + 1) cs,
      bs_is_active = bc_start cfg \<le> c_timestamp (cs ! index)\<rparr>"

definition iter_backtest_steps :: "candle list \<Rightarrow> backtest_config \<Rightarrow> backtest_step list result" where
  "iter_backtest_steps cs cfg =
     bind_result (validate_backtest_history cs cfg) (\<lambda>_.
     ok (map (backtest_step_at cs cfg) [0..<length cs]))"

definition valid_history :: "candle list \<Rightarrow> backtest_config \<Rightarrow> bool" where
  "valid_history cs cfg \<longleftrightarrow> cs \<noteq> [] \<and>
     (\<forall>c\<in>set cs. c_symbol c = upper (strip (bc_symbol cfg)) \<and> c_timeframe c = bc_timeframe cfg \<and>
        c_timestamp c \<le> bc_end cfg) \<and>
     sorted_wrt (<) (map c_timestamp cs) \<and> bc_start cfg \<le> c_timestamp (last cs)"

lemma set_single: "xs \<noteq> [] \<Longrightarrow> set (map f xs) = {y} \<longleftrightarrow> (\<forall>x\<in>set xs. f x = y)"
  by (cases xs) auto

lemma validate_history_ok_iff: "validate_backtest_history cs cfg = Inr u \<longleftrightarrow> valid_history cs cfg"
proof (cases "cs = []")
  case False
  then show ?thesis
    unfolding validate_backtest_history_def valid_history_def raise_if_Inr adjacent_timestamps
      not_not set_single [OF False]
    by (auto simp: not_less list_ex_iff)
qed (simp add: validate_backtest_history_def valid_history_def)

lemma valid_history_prefix:
  "valid_history (cs @ ds) cfg \<Longrightarrow> cs \<noteq> [] \<Longrightarrow> bc_start cfg \<le> c_timestamp (last cs) \<Longrightarrow>
     valid_history cs cfg"
  by (auto simp: valid_history_def sorted_wrt_append)

lemma valid_history_less:
  "valid_history cs cfg \<Longrightarrow> i < j \<Longrightarrow> j < length cs \<Longrightarrow> c_timestamp (cs ! i) < c_timestamp (cs ! j)"
  by (auto simp: valid_history_def sorted_wrt_iff_nth_less)

subsection \<open>Framing\<close>

text \<open>\<open>n.to_bytes(k, "big")\<close>.\<close>

fun to_bytes_big :: "nat \<Rightarrow> nat \<Rightarrow> string" where
  "to_bytes_big 0 n = []"
| "to_bytes_big (Suc k) n = to_bytes_big k (n div 256) @ [char_of (n mod 256)]"

definition hash_framed :: "string \<Rightarrow> string" where
  "hash_framed val = to_bytes_big 8 (length val) @ val"

definition frames :: "string list \<Rightarrow> string" where
  "frames fs = concat (map hash_framed fs)"

definition hash_optional :: "string \<Rightarrow> string option \<Rightarrow> string list" where
  "hash_optional kind val =
     (case val of None \<Rightarrow> [''optional-'' @ kind @ '':none'']
      | Some v \<Rightarrow> [''optional-'' @ kind @ '':some'', v])"

lemma length_to_bytes_big [simp]: "length (to_bytes_big k n) = k"
  by (induction k n rule: to_bytes_big.induct) auto

lemma to_bytes_big_inject:
  "m < 256 ^ k \<Longrightarrow> n < 256 ^ k \<Longrightarrow> to_bytes_big k m = to_bytes_big k n \<Longrightarrow> m = n"
proof (induction k arbitrary: m n)
  case (Suc k)
  from Suc.prems have "m div 256 < 256 ^ k" "n div 256 < 256 ^ k"
    by (simp_all add: less_mult_imp_div_less mult.commute)
  with Suc have "m div 256 = n div 256" by auto
  moreover from Suc.prems have "(char_of (m mod 256) :: char) = char_of (n mod 256)" by simp
  then have "(of_char (char_of (m mod 256) :: char) :: nat) = of_char (char_of (n mod 256) :: char)"
    by (rule arg_cong)
  then have "m mod 256 = n mod 256" by simp
  ultimately show ?case by (metis div_mult_mod_eq)
qed simp

lemma hash_framed_code:
  assumes "hash_framed v @ u = hash_framed w @ u'" and "length v < 2 ^ 64" and "length w < 2 ^ 64"
  shows "v = w \<and> u = u'"
proof -
  have "to_bytes_big 8 (length v) = to_bytes_big 8 (length w)" and rest: "v @ u = w @ u'"
    using assms(1) by (simp_all add: hash_framed_def append_eq_append_conv)
  with to_bytes_big_inject [of "length v" 8 "length w"] assms(2,3) have "length v = length w" by simp
  with rest show ?thesis by simp
qed

lemma hash_framed_nonempty [simp]: "hash_framed v \<noteq> []"
proof -
  have "8 \<le> length (hash_framed v)" by (simp add: hash_framed_def)
  then show ?thesis by (metis list.size(3) not_numeral_le_zero)
qed

text \<open>Framed field lists never collide.\<close>

lemma frames_inject:
  assumes "frames fs = frames gs" and "\<And>f. f \<in> set fs \<union> set gs \<Longrightarrow> length f < 2 ^ 64"
  shows "fs = gs"
  using assms
proof (induction fs arbitrary: gs)
  case Nil
  then show ?case by (cases gs) (simp_all add: frames_def)
next
  case (Cons f fs)
  then obtain g gs' where gs: "gs = g # gs'" by (cases gs) (auto simp: frames_def)
  with Cons.prems have "hash_framed f @ frames fs = hash_framed g @ frames gs'" by (simp add: frames_def)
  with hash_framed_code [OF this] Cons.prems(2) gs have "f = g" "frames fs = frames gs'" by auto
  with Cons.IH [of gs'] Cons.prems(2) gs show ?case by auto
qed

subsection \<open>Identities\<close>

record runtime =
  rt_sha256 :: "string \<Rightarrow> string"
  rt_isoformat :: "instant \<Rightarrow> string"
  rt_decimal_str :: "decimal \<Rightarrow> string"
  rt_clock :: py_datetime

definition candle_fields :: "runtime \<Rightarrow> candle \<Rightarrow> string list" where
  "candle_fields rt c =
     [c_symbol c, timeframe_value (c_timeframe c), rt_isoformat rt (c_timestamp c),
      rt_decimal_str rt (c_open c), rt_decimal_str rt (c_high c), rt_decimal_str rt (c_low c),
      rt_decimal_str rt (c_close c), rt_decimal_str rt (c_volume c)]"

definition data_fields :: "runtime \<Rightarrow> candle list \<Rightarrow> string list" where
  "data_fields rt cs = show_nat (length cs) # concat (map (candle_fields rt) cs)"

definition compute_data_identity :: "runtime \<Rightarrow> candle list \<Rightarrow> string" where
  "compute_data_identity rt cs = rt_sha256 rt (frames (data_fields rt cs))"

text \<open>\<open>repr\<close> of the tuple of canonical parameters.\<close>

definition repr_pair :: "string \<times> string \<Rightarrow> string" where
  "repr_pair p = ''('' @ repr_str (fst p) @ '', '' @ repr_str (snd p) @ '')''"

fun repr_pairs :: "(string \<times> string) list \<Rightarrow> string" where
  "repr_pairs [] = '')''"
| "repr_pairs (p # ps) = '', '' @ repr_pair p @ repr_pairs ps"

fun repr_tuple :: "(string \<times> string) list \<Rightarrow> string" where
  "repr_tuple [] = ''()''"
| "repr_tuple [p] = ''('' @ repr_pair p @ '',)''"
| "repr_tuple (p # q # ps) = ''('' @ repr_pair p @ repr_pairs (q # ps)"

definition run_fields :: "runtime \<Rightarrow> backtest_config \<Rightarrow> candle list \<Rightarrow> string list" where
  "run_fields rt cfg cs =
     (let e = bc_execution_config cfg; sizing = ec_position_sizing e; cost = ec_cost e in
      [bc_strategy_id cfg, bc_strategy_version cfg, bc_symbol cfg, timeframe_value (bc_timeframe cfg),
       rt_isoformat rt (bc_start cfg), rt_isoformat rt (bc_end cfg),
       rt_decimal_str rt (bc_initial_capital cfg),
       repr_tuple (canonical_parameters (bc_parameters cfg)),
       rt_decimal_str rt (commission_rate cost), rt_decimal_str rt (spread cost),
       rt_decimal_str rt (slippage_rate cost), fill_timing_value (ec_fill_timing e),
       rt_decimal_str rt (equity_fraction sizing)] @
      hash_optional ''decimal'' (map_option (rt_decimal_str rt) (max_participation_rate sizing)) @
      hash_optional ''int'' (map_option show_int (bc_random_seed cfg)) @
      hash_optional ''string'' (bc_data_source_id cfg) @
      hash_optional ''string'' (bc_reproducibility_id cfg) @
      [compute_data_identity rt cs])"

definition compute_run_id :: "runtime \<Rightarrow> backtest_config \<Rightarrow> candle list \<Rightarrow> string" where
  "compute_run_id rt cfg cs = take 16 (rt_sha256 rt (frames (run_fields rt cfg cs)))"

lemma timeframe_value_inject [simp]: "timeframe_value s = timeframe_value t \<longleftrightarrow> s = t"
  by (cases s; cases t) auto

lemma fill_timing_value_inject [simp]: "fill_timing_value s = fill_timing_value t \<longleftrightarrow> s = t"
  by (cases s; cases t) auto

lemma repr_pair_code: "repr_pair p @ u = repr_pair q @ v \<Longrightarrow> p = q \<and> u = v"
proof -
  assume "repr_pair p @ u = repr_pair q @ v"
  then have "repr_str (fst p) @ ('', '' @ repr_str (snd p) @ '')'' @ u) =
      repr_str (fst q) @ ('', '' @ repr_str (snd q) @ '')'' @ v)"
    by (simp add: repr_pair_def)
  from repr_str_code [OF this] have f: "fst p = fst q"
    and "repr_str (snd p) @ ('')'' @ u) = repr_str (snd q) @ ('')'' @ v)" by simp_all
  from repr_str_code [OF this(2)] f show ?thesis by (simp add: prod_eq_iff)
qed

lemma repr_pairs_inject: "repr_pairs ps = repr_pairs qs \<Longrightarrow> ps = qs"
proof (induction ps arbitrary: qs)
  case Nil
  then show ?case by (cases qs) auto
next
  case (Cons p ps)
  then obtain q qs' where qs: "qs = q # qs'" by (cases qs) auto
  with Cons.prems have "repr_pair p @ repr_pairs ps = repr_pair q @ repr_pairs qs'" by simp
  from repr_pair_code [OF this] Cons.IH qs show ?case by simp
qed

lemma repr_tuple_inject: "repr_tuple ps = repr_tuple qs \<Longrightarrow> ps = qs"
proof -
  assume eq: "repr_tuple ps = repr_tuple qs"
  have shape: "repr_tuple (p # ps') = ''('' @ repr_pair p @ (if ps' = [] then '',)'' else repr_pairs ps')"
    for p ps' by (cases ps') auto
  have open_pair: "repr_pair p = CHR ''('' # tl (repr_pair p)" for p by (simp add: repr_pair_def)
  show "ps = qs"
  proof (cases ps)
    case Nil
    with eq show ?thesis by (cases qs) (auto simp: shape, auto simp: repr_pair_def)
  next
    case (Cons p ps')
    then obtain q qs' where qs: "qs = q # qs'"
      using eq by (cases qs) (auto simp: shape, auto simp: repr_pair_def)
    from eq Cons qs have "repr_pair p @ (if ps' = [] then '',)'' else repr_pairs ps') =
        repr_pair q @ (if qs' = [] then '',)'' else repr_pairs qs')" by (simp add: shape)
    from repr_pair_code [OF this] have "p = q" and
      tails: "(if ps' = [] then '',)'' else repr_pairs ps') = (if qs' = [] then '',)'' else repr_pairs qs')"
      by auto
    moreover have "ps' = qs'"
      using tails by (cases ps'; cases qs') (auto dest: repr_pairs_inject simp del: repr_pairs.simps,
          auto simp: repr_pair_def dest: repr_pairs_inject)
    ultimately show ?thesis using Cons qs by simp
  qed
qed

end
