(* ===== verification/Backtest_Engine.thy ===== *)
theory Backtest_Engine
  imports Backtest_History
begin

text \<open>
  The backtest engine (\<open>backtesting/engine.py\<close>): one chronological pass that resolves the pending
  order against the current bar, records the bar, and asks the strategy, which sees the visible
  prefix and the actual position.  The state of the pass is the portfolio, the equity curve and the
  pending order; the invariant over the bars carries the properties.
\<close>

subsection \<open>The pass\<close>

definition validate_strategy_matches_config :: "strategy \<Rightarrow> backtest_config \<Rightarrow> unit result" where
  "validate_strategy_matches_config strategy cfg =
     raise_if (strategy_id strategy \<noteq> bc_strategy_id cfg) InvalidBacktestConfigError ''strategy_id mismatch''
     (raise_if (strategy_version strategy \<noteq> bc_strategy_version cfg) InvalidBacktestConfigError
        ''strategy_version mismatch''
     (raise_if (canonical_parameters (strategy_parameters strategy) \<noteq> canonical_parameters (bc_parameters cfg))
        InvalidBacktestConfigError ''strategy parameters mismatch'' (ok ())))"

record engine_state =
  es_portfolio :: portfolio
  es_equity_curve :: "equity_observation list"
  es_pending :: "(simulated_order_intent \<times> decimal) option"

definition resolve_pending ::
    "backtest_config \<Rightarrow> candle list \<Rightarrow> engine_state \<Rightarrow> engine_state result" where
  "resolve_pending cfg cs st =
     (case es_pending st of
        None \<Rightarrow> ok st
      | Some (intent, equity_at_signal) \<Rightarrow>
          bind_result (fill_intent (bc_execution_config cfg) intent cs (pf_position (es_portfolio st))
            equity_at_signal) (\<lambda>fill.
          bind_result (case fill of None \<Rightarrow> ok (es_portfolio st) | Some f \<Rightarrow> apply_fill f (es_portfolio st))
            (\<lambda>pf. ok (st\<lparr>es_portfolio := pf, es_pending := None\<rparr>))))"

definition observe :: "backtest_step \<Rightarrow> engine_state \<Rightarrow> engine_state" where
  "observe step st =
     (if bs_is_active step then
        st\<lparr>es_equity_curve := es_equity_curve st @
          [\<lparr>eo_timestamp = c_timestamp (bs_candle step),
            eo_equity = portfolio_equity (es_portfolio st) (c_close (bs_candle step)),
            eo_cash = pf_cash (es_portfolio st), eo_position = pf_position (es_portfolio st)\<rparr>]\<rparr>
      else st)"

definition decide_step :: "strategy \<Rightarrow> backtest_step \<Rightarrow> engine_state \<Rightarrow> engine_state result" where
  "decide_step strategy step st =
     (if bs_is_active step \<and> strategy_warmup_period strategy \<le> int (length (bs_visible_candles step)) then
        bind_result (mk_strategy_context (bs_visible_candles step) (pf_position (es_portfolio st))
          (strategy_parameters strategy)) (\<lambda>context.
        bind_result (strategy_decide strategy context) (\<lambda>decision.
        ok (case translate_decision decision (pf_position (es_portfolio st))
              (c_timestamp (bs_candle step)) (bs_index step) of
              None \<Rightarrow> st
            | Some intent \<Rightarrow>
                st\<lparr>es_pending := Some (intent,
                    portfolio_equity (es_portfolio st) (c_close (bs_candle step)))\<rparr>)))
      else ok st)"

definition engine_step ::
    "backtest_config \<Rightarrow> candle list \<Rightarrow> strategy \<Rightarrow> engine_state \<Rightarrow> backtest_step \<Rightarrow> engine_state result" where
  "engine_step cfg cs strategy st step =
     bind_result (resolve_pending cfg cs st) (\<lambda>st. decide_step strategy step (observe step st))"

definition new_run :: "runtime \<Rightarrow> backtest_config \<Rightarrow> candle list \<Rightarrow> backtest_run result" where
  "new_run rt cfg cs = mk_backtest_run cfg (compute_run_id rt cfg cs) (rt_clock rt)"

text \<open>\<open>BacktestEngine(config, candles).run()\<close>: the flat baseline.\<close>

definition run_flat :: "runtime \<Rightarrow> backtest_config \<Rightarrow> candle list \<Rightarrow> backtest_result result" where
  "run_flat rt cfg cs =
     bind_result (validate_backtest_history cs cfg) (\<lambda>_.
     bind_result (iter_backtest_steps cs cfg) (\<lambda>steps.
     bind_result (new_run rt cfg cs) (\<lambda>run.
     ok \<lparr>btr_run = run,
         btr_equity_curve = map (\<lambda>step. \<lparr>eo_timestamp = c_timestamp (bs_candle step),
           eo_equity = bc_initial_capital cfg, eo_cash = bc_initial_capital cfg,
           eo_position = FLAT_POSITION\<rparr>) (filter bs_is_active steps),
         btr_trades = [], btr_final_position = FLAT_POSITION\<rparr>)))"

text \<open>\<open>BacktestEngine(config, candles).run_strategy(strategy)\<close>.\<close>

definition run_strategy ::
    "runtime \<Rightarrow> backtest_config \<Rightarrow> candle list \<Rightarrow> strategy \<Rightarrow> backtest_result result" where
  "run_strategy rt cfg cs strategy =
     bind_result (validate_backtest_history cs cfg) (\<lambda>_.
     bind_result (validate_strategy_matches_config strategy cfg) (\<lambda>_.
     raise_if (ec_fill_timing (bc_execution_config cfg) = SAME_BAR_CLOSE) InvalidExecutionConfigError
       ''SAME_BAR_CLOSE is not available for strategy-driven runs''
     (bind_result (mk_portfolio (bc_initial_capital cfg) (bc_symbol cfg)) (\<lambda>pf.
      bind_result (iter_backtest_steps cs cfg) (\<lambda>steps.
      bind_result (fold_result (engine_step cfg cs strategy)
        \<lparr>es_portfolio = pf, es_equity_curve = [], es_pending = None\<rparr> steps) (\<lambda>st.
      bind_result (new_run rt cfg cs) (\<lambda>run.
      ok \<lparr>btr_run = run, btr_equity_curve = es_equity_curve st,
          btr_trades = pf_trades (es_portfolio st),
          btr_final_position = pf_position (es_portfolio st)\<rparr>)))))))"

subsection \<open>The pass over the first bars\<close>

definition run_bars ::
    "backtest_config \<Rightarrow> candle list \<Rightarrow> strategy \<Rightarrow> engine_state \<Rightarrow> nat \<Rightarrow> engine_state result" where
  "run_bars cfg cs strategy st n =
     fold_result (engine_step cfg cs strategy) st (map (backtest_step_at cs cfg) [0..<n])"

definition initial_state :: "backtest_config \<Rightarrow> engine_state" where
  "initial_state cfg =
     \<lparr>es_portfolio = \<lparr>pf_symbol = bc_symbol cfg, pf_cash = bc_initial_capital cfg,
        pf_position = FLAT_POSITION, pf_entry_time = None, pf_entry_commission = 0,
        pf_entry_stop_price = None, pf_trades = []\<rparr>,
      es_equity_curve = [], es_pending = None\<rparr>"

lemma run_bars_0 [simp]: "run_bars cfg cs s st 0 = Inr st"
  by (simp add: run_bars_def)

lemma run_bars_Suc:
  "run_bars cfg cs s st (Suc n) =
     bind_result (run_bars cfg cs s st n) (\<lambda>st'. engine_step cfg cs s st' (backtest_step_at cs cfg n))"
  by (simp add: run_bars_def fold_result_append)

lemma run_strategy_ok_iff:
  "run_strategy rt cfg cs s = Inr r \<longleftrightarrow>
     valid_history cs cfg \<and> validate_strategy_matches_config s cfg = Inr () \<and>
     ec_fill_timing (bc_execution_config cfg) = NEXT_BAR_OPEN \<and> 0 < bc_initial_capital cfg \<and>
     (\<exists>st run. run_bars cfg cs s (initial_state cfg) (length cs) = Inr st \<and> new_run rt cfg cs = Inr run \<and>
       r = \<lparr>btr_run = run, btr_equity_curve = es_equity_curve st,
            btr_trades = pf_trades (es_portfolio st), btr_final_position = pf_position (es_portfolio st)\<rparr>)"
  by (cases "ec_fill_timing (bc_execution_config cfg)")
    (auto simp: run_strategy_def result_simps validate_history_ok_iff mk_portfolio_def
      iter_backtest_steps_def run_bars_def initial_state_def not_le)

subsection \<open>The invariant over the bars\<close>

text \<open>
  A pending order was signalled on the bar just processed, by an intent that agrees with the
  position that bar left.
\<close>

definition pending_inv :: "candle list \<Rightarrow> nat \<Rightarrow> engine_state \<Rightarrow> bool" where
  "pending_inv cs n st \<longleftrightarrow>
     (case es_pending st of None \<Rightarrow> True
      | Some (intent, e) \<Rightarrow> n = oi_signal_index intent + 1 \<and>
          oi_signal_time intent = c_timestamp (cs ! oi_signal_index intent) \<and>
          intent_agrees intent (pf_position (es_portfolio st)) \<and> positive_option (oi_stop_price intent))"

definition bars_inv :: "backtest_config \<Rightarrow> candle list \<Rightarrow> nat \<Rightarrow> engine_state \<Rightarrow> bool" where
  "bars_inv cfg cs n st \<longleftrightarrow>
     portfolio_inv (c_timestamp (cs ! (n - 1))) (es_portfolio st) \<and> pending_inv cs n st \<and>
     map eo_timestamp (es_equity_curve st) =
       map c_timestamp (filter (\<lambda>c. bc_start cfg \<le> c_timestamp c) (take n cs)) \<and>
     (\<forall>eo\<in>set (es_equity_curve st). \<exists>c\<in>set cs. eo_timestamp eo = c_timestamp c \<and>
        eo_equity eo = dadd (eo_cash eo) (dmul (ps_quantity (eo_position eo)) (c_close c)))"

definition sound_strategy :: "strategy \<Rightarrow> bool" where
  "sound_strategy s \<longleftrightarrow> (\<forall>ctx d. strategy_decide s ctx = Inr d \<longrightarrow> valid_decision d)"

lemma representable_position:
  "portfolio_inv now pf \<Longrightarrow> representable (ps_quantity (pf_position pf))"
  by (auto simp: portfolio_inv_def FLAT_POSITION_def split: option.splits)

text \<open>A strategy raises an error on a context that holds its warm-up period.\<close>

definition strategy_raises :: "strategy \<Rightarrow> error \<Rightarrow> bool" where
  "strategy_raises s e \<longleftrightarrow>
     (\<exists>ctx. strategy_warmup_period s \<le> int (length (sc_visible_candles ctx)) \<and> strategy_decide s ctx = Inl e)"

lemma strategy_raisesI:
  "strategy_decide s ctx = Inl e \<Longrightarrow> strategy_warmup_period s \<le> int (length (sc_visible_candles ctx)) \<Longrightarrow>
     strategy_raises s e"
  by (auto simp: strategy_raises_def)

definition price_error :: error where
  "price_error = Err InvalidExecutionConfigError ''cost configuration produced a non-positive fill price''"

lemma resolve_pending_step:
  assumes cfg: "valid_execution_config (bc_execution_config cfg)"
      "ec_fill_timing (bc_execution_config cfg) = NEXT_BAR_OPEN"
    and hist: "valid_history cs cfg" and n: "n < length cs"
    and inv: "portfolio_inv (c_timestamp (cs ! (n - 1))) (es_portfolio st)" "pending_inv cs n st"
  shows "case resolve_pending cfg cs st of
      Inl e \<Rightarrow> e = price_error
    | Inr st' \<Rightarrow> es_pending st' = None \<and> es_equity_curve st' = es_equity_curve st \<and>
        portfolio_inv (c_timestamp (cs ! n)) (es_portfolio st') \<and>
        prefix (pf_trades (es_portfolio st)) (pf_trades (es_portfolio st'))"
proof -
  have mono: "c_timestamp (cs ! (n - 1)) \<le> c_timestamp (cs ! n)"
    using valid_history_less [OF hist, of "n - 1" n] n by (cases n) auto
  show ?thesis
  proof (cases "es_pending st")
    case None
    with inv(1) mono show ?thesis by (auto simp: resolve_pending_def intro: portfolio_inv_mono)
  next
    case (Some p)
    obtain intent e where p: "p = (intent, e)" by (cases p)
    with Some inv(2) have i: "n = oi_signal_index intent + 1"
      "oi_signal_time intent = c_timestamp (cs ! oi_signal_index intent)"
      "intent_agrees intent (pf_position (es_portfolio st))" "positive_option (oi_stop_price intent)"
      by (auto simp: pending_inv_def)
    from i(1) n mono have idx: "oi_signal_index intent + 1 < length cs"
      and time: "oi_signal_time intent \<le> c_timestamp (cs ! (oi_signal_index intent + 1))"
      by (auto simp: i(2))
    let ?fill = "fill_intent (bc_execution_config cfg) intent cs (pf_position (es_portfolio st)) e"
    note out = fill_intent_outcome [OF cfg idx time i(4,3) representable_position [OF inv(1)], of e]
    have eq: "resolve_pending cfg cs st = bind_result ?fill (\<lambda>fill.
          bind_result (case fill of None \<Rightarrow> ok (es_portfolio st) | Some f \<Rightarrow> apply_fill f (es_portfolio st))
            (\<lambda>pf. ok (st\<lparr>es_portfolio := pf, es_pending := None\<rparr>)))"
      by (simp add: resolve_pending_def Some p)
    show ?thesis
    proof (cases ?fill)
      case (Inl err)
      with out eq show ?thesis by (simp add: price_error_def)
    next
      case (Inr fo)
      show ?thesis
      proof (cases fo)
        case None
        with Inr eq inv(1) mono show ?thesis by (auto intro: portfolio_inv_mono)
      next
        case (Some f)
        with out Inr have f: "valid_fill f" "sf_action f = oi_action intent" "representable (sf_quantity f)"
          "sf_fill_time f = c_timestamp (cs ! n)" by (simp_all add: i(1))
        have "\<exists>pf'. apply_fill f (es_portfolio st) = Inr pf' \<and> portfolio_inv (sf_fill_time f) pf' \<and>
            prefix (pf_trades (es_portfolio st)) (pf_trades pf')"
          by (rule apply_fill_ok [OF inv(1) f(1) _ _ f(3)])
            (use i(3) f mono in \<open>auto simp: intent_agrees_def\<close>)
        with Inr Some eq f(4) show ?thesis by auto
      qed
    qed
  qed
qed

lemma decide_step_cases:
  assumes "decide_step s step st = Inr st'"
  obtains "st' = st"
  | ctx dec intent e where "strategy_decide s ctx = Inr dec"
      and "translate_decision dec (pf_position (es_portfolio st)) (c_timestamp (bs_candle step))
        (bs_index step) = Some intent"
      and "st' = st\<lparr>es_pending := Some (intent, e)\<rparr>"
proof (cases "bs_is_active step \<and> strategy_warmup_period s \<le> int (length (bs_visible_candles step))")
  case True
  with assms obtain ctx dec where dec: "strategy_decide s ctx = Inr dec"
    and st': "st' = (case translate_decision dec (pf_position (es_portfolio st))
              (c_timestamp (bs_candle step)) (bs_index step) of
              None \<Rightarrow> st
            | Some intent \<Rightarrow>
                st\<lparr>es_pending := Some (intent,
                    portfolio_equity (es_portfolio st) (c_close (bs_candle step)))\<rparr>)"
    by (auto simp: decide_step_def result_simps)
  show ?thesis
  proof (cases "translate_decision dec (pf_position (es_portfolio st)) (c_timestamp (bs_candle step))
      (bs_index step)")
    case None
    with st' that(1) show ?thesis by simp
  next
    case (Some intent)
    with st' dec that(2) show ?thesis by simp
  qed
next
  case False
  with assms that(1) show ?thesis by (auto simp: decide_step_def)
qed

lemma decide_step_sound:
  assumes s: "sound_strategy s" and step: "step = backtest_step_at cs cfg n"
    and st: "es_pending st = None" and d: "decide_step s step st = Inr st'"
  shows "es_portfolio st' = es_portfolio st \<and> es_equity_curve st' = es_equity_curve st \<and>
    pending_inv cs (Suc n) st'"
  using d
proof (cases rule: decide_step_cases)
  case 1
  with st show ?thesis by (simp add: pending_inv_def)
next
  case (2 ctx dec intent e)
  with s have "valid_decision dec" by (auto simp: sound_strategy_def)
  with translate_decision_sound [OF 2(2)] 2(3) step show ?thesis
    by (simp add: pending_inv_def backtest_step_at_def intent_agrees_def)
qed

lemma engine_step_sound:
  assumes cfg: "valid_execution_config (bc_execution_config cfg)"
      "ec_fill_timing (bc_execution_config cfg) = NEXT_BAR_OPEN"
    and hist: "valid_history cs cfg" and n: "n < length cs" and s: "sound_strategy s"
    and inv: "bars_inv cfg cs n st"
  shows "case engine_step cfg cs s st (backtest_step_at cs cfg n) of
      Inl e \<Rightarrow> e = price_error \<or> strategy_raises s e
    | Inr st' \<Rightarrow> bars_inv cfg cs (Suc n) st' \<and> prefix (es_equity_curve st) (es_equity_curve st') \<and>
        prefix (pf_trades (es_portfolio st)) (pf_trades (es_portfolio st'))"
proof -
  let ?step = "backtest_step_at cs cfg n"
  from inv have i: "portfolio_inv (c_timestamp (cs ! (n - 1))) (es_portfolio st)" "pending_inv cs n st"
    by (simp_all add: bars_inv_def)
  note r = resolve_pending_step [OF cfg hist n i]
  show ?thesis
  proof (cases "resolve_pending cfg cs st")
    case (Inl e)
    with r show ?thesis by (simp add: engine_step_def)
  next
    case (Inr st1)
    let ?st2 = "observe ?step st1"
    from r Inr have st1: "es_pending st1 = None" "es_equity_curve st1 = es_equity_curve st"
      "portfolio_inv (c_timestamp (cs ! n)) (es_portfolio st1)"
      "prefix (pf_trades (es_portfolio st)) (pf_trades (es_portfolio st1))" by simp_all
    have st2: "es_pending ?st2 = None" "es_portfolio ?st2 = es_portfolio st1"
      using st1(1) by (simp_all add: observe_def)
    have eq: "engine_step cfg cs s st ?step = decide_step s ?step ?st2"
      by (simp add: engine_step_def Inr)
    show ?thesis
    proof (cases "decide_step s ?step ?st2")
      case (Inl e)
      from Inl have "strategy_raises s e"
        using n by (auto simp: decide_step_def result_simps mk_strategy_context_def backtest_step_at_def
            split: if_splits intro!: strategy_raisesI)
      with Inl eq show ?thesis by simp
    next
      case (Inr st')
      from decide_step_sound [OF s refl st2(1) Inr] st2(2)
      have st': "es_portfolio st' = es_portfolio st1" "es_equity_curve st' = es_equity_curve ?st2"
        "pending_inv cs (Suc n) st'" by simp_all
      have take: "take (Suc n) cs = take n cs @ [cs ! n]" using n by (simp add: take_Suc_conv_app_nth)
      have "bars_inv cfg cs (Suc n) st'"
        using inv st1 st' st2 n
        by (auto simp: bars_inv_def observe_def take backtest_step_at_def portfolio_equity_def)
      moreover have "prefix (es_equity_curve st) (es_equity_curve st')"
        using st1(2) st'(2) by (simp add: observe_def)
      ultimately show ?thesis using Inr eq st1(4) st'(1) by simp
    qed
  qed
qed

lemma initial_bars_inv: "valid_history cs cfg \<Longrightarrow> bars_inv cfg cs 0 (initial_state cfg)"
  by (simp add: bars_inv_def initial_state_def pending_inv_def portfolio_inv_def)

lemma run_bars_sound:
  assumes cfg: "valid_execution_config (bc_execution_config cfg)"
      "ec_fill_timing (bc_execution_config cfg) = NEXT_BAR_OPEN"
    and hist: "valid_history cs cfg" and s: "sound_strategy s" and n: "n \<le> length cs"
  shows "case run_bars cfg cs s (initial_state cfg) n of
      Inl e \<Rightarrow> e = price_error \<or> strategy_raises s e
    | Inr st \<Rightarrow> bars_inv cfg cs n st"
  using n
proof (induction n)
  case 0
  with initial_bars_inv [OF hist] show ?case by simp
next
  case (Suc n)
  then have IH: "case run_bars cfg cs s (initial_state cfg) n of
      Inl e \<Rightarrow> e = price_error \<or> strategy_raises s e | Inr st \<Rightarrow> bars_inv cfg cs n st" by simp
  show ?case
  proof (cases "run_bars cfg cs s (initial_state cfg) n")
    case (Inl e)
    with IH show ?thesis by (simp add: run_bars_Suc)
  next
    case (Inr st)
    with IH Suc.prems engine_step_sound [OF cfg hist _ s, of n st] show ?thesis
      by (auto simp: run_bars_Suc split: sum.splits)
  qed
qed

subsection \<open>A bar reads nothing later than itself\<close>

lemma engine_step_local:
  assumes tm: "ec_fill_timing (bc_execution_config cfg) = NEXT_BAR_OPEN" and n: "n < length cs"
    and p: "pending_inv cs n st"
  shows "engine_step cfg (cs @ ds) s st (backtest_step_at (cs @ ds) cfg n) =
    engine_step cfg cs s st (backtest_step_at cs cfg n)"
proof -
  have step: "backtest_step_at (cs @ ds) cfg n = backtest_step_at cs cfg n"
    using n by (simp add: backtest_step_at_def nth_append_left)
  have "resolve_pending cfg (cs @ ds) st = resolve_pending cfg cs st"
  proof (cases "es_pending st")
    case (Some q)
    obtain intent e where q: "q = (intent, e)" by (cases q)
    with Some p n have "oi_signal_index intent + 1 < length cs" by (simp add: pending_inv_def)
    from fill_intent_local [OF tm this] Some q show ?thesis by (simp add: resolve_pending_def)
  qed (simp add: resolve_pending_def)
  with step show ?thesis by (simp add: engine_step_def)
qed

lemma valid_history_take:
  assumes "valid_history (cs @ ds) cfg" and "cs \<noteq> []" and "bc_start cfg \<le> c_timestamp (last cs)"
  shows "valid_history cs cfg"
  using assms by (rule valid_history_prefix)

lemma run_bars_local:
  assumes cfg: "valid_execution_config (bc_execution_config cfg)"
      "ec_fill_timing (bc_execution_config cfg) = NEXT_BAR_OPEN"
    and hist: "valid_history cs cfg" and s: "sound_strategy s" and n: "n \<le> length cs"
  shows "run_bars cfg (cs @ ds) s (initial_state cfg) n = run_bars cfg cs s (initial_state cfg) n"
  using n
proof (induction n)
  case (Suc n)
  show ?case
  proof (cases "run_bars cfg cs s (initial_state cfg) n")
    case (Inl e)
    with Suc show ?thesis by (simp add: run_bars_Suc)
  next
    case (Inr st)
    with run_bars_sound [OF cfg hist s, of n] Suc.prems have "pending_inv cs n st"
      by (simp add: bars_inv_def)
    with Suc Inr engine_step_local [OF cfg(2), of n cs st ds s] show ?thesis by (simp add: run_bars_Suc)
  qed
qed simp

lemma run_bars_extend:
  assumes cfg: "valid_execution_config (bc_execution_config cfg)"
      "ec_fill_timing (bc_execution_config cfg) = NEXT_BAR_OPEN"
    and hist: "valid_history cs cfg" and s: "sound_strategy s"
    and n: "run_bars cfg cs s (initial_state cfg) n = Inr st"
    and m: "run_bars cfg cs s (initial_state cfg) (n + k) = Inr st'" "n + k \<le> length cs"
  shows "prefix (es_equity_curve st) (es_equity_curve st') \<and>
    prefix (pf_trades (es_portfolio st)) (pf_trades (es_portfolio st'))"
  using m
proof (induction k arbitrary: st')
  case 0
  with n show ?case by simp
next
  case (Suc k)
  then obtain st1 where st1: "run_bars cfg cs s (initial_state cfg) (n + k) = Inr st1"
      "engine_step cfg cs s st1 (backtest_step_at cs cfg (n + k)) = Inr st'"
    by (auto simp: run_bars_Suc result_simps)
  with run_bars_sound [OF cfg hist s, of "n + k"] Suc.prems(2) have "bars_inv cfg cs (n + k) st1" by simp
  with engine_step_sound [OF cfg hist _ s this] st1(2) Suc.prems(2)
  have "prefix (es_equity_curve st1) (es_equity_curve st')"
    "prefix (pf_trades (es_portfolio st1)) (pf_trades (es_portfolio st'))" by simp_all
  with Suc.IH [OF st1(1)] Suc.prems(2) show ?case by (auto intro: prefix_order.trans)
qed

lemma run_strategy_prefix:
  assumes cfg: "valid_execution_config (bc_execution_config cfg)" and s: "sound_strategy s"
    and r: "run_strategy rt cfg cs s = Inr r" and r': "run_strategy rt cfg (cs @ ds) s = Inr r'"
  shows "prefix (btr_equity_curve r) (btr_equity_curve r') \<and> prefix (btr_trades r) (btr_trades r')"
proof -
  from r obtain st where st: "valid_history cs cfg" "ec_fill_timing (bc_execution_config cfg) = NEXT_BAR_OPEN"
      "run_bars cfg cs s (initial_state cfg) (length cs) = Inr st"
      "btr_equity_curve r = es_equity_curve st" "btr_trades r = pf_trades (es_portfolio st)"
    by (auto simp: run_strategy_ok_iff)
  from r' obtain st' where st': "valid_history (cs @ ds) cfg"
      "run_bars cfg (cs @ ds) s (initial_state cfg) (length cs + length ds) = Inr st'"
      "btr_equity_curve r' = es_equity_curve st'" "btr_trades r' = pf_trades (es_portfolio st')"
    by (auto simp: run_strategy_ok_iff)
  have "run_bars cfg (cs @ ds) s (initial_state cfg) (length cs) = Inr st"
    using run_bars_local [OF cfg st(2,1) s, of "length cs" ds] st(3) by simp
  from run_bars_extend [OF cfg st(2) st'(1) s this st'(2)] st st' show ?thesis by simp
qed

subsection \<open>Prices of the trades\<close>

text \<open>
  Every recorded price is the open of a bar adjusted by the costs on the side of the order: an entry
  of a long and an exit of a short are bought, the others sold.
\<close>

definition fill_price_at ::
    "backtest_config \<Rightarrow> candle list \<Rightarrow> instant \<Rightarrow> decimal \<Rightarrow> bool \<Rightarrow> bool" where
  "fill_price_at cfg cs t p buy \<longleftrightarrow>
     (\<exists>c\<in>set cs. c_timestamp c = t \<and>
        apply_costs (ec_cost (bc_execution_config cfg)) (c_open c) buy = Inr p)"

definition priced_inv :: "backtest_config \<Rightarrow> candle list \<Rightarrow> portfolio \<Rightarrow> bool" where
  "priced_inv cfg cs pf \<longleftrightarrow>
     (\<forall>t\<in>set (pf_trades pf).
        fill_price_at cfg cs (st_entry_time t) (st_entry_price t) (st_direction t = LONG) \<and>
        fill_price_at cfg cs (st_exit_time t) (st_exit_price t) (st_direction t = SHORT)) \<and>
     (\<forall>t p. pf_entry_time pf = Some t \<longrightarrow> ps_average_entry_price (pf_position pf) = Some p \<longrightarrow>
        fill_price_at cfg cs t p (0 < ps_quantity (pf_position pf)))"

lemma fill_intent_price:
  assumes "ec_fill_timing (bc_execution_config cfg) = NEXT_BAR_OPEN"
    and "fill_intent (bc_execution_config cfg) intent cs position e = Inr (Some f)"
  shows "\<exists>b. is_buy_side (oi_action intent) position = Inr b \<and> valid_fill f \<and> sf_action f = oi_action intent \<and>
    fill_price_at cfg cs (sf_fill_time f) (sf_fill_price f) b"
proof -
  from assms have "oi_signal_index intent + 1 < length cs"
    by (auto simp: fill_intent_def resolve_fill_candle_def result_simps Let_def split: if_splits)
  with assms show ?thesis
    by (auto simp: fill_intent_def resolve_fill_candle_def result_simps Let_def check_fill_ok_iff
        fill_price_at_def simp del: ex_simps split: if_splits intro!: bexI [OF _ nth_mem])
qed

lemma apply_fill_priced:
  assumes inv: "portfolio_inv now pf" and pr: "priced_inv cfg cs pf"
    and side: "is_buy_side (sf_action f) (pf_position pf) = Inr b"
    and price: "fill_price_at cfg cs (sf_fill_time f) (sf_fill_price f) b"
    and f: "valid_fill f" and ap: "apply_fill f pf = Inr pf'"
  shows "priced_inv cfg cs pf'"
proof (cases "sf_action f")
  case OPEN_LONG
  with assms show ?thesis
    by (auto simp: apply_fill_def portfolio_open_def mk_position_state_def result_simps is_buy_side_def
        priced_inv_def valid_fill_def)
next
  case OPEN_SHORT
  with assms show ?thesis
    by (auto simp: apply_fill_def portfolio_open_def mk_position_state_def result_simps is_buy_side_def
        priced_inv_def valid_fill_def dneg_def dec.rnd_pos_iff)
next
  case CLOSE
  with side obtain dir where dir: "direction (pf_position pf) = Some dir" and b: "b = (dir = SHORT)"
    by (cases "direction (pf_position pf)")
      (auto simp: is_buy_side_def simp del: direction_None direction_LONG direction_SHORT
        split: signal_direction.splits)
  from ap CLOSE have "\<not> is_flat (pf_position pf)" by (auto simp: apply_fill_def portfolio_close_def Let_def)
  with inv portfolio_inv_flat [OF inv] obtain et p where e: "pf_entry_time pf = Some et"
      "ps_average_entry_price (pf_position pf) = Some p" by (auto simp: portfolio_inv_def)
  have long: "0 < ps_quantity (pf_position pf) \<longleftrightarrow> dir = LONG"
    using dir direction_LONG [of "pf_position pf"] by simp
  from ap CLOSE obtain trade where "pf_trades pf' = pf_trades pf @ [trade]" "pf_entry_time pf' = None"
      and "st_entry_time trade = et" "st_entry_price trade = p" "st_exit_time trade = sf_fill_time f"
        "st_exit_price trade = sf_fill_price f" "st_direction trade = dir"
    unfolding apply_fill_def portfolio_close_def Let_def e dir
    by (auto simp: result_simps check_trade_ok_iff)
  with pr price e long b show ?thesis by (auto simp: priced_inv_def)
qed

lemma engine_step_priced:
  assumes tm: "ec_fill_timing (bc_execution_config cfg) = NEXT_BAR_OPEN" and s: "sound_strategy s"
    and inv: "bars_inv cfg cs n st" and pr: "priced_inv cfg cs (es_portfolio st)"
    and step: "engine_step cfg cs s st (backtest_step_at cs cfg n) = Inr st'"
  shows "priced_inv cfg cs (es_portfolio st')"
proof -
  from step obtain st1 where st1: "resolve_pending cfg cs st = Inr st1"
      and d: "decide_step s (backtest_step_at cs cfg n) (observe (backtest_step_at cs cfg n) st1) = Inr st'"
    by (auto simp: engine_step_def result_simps)
  have "es_portfolio st' = es_portfolio st1"
    using d by (cases rule: decide_step_cases) (simp_all add: observe_def)
  moreover have "priced_inv cfg cs (es_portfolio st1)"
  proof (cases "es_pending st")
    case None
    with st1 pr show ?thesis by (simp add: resolve_pending_def)
  next
    case (Some q)
    obtain intent e where q: "q = (intent, e)" by (cases q)
    with st1 Some obtain fo where fo: "fill_intent (bc_execution_config cfg) intent cs
        (pf_position (es_portfolio st)) e = Inr fo"
      and pf: "(case fo of None \<Rightarrow> ok (es_portfolio st) | Some f \<Rightarrow> apply_fill f (es_portfolio st)) =
        Inr (es_portfolio st1)"
      by (auto simp: resolve_pending_def result_simps)
    show ?thesis
    proof (cases fo)
      case None
      with pf pr show ?thesis by simp
    next
      case (Some f)
      from fill_intent_price [OF tm fo [unfolded Some]] obtain b where
          b: "is_buy_side (sf_action f) (pf_position (es_portfolio st)) = Inr b" "valid_fill f"
            "fill_price_at cfg cs (sf_fill_time f) (sf_fill_price f) b" by auto
      from pf Some have ap: "apply_fill f (es_portfolio st) = Inr (es_portfolio st1)" by simp
      from inv have "portfolio_inv (c_timestamp (cs ! (n - 1))) (es_portfolio st)"
        by (simp add: bars_inv_def)
      from apply_fill_priced [OF this pr b(1,3,2) ap] show ?thesis .
    qed
  qed
  ultimately show ?thesis by simp
qed

lemma run_bars_priced:
  assumes cfg: "valid_execution_config (bc_execution_config cfg)"
      "ec_fill_timing (bc_execution_config cfg) = NEXT_BAR_OPEN"
    and hist: "valid_history cs cfg" and s: "sound_strategy s" and n: "n \<le> length cs"
    and r: "run_bars cfg cs s (initial_state cfg) n = Inr st"
  shows "priced_inv cfg cs (es_portfolio st)"
  using n r
proof (induction n arbitrary: st)
  case 0
  then show ?case by (auto simp: initial_state_def priced_inv_def)
next
  case (Suc n)
  then obtain st1 where "run_bars cfg cs s (initial_state cfg) n = Inr st1"
      "engine_step cfg cs s st1 (backtest_step_at cs cfg n) = Inr st"
    by (auto simp: run_bars_Suc result_simps)
  with Suc run_bars_sound [OF cfg hist s, of n] engine_step_priced [OF cfg(2) s, of cs n st1 st]
  show ?case by simp
qed

lemma run_strategy_state:
  assumes "valid_execution_config (bc_execution_config cfg)" and "sound_strategy s"
    and "run_strategy rt cfg cs s = Inr r"
  obtains st where "bars_inv cfg cs (length cs) st" and "priced_inv cfg cs (es_portfolio st)"
    and "btr_equity_curve r = es_equity_curve st" and "btr_trades r = pf_trades (es_portfolio st)"
    and "btr_final_position r = pf_position (es_portfolio st)" and "valid_history cs cfg"
proof -
  from assms(3) obtain st where "valid_history cs cfg"
      "ec_fill_timing (bc_execution_config cfg) = NEXT_BAR_OPEN"
      "run_bars cfg cs s (initial_state cfg) (length cs) = Inr st"
      "btr_equity_curve r = es_equity_curve st" "btr_trades r = pf_trades (es_portfolio st)"
      "btr_final_position r = pf_position (es_portfolio st)"
    by (auto simp: run_strategy_ok_iff)
  with run_bars_sound [OF assms(1) _ _ assms(2), of cs "length cs"]
    run_bars_priced [OF assms(1) _ _ assms(2), of cs "length cs" st] that
  show ?thesis by simp
qed

lemma run_strategy_error:
  assumes cfg: "valid_backtest_config cfg" and s: "sound_strategy s"
    and r: "run_strategy rt cfg cs s = Inl e"
  shows "validate_backtest_history cs cfg = Inl e \<or> validate_strategy_matches_config s cfg = Inl e \<or>
    ec_fill_timing (bc_execution_config cfg) = SAME_BAR_CLOSE \<and> err_class e = InvalidExecutionConfigError \<or>
    e = price_error \<or> strategy_raises s e \<or> \<not> is_aware (rt_clock rt) \<and> err_class e = ValueError"
proof (cases "validate_backtest_history cs cfg = Inr () \<and> validate_strategy_matches_config s cfg = Inr () \<and>
    ec_fill_timing (bc_execution_config cfg) = NEXT_BAR_OPEN")
  case True
  from cfg have c: "valid_execution_config (bc_execution_config cfg)" "0 < bc_initial_capital cfg"
    by (simp_all add: valid_backtest_config_def)
  from True have hist: "valid_history cs cfg" by (simp add: validate_history_ok_iff)
  have eq: "run_strategy rt cfg cs s =
      bind_result (run_bars cfg cs s (initial_state cfg) (length cs)) (\<lambda>st.
      bind_result (new_run rt cfg cs) (\<lambda>run.
      ok \<lparr>btr_run = run, btr_equity_curve = es_equity_curve st,
          btr_trades = pf_trades (es_portfolio st),
          btr_final_position = pf_position (es_portfolio st)\<rparr>))"
    using True c(2) by (simp add: run_strategy_def mk_portfolio_def iter_backtest_steps_def run_bars_def
        initial_state_def)
  show ?thesis
  proof (cases "run_bars cfg cs s (initial_state cfg) (length cs)")
    case (Inl e')
    with r eq run_bars_sound [OF c(1) _ hist s, of "length cs"] True show ?thesis by auto
  next
    case (Inr st)
    with r eq show ?thesis by (auto simp: result_simps new_run_def mk_backtest_run_def)
  qed
next
  case False
  then show ?thesis
    using r by (cases "ec_fill_timing (bc_execution_config cfg)")
      (auto simp: run_strategy_def result_simps)
qed

subsection \<open>The strategy interface\<close>

text \<open>
  What the engine needs of a strategy: its decisions carry positive prices, and with its warm-up
  period visible it decides.
\<close>

locale simulated_strategy =
  fixes s :: strategy
  assumes decisions_valid: "strategy_decide s ctx = Inr d \<Longrightarrow> valid_decision d"
    and decides: "strategy_warmup_period s \<le> int (length (sc_visible_candles ctx)) \<Longrightarrow>
      \<exists>d. strategy_decide s ctx = Inr d"
begin

lemma sound: "sound_strategy s"
  by (simp add: sound_strategy_def decisions_valid)

lemma never_raises: "\<not> strategy_raises s e"
  using decides unfolding strategy_raises_def by (metis Inl_Inr_False)

text \<open>On a valid run only the costs can fail.\<close>

lemma only_costs_fail:
  assumes "valid_backtest_config cfg" and "valid_history cs cfg"
    and "validate_strategy_matches_config s cfg = Inr ()"
    and "ec_fill_timing (bc_execution_config cfg) = NEXT_BAR_OPEN" and "is_aware (rt_clock rt)"
    and "run_strategy rt cfg cs s = Inl e"
  shows "e = price_error"
proof -
  have "validate_backtest_history cs cfg = Inr ()" using assms(2) by (simp add: validate_history_ok_iff)
  with run_strategy_error [OF assms(1) sound assms(6)] assms(3-5) never_raises show ?thesis by simp
qed

end

end
