(* ===== verification/Reference_Strategy.thy ===== *)
theory Reference_Strategy
  imports Backtest_Engine Indicator_Library
begin

text \<open>
  The moving-average crossover strategy (\<open>backtesting/strategy/reference.py\<close>), which interprets the
  strategy interface of the engine, and the properties of a backtest run.
\<close>

subsection \<open>The strategy\<close>

definition point_value :: "string \<Rightarrow> indicator_point \<Rightarrow> decimal result" where
  "point_value key p =
     (case map_of (pt_values p) key of None \<Rightarrow> raise KeyError key | Some v \<Rightarrow> ok v)"

definition ma_decide :: "nat \<Rightarrow> nat \<Rightarrow> strategy_context \<Rightarrow> strategy_decision result" where
  "ma_decide fast slow context =
     (let candles = sc_visible_candles context in
      bind_result (sma_compute fast candles) (\<lambda>fast_result.
      bind_result (sma_compute slow candles) (\<lambda>slow_result.
      let fp = ir_points fast_result; sp = ir_points slow_result in
      if length fp < 2 \<or> length sp < 2 then ok HOLD_DECISION
      else
        bind_result (point_value ''sma'' (fp ! (length fp - 1))) (\<lambda>fast_now.
        bind_result (point_value ''sma'' (fp ! (length fp - 2))) (\<lambda>fast_prev.
        bind_result (point_value ''sma'' (sp ! (length sp - 1))) (\<lambda>slow_now.
        bind_result (point_value ''sma'' (sp ! (length sp - 2))) (\<lambda>slow_prev.
        let crossed_above = fast_prev \<le> slow_prev \<and> fast_now > slow_now;
            crossed_below = fast_prev \<ge> slow_prev \<and> fast_now < slow_now
        in if crossed_above \<and> is_flat (sc_position context) then
             mk_strategy_decision ENTER_LONG None None ''fast SMA crossed above slow SMA''
           else if crossed_below \<and> direction (sc_position context) = Some LONG then
             mk_strategy_decision EXIT None None ''fast SMA crossed below slow SMA''
           else ok HOLD_DECISION)))))))"

definition mk_ma_crossover :: "int \<Rightarrow> int \<Rightarrow> string \<Rightarrow> strategy result" where
  "mk_ma_crossover fast slow version =
     raise_if (fast < 1 \<or> slow < 1) ValueError ''fast_period and slow_period must be >= 1''
     (raise_if (slow \<le> fast) ValueError ''fast_period must be < slow_period''
     (ok \<lparr>strategy_id = ''reference-ma-crossover'', strategy_version = version,
          strategy_parameters = [(''fast_period'', PInt fast), (''slow_period'', PInt slow)],
          strategy_warmup_period = slow + 1,
          strategy_decide = ma_decide (nat fast) (nat slow)\<rparr>))"

lemma sma_compute_points:
  assumes "1 \<le> p" and "p \<le> length cs"
  shows "\<exists>r. sma_compute p cs = Inr r \<and> length (ir_points r) = length cs - (p - 1) \<and>
    (\<forall>pt\<in>set (ir_points r). \<exists>v. pt_values pt = [(''sma'', v)])"
proof -
  let ?vs = "rolling_mean_values p (map c_close cs)"
  have len: "length ?vs = length cs - (p - 1)"
    using causal_length [OF causal_rolling_mean, of p "map c_close cs"] assms by simp
  have eq: "sma_compute p cs = ok (result_of (SMA p) cs (points_of ''sma'' (zip (drop (p - 1) cs) ?vs)))"
    using assms len by (simp add: sma_compute_def require_warmup_simps rolling_mean_ok)
  moreover have "length (points_of ''sma'' (zip (drop (p - 1) cs) ?vs)) = length cs - (p - 1)"
    using len by (simp add: points_of_def)
  moreover have "\<exists>v. pt_values pt = [(''sma'', v)]" if "pt \<in> set (points_of ''sma'' (zip (drop (p - 1) cs) ?vs))" for pt
    using points_of_bounded [OF that] by auto
  ultimately show ?thesis by (auto simp: result_of_def)
qed

lemma ma_decide_total:
  assumes "1 \<le> fast" and "1 \<le> slow" and "fast \<le> length (sc_visible_candles ctx)"
    and "slow \<le> length (sc_visible_candles ctx)"
  shows "\<exists>d. ma_decide fast slow ctx = Inr d \<and> valid_decision d \<and> sd_action d \<noteq> ENTER_SHORT"
proof -
  obtain fr sr where r: "sma_compute fast (sc_visible_candles ctx) = Inr fr"
      "sma_compute slow (sc_visible_candles ctx) = Inr sr"
      "\<forall>pt\<in>set (ir_points fr). \<exists>v. pt_values pt = [(''sma'', v)]"
      "\<forall>pt\<in>set (ir_points sr). \<exists>v. pt_values pt = [(''sma'', v)]"
    using sma_compute_points [OF assms(1,3)] sma_compute_points [OF assms(2,4)] by auto
  have val: "\<exists>v. point_value ''sma'' pt = Inr v"
    if "pt \<in> set (ir_points fr) \<union> set (ir_points sr)" for pt
    using that r(3,4) by (fastforce simp: point_value_def)
  show ?thesis
  proof (cases "length (ir_points fr) < 2 \<or> length (ir_points sr) < 2")
    case True
    with r(1,2) show ?thesis
      by (auto simp: ma_decide_def Let_def HOLD_DECISION_def valid_decision_def)
  next
    case False
    then have mem: "ir_points fr ! (length (ir_points fr) - 1) \<in> set (ir_points fr)"
      "ir_points fr ! (length (ir_points fr) - 2) \<in> set (ir_points fr)"
      "ir_points sr ! (length (ir_points sr) - 1) \<in> set (ir_points sr)"
      "ir_points sr ! (length (ir_points sr) - 2) \<in> set (ir_points sr)"
      by (auto intro!: nth_mem)
    obtain a b c d where
      "point_value ''sma'' (ir_points fr ! (length (ir_points fr) - 1)) = Inr a"
      "point_value ''sma'' (ir_points fr ! (length (ir_points fr) - 2)) = Inr b"
      "point_value ''sma'' (ir_points sr ! (length (ir_points sr) - 1)) = Inr c"
      "point_value ''sma'' (ir_points sr ! (length (ir_points sr) - 2)) = Inr d"
      using val mem by (metis UnI1 UnI2)
    with False r(1,2) show ?thesis
      by (simp add: ma_decide_def Let_def HOLD_DECISION_def valid_decision_def mk_strategy_decision_def)
  qed
qed

lemma ma_decide_valid:
  assumes "ma_decide fast slow ctx = Inr d"
  shows "valid_decision d \<and> sd_action d \<noteq> ENTER_SHORT"
  using assms
  by (auto simp: ma_decide_def Let_def result_simps HOLD_DECISION_def valid_decision_def
      mk_strategy_decision_def split: if_splits)

lemma ma_crossover_strategy:
  assumes "mk_ma_crossover fast slow version = Inr s"
  shows "simulated_strategy s"
proof -
  from assms have s: "1 \<le> fast" "fast < slow" "strategy_decide s = ma_decide (nat fast) (nat slow)"
      "strategy_warmup_period s = slow + 1"
    by (auto simp: mk_ma_crossover_def)
  show ?thesis
  proof
    fix ctx d
    assume "strategy_decide s ctx = Inr d"
    then show "valid_decision d" using ma_decide_valid s(3) by simp
  next
    fix ctx :: strategy_context
    assume "strategy_warmup_period s \<le> int (length (sc_visible_candles ctx))"
    then show "\<exists>d. strategy_decide s ctx = Inr d"
      using ma_decide_total [of "nat fast" "nat slow" ctx] s by (auto simp: nat_le_iff le_nat_iff)
  qed
qed

definition ma_crossover :: "nat \<Rightarrow> nat \<Rightarrow> string \<Rightarrow> strategy" where
  "ma_crossover fast extra version =
     projr (mk_ma_crossover (int fast + 1) (int fast + int extra + 2) version)"

lemma ma_crossover_ok:
  "mk_ma_crossover (int fast + 1) (int fast + int extra + 2) version = Inr (ma_crossover fast extra version)"
  by (simp add: ma_crossover_def mk_ma_crossover_def)

interpretation ma: simulated_strategy "ma_crossover fast extra version" for fast extra version
  by (rule ma_crossover_strategy [OF ma_crossover_ok])

subsection \<open>A long-only run\<close>

definition long_only :: "portfolio \<Rightarrow> bool" where
  "long_only pf \<longleftrightarrow> 0 \<le> ps_quantity (pf_position pf) \<and> (\<forall>t\<in>set (pf_trades pf). st_direction t = LONG)"

definition pending_long :: "engine_state \<Rightarrow> bool" where
  "pending_long st \<longleftrightarrow> (\<forall>intent e. es_pending st = Some (intent, e) \<longrightarrow> oi_action intent \<noteq> OPEN_SHORT)"

lemma apply_fill_long_only:
  assumes "long_only pf" and "sf_action f \<noteq> OPEN_SHORT" and "0 < sf_quantity f"
    and "apply_fill f pf = Inr pf'"
  shows "long_only pf'"
proof (cases "sf_action f")
  case OPEN_LONG
  with assms show ?thesis
    by (auto simp: apply_fill_def portfolio_open_def mk_position_state_def result_simps long_only_def)
next
  case CLOSE
  have "direction (pf_position pf) = Some dir \<Longrightarrow> dir = LONG" for dir
    using assms(1) by (cases dir) (auto simp: long_only_def)
  with CLOSE assms show ?thesis
    by (auto simp: apply_fill_def portfolio_close_def result_simps long_only_def check_trade_ok_iff
        FLAT_POSITION_def Let_def simp del: direction_None direction_LONG direction_SHORT
        split: option.splits)
qed (use assms in simp)

lemma engine_step_long_only:
  assumes d: "\<And>ctx d. strategy_decide s ctx = Inr d \<Longrightarrow> sd_action d \<noteq> ENTER_SHORT"
    and tm: "ec_fill_timing (bc_execution_config cfg) = NEXT_BAR_OPEN"
    and inv: "long_only (es_portfolio st)" "pending_long st"
    and step: "engine_step cfg cs s st bs = Inr st'"
  shows "long_only (es_portfolio st') \<and> pending_long st'"
proof -
  from step obtain st1 where st1: "resolve_pending cfg cs st = Inr st1"
      and dec: "decide_step s bs (observe bs st1) = Inr st'"
    by (auto simp: engine_step_def result_simps)
  have one: "long_only (es_portfolio st1) \<and> es_pending st1 = None"
  proof (cases "es_pending st")
    case None
    with st1 inv show ?thesis by (simp add: resolve_pending_def)
  next
    case (Some q)
    obtain intent e where q: "q = (intent, e)" by (cases q)
    with st1 Some obtain fo where fo: "fill_intent (bc_execution_config cfg) intent cs
        (pf_position (es_portfolio st)) e = Inr fo"
      and pf: "(case fo of None \<Rightarrow> ok (es_portfolio st) | Some f \<Rightarrow> apply_fill f (es_portfolio st)) =
        Inr (es_portfolio st1)" and none: "es_pending st1 = None"
      by (auto simp: resolve_pending_def result_simps)
    show ?thesis
    proof (cases fo)
      case None
      with pf inv none show ?thesis by simp
    next
      case (Some f)
      from fill_intent_price [OF tm fo [unfolded Some]] have "valid_fill f" "sf_action f = oi_action intent" by auto
      with Some pf inv none q \<open>es_pending st = Some q\<close> show ?thesis
        using apply_fill_long_only [of "es_portfolio st" f "es_portfolio st1"]
        by (auto simp: pending_long_def valid_fill_def)
    qed
  qed
  have obs: "es_portfolio (observe bs st1) = es_portfolio st1" "es_pending (observe bs st1) = es_pending st1"
    by (simp_all add: observe_def)
  from dec show ?thesis
  proof (cases rule: decide_step_cases)
    case 1
    with one obs show ?thesis by (simp add: pending_long_def)
  next
    case (2 ctx dd intent e)
    then have "oi_action intent \<noteq> OPEN_SHORT"
      using d [OF 2(1)] by (auto simp: translate_decision.simps split: strategy_action.splits if_splits)
    with 2 one obs show ?thesis by (simp add: pending_long_def)
  qed
qed

lemma run_bars_long_only:
  assumes d: "\<And>ctx d. strategy_decide s ctx = Inr d \<Longrightarrow> sd_action d \<noteq> ENTER_SHORT"
    and tm: "ec_fill_timing (bc_execution_config cfg) = NEXT_BAR_OPEN"
    and r: "run_bars cfg cs s (initial_state cfg) n = Inr st"
  shows "long_only (es_portfolio st) \<and> pending_long st"
  using r
proof (induction n arbitrary: st)
  case 0
  then show ?case by (auto simp: initial_state_def long_only_def pending_long_def FLAT_POSITION_def)
next
  case (Suc n)
  then obtain st1 where "run_bars cfg cs s (initial_state cfg) n = Inr st1"
      "engine_step cfg cs s st1 (backtest_step_at cs cfg n) = Inr st"
    by (auto simp: run_bars_Suc result_simps)
  moreover from this Suc.IH [of st1] have "long_only (es_portfolio st1)" "pending_long st1" by simp_all
  ultimately show ?case by (intro engine_step_long_only [OF d tm])
qed

lemma ma_long_only:
  assumes "run_strategy rt cfg cs (ma_crossover fast extra version) = Inr r"
  shows "0 \<le> ps_quantity (btr_final_position r) \<and> (\<forall>t\<in>set (btr_trades r). st_direction t = LONG)"
proof -
  have "sd_action d \<noteq> ENTER_SHORT" if "strategy_decide (ma_crossover fast extra version) ctx = Inr d" for ctx d
    using that by (auto simp: ma_crossover_def mk_ma_crossover_def dest: ma_decide_valid)
  with assms run_bars_long_only [of "ma_crossover fast extra version" cfg cs "length cs"] show ?thesis
    by (auto simp: run_strategy_ok_iff long_only_def)
qed

subsection \<open>A sample run\<close>

text \<open>
  The witnesses run a strategy that opens a long whenever it is flat and closes it at the next bar,
  on a series of six bars; the hash is the identity and texts are empty.
\<close>

definition sample_runtime :: runtime where
  "sample_runtime = \<lparr>rt_sha256 = id, rt_isoformat = show_int, rt_decimal_str = (\<lambda>x. show_int \<lfloor>x\<rfloor>),
     rt_clock = Aware 0\<rparr>"

definition sample_strategy :: strategy where
  "sample_strategy = \<lparr>strategy_id = ''toggle'', strategy_version = ''1'', strategy_parameters = [],
     strategy_warmup_period = 1,
     strategy_decide = (\<lambda>ctx. ok (HOLD_DECISION\<lparr>sd_action :=
       (if is_flat (sc_position ctx) then ENTER_LONG else EXIT)\<rparr>))\<rparr>"

definition sample_config :: backtest_config where
  "sample_config =
     \<lparr>bc_strategy_id = ''toggle'', bc_strategy_version = ''1'', bc_symbol = ''SPY'', bc_timeframe = M1,
      bc_start = minutes 2, bc_end = minutes 10, bc_initial_capital = 1000, bc_parameters = [],
      bc_execution_config =
        \<lparr>ec_cost = \<lparr>commission_rate = 0, spread = 0, slippage_rate = 0\<rparr>, ec_fill_timing = NEXT_BAR_OPEN,
         ec_position_sizing = \<lparr>equity_fraction = 1, max_participation_rate = None\<rparr>\<rparr>,
      bc_random_seed = None, bc_data_source_id = None, bc_reproducibility_id = None\<rparr>"

definition sample_history :: "candle list" where
  "sample_history =
     [sample_candle 1 12 9 10 100, sample_candle 2 13 9 10 200, sample_candle 3 13 8 10 150,
      sample_candle 4 14 9 12 50, sample_candle 5 15 10 10 300, sample_candle 6 25 10 20 300]"

lemma sample_sound: "sound_strategy sample_strategy"
  by (simp add: sound_strategy_def sample_strategy_def valid_decision_def HOLD_DECISION_def)

lemma sample_config_valid: "valid_backtest_config sample_config"
  by code_simp

lemma sample_passes:
  "valid_history (take 4 sample_history) sample_config" "valid_history sample_history sample_config"
  "\<not> isl (run_bars sample_config (take 4 sample_history) sample_strategy (initial_state sample_config) 4)"
  "\<not> isl (run_bars sample_config sample_history sample_strategy (initial_state sample_config) 6)"
  by code_simp+

end

