(* ===== verification/Backtest_Properties.thy ===== *)
theory Backtest_Properties
  imports Reference_Strategy
begin

text \<open>
  The properties of a backtest: causality of a run, what can fail, the equity curve, the trades, the
  reference strategy, the identity of a run and the conservation of cash.
\<close>

subsection \<open>Causality\<close>

lemma sample_runs:
  "\<exists>r. run_strategy sample_runtime sample_config (take 4 sample_history) sample_strategy = Inr r"
  "\<exists>r. run_strategy sample_runtime sample_config (take 4 sample_history @ drop 4 sample_history)
     sample_strategy = Inr r"
proof -
  have len: "length sample_history = 6" by (simp add: sample_history_def)
  have cfg: "validate_strategy_matches_config sample_strategy sample_config = Inr ()"
    "ec_fill_timing (bc_execution_config sample_config) = NEXT_BAR_OPEN"
    "0 < bc_initial_capital sample_config"
    "\<exists>run. new_run sample_runtime sample_config cs = Inr run" for cs
    by (simp_all add: validate_strategy_matches_config_def sample_strategy_def sample_config_def
        new_run_def mk_backtest_run_def sample_runtime_def)
  from sample_passes(3,4) obtain st st' where
    "run_bars sample_config (take 4 sample_history) sample_strategy (initial_state sample_config) 4 = Inr st"
    "run_bars sample_config sample_history sample_strategy (initial_state sample_config) 6 = Inr st'"
    by (auto simp: isl_def) (metis sum.exhaust)
  with cfg sample_passes(1,2) len
  show "\<exists>r. run_strategy sample_runtime sample_config (take 4 sample_history) sample_strategy = Inr r"
    "\<exists>r. run_strategy sample_runtime sample_config (take 4 sample_history @ drop 4 sample_history)
       sample_strategy = Inr r"
    by (auto simp: run_strategy_ok_iff)
qed

text \<open>
C2: A backtest is causal.  When a history is extended by later candles, the run over the longer
history has the equity curve and the trades of the shorter run as prefixes: no recorded state, fill
or decision at a bar depends on a later bar, and an order pending at the end of the shorter run was
discarded, not filled.
\<close>

theorem backtest_no_lookahead:
  assumes "valid_backtest_config cfg" and "sound_strategy s"
    and "run_strategy rt cfg cs s = Inr r" and "run_strategy rt cfg (cs @ ds) s = Inr r'"
  shows "prefix (btr_equity_curve r) (btr_equity_curve r') \<and> prefix (btr_trades r) (btr_trades r')"
  using assms by (intro run_strategy_prefix) (simp_all add: valid_backtest_config_def)

theorem backtest_no_lookahead_witness:
  "\<exists>r r'. run_strategy sample_runtime sample_config (take 4 sample_history) sample_strategy = Inr r \<and>
     run_strategy sample_runtime sample_config (take 4 sample_history @ drop 4 sample_history)
       sample_strategy = Inr r' \<and>
     prefix (btr_equity_curve r) (btr_equity_curve r') \<and> prefix (btr_trades r) (btr_trades r')"
  using sample_runs backtest_no_lookahead [OF sample_config_valid sample_sound] by meson

text \<open>
C15: What can fail.  With a valid configuration and a strategy whose decisions are well-formed, a run
raises only for an invalid history, a strategy that does not match its configuration, the refused
same-bar fill rule, a cost model that drives a fill price to zero or below, an error of the strategy
itself, or a naive clock: the fills, the portfolio and the trades never raise.
\<close>

theorem backtest_failures:
  assumes "valid_backtest_config cfg" and "sound_strategy s"
    and "run_strategy rt cfg cs s = Inl e"
  shows "validate_backtest_history cs cfg = Inl e \<or> validate_strategy_matches_config s cfg = Inl e \<or>
    ec_fill_timing (bc_execution_config cfg) = SAME_BAR_CLOSE \<and> err_class e = InvalidExecutionConfigError \<or>
    e = price_error \<or> strategy_raises s e \<or> \<not> is_aware (rt_clock rt) \<and> err_class e = ValueError"
  using assms by (rule run_strategy_error)

theorem backtest_failures_witness:
  "\<exists>e. run_strategy sample_runtime sample_config [] sample_strategy = Inl e \<and>
     (validate_backtest_history [] sample_config = Inl e \<or>
      validate_strategy_matches_config sample_strategy sample_config = Inl e \<or>
      ec_fill_timing (bc_execution_config sample_config) = SAME_BAR_CLOSE \<and>
        err_class e = InvalidExecutionConfigError \<or>
      e = price_error \<or> strategy_raises sample_strategy e \<or>
      \<not> is_aware (rt_clock sample_runtime) \<and> err_class e = ValueError)"
proof -
  let ?e = "Err InvalidHistoryError ''no candles supplied for backtest''"
  have e: "run_strategy sample_runtime sample_config [] sample_strategy = Inl ?e"
    by (simp add: run_strategy_def validate_backtest_history_def)
  from backtest_failures [OF sample_config_valid sample_sound e] e show ?thesis by blast
qed

text \<open>
The equity curve has one observation per candle of the active window, in order, and each marks
the position to the close of its candle: equity is cash plus quantity times close.
\<close>

theorem equity_curve_marks_to_market:
  assumes "valid_backtest_config cfg" and "sound_strategy s"
    and "run_strategy rt cfg cs s = Inr r"
  shows "map eo_timestamp (btr_equity_curve r) =
      map c_timestamp (filter (\<lambda>c. bc_start cfg \<le> c_timestamp c) cs) \<and>
    (\<forall>eo\<in>set (btr_equity_curve r). \<exists>c\<in>set cs. eo_timestamp eo = c_timestamp c \<and>
       eo_equity eo = dadd (eo_cash eo) (dmul (ps_quantity (eo_position eo)) (c_close c)))"
proof -
  have "valid_execution_config (bc_execution_config cfg)" using assms(1) by (simp add: valid_backtest_config_def)
  from run_strategy_state [OF this assms(2,3)] obtain st where
    "bars_inv cfg cs (length cs) st" "btr_equity_curve r = es_equity_curve st" by blast
  then show ?thesis by (simp add: bars_inv_def)
qed

theorem equity_curve_marks_to_market_witness:
  "\<exists>r. run_strategy sample_runtime sample_config (take 4 sample_history) sample_strategy = Inr r \<and>
     map eo_timestamp (btr_equity_curve r) = [minutes 2, minutes 3, minutes 4]"
proof -
  obtain r where r: "run_strategy sample_runtime sample_config (take 4 sample_history) sample_strategy = Inr r"
    using sample_runs by blast
  from equity_curve_marks_to_market [OF sample_config_valid sample_sound r] r show ?thesis
    by (simp add: sample_history_def sample_candle_def sample_config_def minutes_def)
qed

text \<open>
Every completed trade is well-formed (a positive quantity, positive prices, fees of at least
zero, the exit not before the entry), the trades follow one another without overlap, and each entry
and exit price is the open of the bar of that time adjusted by the costs of its side.
\<close>

theorem trades_ordered_and_priced:
  assumes "valid_backtest_config cfg" and "sound_strategy s"
    and "run_strategy rt cfg cs s = Inr r"
  shows "(\<forall>t\<in>set (btr_trades r). valid_trade t \<and>
       fill_price_at cfg cs (st_entry_time t) (st_entry_price t) (st_direction t = LONG) \<and>
       fill_price_at cfg cs (st_exit_time t) (st_exit_price t) (st_direction t = SHORT)) \<and>
    sorted_wrt (\<lambda>t u. st_exit_time t \<le> st_entry_time u) (btr_trades r)"
proof -
  have "valid_execution_config (bc_execution_config cfg)" using assms(1) by (simp add: valid_backtest_config_def)
  from run_strategy_state [OF this assms(2,3)] obtain st where
    "bars_inv cfg cs (length cs) st" "priced_inv cfg cs (es_portfolio st)"
    "btr_trades r = pf_trades (es_portfolio st)" by blast
  then show ?thesis by (simp add: bars_inv_def portfolio_inv_def priced_inv_def)
qed

theorem trades_ordered_and_priced_witness:
  "\<exists>r. run_strategy sample_runtime sample_config (take 4 sample_history @ drop 4 sample_history)
       sample_strategy = Inr r \<and>
     sorted_wrt (\<lambda>t u. st_exit_time t \<le> st_entry_time u) (btr_trades r)"
  using sample_runs(2) trades_ordered_and_priced [OF sample_config_valid sample_sound] by meson

text \<open>
C40: The reference crossover strategy is long-only and never fails by itself: every trade of its runs
is long, it never ends short, and on a valid history a matching run raises only when the costs make
a fill price non-positive.
\<close>

theorem ma_crossover_run:
  assumes "valid_backtest_config cfg" and "valid_history cs cfg"
    and "mk_ma_crossover (int fast + 1) (int fast + int extra + 2) version = Inr s"
    and "validate_strategy_matches_config s cfg = Inr ()"
    and "ec_fill_timing (bc_execution_config cfg) = NEXT_BAR_OPEN" and "is_aware (rt_clock rt)"
  shows "case run_strategy rt cfg cs s of
      Inl e \<Rightarrow> e = price_error
    | Inr r \<Rightarrow> 0 \<le> ps_quantity (btr_final_position r) \<and> (\<forall>t\<in>set (btr_trades r). st_direction t = LONG)"
proof -
  have s: "s = ma_crossover fast extra version" using assms(3) ma_crossover_ok by simp
  show ?thesis
    using ma.only_costs_fail [OF assms(1,2) _ assms(5,6)] ma_long_only assms(4) s
    by (auto split: sum.split)
qed

definition sample_ma_config :: backtest_config where
  "sample_ma_config = sample_config\<lparr>bc_strategy_id := ''reference-ma-crossover'', bc_strategy_version := ''1'',
     bc_parameters := [(''fast_period'', PInt 1), (''slow_period'', PInt 2)]\<rparr>"

theorem ma_crossover_run_witness:
  "\<exists>s. mk_ma_crossover 1 2 ''1'' = Inr s \<and>
    (case run_strategy sample_runtime sample_ma_config sample_history s of
      Inl e \<Rightarrow> e = price_error
    | Inr r \<Rightarrow> 0 \<le> ps_quantity (btr_final_position r) \<and> (\<forall>t\<in>set (btr_trades r). st_direction t = LONG))"
proof -
  have cfg: "valid_backtest_config sample_ma_config"
    using sample_config_valid
    by (simp add: valid_backtest_config_def sample_ma_config_def blank_def strip_def lstrip_def is_space_def)
  have hist: "valid_history sample_history sample_ma_config"
    using sample_passes(2) by (simp add: valid_history_def sample_ma_config_def)
  have mk: "mk_ma_crossover (int 0 + 1) (int 0 + int 0 + 2) ''1'' = Inr (ma_crossover 0 0 ''1'')"
    by (rule ma_crossover_ok)
  have m: "validate_strategy_matches_config (ma_crossover 0 0 ''1'') sample_ma_config = Inr ()"
    by (simp add: validate_strategy_matches_config_def ma_crossover_def mk_ma_crossover_def
        sample_ma_config_def canonical_parameters_eq_iff)
  have tm: "ec_fill_timing (bc_execution_config sample_ma_config) = NEXT_BAR_OPEN"
    and clk: "is_aware (rt_clock sample_runtime)"
    by (simp_all add: sample_ma_config_def sample_config_def sample_runtime_def)
  from ma_crossover_run [OF cfg hist mk m tm clk] mk show ?thesis by auto
qed

subsection \<open>Identity of a run\<close>

lemma hash_optional_append:
  assumes "hash_optional k x @ u = hash_optional k y @ v"
  shows "x = y \<and> u = v"
  using assms by (auto simp: hash_optional_def split: option.splits)

lemma data_fields_inject:
  assumes "inj (rt_isoformat rt)" and "inj (rt_decimal_str rt)"
    and "data_fields rt cs = data_fields rt ds"
  shows "cs = ds"
proof -
  have len: "length cs = length ds"
    and fields: "concat (map (candle_fields rt) cs) = concat (map (candle_fields rt) ds)"
    using assms(3) by (simp_all add: data_fields_def)
  have one: "c = d" if "candle_fields rt c = candle_fields rt d" for c d
    using that assms(1,2) by (intro candle.equality) (auto simp: candle_fields_def inj_def)
  from len fields show ?thesis
  proof (induction cs ds rule: list_induct2)
    case (Cons c cs d ds)
    have "length (candle_fields rt c) = length (candle_fields rt d)" by (simp add: candle_fields_def)
    with Cons one show ?case by auto
  qed simp
qed

text \<open>
C24: Run identities do not collide before hashing.  If two runs feed the hasher the same bytes, they
agree on every field of the configuration (the parameters as typed values, absent options apart from
every present text) and their data identities are equal; and if two candle series feed the hasher
the same bytes, they are the same series.  Fields are shorter than \<open>2 ^ 64\<close> bytes, and datetimes and
decimals render injectively.
\<close>

theorem run_identity_collision_free:
  assumes "inj (rt_isoformat rt)" and "inj (rt_decimal_str rt)"
    and "\<And>f. f \<in> set (run_fields rt cfg cs) \<union> set (run_fields rt cfg' cs') \<union>
      set (data_fields rt cs) \<union> set (data_fields rt cs') \<Longrightarrow> length f < 2 ^ 64"
  shows "(frames (run_fields rt cfg cs) = frames (run_fields rt cfg' cs') \<longrightarrow>
       mset (bc_parameters cfg) = mset (bc_parameters cfg') \<and>
       cfg\<lparr>bc_parameters := []\<rparr> = cfg'\<lparr>bc_parameters := []\<rparr> \<and>
       compute_data_identity rt cs = compute_data_identity rt cs') \<and>
    (frames (data_fields rt cs) = frames (data_fields rt cs') \<longrightarrow> cs = cs')"
proof (intro conjI impI)
  assume "frames (data_fields rt cs) = frames (data_fields rt cs')"
  then have "data_fields rt cs = data_fields rt cs'" by (rule frames_inject) (use assms(3) in blast)
  then show "cs = cs'" by (rule data_fields_inject [OF assms(1,2)])
next
  assume "frames (run_fields rt cfg cs) = frames (run_fields rt cfg' cs')"
  then have eq: "run_fields rt cfg cs = run_fields rt cfg' cs'"
    by (rule frames_inject) (use assms(3) in blast)
  note inj = inj_eq [OF assms(1)] inj_eq [OF assms(2)] inj_eq [OF option.inj_map [OF assms(2)]]
  have si: "inj show_int" by (simp add: inj_def)
  note inj = inj inj_eq [OF option.inj_map [OF si]]
  from eq have par: "canonical_parameters (bc_parameters cfg) = canonical_parameters (bc_parameters cfg')"
    by (auto simp: run_fields_def Let_def dest: repr_tuple_inject)
  then show "mset (bc_parameters cfg) = mset (bc_parameters cfg')" by (simp only: canonical_parameters_eq_iff)
  from eq have opts:
    "hash_optional ''decimal'' (map_option (rt_decimal_str rt) (max_participation_rate (ec_position_sizing (bc_execution_config cfg)))) @
      hash_optional ''int'' (map_option show_int (bc_random_seed cfg)) @
      hash_optional ''string'' (bc_data_source_id cfg) @
      hash_optional ''string'' (bc_reproducibility_id cfg) @ [compute_data_identity rt cs] =
     hash_optional ''decimal'' (map_option (rt_decimal_str rt) (max_participation_rate (ec_position_sizing (bc_execution_config cfg')))) @
      hash_optional ''int'' (map_option show_int (bc_random_seed cfg')) @
      hash_optional ''string'' (bc_data_source_id cfg') @
      hash_optional ''string'' (bc_reproducibility_id cfg') @ [compute_data_identity rt cs']"
    by (simp add: run_fields_def Let_def)
  note o1 = hash_optional_append [OF opts]
  note o2 = hash_optional_append [OF conjunct2 [OF o1]]
  note o3 = hash_optional_append [OF conjunct2 [OF o2]]
  note o4 = hash_optional_append [OF conjunct2 [OF o3]]
  from o4 show "compute_data_identity rt cs = compute_data_identity rt cs'" by simp
  have "bc_execution_config cfg = bc_execution_config cfg'"
    using eq o1 by (auto simp: run_fields_def Let_def inj intro!: execution_config.equality
        cost_config.equality position_sizing_config.equality)
  with eq o2 o3 o4 show "cfg\<lparr>bc_parameters := []\<rparr> = cfg'\<lparr>bc_parameters := []\<rparr>"
    by (intro backtest_config.equality) (simp_all add: run_fields_def Let_def inj)
qed

definition plain_runtime :: runtime where
  "plain_runtime = \<lparr>rt_sha256 = (\<lambda>s. ''digest''), rt_isoformat = show_int,
     rt_decimal_str = (\<lambda>x. repr_tuple [(show_int (fst (quotient_of x)), show_int (snd (quotient_of x)))]),
     rt_clock = Aware 0\<rparr>"

lemma plain_runtime_inj: "inj (rt_isoformat plain_runtime)" "inj (rt_decimal_str plain_runtime)"
proof -
  show "inj (rt_isoformat plain_runtime)" by (simp add: plain_runtime_def inj_def)
  show "inj (rt_decimal_str plain_runtime)"
  proof (rule injI)
    fix x y
    assume "rt_decimal_str plain_runtime x = rt_decimal_str plain_runtime y"
    then have "[(show_int (fst (quotient_of x)), show_int (snd (quotient_of x)))] =
        [(show_int (fst (quotient_of y)), show_int (snd (quotient_of y)))]"
      unfolding plain_runtime_def runtime.simps by (rule repr_tuple_inject)
    then have "quotient_of x = quotient_of y" by (simp add: prod_eq_iff)
    then show "x = y" by (simp add: quotient_of_inject)
  qed
qed

definition small_config :: backtest_config where
  "small_config = sample_config\<lparr>bc_start := 1, bc_end := 2, bc_initial_capital := 10\<rparr>"

text \<open>An absent data source and the source named \<open>None\<close> are different runs.\<close>

theorem run_identity_collision_free_witness:
  "frames (run_fields plain_runtime small_config []) \<noteq>
   frames (run_fields plain_runtime (small_config\<lparr>bc_data_source_id := Some ''None''\<rparr>) [])"
proof
  assume eq: "frames (run_fields plain_runtime small_config []) =
    frames (run_fields plain_runtime (small_config\<lparr>bc_data_source_id := Some ''None''\<rparr>) [])"
  have "length f < 2 ^ 64"
    if "f \<in> set (run_fields plain_runtime small_config []) \<union>
      set (run_fields plain_runtime (small_config\<lparr>bc_data_source_id := Some ''None''\<rparr>) []) \<union>
      set (data_fields plain_runtime []) \<union> set (data_fields plain_runtime [])" for f
  proof -
    have "list_all (\<lambda>f. length f < 1000) (run_fields plain_runtime small_config [])"
      "list_all (\<lambda>f. length f < 1000)
        (run_fields plain_runtime (small_config\<lparr>bc_data_source_id := Some ''None''\<rparr>) [])"
      "list_all (\<lambda>f. length f < 1000) (data_fields plain_runtime [])"
      by code_simp+
    with that show ?thesis by (fastforce simp: list_all_iff)
  qed
  from run_identity_collision_free [OF plain_runtime_inj this] eq
  have "small_config\<lparr>bc_parameters := []\<rparr> =
      small_config\<lparr>bc_data_source_id := Some ''None'', bc_parameters := []\<rparr>" by blast
  then show False by (simp add: small_config_def sample_config_def)
qed

subsection \<open>Cash\<close>

lemma exact_round_trip_neg:
  "exact_round_trip a b N cash q p1 p2 c1 c2 \<Longrightarrow> exact_round_trip a b N cash (- q) p1 p2 c1 c2"
  by (simp add: exact_round_trip_def)

lemma exact_round_trip_quantity: "exact_round_trip a b N cash q p1 p2 c1 c2 \<Longrightarrow> representable q"
  by (auto simp: exact_round_trip_def intro!: exact_within [where k = a and g = "a + b" and N = N])

text \<open>
A round trip conserves cash.  When quantity, prices, commissions and cash are quoted on decimal
grids small enough for the context, opening a position long or short and closing it changes cash by
exactly the profit of the recorded trade, fees included.
\<close>

theorem round_trip_conserves_cash:
  assumes "exact_round_trip a b N (pf_cash pf) (sf_quantity f) (sf_fill_price f) (sf_fill_price g)
      (sf_commission f) (sf_commission g)"
    and "0 < sf_quantity f" and "sf_action f \<noteq> CLOSE" and "sf_action g = CLOSE"
    and "apply_fill f pf = Inr pf1" and "apply_fill g pf1 = Inr pf2"
  shows "\<exists>t. pf_trades pf2 = pf_trades pf @ [t] \<and> pf_cash pf2 = pf_cash pf + st_pnl t \<and>
    is_flat (pf_position pf2)"
proof (cases "sf_action f")
  case OPEN_LONG
  with assms(5) have o: "portfolio_open (sf_quantity f) (sf_fill_price f) (sf_commission f)
      (sf_fill_time f) (sf_stop_price f) pf = Inr pf1" by (simp add: apply_fill_def)
  note pf1 = conjunct2 [OF portfolio_open_shape [OF o]]
  from assms(4,6) have c: "portfolio_close g pf1 = Inr pf2" by (simp add: apply_fill_def)
  have q: "dabs (sf_quantity f) = sf_quantity f"
    using assms(2) exact_round_trip_quantity [OF assms(1)] by simp
  have "direction (pf_position pf1) = Some LONG" using assms(2) by (simp add: pf1)
  from portfolio_close_shape [OF c _ _ this, of "sf_fill_price f" "sf_fill_time f"] obtain tr where
    "pf_trades pf2 = pf_trades pf @ [tr]" "is_flat (pf_position pf2)"
    "pf_cash pf2 = pf_cash pf - sf_quantity f * sf_fill_price f - sf_commission f +
       sf_quantity f * sf_fill_price g - sf_commission g"
    "st_pnl tr = (sf_fill_price g - sf_fill_price f) * sf_quantity f - (sf_commission f + sf_commission g)"
    by (auto simp: pf1 q round_trip_exact(1,5) [OF assms(1)])
  then show ?thesis by (auto simp: algebra_simps)
next
  case OPEN_SHORT
  have rep: "representable (sf_quantity f)" using exact_round_trip_quantity [OF assms(1)] .
  with assms(5) OPEN_SHORT have o: "portfolio_open (- sf_quantity f) (sf_fill_price f) (sf_commission f)
      (sf_fill_time f) (sf_stop_price f) pf = Inr pf1" by (simp add: apply_fill_def)
  note pf1 = conjunct2 [OF portfolio_open_shape [OF o]]
  from assms(4,6) have c: "portfolio_close g pf1 = Inr pf2" by (simp add: apply_fill_def)
  have q: "dabs (- sf_quantity f) = sf_quantity f" using assms(2) rep by simp
  have "direction (pf_position pf1) = Some SHORT" using assms(2) by (simp add: pf1)
  from portfolio_close_shape [OF c _ _ this, of "sf_fill_price f" "sf_fill_time f"] obtain tr where
    "pf_trades pf2 = pf_trades pf @ [tr]" "is_flat (pf_position pf2)"
    "pf_cash pf2 = pf_cash pf - (- sf_quantity f) * sf_fill_price f - sf_commission f +
       (- sf_quantity f) * sf_fill_price g - sf_commission g"
    "st_pnl tr = (sf_fill_price f - sf_fill_price g) * sf_quantity f - (sf_commission f + sf_commission g)"
    using round_trip_exact(1) [OF exact_round_trip_neg [OF assms(1)]] round_trip_exact(6) [OF assms(1)]
    by (auto simp: pf1 q)
  then show ?thesis by (auto simp: algebra_simps)
next
  case CLOSE
  with assms show ?thesis by simp
qed

definition sample_open :: simulated_fill where
  "sample_open = \<lparr>sf_action = OPEN_SHORT, sf_signal_time = 0, sf_fill_time = 1, sf_fill_price = 10,
     sf_quantity = 3, sf_commission = 1, sf_stop_price = None\<rparr>"

definition sample_close :: simulated_fill where
  "sample_close = \<lparr>sf_action = CLOSE, sf_signal_time = 2, sf_fill_time = 3, sf_fill_price = 8,
     sf_quantity = 3, sf_commission = 1, sf_stop_price = None\<rparr>"

theorem round_trip_conserves_cash_witness:
  "\<exists>pf1 pf2 t. apply_fill sample_open (es_portfolio (initial_state sample_config)) = Inr pf1 \<and>
     apply_fill sample_close pf1 = Inr pf2 \<and> pf_trades pf2 = [t] \<and> pf_cash pf2 = 1000 + st_pnl t"
proof -
  let ?pf = "es_portfolio (initial_state sample_config)"
  define pf1 where "pf1 = projr (apply_fill sample_open ?pf)"
  define pf2 where "pf2 = projr (apply_fill sample_close pf1)"
  have "\<not> isl (apply_fill sample_open ?pf)" by code_simp
  then have 1: "apply_fill sample_open ?pf = Inr pf1" by (simp add: pf1_def)
  moreover have "\<not> isl (apply_fill sample_close (projr (apply_fill sample_open ?pf)))" by code_simp
  then have 2: "apply_fill sample_close pf1 = Inr pf2" by (simp add: pf2_def pf1_def)
  have "exact_round_trip 0 0 1000 (pf_cash ?pf) (sf_quantity sample_open) (sf_fill_price sample_open)
      (sf_fill_price sample_close) (sf_commission sample_open) (sf_commission sample_close)"
    by (simp add: exact_round_trip_def initial_state_def sample_config_def sample_open_def sample_close_def
        on_grid_def)
  from round_trip_conserves_cash [OF this _ _ _ 1 2] 1 2
  show ?thesis by (auto simp: sample_open_def sample_close_def initial_state_def sample_config_def)
qed

end

