(* ===== verification/Performance_Metrics.thy ===== *)
theory Performance_Metrics
  imports Reference_Strategy
begin

text \<open>
  Performance analytics (\<open>backtesting/metrics.py\<close>): every statistic of a finished run, in the
  order the module defines them, and the excursion of one trade.  A statistic that is undefined is
  \<open>None\<close>.  The general power of two decimals, which the decimal library computes only to
  within its last digit, is the argument \<open>pow\<close>; it may signal.
\<close>

type_synonym decimal_power = "decimal \<Rightarrow> decimal \<Rightarrow> decimal result"

subsection \<open>Statistics of a list of numbers\<close>

fun PERIODS_PER_YEAR :: "timeframe \<Rightarrow> decimal" where
  "PERIODS_PER_YEAR M1 = 252 * 390"
| "PERIODS_PER_YEAR M5 = 252 * 78"
| "PERIODS_PER_YEAR M15 = 252 * 26"
| "PERIODS_PER_YEAR M30 = 252 * 13"
| "PERIODS_PER_YEAR H1 = 252 * 7"
| "PERIODS_PER_YEAR H4 = 252 * 2"
| "PERIODS_PER_YEAR D1 = 252"
| "PERIODS_PER_YEAR W1 = 52"

definition DAYS_PER_YEAR :: decimal where
  "DAYS_PER_YEAR = 36525 / 100"

definition mean :: "decimal list \<Rightarrow> decimal option" where
  "mean values = (if values = [] then None else Some (ddiv (dsum values) (of_nat (length values))))"

definition sample_std :: "decimal list \<Rightarrow> decimal option" where
  "sample_std values =
     (if length values < 2 then None
      else case mean values of
        None \<Rightarrow> None
      | Some m \<Rightarrow>
          let variance = ddiv (dsum (map (\<lambda>value. dsquare (dsub value m)) values))
                (of_nat (length values - 1))
          in Some (dsqrt variance))"

definition MINIMUM_ACCEPTABLE_RETURN :: decimal where
  "MINIMUM_ACCEPTABLE_RETURN = 0"

definition downside_deviation :: "decimal list \<Rightarrow> decimal \<Rightarrow> decimal option" where
  "downside_deviation returns mar =
     (if returns = [] then None
      else
        let downside_components = map (\<lambda>r. min 0 (dsub r mar)) returns;
            mean_squared_shortfall = ddiv (dsum (map dsquare downside_components))
              (of_nat (length downside_components))
        in Some (dsqrt mean_squared_shortfall))"

subsection \<open>The equity curve\<close>

fun equity_returns :: "equity_observation list \<Rightarrow> decimal list" where
  "equity_returns (previous # current # rest) =
     (if eo_equity previous = 0 then equity_returns (current # rest)
      else dsub (ddiv (eo_equity current) (eo_equity previous)) 1 # equity_returns (current # rest))"
| "equity_returns _ = []"

definition total_return :: "decimal \<Rightarrow> equity_observation list \<Rightarrow> decimal option" where
  "total_return initial_capital curve =
     (if curve = [] \<or> initial_capital = 0 then None
      else Some (dsub (ddiv (eo_equity (last curve)) initial_capital) 1))"

definition cagr ::
    "decimal_power \<Rightarrow> decimal \<Rightarrow> equity_observation list \<Rightarrow> decimal option result" where
  "cagr pow initial_capital curve =
     (if length curve < 2 then ok None
      else case total_return initial_capital curve of
        None \<Rightarrow> ok None
      | Some ret \<Rightarrow>
          let growth_factor = dadd 1 ret in
          if growth_factor \<le> 0 then ok None
          else
            let duration = eo_timestamp (last curve) - eo_timestamp (hd curve);
                years = ddiv (total_seconds duration) (dmul DAYS_PER_YEAR 86400)
            in if years \<le> 0 then ok None
               else (case pow growth_factor (ddiv 1 years) of
                  Inr g \<Rightarrow> ok (Some (dsub g 1))
                | Inl e \<Rightarrow> if err_class e = InvalidOperation then ok None else Inl e))"

fun drawdown_step :: "decimal \<times> decimal \<Rightarrow> decimal \<Rightarrow> decimal \<times> decimal" where
  "drawdown_step (peak, max_drawdown) v =
     (if peak < v then (v, max_drawdown)
      else if 0 < peak then
        let drawdown = ddiv (dsub peak v) peak
        in (peak, if max_drawdown < drawdown then drawdown else max_drawdown)
      else (peak, max_drawdown))"

definition max_drawdown_from_values :: "decimal list \<Rightarrow> decimal" where
  "max_drawdown_from_values values =
     (if values = [] then 0 else snd (foldl drawdown_step (hd values, 0) values))"

record drawdown_state =
  dd_peak :: decimal
  dd_peak_time :: instant
  dd_max :: decimal
  dd_duration :: "duration option"

definition equity_drawdown_step :: "drawdown_state \<Rightarrow> equity_observation \<Rightarrow> drawdown_state" where
  "equity_drawdown_step st ob =
     (if dd_peak st \<le> eo_equity ob then st\<lparr>dd_peak := eo_equity ob, dd_peak_time := eo_timestamp ob\<rparr>
      else if dd_peak st = 0 then st
      else
        let drawdown = ddiv (dsub (dd_peak st) (eo_equity ob)) (dd_peak st);
            duration_since_peak = eo_timestamp ob - dd_peak_time st
        in if dd_max st < drawdown then st\<lparr>dd_max := drawdown, dd_duration := Some duration_since_peak\<rparr>
           else st)"

definition equity_drawdown_run :: "equity_observation list \<Rightarrow> drawdown_state" where
  "equity_drawdown_run curve =
     foldl equity_drawdown_step
       \<lparr>dd_peak = eo_equity (hd curve), dd_peak_time = eo_timestamp (hd curve), dd_max = 0,
        dd_duration = None\<rparr> curve"

definition max_drawdown :: "equity_observation list \<Rightarrow> decimal option \<times> duration option" where
  "max_drawdown curve =
     (if curve = [] then (None, None)
      else let st = equity_drawdown_run curve in (Some (dd_max st), dd_duration st))"

definition exposure :: "equity_observation list \<Rightarrow> decimal option" where
  "exposure curve =
     (if curve = [] then None
      else Some (ddiv (of_nat (length (filter (\<lambda>ob. \<not> is_flat (eo_position ob)) curve)))
        (of_nat (length curve))))"

subsection \<open>The metrics of a run\<close>

record performance_metrics =
  pm_num_trades :: nat
  pm_total_return :: "decimal option"
  pm_cagr :: "decimal option"
  pm_win_rate :: "decimal option"
  pm_average_win :: "decimal option"
  pm_average_loss :: "decimal option"
  pm_win_loss_ratio :: "decimal option"
  pm_profit_factor :: "decimal option"
  pm_expectancy :: "decimal option"
  pm_max_drawdown :: "decimal option"
  pm_max_drawdown_duration :: "duration option"
  pm_sharpe_ratio :: "decimal option"
  pm_sortino_ratio :: "decimal option"
  pm_volatility :: "decimal option"
  pm_exposure :: "decimal option"
  pm_average_holding_time :: "duration option"
  pm_best_trade_pnl :: "decimal option"
  pm_worst_trade_pnl :: "decimal option"
  pm_average_r_multiple :: "decimal option"

definition trade_pnls :: "simulated_trade list \<Rightarrow> decimal list \<times> decimal list" where
  "trade_pnls trades =
     (filter (\<lambda>p. 0 < p) (map st_pnl trades), filter (\<lambda>p. p < 0) (map st_pnl trades))"

definition sharpe :: "decimal option \<Rightarrow> decimal option \<Rightarrow> decimal \<Rightarrow> decimal option" where
  "sharpe mean_return std_return periods_per_year =
     (case (mean_return, std_return) of
        (Some m, Some s) \<Rightarrow> if s \<noteq> 0 then Some (dmul (ddiv m s) (dsqrt periods_per_year)) else None
      | _ \<Rightarrow> None)"

definition r_multiples :: "simulated_trade list \<Rightarrow> decimal list" where
  "r_multiples trades =
     List.map_filter (\<lambda>trade.
       case st_stop_price trade of
         None \<Rightarrow> None
       | Some stop \<Rightarrow>
           let risk_per_share = dabs (dsub (st_entry_price trade) stop) in
           if risk_per_share = 0 then None
           else Some (ddiv (st_pnl trade) (dmul risk_per_share (st_quantity trade)))) trades"

definition average_duration :: "duration list \<Rightarrow> duration option" where
  "average_duration durations =
     (if durations = [] then None
      else Some (round_half_even (of_int (sum_list durations) / of_nat (length durations))))"

definition option_extremum :: "(decimal \<Rightarrow> decimal \<Rightarrow> decimal) \<Rightarrow> decimal list \<Rightarrow> decimal option" where
  "option_extremum pick xs = (if xs = [] then None else Some (foldl pick (hd xs) (tl xs)))"

definition compute_performance_metrics ::
    "decimal_power \<Rightarrow> backtest_result \<Rightarrow> performance_metrics result" where
  "compute_performance_metrics pow res =
     (let config = br_config (btr_run res);
          curve = btr_equity_curve res;
          trades = btr_trades res;
          periods_per_year = PERIODS_PER_YEAR (bc_timeframe config);
          returns = equity_returns curve;
          std_return = sample_std returns;
          mean_return = mean returns;
          downside = downside_deviation returns MINIMUM_ACCEPTABLE_RETURN;
          wins = fst (trade_pnls trades);
          losses = snd (trade_pnls trades);
          average_win = mean wins;
          average_loss = mean losses;
          gross_profit = dsum wins;
          gross_loss = dabs (dsum losses)
      in bind_result (cagr pow (bc_initial_capital config) curve) (\<lambda>growth.
         ok \<lparr>pm_num_trades = length trades,
             pm_total_return = total_return (bc_initial_capital config) curve,
             pm_cagr = growth,
             pm_win_rate = (if trades = [] then None
               else Some (ddiv (of_nat (length wins)) (of_nat (length trades)))),
             pm_average_win = average_win,
             pm_average_loss = average_loss,
             pm_win_loss_ratio = (case (average_win, average_loss) of
                 (Some w, Some l) \<Rightarrow> if l \<noteq> 0 then Some (ddiv w (dabs l)) else None
               | _ \<Rightarrow> None),
             pm_profit_factor = (if gross_loss \<noteq> 0 then Some (ddiv gross_profit gross_loss) else None),
             pm_expectancy = mean (map st_pnl trades),
             pm_max_drawdown = fst (max_drawdown curve),
             pm_max_drawdown_duration = snd (max_drawdown curve),
             pm_sharpe_ratio = sharpe mean_return std_return periods_per_year,
             pm_sortino_ratio =
               sharpe (map_option (\<lambda>m. dsub m MINIMUM_ACCEPTABLE_RETURN) mean_return) downside periods_per_year,
             pm_volatility = map_option (\<lambda>s. dmul s (dsqrt periods_per_year)) std_return,
             pm_exposure = exposure curve,
             pm_average_holding_time =
               average_duration (map (\<lambda>trade. st_exit_time trade - st_entry_time trade) trades),
             pm_best_trade_pnl = option_extremum max (map st_pnl trades),
             pm_worst_trade_pnl = option_extremum min (map st_pnl trades),
             pm_average_r_multiple = mean (r_multiples trades)\<rparr>))"

subsection \<open>The excursion of a trade\<close>

record trade_excursion =
  te_mae :: decimal
  te_mfe :: decimal

definition held_candles :: "simulated_trade \<Rightarrow> candle list \<Rightarrow> fill_timing \<Rightarrow> candle list" where
  "held_candles trade cs timing =
     (let window = filter (\<lambda>c. st_entry_time trade \<le> c_timestamp c \<and> c_timestamp c \<le> st_exit_time trade) cs;
          entry_candle_held = (timing = NEXT_BAR_OPEN);
          exit_candle_held = (timing = SAME_BAR_CLOSE)
      in if window = [] then []
         else if length window = 1 then (if entry_candle_held \<and> exit_candle_held then window else [])
         else slice (if entry_candle_held then 0 else 1)
                (if exit_candle_held then length window else length window - 1) window)"

definition compute_trade_excursion ::
    "simulated_trade \<Rightarrow> candle list \<Rightarrow> fill_timing \<Rightarrow> trade_excursion option" where
  "compute_trade_excursion trade cs timing =
     (let held = held_candles trade cs timing;
          lows = map c_low held;
          highs = map c_high held;
          lowest = foldl min (hd lows) (tl lows);
          highest = foldl max (hd highs) (tl highs);
          entry = st_entry_price trade
      in if held = [] then None
         else Some (if st_direction trade = LONG then
                      \<lparr>te_mae = max 0 (dsub entry lowest), te_mfe = max 0 (dsub highest entry)\<rparr>
                    else
                      \<lparr>te_mae = max 0 (dsub highest entry), te_mfe = max 0 (dsub entry lowest)\<rparr>))"

subsection \<open>Drawdown as the worst fall from a running peak\<close>

definition peak_at :: "decimal list \<Rightarrow> nat \<Rightarrow> decimal" where
  "peak_at vs j = Max (set (take (Suc j) vs))"

definition fall_at :: "decimal list \<Rightarrow> nat \<Rightarrow> decimal" where
  "fall_at vs j = (if 0 < peak_at vs j then ddiv (dsub (peak_at vs j) (vs ! j)) (peak_at vs j) else 0)"

definition worst_fall :: "decimal list \<Rightarrow> decimal" where
  "worst_fall vs = Max (insert 0 (fall_at vs ` {..<length vs}))"

lemma peak_at_append [simp]: "j < length vs \<Longrightarrow> peak_at (vs @ ws) j = peak_at vs j"
  by (simp add: peak_at_def)

lemma fall_at_append [simp]: "j < length vs \<Longrightarrow> fall_at (vs @ ws) j = fall_at vs j"
  by (simp add: fall_at_def nth_append)

lemma worst_fall_snoc: "worst_fall (vs @ [v]) = max (worst_fall vs) (fall_at (vs @ [v]) (length vs))"
proof -
  have "fall_at (vs @ [v]) ` {..<length (vs @ [v])} =
      insert (fall_at (vs @ [v]) (length vs)) (fall_at vs ` {..<length vs})"
    by (auto simp: lessThan_Suc)
  then have "worst_fall (vs @ [v]) =
      Max (insert (fall_at (vs @ [v]) (length vs)) (insert 0 (fall_at vs ` {..<length vs})))"
    by (simp add: worst_fall_def insert_commute)
  also have "\<dots> = max (fall_at (vs @ [v]) (length vs)) (worst_fall vs)"
    unfolding worst_fall_def by (rule Max_insert) auto
  finally show ?thesis by (simp add: max.commute)
qed

lemma worst_fall_nonneg: "0 \<le> worst_fall vs"
  by (simp add: worst_fall_def)

lemma Max_set_snoc: "vs \<noteq> [] \<Longrightarrow> Max (set (vs @ [v])) = max (Max (set vs)) v"
  for v :: rat
  by (simp add: max.commute)

lemma peak_at_last: "peak_at (vs @ [v]) (length vs) = (if vs = [] then v else max (Max (set vs)) v)"
  using Max_set_snoc [of vs v] by (simp add: peak_at_def)

lemma fall_at_last:
  assumes "vs \<noteq> []"
  shows "fall_at (vs @ [v]) (length vs) =
    (let p = max (Max (set vs)) v in if 0 < p then ddiv (dsub p v) p else 0)"
  using assms by (simp add: fall_at_def peak_at_last Let_def)

lemma ddiv_zero [simp]: "ddiv 0 y = 0" and dsub_self [simp]: "dsub x x = 0"
  by (simp_all add: dec_defs dec.rnd_zero)

lemma drawdown_fold:
  "vs \<noteq> [] \<Longrightarrow> foldl drawdown_step (hd vs, 0) vs = (Max (set vs), worst_fall vs)"
proof (induction vs rule: rev_induct)
  case (snoc v vs)
  show ?case
  proof (cases "vs = []")
    case True
    then show ?thesis by (simp add: worst_fall_def fall_at_def peak_at_def lessThan_Suc)
  next
    case False
    with snoc.IH have eq: "foldl drawdown_step (hd (vs @ [v]), 0) (vs @ [v]) =
        drawdown_step (Max (set vs), worst_fall vs) v" by (simp add: hd_append)
    obtain M F where MF: "M = Max (set vs)" "F = worst_fall vs" "0 \<le> F"
      using worst_fall_nonneg by blast
    show ?thesis
      unfolding eq worst_fall_snoc fall_at_last [OF False] Max_set_snoc [OF False] MF(1,2) [symmetric]
      using MF(3) by (auto simp: Let_def max_def)
  qed
qed simp

lemma max_drawdown_from_values_worst: "max_drawdown_from_values vs = worst_fall vs"
  by (cases "vs = []") (simp_all add: max_drawdown_from_values_def drawdown_fold worst_fall_def)

text \<open>The timed pass: where the peak was last seen, and how long the worst fall took.\<close>

definition drawdown_span :: "equity_observation list \<Rightarrow> decimal \<Rightarrow> duration \<Rightarrow> bool" where
  "drawdown_span curve m d \<longleftrightarrow>
     (\<exists>i j. i \<le> j \<and> j < length curve \<and> d = eo_timestamp (curve ! j) - eo_timestamp (curve ! i) \<and>
        eo_equity (curve ! i) = peak_at (map eo_equity curve) j \<and> m = fall_at (map eo_equity curve) j)"

definition drawdown_inv :: "equity_observation list \<Rightarrow> drawdown_state \<Rightarrow> bool" where
  "drawdown_inv curve st \<longleftrightarrow>
     dd_peak st = Max (set (map eo_equity curve)) \<and> dd_max st = worst_fall (map eo_equity curve) \<and>
     (\<exists>i<length curve. eo_equity (curve ! i) = dd_peak st \<and> eo_timestamp (curve ! i) = dd_peak_time st) \<and>
     (case dd_duration st of None \<Rightarrow> dd_max st = 0 | Some d \<Rightarrow> 0 < dd_max st \<and> drawdown_span curve (dd_max st) d)"

lemma equity_drawdown_run_snoc:
  "curve \<noteq> [] \<Longrightarrow> equity_drawdown_run (curve @ [ob]) = equity_drawdown_step (equity_drawdown_run curve) ob"
  by (simp add: equity_drawdown_run_def)

lemma drawdown_span_append: "drawdown_span curve m d \<Longrightarrow> drawdown_span (curve @ [ob]) m d"
  unfolding drawdown_span_def
proof (elim exE conjE)
  fix i j
  assume ij: "i \<le> j" "j < length curve" "d = eo_timestamp (curve ! j) - eo_timestamp (curve ! i)"
    "eo_equity (curve ! i) = peak_at (map eo_equity curve) j" "m = fall_at (map eo_equity curve) j"
  show "\<exists>i j. i \<le> j \<and> j < length (curve @ [ob]) \<and>
      d = eo_timestamp ((curve @ [ob]) ! j) - eo_timestamp ((curve @ [ob]) ! i) \<and>
      eo_equity ((curve @ [ob]) ! i) = peak_at (map eo_equity (curve @ [ob])) j \<and>
      m = fall_at (map eo_equity (curve @ [ob])) j"
    by (rule exI [of _ i], rule exI [of _ j]) (use ij in \<open>simp add: nth_append\<close>)
qed

lemma drawdown_inv_step:
  assumes ne: "curve \<noteq> []" and inv: "drawdown_inv curve st"
  shows "drawdown_inv (curve @ [ob]) (equity_drawdown_step st ob)"
proof -
  let ?vs = "map eo_equity curve" and ?v = "eo_equity ob"
  from ne have vs: "?vs \<noteq> []" by simp
  obtain i where i: "i < length curve" "eo_equity (curve ! i) = dd_peak st"
      "eo_timestamp (curve ! i) = dd_peak_time st"
    and peak: "dd_peak st = Max (set ?vs)" and worst: "dd_max st = worst_fall ?vs"
    and dur: "case dd_duration st of None \<Rightarrow> dd_max st = 0
      | Some d \<Rightarrow> 0 < dd_max st \<and> drawdown_span curve (dd_max st) d"
    using inv by (auto simp: drawdown_inv_def)
  let ?f = "fall_at (?vs @ [?v]) (length ?vs)"
  have new_max: "Max (set (map eo_equity (curve @ [ob]))) = max (dd_peak st) ?v"
    using Max_set_snoc [OF vs, of ?v] peak by simp
  have new_worst: "worst_fall (map eo_equity (curve @ [ob])) = max (dd_max st) ?f"
    using worst_fall_snoc [of ?vs ?v] worst by simp
  have f: "?f = (let p = max (dd_peak st) ?v in if 0 < p then ddiv (dsub p ?v) p else 0)"
    using fall_at_last [OF vs, of ?v] peak by simp
  have nonneg: "0 \<le> dd_max st" by (simp add: worst worst_fall_nonneg)
  have old: "case dd_duration st of None \<Rightarrow> dd_max st = 0
      | Some d \<Rightarrow> 0 < dd_max st \<and> drawdown_span (curve @ [ob]) (dd_max st) d"
    using dur by (auto split: option.splits intro: drawdown_span_append)
  have at_i: "(curve @ [ob]) ! i = curve ! i" using i(1) by (simp add: nth_append)
  show ?thesis
  proof (cases "dd_peak st \<le> ?v")
    case True
    then have "?f = 0" using f by (simp add: max_def Let_def)
    moreover have "(curve @ [ob]) ! length curve = ob" by simp
    ultimately show ?thesis
      using True old nonneg unfolding drawdown_inv_def new_max new_worst
      by (auto simp: equity_drawdown_step_def max_def split: option.splits intro!: exI [of _ "length curve"])
  next
    case False
    let ?d = "ddiv (dsub (dd_peak st) ?v) (dd_peak st)"
    have keep: "\<exists>k<length (curve @ [ob]). eo_equity ((curve @ [ob]) ! k) = dd_peak st \<and>
        eo_timestamp ((curve @ [ob]) ! k) = dd_peak_time st"
      using i at_i by (intro exI [of _ i]) simp
    show ?thesis
    proof (cases "dd_max st < ?d \<and> dd_peak st \<noteq> 0")
      case True
      have "0 < dd_peak st"
      proof (rule ccontr)
        assume "\<not> 0 < dd_peak st"
        then have "?d \<le> 0" using False
          by (simp add: dec_defs dec.rnd_nonpos divide_nonneg_nonpos dec.rnd_nonneg)
        with True nonneg show False by simp
      qed
      then have fd: "?f = ?d" using f False by (simp add: max_def Let_def)
      have "peak_at (?vs @ [?v]) (length ?vs) = dd_peak st"
        unfolding peak_at_last using vs peak False by (auto simp: max_def simp del: Max_less_iff Max_le_iff)
      then have "drawdown_span (curve @ [ob]) ?d (eo_timestamp ob - dd_peak_time st)"
        unfolding drawdown_span_def using i fd at_i
        by (intro exI [of _ i] exI [of _ "length curve"]) simp
      then show ?thesis using True False fd nonneg keep unfolding drawdown_inv_def new_max new_worst
        by (simp add: equity_drawdown_step_def max_def)
    next
      case stay: False
      then have "?f \<le> dd_max st" using f False nonneg by (auto simp: max_def Let_def)
      then show ?thesis using stay False old keep unfolding drawdown_inv_def new_max new_worst
        by (auto simp: equity_drawdown_step_def max_def split: option.splits)
    qed
  qed
qed

lemma drawdown_inv_run: "curve \<noteq> [] \<Longrightarrow> drawdown_inv curve (equity_drawdown_run curve)"
proof (induction curve rule: rev_induct)
  case (snoc ob curve)
  show ?case
  proof (cases "curve = []")
    case True
    then show ?thesis
      by (simp add: drawdown_inv_def equity_drawdown_run_def equity_drawdown_step_def worst_fall_def
          fall_at_def peak_at_def lessThan_Suc)
  next
    case False
    with snoc.IH drawdown_inv_step show ?thesis by (simp add: equity_drawdown_run_snoc)
  qed
qed simp

lemma peak_at_ge: "j < length vs \<Longrightarrow> vs ! j \<le> peak_at vs j"
  unfolding peak_at_def by (rule Max_ge) (auto simp: in_set_conv_nth intro!: exI [of _ j])

lemma fall_at_le_1: "\<forall>v\<in>set vs. 0 \<le> v \<Longrightarrow> j < length vs \<Longrightarrow> (\<forall>v\<in>set vs. representable v) \<Longrightarrow> fall_at vs j \<le> 1"
proof -
  assume nonneg: "\<forall>v\<in>set vs. 0 \<le> v" and j: "j < length vs" and rep: "\<forall>v\<in>set vs. representable v"
  let ?p = "peak_at vs j"
  have "?p \<in> set (take (Suc j) vs)" unfolding peak_at_def using j by (intro Max_in) auto
  then have p: "representable ?p" using rep by (meson in_set_takeD)
  have v: "0 \<le> vs ! j" "vs ! j \<le> ?p" using nonneg j peak_at_ge by auto
  have "0 \<le> dsub ?p (vs ! j)" using v by (simp add: dsub_nonneg_iff)
  moreover have "dsub ?p (vs ! j) \<le> ?p"
    unfolding dsub_def using p v by (intro dec.rnd_below) (auto simp: representable_def)
  ultimately show "fall_at vs j \<le> 1" by (auto simp: fall_at_def dest: ddiv_fraction)
qed

lemma worst_fall_le_1:
  "\<forall>v\<in>set vs. 0 \<le> v \<and> representable v \<Longrightarrow> worst_fall vs \<le> 1"
  by (auto simp: worst_fall_def intro: fall_at_le_1)

subsection \<open>Bounds of the statistics\<close>

lemma mean_None [simp]: "mean vs = None \<longleftrightarrow> vs = []"
  by (simp add: mean_def)

lemma foldl_dadd_neg: "a \<le> 0 \<Longrightarrow> (\<And>x. x \<in> set xs \<Longrightarrow> x < 0) \<Longrightarrow> xs \<noteq> [] \<Longrightarrow> foldl dadd a xs < 0"
proof (induction xs arbitrary: a)
  case (Cons x xs)
  have "dadd a x < 0" unfolding dadd_def using Cons.prems by (intro dec.rnd_neg) (auto intro: add_nonpos_neg)
  then show ?case using Cons.IH [of "dadd a x"] Cons.prems(2) by (cases xs) auto
qed simp

lemma dsum_neg: "(\<And>x. x \<in> set xs \<Longrightarrow> x < 0) \<Longrightarrow> xs \<noteq> [] \<Longrightarrow> dsum xs < 0"
  unfolding dsum_def by (rule foldl_dadd_neg) auto

lemma mean_neg:
  assumes "mean xs = Some m" and "\<And>x. x \<in> set xs \<Longrightarrow> x < 0"
  shows "m < 0"
  using assms dsum_neg [of xs]
  by (auto simp: mean_def ddiv_def dec.rnd_neg divide_neg_pos split: if_splits)

lemma mean_pos:
  assumes "mean xs = Some m" and "\<And>x. x \<in> set xs \<Longrightarrow> 0 \<le> x"
  shows "0 \<le> m"
  using assms dsum_nonneg [of xs]
  by (auto simp: mean_def ddiv_def dec.rnd_nonneg split: if_splits)

lemma count_fraction:
  "ws \<noteq> [] \<Longrightarrow> n \<le> length ws \<Longrightarrow> 0 \<le> ddiv (of_nat n) (of_nat (length ws)) \<and> ddiv (of_nat n) (of_nat (length ws)) \<le> 1"
  by (rule ddiv_fraction) auto

lemma sample_std_nonneg: "sample_std rs = Some s \<Longrightarrow> 0 \<le> s"
  by (auto simp: sample_std_def Let_def split: if_splits option.splits)

lemma downside_nonneg: "downside_deviation rs mar = Some s \<Longrightarrow> 0 \<le> s"
  by (auto simp: downside_deviation_def Let_def split: if_splits)

lemma foldl_extremum:
  fixes a :: rat
  shows "foldl max a xs = Max (insert a (set xs))" and "foldl min a xs = Min (insert a (set xs))"
proof -
  have "foldl max a xs = Max (insert a (set xs)) \<and> foldl min a xs = Min (insert a (set xs))"
  proof (induction xs arbitrary: a)
    case (Cons x xs)
    have "Max (insert (max a x) (set xs)) = Max (insert a (insert x (set xs)))"
      and "Min (insert (min a x) (set xs)) = Min (insert a (insert x (set xs)))"
      by (cases "xs = []"; simp add: max.assoc min.assoc)+
    with Cons show ?case by simp
  qed simp
  then show "foldl max a xs = Max (insert a (set xs))" and "foldl min a xs = Min (insert a (set xs))"
    by simp_all
qed

lemma extremum_of_list:
  fixes xs :: "rat list"
  assumes "xs \<noteq> []"
  shows "foldl max (hd xs) (tl xs) = Max (set xs)" and "foldl min (hd xs) (tl xs) = Min (set xs)"
  using assms by (cases xs; simp add: foldl_extremum)+

lemma metrics_ok_iff:
  "(\<exists>m. compute_performance_metrics pow r = Inr m) \<longleftrightarrow>
     (\<exists>g. cagr pow (bc_initial_capital (br_config (btr_run r))) (btr_equity_curve r) = Inr g)"
  by (auto simp: compute_performance_metrics_def Let_def result_simps)

lemma metrics_error_iff:
  "compute_performance_metrics pow r = Inl e \<longleftrightarrow>
     cagr pow (bc_initial_capital (br_config (btr_run r))) (btr_equity_curve r) = Inl e"
  by (simp add: compute_performance_metrics_def Let_def result_simps)

lemma cagr_Inl:
  "cagr pow c curve = Inl e \<Longrightarrow>
     \<exists>g y. 0 < g \<and> 0 < y \<and> pow g y = Inl e \<and> err_class e \<noteq> InvalidOperation"
proof -
  assume a: "cagr pow c curve = Inl e"
  have pos: "0 < ddiv 1 y" if "0 < y" for y
    using that by (simp add: ddiv_def dec.rnd_pos)
  from a show ?thesis
    by (auto simp: cagr_def Let_def not_le split: if_splits option.splits sum.splits) (use pos in blast)
qed

lemma average_duration_bounds:
  assumes "average_duration ds = Some d" and "\<And>x. x \<in> set ds \<Longrightarrow> 0 \<le> x"
  shows "0 \<le> d"
proof -
  have "0 \<le> sum_list ds" using assms(2) by (simp add: sum_list_nonneg)
  then have "round_half_even 0 \<le> round_half_even (of_int (sum_list ds) / of_nat (length ds))"
    by (intro round_half_even_mono) simp
  moreover have "round_half_even 0 = 0" using round_half_even_of_int [of 0] by simp
  ultimately show ?thesis using assms(1) by (simp add: average_duration_def split: if_splits)
qed

subsection \<open>The bars a trade was held\<close>

lemma filter_below_last:
  fixes f :: "'a \<Rightarrow> int"
  assumes "sorted_wrt (\<lambda>x y. f x < f y) w" and "\<exists>x\<in>set w. f x = b" and "\<forall>x\<in>set w. f x \<le> b"
  shows "filter (\<lambda>x. f x < b) w = butlast w"
proof (cases w rule: rev_cases)
  case (snoc v x)
  with assms have "f x = b" by (force simp: sorted_wrt_append)
  moreover have "filter (\<lambda>x. f x < b) v = v"
    using assms snoc \<open>f x = b\<close> by (intro filter_True) (auto simp: sorted_wrt_append)
  ultimately show ?thesis by (simp add: snoc)
qed (use assms in simp)

lemma filter_above_first:
  fixes f :: "'a \<Rightarrow> int"
  assumes "sorted_wrt (\<lambda>x y. f x < f y) w" and "\<exists>x\<in>set w. f x = a" and "\<forall>x\<in>set w. a \<le> f x"
  shows "filter (\<lambda>x. a < f x) w = tl w"
proof (cases w)
  case (Cons x v)
  with assms have "f x = a" by force
  moreover have "filter (\<lambda>x. a < f x) v = v"
    using assms Cons \<open>f x = a\<close> by (intro filter_True) auto
  ultimately show ?thesis by (simp add: Cons)
qed (use assms in simp)

lemma held_candles_window:
  fixes cs :: "candle list"
  assumes sorted: "sorted_wrt (\<lambda>c d. c_timestamp c < c_timestamp d) cs"
    and entry: "st_entry_time t \<in> c_timestamp ` set cs" and exit: "st_exit_time t \<in> c_timestamp ` set cs"
    and le: "st_entry_time t \<le> st_exit_time t"
  shows "held_candles t cs NEXT_BAR_OPEN =
      filter (\<lambda>c. st_entry_time t \<le> c_timestamp c \<and> c_timestamp c < st_exit_time t) cs"
    and "held_candles t cs SAME_BAR_CLOSE =
      filter (\<lambda>c. st_entry_time t < c_timestamp c \<and> c_timestamp c \<le> st_exit_time t) cs"
proof -
  let ?w = "filter (\<lambda>c. st_entry_time t \<le> c_timestamp c \<and> c_timestamp c \<le> st_exit_time t) cs"
  have w: "sorted_wrt (\<lambda>c d. c_timestamp c < c_timestamp d) ?w" using sorted by (rule sorted_wrt_filter)
  have ne: "?w \<noteq> []" using entry le by (auto simp: filter_empty_conv)
  have last: "\<exists>c\<in>set ?w. c_timestamp c = st_exit_time t" and first: "\<exists>c\<in>set ?w. c_timestamp c = st_entry_time t"
    using entry exit le by auto
  have "butlast ?w = filter (\<lambda>c. c_timestamp c < st_exit_time t) ?w"
    by (rule filter_below_last [symmetric, OF w last]) auto
  also have "\<dots> = filter (\<lambda>c. st_entry_time t \<le> c_timestamp c \<and> c_timestamp c < st_exit_time t) cs"
    by (auto simp: filter_filter intro!: filter_cong)
  finally have b: "butlast ?w = \<dots>" .
  have "tl ?w = filter (\<lambda>c. st_entry_time t < c_timestamp c) ?w"
    by (rule filter_above_first [symmetric, OF w first]) auto
  also have "\<dots> = filter (\<lambda>c. st_entry_time t < c_timestamp c \<and> c_timestamp c \<le> st_exit_time t) cs"
    by (auto simp: filter_filter intro!: filter_cong)
  finally have c: "tl ?w = \<dots>" .
  have one: "butlast ?w = [] \<and> tl ?w = []" if "length ?w = 1"
    using that by (cases ?w) auto
  have "held_candles t cs NEXT_BAR_OPEN = butlast ?w"
    using ne one by (simp add: held_candles_def Let_def slice_def butlast_conv_take)
  with b show "held_candles t cs NEXT_BAR_OPEN =
      filter (\<lambda>c. st_entry_time t \<le> c_timestamp c \<and> c_timestamp c < st_exit_time t) cs" by simp
  have "held_candles t cs SAME_BAR_CLOSE = tl ?w"
    using ne one by (simp add: held_candles_def Let_def slice_def drop_Suc)
  with c show "held_candles t cs SAME_BAR_CLOSE =
      filter (\<lambda>c. st_entry_time t < c_timestamp c \<and> c_timestamp c \<le> st_exit_time t) cs" by simp
qed

lemma excursion_over_held:
  "compute_trade_excursion t cs timing =
     (let held = held_candles t cs timing;
          below = max 0 (dsub (st_entry_price t) (Min (c_low ` set held)));
          above = max 0 (dsub (Max (c_high ` set held)) (st_entry_price t))
      in if held = [] then None
         else Some (if st_direction t = LONG then \<lparr>te_mae = below, te_mfe = above\<rparr>
                    else \<lparr>te_mae = above, te_mfe = below\<rparr>))"
  using extremum_of_list [of "map c_low (held_candles t cs timing)"]
    extremum_of_list [of "map c_high (held_candles t cs timing)"]
  by (simp add: compute_trade_excursion_def Let_def map_tl)

subsection \<open>Where the statistics are defined\<close>

lemma metrics_fields:
  assumes "compute_performance_metrics pow r = Inr m"
  shows "pm_win_rate m = (if btr_trades r = [] then None
      else Some (ddiv (of_nat (length (fst (trade_pnls (btr_trades r))))) (of_nat (length (btr_trades r)))))"
    and "pm_exposure m = exposure (btr_equity_curve r)"
    and "pm_average_loss m = mean (snd (trade_pnls (btr_trades r)))"
    and "pm_profit_factor m = (let loss = dabs (dsum (snd (trade_pnls (btr_trades r)))) in
      if loss \<noteq> 0 then Some (ddiv (dsum (fst (trade_pnls (btr_trades r)))) loss) else None)"
    and "pm_win_loss_ratio m =
      (case (mean (fst (trade_pnls (btr_trades r))), mean (snd (trade_pnls (btr_trades r)))) of
        (Some w, Some l) \<Rightarrow> if l \<noteq> 0 then Some (ddiv w (dabs l)) else None | _ \<Rightarrow> None)"
    and "pm_best_trade_pnl m = option_extremum max (map st_pnl (btr_trades r))"
    and "pm_worst_trade_pnl m = option_extremum min (map st_pnl (btr_trades r))"
    and "pm_volatility m = map_option (\<lambda>s. dmul s (dsqrt (PERIODS_PER_YEAR (bc_timeframe (br_config (btr_run r))))))
      (sample_std (equity_returns (btr_equity_curve r)))"
    and "pm_average_holding_time m = average_duration (map (\<lambda>t. st_exit_time t - st_entry_time t) (btr_trades r))"
  using assms
  by (auto simp: compute_performance_metrics_def Let_def result_simps simp del: fun_upd_apply)

lemma trade_pnls_sets:
  "set (fst (trade_pnls ts)) = {p \<in> st_pnl ` set ts. 0 < p}" "set (snd (trade_pnls ts)) = {p \<in> st_pnl ` set ts. p < 0}"
  by (auto simp: trade_pnls_def)

lemma trade_pnls_empty:
  "fst (trade_pnls ts) = [] \<longleftrightarrow> \<not> (\<exists>p\<in>st_pnl ` set ts. 0 < p)" "snd (trade_pnls ts) = [] \<longleftrightarrow> \<not> (\<exists>p\<in>st_pnl ` set ts. p < 0)"
  by (auto simp: trade_pnls_def filter_empty_conv)

lemma mean_losses: "mean (snd (trade_pnls ts)) = Some x \<Longrightarrow> x < 0"
  by (erule mean_neg) (simp add: trade_pnls_sets)

lemma mean_wins: "mean (fst (trade_pnls ts)) = Some x \<Longrightarrow> 0 \<le> x"
  by (erule mean_pos) (auto simp: trade_pnls_sets)

lemma sum_losses: "dabs (dsum (snd (trade_pnls ts))) = 0 \<longleftrightarrow> snd (trade_pnls ts) = []"
  using dsum_neg [of "snd (trade_pnls ts)"]
  by (cases "snd (trade_pnls ts) = []") (auto simp: trade_pnls_sets dabs_def dec.rnd_eq_zero dsum_def)

lemma ddiv_dabs_nonneg: "0 \<le> x \<Longrightarrow> 0 \<le> ddiv x (dabs y)"
  by (simp add: ddiv_def dabs_def dec.rnd_nonneg)

lemma metrics_rates:
  assumes "compute_performance_metrics pow r = Inr m"
  shows "case pm_win_rate m of None \<Rightarrow> btr_trades r = [] | Some x \<Rightarrow> 0 \<le> x \<and> x \<le> 1"
    and "case pm_exposure m of None \<Rightarrow> btr_equity_curve r = [] | Some x \<Rightarrow> 0 \<le> x \<and> x \<le> 1"
proof -
  have "length (fst (trade_pnls (btr_trades r))) \<le> length (btr_trades r)"
    using length_filter_le [of "\<lambda>p. 0 < p" "map st_pnl (btr_trades r)"] by (simp add: trade_pnls_def)
  from count_fraction [OF _ this]
  show "case pm_win_rate m of None \<Rightarrow> btr_trades r = [] | Some x \<Rightarrow> 0 \<le> x \<and> x \<le> 1"
    by (simp add: metrics_fields [OF assms])
  show "case pm_exposure m of None \<Rightarrow> btr_equity_curve r = [] | Some x \<Rightarrow> 0 \<le> x \<and> x \<le> 1"
    using count_fraction [of "btr_equity_curve r", OF _ length_filter_le]
    by (simp add: metrics_fields [OF assms] exposure_def)
qed

lemma metrics_ratios:
  assumes "compute_performance_metrics pow r = Inr m"
  defines "pnls \<equiv> st_pnl ` set (btr_trades r)"
  shows "case pm_profit_factor m of None \<Rightarrow> \<not> (\<exists>p\<in>pnls. p < 0) | Some x \<Rightarrow> (\<exists>p\<in>pnls. p < 0) \<and> 0 \<le> x"
    and "case pm_win_loss_ratio m of None \<Rightarrow> \<not> ((\<exists>p\<in>pnls. p < 0) \<and> (\<exists>p\<in>pnls. 0 < p))
      | Some x \<Rightarrow> (\<exists>p\<in>pnls. p < 0) \<and> (\<exists>p\<in>pnls. 0 < p) \<and> 0 \<le> x"
    and "case pm_average_loss m of None \<Rightarrow> \<not> (\<exists>p\<in>pnls. p < 0) | Some x \<Rightarrow> x < 0"
proof -
  let ?w = "fst (trade_pnls (btr_trades r))" and ?l = "snd (trade_pnls (btr_trades r))"
  have "0 \<le> dsum ?w" by (rule dsum_nonneg) (auto simp: trade_pnls_sets)
  then show "case pm_profit_factor m of None \<Rightarrow> \<not> (\<exists>p\<in>pnls. p < 0) | Some x \<Rightarrow> (\<exists>p\<in>pnls. p < 0) \<and> 0 \<le> x"
    unfolding pnls_def metrics_fields(4) [OF assms(1)]
    by (simp add: Let_def sum_losses trade_pnls_empty ddiv_dabs_nonneg)
  show "case pm_win_loss_ratio m of None \<Rightarrow> \<not> ((\<exists>p\<in>pnls. p < 0) \<and> (\<exists>p\<in>pnls. 0 < p))
      | Some x \<Rightarrow> (\<exists>p\<in>pnls. p < 0) \<and> (\<exists>p\<in>pnls. 0 < p) \<and> 0 \<le> x"
    using mean_losses [of "btr_trades r"] mean_wins [of "btr_trades r"] mean_None [of ?w] mean_None [of ?l]
    unfolding pnls_def metrics_fields(5) [OF assms(1)] trade_pnls_empty
    by (auto simp del: mean_None split: option.splits intro: ddiv_dabs_nonneg)
  show "case pm_average_loss m of None \<Rightarrow> \<not> (\<exists>p\<in>pnls. p < 0) | Some x \<Rightarrow> x < 0"
    using mean_losses [of "btr_trades r"] mean_None [of ?l]
    unfolding pnls_def metrics_fields(3) [OF assms(1)] trade_pnls_empty
    by (auto simp del: mean_None split: option.splits)
qed

lemma metrics_extremes:
  assumes "compute_performance_metrics pow r = Inr m" and "\<And>t. t \<in> set (btr_trades r) \<Longrightarrow> valid_trade t"
  shows "case pm_best_trade_pnl m of None \<Rightarrow> btr_trades r = [] | Some x \<Rightarrow> x = Max (st_pnl ` set (btr_trades r))"
    and "case pm_worst_trade_pnl m of None \<Rightarrow> btr_trades r = [] | Some x \<Rightarrow> x = Min (st_pnl ` set (btr_trades r))"
    and "pm_volatility m = Some v \<Longrightarrow> 0 \<le> v"
    and "pm_average_holding_time m = Some d \<Longrightarrow> 0 \<le> d"
proof -
  note fields = metrics_fields [OF assms(1)]
  show "case pm_best_trade_pnl m of None \<Rightarrow> btr_trades r = [] | Some x \<Rightarrow> x = Max (st_pnl ` set (btr_trades r))"
    "case pm_worst_trade_pnl m of None \<Rightarrow> btr_trades r = [] | Some x \<Rightarrow> x = Min (st_pnl ` set (btr_trades r))"
    using extremum_of_list [of "map st_pnl (btr_trades r)"] by (auto simp: fields option_extremum_def)
  show "pm_volatility m = Some v \<Longrightarrow> 0 \<le> v"
    by (auto simp: fields dmul_def intro!: dec.rnd_nonneg mult_nonneg_nonneg dest: sample_std_nonneg)
  show "pm_average_holding_time m = Some d \<Longrightarrow> 0 \<le> d"
    by (rule average_duration_bounds) (use assms(2) in \<open>auto simp: fields valid_trade_def\<close>)
qed

subsection \<open>Properties\<close>

definition sample_observation :: "instant \<Rightarrow> decimal \<Rightarrow> equity_observation" where
  "sample_observation t e = \<lparr>eo_timestamp = t, eo_equity = e, eo_cash = e, eo_position = FLAT_POSITION\<rparr>"

definition sample_curve :: "equity_observation list" where
  "sample_curve = map (\<lambda>(t, e). sample_observation t e) [(0, 100), (1, 120), (2, 90), (3, 130), (4, 104)]"

text \<open>
C25: The maximum drawdown of an equity curve is the worst fall from a running peak: the largest
of the relative distances between an observation and the highest equity up to it.  The timed
calculation used for the metrics and the untimed one used for Monte Carlo paths compute the same
number; the reported duration is absent exactly when there is no fall, and otherwise spans from an
observation at the peak to the observation where that very fall is attained; for a curve that
never goes negative the drawdown is at most one.
\<close>

theorem drawdown_is_worst_fall:
  assumes "curve \<noteq> []"
  shows "let vs = map eo_equity curve; worst = Max (insert 0 (fall_at vs ` {..<length vs})) in
    max_drawdown_from_values vs = worst \<and> fst (max_drawdown curve) = Some worst \<and>
    (snd (max_drawdown curve) = None \<longleftrightarrow> worst = 0) \<and>
    (\<forall>d. snd (max_drawdown curve) = Some d \<longrightarrow> drawdown_span curve worst d) \<and>
    ((\<forall>v\<in>set vs. 0 \<le> v \<and> representable v) \<longrightarrow> worst \<le> 1)"
  unfolding Let_def worst_fall_def [symmetric]
  using drawdown_inv_run [OF assms] worst_fall_le_1 [of "map eo_equity curve"] assms
  by (auto simp: max_drawdown_def drawdown_inv_def max_drawdown_from_values_worst Let_def
      split: option.splits)

lemma sample_curve_drawdown:
  "max_drawdown sample_curve = (Some (1 / 4), Some 1)"
  "list_all (\<lambda>ob. 0 \<le> eo_equity ob \<and> representable (eo_equity ob)) sample_curve"
  unfolding representable_def by code_simp+

theorem drawdown_is_worst_fall_witness:
  "max_drawdown_from_values (map eo_equity sample_curve) = 1 / 4 \<and> drawdown_span sample_curve (1 / 4) 1"
proof -
  have "sample_curve \<noteq> []" by (simp add: sample_curve_def)
  from drawdown_is_worst_fall [OF this] sample_curve_drawdown(1) show ?thesis
    unfolding Let_def by (metis fst_conv snd_conv option.inject)
qed


definition sample_trade :: "instant \<Rightarrow> instant \<Rightarrow> decimal \<Rightarrow> simulated_trade" where
  "sample_trade entry exit pnl =
     \<lparr>st_symbol = ''SPY'', st_direction = LONG, st_entry_time = entry, st_entry_price = 10,
      st_exit_time = exit, st_exit_price = 11, st_quantity = 1, st_fees_paid = 0, st_pnl = pnl,
      st_stop_price = Some 8\<rparr>"

definition sample_result :: backtest_result where
  "sample_result =
     \<lparr>btr_run = \<lparr>br_config = sample_config\<lparr>bc_initial_capital := 100\<rparr>, br_run_id = ''r'', br_generated_at = 0\<rparr>,
      btr_equity_curve = sample_curve,
      btr_trades = [sample_trade 0 1 20, sample_trade 1 2 (- 30), sample_trade 2 5 40],
      btr_final_position = FLAT_POSITION\<rparr>"

definition unit_power :: decimal_power where
  "unit_power g y = ok 1"

lemma sample_metrics:
  "\<exists>m. compute_performance_metrics unit_power sample_result = Inr m \<and> pm_win_rate m \<noteq> None \<and>
     pm_profit_factor m = Some 2"
proof -
  have g: "cagr unit_power 100 sample_curve = Inr (Some 0)" by code_simp
  have "pm_profit_factor (projr (compute_performance_metrics unit_power sample_result)) = Some 2"
    "pm_win_rate (projr (compute_performance_metrics unit_power sample_result)) \<noteq> None"
    unfolding compute_performance_metrics_def Let_def
    by (simp_all add: sample_result_def g, code_simp)
  moreover have "\<exists>m. compute_performance_metrics unit_power sample_result = Inr m"
    unfolding metrics_ok_iff using g by (simp add: sample_result_def)
  ultimately show ?thesis by auto
qed


text \<open>
The metrics are total unless the power of two decimals signals: the calculation either
succeeds, or raises exactly an error other than \<open>InvalidOperation\<close> that the power raised on a
positive base and a positive exponent.  Nothing else in it can raise, on any run.
\<close>

theorem metrics_raise_only_by_power:
  "(\<exists>m. compute_performance_metrics pow r = Inr m) \<or>
   (\<exists>g y e. 0 < g \<and> 0 < y \<and> pow g y = Inl e \<and> err_class e \<noteq> InvalidOperation \<and>
      compute_performance_metrics pow r = Inl e)"
proof (cases "compute_performance_metrics pow r")
  case (Inl e)
  with cagr_Inl show ?thesis by (fastforce simp: metrics_error_iff)
qed blast

text \<open>
  An equity curve that grows a hundredfold within a minute annualizes to a power beyond the
  exponent range of the context; its signal is not the one the calculation catches.
\<close>

definition overflowing_power :: decimal_power where
  "overflowing_power g y =
     (if 100 \<le> g \<and> 500000 \<le> y then raise DecimalOverflow ''decimal.Overflow'' else ok 1)"

lemma annualization_overflow_escapes:
  "compute_performance_metrics overflowing_power
     (sample_result\<lparr>btr_equity_curve := [sample_observation 0 1, sample_observation (minutes 1) 10000]\<rparr>) =
   raise DecimalOverflow ''decimal.Overflow''"
proof -
  have "cagr overflowing_power 100 [sample_observation 0 1, sample_observation (minutes 1) 10000] =
      raise DecimalOverflow ''decimal.Overflow''" by code_simp
  then show ?thesis by (simp add: metrics_error_iff sample_result_def)
qed

text \<open>
The excursion of a trade is measured over exactly the bars it was held.  On a strictly
ascending series that contains its entry and its exit bar, a trade filled at opens is held from its
entry bar up to but not including its exit bar, and one filled at closes from the bar after its entry
through its exit bar; the adverse and favourable excursions are the distances from the entry price to
the extremes of those bars, never negative, and absent exactly when no bar was held.
\<close>

theorem excursion_over_held_bars:
  assumes "sorted_wrt (\<lambda>c d. c_timestamp c < c_timestamp d) cs"
    and "st_entry_time t \<in> c_timestamp ` set cs" and "st_exit_time t \<in> c_timestamp ` set cs"
    and "st_entry_time t \<le> st_exit_time t"
  shows "let held = filter (\<lambda>c. if timing = NEXT_BAR_OPEN
               then st_entry_time t \<le> c_timestamp c \<and> c_timestamp c < st_exit_time t
               else st_entry_time t < c_timestamp c \<and> c_timestamp c \<le> st_exit_time t) cs;
             below = max 0 (dsub (st_entry_price t) (Min (c_low ` set held)));
             above = max 0 (dsub (Max (c_high ` set held)) (st_entry_price t))
    in compute_trade_excursion t cs timing =
         (if held = [] then None
          else Some (if st_direction t = LONG then \<lparr>te_mae = below, te_mfe = above\<rparr>
                     else \<lparr>te_mae = above, te_mfe = below\<rparr>))"
  using held_candles_window [OF assms] unfolding excursion_over_held
  by (cases timing) (simp_all add: Let_def)

theorem excursion_over_held_bars_witness:
  "compute_trade_excursion (sample_trade (minutes 2) (minutes 4) 1) sample_history NEXT_BAR_OPEN =
     Some \<lparr>te_mae = 2, te_mfe = 3\<rparr>"
proof -
  have "sorted_wrt (\<lambda>c d. c_timestamp c < c_timestamp d) sample_history"
    "st_entry_time (sample_trade (minutes 2) (minutes 4) 1) \<in> c_timestamp ` set sample_history"
    "st_exit_time (sample_trade (minutes 2) (minutes 4) 1) \<in> c_timestamp ` set sample_history"
    "st_entry_time (sample_trade (minutes 2) (minutes 4) 1) \<le> st_exit_time (sample_trade (minutes 2) (minutes 4) 1)"
    by (simp_all add: sample_history_def sample_trade_def sample_candle_def minutes_def)
  note excursion = excursion_over_held_bars [OF this, of NEXT_BAR_OPEN, unfolded Let_def]
  have "dec_round 2 = 2" "dec_round 3 = 3" by code_simp+
  then show ?thesis
    unfolding excursion
    by (simp add: sample_history_def sample_trade_def sample_candle_def minutes_def dsub_def)
qed

end
