(* ===== verification/Robustness.thy ===== *)
theory Robustness
  imports Performance_Metrics "HOL-Library.AList"
begin

text \<open>
  Robustness analysis (\<open>backtesting/robustness.py\<close>): Monte Carlo resampling of the trades of a run,
  and the stability of a metric over neighbouring parameters.  The generator \<open>random.Random\<close> is a
  parameter: it is seeded, and draws an index below a bound, once for \<open>shuffle\<close> and once for
  \<open>choices\<close>, each draw returning the generator's next state.  The text of a decimal is a parameter.
\<close>

record 'g random_source =
  rs_seed :: "int \<Rightarrow> 'g"
  rs_below :: "nat \<Rightarrow> 'g \<Rightarrow> nat \<times> 'g"
  rs_pick :: "nat \<Rightarrow> 'g \<Rightarrow> nat \<times> 'g"

text \<open>What the documentation of \<open>random\<close> promises of both draws.\<close>

definition draws_below :: "'g random_source \<Rightarrow> bool" where
  "draws_below src \<longleftrightarrow> (\<forall>n g. 0 < n \<longrightarrow> fst (rs_below src n g) < n \<and> fst (rs_pick src n g) < n)"

subsection \<open>Resampling\<close>

definition swap :: "nat \<Rightarrow> nat \<Rightarrow> 'a list \<Rightarrow> 'a list" where
  "swap i j xs = xs[i := xs ! j, j := xs ! i]"

fun shuffle_down :: "'g random_source \<Rightarrow> nat \<Rightarrow> 'a list \<Rightarrow> 'g \<Rightarrow> 'a list \<times> 'g" where
  "shuffle_down src 0 xs g = (xs, g)"
| "shuffle_down src (Suc i) xs g =
     (let (j, g') = rs_below src (Suc (Suc i)) g in shuffle_down src i (swap (Suc i) j xs) g')"

definition shuffle :: "'g random_source \<Rightarrow> 'a list \<Rightarrow> 'g \<Rightarrow> 'a list \<times> 'g" where
  "shuffle src xs g = shuffle_down src (length xs - 1) xs g"

fun choices :: "'g random_source \<Rightarrow> 'a list \<Rightarrow> nat \<Rightarrow> 'g \<Rightarrow> 'a list \<times> 'g" where
  "choices src xs 0 g = ([], g)"
| "choices src xs (Suc k) g =
     (let (j, g') = rs_pick src (length xs) g; (ys, g'') = choices src xs k g' in (xs ! j # ys, g''))"

subsection \<open>Monte Carlo\<close>

record monte_carlo_config =
  mc_num_simulations :: int
  mc_random_seed :: int
  mc_min_trades_required :: int
  mc_method :: string

definition check_monte_carlo_config :: "monte_carlo_config \<Rightarrow> monte_carlo_config result" where
  "check_monte_carlo_config c =
     raise_if (mc_num_simulations c < 1) ValueError ''num_simulations must be >= 1''
     (raise_if (mc_min_trades_required c < 2) ValueError ''min_trades_required must be >= 2'' (ok c))"

definition default_monte_carlo_config :: monte_carlo_config where
  "default_monte_carlo_config =
     \<lparr>mc_num_simulations = 1000, mc_random_seed = 0, mc_min_trades_required = 20, mc_method = ''reshuffle''\<rparr>"

record monte_carlo_result =
  mcr_num_simulations :: int
  mcr_random_seed :: int
  mcr_method :: string
  mcr_ending_equity_percentiles :: "(string \<times> decimal) list"
  mcr_max_drawdown_percentiles :: "(string \<times> decimal) list"
  mcr_probability_of_drawdown_exceeding :: "(string \<times> decimal) list"
  mcr_assumptions :: "string list"

definition DEFAULT_PERCENTILES :: "decimal list" where
  "DEFAULT_PERCENTILES = [5, 25, 50, 75, 95]"

definition DEFAULT_DRAWDOWN_THRESHOLDS :: "decimal list" where
  "DEFAULT_DRAWDOWN_THRESHOLDS = [1 / 10, 2 / 10, 3 / 10]"

definition percentile_rank :: "nat \<Rightarrow> decimal \<Rightarrow> int" where
  "percentile_rank n percentile = \<lceil>dmul (ddiv percentile 100) (of_nat n)\<rceil>"

definition percentile_of :: "decimal list \<Rightarrow> decimal \<Rightarrow> decimal result" where
  "percentile_of sorted_values percentile =
     (let n = length sorted_values;
          rank = percentile_rank n percentile;
          index = min (max rank 1) (int n) - 1
      in if n = 0 then raise IndexError ''tuple index out of range''
         else ok (sorted_values ! nat index))"

definition equity_path :: "simulated_trade list \<Rightarrow> decimal \<Rightarrow> decimal list" where
  "equity_path trades initial_capital =
     initial_capital # scan (\<lambda>equity trade. dadd equity (st_pnl trade)) initial_capital trades"

definition resample ::
    "'g random_source \<Rightarrow> string \<Rightarrow> simulated_trade list \<Rightarrow> 'g \<Rightarrow> (simulated_trade list \<times> 'g) result" where
  "resample src method trades g =
     (if method = ''reshuffle'' then ok (shuffle src trades g)
      else if method = ''bootstrap'' then ok (choices src trades (length trades) g)
      else raise ValueError ''unrecognized resampling method'')"

text \<open>The loop over the simulations: the ending equity and the drawdown of each path.\<close>

fun simulate ::
    "'g random_source \<Rightarrow> string \<Rightarrow> simulated_trade list \<Rightarrow> decimal \<Rightarrow> nat \<Rightarrow> 'g
      \<Rightarrow> (decimal \<times> decimal) list result" where
  "simulate src method trades capital 0 g = ok []"
| "simulate src method trades capital (Suc n) g =
     bind_result (resample src method trades g) (\<lambda>(order, g').
     let path = equity_path order capital in
     bind_result (simulate src method trades capital n g') (\<lambda>rest.
     ok ((last path, max_drawdown_from_values path) # rest)))"

text \<open>A dictionary built from pairs: a later value replaces an earlier one in its place.\<close>

definition dict_of :: "('k \<times> 'v) list \<Rightarrow> ('k \<times> 'v) list" where
  "dict_of kvs = foldl (\<lambda>d (k, v). AList.update k v d) [] kvs"

definition percentiles_dict ::
    "(decimal \<Rightarrow> string) \<Rightarrow> decimal list \<Rightarrow> decimal list \<Rightarrow> (string \<times> decimal) list result" where
  "percentiles_dict render values percentiles =
     bind_result (map_result (\<lambda>p. bind_result (percentile_of values p) (\<lambda>v. ok (''p'' @ render p, v))) percentiles)
       (\<lambda>kvs. ok (dict_of kvs))"

definition exceeding :: "decimal list \<Rightarrow> decimal \<Rightarrow> decimal" where
  "exceeding drawdowns threshold =
     ddiv (of_nat (length (filter (\<lambda>dd. threshold \<le> dd) drawdowns))) (of_nat (length drawdowns))"

definition assumption_texts :: "string \<Rightarrow> string list" where
  "assumption_texts method =
     [''Trade PnL values are reordered/resampled from the same historical trade set; this models '' @
      ''sequencing/sampling risk only, not new or unseen market scenarios.'',
      ''This is not a forecast or a guarantee of future performance '' @ [CHR 0xE2, CHR 0x80, CHR 0x94] @
      '' it describes only how sensitive the historical result was to trade order/sampling.'',
      ''Resampling method: '' @ method @ ''.'']"

definition run_monte_carlo ::
    "(decimal \<Rightarrow> string) \<Rightarrow> 'g random_source \<Rightarrow> simulated_trade list \<Rightarrow> decimal \<Rightarrow> monte_carlo_config
      \<Rightarrow> decimal list \<Rightarrow> decimal list \<Rightarrow> monte_carlo_result result" where
  "run_monte_carlo render src trades initial_capital config drawdown_thresholds percentiles =
     raise_if (int (length trades) < mc_min_trades_required config) InsufficientSampleSizeError
       ''Monte Carlo simulation requires more trades''
     (bind_result (simulate src (mc_method config) trades initial_capital (nat (mc_num_simulations config))
        (rs_seed src (mc_random_seed config))) (\<lambda>paths.
      let ending_equities = sort (map fst paths); max_drawdowns = sort (map snd paths) in
      bind_result (percentiles_dict render ending_equities percentiles) (\<lambda>equity_percentiles.
      bind_result (percentiles_dict render max_drawdowns percentiles) (\<lambda>drawdown_percentiles.
      ok \<lparr>mcr_num_simulations = mc_num_simulations config, mcr_random_seed = mc_random_seed config,
          mcr_method = mc_method config,
          mcr_ending_equity_percentiles = equity_percentiles,
          mcr_max_drawdown_percentiles = drawdown_percentiles,
          mcr_probability_of_drawdown_exceeding =
            dict_of (map (\<lambda>threshold. (render threshold, exceeding max_drawdowns threshold)) drawdown_thresholds),
          mcr_assumptions = assumption_texts (mc_method config)\<rparr>))))"

subsection \<open>Metrics by name\<close>

text \<open>The value of a metric, read by its field name: a count, a decimal or a duration.\<close>

datatype metric_value = MCount nat | MDecimal decimal | MDuration duration

definition metric_fields :: "(string \<times> (performance_metrics \<Rightarrow> metric_value option)) list" where
  "metric_fields =
     [(''num_trades'', \<lambda>m. Some (MCount (pm_num_trades m))),
      (''total_return'', \<lambda>m. map_option MDecimal (pm_total_return m)),
      (''cagr'', \<lambda>m. map_option MDecimal (pm_cagr m)),
      (''win_rate'', \<lambda>m. map_option MDecimal (pm_win_rate m)),
      (''average_win'', \<lambda>m. map_option MDecimal (pm_average_win m)),
      (''average_loss'', \<lambda>m. map_option MDecimal (pm_average_loss m)),
      (''win_loss_ratio'', \<lambda>m. map_option MDecimal (pm_win_loss_ratio m)),
      (''profit_factor'', \<lambda>m. map_option MDecimal (pm_profit_factor m)),
      (''expectancy'', \<lambda>m. map_option MDecimal (pm_expectancy m)),
      (''max_drawdown'', \<lambda>m. map_option MDecimal (pm_max_drawdown m)),
      (''max_drawdown_duration'', \<lambda>m. map_option MDuration (pm_max_drawdown_duration m)),
      (''sharpe_ratio'', \<lambda>m. map_option MDecimal (pm_sharpe_ratio m)),
      (''sortino_ratio'', \<lambda>m. map_option MDecimal (pm_sortino_ratio m)),
      (''volatility'', \<lambda>m. map_option MDecimal (pm_volatility m)),
      (''exposure'', \<lambda>m. map_option MDecimal (pm_exposure m)),
      (''average_holding_time'', \<lambda>m. map_option MDuration (pm_average_holding_time m)),
      (''best_trade_pnl'', \<lambda>m. map_option MDecimal (pm_best_trade_pnl m)),
      (''worst_trade_pnl'', \<lambda>m. map_option MDecimal (pm_worst_trade_pnl m)),
      (''average_r_multiple'', \<lambda>m. map_option MDecimal (pm_average_r_multiple m))]"

definition get_metric :: "performance_metrics \<Rightarrow> string \<Rightarrow> metric_value option result" where
  "get_metric m name =
     (case map_of metric_fields name of
        None \<Rightarrow> raise AttributeError ''PerformanceMetrics''
      | Some get \<Rightarrow> ok (get m))"

subsection \<open>Parameter stability\<close>

record stability_point =
  sp_parameters :: parameters
  sp_metrics :: performance_metrics

definition run_parameter_stability ::
    "decimal_power \<Rightarrow> parameters list \<Rightarrow> (parameters \<Rightarrow> backtest_result result)
      \<Rightarrow> stability_point list result" where
  "run_parameter_stability pow parameter_grid run_backtest =
     raise_if (parameter_grid = []) ValueError ''parameter_grid must not be empty''
     (map_result (\<lambda>params.
        bind_result (run_backtest params) (\<lambda>r.
        bind_result (compute_performance_metrics pow r) (\<lambda>m.
        ok \<lparr>sp_parameters = params, sp_metrics = m\<rparr>))) parameter_grid)"

definition metric_values :: "stability_point list \<Rightarrow> string \<Rightarrow> metric_value option list result" where
  "metric_values points metric_name = map_result (\<lambda>point. get_metric (sp_metrics point) metric_name) points"

text \<open>Decimal arithmetic accepts a count and refuses a duration.\<close>

fun decimal_of :: "metric_value \<Rightarrow> decimal result" where
  "decimal_of (MCount n) = ok (of_nat n)"
| "decimal_of (MDecimal d) = ok d"
| "decimal_of (MDuration d) = raise TypeError ''unsupported operand type(s) for +''"

definition stability_score :: "decimal list \<Rightarrow> decimal option" where
  "stability_score values =
     (let m = ddiv (dsum values) (of_nat (length values)) in
      if m = 0 then None
      else
        let variance = ddiv (dsum (map (\<lambda>value. dsquare (dsub value m)) values)) (of_nat (length values - 1));
            coefficient_of_variation = ddiv (dsqrt variance) (dabs m)
        in Some (dsub 1 coefficient_of_variation))"

definition assess_stability :: "stability_point list \<Rightarrow> string \<Rightarrow> decimal option result" where
  "assess_stability points metric_name =
     bind_result (metric_values points metric_name) (\<lambda>all_values.
     let values = List.map_filter id all_values in
     if length values < 2 then ok None
     else bind_result (map_result decimal_of values) (\<lambda>ds. ok (stability_score ds)))"

subsection \<open>Orders, paths and percentiles\<close>

lemma length_swap [simp]: "length (swap i j xs) = length xs"
  by (simp add: swap_def)

lemma mset_swap_list: "i < length xs \<Longrightarrow> j < length xs \<Longrightarrow> mset (swap i j xs) = mset xs"
  unfolding swap_def by (rule mset_swap)

lemma mset_shuffle_down:
  assumes "draws_below src"
  shows "i < length xs \<or> i = 0 \<Longrightarrow> mset (fst (shuffle_down src i xs g)) = mset xs"
proof (induction i arbitrary: xs g)
  case (Suc i)
  obtain j g' where d: "rs_below src (Suc (Suc i)) g = (j, g')" by (cases "rs_below src (Suc (Suc i)) g")
  with assms have "j < Suc (Suc i)" unfolding draws_below_def by (metis fst_conv zero_less_Suc)
  with Suc d show ?case by (auto simp: mset_swap_list)
qed simp

lemma mset_shuffle: "draws_below src \<Longrightarrow> mset (fst (shuffle src xs g)) = mset xs"
  unfolding shuffle_def by (rule mset_shuffle_down) auto

lemma choices_from:
  assumes "draws_below src" and "xs \<noteq> []"
  shows "length (fst (choices src xs k g)) = k \<and> set (fst (choices src xs k g)) \<subseteq> set xs"
proof (induction k arbitrary: g)
  case (Suc k)
  obtain j g' where d: "rs_pick src (length xs) g = (j, g')" by (cases "rs_pick src (length xs) g")
  with assms have "j < length xs" unfolding draws_below_def by (metis fst_conv length_greater_0_conv)
  with Suc.IH [of g'] d show ?case by (auto split: prod.split)
qed simp

lemma scan_last: "last (s # scan f s xs) = foldl f s xs"
  by (induction xs arbitrary: s) auto

lemma last_equity_path: "last (equity_path trades capital) = foldl dadd capital (map st_pnl trades)"
  unfolding equity_path_def scan_last by (induction trades arbitrary: capital) auto

lemma foldl_dadd_dsum: "representable c \<Longrightarrow> foldl dadd c xs = dsum (c # xs)"
  by (simp add: dsum_def dadd_def)

lemma set_update_subset: "set (AList.update k v al) \<subseteq> insert (k, v) (set al)"
  by (induction al) auto

lemma set_dict_of: "set (dict_of kvs) \<subseteq> set kvs"
proof -
  have "set (foldl (\<lambda>d (k, v). AList.update k v d) d kvs) \<subseteq> set d \<union> set kvs" for d :: "('a \<times> 'b) list"
  proof (induction kvs arbitrary: d)
    case (Cons kv kvs)
    obtain k v where kv: "kv = (k, v)" by (cases kv)
    from Cons.IH [of "AList.update k v d"] set_update_subset [of k v d] show ?case
      by (auto simp: kv)
  qed simp
  from this [of "[]"] show ?thesis by (simp add: dict_of_def)
qed

definition percentile_index :: "nat \<Rightarrow> decimal \<Rightarrow> nat" where
  "percentile_index n p = nat (min (max (percentile_rank n p) 1) (int n) - 1)"

lemma percentile_of_index:
  "values \<noteq> [] \<Longrightarrow> percentile_of values p = Inr (values ! percentile_index (length values) p)"
  by (simp add: percentile_of_def Let_def percentile_index_def)

lemma percentile_index_less: "0 < n \<Longrightarrow> percentile_index n p < n"
  by (auto simp: percentile_index_def min_def max_def)

lemma percentile_index_mono: "p \<le> q \<Longrightarrow> percentile_index n p \<le> percentile_index n q"
proof -
  assume "p \<le> q"
  then have "ddiv p 100 \<le> ddiv q 100" unfolding ddiv_def by (intro dec.rnd_mono divide_right_mono) auto
  then have "dmul (ddiv p 100) (of_nat n) \<le> dmul (ddiv q 100) (of_nat n)"
    unfolding dmul_def by (intro dec.rnd_mono mult_right_mono) auto
  then have "percentile_rank n p \<le> percentile_rank n q"
    unfolding percentile_rank_def by (rule ceiling_mono)
  then show ?thesis unfolding percentile_index_def by (intro nat_mono) auto
qed

lemma percentile_index_ends:
  assumes "0 < n" and "n \<le> 10 ^ 28"
  shows "percentile_index n 0 = 0" and "percentile_index n 100 = n - 1"
proof -
  have "int n \<le> int (10 ^ 28)" using assms(2) by (simp only: of_nat_le_iff)
  then have "representable (of_int (int n))" by (intro representable_int) simp
  then have n: "dec_round (of_nat n) = of_nat n" by simp
  have one: "ddiv 100 100 = 1" using dec_round_id [of 1] by (simp add: ddiv_def)
  show "percentile_index n 0 = 0"
    using assms(1) by (simp add: percentile_index_def percentile_rank_def dmul_def dec.rnd_zero)
  show "percentile_index n 100 = n - 1"
    using assms(1) n by (simp add: percentile_index_def percentile_rank_def one dmul_def nat_diff_distrib)
qed

lemma exceeding_bounds: "ds \<noteq> [] \<Longrightarrow> 0 \<le> exceeding ds t \<and> exceeding ds t \<le> 1"
  unfolding exceeding_def by (rule count_fraction) auto

lemma exceeding_antimono: "t \<le> u \<Longrightarrow> exceeding ds u \<le> exceeding ds t"
proof -
  assume "t \<le> u"
  then have "filter (\<lambda>d. u \<le> d) ds = filter (\<lambda>d. u \<le> d) (filter (\<lambda>d. t \<le> d) ds)"
    by (auto simp: filter_filter intro: filter_cong)
  then have "length (filter (\<lambda>d. u \<le> d) ds) \<le> length (filter (\<lambda>d. t \<le> d) ds)"
    by (metis length_filter_le)
  then show ?thesis unfolding exceeding_def ddiv_def
    by (intro dec.rnd_mono divide_right_mono) auto
qed

text \<open>An order that the method may draw: a permutation, or a sample with replacement.\<close>

definition admissible_order :: "string \<Rightarrow> 'a list \<Rightarrow> 'a list \<Rightarrow> bool" where
  "admissible_order method trades order \<longleftrightarrow>
     (if method = ''reshuffle'' then mset order = mset trades
      else length order = length trades \<and> set order \<subseteq> set trades)"

lemma simulate_ok:
  assumes "draws_below src" and "trades \<noteq> []" and "method \<in> {''reshuffle'', ''bootstrap''}"
  shows "\<exists>paths. simulate src method trades capital n g = Inr paths \<and> length paths = n \<and>
    (\<forall>(e, d)\<in>set paths. \<exists>order. admissible_order method trades order \<and>
       e = last (equity_path order capital) \<and> d = max_drawdown_from_values (equity_path order capital))"
proof (induction n arbitrary: g)
  case (Suc n)
  obtain order g' where r: "resample src method trades g = Inr (order, g')"
    and a: "admissible_order method trades order"
    using assms mset_shuffle [OF assms(1), of trades g] choices_from [OF assms(1,2), of "length trades" g]
    by (cases "shuffle src trades g"; cases "choices src trades (length trades) g")
      (auto simp: resample_def admissible_order_def)
  from Suc.IH [of g'] obtain rest where rest: "simulate src method trades capital n g' = Inr rest"
    "length rest = n"
    "\<forall>(e, d)\<in>set rest. \<exists>order. admissible_order method trades order \<and>
       e = last (equity_path order capital) \<and> d = max_drawdown_from_values (equity_path order capital)"
    by blast
  then show ?case using a by (auto simp: r Let_def)
qed simp

lemma dict_of_Nil [simp]: "dict_of kvs = [] \<longleftrightarrow> kvs = []"
proof -
  have "foldl (\<lambda>d (k, v). AList.update k v d) d kvs = [] \<longleftrightarrow> d = [] \<and> kvs = []" for d :: "('a \<times> 'b) list"
  proof (induction kvs arbitrary: d)
    case (Cons kv kvs)
    then show ?case by (simp add: update_nonempty split: prod.split)
  qed simp
  then show ?thesis by (simp add: dict_of_def)
qed

lemma percentiles_dict_ok:
  assumes "values \<noteq> []"
  shows "\<exists>kvs. percentiles_dict render values ps = Inr kvs \<and> (kvs = [] \<longleftrightarrow> ps = []) \<and>
    (\<forall>(k, v)\<in>set kvs. \<exists>p\<in>set ps. k = ''p'' @ render p \<and> v = values ! percentile_index (length values) p)"
proof -
  let ?kv = "\<lambda>p. (''p'' @ render p, values ! percentile_index (length values) p)"
  have "map_result (\<lambda>p. bind_result (percentile_of values p) (\<lambda>v. ok (''p'' @ render p, v))) ps = Inr (map ?kv ps)"
    by (induction ps) (simp_all add: percentile_of_index [OF assms])
  then have "percentiles_dict render values ps = Inr (dict_of (map ?kv ps))"
    by (simp add: percentiles_dict_def)
  with set_dict_of [of "map ?kv ps"] show ?thesis by auto
qed

lemma run_monte_carlo_outcome:
  assumes src: "draws_below src" and cfg: "check_monte_carlo_config config = Inr config"
    and known: "mc_method config \<in> {''reshuffle'', ''bootstrap''}"
    and enough: "mc_min_trades_required config \<le> int (length trades)"
  obtains paths r where "simulate src (mc_method config) trades capital (nat (mc_num_simulations config))
      (rs_seed src (mc_random_seed config)) = Inr paths"
    and "paths \<noteq> []" and "length paths = nat (mc_num_simulations config)"
    and "\<forall>(e, d)\<in>set paths. \<exists>order. admissible_order (mc_method config) trades order \<and>
      e = last (equity_path order capital) \<and> d = max_drawdown_from_values (equity_path order capital)"
    and "run_monte_carlo render src trades capital config thresholds ps = Inr r"
    and "mcr_ending_equity_percentiles r = [] \<longleftrightarrow> ps = []"
    and "\<forall>(k, v)\<in>set (mcr_ending_equity_percentiles r). \<exists>p\<in>set ps. k = ''p'' @ render p \<and>
      v = sort (map fst paths) ! percentile_index (length paths) p"
    and "\<forall>(k, v)\<in>set (mcr_max_drawdown_percentiles r). \<exists>p\<in>set ps. k = ''p'' @ render p \<and>
      v = sort (map snd paths) ! percentile_index (length paths) p"
    and "\<forall>(k, v)\<in>set (mcr_probability_of_drawdown_exceeding r). \<exists>t\<in>set thresholds. k = render t \<and>
      v = exceeding (sort (map snd paths)) t"
proof -
  from cfg have c: "1 \<le> mc_num_simulations config" "2 \<le> mc_min_trades_required config"
    by (auto simp: check_monte_carlo_config_def)
  with enough have ne: "trades \<noteq> []" by auto
  from simulate_ok [OF src ne known, of capital "nat (mc_num_simulations config)"]
  obtain paths where paths: "simulate src (mc_method config) trades capital (nat (mc_num_simulations config))
      (rs_seed src (mc_random_seed config)) = Inr paths" "length paths = nat (mc_num_simulations config)"
    "\<forall>(e, d)\<in>set paths. \<exists>order. admissible_order (mc_method config) trades order \<and>
      e = last (equity_path order capital) \<and> d = max_drawdown_from_values (equity_path order capital)"
    by blast
  with c have pne: "paths \<noteq> []" by auto
  then have "sort (map fst paths) \<noteq> []" "sort (map snd paths) \<noteq> []"
    by (metis length_sort length_map length_0_conv)+
  from percentiles_dict_ok [OF this(1), of render ps] percentiles_dict_ok [OF this(2), of render ps]
  obtain es ds where dicts: "percentiles_dict render (sort (map fst paths)) ps = Inr es"
    "percentiles_dict render (sort (map snd paths)) ps = Inr ds" "es = [] \<longleftrightarrow> ps = []"
    "\<forall>(k, v)\<in>set es. \<exists>p\<in>set ps. k = ''p'' @ render p \<and> v = sort (map fst paths) ! percentile_index (length paths) p"
    "\<forall>(k, v)\<in>set ds. \<exists>p\<in>set ps. k = ''p'' @ render p \<and> v = sort (map snd paths) ! percentile_index (length paths) p"
    by auto
  show thesis
  proof (rule that [OF paths(1) pne paths(2,3)])
    show "run_monte_carlo render src trades capital config thresholds ps =
        Inr \<lparr>mcr_num_simulations = mc_num_simulations config, mcr_random_seed = mc_random_seed config,
          mcr_method = mc_method config, mcr_ending_equity_percentiles = es, mcr_max_drawdown_percentiles = ds,
          mcr_probability_of_drawdown_exceeding =
            dict_of (map (\<lambda>t. (render t, exceeding (sort (map snd paths)) t)) thresholds),
          mcr_assumptions = assumption_texts (mc_method config)\<rparr>"
      using enough by (simp add: run_monte_carlo_def paths(1) dicts(1,2) Let_def)
  qed (use dicts(3-5) set_dict_of in fastforce)+
qed

lemma reshuffled_total:
  assumes "mset order = mset trades" and "on_grid k capital" and "\<bar>capital\<bar> \<le> B"
    and "\<And>t. t \<in> set trades \<Longrightarrow> on_grid k (st_pnl t) \<and> \<bar>st_pnl t\<bar> \<le> B"
    and "of_nat (Suc (length trades)) * B * 10 ^ k \<le> 10 ^ 28"
  shows "last (equity_path order capital) = capital + sum_list (map st_pnl trades)"
proof -
  have "set order = set trades" "length order = length trades"
    using assms(1) mset_eq_setD mset_eq_length by blast+
  then have ex: "dsum (capital # map st_pnl order) = sum_list (capital # map st_pnl order)"
    using dsum_exact_grid [of "capital # map st_pnl order" k B] assms by auto
  have B: "0 \<le> B" using assms(3) by simp
  have "1 * (B * 10 ^ k) \<le> of_nat (Suc (length trades)) * (B * 10 ^ k)"
    using B by (intro mult_right_mono) auto
  then have le: "B * 10 ^ k \<le> 10 ^ 28" using assms(5) by (simp add: mult.assoc)
  have "\<bar>capital\<bar> * 10 ^ k \<le> B * 10 ^ k" using assms(3) by (intro mult_right_mono) auto
  from representable_on_grid [OF assms(2) order_trans [OF this le]] have "representable capital" .
  then have "last (equity_path order capital) = sum_list (capital # map st_pnl order)"
    using ex by (simp add: last_equity_path foldl_dadd_dsum)
  moreover have "sum_list (map st_pnl order) = sum_list (map st_pnl trades)"
    using assms(1) by (metis mset_map sum_mset_sum_list)
  ultimately show ?thesis by simp
qed

subsection \<open>Properties\<close>

definition sample_text :: "decimal \<Rightarrow> string" where
  "sample_text d = show_int \<lfloor>d\<rfloor>"

text \<open>A linear congruential generator, for concrete runs.\<close>

definition sample_source :: "int random_source" where
  "sample_source =
     (let step = \<lambda>g. (5 * g + 3) mod 16; draw = \<lambda>n g. (nat (step g) mod n, step g)
      in \<lparr>rs_seed = id, rs_below = draw, rs_pick = draw\<rparr>)"

lemma sample_source_draws: "draws_below sample_source"
  by (simp add: draws_below_def sample_source_def Let_def)

definition sample_mc_config :: monte_carlo_config where
  "sample_mc_config =
     \<lparr>mc_num_simulations = 4, mc_random_seed = 7, mc_min_trades_required = 2, mc_method = ''reshuffle''\<rparr>"

definition sample_mc_trades :: "simulated_trade list" where
  "sample_mc_trades = [sample_trade 0 1 20, sample_trade 1 2 (- 30), sample_trade 2 5 40]"

text \<open>
A Monte Carlo run over enough trades succeeds, whatever the generator draws, and summarises only
what was simulated: as many paths as configured, each walked over a permutation of the trades
(reshuffle) or a sample of them with replacement (bootstrap); every reported percentile of the ending
equity and of the drawdown is the value some path attained, and every reported probability is the
share of the paths whose drawdown reached its threshold, between zero and one.
\<close>

theorem monte_carlo_summarises_paths:
  assumes "draws_below src" and "check_monte_carlo_config config = Inr config"
    and "mc_method config \<in> {''reshuffle'', ''bootstrap''}"
    and "mc_min_trades_required config \<le> int (length trades)"
  shows "\<exists>r paths. run_monte_carlo render src trades capital config thresholds ps = Inr r \<and>
    int (length paths) = mc_num_simulations config \<and>
    (\<forall>(e, d)\<in>set paths. \<exists>order. admissible_order (mc_method config) trades order \<and>
      e = last (equity_path order capital) \<and> d = max_drawdown_from_values (equity_path order capital)) \<and>
    snd ` set (mcr_ending_equity_percentiles r) \<subseteq> fst ` set paths \<and>
    snd ` set (mcr_max_drawdown_percentiles r) \<subseteq> snd ` set paths \<and>
    (\<forall>(k, v)\<in>set (mcr_probability_of_drawdown_exceeding r). 0 \<le> v \<and> v \<le> 1 \<and>
      (\<exists>t\<in>set thresholds. k = render t \<and> v = exceeding (map snd paths) t))"
proof -
  from assms(2) have n: "1 \<le> mc_num_simulations config" by (simp add: check_monte_carlo_config_def)
  obtain paths r where o: "paths \<noteq> []" "length paths = nat (mc_num_simulations config)"
    "\<forall>(e, d)\<in>set paths. \<exists>order. admissible_order (mc_method config) trades order \<and>
      e = last (equity_path order capital) \<and> d = max_drawdown_from_values (equity_path order capital)"
    "run_monte_carlo render src trades capital config thresholds ps = Inr r"
    "\<forall>(k, v)\<in>set (mcr_ending_equity_percentiles r). \<exists>p\<in>set ps. k = ''p'' @ render p \<and>
      v = sort (map fst paths) ! percentile_index (length paths) p"
    "\<forall>(k, v)\<in>set (mcr_max_drawdown_percentiles r). \<exists>p\<in>set ps. k = ''p'' @ render p \<and>
      v = sort (map snd paths) ! percentile_index (length paths) p"
    "\<forall>(k, v)\<in>set (mcr_probability_of_drawdown_exceeding r). \<exists>t\<in>set thresholds. k = render t \<and>
      v = exceeding (sort (map snd paths)) t"
    by (rule run_monte_carlo_outcome [OF assms])
  have nth: "sort (map f paths) ! percentile_index (length paths) p \<in> f ` set paths"
    for f :: "decimal \<times> decimal \<Rightarrow> decimal" and p
  proof -
    have "sort (map f paths) ! percentile_index (length paths) p \<in> set (sort (map f paths))"
      using percentile_index_less [of "length paths" p] o(1) by (intro nth_mem) simp
    then show ?thesis by simp
  qed
  have share: "exceeding (sort (map snd paths)) t = exceeding (map snd paths) t" for t
    unfolding exceeding_def by (simp add: filter_sort)
  have bounds: "0 \<le> exceeding (map snd paths) t \<and> exceeding (map snd paths) t \<le> 1" for t
    using o(1) by (intro exceeding_bounds) simp
  show ?thesis
    by (rule exI [of _ r], rule exI [of _ paths])
      (use o(2-7) n nth share bounds in \<open>auto 0 3\<close>)
qed

theorem monte_carlo_summarises_paths_witness:
  "\<exists>r. run_monte_carlo sample_text sample_source sample_mc_trades 100 sample_mc_config [1 / 10] [5, 50] = Inr r"
  using monte_carlo_summarises_paths [OF sample_source_draws, of sample_mc_config sample_mc_trades sample_text
      100 "[1 / 10]" "[5, 50]"]
  by (auto simp: sample_mc_config_def check_monte_carlo_config_def sample_mc_trades_def)

text \<open>
Reshuffling models the order of the trades only.  When profits and capital are quoted on a
decimal grid small enough for the context, every path of a reshuffled run ends at the same equity,
the capital plus the sum of all profits, so every reported percentile of the ending equity is that
number; only the drawdowns depend on the order.
\<close>

theorem reshuffle_ends_alike:
  assumes "draws_below src" and "check_monte_carlo_config config = Inr config"
    and "mc_method config = ''reshuffle''" and "mc_min_trades_required config \<le> int (length trades)"
    and "on_grid k capital" and "\<bar>capital\<bar> \<le> B"
    and "\<And>t. t \<in> set trades \<Longrightarrow> on_grid k (st_pnl t) \<and> \<bar>st_pnl t\<bar> \<le> B"
    and "of_nat (Suc (length trades)) * B * 10 ^ k \<le> 10 ^ 28"
    and "run_monte_carlo render src trades capital config thresholds ps = Inr r"
  shows "\<forall>(key, v)\<in>set (mcr_ending_equity_percentiles r). v = capital + sum_list (map st_pnl trades)"
proof -
  have known: "mc_method config \<in> {''reshuffle'', ''bootstrap''}" using assms(3) by simp
  obtain paths r' where o: "paths \<noteq> []"
    "\<forall>(e, d)\<in>set paths. \<exists>order. admissible_order (mc_method config) trades order \<and>
      e = last (equity_path order capital) \<and> d = max_drawdown_from_values (equity_path order capital)"
    "run_monte_carlo render src trades capital config thresholds ps = Inr r'"
    "\<forall>(k, v)\<in>set (mcr_ending_equity_percentiles r'). \<exists>p\<in>set ps. k = ''p'' @ render p \<and>
      v = sort (map fst paths) ! percentile_index (length paths) p"
    by (rule run_monte_carlo_outcome [OF assms(1,2) known assms(4)])
  have total: "e = capital + sum_list (map st_pnl trades)" if "e \<in> fst ` set paths" for e
    using o(2) that reshuffled_total [OF _ assms(5-8)] by (fastforce simp: assms(3) admissible_order_def)
  have "sort (map fst paths) ! percentile_index (length paths) p = capital + sum_list (map st_pnl trades)" for p
    using percentile_index_less [of "length paths" p] o(1) nth_mem [of "percentile_index (length paths) p" "sort (map fst paths)"]
    by (intro total) simp
  with o(3,4) assms(9) show ?thesis by fastforce
qed

theorem reshuffle_ends_alike_witness:
  "\<exists>r. run_monte_carlo sample_text sample_source sample_mc_trades 100 sample_mc_config [1 / 10] [5, 50] = Inr r \<and>
     mcr_ending_equity_percentiles r \<noteq> [] \<and> (\<forall>(key, v)\<in>set (mcr_ending_equity_percentiles r). v = 130)"
proof -
  have config: "check_monte_carlo_config sample_mc_config = Inr sample_mc_config"
    "mc_method sample_mc_config = ''reshuffle''"
    "mc_min_trades_required sample_mc_config \<le> int (length sample_mc_trades)"
    by (simp_all add: sample_mc_config_def check_monte_carlo_config_def sample_mc_trades_def)
  have known: "mc_method sample_mc_config \<in> {''reshuffle'', ''bootstrap''}" using config(2) by simp
  obtain r where r: "run_monte_carlo sample_text sample_source sample_mc_trades 100 sample_mc_config [1 / 10] [5, 50] = Inr r"
    and ne: "mcr_ending_equity_percentiles r \<noteq> []"
    by (rule run_monte_carlo_outcome [OF sample_source_draws config(1) known config(3),
          where capital = 100 and render = sample_text and thresholds = "[1 / 10]" and ps = "[5, 50]"])
      (rule that, assumption, simp)
  have pnls: "\<And>t. t \<in> set sample_mc_trades \<Longrightarrow> on_grid 0 (st_pnl t) \<and> \<bar>st_pnl t\<bar> \<le> 100"
    and pnl_sum: "sum_list (map st_pnl sample_mc_trades) = 30"
    by (auto simp: sample_mc_trades_def sample_trade_def on_grid_def)
  have "of_nat (Suc (length sample_mc_trades)) * 100 * 10 ^ 0 \<le> (10 ^ 28 :: rat)"
    by (simp add: sample_mc_trades_def)
  from reshuffle_ends_alike [OF sample_source_draws config _ _ pnls this r]
  have "\<forall>(key, v)\<in>set (mcr_ending_equity_percentiles r). v = 130"
    by (simp add: pnl_sum on_grid_def)
  with r ne show ?thesis by blast
qed

text \<open>
The nearest-rank percentile of a non-empty sorted list always exists, is one of its values,
grows with the percentage, and is the minimum at zero per cent and the maximum at a hundred: the
clamped index never leaves the list, whatever percentage is asked for.
\<close>

theorem percentile_nearest_rank:
  assumes "values \<noteq> []" and "sorted values" and "length values \<le> 10 ^ 28"
  shows "\<exists>pick. (\<forall>p. percentile_of values p = Inr (pick p) \<and> pick p \<in> set values) \<and> mono pick \<and>
    pick 0 = Min (set values) \<and> pick 100 = Max (set values)"
proof (intro exI conjI allI)
  let ?pick = "\<lambda>p. values ! percentile_index (length values) p"
  from assms(1) have n: "0 < length values" by simp
  show "percentile_of values p = Inr (?pick p)" "?pick p \<in> set values" for p
    using percentile_index_less [OF n, of p] by (simp_all add: percentile_of_index assms(1))
  show "mono ?pick"
    by (intro monoI sorted_nth_mono [OF assms(2)] percentile_index_mono percentile_index_less n)
  note ends = percentile_index_ends [OF n assms(3)]
  show "?pick 0 = Min (set values)"
    using n assms(2) unfolding ends(1)
    by (intro Min_eqI [symmetric]) (auto simp: in_set_conv_nth sorted_nth_mono)
  show "?pick 100 = Max (set values)"
    using n assms(2) unfolding ends(2)
    by (intro Max_eqI [symmetric]) (auto simp: in_set_conv_nth intro!: sorted_nth_mono exI [of _ "length values - 1"])
qed

theorem percentile_nearest_rank_witness: "\<exists>v. percentile_of [1, 2, 4] 50 = Inr v \<and> v \<in> {1, 2, 4}"
proof -
  have "sorted [1, 2, 4 :: decimal]" "length [1, 2, 4 :: decimal] \<le> 10 ^ 28" by simp_all
  from percentile_nearest_rank [OF _ this] show ?thesis by fastforce
qed

text \<open>
The stability score of a metric is at most one, and is absent exactly when fewer than two of the
tested points define the metric or its mean is zero; the assessment raises only for a name that is not
a metric, or for a metric measured in time, which the decimal arithmetic refuses.
\<close>

theorem stability_score_bounded:
  "case assess_stability points name of
     Inr (Some score) \<Rightarrow> score \<le> 1
   | Inr None \<Rightarrow> (\<exists>vs. metric_values points name = Inr vs \<and>
       (length (List.map_filter id vs) < 2 \<or>
        (\<exists>ds. map_result decimal_of (List.map_filter id vs) = Inr ds \<and>
           ddiv (dsum ds) (of_nat (length ds)) = 0)))
   | Inl e \<Rightarrow> e = Err AttributeError ''PerformanceMetrics'' \<and> name \<notin> fst ` set metric_fields \<or>
       e = Err TypeError ''unsupported operand type(s) for +'' \<and>
         (\<exists>vs d. metric_values points name = Inr vs \<and> Some (MDuration d) \<in> set vs)"
proof (cases "metric_values points name")
  case (Inl e)
  then obtain m where "get_metric m name = Inl e" unfolding metric_values_def using map_result_Inl by fastforce
  then have "e = Err AttributeError ''PerformanceMetrics'' \<and> name \<notin> fst ` set metric_fields"
    by (auto simp: get_metric_def map_of_eq_None_iff split: option.splits)
  with Inl show ?thesis by (simp add: assess_stability_def)
next
  case (Inr vs)
  let ?vs = "List.map_filter id vs"
  show ?thesis
  proof (cases "map_result decimal_of ?vs")
    case (Inl e)
    then obtain v where v: "v \<in> set ?vs" "decimal_of v = Inl e" using map_result_Inl by blast
    from v(2) obtain d where "v = MDuration d" "e = Err TypeError ''unsupported operand type(s) for +''"
      by (cases v) auto
    with v(1) have "e = Err TypeError ''unsupported operand type(s) for +'' \<and> (\<exists>d. MDuration d \<in> set ?vs)"
      by blast
    then show ?thesis using Inr Inl
      by (auto simp: assess_stability_def Let_def List.map_filter_def)
  next
    case ds: (Inr ds)
    have "dsub 1 x \<le> 1" if "0 \<le> x" for x
      unfolding dsub_def using that dec_round_id [of 1] by (intro dec.rnd_below) auto
    moreover have "0 \<le> ddiv (dsqrt v) \<bar>m\<bar>" for v m
      by (simp add: ddiv_def dec.rnd_nonneg)
    ultimately show ?thesis using Inr ds
      by (auto simp: assess_stability_def stability_score_def Let_def)
  qed
qed

end
