(* ===== verification/Comparison.thy ===== *)
theory Comparison
  imports Robustness
begin

text \<open>
  Strategy comparison (\<open>backtesting/comparison.py\<close>): a registry of uniquely named experiments, ranked
  by one metric at a time.  The sort key is the source's: undefined values after all others, then the
  value signed by the direction of the ranking, then the name.
\<close>

record experiment_entry =
  xe_name :: string
  xe_result :: backtest_result
  xe_metrics :: performance_metrics
  xe_robustness :: "monte_carlo_result option"

definition mk_experiment_entry ::
    "string \<Rightarrow> backtest_result \<Rightarrow> performance_metrics \<Rightarrow> monte_carlo_result option \<Rightarrow> experiment_entry result" where
  "mk_experiment_entry name res metrics robustness =
     raise_if (blank name) ValueError ''ExperimentEntry.name must not be blank''
     (ok \<lparr>xe_name = name, xe_result = res, xe_metrics = metrics, xe_robustness = robustness\<rparr>)"

definition mk_experiment_registry :: "experiment_entry list \<Rightarrow> experiment_entry list result" where
  "mk_experiment_registry entries =
     raise_if (length (map xe_name entries) \<noteq> card (set (map xe_name entries))) ValueError
       ''duplicate experiment names'' (ok entries)"

fun experiment_get :: "experiment_entry list \<Rightarrow> string \<Rightarrow> experiment_entry result" where
  "experiment_get [] name = raise KeyError ''no experiment registered under name''"
| "experiment_get (entry # entries) name =
     (if xe_name entry = name then ok entry else experiment_get entries name)"

record ranked_entry =
  re_rank :: nat
  re_name :: string
  re_metric_value :: "metric_value option"
  re_small_sample_warning :: bool

record comparison_result =
  cr_metric_name :: string
  cr_higher_is_better :: bool
  cr_min_sample_size :: int
  cr_ranked :: "ranked_entry list"

type_synonym candidate = "string \<times> metric_value option \<times> bool"

text \<open>All values of one metric have one type, so they compare as numbers.\<close>

fun metric_number :: "metric_value \<Rightarrow> rat" where
  "metric_number (MCount n) = of_nat n"
| "metric_number (MDecimal d) = d"
| "metric_number (MDuration d) = of_int d"

text \<open>Negation: of a count and of a duration it is exact, of a decimal it is an operation of the context.\<close>

fun negate_metric :: "metric_value \<Rightarrow> rat" where
  "negate_metric (MDecimal d) = dneg d"
| "negate_metric v = - metric_number v"

fun rank_key :: "bool \<Rightarrow> candidate \<Rightarrow> nat \<times> rat \<times> string" where
  "rank_key higher_is_better (name, None, _) = (1, 0, name)"
| "rank_key higher_is_better (name, Some v, _) =
     (0, if higher_is_better then negate_metric v else metric_number v, name)"

definition compare_experiments ::
    "experiment_entry list \<Rightarrow> string \<Rightarrow> bool \<Rightarrow> int \<Rightarrow> comparison_result result" where
  "compare_experiments registry metric_name higher_is_better min_sample_size =
     (case map_of metric_fields metric_name of
        None \<Rightarrow> raise ValueError ''not a PerformanceMetrics field''
      | Some get \<Rightarrow>
          let candidates = map (\<lambda>entry. (xe_name entry, get (xe_metrics entry),
                int (pm_num_trades (xe_metrics entry)) < min_sample_size)) registry;
              ordered = sort_key (rank_key higher_is_better) candidates;
              ranked = map (\<lambda>(index, (name, v, small_sample)).
                \<lparr>re_rank = index + 1, re_name = name, re_metric_value = v,
                 re_small_sample_warning = small_sample\<rparr>) (enumerate 0 ordered)
          in ok \<lparr>cr_metric_name = metric_name, cr_higher_is_better = higher_is_better,
                 cr_min_sample_size = min_sample_size, cr_ranked = ranked\<rparr>)"

definition compare_two ::
    "experiment_entry \<Rightarrow> experiment_entry \<Rightarrow> string \<Rightarrow> bool \<Rightarrow> int \<Rightarrow> comparison_result result" where
  "compare_two champion challenger metric_name higher_is_better min_sample_size =
     bind_result (mk_experiment_registry [champion, challenger]) (\<lambda>registry.
     compare_experiments registry metric_name higher_is_better min_sample_size)"

record comparison_row =
  row_name :: string
  row_strategy_id :: string
  row_strategy_version :: string
  row_run_id :: string
  row_num_trades :: nat
  row_total_return :: "decimal option"
  row_max_drawdown :: "decimal option"
  row_expectancy :: "decimal option"
  row_profit_factor :: "decimal option"
  row_sharpe_ratio :: "decimal option"
  row_sortino_ratio :: "decimal option"

definition build_comparison_table :: "experiment_entry list \<Rightarrow> comparison_row list" where
  "build_comparison_table registry =
     map (\<lambda>entry.
       let config = br_config (btr_run (xe_result entry)); m = xe_metrics entry
       in \<lparr>row_name = xe_name entry, row_strategy_id = bc_strategy_id config,
           row_strategy_version = bc_strategy_version config, row_run_id = br_run_id (btr_run (xe_result entry)),
           row_num_trades = pm_num_trades m, row_total_return = pm_total_return m,
           row_max_drawdown = pm_max_drawdown m, row_expectancy = pm_expectancy m,
           row_profit_factor = pm_profit_factor m, row_sharpe_ratio = pm_sharpe_ratio m,
           row_sortino_ratio = pm_sortino_ratio m\<rparr>) registry"

subsection \<open>The ranking\<close>

definition candidate_of :: "(performance_metrics \<Rightarrow> metric_value option) \<Rightarrow> int \<Rightarrow> experiment_entry \<Rightarrow> candidate" where
  "candidate_of get min_sample_size entry =
     (xe_name entry, get (xe_metrics entry), int (pm_num_trades (xe_metrics entry)) < min_sample_size)"

lemma registry_distinct: "mk_experiment_registry es = Inr reg \<longleftrightarrow> distinct (map xe_name es) \<and> reg = es"
proof -
  have "length (map xe_name es) = card (set (map xe_name es)) \<longleftrightarrow> distinct (map xe_name es)"
    by (metis card_distinct distinct_card)
  then show ?thesis by (auto simp: mk_experiment_registry_def simp del: length_map set_map)
qed

lemma experiment_get_found:
  "distinct (map xe_name es) \<Longrightarrow> e \<in> set es \<Longrightarrow> experiment_get es (xe_name e) = Inr e"
  by (induction es) (auto simp: rev_image_eqI)

lemma experiment_get_missing: "name \<notin> xe_name ` set es \<Longrightarrow>
  experiment_get es name = raise KeyError ''no experiment registered under name''"
  by (induction es) auto

lemma metric_number_negate:
  "(\<And>d. v = MDecimal d \<Longrightarrow> representable d) \<Longrightarrow> negate_metric v = - metric_number v"
  by (cases v) auto

text \<open>An entry goes before another: defined before undefined, then by value, then by name.\<close>

definition ranks_before :: "bool \<Rightarrow> ranked_entry \<Rightarrow> ranked_entry \<Rightarrow> bool" where
  "ranks_before higher_is_better x y \<longleftrightarrow>
     (case (re_metric_value x, re_metric_value y) of
        (Some v, Some w) \<Rightarrow>
          (if higher_is_better then metric_number w < metric_number v else metric_number v < metric_number w) \<or>
          metric_number v = metric_number w \<and> re_name x \<le> re_name y
      | (Some v, None) \<Rightarrow> True
      | (None, Some w) \<Rightarrow> False
      | (None, None) \<Rightarrow> re_name x \<le> re_name y)"

lemma rank_key_before:
  assumes "rank_key hib (n, v, s) \<le> rank_key hib (m, w, t)"
    and "\<And>d. v = Some (MDecimal d) \<or> w = Some (MDecimal d) \<Longrightarrow> representable d"
    and "re_name x = n" "re_metric_value x = v" "re_name y = m" "re_metric_value y = w"
  shows "ranks_before hib x y"
proof (cases v)
  case (Some a)
  with assms(2) have a: "negate_metric a = - metric_number a" by (intro metric_number_negate) simp
  show ?thesis
  proof (cases w)
    case (Some b)
    with assms(2) have "negate_metric b = - metric_number b" by (intro metric_number_negate) simp
    with assms(1) a Some \<open>v = Some a\<close> assms(3-6) show ?thesis
      by (auto simp: ranks_before_def split: if_splits)
  qed (use Some assms(3-6) in \<open>simp add: ranks_before_def\<close>)
next
  case None
  with assms(1,3-6) show ?thesis by (cases w) (auto simp: ranks_before_def)
qed

text \<open>The entries of a ranking, and the ranking of the sorted candidates.\<close>

definition ranked_of :: "nat \<times> candidate \<Rightarrow> ranked_entry" where
  "ranked_of = (\<lambda>(index, (name, v, small_sample)).
     \<lparr>re_rank = index + 1, re_name = name, re_metric_value = v, re_small_sample_warning = small_sample\<rparr>)"

lemma compare_ok:
  assumes "compare_experiments reg metric hib k = Inr r"
  obtains get where "map_of metric_fields metric = Some get"
    and "cr_ranked r = map ranked_of (enumerate 0 (sort_key (rank_key hib) (map (candidate_of get k) reg)))"
  using assms that
  unfolding compare_experiments_def Let_def candidate_of_def [abs_def] ranked_of_def
  by (force split: option.splits)

lemma sorted_ranked:
  assumes "\<And>n v s d. (n, v, s) \<in> set cands \<Longrightarrow> v = Some (MDecimal d) \<Longrightarrow> representable d"
  shows "sorted_wrt (ranks_before hib) (map ranked_of (enumerate i (sort_key (rank_key hib) cands)))"
proof -
  let ?o = "sort_key (rank_key hib) cands"
  have sorted: "sorted_wrt (\<lambda>a b. rank_key hib a \<le> rank_key hib b) ?o"
    using sorted_sort_key [of "rank_key hib" cands] by (simp add: sorted_map)
  have "ranks_before hib (ranked_of (i + a, ?o ! a)) (ranked_of (i + b, ?o ! b))" if ab: "a < b" "b < length ?o" for a b
  proof -
    obtain n v s m w t where abx: "?o ! a = (n, v, s)" "?o ! b = (m, w, t)"
      by (cases "?o ! a"; cases "?o ! b") auto
    have "(n, v, s) \<in> set cands" "(m, w, t) \<in> set cands"
      using ab abx nth_mem [of a ?o] nth_mem [of b ?o] by auto
    with assms have rep: "\<And>d. v = Some (MDecimal d) \<or> w = Some (MDecimal d) \<Longrightarrow> representable d" by blast
    have "rank_key hib (n, v, s) \<le> rank_key hib (m, w, t)"
      using sorted ab abx by (metis sorted_wrt_iff_nth_less)
    from rank_key_before [OF this rep] show ?thesis by (simp add: abx ranked_of_def)
  qed
  then show ?thesis by (auto simp: sorted_wrt_iff_nth_less nth_enumerate_eq simp del: length_sort)
qed

definition sample_metrics_with :: "nat \<Rightarrow> decimal option \<Rightarrow> performance_metrics" where
  "sample_metrics_with n sharpe_value =
     \<lparr>pm_num_trades = n, pm_total_return = None, pm_cagr = None, pm_win_rate = None, pm_average_win = None,
      pm_average_loss = None, pm_win_loss_ratio = None, pm_profit_factor = None, pm_expectancy = None,
      pm_max_drawdown = None, pm_max_drawdown_duration = None, pm_sharpe_ratio = sharpe_value,
      pm_sortino_ratio = None, pm_volatility = None, pm_exposure = None, pm_average_holding_time = None,
      pm_best_trade_pnl = None, pm_worst_trade_pnl = None, pm_average_r_multiple = None\<rparr>"

definition sample_entry :: "string \<Rightarrow> nat \<Rightarrow> decimal option \<Rightarrow> experiment_entry" where
  "sample_entry name n v =
     \<lparr>xe_name = name, xe_result = sample_result, xe_metrics = sample_metrics_with n v, xe_robustness = None\<rparr>"

definition sample_registry :: "experiment_entry list" where
  "sample_registry = [sample_entry ''b'' 30 None, sample_entry ''a'' 5 (Some 1), sample_entry ''c'' 40 (Some 2)]"

text \<open>
C26: A comparison ranks every registered experiment exactly once, numbered from one without gaps, and
in order: a defined metric always before an undefined one, better values first in the chosen
direction, ties by name.  Nothing is dropped for a small sample; the warning says exactly which
experiments have fewer trades than asked for.
\<close>

theorem ranking_is_total_and_ordered:
  assumes "compare_experiments registry metric higher_is_better k = Inr r"
    and "\<And>e d. e \<in> set registry \<Longrightarrow> get_metric (xe_metrics e) metric = Inr (Some (MDecimal d)) \<Longrightarrow> representable d"
  shows "sorted_wrt (ranks_before higher_is_better) (cr_ranked r) \<and>
    map re_rank (cr_ranked r) = [1..<Suc (length registry)] \<and>
    mset (map (\<lambda>x. (re_name x, Inr (re_metric_value x), re_small_sample_warning x)) (cr_ranked r)) =
      mset (map (\<lambda>e. (xe_name e, get_metric (xe_metrics e) metric, int (pm_num_trades (xe_metrics e)) < k)) registry)"
proof -
  from assms(1) obtain get where get: "map_of metric_fields metric = Some get"
    and r: "cr_ranked r = map ranked_of
      (enumerate 0 (sort_key (rank_key higher_is_better) (map (candidate_of get k) registry)))"
    by (rule compare_ok)
  let ?o = "sort_key (rank_key higher_is_better) (map (candidate_of get k) registry)"
  have rep: "(n, v, s) \<in> set (map (candidate_of get k) registry) \<Longrightarrow> v = Some (MDecimal d) \<Longrightarrow> representable d"
    for n v s d using assms(2) get by (fastforce simp: candidate_of_def get_metric_def)
  have ranks: "map re_rank (map ranked_of (enumerate 0 ?o)) = [1..<Suc (length registry)]"
    by (rule nth_equalityI)
      (auto simp: nth_enumerate_eq ranked_of_def simp del: upt_Suc split: prod.split)
  have "map (\<lambda>x. (re_name x, re_metric_value x, re_small_sample_warning x)) (map ranked_of (enumerate 0 ?o)) = ?o"
    by (rule nth_equalityI) (auto simp: nth_enumerate_eq ranked_of_def split: prod.split)
  then have "mset (map (\<lambda>x. (re_name x, re_metric_value x, re_small_sample_warning x)) (cr_ranked r)) =
      mset (map (candidate_of get k) registry)" by (simp only: r mset_sort)
  then have "image_mset (\<lambda>(n, v, s). (n, Inr v, s))
        (mset (map (\<lambda>x. (re_name x, re_metric_value x, re_small_sample_warning x)) (cr_ranked r))) =
      image_mset (\<lambda>(n, v, s). (n, Inr v, s)) (mset (map (candidate_of get k) registry))" by simp
  then have entries: "mset (map (\<lambda>x. (re_name x, Inr (re_metric_value x), re_small_sample_warning x)) (cr_ranked r)) =
      mset (map (\<lambda>e. (xe_name e, get_metric (xe_metrics e) metric, int (pm_num_trades (xe_metrics e)) < k)) registry)"
    by (simp add: multiset.map_comp comp_def candidate_of_def get_metric_def get)
  have "sorted_wrt (ranks_before higher_is_better) (cr_ranked r)"
    unfolding r by (rule sorted_ranked) (rule rep)
  with ranks entries show ?thesis unfolding r by blast
qed

theorem ranking_is_total_and_ordered_witness:
  "\<exists>r. compare_experiments sample_registry ''sharpe_ratio'' True 20 = Inr r \<and>
     sorted_wrt (ranks_before True) (cr_ranked r) \<and> map re_rank (cr_ranked r) = [1, 2, 3]"
proof -
  obtain r where r: "compare_experiments sample_registry ''sharpe_ratio'' True 20 = Inr r"
    by (simp add: compare_experiments_def metric_fields_def Let_def)
  have two: "representable 2" using representable_int [of 2] by simp
  have "\<And>e d. e \<in> set sample_registry \<Longrightarrow> get_metric (xe_metrics e) ''sharpe_ratio'' = Inr (Some (MDecimal d)) \<Longrightarrow>
      representable d"
    by (auto simp: sample_registry_def sample_entry_def sample_metrics_with_def get_metric_def metric_fields_def two)
  from ranking_is_total_and_ordered [OF r this] r show ?thesis
    by (auto simp: sample_registry_def upt_rec)
qed

end
