(* ===== verification/Partitions.thy ===== *)
theory Partitions
  imports Domain_Models
begin

text \<open>
  Half-open date partitions and their splits (\<open>backtesting/validation/partitions.py\<close>).  A boundary
  is an instant; the float arithmetic that places the inner boundaries of a split is kept as it is.
\<close>

record date_partition =
  dp_label :: string
  dp_start :: instant
  dp_end :: instant

definition mk_date_partition :: "string \<Rightarrow> py_datetime \<Rightarrow> py_datetime \<Rightarrow> date_partition result" where
  "mk_date_partition label start end' =
     raise_if (blank label) InvalidPartitionError ''DatePartition.label must not be blank''
     (raise_if (\<not> is_aware start \<or> \<not> is_aware end') InvalidPartitionError
        ''DatePartition start/end must be timezone-aware''
     (raise_if (ticks end' \<le> ticks start) InvalidPartitionError ''end must be after start''
     (ok \<lparr>dp_label = label, dp_start = ticks start, dp_end = ticks end'\<rparr>)))"

definition partition_contains :: "date_partition \<Rightarrow> instant \<Rightarrow> bool" where
  "partition_contains p t \<longleftrightarrow> dp_start p \<le> t \<and> t < dp_end p"

definition validate_no_overlap :: "date_partition list \<Rightarrow> unit result" where
  "validate_no_overlap partitions =
     raise_if (\<not> adjacent (\<lambda>previous current. dp_end previous \<le> dp_start current) partitions)
       InvalidPartitionError ''partitions overlap'' (ok ())"

text \<open>The loop over the fractions, with the cursor where the next partition starts.\<close>

fun split_loop ::
    "decimal \<Rightarrow> instant \<Rightarrow> (string \<times> decimal) list \<Rightarrow> instant \<Rightarrow> date_partition list result" where
  "split_loop total_secs end' [] cursor = ok []"
| "split_loop total_secs end' ((label, fraction) # items) cursor =
     (let segment_end = (if items = [] then end'
            else cursor + timedelta_seconds (fl53 (dmul total_secs fraction)))
      in bind_result (mk_date_partition label (Aware cursor) (Aware segment_end)) (\<lambda>p.
         bind_result (split_loop total_secs end' items segment_end) (\<lambda>ps. ok (p # ps))))"

definition split_periods ::
    "py_datetime \<Rightarrow> py_datetime \<Rightarrow> (string \<times> decimal) list \<Rightarrow> date_partition list result" where
  "split_periods start end' fractions =
     raise_if (\<not> is_aware start \<or> \<not> is_aware end') InvalidPartitionError
       ''split_periods: start/end must be timezone-aware''
     (raise_if (ticks end' \<le> ticks start) InvalidPartitionError ''split_periods: end must be after start''
     (raise_if (fractions = []) InvalidPartitionError ''split_periods: fractions must not be empty''
     (raise_if (dsum (map snd fractions) \<noteq> 1) InvalidPartitionError
        ''split_periods: fractions must sum to exactly 1''
     (raise_if (\<exists>(label, fraction)\<in>set fractions. fraction \<le> 0) InvalidPartitionError
        ''split_periods: fraction must be > 0''
     (let total_secs = float_repr (total_seconds (ticks end' - ticks start))
      in bind_result (split_loop total_secs (ticks end') fractions (ticks start)) (\<lambda>partitions.
         bind_result (validate_no_overlap partitions) (\<lambda>_. ok partitions)))))))"

subsection \<open>Covers\<close>

text \<open>Partitions that tile a range: each starts where the previous one ends.\<close>

fun tiles :: "instant \<Rightarrow> instant \<Rightarrow> date_partition list \<Rightarrow> bool" where
  "tiles a b [] \<longleftrightarrow> a = b"
| "tiles a b (p # ps) \<longleftrightarrow> dp_start p = a \<and> a < dp_end p \<and> tiles (dp_end p) b ps"

lemma mk_date_partition_ok:
  "mk_date_partition l (Aware s) (Aware e) = Inr p \<longleftrightarrow>
     \<not> blank l \<and> s < e \<and> p = \<lparr>dp_label = l, dp_start = s, dp_end = e\<rparr>"
  by (auto simp: mk_date_partition_def)

lemma split_loop_tiles:
  "split_loop secs b items a = Inr ps \<Longrightarrow> items \<noteq> [] \<Longrightarrow>
     tiles a b ps \<and> map dp_label ps = map fst items"
proof (induction secs b items a arbitrary: ps rule: split_loop.induct)
  case (2 secs b label fraction items cursor)
  let ?e = "if items = [] then b else cursor + timedelta_seconds (fl53 (dmul secs fraction))"
  from 2(2) obtain p ps' where p: "mk_date_partition label (Aware cursor) (Aware ?e) = Inr p"
    and ps': "split_loop secs b items ?e = Inr ps'" and ps: "ps = p # ps'"
    by (auto simp: Let_def result_simps)
  show ?case
  proof (cases "items = []")
    case True
    with p ps' ps show ?thesis by (auto simp: mk_date_partition_ok)
  next
    case False
    with 2(1) [OF refl p ps'] p ps show ?thesis by (auto simp: mk_date_partition_ok)
  qed
qed simp

lemma tiles_le: "tiles a b ps \<Longrightarrow> a \<le> b"
  by (induction a b ps rule: tiles.induct) auto

lemma tiles_bounds: "tiles a b ps \<Longrightarrow> p \<in> set ps \<Longrightarrow> a \<le> dp_start p \<and> dp_start p < dp_end p \<and> dp_end p \<le> b"
proof (induction a b ps rule: tiles.induct)
  case (2 a b q qs)
  then show ?case using tiles_le [of "dp_end q" b qs] by fastforce
qed simp

lemma tiles_cover_iff: "tiles a b ps \<Longrightarrow> (\<exists>i<length ps. partition_contains (ps ! i) t) \<longleftrightarrow> a \<le> t \<and> t < b"
proof (induction a b ps rule: tiles.induct)
  case (2 a b q qs)
  then have IH: "(\<exists>i<length qs. partition_contains (qs ! i) t) \<longleftrightarrow> dp_end q \<le> t \<and> t < b" by simp
  have "(\<exists>i<length (q # qs). partition_contains ((q # qs) ! i) t) \<longleftrightarrow>
      partition_contains q t \<or> (\<exists>i<length qs. partition_contains (qs ! i) t)"
    by (auto simp: less_Suc_eq_0_disj)
  with IH "2.prems" tiles_le [of "dp_end q" b qs] show ?case by (auto simp: partition_contains_def)
qed simp

lemma tiles_disjoint: "tiles a b ps \<Longrightarrow> sorted_wrt (\<lambda>p q. dp_end p \<le> dp_start q) ps"
proof (induction a b ps rule: tiles.induct)
  case (2 a b q qs)
  then show ?case using tiles_bounds [of "dp_end q" b qs] by auto
qed simp

lemma tiles_unique:
  assumes "tiles a b ps" and "i < length ps" and "j < length ps"
    and "partition_contains (ps ! i) t" and "partition_contains (ps ! j) t"
  shows "i = j"
proof -
  have "\<not> i < j" if "i < length ps" "j < length ps" "partition_contains (ps ! i) t" "partition_contains (ps ! j) t" for i j
    using that tiles_disjoint [OF assms(1)] by (force simp: sorted_wrt_iff_nth_less partition_contains_def)
  with assms show ?thesis by (meson linorder_neqE_nat)
qed

lemma transp_before: "\<forall>p\<in>set ps. dp_start p < dp_end p \<Longrightarrow>
  adjacent (\<lambda>p q. dp_end p \<le> dp_start q) ps \<longleftrightarrow> sorted_wrt (\<lambda>p q. dp_end p \<le> dp_start q) ps"
  for ps :: "date_partition list"
  by (induction ps rule: induct_list012) fastforce+

lemma validate_no_overlap_ok:
  "\<forall>p\<in>set ps. dp_start p < dp_end p \<Longrightarrow>
     validate_no_overlap ps = Inr () \<longleftrightarrow> sorted_wrt (\<lambda>p q. dp_end p \<le> dp_start q) ps"
  by (simp add: validate_no_overlap_def transp_before)

lemma split_periods_tiles:
  assumes "split_periods s e fractions = Inr ps"
  shows "tiles (ticks s) (ticks e) ps \<and> map dp_label ps = map fst fractions"
  using assms by (auto simp: split_periods_def Let_def result_simps dest: split_loop_tiles)

definition sample_fractions :: "(string \<times> decimal) list" where
  "sample_fractions = [(''train'', 6 / 10), (''validation'', 2 / 10), (''test'', 2 / 10)]"

text \<open>
C21: A split covers its range exactly once: the partitions carry the given labels in the given order,
the first starts at the start, each starts where the previous one ends, the last ends at the end, and
every instant of the range lies in exactly one partition while no instant outside lies in any,
whatever the float arithmetic does to the inner boundaries.  The final overlap check never fires.
\<close>

theorem split_is_exact_cover:
  assumes "split_periods s e fractions = Inr ps"
  shows "map dp_label ps = map fst fractions \<and> tiles (ticks s) (ticks e) ps \<and>
    validate_no_overlap ps = Inr () \<and>
    (\<forall>t. if ticks s \<le> t \<and> t < ticks e then \<exists>!i. i < length ps \<and> partition_contains (ps ! i) t
         else \<not> (\<exists>p\<in>set ps. partition_contains p t))"
proof -
  note t = split_periods_tiles [OF assms, THEN conjunct1]
  have ends: "\<forall>p\<in>set ps. dp_start p < dp_end p" using tiles_bounds [OF t] by blast
  have "\<exists>!i. i < length ps \<and> partition_contains (ps ! i) u" if "ticks s \<le> u \<and> u < ticks e" for u
    using tiles_cover_iff [OF t, of u] tiles_unique [OF t, of _ _ u] that by blast
  moreover have "\<not> (\<exists>p\<in>set ps. partition_contains p u)" if "\<not> (ticks s \<le> u \<and> u < ticks e)" for u
    using tiles_cover_iff [OF t, of u] that by (auto simp: in_set_conv_nth)
  ultimately show ?thesis
    using t split_periods_tiles [OF assms] tiles_disjoint [OF t] validate_no_overlap_ok [OF ends] by auto
qed

lemma sample_split:
  "isl (split_periods (Aware 0) (Aware (days 10)) sample_fractions) = False"
  by code_simp

theorem split_is_exact_cover_witness:
  "\<exists>ps. split_periods (Aware 0) (Aware (days 10)) sample_fractions = Inr ps \<and> length ps = 3 \<and>
     (\<exists>!i. i < length ps \<and> partition_contains (ps ! i) (days 8))"
proof -
  obtain ps where ps: "split_periods (Aware 0) (Aware (days 10)) sample_fractions = Inr ps"
    using sample_split by (cases "split_periods (Aware 0) (Aware (days 10)) sample_fractions") auto
  note cover = split_is_exact_cover [OF ps]
  have "length (map dp_label ps) = 3" using cover by (simp add: sample_fractions_def del: length_map)
  moreover have "ticks (Aware 0) \<le> days 8 \<and> days 8 < ticks (Aware (days 10))"
    by (simp add: days_def hours_def minutes_def)
  ultimately show ?thesis using ps cover by (metis length_map)
qed

end
