(* ===== verification/Walk_Forward.thy ===== *)
theory Walk_Forward
  imports Partitions Performance_Metrics
begin

text \<open>
  Walk-forward validation (\<open>backtesting/validation/walkforward.py\<close>): the windows, the backtests of
  one window on the candles it may see, and the aggregate over the out-of-sample periods.  The
  strategy factory and the parameter selector are arguments and may raise; the power of two decimals
  is the argument of the metrics.
\<close>

record walk_forward_window =
  wf_index :: nat
  wf_in_sample :: date_partition
  wf_out_of_sample :: date_partition
  wf_anchored :: bool

record walk_forward_window_result =
  wr_window :: walk_forward_window
  wr_parameters :: parameters
  wr_in_sample_result :: backtest_result
  wr_in_sample_metrics :: performance_metrics
  wr_out_of_sample_result :: backtest_result
  wr_out_of_sample_metrics :: performance_metrics

record walk_forward_result =
  wfr_windows :: "walk_forward_window_result list"
  wfr_aggregate_metrics :: performance_metrics

subsection \<open>The windows\<close>

text \<open>
  The \<open>while\<close> loop.  Its caller has checked that the out-of-sample duration is positive, without
  which the loop would not end.
\<close>

function windows_loop ::
    "bool \<Rightarrow> duration \<Rightarrow> instant \<Rightarrow> nat \<Rightarrow> instant \<Rightarrow> instant \<Rightarrow> walk_forward_window list result" where
  "windows_loop anchored oos_duration end' k in_sample_start out_of_sample_start =
     (if 0 < oos_duration \<and> out_of_sample_start + oos_duration \<le> end' then
        let out_of_sample_end = out_of_sample_start + oos_duration in
        bind_result (mk_date_partition ''in_sample'' (Aware in_sample_start) (Aware out_of_sample_start))
          (\<lambda>in_sample.
        bind_result (mk_date_partition ''out_of_sample'' (Aware out_of_sample_start) (Aware out_of_sample_end))
          (\<lambda>out_of_sample.
        bind_result (windows_loop anchored oos_duration end' (k + 1)
            (if anchored then in_sample_start else in_sample_start + oos_duration) out_of_sample_end)
          (\<lambda>rest.
        ok (\<lparr>wf_index = k, wf_in_sample = in_sample, wf_out_of_sample = out_of_sample,
             wf_anchored = anchored\<rparr> # rest))))
      else ok [])"
  by pat_completeness auto
termination by (relation "measure (\<lambda>(_, _, e, _, _, s). nat (e - s))") auto

declare windows_loop.simps [simp del]

definition generate_walk_forward_windows ::
    "py_datetime \<Rightarrow> py_datetime \<Rightarrow> duration \<Rightarrow> duration \<Rightarrow> bool \<Rightarrow> walk_forward_window list result" where
  "generate_walk_forward_windows start end' in_sample_duration oos_duration anchored =
     raise_if (in_sample_duration \<le> 0 \<or> oos_duration \<le> 0) InvalidPartitionError
       ''in_sample_duration and out_of_sample_duration must be positive''
     (raise_if (\<not> is_aware start \<or> \<not> is_aware end') InvalidPartitionError
        ''generate_walk_forward_windows: start/end must be timezone-aware''
     (bind_result (windows_loop anchored oos_duration (ticks end') 0 (ticks start)
        (ticks start + in_sample_duration)) (\<lambda>windows.
      raise_if (windows = []) InvalidPartitionError
        ''no walk-forward windows fit within the given start/end and durations'' (ok windows))))"

subsection \<open>The backtests of a window\<close>

definition candles_before :: "candle list \<Rightarrow> instant \<Rightarrow> instant option \<Rightarrow> candle list" where
  "candles_before cs end' lower_bound =
     (case lower_bound of
        None \<Rightarrow> filter (\<lambda>c. c_timestamp c < end') cs
      | Some f \<Rightarrow> filter (\<lambda>c. f \<le> c_timestamp c \<and> c_timestamp c < end') cs)"

definition window_floor :: "walk_forward_window \<Rightarrow> instant" where
  "window_floor window = dp_start (wf_in_sample window)"

definition run_partition ::
    "runtime \<Rightarrow> backtest_config \<Rightarrow> candle list \<Rightarrow> date_partition \<Rightarrow> parameters
      \<Rightarrow> (parameters \<Rightarrow> strategy result) \<Rightarrow> instant option \<Rightarrow> backtest_result result" where
  "run_partition rt base_config cs part params strategy_factory lower_bound =
     (let partition_candles = candles_before cs (dp_end part) lower_bound in
      bind_result (mk_backtest_config (base_config\<lparr>bc_parameters := params\<rparr>)
        (Aware (dp_start part)) (Aware (dp_end part))) (\<lambda>config.
      bind_result (validate_backtest_history partition_candles config) (\<lambda>_.
      bind_result (strategy_factory params) (\<lambda>strategy.
      run_strategy rt config partition_candles strategy))))"

definition run_window ::
    "runtime \<Rightarrow> decimal_power \<Rightarrow> backtest_config \<Rightarrow> candle list \<Rightarrow> (parameters \<Rightarrow> strategy result)
      \<Rightarrow> (candle list \<Rightarrow> parameters result) \<Rightarrow> walk_forward_window \<Rightarrow> walk_forward_window_result result" where
  "run_window rt pow base_config cs strategy_factory select_parameters window =
     (let lower_bound = window_floor window;
          in_sample_candles = candles_before cs (dp_end (wf_in_sample window)) (Some lower_bound)
      in bind_result (select_parameters in_sample_candles) (\<lambda>params.
         bind_result (run_partition rt base_config cs (wf_in_sample window) params strategy_factory
           (Some lower_bound)) (\<lambda>in_sample_result.
         bind_result (run_partition rt base_config cs (wf_out_of_sample window) params strategy_factory
           (Some lower_bound)) (\<lambda>out_of_sample_result.
         bind_result (compute_performance_metrics pow in_sample_result) (\<lambda>in_sample_metrics.
         bind_result (compute_performance_metrics pow out_of_sample_result) (\<lambda>out_of_sample_metrics.
         ok \<lparr>wr_window = window, wr_parameters = params, wr_in_sample_result = in_sample_result,
             wr_in_sample_metrics = in_sample_metrics, wr_out_of_sample_result = out_of_sample_result,
             wr_out_of_sample_metrics = out_of_sample_metrics\<rparr>))))))"

subsection \<open>The aggregate\<close>

definition rescale :: "decimal \<Rightarrow> decimal \<Rightarrow> decimal \<Rightarrow> decimal" where
  "rescale running_capital window_initial equity = dmul running_capital (ddiv equity window_initial)"

definition chain_step ::
    "equity_observation list \<times> decimal \<Rightarrow> backtest_result \<Rightarrow> equity_observation list \<times> decimal" where
  "chain_step acc res =
     (let (chained, running_capital) = acc; curve = btr_equity_curve res;
          window_initial = bc_initial_capital (br_config (btr_run res))
      in if curve = [] then acc
         else (chained @ map (\<lambda>ob. let scaled_equity = rescale running_capital window_initial (eo_equity ob) in
                   \<lparr>eo_timestamp = eo_timestamp ob, eo_equity = scaled_equity, eo_cash = scaled_equity,
                    eo_position = eo_position ob\<rparr>) curve,
               rescale running_capital window_initial (eo_equity (last curve))))"

definition chain_out_of_sample_equity :: "backtest_result list \<Rightarrow> decimal \<Rightarrow> equity_observation list" where
  "chain_out_of_sample_equity results initial_capital = fst (foldl chain_step ([], initial_capital) results)"

definition aggregate_result ::
    "backtest_config \<Rightarrow> walk_forward_window_result list \<Rightarrow> backtest_result result" where
  "aggregate_result base_config window_results =
     (let chained_equity = chain_out_of_sample_equity (map wr_out_of_sample_result window_results)
            (bc_initial_capital base_config);
          trades = concat (map (\<lambda>wr. btr_trades (wr_out_of_sample_result wr)) window_results)
      in bind_result (mk_backtest_run base_config ''walk-forward-aggregate-oos'' (Aware (bc_start base_config)))
           (\<lambda>run. ok \<lparr>btr_run = run, btr_equity_curve = chained_equity, btr_trades = trades,
             btr_final_position = FLAT_POSITION\<rparr>))"

definition run_walk_forward ::
    "runtime \<Rightarrow> decimal_power \<Rightarrow> backtest_config \<Rightarrow> candle list \<Rightarrow> (parameters \<Rightarrow> strategy result)
      \<Rightarrow> (candle list \<Rightarrow> parameters result) \<Rightarrow> walk_forward_window list \<Rightarrow> walk_forward_result result" where
  "run_walk_forward rt pow base_config cs strategy_factory select_parameters windows =
     bind_result (map_result (run_window rt pow base_config cs strategy_factory select_parameters) windows)
       (\<lambda>window_results.
     bind_result (aggregate_result base_config window_results) (\<lambda>aggregate.
     bind_result (compute_performance_metrics pow aggregate) (\<lambda>metrics.
     ok \<lparr>wfr_windows = window_results, wfr_aggregate_metrics = metrics\<rparr>)))"

subsection \<open>The windows in closed form\<close>

definition window_at :: "instant \<Rightarrow> duration \<Rightarrow> duration \<Rightarrow> bool \<Rightarrow> nat \<Rightarrow> walk_forward_window" where
  "window_at start in_sample oos anchored k =
     (let boundary = start + in_sample + int k * oos
      in \<lparr>wf_index = k,
          wf_in_sample = \<lparr>dp_label = ''in_sample'', dp_start = (if anchored then start else start + int k * oos),
            dp_end = boundary\<rparr>,
          wf_out_of_sample = \<lparr>dp_label = ''out_of_sample'', dp_start = boundary, dp_end = boundary + oos\<rparr>,
          wf_anchored = anchored\<rparr>)"

definition window_count :: "instant \<Rightarrow> instant \<Rightarrow> duration \<Rightarrow> duration \<Rightarrow> nat" where
  "window_count start end' in_sample oos = nat ((end' - start - in_sample) div oos)"

lemma le_div_iff:
  fixes m d x :: int
  assumes "0 < d"
  shows "m * d \<le> x \<longleftrightarrow> m \<le> x div d"
proof
  assume "m * d \<le> x"
  also have "x < x div d * d + d" using assms pos_mod_bound [of d x] div_mult_mod_eq [of x d]
    by linarith
  also have "\<dots> = (x div d + 1) * d" by (simp add: distrib_right)
  finally show "m \<le> x div d" using assms by (simp add: mult_less_cancel_right)
next
  assume "m \<le> x div d"
  then have "m * d \<le> x div d * d" using assms by (intro mult_right_mono) auto
  also have "\<dots> \<le> x" using assms pos_mod_sign [of d x] div_mult_mod_eq [of x d] by linarith
  finally show "m * d \<le> x" .
qed

lemma count_step:
  fixes e :: int
  assumes "0 < oos"
  shows "s + int k * oos + oos \<le> e \<longleftrightarrow> k < nat ((e - s) div oos)"
proof -
  have "s + int k * oos + oos \<le> e \<longleftrightarrow> int (k + 1) * oos \<le> e - s" by (auto simp: algebra_simps)
  also have "\<dots> \<longleftrightarrow> int (k + 1) \<le> (e - s) div oos" by (rule le_div_iff [OF assms])
  finally show ?thesis by auto
qed

lemma blank_labels [simp]: "\<not> blank ''in_sample''" "\<not> blank ''out_of_sample''"
  by code_simp+

lemma windows_loop_closed:
  fixes start end' :: instant
  assumes pos: "0 < in_sample" "0 < oos"
  defines "n \<equiv> window_count start end' in_sample oos"
  shows "windows_loop anchored oos end' k (if anchored then start else start + int k * oos)
      (start + in_sample + int k * oos) = Inr (map (window_at start in_sample oos anchored) [k..<n])"
proof (induction "n - k" arbitrary: k)
  case 0
  then have "\<not> k < n" by simp
  then have "\<not> start + in_sample + int k * oos + oos \<le> end'"
    unfolding n_def window_count_def using count_step [OF pos(2), of "start + in_sample" k end']
    by (simp add: diff_diff_eq)
  with \<open>\<not> k < n\<close> show ?case by (subst windows_loop.simps) simp
next
  case (Suc d)
  then have k: "k < n" by simp
  then have go: "start + in_sample + int k * oos + oos \<le> end'"
    unfolding n_def window_count_def using count_step [OF pos(2), of "start + in_sample" k end']
    by (simp add: diff_diff_eq)
  have before: "(if anchored then start else start + int k * oos) < start + in_sample + int k * oos"
    using pos by (auto intro: add_pos_nonneg)
  have next_start: "(if anchored then (if anchored then start else start + int k * oos)
      else (if anchored then start else start + int k * oos) + oos) =
      (if anchored then start else start + int (k + 1) * oos)"
    by (simp add: algebra_simps)
  have next_oos: "start + in_sample + int k * oos + oos = start + in_sample + int (k + 1) * oos"
    by (simp add: algebra_simps)
  have IH: "windows_loop anchored oos end' (k + 1) (if anchored then start else start + int (k + 1) * oos)
      (start + in_sample + int (k + 1) * oos) = Inr (map (window_at start in_sample oos anchored) [k + 1..<n])"
    using Suc.hyps(1) [of "k + 1"] Suc.hyps(2) by simp
  have "windows_loop anchored oos end' k (if anchored then start else start + int k * oos)
      (start + in_sample + int k * oos) =
    Inr (window_at start in_sample oos anchored k # map (window_at start in_sample oos anchored) [k + 1..<n])"
    unfolding windows_loop.simps [of anchored oos end' k] next_start Let_def
    using pos go before IH unfolding next_oos
    by (simp add: mk_date_partition_def window_at_def Let_def distrib_right)
  with k show ?case by (simp add: upt_conv_Cons)
qed

text \<open>
C23: The walk-forward loop ends, and its windows are known in closed form.  With positive durations it
produces exactly as many windows as out-of-sample periods fit after the first in-sample period, or
raises when none fits; window \<open>k\<close> tests the period that starts \<open>k\<close> out-of-sample durations after the
first, immediately after the end of its own in-sample period, which slides with it, or is anchored at
the start.  So the out-of-sample periods tile a prefix of the range without gap or overlap, and less
than one of them is left uncovered.
\<close>

theorem walk_forward_windows_closed_form:
  assumes "0 < in_sample" and "0 < oos"
  shows "let n = window_count start end' in_sample oos in
    generate_walk_forward_windows (Aware start) (Aware end') in_sample oos anchored =
      (if n = 0 then raise InvalidPartitionError ''no walk-forward windows fit within the given start/end and durations''
       else Inr (map (window_at start in_sample oos anchored) [0..<n])) \<and>
    tiles (start + in_sample) (start + in_sample + int n * oos)
      (map (\<lambda>k. wf_out_of_sample (window_at start in_sample oos anchored k)) [0..<n]) \<and>
    (0 < n \<longrightarrow> start + in_sample + int n * oos \<le> end' \<and> end' < start + in_sample + int n * oos + oos)"
proof -
  let ?n = "window_count start end' in_sample oos"
  have "windows_loop anchored oos end' 0 start (start + in_sample) =
      Inr (map (window_at start in_sample oos anchored) [0..<?n])"
    using windows_loop_closed [OF assms, of anchored end' 0 start] by (cases anchored) auto
  then have gen: "generate_walk_forward_windows (Aware start) (Aware end') in_sample oos anchored =
      (if ?n = 0 then raise InvalidPartitionError ''no walk-forward windows fit within the given start/end and durations''
       else Inr (map (window_at start in_sample oos anchored) [0..<?n]))"
    using assms by (auto simp: generate_walk_forward_windows_def raise_if_def)
  have tile: "tiles (start + in_sample + int k * oos) (start + in_sample + int (k + m) * oos)
      (map (\<lambda>k. wf_out_of_sample (window_at start in_sample oos anchored k)) [k..<k + m])" for k m
  proof (induction m arbitrary: k)
    case (Suc m)
    have eq: "start + in_sample + int k * oos + oos = start + in_sample + int (Suc k) * oos"
      by (simp add: algebra_simps)
    have "[k..<k + Suc m] = k # [Suc k..<Suc k + m]" by (simp add: upt_conv_Cons del: upt_Suc)
    moreover have "dp_start (wf_out_of_sample (window_at start in_sample oos anchored k)) =
        start + in_sample + int k * oos"
      "dp_end (wf_out_of_sample (window_at start in_sample oos anchored k)) = start + in_sample + int (Suc k) * oos"
      by (simp_all add: window_at_def Let_def algebra_simps)
    moreover have "start + in_sample + int k * oos < start + in_sample + int (Suc k) * oos"
      using assms(2) eq by linarith
    ultimately show ?case using Suc.IH [of "Suc k"] by (simp del: of_nat_Suc upt_Suc)
  qed simp
  have "start + in_sample + int ?n * oos \<le> end' \<and> end' < start + in_sample + int ?n * oos + oos" if "0 < ?n"
  proof -
    have count: "start + in_sample + int k * oos + oos \<le> end' \<longleftrightarrow> k < ?n" for k
      using count_step [OF assms(2), of "start + in_sample" k end'] by (simp add: window_count_def diff_diff_eq)
    have "start + in_sample + int (?n - 1) * oos + oos \<le> end'" using that count [of "?n - 1"] by simp
    moreover have "int ?n * oos = int (?n - 1) * oos + oos" using that by (cases ?n) (auto simp: algebra_simps)
    ultimately show ?thesis using count [of ?n] by auto
  qed
  with gen tile [of 0 ?n] show ?thesis by (simp add: Let_def)
qed

theorem walk_forward_windows_closed_form_witness:
  "generate_walk_forward_windows (Aware 0) (Aware 75) 30 20 False =
     Inr [window_at 0 30 20 False 0, window_at 0 30 20 False 1]"
proof -
  have n: "window_count 0 75 30 20 = 2" by (simp add: window_count_def)
  show ?thesis
    using walk_forward_windows_closed_form [of 30 20 0 75 False] by (simp add: n Let_def upt_rec)
qed

subsection \<open>What a window sees\<close>

lemma candles_before_cong:
  assumes "filter (\<lambda>c. a \<le> c_timestamp c \<and> c_timestamp c < b) cs = filter (\<lambda>c. a \<le> c_timestamp c \<and> c_timestamp c < b) ds"
    and "e \<le> b"
  shows "candles_before cs e (Some a) = candles_before ds e (Some a)"
proof -
  have inner: "filter (\<lambda>c. a \<le> c_timestamp c \<and> c_timestamp c < e) es =
      filter (\<lambda>c. c_timestamp c < e) (filter (\<lambda>c. a \<le> c_timestamp c \<and> c_timestamp c < b) es)" for es
    using assms(2) by (auto simp: filter_filter intro: filter_cong)
  show ?thesis by (simp only: candles_before_def option.case inner [of cs] inner [of ds] assms(1))
qed

lemma run_partition_cong:
  "candles_before cs (dp_end part) f = candles_before ds (dp_end part) f \<Longrightarrow>
     run_partition rt cfg cs part params factory f = run_partition rt cfg ds part params factory f"
  by (simp add: run_partition_def)

lemma run_window_parts:
  assumes "run_window rt pow cfg cs factory select w = Inr wr"
  shows "wr_window wr = w"
    and "select (candles_before cs (dp_end (wf_in_sample w)) (Some (window_floor w))) = Inr (wr_parameters wr)"
    and "run_partition rt cfg cs (wf_in_sample w) (wr_parameters wr) factory (Some (window_floor w)) =
      Inr (wr_in_sample_result wr)"
    and "run_partition rt cfg cs (wf_out_of_sample w) (wr_parameters wr) factory (Some (window_floor w)) =
      Inr (wr_out_of_sample_result wr)"
    and "compute_performance_metrics pow (wr_in_sample_result wr) = Inr (wr_in_sample_metrics wr)"
    and "compute_performance_metrics pow (wr_out_of_sample_result wr) = Inr (wr_out_of_sample_metrics wr)"
  using assms by (auto simp: run_window_def Let_def result_simps)

lemma run_walk_forward_windows:
  assumes "run_walk_forward rt pow cfg cs factory select ws = Inr r"
  shows "length (wfr_windows r) = length ws"
    and "i < length ws \<Longrightarrow> run_window rt pow cfg cs factory select (ws ! i) = Inr (wfr_windows r ! i)"
  using assms
  by (auto simp: run_walk_forward_def result_simps dest: map_result_Inr_length map_result_Inr_nth)

text \<open>
C3: No window leaks.  Two runs whose candles agree inside a window's in-sample period choose the same
parameters for it and report the same in-sample result and metrics, whatever else differs, earlier
candles and out-of-sample candles included; when they also agree up to the end of its out-of-sample
period, everything the window reports is the same.  So selection never sees the out-of-sample period,
and no window sees anything before its own start or after its own end.
\<close>

theorem walk_forward_no_leakage:
  assumes "run_walk_forward rt pow cfg cs factory select ws = Inr r"
    and "run_walk_forward rt pow cfg ds factory select ws = Inr r'" and "i < length ws"
    and "dp_end (wf_in_sample (ws ! i)) \<le> dp_end (wf_out_of_sample (ws ! i))"
  defines "seen \<equiv> \<lambda>e. filter (\<lambda>c. dp_start (wf_in_sample (ws ! i)) \<le> c_timestamp c \<and> c_timestamp c < e)"
  shows "(seen (dp_end (wf_in_sample (ws ! i))) cs = seen (dp_end (wf_in_sample (ws ! i))) ds \<longrightarrow>
      wr_parameters (wfr_windows r ! i) = wr_parameters (wfr_windows r' ! i) \<and>
      wr_in_sample_result (wfr_windows r ! i) = wr_in_sample_result (wfr_windows r' ! i) \<and>
      wr_in_sample_metrics (wfr_windows r ! i) = wr_in_sample_metrics (wfr_windows r' ! i)) \<and>
    (seen (dp_end (wf_out_of_sample (ws ! i))) cs = seen (dp_end (wf_out_of_sample (ws ! i))) ds \<longrightarrow>
      wfr_windows r ! i = wfr_windows r' ! i)"
proof -
  let ?w = "ws ! i" and ?a = "wfr_windows r ! i" and ?b = "wfr_windows r' ! i"
  note a = run_walk_forward_windows(2) [OF assms(1,3), THEN run_window_parts(2)]
    run_walk_forward_windows(2) [OF assms(1,3), THEN run_window_parts(3)]
    run_walk_forward_windows(2) [OF assms(1,3), THEN run_window_parts(5)]
  note b = run_walk_forward_windows(2) [OF assms(2,3), THEN run_window_parts(2)]
    run_walk_forward_windows(2) [OF assms(2,3), THEN run_window_parts(3)]
    run_walk_forward_windows(2) [OF assms(2,3), THEN run_window_parts(5)]
  have in_sample: "wr_parameters ?a = wr_parameters ?b \<and> wr_in_sample_result ?a = wr_in_sample_result ?b \<and>
      wr_in_sample_metrics ?a = wr_in_sample_metrics ?b"
    if s: "seen (dp_end (wf_in_sample ?w)) cs = seen (dp_end (wf_in_sample ?w)) ds"
  proof -
    have c: "candles_before cs (dp_end (wf_in_sample ?w)) (Some (window_floor ?w)) =
        candles_before ds (dp_end (wf_in_sample ?w)) (Some (window_floor ?w))"
      using s by (simp add: seen_def candles_before_def window_floor_def)
    from a(1) b(1) have p: "wr_parameters ?a = wr_parameters ?b" by (simp add: c)
    with a(2) b(2) run_partition_cong [OF c] have "wr_in_sample_result ?a = wr_in_sample_result ?b" by simp
    with a(3) b(3) p show ?thesis by simp
  qed
  moreover have "?a = ?b" if s: "seen (dp_end (wf_out_of_sample ?w)) cs = seen (dp_end (wf_out_of_sample ?w)) ds"
  proof -
    note c = candles_before_cong [OF s [unfolded seen_def]]
    have "run_window rt pow cfg cs factory select ?w = run_window rt pow cfg ds factory select ?w"
      using c [OF assms(4)] c [OF order_refl]
      by (simp add: run_window_def run_partition_def window_floor_def)
    then show ?thesis
      using run_walk_forward_windows(2) [OF assms(1,3)] run_walk_forward_windows(2) [OF assms(2,3)] by simp
  qed
  ultimately show ?thesis by blast
qed

text \<open>A concrete run: a strategy that always holds, on the sample history.\<close>

definition hold_strategy :: strategy where
  "hold_strategy = \<lparr>strategy_id = ''toggle'', strategy_version = ''1'', strategy_parameters = [],
     strategy_warmup_period = 1, strategy_decide = (\<lambda>ctx. ok HOLD_DECISION)\<rparr>"

definition sample_window :: walk_forward_window where
  "sample_window = window_at (minutes 1) (minutes 2) (minutes 2) False 0"

lemma hold_bars:
  "es_pending st = None \<Longrightarrow> \<exists>st'. run_bars cfg cs hold_strategy st n = Inr st' \<and> es_pending st' = None"
proof (induction n)
  case (Suc n)
  then obtain st' where st': "run_bars cfg cs hold_strategy st n = Inr st'" "es_pending st' = None" by blast
  have translate: "translate_decision HOLD_DECISION p t i = None" for p t i
    by (simp add: HOLD_DECISION_def translate_decision.simps)
  have "\<exists>st''. engine_step cfg cs hold_strategy st' step = Inr st'' \<and> es_pending st'' = None" for step
    using st'(2)
    by (cases "bs_visible_candles step = []")
      (auto simp: engine_step_def resolve_pending_def decide_step_def observe_def hold_strategy_def
        mk_strategy_context_def translate)
  with st' show ?case by (simp add: run_bars_Suc)
qed simp

lemma hold_run:
  assumes "valid_history cs cfg" and "bc_strategy_id cfg = ''toggle''" and "bc_strategy_version cfg = ''1''"
    and "bc_parameters cfg = []" and "ec_fill_timing (bc_execution_config cfg) = NEXT_BAR_OPEN"
    and "0 < bc_initial_capital cfg"
  shows "\<exists>r. run_strategy sample_runtime cfg cs hold_strategy = Inr r"
proof -
  have "es_pending (initial_state cfg) = None" by (simp add: initial_state_def)
  from hold_bars [OF this] obtain st where
    "run_bars cfg cs hold_strategy (initial_state cfg) (length cs) = Inr st" by blast
  moreover have "\<exists>run. new_run sample_runtime cfg cs = Inr run"
    by (simp add: new_run_def mk_backtest_run_def sample_runtime_def)
  moreover have "validate_strategy_matches_config hold_strategy cfg = Inr ()"
    using assms(2-4) by (simp add: validate_strategy_matches_config_def hold_strategy_def)
  ultimately show ?thesis using assms by (auto simp: run_strategy_ok_iff)
qed

lemma unit_power_metrics: "\<exists>m. compute_performance_metrics unit_power r = Inr m"
  using cagr_Inl [of unit_power] unfolding metrics_ok_iff
  by (cases "cagr unit_power (bc_initial_capital (br_config (btr_run r))) (btr_equity_curve r)")
    (fastforce simp: unit_power_def)+

definition sample_walk_forward :: "candle list \<Rightarrow> walk_forward_result result" where
  "sample_walk_forward cs = run_walk_forward sample_runtime unit_power sample_config cs
     (\<lambda>_. ok hold_strategy) (\<lambda>_. ok []) [sample_window]"

lemma sample_partition:
  assumes "mk_backtest_config (sample_config\<lparr>bc_parameters := []\<rparr>) (Aware (dp_start part)) (Aware (dp_end part)) = Inr cfg"
    and "valid_history (candles_before cs (dp_end part) f) cfg"
  shows "\<exists>r. run_partition sample_runtime sample_config cs part [] (\<lambda>_. ok hold_strategy) f = Inr r"
proof -
  from assms(1) have "bc_strategy_id cfg = ''toggle''" "bc_strategy_version cfg = ''1''"
    "bc_parameters cfg = []" "ec_fill_timing (bc_execution_config cfg) = NEXT_BAR_OPEN" "0 < bc_initial_capital cfg"
    by (auto simp: mk_backtest_config_def sample_config_def)
  moreover have "validate_backtest_history (candles_before cs (dp_end part) f) cfg = Inr ()"
    using assms(2) by (simp add: validate_history_ok_iff)
  ultimately show ?thesis using hold_run [OF assms(2)] assms(1) by (simp add: run_partition_def)
qed

lemma sample_walk_forward_ok:
  assumes "cs \<in> {sample_history, take 4 sample_history}"
  shows "\<exists>r. sample_walk_forward cs = Inr r"
proof -
  have parts: "\<exists>r. run_partition sample_runtime sample_config cs part [] (\<lambda>_. ok hold_strategy)
      (Some (minutes 1)) = Inr r"
    if "part \<in> {wf_in_sample sample_window, wf_out_of_sample sample_window}" for part
  proof -
    have "isl (mk_backtest_config (sample_config\<lparr>bc_parameters := []\<rparr>) (Aware (dp_start part)) (Aware (dp_end part))) = False"
      and "valid_history (candles_before cs (dp_end part) (Some (minutes 1)))
        (projr (mk_backtest_config (sample_config\<lparr>bc_parameters := []\<rparr>) (Aware (dp_start part)) (Aware (dp_end part))))"
      using that assms by (elim insertE emptyE; simp; code_simp)+
    then obtain cfg where "mk_backtest_config (sample_config\<lparr>bc_parameters := []\<rparr>) (Aware (dp_start part)) (Aware (dp_end part)) = Inr cfg"
      "valid_history (candles_before cs (dp_end part) (Some (minutes 1))) cfg"
      by (cases "mk_backtest_config (sample_config\<lparr>bc_parameters := []\<rparr>) (Aware (dp_start part)) (Aware (dp_end part))") auto
    from sample_partition [OF this] show ?thesis by auto
  qed
  have from_start: "window_floor sample_window = minutes 1"
    by (simp add: window_floor_def sample_window_def window_at_def Let_def)
  obtain a b where "run_partition sample_runtime sample_config cs (wf_in_sample sample_window) []
      (\<lambda>_. ok hold_strategy) (Some (minutes 1)) = Inr a"
    "run_partition sample_runtime sample_config cs (wf_out_of_sample sample_window) []
      (\<lambda>_. ok hold_strategy) (Some (minutes 1)) = Inr b"
    using parts by blast
  moreover obtain m n where "compute_performance_metrics unit_power a = Inr m" "compute_performance_metrics unit_power b = Inr n"
    using unit_power_metrics by blast
  ultimately have "\<exists>w. run_window sample_runtime unit_power sample_config cs (\<lambda>_. ok hold_strategy)
      (\<lambda>_. ok []) sample_window = Inr w"
    by (simp add: run_window_def Let_def from_start)
  then obtain w where w: "run_window sample_runtime unit_power sample_config cs (\<lambda>_. ok hold_strategy)
      (\<lambda>_. ok []) sample_window = Inr w" by blast
  obtain total where total: "aggregate_result sample_config [w] = Inr total"
    by (simp add: aggregate_result_def mk_backtest_run_def Let_def)
  obtain m where "compute_performance_metrics unit_power total = Inr m" using unit_power_metrics by blast
  with w total show ?thesis by (simp add: sample_walk_forward_def run_walk_forward_def)
qed

theorem walk_forward_no_leakage_witness:
  "\<exists>r r'. sample_walk_forward sample_history = Inr r \<and> sample_walk_forward (take 4 sample_history) = Inr r' \<and>
     wfr_windows r ! 0 = wfr_windows r' ! 0"
proof -
  obtain r r' where r: "sample_walk_forward sample_history = Inr r" "sample_walk_forward (take 4 sample_history) = Inr r'"
    using sample_walk_forward_ok by blast
  have len: "0 < length [sample_window]" and
    ends: "dp_end (wf_in_sample ([sample_window] ! 0)) \<le> dp_end (wf_out_of_sample ([sample_window] ! 0))"
    and seen: "filter (\<lambda>c. dp_start (wf_in_sample ([sample_window] ! 0)) \<le> c_timestamp c \<and>
        c_timestamp c < dp_end (wf_out_of_sample ([sample_window] ! 0))) sample_history =
      filter (\<lambda>c. dp_start (wf_in_sample ([sample_window] ! 0)) \<le> c_timestamp c \<and>
        c_timestamp c < dp_end (wf_out_of_sample ([sample_window] ! 0))) (take 4 sample_history)"
    by (simp_all add: sample_window_def window_at_def Let_def minutes_def sample_history_def sample_candle_def)
  have "wfr_windows r ! 0 = wfr_windows r' ! 0"
    using walk_forward_no_leakage [OF r [unfolded sample_walk_forward_def] len ends] seen by blast
  with r show ?thesis by blast
qed

subsection \<open>The chained equity curve\<close>

text \<open>The capital the next window starts from is the equity the chained curve ends with.\<close>

definition running_capital :: "decimal \<Rightarrow> equity_observation list \<Rightarrow> decimal" where
  "running_capital initial_capital chained = (if chained = [] then initial_capital else eo_equity (last chained))"

definition rescaled_curve :: "decimal \<Rightarrow> backtest_result \<Rightarrow> equity_observation list" where
  "rescaled_curve capital res =
     map (\<lambda>ob. let e = rescale capital (bc_initial_capital (br_config (btr_run res))) (eo_equity ob)
       in ob\<lparr>eo_equity := e, eo_cash := e\<rparr>) (btr_equity_curve res)"

lemma chain_step_form:
  "chain_step (chained, capital) res =
     (if btr_equity_curve res = [] then (chained, capital)
      else (chained @ rescaled_curve capital res, eo_equity (last (rescaled_curve capital res))))"
  by (auto simp: chain_step_def rescaled_curve_def Let_def last_map)

lemma chain_fold_capital:
  "snd (foldl chain_step ([], c) rs) = running_capital c (fst (foldl chain_step ([], c) rs))"
proof (induction rs rule: rev_induct)
  case (snoc r rs)
  obtain chained capital where f: "foldl chain_step ([], c) rs = (chained, capital)"
    by (cases "foldl chain_step ([], c) rs")
  with snoc have "capital = running_capital c chained" by simp
  then show ?case
    by (auto simp: f chain_step_form running_capital_def rescaled_curve_def)
qed (simp add: running_capital_def)

text \<open>
The aggregate curve is continuous.  The chained out-of-sample curve of one more window is the
chained curve so far followed by that window's curve rescaled to start from the last chained equity
(the initial capital when there is none): timestamps and positions are kept, nothing jumps back to
the initial capital, and a window whose curve never leaves its initial capital leaves the equity where
it was.
\<close>

theorem chained_equity_is_continuous:
  "let chained = chain_out_of_sample_equity results initial_capital;
       start = running_capital initial_capital chained;
       window_initial = bc_initial_capital (br_config (btr_run res))
   in chain_out_of_sample_equity (results @ [res]) initial_capital = chained @ rescaled_curve start res \<and>
      map eo_timestamp (rescaled_curve start res) = map eo_timestamp (btr_equity_curve res) \<and>
      map eo_position (rescaled_curve start res) = map eo_position (btr_equity_curve res) \<and>
      map eo_equity (rescaled_curve start res) =
        map (\<lambda>ob. rescale start window_initial (eo_equity ob)) (btr_equity_curve res) \<and>
      (if window_initial \<noteq> 0 \<and> representable start then rescale start window_initial window_initial = start else True)"
proof -
  let ?f = "foldl chain_step ([], initial_capital) results"
  have "chain_out_of_sample_equity (results @ [res]) initial_capital =
      fst ?f @ rescaled_curve (running_capital initial_capital (fst ?f)) res"
    using chain_fold_capital [of initial_capital results]
    by (cases ?f) (auto simp: chain_out_of_sample_equity_def chain_step_form rescaled_curve_def)
  moreover have "rescale s i i = s" if "i \<noteq> 0" "representable s" for s i
    using that dec_round_id [of 1] by (simp add: rescale_def ddiv_def dmul_def)
  ultimately show ?thesis
    by (simp add: chain_out_of_sample_equity_def Let_def rescaled_curve_def comp_def)
qed

text \<open>
The aggregate metrics are those of the out-of-sample periods alone.  A completed run reports one
result per window, in order; its aggregate metrics are computed from the chained out-of-sample curve
and from exactly the trades of the out-of-sample backtests, concatenated window by window, and each
window's out-of-sample backtest ran with the parameters that were selected for it in-sample.
\<close>

theorem walk_forward_aggregates_out_of_sample:
  assumes "run_walk_forward rt pow cfg cs factory select ws = Inr r"
  shows "map wr_window (wfr_windows r) = ws \<and>
    (\<exists>run. br_config run = cfg \<and> compute_performance_metrics pow
       \<lparr>btr_run = run,
        btr_equity_curve = chain_out_of_sample_equity (map wr_out_of_sample_result (wfr_windows r)) (bc_initial_capital cfg),
        btr_trades = concat (map (btr_trades \<circ> wr_out_of_sample_result) (wfr_windows r)),
        btr_final_position = FLAT_POSITION\<rparr> = Inr (wfr_aggregate_metrics r)) \<and>
    (\<forall>wr\<in>set (wfr_windows r).
       select (candles_before cs (dp_end (wf_in_sample (wr_window wr))) (Some (window_floor (wr_window wr)))) =
         Inr (wr_parameters wr) \<and>
       run_partition rt cfg cs (wf_out_of_sample (wr_window wr)) (wr_parameters wr) factory
         (Some (window_floor (wr_window wr))) = Inr (wr_out_of_sample_result wr))"
proof (intro conjI ballI)
  note runs = run_walk_forward_windows [OF assms]
  show windows: "map wr_window (wfr_windows r) = ws"
    using runs by (intro nth_equalityI) (auto dest: run_window_parts(1))
  show "\<exists>run. br_config run = cfg \<and> compute_performance_metrics pow
       \<lparr>btr_run = run,
        btr_equity_curve = chain_out_of_sample_equity (map wr_out_of_sample_result (wfr_windows r)) (bc_initial_capital cfg),
        btr_trades = concat (map (btr_trades \<circ> wr_out_of_sample_result) (wfr_windows r)),
        btr_final_position = FLAT_POSITION\<rparr> = Inr (wfr_aggregate_metrics r)"
    using assms
    by (intro exI [of _ "\<lparr>br_config = cfg, br_run_id = ''walk-forward-aggregate-oos'', br_generated_at = bc_start cfg\<rparr>"])
      (auto simp: run_walk_forward_def aggregate_result_def mk_backtest_run_def Let_def result_simps comp_def)
  fix wr assume "wr \<in> set (wfr_windows r)"
  then obtain i where i: "i < length ws" "wr = wfr_windows r ! i"
    using runs(1) by (auto simp: in_set_conv_nth)
  from run_window_parts [OF runs(2) [OF i(1)]] i(2)
  show "select (candles_before cs (dp_end (wf_in_sample (wr_window wr))) (Some (window_floor (wr_window wr)))) =
      Inr (wr_parameters wr)"
    "run_partition rt cfg cs (wf_out_of_sample (wr_window wr)) (wr_parameters wr) factory
         (Some (window_floor (wr_window wr))) = Inr (wr_out_of_sample_result wr)" by simp_all
qed

theorem walk_forward_aggregates_out_of_sample_witness:
  "\<exists>r. sample_walk_forward sample_history = Inr r \<and> map wr_window (wfr_windows r) = [sample_window]"
  using sample_walk_forward_ok [of sample_history] walk_forward_aggregates_out_of_sample
  unfolding sample_walk_forward_def by blast

end
