(* ===== verification/Replay.thy ===== *)
theory Replay
  imports Indicator_Engine
begin

text \<open>
  The historical replay (\<open>backtesting/replay.py\<close>): a cursor over a validated series with the four
  states of the source, its operations, and the step relation they generate.  The abstract machine
  hands candles from a future to a past one at a time; the cursor refines it.
\<close>

subsection \<open>The replay\<close>

datatype replay_state = STOPPED | PLAYING | PAUSED | FINISHED

record replay_snapshot =
  sn_index :: int
  sn_state :: replay_state
  sn_current_candle :: "candle option"
  sn_visible_candles :: "candle list"

record replay =
  rp_candles :: "candle list"
  rp_index :: int
  rp_state :: replay_state

definition mk_replay :: "candle list \<Rightarrow> replay result" where
  "mk_replay cs =
     raise_if (cs = []) ValueError ''HistoricalReplay requires at least one candle''
     (raise_if (1 < length (remdups (map c_symbol cs))) ValueError ''HistoricalReplay requires a single symbol''
     (raise_if (1 < length (remdups (map c_timeframe cs))) ValueError
        ''HistoricalReplay requires a single timeframe''
     (raise_if (\<not> adjacent (\<lambda>p c. c_timestamp p < c_timestamp c) cs) ValueError
        ''candles must be strictly ordered by ascending timestamp with no duplicates''
     (ok \<lparr>rp_candles = cs, rp_index = - 1, rp_state = STOPPED\<rparr>))))"

definition snapshot :: "replay \<Rightarrow> replay_snapshot" where
  "snapshot r =
     (if rp_index r < 0 then
        \<lparr>sn_index = rp_index r, sn_state = rp_state r, sn_current_candle = None, sn_visible_candles = []\<rparr>
      else
        \<lparr>sn_index = rp_index r, sn_state = rp_state r,
         sn_current_candle = Some (rp_candles r ! nat (rp_index r)),
         sn_visible_candles = take (nat (rp_index r + 1)) (rp_candles r)\<rparr>)"

definition is_playing :: "replay \<Rightarrow> bool" where
  "is_playing r \<longleftrightarrow> rp_state r = PLAYING"

definition is_finished :: "replay \<Rightarrow> bool" where
  "is_finished r \<longleftrightarrow> rp_state r = FINISHED"

definition replay_play :: "replay \<Rightarrow> replay" where
  "replay_play r = (if rp_state r \<noteq> FINISHED then r\<lparr>rp_state := PLAYING\<rparr> else r)"

definition replay_pause :: "replay \<Rightarrow> replay" where
  "replay_pause r = (if rp_state r = PLAYING then r\<lparr>rp_state := PAUSED\<rparr> else r)"

definition replay_step :: "replay \<Rightarrow> replay" where
  "replay_step r =
     (if rp_state r = FINISHED then r
      else
        let next_index = rp_index r + 1 in
        if int (length (rp_candles r)) \<le> next_index then r\<lparr>rp_state := FINISHED\<rparr>
        else if rp_state r \<noteq> PLAYING then r\<lparr>rp_index := next_index, rp_state := PAUSED\<rparr>
        else r\<lparr>rp_index := next_index\<rparr>)"

definition replay_reset :: "replay \<Rightarrow> replay" where
  "replay_reset r = r\<lparr>rp_index := - 1, rp_state := STOPPED\<rparr>"

definition replay_compute_indicator :: "registry \<Rightarrow> string \<Rightarrow> replay \<Rightarrow> indicator_result result" where
  "replay_compute_indicator reg nm r =
     raise_if (rp_index r < 0) ValueError
       ''cannot compute an indicator before the replay has stepped at least once''
     (engine_compute reg nm (take (nat (rp_index r + 1)) (rp_candles r)))"

subsection \<open>Sequences of operations\<close>

datatype replay_event = Play | Pause | Step | Reset

fun apply_event :: "replay_event \<Rightarrow> replay \<Rightarrow> replay" where
  "apply_event Play = replay_play"
| "apply_event Pause = replay_pause"
| "apply_event Step = replay_step"
| "apply_event Reset = replay_reset"

definition run_events :: "replay_event list \<Rightarrow> replay \<Rightarrow> replay" where
  "run_events es r = fold apply_event es r"

inductive reachable :: "candle list \<Rightarrow> replay \<Rightarrow> bool" for cs where
  start: "mk_replay cs = Inr r \<Longrightarrow> reachable cs r"
| operation: "reachable cs r \<Longrightarrow> reachable cs (apply_event e r)"

inductive_cases reachable_elim: "reachable cs r"

lemmas replay_defs = replay_play_def replay_pause_def replay_step_def replay_reset_def Let_def

lemma mk_replay_ok:
  "mk_replay cs = Inr r \<longleftrightarrow> valid_series cs \<and> r = \<lparr>rp_candles = cs, rp_index = - 1, rp_state = STOPPED\<rparr>"
  unfolding mk_replay_def valid_series_def adjacent_timestamps raise_if_Inr remdups_map_single by auto

lemma reachable_run: "reachable cs r \<Longrightarrow> reachable cs (run_events es r)"
proof (induction es arbitrary: r)
  case (Cons e es)
  from Cons.IH [OF reachable.operation [OF Cons.prems]] show ?case by (simp add: run_events_def)
qed (simp add: run_events_def)

text \<open>The cursor stays in the series, and each state says where it is.\<close>

definition replay_inv :: "candle list \<Rightarrow> replay \<Rightarrow> bool" where
  "replay_inv cs r \<longleftrightarrow> rp_candles r = cs \<and> - 1 \<le> rp_index r \<and> rp_index r < int (length cs) \<and>
     (rp_state r = STOPPED \<longrightarrow> rp_index r = - 1) \<and> (rp_state r = FINISHED \<longrightarrow> rp_index r = int (length cs) - 1)"

lemma apply_event_inv: "replay_inv cs r \<Longrightarrow> replay_inv cs (apply_event e r)"
  by (cases e) (auto simp: replay_inv_def replay_defs)

lemma reachable_inv: "reachable cs r \<Longrightarrow> replay_inv cs r \<and> valid_series cs"
proof (induction rule: reachable.induct)
  case (start r)
  then have "valid_series cs" "r = \<lparr>rp_candles = cs, rp_index = - 1, rp_state = STOPPED\<rparr>"
    by (simp_all add: mk_replay_ok)
  moreover from this(1) have "cs \<noteq> []" unfolding valid_series_def by blast
  ultimately show ?case by (simp add: replay_inv_def)
qed (simp add: apply_event_inv)

subsection \<open>The abstract machine\<close>

text \<open>Candles move one at a time from the future to the past; only the past is ever shown.\<close>

record tape =
  tp_past :: "candle list"
  tp_future :: "candle list"
  tp_state :: replay_state

fun tape_event :: "replay_event \<Rightarrow> tape \<Rightarrow> tape" where
  "tape_event Play t = (if tp_state t = FINISHED then t else t\<lparr>tp_state := PLAYING\<rparr>)"
| "tape_event Pause t = (if tp_state t = PLAYING then t\<lparr>tp_state := PAUSED\<rparr> else t)"
| "tape_event Step t =
     (if tp_state t = FINISHED then t
      else case tp_future t of
        [] \<Rightarrow> t\<lparr>tp_state := FINISHED\<rparr>
      | c # cs \<Rightarrow> \<lparr>tp_past = tp_past t @ [c], tp_future = cs,
          tp_state = (if tp_state t = PLAYING then PLAYING else PAUSED)\<rparr>)"
| "tape_event Reset t = \<lparr>tp_past = [], tp_future = tp_past t @ tp_future t, tp_state = STOPPED\<rparr>"

definition tape_of :: "replay \<Rightarrow> tape" where
  "tape_of r = \<lparr>tp_past = take (nat (rp_index r + 1)) (rp_candles r),
     tp_future = drop (nat (rp_index r + 1)) (rp_candles r), tp_state = rp_state r\<rparr>"

lemma take_drop_step:
  assumes "- 1 \<le> i" and "i + 1 < int (length cs)"
  shows "drop (nat (i + 1)) cs = cs ! nat (i + 1) # drop (nat (2 + i)) cs"
    and "take (nat (2 + i)) cs = take (nat (i + 1)) cs @ [cs ! nat (i + 1)]"
proof -
  have n: "nat (2 + i) = Suc (nat (i + 1))" and l: "nat (i + 1) < length cs" using assms by auto
  show "drop (nat (i + 1)) cs = cs ! nat (i + 1) # drop (nat (2 + i)) cs"
    unfolding n by (rule Cons_nth_drop_Suc [symmetric, OF l])
  show "take (nat (2 + i)) cs = take (nat (i + 1)) cs @ [cs ! nat (i + 1)]"
    unfolding n by (rule take_Suc_conv_app_nth [OF l])
qed

lemma tape_of_step: "replay_inv cs r \<Longrightarrow> tape_of (apply_event e r) = tape_event e (tape_of r)"
proof (cases e)
  case Step
  assume inv: "replay_inv cs r"
  then have r: "rp_candles r = cs" "- 1 \<le> rp_index r" by (simp_all add: replay_inv_def)
  show ?thesis
  proof (cases "rp_index r + 1 < int (length cs)")
    case True
    from take_drop_step [OF r(2) True] True r show ?thesis
      by (simp add: Step tape_of_def replay_step_def Let_def)
  next
    case False
    with r show ?thesis by (simp add: Step tape_of_def replay_step_def Let_def)
  qed
qed (auto simp: tape_of_def replay_defs)

lemma tape_of_run: "replay_inv cs r \<Longrightarrow> tape_of (run_events es r) = fold tape_event es (tape_of r)"
proof (induction es arbitrary: r)
  case (Cons e es)
  from Cons.IH [OF apply_event_inv [OF Cons.prems]] tape_of_step [OF Cons.prems] show ?case
    by (simp add: run_events_def)
qed (simp add: run_events_def)

lemma snapshot_tape:
  assumes "replay_inv cs r"
  shows "sn_visible_candles (snapshot r) = tp_past (tape_of r)"
    and "sn_current_candle (snapshot r) =
      (if tp_past (tape_of r) = [] then None else Some (last (tp_past (tape_of r))))"
proof -
  have r: "rp_candles r = cs" "- 1 \<le> rp_index r" "rp_index r < int (length cs)"
    using assms by (simp_all add: replay_inv_def)
  show "sn_visible_candles (snapshot r) = tp_past (tape_of r)"
    using r by (simp add: snapshot_def tape_of_def)
  show "sn_current_candle (snapshot r) =
      (if tp_past (tape_of r) = [] then None else Some (last (tp_past (tape_of r))))"
  proof (cases "rp_index r < 0")
    case False
    then have n: "nat (rp_index r + 1) = Suc (nat (rp_index r))" "nat (rp_index r) < length cs" using r by auto
    then have "last (take (nat (rp_index r + 1)) cs) = cs ! nat (rp_index r)"
      by (simp add: take_Suc_conv_app_nth)
    with False n r show ?thesis by (auto simp: snapshot_def tape_of_def)
  qed (use r in \<open>simp add: snapshot_def tape_of_def\<close>)
qed

lemma tape_finishes:
  "tp_state t = FINISHED \<longrightarrow> tp_future t = [] \<Longrightarrow>
     fold tape_event (replicate (length (tp_future t) + 1) Step) t =
       \<lparr>tp_past = tp_past t @ tp_future t, tp_future = [], tp_state = FINISHED\<rparr>"
proof (induction "tp_future t" arbitrary: t)
  case Nil
  then show ?case by (auto intro: tape.equality)
next
  case (Cons c cs)
  note future = Cons.hyps(2) [symmetric]
  let ?t = "\<lparr>tp_past = tp_past t @ [c], tp_future = cs, tp_state = (if tp_state t = PLAYING then PLAYING else PAUSED)\<rparr>"
  have "tape_event Step t = ?t" using Cons.prems by (auto simp: future)
  with Cons.hyps(1) [of ?t] show ?case by (simp add: future)
qed

subsection \<open>Properties\<close>

lemma sample_series_valid: "valid_series sample_series"
  unfolding valid_series_def by (simp add: sample_series_def sample_candle_def minutes_def)

text \<open>
C17: The cursor refines a machine that can only reveal.  After any sequence of operations on a valid
series, the replay is the abstract machine after the same sequence: what it has shown and what is
left are always the whole series split in two, the snapshot shows exactly the candles already shown,
and its current candle is the last of them, or none before the first step.
\<close>

theorem replay_refines_tape:
  assumes "mk_replay cs = Inr r"
  shows "let t = fold tape_event es \<lparr>tp_past = [], tp_future = cs, tp_state = STOPPED\<rparr>;
             s = snapshot (run_events es r)
    in tape_of (run_events es r) = t \<and> tp_past t @ tp_future t = cs \<and>
       sn_visible_candles s = tp_past t \<and> sn_state s = tp_state t \<and>
       sn_index s = int (length (tp_past t)) - 1 \<and>
       sn_current_candle s = (if tp_past t = [] then None else Some (last (tp_past t)))"
proof -
  have r: "reachable cs r" using assms by (rule reachable.start)
  have inv: "replay_inv cs r" "replay_inv cs (run_events es r)"
    using reachable_inv [OF r] reachable_inv [OF reachable_run [OF r]] by auto
  have t: "tape_of (run_events es r) = fold tape_event es \<lparr>tp_past = [], tp_future = cs, tp_state = STOPPED\<rparr>"
    using tape_of_run [OF inv(1), of es] assms by (auto simp: mk_replay_ok tape_of_def)
  have "tp_past (tape_of (run_events es r)) @ tp_future (tape_of (run_events es r)) = cs"
    "sn_state (snapshot (run_events es r)) = tp_state (tape_of (run_events es r))"
    "sn_index (snapshot (run_events es r)) = int (length (tp_past (tape_of (run_events es r)))) - 1"
    using inv(2) by (auto simp: tape_of_def snapshot_def replay_inv_def)
  with snapshot_tape [OF inv(2)] show ?thesis unfolding Let_def t [symmetric] by simp
qed

theorem replay_refines_tape_witness:
  "\<exists>r. mk_replay sample_series = Inr r \<and>
     sn_visible_candles (snapshot (run_events [Play, Step, Step, Pause] r)) = take 2 sample_series"
proof -
  obtain r where r: "mk_replay sample_series = Inr r" using sample_series_valid by (auto simp: mk_replay_ok)
  from replay_refines_tape [OF r, of "[Play, Step, Step, Pause]"] r show ?thesis
    by (auto simp: Let_def sample_series_def)
qed

definition same_position :: "candle list \<Rightarrow> nat \<Rightarrow> replay \<Rightarrow> replay \<Rightarrow> bool" where
  "same_position ds k r r' \<longleftrightarrow> rp_candles r' = rp_candles r @ ds \<and> rp_index r' = rp_index r \<and>
     rp_state r' = rp_state r \<and> rp_state r \<noteq> FINISHED \<and> - 1 \<le> rp_index r \<and>
     rp_index r + 1 + int k \<le> int (length (rp_candles r))"

lemma same_position_event:
  "same_position ds (if e = Step then Suc k else k) r r' \<Longrightarrow> same_position ds k (apply_event e r) (apply_event e r')"
  by (cases e) (auto simp: same_position_def replay_defs)

lemma same_position_run:
  "same_position ds (length (filter (\<lambda>e. e = Step) es)) r r' \<Longrightarrow> same_position ds 0 (run_events es r) (run_events es r')"
proof (induction es arbitrary: r r')
  case (Cons e es)
  then have "same_position ds (if e = Step then Suc (length (filter (\<lambda>e. e = Step) es))
      else length (filter (\<lambda>e. e = Step) es)) r r'" by (cases e) simp_all
  from Cons.IH [OF same_position_event [OF this]] show ?case by (simp add: run_events_def)
qed (simp add: run_events_def)

lemma same_position_shows:
  assumes "same_position ds k r r'"
  shows "snapshot r = snapshot r'" and "replay_compute_indicator reg nm r = replay_compute_indicator reg nm r'"
  using assms by (auto simp: same_position_def snapshot_def replay_compute_indicator_def nth_append)

text \<open>
A replay never looks ahead.  Two replays, one of a series and one of the same series with later
candles appended, show the same snapshots and compute the same indicators (or raise the same error)
under every sequence of operations that steps at most once per candle of the shorter series: nothing
the replay exposes depends on a candle it has not reached.
\<close>

theorem replay_no_lookahead:
  assumes "mk_replay cs = Inr r" and "mk_replay (cs @ ds) = Inr r'"
    and "length (filter (\<lambda>e. e = Step) es) \<le> length cs"
  shows "snapshot (run_events es r) = snapshot (run_events es r') \<and>
    replay_compute_indicator reg nm (run_events es r) = replay_compute_indicator reg nm (run_events es r')"
proof -
  have "same_position ds (length (filter (\<lambda>e. e = Step) es)) r r'"
    using assms by (auto simp: mk_replay_ok same_position_def)
  from same_position_run [OF this] same_position_shows show ?thesis by blast
qed

theorem replay_no_lookahead_witness:
  "\<exists>r r'. mk_replay (take 2 sample_series) = Inr r \<and> mk_replay sample_series = Inr r' \<and>
     snapshot (run_events [Play, Step, Reset, Step] r) = snapshot (run_events [Play, Step, Reset, Step] r')"
proof -
  have "valid_series (take 2 sample_series)"
    using sample_series_valid valid_series_prefix [of "take 2 sample_series" "drop 2 sample_series"]
    by (simp add: sample_series_def)
  then obtain r r' where r: "mk_replay (take 2 sample_series) = Inr r" "mk_replay (take 2 sample_series @ drop 2 sample_series) = Inr r'"
    using sample_series_valid by (auto simp: mk_replay_ok)
  have "length (filter (\<lambda>e. e = Step) [Play, Step, Reset, Step]) \<le> length (take 2 sample_series)"
    by (simp add: sample_series_def)
  from replay_no_lookahead [OF r this] r show ?thesis by auto
qed

text \<open>
A replay can always be finished and always be restarted.  From any reachable state, stepping once
more than there are candles left ends in the finished state with the whole series shown; a finished
replay ignores every operation but a reset, and a reset from anywhere is the state before the first
operation.
\<close>

theorem replay_finishes_and_restarts:
  assumes "reachable cs r"
  shows "let steps = length cs - length (sn_visible_candles (snapshot r)) + 1 in
    is_finished (run_events (replicate steps Step) r) \<and>
    sn_visible_candles (snapshot (run_events (replicate steps Step) r)) = cs \<and>
    (is_finished r \<longrightarrow> (\<forall>e. e \<noteq> Reset \<longrightarrow> apply_event e r = r)) \<and>
    mk_replay cs = Inr (run_events [Reset] r)"
proof -
  have inv: "replay_inv cs r" and valid: "valid_series cs" using reachable_inv [OF assms] by auto
  let ?n = "length cs - length (sn_visible_candles (snapshot r)) + 1"
  have past: "sn_visible_candles (snapshot r) = tp_past (tape_of r)" by (rule snapshot_tape [OF inv])
  have split: "tp_past (tape_of r) @ tp_future (tape_of r) = cs"
    using inv by (simp add: tape_of_def replay_inv_def)
  then have n: "?n = length (tp_future (tape_of r)) + 1" unfolding past by auto
  have "tp_state (tape_of r) = FINISHED \<longrightarrow> tp_future (tape_of r) = []"
    using inv by (auto simp: tape_of_def replay_inv_def)
  from tape_finishes [OF this] split
  have fin: "tp_state (tape_of (run_events (replicate ?n Step) r)) = FINISHED"
    "tp_past (tape_of (run_events (replicate ?n Step) r)) = cs"
    unfolding tape_of_run [OF inv] n by simp_all
  have "sn_visible_candles (snapshot (run_events (replicate ?n Step) r)) = cs"
    using fin(2) snapshot_tape [OF conjunct1 [OF reachable_inv [OF reachable_run [OF assms]]]] by simp
  moreover have "apply_event e r = r" if "is_finished r" "e \<noteq> Reset" for e
    using that by (cases e) (auto simp: is_finished_def replay_defs)
  moreover have "mk_replay cs = Inr (run_events [Reset] r)"
    using inv valid by (simp add: mk_replay_ok run_events_def replay_reset_def replay_inv_def)
  ultimately show ?thesis using fin(1) by (simp add: Let_def is_finished_def tape_of_def)
qed

theorem replay_finishes_and_restarts_witness:
  "\<exists>r. reachable sample_series r \<and> is_finished (run_events (replicate 6 Step) r)"
proof -
  obtain r where r: "mk_replay sample_series = Inr r" using sample_series_valid by (auto simp: mk_replay_ok)
  then have "snapshot r = \<lparr>sn_index = - 1, sn_state = STOPPED, sn_current_candle = None, sn_visible_candles = []\<rparr>"
    by (auto simp: mk_replay_ok snapshot_def)
  moreover have "length sample_series = 5" by (simp add: sample_series_def)
  ultimately show ?thesis
    using replay_finishes_and_restarts [OF reachable.start [OF r]] reachable.start [OF r]
    by (auto simp: Let_def simp del: replicate_Suc replicate.simps)
qed

end
