(* ===== verification/Market_Data.thy ===== *)
theory Market_Data
  imports Domain_Models
begin

text \<open>
  From raw provider values to domain models (\<open>market_data/normalization.py\<close>), the freshness rule
  (\<open>freshness.py\<close>) and last-trade prices (\<open>last_price.py\<close>).  A raw number is what its Python type
  says; the text of a decimal is read by the grammar of \<open>decimal.Decimal\<close> on ASCII text, with an
  unlimited exponent.
\<close>

subsection \<open>Reading a decimal\<close>

text \<open>A value of \<open>Decimal\<close> or \<open>float\<close>: finite, or one of the special values.\<close>

datatype numeric = Finite rat | NaN | Infinite

definition digit_value :: "char \<Rightarrow> nat option" where
  "digit_value c = (let n = of_char c in if 48 \<le> n \<and> n \<le> 57 then Some (n - 48) else None)"

definition is_digit :: "char \<Rightarrow> bool" where
  "is_digit c \<longleftrightarrow> digit_value c \<noteq> None"

definition digits_value :: "string \<Rightarrow> nat" where
  "digits_value s = foldl (\<lambda>a c. 10 * a + the (digit_value c)) 0 s"

fun split_sign :: "string \<Rightarrow> bool \<times> string" where
  "split_sign (c # s) = (if c = CHR ''-'' then (True, s) else if c = CHR ''+'' then (False, s) else (False, c # s))"
| "split_sign [] = (False, [])"

text \<open>An optional exponent: the letter, a sign, and at least one digit.\<close>

definition parse_exponent :: "string \<Rightarrow> int option" where
  "parse_exponent s =
     (case s of
        [] \<Rightarrow> Some 0
      | c # rest \<Rightarrow>
          if lower_char c \<noteq> CHR ''e'' then None
          else
            let (neg, ds) = split_sign rest in
            if ds \<noteq> [] \<and> list_all is_digit ds
            then Some (if neg then - int (digits_value ds) else int (digits_value ds))
            else None)"

definition parse_finite :: "string \<Rightarrow> rat option" where
  "parse_finite s =
     (let whole = takeWhile is_digit s;
          after = dropWhile is_digit s;
          dotted = (after \<noteq> [] \<and> hd after = CHR ''.'');
          fraction = (if dotted then takeWhile is_digit (tl after) else []);
          rest = (if dotted then dropWhile is_digit (tl after) else after)
      in if whole = [] \<and> fraction = [] then None
         else map_option (\<lambda>e. of_nat (digits_value (whole @ fraction)) * pw 10 (e - int (length fraction)))
                (parse_exponent rest))"

definition is_nan_text :: "string \<Rightarrow> bool" where
  "is_nan_text s \<longleftrightarrow>
     (let t = lower s; u = (if t \<noteq> [] \<and> hd t = CHR ''s'' then tl t else t)
      in take 3 u = ''nan'' \<and> list_all is_digit (drop 3 u))"

text \<open>\<open>Decimal(text)\<close> for a stripped text; underscores are dropped, \<open>None\<close> is \<open>InvalidOperation\<close>.\<close>

definition parse_decimal :: "string \<Rightarrow> numeric option" where
  "parse_decimal text =
     (let (neg, s) = split_sign (filter (\<lambda>c. c \<noteq> CHR ''_'') text) in
      if lower s = ''inf'' \<or> lower s = ''infinity'' then Some Infinite
      else if is_nan_text s then Some NaN
      else map_option (\<lambda>x. Finite (if neg then - x else x)) (parse_finite s))"

subsection \<open>Normalization\<close>

datatype raw_numeric =
    RawDecimal numeric
  | RawBool bool
  | RawInt int
  | RawFloat numeric
  | RawStr string
  | RawOther

record raw_candle =
  rc_symbol :: string
  rc_timeframe :: timeframe
  rc_timestamp :: py_datetime
  rc_open :: raw_numeric
  rc_high :: raw_numeric
  rc_low :: raw_numeric
  rc_close :: raw_numeric
  rc_volume :: raw_numeric

record raw_quote =
  rq_symbol :: string
  rq_timestamp :: py_datetime
  rq_bid :: raw_numeric
  rq_ask :: raw_numeric
  rq_last :: raw_numeric
  rq_volume :: "raw_numeric option"

definition normalize_symbol :: "string \<Rightarrow> string result" where
  "normalize_symbol symbol =
     (let stripped = strip symbol in
      raise_if (stripped = []) NormalizationError ''symbol is empty after trimming whitespace''
      (ok (upper stripped)))"

text \<open>\<open>Decimal(str(f))\<close>: the shortest decimal that reads back as the float.\<close>

fun decimal_of_float :: "numeric \<Rightarrow> numeric" where
  "decimal_of_float (Finite f) = Finite (float_repr f)"
| "decimal_of_float v = v"

definition to_decimal :: "raw_numeric \<Rightarrow> string \<Rightarrow> decimal result" where
  "to_decimal v field =
     bind_result
       (case v of
          RawDecimal d \<Rightarrow> ok d
        | RawBool b \<Rightarrow> raise NormalizationError (field @ '': boolean is not a valid numeric input'')
        | RawInt i \<Rightarrow> ok (Finite (of_int i))
        | RawFloat f \<Rightarrow> ok (decimal_of_float f)
        | RawStr s \<Rightarrow>
            let stripped = strip s in
            raise_if (stripped = []) NormalizationError (field @ '': empty numeric string'')
            (case parse_decimal stripped of
               None \<Rightarrow> raise NormalizationError (field @ '': not a valid number'')
             | Some d \<Rightarrow> ok d)
        | RawOther \<Rightarrow> raise NormalizationError (field @ '': unsupported numeric input type''))
       (\<lambda>d. case d of
          Finite x \<Rightarrow> ok x
        | _ \<Rightarrow> raise NormalizationError (field @ '': NaN and Infinity are not allowed''))"

definition normalize_candle :: "raw_candle \<Rightarrow> candle result" where
  "normalize_candle raw =
     bind_result (normalize_symbol (rc_symbol raw)) (\<lambda>symbol.
     bind_result (to_decimal (rc_open raw) ''open'') (\<lambda>op.
     bind_result (to_decimal (rc_high raw) ''high'') (\<lambda>high.
     bind_result (to_decimal (rc_low raw) ''low'') (\<lambda>low.
     bind_result (to_decimal (rc_close raw) ''close'') (\<lambda>cls.
     bind_result (to_decimal (rc_volume raw) ''volume'') (\<lambda>volume.
     mk_candle symbol (rc_timeframe raw) (rc_timestamp raw) op high low cls volume))))))"

definition normalize_quote :: "raw_quote \<Rightarrow> quote result" where
  "normalize_quote raw =
     bind_result (normalize_symbol (rq_symbol raw)) (\<lambda>symbol.
     bind_result (to_decimal (rq_bid raw) ''bid'') (\<lambda>bid.
     bind_result (to_decimal (rq_ask raw) ''ask'') (\<lambda>ask.
     bind_result (to_decimal (rq_last raw) ''last'') (\<lambda>lst.
     bind_result (case rq_volume raw of
         Some v \<Rightarrow> bind_result (to_decimal v ''volume'') (\<lambda>d. ok (Some d))
       | None \<Rightarrow> ok None) (\<lambda>volume.
     mk_quote symbol (rq_timestamp raw) bid ask lst volume)))))"

subsection \<open>Freshness\<close>

definition DEFAULT_CLOCK_SKEW_TOLERANCE :: duration where
  "DEFAULT_CLOCK_SKEW_TOLERANCE = minutes 5"

fun default_max_age :: "timeframe \<Rightarrow> duration" where
  "default_max_age M1 = minutes 5"
| "default_max_age M5 = minutes 15"
| "default_max_age M15 = minutes 45"
| "default_max_age M30 = minutes 90"
| "default_max_age H1 = hours 3"
| "default_max_age H4 = hours 12"
| "default_max_age D1 = days 4"
| "default_max_age W1 = days 10"

definition is_stale :: "py_datetime \<Rightarrow> duration \<Rightarrow> py_datetime \<Rightarrow> duration \<Rightarrow> bool result" where
  "is_stale timestamp max_age now clock_skew_tolerance =
     raise_if (\<not> is_aware timestamp) ValueError ''is_stale: timestamp must be timezone-aware''
     (raise_if (\<not> is_aware now) ValueError ''is_stale: now must be timezone-aware''
     (raise_if (clock_skew_tolerance < 0) ValueError ''is_stale: clock_skew_tolerance must be >= 0''
     (let age = ticks now - ticks timestamp in
      if age < - clock_skew_tolerance then ok True else ok (max_age < age))))"

subsection \<open>Last prices\<close>

record last_price =
  lp_symbol :: string
  lp_price :: decimal
  lp_timestamp :: instant
  lp_timestamp_basis :: string

definition ensure_freshness_eligible :: "last_price \<Rightarrow> unit result" where
  "ensure_freshness_eligible lp =
     raise_if (lp_timestamp_basis lp \<noteq> ''verified'') ProviderDataError
       ''last-price timestamp basis is not verified'' (ok ())"

subsection \<open>Reading back\<close>

lemma show_nat_all_digits: "list_all is_digit (show_nat n)"
proof -
  have "is_digit c" if "c \<in> set (show_nat n)" for c
    using show_nat_digits [OF that] by (simp add: is_digit_def digit_value_def Let_def)
  then show ?thesis by (simp add: list_all_iff)
qed

lemma foldl_digits:
  "list_all is_digit s \<Longrightarrow> foldl (\<lambda>a c. 10 * a + the (digit_value c)) a s = foldl (\<lambda>a c. 10 * a + (of_char c - 48)) a s"
  by (induction s arbitrary: a) (auto simp: is_digit_def digit_value_def Let_def split: if_splits)

lemma digits_value_show [simp]: "digits_value (show_nat n) = n"
  using foldl_digits [OF show_nat_all_digits, of 0 n] read_show_nat [of n]
  by (simp add: digits_value_def read_nat_def)

lemma digits_value_Nil [simp]: "digits_value [] = 0"
  by (simp add: digits_value_def)

lemma foldl_digits_shift:
  "foldl (\<lambda>a c. 10 * a + the (digit_value c)) (a :: nat) s = a * 10 ^ length s + digits_value s"
proof (induction s arbitrary: a)
  case (Cons c s)
  show ?case using Cons.IH [of "10 * a + the (digit_value c)"] Cons.IH [of "the (digit_value c)"]
    by (simp add: digits_value_def algebra_simps)
qed (simp add: digits_value_def)

lemma digits_value_append: "digits_value (s @ t) = digits_value s * 10 ^ length t + digits_value t"
  by (simp add: digits_value_def foldl_append foldl_digits_shift [of "foldl _ 0 s"])

text \<open>The text of a decimal with a fraction, as a provider writes it.\<close>

definition fixed_point :: "bool \<Rightarrow> nat \<Rightarrow> string \<Rightarrow> string" where
  "fixed_point neg whole fraction =
     (if neg then ''-'' else []) @ show_nat whole @ (if fraction = [] then [] else CHR ''.'' # fraction)"

lemma digit_not_special:
  "is_digit c \<Longrightarrow> c \<noteq> CHR ''-'' \<and> c \<noteq> CHR ''+'' \<and> c \<noteq> CHR ''_'' \<and> c \<noteq> CHR ''.'' \<and> \<not> is_space c \<and>
     lower_char c = c \<and> lower_char c \<noteq> CHR ''e'' \<and> lower_char c \<noteq> CHR ''i'' \<and> lower_char c \<noteq> CHR ''n'' \<and> lower_char c \<noteq> CHR ''s''"
  by (auto simp: is_digit_def digit_value_def is_space_def lower_char_def Let_def split: if_splits)

lemma take_while_digits: "list_all is_digit s \<Longrightarrow> takeWhile is_digit s = s"
  and drop_while_digits: "list_all is_digit s \<Longrightarrow> dropWhile is_digit s = []"
  by (auto simp: list_all_iff)

lemma parse_finite_fixed:
  assumes "list_all is_digit fraction"
  shows "parse_finite (show_nat whole @ (if fraction = [] then [] else CHR ''.'' # fraction)) =
    Some ((of_nat (whole * 10 ^ length fraction + digits_value fraction)) / 10 ^ length fraction)"
proof -
  have dot: "\<not> is_digit CHR ''.''" by (simp add: is_digit_def digit_value_def)
  have digits: "takeWhile is_digit (show_nat whole @ u) = show_nat whole @ takeWhile is_digit u"
    "dropWhile is_digit (show_nat whole @ u) = dropWhile is_digit u" for u
    using show_nat_all_digits [of whole] by (simp_all add: list_all_iff)
  have scale: "pw 10 (- int (length fraction)) = 1 / 10 ^ length fraction"
    by (simp add: pw_powi power_int_minus field_simps)
  show ?thesis
    using assms dot
    by (cases "fraction = []")
      (simp_all add: parse_finite_def digits Let_def take_while_digits drop_while_digits show_nat_all_digits parse_exponent_def
        digits_value_append scale pw_def)
qed

lemma parse_decimal_fixed:
  assumes "list_all is_digit fraction"
  shows "parse_decimal (fixed_point neg whole fraction) =
    Some (Finite ((if neg then - 1 else 1) *
      (of_nat (whole * 10 ^ length fraction + digits_value fraction) / 10 ^ length fraction)))"
proof -
  let ?body = "show_nat whole @ (if fraction = [] then [] else CHR ''.'' # fraction)"
  have keep: "filter (\<lambda>c. c \<noteq> CHR ''_'') (fixed_point neg whole fraction) = fixed_point neg whole fraction"
    using show_nat_all_digits [of whole] assms
    by (intro filter_True) (auto simp: fixed_point_def list_all_iff dest: digit_not_special)
  obtain d ds where d: "show_nat whole = d # ds" "is_digit d"
    using show_nat_all_digits [of whole] by (cases "show_nat whole") auto
  have sign: "split_sign (fixed_point neg whole fraction) = (neg, ?body)"
    using d digit_not_special [OF d(2)] by (auto simp: fixed_point_def)
  have no_word: "lower ?body \<noteq> ''inf''" "lower ?body \<noteq> ''infinity''"
    using d digit_not_special [OF d(2)] by (auto simp: lower_def)
  have no_nan: "\<not> is_nan_text ?body"
    using d digit_not_special [OF d(2)] by (auto simp: is_nan_text_def lower_def Let_def)
  have "parse_decimal (fixed_point neg whole fraction) =
      map_option (\<lambda>x. Finite (if neg then - x else x)) (parse_finite ?body)"
    unfolding parse_decimal_def keep sign using no_word no_nan by (simp only: Let_def prod.case if_False de_Morgan_disj simp_thms)
  then show ?thesis
    by (cases neg) (simp_all only: parse_finite_fixed [OF assms] option.map if_True if_False mult_1 mult_minus1)
qed

lemma strip_no_space: "list_all (\<lambda>c. \<not> is_space c) s \<Longrightarrow> strip s = s"
proof -
  assume s: "list_all (\<lambda>c. \<not> is_space c) s"
  have drop: "dropWhile is_space t = t" if "set t \<subseteq> set s" for t
    using that s by (cases t) (auto simp: list_all_iff)
  show ?thesis by (simp add: strip_def lstrip_def drop)
qed

lemma digits_no_space: "list_all is_digit s \<Longrightarrow> list_all (\<lambda>c. \<not> is_space c) s"
  by (simp add: list_all_iff digit_not_special)

lemma fixed_point_no_space: "list_all is_digit fraction \<Longrightarrow> list_all (\<lambda>c. \<not> is_space c) (fixed_point neg whole fraction)"
  using digits_no_space [OF show_nat_all_digits [of whole]] digits_no_space [of fraction]
  by (simp add: fixed_point_def is_space_def)

lemma strip_padding:
  assumes "list_all is_space pre" and "list_all is_space post" and "list_all (\<lambda>c. \<not> is_space c) s" and "s \<noteq> []"
  shows "strip (pre @ s @ post) = s"
proof -
  have skip: "dropWhile is_space (u @ v) = dropWhile is_space v" if "list_all is_space u" for u v
    using that by (induction u) auto
  have keep: "dropWhile is_space (t @ v) = t @ v" if "set t \<subseteq> set s" "t \<noteq> []" for t v
    using that assms(3) by (cases t) (auto simp: list_all_iff)
  have "lstrip (pre @ s @ post) = s @ post"
    using assms(4) by (simp add: lstrip_def skip [OF assms(1)] keep)
  moreover have "lstrip (rev (s @ post)) = rev s"
    using assms(2,4) keep [of "rev s" "[]"] by (simp add: lstrip_def skip)
  ultimately show ?thesis by (simp add: strip_def)
qed

lemma to_decimal_ok: "to_decimal v f = Inr d \<Longrightarrow> v \<noteq> RawOther \<and> (\<forall>b. v \<noteq> RawBool b)"
  by (cases v) (auto simp: to_decimal_def)

lemma to_decimal_any_field: "to_decimal v f = Inr d \<Longrightarrow> to_decimal v g = Inr d"
  by (cases v) (auto simp: to_decimal_def result_simps Let_def split: numeric.splits option.splits)

lemma to_decimal_error: "to_decimal v f = Inl e \<Longrightarrow> err_class e = NormalizationError"
  by (auto simp: to_decimal_def result_simps Let_def split: raw_numeric.splits numeric.splits option.splits)
    (metis numeric.exhaust)+

lemma normalize_symbol_ok:
  "normalize_symbol s = Inr t \<longleftrightarrow> strip s \<noteq> [] \<and> t = upper (strip s)"
  by (auto simp: normalize_symbol_def Let_def)

lemma symbol_field_error: "symbol_field s = Inl e \<Longrightarrow> err_class e = ValueError"
  and aware_field_error: "aware_field n t = Inl e \<Longrightarrow> err_class e = ValueError"
  and positive_field_error: "positive_field x = Inl e \<Longrightarrow> err_class e = ValueError"
  and nonneg_field_error: "nonneg_field x = Inl e \<Longrightarrow> err_class e = ValueError"
  by (auto simp: symbol_field_def aware_field_def positive_field_def nonneg_field_def result_simps
      split: py_datetime.splits)

lemma mk_candle_error: "mk_candle s tf ts a b c d v = Inl e \<Longrightarrow> err_class e = ValueError"
  by (auto simp: mk_candle_def result_simps dest: symbol_field_error aware_field_error positive_field_error nonneg_field_error)

subsection \<open>Properties\<close>

text \<open>
C38: Text and numbers agree, exactly.  The text of a decimal with a sign, a whole part and any number
of fraction digits, padded with any white space, normalizes to the number it denotes, without any
rounding; in particular the text of an integer and the integer itself normalize to the same decimal.
\<close>

theorem decimal_text_round_trip:
  assumes "list_all is_digit fraction" and "list_all is_space pre" and "list_all is_space post"
  shows "to_decimal (RawStr (pre @ fixed_point neg whole fraction @ post)) field =
      Inr ((if neg then - 1 else 1) * (of_nat whole + of_nat (digits_value fraction) / 10 ^ length fraction)) \<and>
    to_decimal (RawStr (pre @ show_int i @ post)) field = to_decimal (RawInt i) field"
proof -
  have parse: "to_decimal (RawStr (pre @ fixed_point n w fr @ post)) field =
      Inr ((if n then - 1 else 1) * (of_nat w + of_nat (digits_value fr) / 10 ^ length fr))"
    if "list_all is_digit fr" for n w fr
  proof -
    have ne: "fixed_point n w fr \<noteq> []" by (simp add: fixed_point_def)
    have "(of_nat (w * 10 ^ length fr + digits_value fr) :: rat) / 10 ^ length fr =
        of_nat w + of_nat (digits_value fr) / 10 ^ length fr" by (simp add: add_divide_distrib)
    then show ?thesis
      unfolding to_decimal_def
      by (simp add: Let_def strip_padding [OF assms(2,3) fixed_point_no_space [OF that] ne] ne parse_decimal_fixed [OF that]
          del: of_nat_add of_nat_mult)
  qed
  have "show_int i = fixed_point (i < 0) (nat \<bar>i\<bar>) []" by (auto simp: show_int_def fixed_point_def)
  then have "to_decimal (RawStr (pre @ show_int i @ post)) field = to_decimal (RawInt i) field"
    using parse [of "[]" "i < 0" "nat \<bar>i\<bar>"] by (auto simp: to_decimal_def)
  with parse [OF assms(1)] show ?thesis by blast
qed

theorem decimal_text_round_trip_witness:
  "to_decimal (RawStr '' -12.050 '') ''open'' = Inr (- (12 + 50 / 1000))"
proof -
  have "list_all is_digit ''050''" "list_all is_space '' ''" "digits_value ''050'' = 50"
    "fixed_point True 12 ''050'' = ''-12.050''" by code_simp+
  with decimal_text_round_trip [of "''050''" "'' ''" "'' ''" True 12 "''open''"] show ?thesis by simp
qed

text \<open>
Normalization is sound and fails closed.  A normalized candle is a valid candle of the trimmed,
upper-cased, non-blank symbol, with an aware timestamp and exactly the numbers its raw fields denote;
every other input raises a normalization or a validation error, never anything else, and a boolean, an
unsupported type, a not-a-number or an infinity is never accepted.
\<close>

theorem normalize_candle_sound:
  "case normalize_candle raw of
     Inr c \<Rightarrow> valid_candle c \<and> c_symbol c = upper (strip (rc_symbol raw)) \<and> c_symbol c \<noteq> [] \<and>
       c_timeframe c = rc_timeframe raw \<and> rc_timestamp raw = Aware (c_timestamp c) \<and>
       (\<forall>(v, x)\<in>{(rc_open raw, c_open c), (rc_high raw, c_high c), (rc_low raw, c_low c),
           (rc_close raw, c_close c), (rc_volume raw, c_volume c)}.
          (\<forall>field. to_decimal v field = Inr x) \<and> v \<noteq> RawOther \<and> (\<forall>b. v \<noteq> RawBool b) \<and>
          v \<notin> {RawDecimal NaN, RawDecimal Infinite, RawFloat NaN, RawFloat Infinite})
   | Inl e \<Rightarrow> err_class e \<in> {NormalizationError, ValueError}"
proof (cases "normalize_candle raw")
  case (Inl e)
  then show ?thesis
    by (auto simp: normalize_candle_def result_simps normalize_symbol_def Let_def
        dest: to_decimal_error mk_candle_error)
next
  case (Inr c)
  then obtain t op hi lo cl vo where ok: "strip (rc_symbol raw) \<noteq> []"
    "to_decimal (rc_open raw) ''open'' = Inr op" "to_decimal (rc_high raw) ''high'' = Inr hi"
    "to_decimal (rc_low raw) ''low'' = Inr lo" "to_decimal (rc_close raw) ''close'' = Inr cl"
    "to_decimal (rc_volume raw) ''volume'' = Inr vo"
    and c: "mk_candle (upper (strip (rc_symbol raw))) (rc_timeframe raw) (rc_timestamp raw) op hi lo cl vo = Inr c"
    by (auto simp: normalize_candle_def result_simps normalize_symbol_ok)
  have special: "to_decimal v g = Inr x \<Longrightarrow>
      v \<notin> {RawDecimal NaN, RawDecimal Infinite, RawFloat NaN, RawFloat Infinite}" for v x g
    by (auto simp: to_decimal_def)
  have "strip (upper (strip (rc_symbol raw))) = upper (strip (rc_symbol raw))" by (simp add: strip_upper)
  then have "c_symbol c = upper (strip (rc_symbol raw))" "c_timeframe c = rc_timeframe raw"
    "rc_timestamp raw = Aware (c_timestamp c)" "c_open c = op" "c_high c = hi" "c_low c = lo" "c_close c = cl"
    "c_volume c = vo" using c by (auto simp: mk_candle_ok_iff)
  with Inr ok mk_candle_valid [OF c] show ?thesis
    by (auto simp: upper_def dest: to_decimal_ok special to_decimal_any_field)
qed

definition sample_raw_candle :: raw_candle where
  "sample_raw_candle = \<lparr>rc_symbol = '' spy '', rc_timeframe = D1, rc_timestamp = Aware 0, rc_open = RawStr ''10.5'',
     rc_high = RawInt 12, rc_low = RawDecimal (Finite 10), rc_close = RawStr '' 11 '', rc_volume = RawStr ''1e3''\<rparr>"

theorem normalize_candle_sound_witness:
  "\<exists>c. normalize_candle sample_raw_candle = Inr c \<and> valid_candle c \<and> c_symbol c = ''SPY''"
proof -
  have "\<not> isl (normalize_candle sample_raw_candle)" "upper (strip (rc_symbol sample_raw_candle)) = ''SPY''"
    by code_simp+
  with normalize_candle_sound [of sample_raw_candle] show ?thesis
    by (cases "normalize_candle sample_raw_candle") simp_all
qed

end
