(* ===== verification/Scanner.thy ===== *)
theory Scanner
  imports Indicator_Engine Market_Data "HOL-Library.AList"
begin

text \<open>
  The scanner (\<open>scanner/types.py\<close>, \<open>filters.py\<close>, \<open>scanner.py\<close>): filters over the latest candle and
  the indicators aligned with it, and the scan of one symbol, which blocks instead of raising.  A
  filter is its name and its evaluation; the texts of decimals, datetimes, durations and exceptions
  that the reasons quote are parameters.
\<close>

record renderer =
  rd_decimal :: "decimal \<Rightarrow> string"
  rd_isoformat :: "instant \<Rightarrow> string"
  rd_duration :: "duration \<Rightarrow> string"
  rd_error :: "error \<Rightarrow> string"

subsection \<open>Types\<close>

type_synonym indicators = "(string \<times> indicator_result) list"

record scan_context =
  sx_symbol :: string
  sx_latest_candle :: candle
  sx_indicators :: indicators

definition current_indicator_point :: "indicators \<Rightarrow> string \<Rightarrow> candle \<Rightarrow> indicator_point option" where
  "current_indicator_point indicators iname latest_candle =
     (case map_of indicators iname of
        None \<Rightarrow> None
      | Some res \<Rightarrow>
          if ir_points res = [] then None
          else let latest_point = last (ir_points res) in
            if pt_timestamp latest_point \<noteq> c_timestamp latest_candle then None else Some latest_point)"

definition latest_single_indicator_value :: "indicators \<Rightarrow> string \<Rightarrow> candle \<Rightarrow> decimal option" where
  "latest_single_indicator_value indicators iname latest_candle =
     (case current_indicator_point indicators iname latest_candle of
        None \<Rightarrow> None
      | Some pt \<Rightarrow> (case pt_values pt of [] \<Rightarrow> None | (key, v) # _ \<Rightarrow> Some v))"

record filter_outcome =
  fo_passed :: bool
  fo_reason :: "string option"

abbreviation passed :: filter_outcome where
  "passed \<equiv> \<lparr>fo_passed = True, fo_reason = None\<rparr>"

abbreviation blocked :: "string \<Rightarrow> filter_outcome" where
  "blocked reason \<equiv> \<lparr>fo_passed = False, fo_reason = Some reason\<rparr>"

record scan_candidate =
  sc_symbol :: string
  sc_latest_candle :: "candle option"
  sc_eligible :: bool
  sc_block_reasons :: "string list"
  sc_indicators :: indicators

definition eligible_candidates :: "scan_candidate list \<Rightarrow> scan_candidate list" where
  "eligible_candidates candidates = filter sc_eligible candidates"

subsection \<open>Filters\<close>

record scan_filter =
  sf_name :: string
  sf_evaluate :: "scan_context \<Rightarrow> filter_outcome result"

definition below :: "decimal option \<Rightarrow> decimal \<Rightarrow> bool" where
  "below bound x \<longleftrightarrow> (case bound of None \<Rightarrow> False | Some b \<Rightarrow> x < b)"

definition above :: "decimal option \<Rightarrow> decimal \<Rightarrow> bool" where
  "above bound x \<longleftrightarrow> (case bound of None \<Rightarrow> False | Some b \<Rightarrow> b < x)"

definition price_range_filter :: "renderer \<Rightarrow> decimal option \<Rightarrow> decimal option \<Rightarrow> scan_filter" where
  "price_range_filter rd min_price max_price =
     \<lparr>sf_name = ''price_range'',
      sf_evaluate = (\<lambda>context.
        let price = c_close (sx_latest_candle context) in
        ok (if below min_price price then
              blocked (''price '' @ rd_decimal rd price @ '' below minimum '' @ rd_decimal rd (the min_price))
            else if above max_price price then
              blocked (''price '' @ rd_decimal rd price @ '' above maximum '' @ rd_decimal rd (the max_price))
            else passed))\<rparr>"

definition minimum_volume_filter :: "renderer \<Rightarrow> decimal \<Rightarrow> scan_filter" where
  "minimum_volume_filter rd min_volume =
     \<lparr>sf_name = ''minimum_volume'',
      sf_evaluate = (\<lambda>context.
        let volume = c_volume (sx_latest_candle context) in
        ok (if volume < min_volume then
              blocked (''volume '' @ rd_decimal rd volume @ '' below minimum '' @ rd_decimal rd min_volume)
            else passed))\<rparr>"

definition liquidity_filter :: "renderer \<Rightarrow> decimal \<Rightarrow> scan_filter" where
  "liquidity_filter rd min_dollar_volume =
     \<lparr>sf_name = ''liquidity'',
      sf_evaluate = (\<lambda>context.
        let dollar_volume = dmul (c_close (sx_latest_candle context)) (c_volume (sx_latest_candle context)) in
        ok (if dollar_volume < min_dollar_volume then
              blocked (''dollar volume '' @ rd_decimal rd dollar_volume @ '' below minimum '' @
                rd_decimal rd min_dollar_volume)
            else passed))\<rparr>"

definition indicator_range_filter ::
    "renderer \<Rightarrow> string \<Rightarrow> string \<Rightarrow> decimal option \<Rightarrow> decimal option \<Rightarrow> scan_filter" where
  "indicator_range_filter rd iname value_key min_value max_value =
     (let name = iname @ ''_'' @ value_key @ ''_range'' in
      \<lparr>sf_name = name,
       sf_evaluate = (\<lambda>context.
         ok (case current_indicator_point (sx_indicators context) iname (sx_latest_candle context) of
               None \<Rightarrow> blocked (''missing current indicator data for '' @ iname)
             | Some pt \<Rightarrow>
                 (case map_of (pt_values pt) value_key of
                    None \<Rightarrow> blocked (iname @ '' has no value '' @ [CHR 0x27] @ value_key @ [CHR 0x27])
                  | Some v \<Rightarrow>
                      if below min_value v then
                        blocked (name @ '': '' @ rd_decimal rd v @ '' below minimum '' @ rd_decimal rd (the min_value))
                      else if above max_value v then
                        blocked (name @ '': '' @ rd_decimal rd v @ '' above maximum '' @ rd_decimal rd (the max_value))
                      else passed)))\<rparr>)"

definition moving_average_alignment_filter ::
    "renderer \<Rightarrow> string \<Rightarrow> string \<Rightarrow> string \<Rightarrow> scan_filter" where
  "moving_average_alignment_filter rd fast_indicator slow_indicator direction =
     (let name = ''ma_alignment_'' @ fast_indicator @ ''_'' @ direction @ ''_'' @ slow_indicator in
      \<lparr>sf_name = name,
       sf_evaluate = (\<lambda>context.
         let value_of = (\<lambda>i. latest_single_indicator_value (sx_indicators context) i (sx_latest_candle context));
             why = (\<lambda>word f s. name @ '': '' @ fast_indicator @ '' ('' @ rd_decimal rd f @ '') not '' @ word @ '' '' @
                slow_indicator @ '' ('' @ rd_decimal rd s @ '')'')
         in ok (case (value_of fast_indicator, value_of slow_indicator) of
              (Some f, Some s) \<Rightarrow>
                if direction = ''above'' \<and> f \<le> s then blocked (why ''above'' f s)
                else if direction = ''below'' \<and> s \<le> f then blocked (why ''below'' f s)
                else passed
            | _ \<Rightarrow> blocked (''missing indicator data for '' @ fast_indicator @ '' or '' @ slow_indicator)))\<rparr>)"

subsection \<open>The scanner\<close>

record scanner =
  sn_registry :: registry
  sn_indicator_names :: "string list"
  sn_filters :: "scan_filter list"
  sn_max_data_age :: "duration option"
  sn_clock :: py_datetime
  sn_allow_stale_data_for_testing :: bool

definition blocked_candidate :: "string \<Rightarrow> string \<Rightarrow> scan_candidate" where
  "blocked_candidate symbol reason =
     \<lparr>sc_symbol = symbol, sc_latest_candle = None, sc_eligible = False, sc_block_reasons = [reason],
      sc_indicators = []\<rparr>"

definition stale_reasons :: "renderer \<Rightarrow> scanner \<Rightarrow> candle \<Rightarrow> string list result" where
  "stale_reasons rd sn latest_candle =
     (if sn_allow_stale_data_for_testing sn then ok []
      else
        let effective_max_age = (case sn_max_data_age sn of
              Some age \<Rightarrow> age | None \<Rightarrow> default_max_age (c_timeframe latest_candle));
            now = sn_clock sn
        in bind_result (is_stale (Aware (c_timestamp latest_candle)) effective_max_age now
             DEFAULT_CLOCK_SKEW_TOLERANCE) (\<lambda>stale.
           ok (if stale then
                 [''stale_data: latest candle '' @ rd_isoformat rd (c_timestamp latest_candle) @
                  '' is not current relative to '' @ rd_isoformat rd (ticks now) @ '' (max age '' @
                  rd_duration rd effective_max_age @ '')'']
               else [])))"

text \<open>One indicator of the loop: an insufficient history blocks, any other error leaves the scan.\<close>

definition compute_one ::
    "renderer \<Rightarrow> scanner \<Rightarrow> candle list \<Rightarrow> indicators \<times> string list \<Rightarrow> string \<Rightarrow> (indicators \<times> string list) result"
  where
  "compute_one rd sn cs acc name =
     (case engine_compute (sn_registry sn) name cs of
        Inr res \<Rightarrow> ok (AList.update name res (fst acc), snd acc)
      | Inl e \<Rightarrow>
          if err_class e = InsufficientDataError
          then ok (fst acc, snd acc @ [''insufficient_history: '' @ rd_error rd e])
          else Inl e)"

definition apply_filter :: "scan_context \<Rightarrow> string list \<Rightarrow> scan_filter \<Rightarrow> string list result" where
  "apply_filter context reasons filt =
     bind_result (sf_evaluate filt context) (\<lambda>outcome.
     ok (if fo_passed outcome then reasons
         else reasons @ [case fo_reason outcome of
            Some reason \<Rightarrow> if reason = [] then sf_name filt @ '': blocked'' else reason
          | None \<Rightarrow> sf_name filt @ '': blocked'']))"

definition scan_one :: "renderer \<Rightarrow> scanner \<Rightarrow> string \<Rightarrow> candle list \<Rightarrow> scan_candidate result" where
  "scan_one rd sn symbol cs =
     (let requested_symbol = upper (strip symbol) in
      if cs = [] then ok (blocked_candidate requested_symbol ''missing_data: no candles supplied'')
      else case validate_candle_series cs of
        Inl e \<Rightarrow>
          if err_class e = InvalidCandleSeriesError
          then ok (blocked_candidate requested_symbol (''invalid_data: '' @ rd_error rd e))
          else Inl e
      | Inr _ \<Rightarrow>
          let actual_symbol = c_symbol (hd cs) in
          if actual_symbol \<noteq> requested_symbol then
            ok (blocked_candidate requested_symbol (''symbol_mismatch: universe key '' @ [CHR 0x27] @ requested_symbol @
              [CHR 0x27] @ '' does not match candle data symbol '' @ [CHR 0x27] @ actual_symbol @ [CHR 0x27]))
          else
            let latest_candle = last cs in
            bind_result (stale_reasons rd sn latest_candle) (\<lambda>reasons.
            bind_result (fold_result (compute_one rd sn cs) ([], reasons) (sn_indicator_names sn)) (\<lambda>(indicators, reasons).
            bind_result (fold_result (apply_filter \<lparr>sx_symbol = requested_symbol, sx_latest_candle = latest_candle,
              sx_indicators = indicators\<rparr>) reasons (sn_filters sn)) (\<lambda>reasons.
            ok \<lparr>sc_symbol = requested_symbol, sc_latest_candle = Some latest_candle,
                sc_eligible = (length reasons = 0), sc_block_reasons = reasons, sc_indicators = indicators\<rparr>))))"

definition scan_universe :: "renderer \<Rightarrow> scanner \<Rightarrow> (string \<times> candle list) list \<Rightarrow> scan_candidate list result" where
  "scan_universe rd sn universe = map_result (\<lambda>(symbol, cs). scan_one rd sn symbol cs) universe"

subsection \<open>What eligibility means\<close>

definition fresh :: "scanner \<Rightarrow> candle \<Rightarrow> bool" where
  "fresh sn c \<longleftrightarrow>
     sn_allow_stale_data_for_testing sn \<or>
     (let age = ticks (sn_clock sn) - c_timestamp c;
          max_age = (case sn_max_data_age sn of Some a \<Rightarrow> a | None \<Rightarrow> default_max_age (c_timeframe c))
      in - DEFAULT_CLOCK_SKEW_TOLERANCE \<le> age \<and> age \<le> max_age)"

lemma tolerance_nonneg: "0 \<le> DEFAULT_CLOCK_SKEW_TOLERANCE"
  by (simp add: DEFAULT_CLOCK_SKEW_TOLERANCE_def minutes_def)

lemma stale_reasons_ok: "stale_reasons rd sn c = Inr rs \<Longrightarrow> rs = [] \<longleftrightarrow> fresh sn c"
  using tolerance_nonneg
  by (auto simp: stale_reasons_def fresh_def is_stale_def result_simps Let_def split: if_splits)

text \<open>The reasons of one indicator and of one filter, and what the two loops leave.\<close>

definition history_reason :: "renderer \<Rightarrow> scanner \<Rightarrow> candle list \<Rightarrow> string \<Rightarrow> string list" where
  "history_reason rd sn cs name = (case engine_compute (sn_registry sn) name cs of
     Inl e \<Rightarrow> [''insufficient_history: '' @ rd_error rd e] | Inr _ \<Rightarrow> [])"

definition filter_reason :: "scan_context \<Rightarrow> scan_filter \<Rightarrow> string list" where
  "filter_reason context filt = (case sf_evaluate filt context of
     Inl e \<Rightarrow> []
   | Inr outcome \<Rightarrow> if fo_passed outcome then []
       else [if fo_reason outcome \<in> {None, Some []} then sf_name filt @ '': blocked'' else the (fo_reason outcome)])"

lemma compute_one_ok:
  assumes "compute_one rd sn cs (ind, rs) n = Inr (ind', rs')"
  shows "rs' = rs @ history_reason rd sn cs n"
    and "map_of ind' = (case engine_compute (sn_registry sn) n cs of
      Inr r \<Rightarrow> (map_of ind)(n \<mapsto> r) | Inl e \<Rightarrow> map_of ind)"
    and "\<And>e. engine_compute (sn_registry sn) n cs = Inl e \<Longrightarrow> err_class e = InsufficientDataError"
  using assms
  by (auto simp: compute_one_def history_reason_def update_conv' split: sum.splits if_splits)

lemma compute_loop:
  assumes "fold_result (compute_one rd sn cs) (ind, rs) names = Inr (ind', rs')"
  shows "rs' = rs @ concat (map (history_reason rd sn cs) names) \<and>
    (\<forall>n. map_of ind' n = (if n \<in> set names then
       (case engine_compute (sn_registry sn) n cs of Inr r \<Rightarrow> Some r | Inl e \<Rightarrow> map_of ind n) else map_of ind n)) \<and>
    (\<forall>n\<in>set names. \<forall>e. engine_compute (sn_registry sn) n cs = Inl e \<longrightarrow> err_class e = InsufficientDataError)"
  using assms
proof (induction names arbitrary: ind rs)
  case (Cons n names)
  from Cons.prems obtain ind1 rs1 where step: "compute_one rd sn cs (ind, rs) n = Inr (ind1, rs1)"
    and rest: "fold_result (compute_one rd sn cs) (ind1, rs1) names = Inr (ind', rs')"
    by (auto simp only: fold_result.simps bind_result_Inr)
  note IH = Cons.IH [OF rest]
  note one = compute_one_ok [OF step]
  show ?case
  proof (intro conjI)
    show "rs' = rs @ concat (map (history_reason rd sn cs) (n # names))" using IH one(1) by simp
    show "\<forall>m. map_of ind' m = (if m \<in> set (n # names) then
       (case engine_compute (sn_registry sn) m cs of Inr r \<Rightarrow> Some r | Inl e \<Rightarrow> map_of ind m) else map_of ind m)"
      using IH one(2) by (auto split: sum.splits)
    show "\<forall>m\<in>set (n # names). \<forall>e. engine_compute (sn_registry sn) m cs = Inl e \<longrightarrow>
        err_class e = InsufficientDataError"
      using IH one(3) by auto
  qed
qed simp

lemma apply_filter_ok:
  "apply_filter context rs f = Inr rs' \<Longrightarrow>
     rs' = rs @ filter_reason context f \<and> (\<exists>outcome. sf_evaluate f context = Inr outcome)"
  by (cases "sf_evaluate f context") (auto simp: apply_filter_def filter_reason_def split: option.splits)

lemma filter_loop:
  "fold_result (apply_filter context) rs filters = Inr rs' \<Longrightarrow>
     rs' = rs @ concat (map (filter_reason context) filters) \<and>
     (\<forall>f\<in>set filters. \<exists>outcome. sf_evaluate f context = Inr outcome)"
proof (induction filters arbitrary: rs)
  case (Cons f filters)
  from Cons.prems obtain rs1 where step: "apply_filter context rs f = Inr rs1"
    and rest: "fold_result (apply_filter context) rs1 filters = Inr rs'"
    by (auto simp only: fold_result.simps bind_result_Inr)
  from Cons.IH [OF rest] apply_filter_ok [OF step] show ?case by simp
qed simp

lemma filter_reason_Nil:
  "sf_evaluate f context = Inr outcome \<Longrightarrow> filter_reason context f = [] \<longleftrightarrow> fo_passed outcome"
  by (simp add: filter_reason_def)

lemma history_reason_Nil: "history_reason rd sn cs n = [] \<longleftrightarrow> (\<exists>r. engine_compute (sn_registry sn) n cs = Inr r)"
  by (simp add: history_reason_def split: sum.splits)

text \<open>The scan of a valid series under its own symbol, and what it computes.\<close>

definition scan_evaluate :: "renderer \<Rightarrow> scanner \<Rightarrow> string \<Rightarrow> candle list \<Rightarrow> scan_candidate result" where
  "scan_evaluate rd sn key cs =
     bind_result (stale_reasons rd sn (last cs)) (\<lambda>rs.
     bind_result (fold_result (compute_one rd sn cs) ([], rs) (sn_indicator_names sn)) (\<lambda>(ind, rs).
     bind_result (fold_result (apply_filter \<lparr>sx_symbol = key, sx_latest_candle = last cs, sx_indicators = ind\<rparr>) rs
       (sn_filters sn)) (\<lambda>rs.
     ok \<lparr>sc_symbol = key, sc_latest_candle = Some (last cs), sc_eligible = (length rs = 0),
         sc_block_reasons = rs, sc_indicators = ind\<rparr>)))"

lemma scan_one_late:
  "valid_series cs \<Longrightarrow> c_symbol (hd cs) = upper (strip symbol) \<Longrightarrow>
     scan_one rd sn symbol cs = scan_evaluate rd sn (upper (strip symbol)) cs"
proof -
  assume v: "valid_series cs" and s: "c_symbol (hd cs) = upper (strip symbol)"
  from v have "cs \<noteq> []" by (simp add: valid_series_def)
  moreover from v have "validate_candle_series cs = Inr ()" by (simp add: validate_ok_iff)
  ultimately show ?thesis using s
    by (simp only: scan_one_def scan_evaluate_def Let_def if_False not_True_eq_False sum.case simp_thms)
qed

lemma scan_evaluate_ok:
  assumes "scan_evaluate rd sn key cs = Inr cand"
  obtains rs1 ind rs2 rs3 where "stale_reasons rd sn (last cs) = Inr rs1"
    "fold_result (compute_one rd sn cs) ([], rs1) (sn_indicator_names sn) = Inr (ind, rs2)"
    "fold_result (apply_filter \<lparr>sx_symbol = key, sx_latest_candle = last cs, sx_indicators = ind\<rparr>) rs2
       (sn_filters sn) = Inr rs3"
    "cand = \<lparr>sc_symbol = key, sc_latest_candle = Some (last cs), sc_eligible = (rs3 = []),
         sc_block_reasons = rs3, sc_indicators = ind\<rparr>"
proof -
  from assms obtain rs1 p rs3 where "stale_reasons rd sn (last cs) = Inr rs1"
    "fold_result (compute_one rd sn cs) ([], rs1) (sn_indicator_names sn) = Inr p"
    "fold_result (apply_filter \<lparr>sx_symbol = key, sx_latest_candle = last cs, sx_indicators = fst p\<rparr>) (snd p)
       (sn_filters sn) = Inr rs3"
    "cand = \<lparr>sc_symbol = key, sc_latest_candle = Some (last cs), sc_eligible = (rs3 = []),
         sc_block_reasons = rs3, sc_indicators = fst p\<rparr>"
    unfolding scan_evaluate_def bind_result_Inr case_prod_beta length_0_conv by blast
  with that show ?thesis by (metis prod.collapse)
qed

lemma scan_one_early:
  assumes "\<not> (valid_series cs \<and> c_symbol (hd cs) = upper (strip symbol))"
  shows "\<exists>reason. scan_one rd sn symbol cs = Inr (blocked_candidate (upper (strip symbol)) reason)"
proof -
  consider "cs = []" | e where "cs \<noteq> []" "validate_candle_series cs = Inl e"
    | "cs \<noteq> []" "validate_candle_series cs = Inr ()" "c_symbol (hd cs) \<noteq> upper (strip symbol)"
    using assms by (cases "validate_candle_series cs") (auto simp: validate_ok_iff)
  then show ?thesis
  proof cases
    case 1
    then show ?thesis by (auto simp only: scan_one_def Let_def refl if_True)
  next
    case 2
    with validate_error [OF 2(2)] show ?thesis
      by (auto simp only: scan_one_def Let_def if_False if_True sum.case refl)
  next
    case 3
    then show ?thesis by (auto simp only: scan_one_def Let_def if_False if_True sum.case refl not_False_eq_True)
  qed
qed

lemma scan_one_evaluates:
  assumes "scan_one rd sn symbol cs = Inr cand"
  shows "sc_symbol cand = upper (strip symbol) \<and>
    (if valid_series cs \<and> c_symbol (hd cs) = upper (strip symbol) then
       (\<exists>rs. stale_reasons rd sn (last cs) = Inr rs \<and>
          sc_latest_candle cand = Some (last cs) \<and> sc_eligible cand = (sc_block_reasons cand = []) \<and>
          sc_block_reasons cand = rs @ concat (map (history_reason rd sn cs) (sn_indicator_names sn)) @
            concat (map (filter_reason \<lparr>sx_symbol = upper (strip symbol), sx_latest_candle = last cs,
              sx_indicators = sc_indicators cand\<rparr>) (sn_filters sn)) \<and>
          (\<forall>f\<in>set (sn_filters sn). \<exists>outcome. sf_evaluate f \<lparr>sx_symbol = upper (strip symbol),
              sx_latest_candle = last cs, sx_indicators = sc_indicators cand\<rparr> = Inr outcome) \<and>
          (\<forall>n. map_of (sc_indicators cand) n = (if n \<in> set (sn_indicator_names sn) then
             (case engine_compute (sn_registry sn) n cs of Inr r \<Rightarrow> Some r | Inl e \<Rightarrow> None) else None)))
     else sc_latest_candle cand = None \<and> \<not> sc_eligible cand \<and> sc_block_reasons cand \<noteq> [] \<and> sc_indicators cand = [])"
proof (cases "valid_series cs \<and> c_symbol (hd cs) = upper (strip symbol)")
  case True
  from assms True have "scan_evaluate rd sn (upper (strip symbol)) cs = Inr cand" by (simp add: scan_one_late)
  then obtain rs1 ind rs2 rs3 where s: "stale_reasons rd sn (last cs) = Inr rs1" and
      c: "fold_result (compute_one rd sn cs) ([], rs1) (sn_indicator_names sn) = Inr (ind, rs2)" and
      f: "fold_result (apply_filter \<lparr>sx_symbol = upper (strip symbol), sx_latest_candle = last cs, sx_indicators = ind\<rparr>) rs2
         (sn_filters sn) = Inr rs3" and
      cand: "cand = \<lparr>sc_symbol = upper (strip symbol), sc_latest_candle = Some (last cs), sc_eligible = (rs3 = []),
           sc_block_reasons = rs3, sc_indicators = ind\<rparr>"
    by (rule scan_evaluate_ok)
  from compute_loop [OF c] have "map_of ind n = (if n \<in> set (sn_indicator_names sn) then
      (case engine_compute (sn_registry sn) n cs of Inr r \<Rightarrow> Some r | Inl e \<Rightarrow> None) else None)" for n
    by (simp split: sum.splits)
  with compute_loop [OF c] filter_loop [OF f] s cand True show ?thesis by simp
next
  case False
  with scan_one_early [OF False, of rd sn] assms show ?thesis by (auto simp: blocked_candidate_def)
qed

lemma scan_eligible_iff:
  assumes "scan_one rd sn symbol cs = Inr cand"
  shows "sc_eligible cand \<longleftrightarrow> valid_series cs \<and> c_symbol (hd cs) = sc_symbol cand \<and> fresh sn (last cs) \<and>
      (\<forall>n\<in>set (sn_indicator_names sn). \<exists>r. engine_compute (sn_registry sn) n cs = Inr r) \<and>
      (\<forall>f\<in>set (sn_filters sn). \<exists>outcome. fo_passed outcome \<and>
         sf_evaluate f \<lparr>sx_symbol = sc_symbol cand, sx_latest_candle = last cs,
           sx_indicators = sc_indicators cand\<rparr> = Inr outcome)"
proof (cases "valid_series cs \<and> c_symbol (hd cs) = upper (strip symbol)")
  case True
  let ?ctx = "\<lparr>sx_symbol = upper (strip symbol), sx_latest_candle = last cs, sx_indicators = sc_indicators cand\<rparr>"
  from scan_one_evaluates [OF assms] True obtain rs where r: "stale_reasons rd sn (last cs) = Inr rs"
    "sc_eligible cand = (sc_block_reasons cand = [])" "sc_symbol cand = upper (strip symbol)"
    "sc_block_reasons cand = rs @ concat (map (history_reason rd sn cs) (sn_indicator_names sn)) @
       concat (map (filter_reason ?ctx) (sn_filters sn))"
    "\<forall>f\<in>set (sn_filters sn). \<exists>outcome. sf_evaluate f ?ctx = Inr outcome" by auto
  then have "(\<forall>f\<in>set (sn_filters sn). filter_reason ?ctx f = []) \<longleftrightarrow>
      (\<forall>f\<in>set (sn_filters sn). \<exists>outcome. fo_passed outcome \<and> sf_evaluate f ?ctx = Inr outcome)"
    by (metis filter_reason_Nil sum.inject(2))
  with r stale_reasons_ok [OF r(1)] True show ?thesis by (simp add: history_reason_Nil)
qed (use scan_one_evaluates [OF assms] in auto)

lemma scan_reads_current:
  assumes "scan_one rd sn symbol cs = Inr cand"
    and "current_indicator_point (sc_indicators cand) n (last cs) = Some pt"
  shows "n \<in> set (sn_indicator_names sn) \<and> pt_timestamp pt = c_timestamp (last cs) \<and>
    (\<exists>r. engine_compute (sn_registry sn) n cs = Inr r \<and> ir_points r \<noteq> [] \<and> pt = last (ir_points r))"
proof -
  from assms(2) obtain r where r: "map_of (sc_indicators cand) n = Some r" "ir_points r \<noteq> []"
      "pt = last (ir_points r)" "pt_timestamp pt = c_timestamp (last cs)"
    unfolding current_indicator_point_def Let_def by (auto split: option.splits if_splits)
  then have "sc_indicators cand \<noteq> []" by auto
  with scan_one_evaluates [OF assms(1)] have "map_of (sc_indicators cand) n = (if n \<in> set (sn_indicator_names sn) then
       (case engine_compute (sn_registry sn) n cs of Inr r \<Rightarrow> Some r | Inl e \<Rightarrow> None) else None)"
    by (auto split: if_splits)
  with r show ?thesis by (auto split: if_splits sum.splits)
qed

subsection \<open>A scan of supplied data never raises\<close>

definition library_filters :: "renderer \<Rightarrow> scan_filter set" where
  "library_filters rd =
     {price_range_filter rd lo hi | lo hi. True} \<union> range (minimum_volume_filter rd) \<union> range (liquidity_filter rd) \<union>
     {indicator_range_filter rd i k lo hi | i k lo hi. True} \<union>
     {moving_average_alignment_filter rd i j d | i j d. True}"

lemma library_filter_total: "f \<in> library_filters rd \<Longrightarrow> \<exists>outcome. sf_evaluate f context = Inr outcome"
  by (auto simp: library_filters_def price_range_filter_def minimum_volume_filter_def liquidity_filter_def
      indicator_range_filter_def moving_average_alignment_filter_def Let_def)

lemma apply_filter_total:
  "f \<in> library_filters rd \<Longrightarrow> \<exists>rs'. apply_filter ctx rs f = Inr rs'"
  using library_filter_total [of f rd ctx] by (auto simp: apply_filter_def)

lemma compute_one_total:
  assumes "registry_ok (sn_registry sn)" and "n \<in> set (registry_names (sn_registry sn))" and "valid_series cs"
  shows "\<exists>acc'. compute_one rd sn cs acc n = Inr acc'"
  using engine_error_class [OF assms(1), of n cs] assms(2,3)
  by (cases "engine_compute (sn_registry sn) n cs") (auto simp: compute_one_def)

lemma fold_result_total:
  "(\<And>s x. x \<in> set xs \<Longrightarrow> \<exists>s'. f s x = Inr s') \<Longrightarrow> \<exists>t. fold_result f s xs = Inr t"
proof (induction xs arbitrary: s)
  case (Cons x xs)
  obtain s' where "f s x = Inr s'" using Cons.prems [of x s] by auto
  moreover obtain t where "fold_result f s' xs = Inr t" using Cons by (metis list.set_intros(2))
  ultimately show ?case by auto
qed simp

lemma stale_reasons_total: "is_aware (sn_clock sn) \<Longrightarrow> \<exists>rs. stale_reasons rd sn c = Inr rs"
proof -
  assume "is_aware (sn_clock sn)"
  then have "\<exists>b. is_stale (Aware t) a (sn_clock sn) DEFAULT_CLOCK_SKEW_TOLERANCE = Inr b" for t a
    using tolerance_nonneg by (auto simp: is_stale_def Let_def)
  then show ?thesis unfolding stale_reasons_def Let_def by (metis bind_result.simps(2))
qed

lemma scan_one_total:
  assumes "registry_ok (sn_registry sn)" and "set (sn_indicator_names sn) \<subseteq> set (registry_names (sn_registry sn))"
    and "set (sn_filters sn) \<subseteq> library_filters rd" and "is_aware (sn_clock sn)"
  shows "\<exists>cand. scan_one rd sn symbol cs = Inr cand"
proof (cases "valid_series cs \<and> c_symbol (hd cs) = upper (strip symbol)")
  case True
  obtain rs1 where s: "stale_reasons rd sn (last cs) = Inr rs1"
    using stale_reasons_total [OF assms(4)] by blast
  obtain ind rs2 where c: "fold_result (compute_one rd sn cs) ([], rs1) (sn_indicator_names sn) = Inr (ind, rs2)"
    using fold_result_total [of "sn_indicator_names sn" "compute_one rd sn cs" "([], rs1)"]
      compute_one_total [OF assms(1) _ conjunct1 [OF True]] assms(2) by (metis subsetD surj_pair)
  obtain rs3 where "fold_result (apply_filter \<lparr>sx_symbol = upper (strip symbol), sx_latest_candle = last cs,
      sx_indicators = ind\<rparr>) rs2 (sn_filters sn) = Inr rs3"
    using fold_result_total apply_filter_total assms(3) by (metis subsetD)
  with s c True show ?thesis by (simp add: scan_one_late scan_evaluate_def)
next
  case False
  with scan_one_early [OF False, of rd sn] show ?thesis by blast
qed

lemma scan_universe_nth:
  assumes "scan_universe rd sn universe = Inr cands" and "i < length universe"
  shows "scan_one rd sn (fst (universe ! i)) (snd (universe ! i)) = Inr (cands ! i)"
  using map_result_Inr_nth [OF assms [unfolded scan_universe_def]] by (simp add: case_prod_beta)

definition plain_renderer :: renderer where
  "plain_renderer = \<lparr>rd_decimal = (\<lambda>d. show_int \<lfloor>d\<rfloor>), rd_isoformat = show_int, rd_duration = show_int, rd_error = err_text\<rparr>"

definition sample_scanner :: scanner where
  "sample_scanner = \<lparr>sn_registry = sample_registry, sn_indicator_names = [''sma_2''],
     sn_filters = [price_range_filter plain_renderer (Some 1) None,
       indicator_range_filter plain_renderer ''sma_2'' ''sma'' (Some 1) (Some 1000)],
     sn_max_data_age = None, sn_clock = Aware (c_timestamp (last sample_series) + minutes 1),
     sn_allow_stale_data_for_testing = False\<rparr>"

text \<open>
C37: The scanner fails closed.  A scanned symbol is eligible exactly when no reason blocks it, which is
exactly when its candles are a valid series of that very symbol, the last candle is neither too old nor
too far in the future at the scanner's clock, every configured indicator could be computed on those
candles and every filter passed; the candidate carries exactly the engine's results, and a filter that
reads an indicator reads the engine's last point, at the latest candle's time, never an older one.
\<close>

theorem scan_fail_closed:
  assumes "scan_one rd sn symbol cs = Inr cand"
  shows "sc_symbol cand = upper (strip symbol) \<and>
    (sc_eligible cand \<longleftrightarrow> sc_block_reasons cand = []) \<and>
    (sc_eligible cand \<longleftrightarrow> valid_series cs \<and> c_symbol (hd cs) = sc_symbol cand \<and> fresh sn (last cs) \<and>
      (\<forall>n\<in>set (sn_indicator_names sn). \<exists>r. engine_compute (sn_registry sn) n cs = Inr r) \<and>
      (\<forall>f\<in>set (sn_filters sn). \<exists>outcome. fo_passed outcome \<and>
         sf_evaluate f \<lparr>sx_symbol = sc_symbol cand, sx_latest_candle = last cs,
           sx_indicators = sc_indicators cand\<rparr> = Inr outcome)) \<and>
    (\<forall>n pt. current_indicator_point (sc_indicators cand) n (last cs) = Some pt \<longrightarrow>
      n \<in> set (sn_indicator_names sn) \<and> pt_timestamp pt = c_timestamp (last cs) \<and>
      (\<exists>r. engine_compute (sn_registry sn) n cs = Inr r \<and> ir_points r \<noteq> [] \<and> pt = last (ir_points r)))"
proof (intro conjI)
  note late = scan_one_evaluates [OF assms]
  from late show "sc_symbol cand = upper (strip symbol)" by simp
  from late show "sc_eligible cand \<longleftrightarrow> sc_block_reasons cand = []" by (auto split: if_splits)
  show "\<forall>n pt. current_indicator_point (sc_indicators cand) n (last cs) = Some pt \<longrightarrow>
      n \<in> set (sn_indicator_names sn) \<and> pt_timestamp pt = c_timestamp (last cs) \<and>
      (\<exists>r. engine_compute (sn_registry sn) n cs = Inr r \<and> ir_points r \<noteq> [] \<and> pt = last (ir_points r))"
    using scan_reads_current [OF assms] by blast
qed (rule scan_eligible_iff [OF assms])

definition sample_candidate :: scan_candidate where
  "sample_candidate = projr (scan_one plain_renderer sample_scanner '' spy '' sample_series)"

lemma sample_scan_runs:
  "scan_one plain_renderer sample_scanner '' spy '' sample_series = Inr sample_candidate"
  "sc_eligible sample_candidate"
  by code_simp+

theorem scan_fail_closed_witness:
  "sc_eligible sample_candidate \<and> fresh sample_scanner (last sample_series) \<and> valid_series sample_series"
  using sample_scan_runs(2) scan_fail_closed [OF sample_scan_runs(1)] by blast

text \<open>
A scan of supplied data always completes.  With registered indicators, the library's own filters and
a timezone-aware clock, scanning a universe raises nothing: whatever candles are supplied, missing,
disordered, mixed, stale or too short, every symbol gets exactly one candidate, in the order of the
universe, and one symbol's data never affects another's.
\<close>

theorem scan_isolates_symbols:
  assumes "registry_ok (sn_registry sn)" and "set (sn_indicator_names sn) \<subseteq> set (registry_names (sn_registry sn))"
    and "set (sn_filters sn) \<subseteq> library_filters rd" and "is_aware (sn_clock sn)"
  shows "\<exists>cands. scan_universe rd sn universe = Inr cands \<and> length cands = length universe \<and>
    (\<forall>i<length universe. sc_symbol (cands ! i) = upper (strip (fst (universe ! i))) \<and>
       scan_universe rd sn [universe ! i] = Inr [cands ! i])"
proof -
  have "\<exists>cand. (case p of (symbol, cs) \<Rightarrow> scan_one rd sn symbol cs) = Inr cand" for p
    using scan_one_total [OF assms] by (cases p) auto
  then have "\<exists>cands. scan_universe rd sn universe = Inr cands"
    unfolding scan_universe_def map_result_ok_iff by (intro ballI)
  then obtain cands where c: "scan_universe rd sn universe = Inr cands" ..
  have "sc_symbol (cands ! i) = upper (strip (fst (universe ! i))) \<and>
       scan_universe rd sn [universe ! i] = Inr [cands ! i]" if "i < length universe" for i
    using scan_universe_nth [OF c that] scan_one_evaluates [OF scan_universe_nth [OF c that]]
    by (simp add: scan_universe_def case_prod_beta)
  with c map_result_Inr_length [OF c [unfolded scan_universe_def]] show ?thesis by blast
qed

lemma sample_filters: "set (sn_filters sample_scanner) \<subseteq> library_filters plain_renderer"
  by (auto simp: sample_scanner_def library_filters_def)

theorem scan_isolates_symbols_witness:
  "\<exists>cands. scan_universe plain_renderer sample_scanner [(''spy'', sample_series), (''qqq'', []), (''dia'', sample_series)] =
     Inr cands \<and> length cands = 3"
proof -
  have "set (sn_indicator_names sample_scanner) \<subseteq> set (registry_names (sn_registry sample_scanner))"
    "registry_ok (sn_registry sample_scanner)" "is_aware (sn_clock sample_scanner)" by code_simp+
  from scan_isolates_symbols [OF this(2,1) sample_filters this(3),
      of "[(''spy'', sample_series), (''qqq'', []), (''dia'', sample_series)]"]
  show ?thesis by auto
qed

end
