(* ===== verification/Scan_Scoring.thy ===== *)
theory Scan_Scoring
  imports Scanner "HOL-Library.Product_Lexorder" "HOL-Library.Multiset"
begin

text \<open>
  Scanner scoring (\<open>scanner/scoring.py\<close> and the score types of \<open>types.py\<close>): the five score
  components, the score of a candidate and the ranking of a scan.  A component is its name, its weight
  and the value it computes, \<open>None\<close> where the candidate's data cannot support one.
\<close>

subsection \<open>Components\<close>

record score_component_fn =
  fn_name :: string
  fn_weight :: decimal
  fn_compute :: "scan_candidate \<Rightarrow> decimal option"

definition with_latest :: "(candle \<Rightarrow> decimal option) \<Rightarrow> scan_candidate \<Rightarrow> decimal option" where
  "with_latest f cand = (case sc_latest_candle cand of None \<Rightarrow> None | Some c \<Rightarrow> f c)"

text \<open>The value of a key at the latest candle's own point.\<close>

definition current_value :: "scan_candidate \<Rightarrow> string \<Rightarrow> string \<Rightarrow> candle \<Rightarrow> decimal option" where
  "current_value cand ind key c =
     (case current_indicator_point (sc_indicators cand) ind c of None \<Rightarrow> None | Some pt \<Rightarrow> map_of (pt_values pt) key)"

definition trend_structure_component :: "string \<Rightarrow> string \<Rightarrow> decimal \<Rightarrow> score_component_fn" where
  "trend_structure_component fast_indicator slow_indicator weight =
     \<lparr>fn_name = ''trend_'' @ fast_indicator @ ''_'' @ slow_indicator, fn_weight = weight,
      fn_compute = (\<lambda>cand. with_latest (\<lambda>c.
        case (latest_single_indicator_value (sc_indicators cand) fast_indicator c,
              latest_single_indicator_value (sc_indicators cand) slow_indicator c) of
          (Some fast_value, Some slow_value) \<Rightarrow>
            if slow_value = 0 then None
            else Some (dmul (ddiv (dsub fast_value slow_value) slow_value) 100)
        | _ \<Rightarrow> None) cand)\<rparr>"

definition momentum_component :: "string \<Rightarrow> decimal \<Rightarrow> score_component_fn" where
  "momentum_component rsi_indicator weight =
     \<lparr>fn_name = ''momentum_'' @ rsi_indicator, fn_weight = weight,
      fn_compute = (\<lambda>cand. with_latest (\<lambda>c.
        map_option (\<lambda>rsi. dsub rsi 50) (current_value cand rsi_indicator ''rsi'' c)) cand)\<rparr>"

definition volume_participation_component :: "string \<Rightarrow> decimal \<Rightarrow> score_component_fn" where
  "volume_participation_component rvol_indicator weight =
     \<lparr>fn_name = ''volume_'' @ rvol_indicator, fn_weight = weight,
      fn_compute = (\<lambda>cand. with_latest (\<lambda>c.
        map_option (\<lambda>rvol. dmul (dsub rvol 1) 100) (current_value cand rvol_indicator ''rvol'' c)) cand)\<rparr>"

definition volatility_context_component :: "string \<Rightarrow> decimal \<Rightarrow> score_component_fn" where
  "volatility_context_component atr_indicator weight =
     \<lparr>fn_name = ''volatility_'' @ atr_indicator, fn_weight = weight,
      fn_compute = (\<lambda>cand. with_latest (\<lambda>c.
        if c_close c = 0 then None
        else map_option (\<lambda>atr. dneg (dmul (ddiv atr (c_close c)) 100)) (current_value cand atr_indicator ''atr'' c)) cand)\<rparr>"

definition liquidity_quality_component :: "decimal \<Rightarrow> decimal \<Rightarrow> decimal \<Rightarrow> score_component_fn result" where
  "liquidity_quality_component min_dollar_volume cap weight =
     raise_if (min_dollar_volume \<le> 0) ValueError ''min_dollar_volume must be > 0''
     (ok \<lparr>fn_name = ''liquidity_quality'', fn_weight = weight,
      fn_compute = (\<lambda>cand. with_latest (\<lambda>c.
        let dollar_volume = dmul (c_close c) (c_volume c)
        in Some (min (ddiv dollar_volume min_dollar_volume) cap)) cand)\<rparr>)"

subsection \<open>Scores and ranking\<close>

record score_component =
  scp_name :: string
  scp_value :: decimal
  scp_weight :: decimal
  scp_weighted_value :: decimal

record scan_score =
  ss_symbol :: string
  ss_eligible :: bool
  ss_block_reasons :: "string list"
  ss_components :: "score_component list"
  ss_total_score :: "decimal option"

definition compute_component :: "scan_candidate \<Rightarrow> score_component_fn \<Rightarrow> score_component option" where
  "compute_component cand fn =
     map_option (\<lambda>v. \<lparr>scp_name = fn_name fn, scp_value = v, scp_weight = fn_weight fn,
       scp_weighted_value = dmul v (fn_weight fn)\<rparr>) (fn_compute fn cand)"

definition score :: "score_component_fn list \<Rightarrow> scan_candidate \<Rightarrow> scan_score" where
  "score components cand =
     (let computed = List.map_filter (compute_component cand) components;
          total_score = (if computed = [] then None else Some (dsum (map scp_weighted_value computed)))
      in \<lparr>ss_symbol = sc_symbol cand, ss_eligible = sc_eligible cand, ss_block_reasons = sc_block_reasons cand,
          ss_components = computed, ss_total_score = total_score\<rparr>)"

definition score_all :: "score_component_fn list \<Rightarrow> scan_candidate list \<Rightarrow> scan_score list" where
  "score_all components candidates = map (score components) candidates"

definition rank_sort_key :: "scan_score \<Rightarrow> bool \<times> decimal" where
  "rank_sort_key s = (ss_total_score s = None, dneg (case ss_total_score s of Some x \<Rightarrow> x | None \<Rightarrow> 0))"

definition rank :: "score_component_fn list \<Rightarrow> scan_candidate list \<Rightarrow> scan_score list" where
  "rank components candidates =
     (let eligible_scores = filter ss_eligible (score_all components candidates)
      in sort_key rank_sort_key eligible_scores)"

subsection \<open>What a score and a ranking hold\<close>

lemma foldl_dadd_representable: "xs \<noteq> [] \<Longrightarrow> representable (foldl dadd a xs)"
  by (induction xs arbitrary: a rule: rev_induct) auto

lemma total_representable: "ss_total_score (score components cand) = Some x \<Longrightarrow> representable x"
  by (auto simp: score_def Let_def dsum_def intro!: foldl_dadd_representable split: if_splits)

text \<open>Higher totals first, a score without a total after every score with one.\<close>

fun outranks :: "decimal option \<Rightarrow> decimal option \<Rightarrow> bool" where
  "outranks _ None = True"
| "outranks None (Some _) = False"
| "outranks (Some x) (Some y) \<longleftrightarrow> y \<le> x"

lemma rank_sort_key_le:
  assumes "\<And>x. ss_total_score s = Some x \<Longrightarrow> representable x" and "\<And>x. ss_total_score t = Some x \<Longrightarrow> representable x"
  shows "rank_sort_key s \<le> rank_sort_key t \<longleftrightarrow> outranks (ss_total_score s) (ss_total_score t)"
    and "rank_sort_key s = rank_sort_key t \<longleftrightarrow> ss_total_score s = ss_total_score t"
  using assms by (cases "ss_total_score s"; cases "ss_total_score t"; simp add: rank_sort_key_def)+

lemma rank_total_representable:
  "s \<in> set (score_all components candidates) \<Longrightarrow> ss_total_score s = Some x \<Longrightarrow> representable x"
  by (auto simp: score_all_def intro: total_representable)

text \<open>
The ranking of a scan.  It holds the scores of exactly the eligible candidates, each once, however
high a blocked candidate would have scored; a higher total comes first, a score without a total comes
last, and candidates of equal total keep the order of the scan.
\<close>

theorem rank_orders_the_eligible:
  "mset (rank components candidates) = mset (map (score components) (eligible_candidates candidates)) \<and>
   sorted_wrt (\<lambda>s t. outranks (ss_total_score s) (ss_total_score t)) (rank components candidates) \<and>
   filter (\<lambda>s. ss_total_score s = best) (rank components candidates) =
     filter (\<lambda>s. ss_total_score s = best) (map (score components) (eligible_candidates candidates))"
proof -
  let ?e = "filter ss_eligible (score_all components candidates)"
  have e: "?e = map (score components) (eligible_candidates candidates)"
    by (simp add: score_all_def eligible_candidates_def filter_map comp_def score_def Let_def)
  have rep: "s \<in> set ?e \<Longrightarrow> ss_total_score s = Some x \<Longrightarrow> representable x" for s x
    by (auto intro: rank_total_representable)
  have "sorted_wrt (\<lambda>s t. rank_sort_key s \<le> rank_sort_key t) (sort_key rank_sort_key ?e)"
    using sorted_sort_key [of rank_sort_key ?e] by (simp add: sorted_map)
  then have ordered: "sorted_wrt (\<lambda>s t. outranks (ss_total_score s) (ss_total_score t)) (sort_key rank_sort_key ?e)"
    by (rule sorted_wrt_mono_rel [rotated]) (use rank_sort_key_le(1) rep in auto)
  have stable: "filter (\<lambda>s. ss_total_score s = best) (sort_key rank_sort_key ?e) =
      filter (\<lambda>s. ss_total_score s = best) ?e"
  proof (cases "\<exists>s\<in>set ?e. ss_total_score s = best")
    case True
    then obtain s where s: "s \<in> set ?e" "ss_total_score s = best" by blast
    have same: "ss_total_score t = best \<longleftrightarrow> rank_sort_key t = rank_sort_key s" if "t \<in> set ?e" for t
      using rank_sort_key_le(2) [of t s, OF rep [OF that] rep [OF s(1)]] s(2) by simp
    have "filter (\<lambda>t. ss_total_score t = best) xs = filter (\<lambda>t. rank_sort_key t = rank_sort_key s) xs"
      if "set xs = set ?e" for xs
      by (rule filter_cong) (use same that in auto)
    then show ?thesis by (simp only: set_sort sort_key_stable)
  qed (simp add: filter_empty_conv)
  from ordered stable show ?thesis by (simp add: rank_def Let_def e [symmetric])
qed

text \<open>
From the universe to the ranking.  Every score of a scan's ranking belongs to a symbol of the
universe whose own candles are a valid series of that symbol, fresh at the scanner's clock, with every
configured indicator computed and every filter passed; its total is the decimal sum of value times weight
over exactly the components that could be computed, in order, and absent only when there are none.
\<close>

theorem ranked_symbols_passed_the_scan:
  assumes "scan_universe rd sn universe = Inr cands" and "s \<in> set (rank components cands)"
  shows "\<exists>(symbol, cs)\<in>set universe. \<exists>cand\<in>set cands.
    ss_symbol s = upper (strip symbol) \<and> ss_block_reasons s = [] \<and>
    valid_series cs \<and> c_symbol (hd cs) = ss_symbol s \<and> fresh sn (last cs) \<and>
    (\<forall>n\<in>set (sn_indicator_names sn). \<exists>r. engine_compute (sn_registry sn) n cs = Inr r) \<and>
    (\<forall>f\<in>set (sn_filters sn). \<exists>outcome. fo_passed outcome \<and>
       sf_evaluate f \<lparr>sx_symbol = ss_symbol s, sx_latest_candle = last cs,
         sx_indicators = sc_indicators cand\<rparr> = Inr outcome) \<and>
    map (\<lambda>p. (scp_name p, scp_value p, scp_weight p)) (ss_components s) =
      [(fn_name f, the (fn_compute f cand), fn_weight f). f \<leftarrow> components, fn_compute f cand \<noteq> None] \<and>
    ss_total_score s = (if ss_components s = [] then None
      else Some (dsum (map (\<lambda>p. dmul (scp_value p) (scp_weight p)) (ss_components s))))"
proof -
  from assms(2) obtain cand where cand: "cand \<in> set cands" "sc_eligible cand" and s: "s = score components cand"
    by (auto simp: rank_def Let_def score_all_def score_def)
  from cand(1) assms(1) obtain symbol cs where u: "(symbol, cs) \<in> set universe" "scan_one rd sn symbol cs = Inr cand"
    unfolding scan_universe_def by (auto dest: map_result_Inr_set)
  have key: "ss_symbol s = sc_symbol cand" and reasons: "ss_block_reasons s = sc_block_reasons cand"
    by (simp_all add: s score_def Let_def)
  have late: "sc_symbol cand = upper (strip symbol)" "sc_block_reasons cand = []"
    using scan_one_evaluates [OF u(2)] cand(2) by (auto split: if_splits)
  note passed = scan_eligible_iff [OF u(2), THEN iffD1, OF cand(2)]
  have comps: "ss_components s = List.map_filter (compute_component cand) components" by (simp add: s score_def Let_def)
  have entries: "map (\<lambda>p. (scp_name p, scp_value p, scp_weight p)) (List.map_filter (compute_component cand) fs) =
      [(fn_name f, the (fn_compute f cand), fn_weight f). f \<leftarrow> fs, fn_compute f cand \<noteq> None]" for fs
    by (induction fs) (auto simp: List.map_filter_simps compute_component_def split: option.splits)
  have weighted: "map scp_weighted_value (List.map_filter (compute_component cand) fs) =
      map (\<lambda>p. dmul (scp_value p) (scp_weight p)) (List.map_filter (compute_component cand) fs)" for fs
    by (induction fs) (auto simp: List.map_filter_simps compute_component_def split: option.splits)
  have best: "ss_total_score s = (if ss_components s = [] then None
      else Some (dsum (map scp_weighted_value (ss_components s))))" by (simp add: s score_def Let_def)
  show ?thesis
    by (rule bexI [OF _ u(1)], unfold prod.case, rule bexI [OF _ cand(1)])
      (unfold key reasons late(2) best comps weighted entries, use passed late(1) in blast)
qed

end
