(* ===== verification/Market_Transport.thy ===== *)
theory Market_Transport
  imports Market_Data
begin

text \<open>
  Fetching from a provider (\<open>market_data/transport.py\<close>) and the rate limiter (\<open>rate_limit.py\<close>).  What the
  network, the clock and the event loop answer is given; an \<open>await\<close> is a step, and the lock of the
  limiter makes the calls of \<open>acquire\<close> a sequence.
\<close>

subsection \<open>One request\<close>

text \<open>What \<open>urlopen\<close> and the reading of its body end with; other exceptions pass through.\<close>

datatype http_outcome =
    Answered "string option" "nat list"
  | HttpStatus nat
  | TimedOut
  | Unreachable string
  | OtherFailure error

definition urllib_fetch :: "(string \<Rightarrow> nat list \<Rightarrow> string result) \<Rightarrow> http_outcome \<Rightarrow> string result" where
  "urllib_fetch decode outcome =
     (case outcome of
        Answered charset body \<Rightarrow> decode (case charset of None \<Rightarrow> ''utf-8'' | Some c \<Rightarrow> if c = [] then ''utf-8'' else c) body
      | HttpStatus code \<Rightarrow>
          if code = 429 then raise ProviderRateLimitedError ''rate-limited (HTTP 429)''
          else if 500 \<le> code \<and> code < 600 then raise ProviderUnavailableError ''returned an HTTP server error''
          else raise ProviderDataError ''returned an HTTP error''
      | TimedOut \<Rightarrow> raise ProviderTimeoutError ''request timed out''
      | Unreachable reason \<Rightarrow> raise ProviderUnavailableError ''request failed''
      | OtherFailure e \<Rightarrow> Inl e)"

subsection \<open>Retries\<close>

definition RETRYABLE_ERRORS :: "exc_class list" where
  "RETRYABLE_ERRORS = [ProviderTimeoutError, ProviderRateLimitedError, ProviderUnavailableError]"

record fetch_world =
  fw_fetch :: "nat \<Rightarrow> string result"
  fw_acquire :: "(nat \<Rightarrow> unit result) option"

datatype fetch_step = Acquire | Fetch | Sleep rat

text \<open>\<open>backoff_base_seconds * (2**attempt_index)\<close>, a product of floats\<close>

definition backoff_delay :: "rat \<Rightarrow> nat \<Rightarrow> rat" where
  "backoff_delay base i = fl53 (base * 2 ^ i)"

text \<open>The steps taken from the attempt \<open>i\<close> on, when \<open>left\<close> attempts are left, and what they end with.\<close>

fun fetch_loop :: "fetch_world \<Rightarrow> rat \<Rightarrow> nat \<Rightarrow> nat \<Rightarrow> error option \<Rightarrow> fetch_step list \<times> string result" where
  "fetch_loop w base i 0 last_error =
     ([], case last_error of None \<Rightarrow> raise AssertionError [] | Some e \<Rightarrow> Inl e)"
| "fetch_loop w base i (Suc left) last_error =
     (case (case fw_acquire w of None \<Rightarrow> ok () | Some acquire \<Rightarrow> acquire i) of
        Inl e \<Rightarrow> ([Acquire], Inl e)
      | Inr _ \<Rightarrow>
          (let begun = (if fw_acquire w = None then [Fetch] else [Acquire, Fetch]) in
           case fw_fetch w i of
             Inr body \<Rightarrow> (begun, ok body)
           | Inl e \<Rightarrow>
               if err_class e \<in> set RETRYABLE_ERRORS
               then (let (steps, outcome) = fetch_loop w base (Suc i) left (Some e)
                     in (begun @ (if 0 < left then [Sleep (backoff_delay base i)] else []) @ steps, outcome))
               else (begun, Inl e)))"

definition fetch_with_retry :: "fetch_world \<Rightarrow> int \<Rightarrow> rat \<Rightarrow> fetch_step list \<times> string result" where
  "fetch_with_retry w max_attempts base =
     (if max_attempts < 1 then ([], raise ValueError ''max_attempts must be >= 1'')
      else fetch_loop w base 0 (nat max_attempts) None)"

subsection \<open>The rate limiter\<close>

record rate_limiter =
  rl_min_interval_seconds :: rat
  rl_last_acquired_at :: "rat option"

definition mk_rate_limiter :: "rat \<Rightarrow> rate_limiter result" where
  "mk_rate_limiter min_interval_seconds =
     raise_if (min_interval_seconds < 0) ValueError ''min_interval_seconds must be >= 0''
     (ok \<lparr>rl_min_interval_seconds = min_interval_seconds, rl_last_acquired_at = None\<rparr>)"

text \<open>What \<open>acquire\<close> asks to sleep for, by a clock that reads \<open>now\<close>.\<close>

definition wait_for :: "rate_limiter \<Rightarrow> rat \<Rightarrow> rat option" where
  "wait_for rl now =
     (case rl_last_acquired_at rl of
        None \<Rightarrow> None
      | Some last_at \<Rightarrow>
          let wait = fl53 (rl_min_interval_seconds rl - fl53 (now - last_at))
          in if 0 < wait then Some wait else None)"

text \<open>
  One call: the clock's first reading, the error of a sleep that fails or is cancelled, and the clock's
  second reading.
\<close>

record limiter_call =
  la_now :: rat
  la_sleep :: "unit result"
  la_after :: rat

definition acquire :: "rate_limiter \<Rightarrow> limiter_call \<Rightarrow> rate_limiter \<times> unit result" where
  "acquire rl call =
     (case (case wait_for rl (la_now call) of None \<Rightarrow> ok () | Some _ \<Rightarrow> la_sleep call) of
        Inl e \<Rightarrow> (rl, Inl e)
      | Inr _ \<Rightarrow> (rl\<lparr>rl_last_acquired_at := Some (la_after call)\<rparr>, ok ()))"

text \<open>Calls one after the other, and the times at which the ones that returned were granted.\<close>

fun granted :: "rate_limiter \<Rightarrow> limiter_call list \<Rightarrow> rat list" where
  "granted rl [] = []"
| "granted rl (call # calls) =
     (case acquire rl call of
        (rl', Inl e) \<Rightarrow> granted rl' calls
      | (rl', Inr _) \<Rightarrow> la_after call # granted rl' calls)"

subsection \<open>Every attempt until one is decisive\<close>

definition decisive :: "string result \<Rightarrow> bool" where
  "decisive outcome \<longleftrightarrow> (case outcome of Inr _ \<Rightarrow> True | Inl e \<Rightarrow> err_class e \<notin> set RETRYABLE_ERRORS)"

definition attempt_steps :: "fetch_world \<Rightarrow> fetch_step list" where
  "attempt_steps w = (if fw_acquire w = None then [Fetch] else [Acquire, Fetch])"

definition limiter_admits :: "fetch_world \<Rightarrow> bool" where
  "limiter_admits w \<longleftrightarrow> (\<forall>acq i. fw_acquire w = Some acq \<longrightarrow> acq i = ok ())"

lemma attempt_admitted:
  "limiter_admits w \<Longrightarrow> (case fw_acquire w of None \<Rightarrow> ok () | Some acq \<Rightarrow> acq i) = ok ()"
  by (simp add: limiter_admits_def split: option.split)

lemma fetch_loop_closed_form:
  assumes admits: "limiter_admits w"
  shows "\<exists>k. i \<le> k \<and> k \<le> i + left \<and> (\<forall>j. i \<le> j \<and> j < k \<longrightarrow> \<not> decisive (fw_fetch w j)) \<and>
    (decisive (fw_fetch w k) \<or> k = i + left) \<and>
    fetch_loop w base i (Suc left) e =
      (concat (map (\<lambda>j. attempt_steps w @ [Sleep (backoff_delay base j)]) [i..<k]) @ attempt_steps w, fw_fetch w k)"
proof (induction left arbitrary: i e)
  case 0
  show ?case
    by (intro exI [of _ i]) (auto simp: attempt_admitted [OF admits] attempt_steps_def Let_def split: sum.splits)
next
  case (Suc left)
  show ?case
  proof (cases "decisive (fw_fetch w i)")
    case True
    then have "fetch_loop w base i (Suc (Suc left)) e = (attempt_steps w, fw_fetch w i)"
      by (auto simp: fetch_loop.simps(2) [of _ _ _ "Suc left"] attempt_admitted [OF admits] attempt_steps_def decisive_def Let_def
          simp del: fetch_loop.simps split: sum.splits)
    with True show ?thesis by (intro exI [of _ i]) auto
  next
    case False
    then obtain err where err: "fw_fetch w i = Inl err" "err_class err \<in> set RETRYABLE_ERRORS"
      by (auto simp: decisive_def split: sum.splits)
    from Suc.IH [of "Suc i" "Some err"] obtain k where k: "Suc i \<le> k" "k \<le> Suc i + left"
      "\<forall>j. Suc i \<le> j \<and> j < k \<longrightarrow> \<not> decisive (fw_fetch w j)" "decisive (fw_fetch w k) \<or> k = Suc i + left"
      "fetch_loop w base (Suc i) (Suc left) (Some err) =
        (concat (map (\<lambda>j. attempt_steps w @ [Sleep (backoff_delay base j)]) [Suc i..<k]) @ attempt_steps w, fw_fetch w k)" by blast
    have "fetch_loop w base i (Suc (Suc left)) e =
        (attempt_steps w @ [Sleep (backoff_delay base i)] @ fst (fetch_loop w base (Suc i) (Suc left) (Some err)),
         snd (fetch_loop w base (Suc i) (Suc left) (Some err)))"
      using err by (simp add: fetch_loop.simps(2) [of _ _ _ "Suc left"] attempt_admitted [OF admits] attempt_steps_def
          case_prod_unfold Let_def del: fetch_loop.simps)
    moreover have "[i..<k] = i # [Suc i..<k]" using k(1) by (simp add: upt_conv_Cons)
    moreover have "\<not> decisive (fw_fetch w j)" if "i \<le> j" "j < k" for j
      using that k(3) False by (cases "j = i") auto
    ultimately show ?thesis using k by (intro exI [of _ k]) auto
  qed
qed

text \<open>
C19: A fetch tries again exactly while an attempt fails in a retryable way and attempts are left: its outcome
is that of the first decisive attempt, or of the last one allowed, so it never makes more requests than
allowed; the limiter is asked before every request, the retries included; and between attempt \<open>i\<close> and the
next it sleeps for the base delay times \<open>2 ^ i\<close>.
\<close>

theorem fetch_retries_until_decided:
  assumes "1 \<le> max_attempts" and "limiter_admits w"
  shows "\<exists>k < nat max_attempts. (\<forall>j<k. \<not> decisive (fw_fetch w j)) \<and>
    (decisive (fw_fetch w k) \<or> k = nat max_attempts - 1) \<and>
    fetch_with_retry w max_attempts base =
      (concat (map (\<lambda>j. attempt_steps w @ [Sleep (backoff_delay base j)]) [0..<k]) @ attempt_steps w, fw_fetch w k)"
proof -
  from assms(1) obtain left where left: "nat max_attempts = Suc left" by (cases "nat max_attempts") auto
  with fetch_loop_closed_form [OF assms(2), of 0 left base None] assms(1) show ?thesis
    by (simp add: fetch_with_retry_def del: fetch_loop.simps) (metis le_imp_less_Suc zero_le)
qed

definition EXAMPLE_FETCH_WORLD :: fetch_world where
  "EXAMPLE_FETCH_WORLD =
     \<lparr>fw_fetch = (\<lambda>i. if i < 2 then raise ProviderUnavailableError ''503'' else ok ''body''),
      fw_acquire = Some (\<lambda>_. ok ())\<rparr>"

theorem fetch_retries_until_decided_witness:
  "\<exists>k<5. snd (fetch_with_retry EXAMPLE_FETCH_WORLD 5 (1 / 2)) = fw_fetch EXAMPLE_FETCH_WORLD k \<and>
     (\<forall>j<k. \<not> decisive (fw_fetch EXAMPLE_FETCH_WORLD j))"
proof -
  have "limiter_admits EXAMPLE_FETCH_WORLD" by (simp add: limiter_admits_def EXAMPLE_FETCH_WORLD_def)
  from fetch_retries_until_decided [OF _ this, of 5 "1 / 2"] show ?thesis by auto
qed

subsection \<open>Spacing\<close>

text \<open>A reading of the clock in whole ticks of \<open>2 ^ -20\<close> seconds, far below the precision of its float.\<close>

definition on_tick :: "rat \<Rightarrow> bool" where
  "on_tick x \<longleftrightarrow> (\<exists>m::int. x = of_int m * pw 2 (- 20) \<and> \<bar>m\<bar> \<le> 2 ^ 51)"

lemma tick_exact:
  assumes "x = of_int m * pw 2 (- 20)" and "\<bar>m\<bar> \<le> 2 ^ 53"
  shows "fl53 x = x"
  unfolding fl53_def by (rule round_to_exact [OF _ _ assms(1)]) (use assms(2) in simp_all)

lemma exact_wait:
  assumes "on_tick i" "on_tick a" "on_tick b"
  shows "fl53 (i - fl53 (b - a)) = i - (b - a)"
proof -
  from assms obtain l m n where eq: "i = of_int l * pw 2 (- 20)" "a = of_int m * pw 2 (- 20)" "b = of_int n * pw 2 (- 20)"
    and le: "\<bar>l\<bar> \<le> 2 ^ 51" "\<bar>m\<bar> \<le> 2 ^ 51" "\<bar>n\<bar> \<le> 2 ^ 51" by (auto simp: on_tick_def)
  have "fl53 (b - a) = b - a" by (rule tick_exact [of _ "n - m"]) (use eq le in \<open>auto simp: algebra_simps\<close>)
  moreover have "fl53 (i - (b - a)) = i - (b - a)"
    by (rule tick_exact [of _ "l - (n - m)"]) (use eq le in \<open>auto simp: algebra_simps\<close>)
  ultimately show ?thesis by simp
qed

text \<open>
  What the clock and the event loop promise: the clock does not run backwards, and a sleep that returns has
  lasted at least as long as asked.
\<close>

fun honest :: "rate_limiter \<Rightarrow> limiter_call list \<Rightarrow> bool" where
  "honest rl [] \<longleftrightarrow> True"
| "honest rl (call # calls) \<longleftrightarrow>
     on_tick (la_now call) \<and> on_tick (la_after call) \<and> la_now call \<le> la_after call \<and>
     (\<forall>last_at. rl_last_acquired_at rl = Some last_at \<longrightarrow> last_at \<le> la_now call) \<and>
     (\<forall>wait. wait_for rl (la_now call) = Some wait \<and> la_sleep call = ok () \<longrightarrow> la_now call + wait \<le> la_after call) \<and>
     honest (fst (acquire rl call)) calls"

lemma acquire_fields:
  "rl_min_interval_seconds (fst (acquire rl call)) = rl_min_interval_seconds rl"
  by (auto simp: acquire_def split: option.splits sum.splits)

lemma granted_spaced:
  assumes "honest rl calls" and "on_tick (rl_min_interval_seconds rl)" and "0 \<le> rl_min_interval_seconds rl"
    and "\<And>t. rl_last_acquired_at rl = Some t \<Longrightarrow> on_tick t"
  shows "sorted_wrt (\<lambda>a b. a + rl_min_interval_seconds rl \<le> b) (granted rl calls) \<and>
    (\<forall>t. rl_last_acquired_at rl = Some t \<longrightarrow> (\<forall>g\<in>set (granted rl calls). t + rl_min_interval_seconds rl \<le> g))"
  using assms
proof (induction calls arbitrary: rl)
  case (Cons call calls)
  let ?i = "rl_min_interval_seconds rl"
  obtain rl' r where step: "acquire rl call = (rl', r)" by (cases "acquire rl call")
  have same: "rl_min_interval_seconds rl' = ?i" using acquire_fields [of rl call] step by simp
  show ?case
  proof (cases r)
    case (Inl e)
    with step have "rl' = rl" by (auto simp: acquire_def split: option.splits sum.splits)
    with Cons.IH [of rl] Cons.prems step Inl show ?thesis by auto
  next
    case (Inr u)
    with step have rl': "rl_last_acquired_at rl' = Some (la_after call)"
      by (auto simp: acquire_def split: option.splits sum.splits)
    have IH: "sorted_wrt (\<lambda>a b. a + ?i \<le> b) (granted rl' calls)" "\<forall>g\<in>set (granted rl' calls). la_after call + ?i \<le> g"
      using Cons.IH [of rl'] Cons.prems step rl' same by auto
    have spaced: "t + ?i \<le> la_after call" if last_at: "rl_last_acquired_at rl = Some t" for t
    proof -
      have exact: "fl53 (?i - fl53 (la_now call - t)) = ?i - (la_now call - t)"
        using Cons.prems last_at by (intro exact_wait) auto
      show ?thesis
      proof (cases "0 < ?i - (la_now call - t)")
        case True
        then have "wait_for rl (la_now call) = Some (?i - (la_now call - t))"
          using last_at exact by (simp add: wait_for_def Let_def)
        moreover from this step Inr have "la_sleep call = ok ()" by (auto simp: acquire_def split: sum.splits)
        ultimately have "la_now call + (?i - (la_now call - t)) \<le> la_after call" using Cons.prems(1) by simp
        then show ?thesis by (simp add: algebra_simps)
      next
        case False
        then show ?thesis using Cons.prems(1) by auto
      qed
    qed
    have "\<forall>g\<in>set (granted rl' calls). t + ?i \<le> g" if "rl_last_acquired_at rl = Some t" for t
      using IH(2) spaced [OF that] Cons.prems(3) by fastforce
    with IH spaced step Inr show ?thesis by auto
  qed
qed simp

text \<open>
C20: Whatever calls of \<open>acquire\<close> follow each other, those among them included whose sleep fails or is
cancelled, the times at which the limiter lets a request pass are at least the configured interval apart,
provided the clock does not run backwards and a sleep lasts as long as asked.
\<close>

theorem grants_are_spaced:
  assumes "mk_rate_limiter interval = Inr rl" and "on_tick interval" and "honest rl calls"
  shows "sorted_wrt (\<lambda>a b. a + interval \<le> b) (granted rl calls)"
proof -
  from assms(1) have rl: "rl = \<lparr>rl_min_interval_seconds = interval, rl_last_acquired_at = None\<rparr>" "0 \<le> interval"
    by (auto simp: mk_rate_limiter_def)
  with granted_spaced [OF assms(3)] assms(2) show ?thesis by simp
qed

theorem grants_are_spaced_witness:
  "granted \<lparr>rl_min_interval_seconds = 1, rl_last_acquired_at = None\<rparr>
     [\<lparr>la_now = 0, la_sleep = ok (), la_after = 0\<rparr>, \<lparr>la_now = 0, la_sleep = raise RuntimeError ''cancelled'', la_after = 0\<rparr>,
      \<lparr>la_now = 0, la_sleep = ok (), la_after = 2\<rparr>] = [0, 2] \<and> sorted_wrt (\<lambda>a b. a + 1 \<le> b) [0 :: rat, 2]"
proof -
  let ?rl = "\<lparr>rl_min_interval_seconds = 1, rl_last_acquired_at = None\<rparr>"
  let ?calls = "[\<lparr>la_now = 0, la_sleep = ok (), la_after = 0\<rparr>, \<lparr>la_now = 0, la_sleep = raise RuntimeError ''cancelled'', la_after = 0\<rparr>,
      \<lparr>la_now = 0, la_sleep = ok (), la_after = 2\<rparr>]"
  have ticks: "on_tick 0" "on_tick 1" "on_tick 2"
    unfolding on_tick_def by (rule exI [of _ 0] exI [of _ "2 ^ 20"] exI [of _ "2 ^ 21"], simp add: pw_def)+
  have exact: "fl53 (1 - fl53 (0 - 0)) = 1" using exact_wait [OF ticks(2) ticks(1) ticks(1)] by simp
  have run: "granted ?rl ?calls = [0, 2]" using exact by (simp add: acquire_def wait_for_def Let_def)
  have "honest ?rl ?calls" using ticks exact by (simp add: acquire_def wait_for_def Let_def)
  with grants_are_spaced [of 1 ?rl ?calls] ticks(2) run show ?thesis by (simp add: mk_rate_limiter_def)
qed

end
