(* ===== verification/Stooq.thy ===== *)
theory Stooq
  imports Market_Transport
begin

text \<open>
  The Stooq provider (\<open>market_data/providers/stooq.py\<close>) with what it uses of the standard library: the CSV
  reader of the module \<open>csv\<close> in its default dialect, \<open>csv.DictReader\<close>, \<open>datetime.strptime\<close> with the two
  formats of the provider, and \<open>urllib.parse.quote\<close>, all on ASCII text.
\<close>

subsection \<open>CSV\<close>

text \<open>The lines of an \<open>io.StringIO\<close>, each with its line feed.\<close>

fun lines_of :: "string \<Rightarrow> string list" where
  "lines_of [] = []"
| "lines_of (c # s) =
     (if c = CHR 0x0A then [c] # lines_of s
      else case lines_of s of [] \<Rightarrow> [[c]]
           | l # ls \<Rightarrow> (c # l) # ls)"

datatype csv_state = StartRecord | StartField | InField | InQuotedField | QuoteInQuotedField | EatCrnl

record csv_reader =
  cr_state :: csv_state
  cr_fields :: "string list"
  cr_field :: string

definition CSV_START :: csv_reader where
  "CSV_START = \<lparr>cr_state = StartRecord, cr_fields = [], cr_field = []\<rparr>"

definition add_char :: "char \<Rightarrow> csv_state \<Rightarrow> csv_reader \<Rightarrow> csv_reader result" where
  "add_char c state r =
     raise_if (131072 \<le> length (cr_field r)) CsvError ''field larger than field limit (131072)''
     (ok (r\<lparr>cr_field := cr_field r @ [c], cr_state := state\<rparr>))"

definition save_field :: "csv_state \<Rightarrow> csv_reader \<Rightarrow> csv_reader" where
  "save_field state r = r\<lparr>cr_fields := cr_fields r @ [cr_field r], cr_field := [], cr_state := state\<rparr>"

text \<open>One character; nothing is the end of the line.\<close>

definition in_field :: "char option \<Rightarrow> csv_state \<Rightarrow> csv_reader \<Rightarrow> csv_reader result" where
  "in_field c state r =
     (case c of
        None \<Rightarrow> ok (save_field StartRecord r)
      | Some c \<Rightarrow>
          if c \<in> {CHR 0x0A, CHR 0x0D} then ok (save_field EatCrnl r)
          else if c = CHR '','' then ok (save_field StartField r)
          else add_char c state r)"

definition csv_char :: "csv_reader \<Rightarrow> char option \<Rightarrow> csv_reader result" where
  "csv_char r c =
     (case cr_state r of
        StartRecord \<Rightarrow>
          (if c = None then ok r
           else if c \<in> {Some (CHR 0x0A), Some (CHR 0x0D)} then ok (r\<lparr>cr_state := EatCrnl\<rparr>)
           else if c = Some (CHR 0x22) then ok (r\<lparr>cr_state := InQuotedField\<rparr>)
           else in_field c InField r)
      | StartField \<Rightarrow>
          (if c = Some (CHR 0x22) then ok (r\<lparr>cr_state := InQuotedField\<rparr>) else in_field c InField r)
      | InField \<Rightarrow> in_field c InField r
      | InQuotedField \<Rightarrow>
          (case c of
             None \<Rightarrow> ok r
           | Some c \<Rightarrow> if c = CHR 0x22 then ok (r\<lparr>cr_state := QuoteInQuotedField\<rparr>) else add_char c InQuotedField r)
      | QuoteInQuotedField \<Rightarrow>
          (if c = Some (CHR 0x22) then add_char (CHR 0x22) InQuotedField r else in_field c InField r)
      | EatCrnl \<Rightarrow>
          (case c of
             None \<Rightarrow> ok (r\<lparr>cr_state := StartRecord\<rparr>)
           | Some c \<Rightarrow>
               if c \<in> {CHR 0x0A, CHR 0x0D} then ok r
               else raise CsvError ''new-line character seen in unquoted field''))"

definition csv_line :: "csv_reader \<Rightarrow> string \<Rightarrow> csv_reader result" where
  "csv_line r line = fold_result csv_char r (map Some line @ [None])"

text \<open>The records in order; an error ends them.\<close>

fun csv_rows :: "csv_reader \<Rightarrow> string list \<Rightarrow> string list result list" where
  "csv_rows r [] =
     (if cr_field r \<noteq> [] \<or> cr_state r = InQuotedField then [ok (cr_fields r @ [cr_field r])] else [])"
| "csv_rows r (line # lines) =
     (case csv_line r line of
        Inl e \<Rightarrow> [Inl e]
      | Inr r' \<Rightarrow>
          if cr_state r' = StartRecord then ok (cr_fields r') # csv_rows CSV_START lines
          else csv_rows r' lines)"

text \<open>
  \<open>csv.DictReader\<close>: the first record names the columns; an empty record is skipped; a row that is too short
  has \<open>None\<close> for the columns it lacks.
\<close>

type_synonym csv_row = "string \<Rightarrow> string option option"

definition dict_row :: "string list \<Rightarrow> string list \<Rightarrow> csv_row" where
  "dict_row header row =
     map_of (rev (zip header (map Some row @ replicate (length header - length row) None)))"

definition dict_rows :: "string \<Rightarrow> csv_row result list" where
  "dict_rows text =
     (case csv_rows CSV_START (lines_of text) of
        [] \<Rightarrow> []
      | Inl e # _ \<Rightarrow> [Inl e]
      | Inr header # rows \<Rightarrow> map (map_sum (\<lambda>e. e) (dict_row header)) (filter (\<lambda>r. r \<noteq> Inr []) rows))"

subsection \<open>Dates\<close>

text \<open>One or two digits with a value in the range.\<close>

definition number_field :: "nat \<Rightarrow> nat \<Rightarrow> string \<Rightarrow> nat option" where
  "number_field lo hi s =
     (if s \<noteq> [] \<and> length s \<le> 2 \<and> list_all is_digit s \<and> lo \<le> digits_value s \<and> digits_value s \<le> hi
      then Some (digits_value s) else None)"

definition day_field :: "string \<Rightarrow> nat option" where
  "day_field s = (if s \<noteq> [] \<and> hd s = CHR '' '' then (if length s = 2 then number_field 1 9 (tl s) else None) else number_field 1 31 s)"

definition leap_year :: "nat \<Rightarrow> bool" where
  "leap_year y \<longleftrightarrow> y mod 4 = 0 \<and> (y mod 100 \<noteq> 0 \<or> y mod 400 = 0)"

definition days_in_month :: "nat \<Rightarrow> nat \<Rightarrow> nat" where
  "days_in_month y m = (if m = 2 \<and> leap_year y then 29 else [0, 31, 28, 31, 30, 31, 30, 31, 31, 30, 31, 30, 31] ! m)"

text \<open>Microseconds since the first of January of the year one.\<close>

definition instant_of :: "nat \<Rightarrow> nat \<Rightarrow> nat \<Rightarrow> nat \<Rightarrow> nat \<Rightarrow> nat \<Rightarrow> instant" where
  "instant_of y mo d h mi s =
     (let earlier = (y - 1) * 365 + (y - 1) div 4 - (y - 1) div 100 + (y - 1) div 400;
          days = earlier + sum_list (map (days_in_month y) [1..<mo]) + (d - 1)
      in (int days * 86400 + int h * 3600 + int mi * 60 + int s) * 1000000)"

text \<open>The year, the month, the text of the day, and what follows the second hyphen's first field.\<close>

definition split_date :: "string \<Rightarrow> (nat \<times> nat \<times> string) option" where
  "split_date s =
     (let year = take 4 s; rest = drop 4 s in
      if length year = 4 \<and> list_all is_digit year \<and> rest \<noteq> [] \<and> hd rest = CHR ''-'' then
        (let month = takeWhile is_digit (tl rest); rest = dropWhile is_digit (tl rest) in
         if rest \<noteq> [] \<and> hd rest = CHR ''-'' then
           (case number_field 1 12 month of None \<Rightarrow> None | Some m \<Rightarrow> Some (digits_value year, m, tl rest))
         else None)
      else None)"

definition checked_instant :: "nat \<Rightarrow> nat \<Rightarrow> nat \<Rightarrow> nat \<Rightarrow> nat \<Rightarrow> nat \<Rightarrow> instant option" where
  "checked_instant y mo d h mi s =
     (if 1 \<le> y \<and> d \<le> days_in_month y mo \<and> s \<le> 59 then Some (instant_of y mo d h mi s) else None)"

text \<open>\<open>"%Y-%m-%d"\<close>\<close>

definition parse_date :: "string \<Rightarrow> instant option" where
  "parse_date s =
     Option.bind (split_date s) (\<lambda>(y, m, day).
     Option.bind (day_field day) (\<lambda>d. checked_instant y m d 0 0 0))"

text \<open>\<open>"%Y-%m-%d %H:%M:%S"\<close>\<close>

definition parse_clock :: "string \<Rightarrow> (nat \<times> nat \<times> nat) option" where
  "parse_clock s =
     (let hour = takeWhile is_digit s; r1 = dropWhile is_digit s;
          minute = takeWhile is_digit (tl r1); r2 = dropWhile is_digit (tl r1)
      in if r1 \<noteq> [] \<and> hd r1 = CHR '':'' \<and> r2 \<noteq> [] \<and> hd r2 = CHR '':'' then
           Option.bind (number_field 0 23 hour) (\<lambda>h.
           Option.bind (number_field 0 59 minute) (\<lambda>m.
           Option.bind (number_field 0 61 (tl r2)) (\<lambda>t. Some (h, m, t))))
         else None)"

definition parse_timestamp :: "string \<Rightarrow> instant option" where
  "parse_timestamp s =
     Option.bind (split_date s) (\<lambda>(y, m, rest).
     let day = (if rest \<noteq> [] \<and> hd rest = CHR '' '' then take 2 rest else takeWhile is_digit rest);
         after = drop (length day) rest
     in if after \<noteq> [] \<and> is_space (hd after) then
          Option.bind (day_field day) (\<lambda>d.
          Option.bind (parse_clock (dropWhile is_space after)) (\<lambda>(h, mi, t). checked_instant y m d h mi t))
        else None)"

subsection \<open>Parsing a response\<close>

definition NO_DATA_MARKERS :: "string list" where
  "NO_DATA_MARKERS = [''N/D'', []]"

definition QUOTE_FIELDS :: "string list" where
  "QUOTE_FIELDS = [''Date'', ''Time'', ''Open'', ''High'', ''Low'', ''Close'']"

definition HISTORY_FIELDS :: "string list" where
  "HISTORY_FIELDS = [''Date'', ''Open'', ''High'', ''Low'', ''Close'', ''Volume'']"

definition missing_fields :: "string list \<Rightarrow> csv_row \<Rightarrow> string list" where
  "missing_fields names row = filter (\<lambda>f. row f = None) names"

text \<open>\<open>row[field].strip()\<close>: a column that the row lacks is \<open>None\<close>, which has no such method.\<close>

definition stripped_field :: "csv_row \<Rightarrow> string \<Rightarrow> string result" where
  "stripped_field row field =
     (case row field of
        None \<Rightarrow> raise KeyError field
      | Some None \<Rightarrow> raise AttributeError ''NoneType object has no attribute strip''
      | Some (Some v) \<Rightarrow> ok (strip v))"

text \<open>The text of a column in an f-string, and its value as a raw number.\<close>

definition shown_field :: "csv_row \<Rightarrow> string \<Rightarrow> string" where
  "shown_field row field = (case row field of Some (Some v) \<Rightarrow> v | _ \<Rightarrow> ''None'')"

definition raw_field :: "csv_row \<Rightarrow> string \<Rightarrow> raw_numeric" where
  "raw_field row field = (case row field of Some (Some v) \<Rightarrow> RawStr v | _ \<Rightarrow> RawOther)"

definition parse_last_price_csv :: "string \<Rightarrow> string \<Rightarrow> last_price result" where
  "parse_last_price_csv raw_text symbol =
     (case dict_rows (strip raw_text) of
        [] \<Rightarrow> raise ProviderDataError ''stooq quote response had no data rows''
      | Inl e # _ \<Rightarrow> Inl e
      | Inr row # _ \<Rightarrow>
          raise_if (missing_fields QUOTE_FIELDS row \<noteq> []) ProviderDataError ''stooq quote response missing field(s)''
          (bind_result (stripped_field row ''Close'') (\<lambda>close.
           raise_if (close \<in> set NO_DATA_MARKERS) ProviderDataError ''stooq has no quote data for this symbol''
           (case parse_timestamp (shown_field row ''Date'' @ '' '' @ shown_field row ''Time'') of
              None \<Rightarrow> raise ProviderDataError ''unparseable stooq quote timestamp''
            | Some t \<Rightarrow>
                bind_result (normalize_symbol symbol) (\<lambda>symbol.
                bind_result (to_decimal (raw_field row ''Close'') ''price'') (\<lambda>price.
                ok \<lparr>lp_symbol = symbol, lp_price = price, lp_timestamp = t, lp_timestamp_basis = ''unverified''\<rparr>))))))"

text \<open>\<open>any(row[field].strip() in _NO_DATA_MARKERS for field in ...)\<close>\<close>

fun marked_no_data :: "csv_row \<Rightarrow> string list \<Rightarrow> bool result" where
  "marked_no_data row [] = ok False"
| "marked_no_data row (field # rest) =
     bind_result (stripped_field row field) (\<lambda>v.
     if v \<in> set NO_DATA_MARKERS then ok True else marked_no_data row rest)"

definition history_row :: "string \<Rightarrow> timeframe \<Rightarrow> csv_row \<Rightarrow> raw_candle option result" where
  "history_row symbol timeframe row =
     raise_if (missing_fields HISTORY_FIELDS row \<noteq> []) ProviderDataError ''stooq history response missing field(s)''
     (bind_result (marked_no_data row HISTORY_FIELDS) (\<lambda>no_data.
      if no_data then ok None
      else
        (case parse_date (shown_field row ''Date'') of
           None \<Rightarrow> raise ProviderDataError ''unparseable stooq history date''
         | Some t \<Rightarrow> ok (Some \<lparr>rc_symbol = symbol, rc_timeframe = timeframe, rc_timestamp = Aware t,
             rc_open = raw_field row ''Open'', rc_high = raw_field row ''High'', rc_low = raw_field row ''Low'',
             rc_close = raw_field row ''Close'', rc_volume = raw_field row ''Volume''\<rparr>))))"

fun history_rows :: "string \<Rightarrow> timeframe \<Rightarrow> csv_row result list \<Rightarrow> raw_candle list result" where
  "history_rows symbol timeframe [] = ok []"
| "history_rows symbol timeframe (r # rows) =
     bind_result r (\<lambda>row.
     bind_result (history_row symbol timeframe row) (\<lambda>first.
     bind_result (history_rows symbol timeframe rows) (\<lambda>rest.
     ok (case first of None \<Rightarrow> rest | Some c \<Rightarrow> c # rest))))"

definition parse_history_csv :: "string \<Rightarrow> string \<Rightarrow> timeframe \<Rightarrow> raw_candle list result" where
  "parse_history_csv raw_text symbol timeframe =
     (let stripped = strip raw_text in
      if stripped = [] \<or> take 7 (lower stripped) = ''no data'' then ok []
      else history_rows symbol timeframe (dict_rows stripped))"

subsection \<open>The provider\<close>

text \<open>\<open>url_quote(..., safe=".")\<close> on ASCII text\<close>

definition hex_digit :: "nat \<Rightarrow> char" where
  "hex_digit n = ''0123456789ABCDEF'' ! n"

definition unreserved :: "char \<Rightarrow> bool" where
  "unreserved c \<longleftrightarrow> is_digit c \<or> (let l = of_char (lower_char c) :: nat in 97 \<le> l \<and> l \<le> 122) \<or> c \<in> set ''_.-~''"

definition url_quote :: "string \<Rightarrow> string" where
  "url_quote s = concat (map (\<lambda>c. if unreserved c then [c]
     else CHR ''%'' # [hex_digit (of_char c div 16), hex_digit (of_char c mod 16)]) s)"

definition to_vendor_symbol :: "string \<Rightarrow> string" where
  "to_vendor_symbol symbol = url_quote (lower (strip symbol) @ ''.us'')"

definition quote_url :: "string \<Rightarrow> string" where
  "quote_url symbol = ''https://stooq.com/q/l/?s='' @ to_vendor_symbol symbol @ ''&f=sd2t2ohlcv&h&e=csv''"

definition history_url :: "string \<Rightarrow> string" where
  "history_url symbol = ''https://stooq.com/q/d/l/?s='' @ to_vendor_symbol symbol @ ''&i=d''"

record stooq_provider =
  sp_world :: "string \<Rightarrow> fetch_world"
  sp_max_attempts :: int
  sp_backoff_base_seconds :: rat

definition stooq_get :: "stooq_provider \<Rightarrow> string \<Rightarrow> string result" where
  "stooq_get p url = snd (fetch_with_retry (sp_world p url) (sp_max_attempts p) (sp_backoff_base_seconds p))"

definition get_quote :: "stooq_provider \<Rightarrow> string \<Rightarrow> quote result" where
  "get_quote p symbol = raise ProviderUnsupportedOperationError
     ''StooqProvider cannot provide a real bid/ask Quote''"

definition get_last_price :: "stooq_provider \<Rightarrow> string \<Rightarrow> last_price result" where
  "get_last_price p symbol =
     bind_result (stooq_get p (quote_url symbol)) (\<lambda>raw_text. parse_last_price_csv raw_text symbol)"

definition fetch_daily_candles :: "stooq_provider \<Rightarrow> string \<Rightarrow> timeframe \<Rightarrow> candle list result" where
  "fetch_daily_candles p symbol timeframe =
     raise_if (timeframe \<noteq> D1) ProviderDataError ''StooqProvider supports only 1d candles in this slice''
     (bind_result (stooq_get p (history_url symbol)) (\<lambda>raw_text.
      bind_result (parse_history_csv raw_text symbol timeframe) (\<lambda>raw_candles.
      raise_if (raw_candles = []) ProviderDataError ''no historical candle data returned by stooq''
      (map_result normalize_candle raw_candles))))"

definition get_candles :: "stooq_provider \<Rightarrow> string \<Rightarrow> timeframe \<Rightarrow> int \<Rightarrow> candle list result" where
  "get_candles p symbol timeframe limit =
     raise_if (limit < 1) ValueError ''limit must be >= 1''
     (bind_result (fetch_daily_candles p symbol timeframe) (\<lambda>candles.
      ok (drop (length candles - nat limit) candles)))"

definition get_historical_candles ::
    "stooq_provider \<Rightarrow> string \<Rightarrow> timeframe \<Rightarrow> py_datetime \<Rightarrow> py_datetime \<Rightarrow> candle list result" where
  "get_historical_candles p symbol timeframe start stop =
     raise_if (\<not> is_aware start \<or> \<not> is_aware stop) ValueError ''start and end must be timezone-aware''
     (raise_if (ticks stop < ticks start) ValueError ''end must be >= start''
     (bind_result (fetch_daily_candles p symbol timeframe) (\<lambda>candles.
      ok (filter (\<lambda>c. ticks start \<le> c_timestamp c \<and> c_timestamp c \<le> ticks stop) candles))))"

definition unsupported_operation :: "string \<Rightarrow> 'a result" where
  "unsupported_operation name = raise ProviderUnsupportedOperationError
     (''StooqProvider does not implement '' @ name @ '' in this slice'')"

subsection \<open>What the provider returns\<close>

lemma history_row_candle:
  assumes "history_row symbol timeframe row = Inr (Some raw)"
  shows "rc_symbol raw = symbol \<and> rc_timeframe raw = timeframe"
  using assms by (auto simp: history_row_def result_simps split: if_splits option.splits)

lemma history_rows_candles:
  assumes "history_rows symbol timeframe rows = Inr raws" and "raw \<in> set raws"
  shows "rc_symbol raw = symbol \<and> rc_timeframe raw = timeframe"
  using assms
proof (induction rows arbitrary: raws)
  case (Cons r rows)
  then obtain row first rest where r: "r = Inr row" "history_row symbol timeframe row = Inr first"
    "history_rows symbol timeframe rows = Inr rest" "raws = (case first of None \<Rightarrow> rest | Some c \<Rightarrow> c # rest)"
    by (auto simp: result_simps)
  with Cons.prems(2) have "first = Some raw \<or> raw \<in> set rest" by (auto split: option.splits)
  with r Cons.IH show ?case by (auto dest: history_row_candle)
qed simp

lemma daily_candles_sound:
  assumes "fetch_daily_candles p symbol timeframe = Inr candles" and "c \<in> set candles"
  shows "timeframe = D1 \<and> valid_candle c \<and> c_symbol c = upper (strip symbol) \<and> c_timeframe c = D1"
proof -
  from assms(1) obtain raw_text raws where d1: "timeframe = D1" and raws: "parse_history_csv raw_text symbol timeframe = Inr raws"
    and candles: "map_result normalize_candle raws = Inr candles"
    by (auto simp: fetch_daily_candles_def result_simps)
  from map_result_Inr_set [OF candles] assms(2) obtain raw where raw: "raw \<in> set raws" "normalize_candle raw = Inr c" by auto
  from raws raw(1) have "rc_symbol raw = symbol" "rc_timeframe raw = D1"
    using d1 by (auto simp: parse_history_csv_def Let_def dest: history_rows_candles split: if_splits)
  with d1 raw(2) normalize_candle_sound [of raw] show ?thesis by (simp only: sum.case)
qed

text \<open>
C18: Whatever the service answers, \<open>get_candles\<close> returns at most \<open>limit\<close> candles, and every one is a valid
daily candle of the normalized symbol; \<open>get_historical_candles\<close> returns such candles within the range
asked for.  Anything else is an error.
\<close>

theorem stooq_candles_are_valid:
  "(\<forall>candles c. get_candles p symbol timeframe limit = Inr candles \<longrightarrow> int (length candles) \<le> limit \<and>
      (c \<in> set candles \<longrightarrow> timeframe = D1 \<and> valid_candle c \<and> c_symbol c = upper (strip symbol) \<and> c_timeframe c = D1)) \<and>
   (\<forall>candles c. get_historical_candles p symbol timeframe start stop = Inr candles \<and> c \<in> set candles \<longrightarrow>
      ticks start \<le> c_timestamp c \<and> c_timestamp c \<le> ticks stop \<and>
      timeframe = D1 \<and> valid_candle c \<and> c_symbol c = upper (strip symbol) \<and> c_timeframe c = D1)"
proof -
  have last: "int (length (drop (length cs - nat limit) cs)) \<le> limit" if "1 \<le> limit" for cs :: "candle list"
    using that by auto
  have some: "timeframe = D1 \<and> valid_candle c \<and> c_symbol c = upper (strip symbol) \<and> c_timeframe c = D1"
    if "fetch_daily_candles p symbol timeframe = Inr cs" "c \<in> set (drop n cs)" for cs c n
    using daily_candles_sound [OF that(1) in_set_dropD [OF that(2)]] .
  have "int (length candles) \<le> limit \<and>
      (c \<in> set candles \<longrightarrow> timeframe = D1 \<and> valid_candle c \<and> c_symbol c = upper (strip symbol) \<and> c_timeframe c = D1)"
    if candles: "get_candles p symbol timeframe limit = Inr candles" for candles c
  proof -
    from candles obtain cs where cs: "1 \<le> limit" "fetch_daily_candles p symbol timeframe = Inr cs"
      "candles = drop (length cs - nat limit) cs" by (auto simp: get_candles_def result_simps not_less)
    with last [OF cs(1), of cs] some [OF cs(2)] show ?thesis by simp
  qed
  moreover have "ticks start \<le> c_timestamp c \<and> c_timestamp c \<le> ticks stop \<and>
      timeframe = D1 \<and> valid_candle c \<and> c_symbol c = upper (strip symbol) \<and> c_timeframe c = D1"
    if candles: "get_historical_candles p symbol timeframe start stop = Inr candles" "c \<in> set candles" for candles c
  proof -
    from candles(1) obtain cs where cs: "fetch_daily_candles p symbol timeframe = Inr cs"
      "candles = filter (\<lambda>c. ticks start \<le> c_timestamp c \<and> c_timestamp c \<le> ticks stop) cs"
      by (auto simp: get_historical_candles_def result_simps)
    with candles(2) some [OF cs(1), of c 0] show ?thesis by simp
  qed
  ultimately show ?thesis by blast
qed

definition EXAMPLE_HISTORY :: string where
  "EXAMPLE_HISTORY = ''Date,Open,High,Low,Close,Volume'' @ [CHR 0x0D, CHR 0x0A] @ ''2024-01-05,10,12,9,11,100''"

definition EXAMPLE_STOOQ :: stooq_provider where
  "EXAMPLE_STOOQ = \<lparr>sp_world = (\<lambda>_. \<lparr>fw_fetch = (\<lambda>_. ok EXAMPLE_HISTORY), fw_acquire = None\<rparr>),
     sp_max_attempts = 3, sp_backoff_base_seconds = 1 / 2\<rparr>"

lemmas csv_evaluation = dict_rows_def CSV_START_def csv_line_def csv_char_def in_field_def add_char_def save_field_def
  dict_row_def

lemma example_history:
  "parse_history_csv EXAMPLE_HISTORY '' spy '' D1 = Inr [\<lparr>rc_symbol = '' spy '', rc_timeframe = D1,
     rc_timestamp = Aware 63840009600000000, rc_open = RawStr ''10'', rc_high = RawStr ''12'', rc_low = RawStr ''9'',
     rc_close = RawStr ''11'', rc_volume = RawStr ''100''\<rparr>]"
  by (simp add: parse_history_csv_def EXAMPLE_HISTORY_def strip_def lstrip_def is_space_def lower_def lower_char_def csv_evaluation
      history_row_def missing_fields_def HISTORY_FIELDS_def stripped_field_def NO_DATA_MARKERS_def shown_field_def raw_field_def
      parse_date_def split_date_def number_field_def day_field_def is_digit_def digit_value_def digits_value_def checked_instant_def
      instant_of_def days_in_month_def Let_def)

lemma not_isl_value: "\<not> isl r \<Longrightarrow> \<exists>x. r = Inr x"
  by (cases r) auto

theorem stooq_candles_are_valid_witness:
  "\<exists>c. get_candles EXAMPLE_STOOQ '' spy '' D1 1 = Inr [c] \<and> valid_candle c \<and> c_symbol c = ''SPY''"
proof -
  have "stooq_get EXAMPLE_STOOQ (history_url '' spy '') = Inr EXAMPLE_HISTORY"
    by (simp add: stooq_get_def fetch_with_retry_def EXAMPLE_STOOQ_def numeral_3_eq_3 Let_def)
  moreover have "\<not> isl (normalize_candle \<lparr>rc_symbol = '' spy '', rc_timeframe = D1,
     rc_timestamp = Aware 63840009600000000, rc_open = RawStr ''10'', rc_high = RawStr ''12'', rc_low = RawStr ''9'',
     rc_close = RawStr ''11'', rc_volume = RawStr ''100''\<rparr>)"
    by code_simp
  ultimately obtain c where "get_candles EXAMPLE_STOOQ '' spy '' D1 1 = Inr [c]"
    using example_history by (auto simp: get_candles_def fetch_daily_candles_def dest!: not_isl_value)
  moreover have "upper (strip '' spy '') = ''SPY''" by code_simp
  ultimately show ?thesis
    using stooq_candles_are_valid [of EXAMPLE_STOOQ "'' spy ''" D1 1] by auto
qed

text \<open>A short row: the columns it lacks are there, and \<open>None\<close>.\<close>

lemma dict_row_nth:
  assumes "distinct header" and "j < length header"
  shows "dict_row header row (header ! j) = Some (if j < length row then Some (row ! j) else None)"
proof -
  let ?cells = "map Some row @ replicate (length header - length row) None"
  have "j < length ?cells" using assms(2) by simp
  then have "(header ! j, ?cells ! j) \<in> set (zip header ?cells)"
    using assms(2) by (auto simp: set_zip)
  moreover have "distinct (map fst (rev (zip header ?cells)))"
    using assms(1) by (simp add: rev_map [symmetric] map_fst_zip_take)
  ultimately have "map_of (rev (zip header ?cells)) (header ! j) = Some (?cells ! j)" by (intro map_of_is_SomeI) auto
  then show ?thesis using assms(2) by (auto simp: dict_row_def nth_append)
qed

lemma marked_short_row:
  assumes "\<And>f. f \<in> set names \<Longrightarrow> row f = Some None \<or> (\<exists>v. row f = Some (Some v) \<and> strip v \<notin> set NO_DATA_MARKERS)"
    and "\<exists>f\<in>set names. row f = Some None"
  shows "marked_no_data row names = raise AttributeError ''NoneType object has no attribute strip''"
  using assms
proof (induction names)
  case (Cons f names)
  from Cons.prems(1) [of f] consider "row f = Some None" | v where "row f = Some (Some v)" "strip v \<notin> set NO_DATA_MARKERS" by auto
  then show ?case
  proof cases
    case 1
    then show ?thesis by (simp add: stripped_field_def)
  next
    case 2
    with Cons show ?thesis by (simp add: stripped_field_def)
  qed
qed simp

text \<open>
C36: A history response whose first data row was cut short, in place of a provider error, ends with the
\<open>AttributeError\<close> of a method call on \<open>None\<close>: the missing columns pass the check for missing fields, since
the reader puts \<open>None\<close> in them.
\<close>

theorem truncated_row_is_no_provider_error:
  assumes "csv_rows CSV_START (lines_of (strip raw_text)) = Inr header # Inr row # rest"
    and "strip raw_text \<noteq> []" and "take 7 (lower (strip raw_text)) \<noteq> ''no data''"
    and "distinct header" and "set HISTORY_FIELDS \<subseteq> set header"
    and "row \<noteq> []" and "\<exists>j<length header. length row \<le> j \<and> header ! j \<in> set HISTORY_FIELDS"
    and "\<forall>v\<in>set row. strip v \<notin> set NO_DATA_MARKERS"
  shows "parse_history_csv raw_text symbol D1 = raise AttributeError ''NoneType object has no attribute strip''"
proof -
  let ?row = "dict_row header row"
  have cell: "?row f = Some None \<or> (\<exists>v. ?row f = Some (Some v) \<and> strip v \<notin> set NO_DATA_MARKERS)" if "f \<in> set HISTORY_FIELDS" for f
  proof -
    from that assms(5) obtain j where j: "j < length header" "f = header ! j" by (metis in_set_conv_nth subset_iff)
    with dict_row_nth [OF assms(4) j(1), of row] assms(8) show ?thesis by (auto split: if_splits)
  qed
  from assms(7) obtain j where "j < length header" "length row \<le> j" "header ! j \<in> set HISTORY_FIELDS" by blast
  with dict_row_nth [OF assms(4), of j row] have "\<exists>f\<in>set HISTORY_FIELDS. ?row f = Some None" by auto
  with cell have "marked_no_data ?row HISTORY_FIELDS = raise AttributeError ''NoneType object has no attribute strip''"
    by (intro marked_short_row) auto
  moreover have "missing_fields HISTORY_FIELDS ?row = []"
    using cell by (fastforce simp: missing_fields_def filter_empty_conv)
  ultimately show ?thesis
    using assms(1-3,6) by (simp add: parse_history_csv_def dict_rows_def history_row_def Let_def)
qed

definition EXAMPLE_TRUNCATED :: string where
  "EXAMPLE_TRUNCATED = ''Date,Open,High,Low,Close,Volume'' @ [CHR 0x0D, CHR 0x0A] @ ''2024-01-05,10,11''"

theorem truncated_row_is_no_provider_error_witness:
  "parse_history_csv EXAMPLE_TRUNCATED ''spy'' D1 = raise AttributeError ''NoneType object has no attribute strip''"
proof -
  have "csv_rows CSV_START (lines_of (strip EXAMPLE_TRUNCATED)) =
      [Inr [''Date'', ''Open'', ''High'', ''Low'', ''Close'', ''Volume''], Inr [''2024-01-05'', ''10'', ''11'']]"
    and "strip EXAMPLE_TRUNCATED \<noteq> []" and "take 7 (lower (strip EXAMPLE_TRUNCATED)) \<noteq> ''no data''"
    by (simp_all add: EXAMPLE_TRUNCATED_def strip_def lstrip_def is_space_def CSV_START_def csv_line_def csv_char_def
      in_field_def add_char_def save_field_def lower_def lower_char_def)
  then show ?thesis
    by (rule truncated_row_is_no_provider_error)
      (auto simp: HISTORY_FIELDS_def NO_DATA_MARKERS_def strip_def lstrip_def is_space_def intro: exI [of _ 3])
qed

subsection \<open>Plain rows are read back\<close>

definition plain_field :: "string \<Rightarrow> bool" where
  "plain_field v \<longleftrightarrow> length v \<le> 131072 \<and> set v \<inter> {CHR '','', CHR 0x22, CHR 0x0A, CHR 0x0D} = {}"

definition plain_row :: "string list \<Rightarrow> bool" where
  "plain_row row \<longleftrightarrow> row \<noteq> [] \<and> row \<noteq> [[]] \<and> list_all plain_field row"

fun comma_separated :: "string list \<Rightarrow> string" where
  "comma_separated [] = []"
| "comma_separated [v] = v"
| "comma_separated (v # vs) = v @ CHR '','' # comma_separated vs"

definition write_row :: "string list \<Rightarrow> string" where
  "write_row row = comma_separated row @ [CHR 0x0D, CHR 0x0A]"

lemma lines_of_line: "CHR 0x0A \<notin> set s \<Longrightarrow> lines_of (s @ CHR 0x0A # t) = (s @ [CHR 0x0A]) # lines_of t"
  by (induction s) auto

lemma plain_row_no_feed: "list_all plain_field row \<Longrightarrow> CHR 0x0A \<notin> set (comma_separated row)"
  by (induction row rule: comma_separated.induct) (auto simp: plain_field_def)

lemma lines_of_rows: "list_all plain_row rows \<Longrightarrow> lines_of (concat (map write_row rows)) = map write_row rows"
proof (induction rows)
  case (Cons row rows)
  then have "CHR 0x0A \<notin> set (comma_separated row @ [CHR 0x0D])" by (simp add: plain_row_no_feed plain_row_def)
  from lines_of_line [OF this, of "concat (map write_row rows)"] Cons
  have "lines_of (write_row row @ concat (map write_row rows)) = write_row row # map write_row rows"
    by (simp add: write_row_def [of row])
  then show ?case by simp
qed simp

text \<open>The characters of a field, read inside it.\<close>

lemma read_in_field:
  assumes "set v \<inter> {CHR '','', CHR 0x22, CHR 0x0A, CHR 0x0D} = {}" and "length f + length v \<le> 131072"
  shows "fold_result csv_char \<lparr>cr_state = InField, cr_fields = fs, cr_field = f\<rparr> (map Some v) =
    Inr \<lparr>cr_state = InField, cr_fields = fs, cr_field = f @ v\<rparr>"
  using assms by (induction v arbitrary: f) (auto simp: csv_char_def in_field_def add_char_def)

definition at_field_start :: "csv_state \<Rightarrow> bool" where
  "at_field_start state \<longleftrightarrow> state \<in> {StartRecord, StartField}"

lemma read_field:
  assumes "plain_field v" and "at_field_start state"
  shows "fold_result csv_char \<lparr>cr_state = state, cr_fields = fs, cr_field = []\<rparr> (map Some v) =
    Inr \<lparr>cr_state = (if v = [] then state else InField), cr_fields = fs, cr_field = v\<rparr>"
proof (cases v)
  case (Cons c cs)
  with assms have c: "c \<notin> {CHR '','', CHR 0x22, CHR 0x0A, CHR 0x0D}" and cs: "set cs \<inter> {CHR '','', CHR 0x22, CHR 0x0A, CHR 0x0D} = {}"
    and len: "length [c] + length cs \<le> 131072" by (auto simp: plain_field_def)
  have "csv_char \<lparr>cr_state = state, cr_fields = fs, cr_field = []\<rparr> (Some c) = Inr \<lparr>cr_state = InField, cr_fields = fs, cr_field = [c]\<rparr>"
    using c assms(2) by (auto simp: csv_char_def in_field_def add_char_def at_field_start_def)
  with read_in_field [OF cs len, of fs] Cons show ?thesis by simp
qed simp

lemma read_row_end:
  "state = StartField \<or> state = InField \<Longrightarrow>
    fold_result csv_char \<lparr>cr_state = state, cr_fields = fs, cr_field = v\<rparr> [Some (CHR 0x0D), Some (CHR 0x0A), None] =
      Inr \<lparr>cr_state = StartRecord, cr_fields = fs @ [v], cr_field = []\<rparr>"
  by (auto simp: csv_char_def in_field_def save_field_def)

lemma read_row:
  assumes "row \<noteq> []" and "list_all plain_field row" and "at_field_start state"
    and "state = StartRecord \<Longrightarrow> row \<noteq> [[]]"
  shows "fold_result csv_char \<lparr>cr_state = state, cr_fields = fs, cr_field = []\<rparr>
      (map Some (comma_separated row) @ [Some (CHR 0x0D), Some (CHR 0x0A), None]) =
    Inr \<lparr>cr_state = StartRecord, cr_fields = fs @ row, cr_field = []\<rparr>"
  using assms
proof (induction row arbitrary: state fs rule: comma_separated.induct)
  case (2 v)
  then have v: "plain_field v" and entry: "(if v = [] then state else InField) = StartField \<or> (if v = [] then state else InField) = InField"
    by (auto simp: at_field_start_def)
  show ?case
    unfolding comma_separated.simps fold_result_append read_field [OF v "2.prems"(3)] bind_result.simps
    by (subst read_row_end [OF entry]) simp
next
  case (3 v w vs)
  from "3.prems" have v: "plain_field v" by simp
  have "csv_char \<lparr>cr_state = (if v = [] then state else InField), cr_fields = fs, cr_field = v\<rparr> (Some (CHR '','')) =
      Inr \<lparr>cr_state = StartField, cr_fields = fs @ [v], cr_field = []\<rparr>"
    using "3.prems"(3) by (auto simp: csv_char_def in_field_def save_field_def at_field_start_def)
  moreover have "fold_result csv_char \<lparr>cr_state = StartField, cr_fields = fs @ [v], cr_field = []\<rparr>
      (map Some (comma_separated (w # vs)) @ [Some (CHR 0x0D), Some (CHR 0x0A), None]) =
    Inr \<lparr>cr_state = StartRecord, cr_fields = (fs @ [v]) @ w # vs, cr_field = []\<rparr>"
    using "3.prems" by (intro "3.IH") (auto simp: at_field_start_def)
  ultimately show ?case
    using read_field [OF v "3.prems"(3), of fs] by (simp add: fold_result_append)
qed simp

lemma read_line:
  assumes "plain_row row"
  shows "csv_line CSV_START (write_row row) = Inr \<lparr>cr_state = StartRecord, cr_fields = row, cr_field = []\<rparr>"
  using read_row [of row StartRecord "[]"] assms
  by (simp add: csv_line_def write_row_def CSV_START_def plain_row_def at_field_start_def)

lemma read_rows: "list_all plain_row rows \<Longrightarrow> csv_rows CSV_START (map write_row rows) = map Inr rows"
  by (induction rows) (simp_all add: read_line, simp add: CSV_START_def)

text \<open>
What the provider reads of a response is what was written in it: rows of fields without commas, quotes
and line ends, separated by commas and ended by CR and LF, are read as exactly these rows, and the
dictionary reader gives, for every row and every column it has, the field below that column's name.
\<close>

theorem plain_rows_are_read_back:
  assumes "list_all plain_row (header # rows)" and "distinct header"
    and "\<forall>row\<in>set rows. length row = length header"
  shows "length (dict_rows (concat (map write_row (header # rows)))) = length rows \<and>
    (\<forall>i < length rows. \<forall>j < length header. \<exists>row. dict_rows (concat (map write_row (header # rows))) ! i = Inr row \<and>
      row (header ! j) = Some (Some (rows ! i ! j)))"
proof -
  have "csv_rows CSV_START (lines_of (concat (map write_row (header # rows)))) = map Inr (header # rows)"
    unfolding lines_of_rows [OF assms(1)] by (rule read_rows [OF assms(1)])
  moreover have "filter (\<lambda>r. r \<noteq> Inr []) (map Inr rows :: string list result list) = map Inr rows"
    using assms(1) by (auto simp: filter_id_conv plain_row_def list_all_iff)
  ultimately have rows: "dict_rows (concat (map write_row (header # rows))) = map (\<lambda>row. Inr (dict_row header row)) rows"
    by (simp add: dict_rows_def comp_def)
  show ?thesis
    unfolding rows using assms(3) by (auto simp: dict_row_nth [OF assms(2)])
qed

theorem plain_rows_are_read_back_witness:
  "\<exists>row. dict_rows (concat (map write_row [[''Date'', ''Open''], [''2024-01-05'', ''10'']])) ! 0 = Inr row \<and> row ''Open'' = Some (Some ''10'')"
proof -
  have "list_all plain_row [[''Date'', ''Open''], [''2024-01-05'', ''10'']]" by (simp add: plain_row_def plain_field_def)
  from plain_rows_are_read_back [OF this] show ?thesis by (auto dest: spec [of _ 1])
qed

end
