(* ===== verification/Executive_Models.thy ===== *)
theory Executive_Models
  imports Py_Decimal
begin

text \<open>
  The records of the Keeper executive that its authority decisions read (\<open>keeper/executive/enums.py\<close>,
  \<open>models.py\<close>) and the transitions of projects and tasks (\<open>state.py\<close>).  A record has
  the fields of its class in order; \<open>check_\<close>\<^emph>\<open>name\<close> is its validation on construction.  The reading of ISO
  timestamps is a parameter, and an enumeration field holds the enumeration's member where the class keeps
  its value.
\<close>

subsection \<open>Floats\<close>

datatype py_float = Fin rat | NotANumber | PosInf | NegInf

text \<open>Every comparison with a not-a-number is false.\<close>

fun float_less :: "py_float \<Rightarrow> py_float \<Rightarrow> bool" where
  "float_less (Fin x) (Fin y) \<longleftrightarrow> x < y"
| "float_less NotANumber _ \<longleftrightarrow> False"
| "float_less _ NotANumber \<longleftrightarrow> False"
| "float_less PosInf _ \<longleftrightarrow> False"
| "float_less _ PosInf \<longleftrightarrow> True"
| "float_less NegInf NegInf \<longleftrightarrow> False"
| "float_less NegInf (Fin _) \<longleftrightarrow> True"
| "float_less (Fin _) NegInf \<longleftrightarrow> False"

fun float_le :: "py_float \<Rightarrow> py_float \<Rightarrow> bool" where
  "float_le NotANumber _ \<longleftrightarrow> False"
| "float_le _ NotANumber \<longleftrightarrow> False"
| "float_le x y \<longleftrightarrow> \<not> float_less y x"

definition float_min :: "py_float \<Rightarrow> py_float \<Rightarrow> py_float" where
  "float_min x y = (if float_less y x then y else x)"

subsection \<open>Enumerations\<close>

datatype executive_state =
    INTAKE | CLARIFICATION_REQUIRED | CHARTER_DRAFT | AWAITING_CHARTER_APPROVAL | ACTIVE | PLANNING | EXECUTING
  | REVIEWING | BLOCKED | PAUSED | WAITING_FOR_PROVIDER | WAITING_FOR_USAGE_RESET | WAITING_FOR_FOUNDER
  | WAITING_FOR_CREDENTIAL | WAITING_FOR_EXTERNAL_SYSTEM | COMPLETED | CANCELED | FAILED

datatype delegation_mode = ADVISORY | DELEGATED | FULL_DELEGATION

datatype charter_status =
    CS_DRAFT | CS_PROPOSED | CS_APPROVED | CS_ACTIVE | CS_SUSPENDED | CS_SUPERSEDED | CS_COMPLETED | CS_CANCELED

datatype authority_outcome =
    ALLOWED | ALLOWED_WITHIN_LIMIT | REQUIRES_FOUNDER_APPROVAL | DENIED | CHARTER_REVISION_REQUIRED | EXPIRED
  | REVOKED | INDETERMINATE

datatype action_category =
    ANALYZE | PLAN | DRAFT | READ | WRITE | TEST | REVIEW | REPAIR | COMMIT | PUSH | DEPLOY_STAGING
  | DEPLOY_PRODUCTION | PUBLISH_PRIVATE | PUBLISH_PUBLIC | PURCHASE | SPENDING | CREDENTIAL_ACCESS
  | SECURITY_BOUNDARY_CHANGE | HISTORY_REWRITE | LIVE_TRADING | FINANCIAL_AUTHORITY_CHANGE
  | IRREVERSIBLE_DELETE | CHANGE_GOVERNANCE | EXPAND_SCOPE

definition ACTION_CATEGORIES :: "(string \<times> action_category) list" where
  "ACTION_CATEGORIES =
     [(''ANALYZE'', ANALYZE), (''PLAN'', PLAN), (''DRAFT'', DRAFT), (''READ'', READ), (''WRITE'', WRITE),
      (''TEST'', TEST), (''REVIEW'', REVIEW), (''REPAIR'', REPAIR), (''COMMIT'', COMMIT), (''PUSH'', PUSH),
      (''DEPLOY_STAGING'', DEPLOY_STAGING), (''DEPLOY_PRODUCTION'', DEPLOY_PRODUCTION),
      (''PUBLISH_PRIVATE'', PUBLISH_PRIVATE), (''PUBLISH_PUBLIC'', PUBLISH_PUBLIC), (''PURCHASE'', PURCHASE),
      (''SPENDING'', SPENDING), (''CREDENTIAL_ACCESS'', CREDENTIAL_ACCESS),
      (''SECURITY_BOUNDARY_CHANGE'', SECURITY_BOUNDARY_CHANGE), (''HISTORY_REWRITE'', HISTORY_REWRITE),
      (''LIVE_TRADING'', LIVE_TRADING), (''FINANCIAL_AUTHORITY_CHANGE'', FINANCIAL_AUTHORITY_CHANGE),
      (''IRREVERSIBLE_DELETE'', IRREVERSIBLE_DELETE), (''CHANGE_GOVERNANCE'', CHANGE_GOVERNANCE),
      (''EXPAND_SCOPE'', EXPAND_SCOPE)]"

definition LEGACY_CATEGORIES :: "(string \<times> action_category) list" where
  "LEGACY_CATEGORIES =
     [(''PUBLISH_EXTERNAL'', PUBLISH_PUBLIC), (''SPEND'', SPENDING), (''PAID_PROVIDER_USE'', SPENDING),
      (''ACCESS_CREDENTIAL'', CREDENTIAL_ACCESS), (''CHANGE_SECURITY_BOUNDARY'', SECURITY_BOUNDARY_CHANGE),
      (''REWRITE_HISTORY'', HISTORY_REWRITE), (''ENABLE_LIVE_TRADING'', LIVE_TRADING),
      (''CHANGE_FINANCIAL_AUTHORITY'', FINANCIAL_AUTHORITY_CHANGE), (''DELETE_PROTECTED'', IRREVERSIBLE_DELETE),
      (''IRREVERSIBLE_DESTRUCTIVE'', IRREVERSIBLE_DELETE)]"

text \<open>\<open>ActionCategory(value)\<close>: by value, else by a legacy name, else \<open>ValueError\<close>.\<close>

definition action_category_of :: "string \<Rightarrow> action_category result" where
  "action_category_of s =
     (case map_of ACTION_CATEGORIES s of
        Some c \<Rightarrow> ok c
      | None \<Rightarrow> (case map_of LEGACY_CATEGORIES s of
            Some c \<Rightarrow> ok c | None \<Rightarrow> raise ValueError ''not a valid ActionCategory''))"

definition category_value :: "action_category \<Rightarrow> string" where
  "category_value c = the (map_of (map prod.swap ACTION_CATEGORIES) c)"

datatype action_effect =
    LOCAL_READ | LOCAL_WRITE | SOURCE_EDIT | TEST_EXECUTION | EFF_COMMIT | EFF_PUSH | EFF_DEPLOY_STAGING
  | EFF_DEPLOY_PRODUCTION | EFF_PUBLISH_PRIVATE | EFF_PUBLISH_PUBLIC | EFF_PURCHASE | EFF_PAID_PROVIDER_USE
  | EFF_CREDENTIAL_ACCESS | EFF_SECURITY_BOUNDARY_CHANGE | EFF_HISTORY_REWRITE | EFF_LIVE_TRADING
  | EFF_FINANCIAL_AUTHORITY_CHANGE | EFF_IRREVERSIBLE_DELETE

definition ACTION_EFFECTS :: "(string \<times> action_effect) list" where
  "ACTION_EFFECTS =
     [(''LOCAL_READ'', LOCAL_READ), (''LOCAL_WRITE'', LOCAL_WRITE), (''SOURCE_EDIT'', SOURCE_EDIT),
      (''TEST_EXECUTION'', TEST_EXECUTION), (''COMMIT'', EFF_COMMIT), (''PUSH'', EFF_PUSH),
      (''DEPLOY_STAGING'', EFF_DEPLOY_STAGING), (''DEPLOY_PRODUCTION'', EFF_DEPLOY_PRODUCTION),
      (''PUBLISH_PRIVATE'', EFF_PUBLISH_PRIVATE), (''PUBLISH_PUBLIC'', EFF_PUBLISH_PUBLIC),
      (''PURCHASE'', EFF_PURCHASE), (''PAID_PROVIDER_USE'', EFF_PAID_PROVIDER_USE),
      (''CREDENTIAL_ACCESS'', EFF_CREDENTIAL_ACCESS),
      (''SECURITY_BOUNDARY_CHANGE'', EFF_SECURITY_BOUNDARY_CHANGE), (''HISTORY_REWRITE'', EFF_HISTORY_REWRITE),
      (''LIVE_TRADING'', EFF_LIVE_TRADING), (''FINANCIAL_AUTHORITY_CHANGE'', EFF_FINANCIAL_AUTHORITY_CHANGE),
      (''IRREVERSIBLE_DELETE'', EFF_IRREVERSIBLE_DELETE)]"

definition action_effect_of :: "string \<Rightarrow> action_effect result" where
  "action_effect_of s =
     (case map_of ACTION_EFFECTS s of Some e \<Rightarrow> ok e | None \<Rightarrow> raise ValueError ''not a valid ActionEffect'')"

definition effect_value :: "action_effect \<Rightarrow> string" where
  "effect_value e = the (map_of (map prod.swap ACTION_EFFECTS) e)"

datatype approval_kind =
    ONE_TIME | CHARTER_DURATION | TIME_LIMITED | AMOUNT_LIMITED | PROVIDER_SPECIFIC | WORKSPACE_SPECIFIC
  | ACTION_CATEGORY_KIND

datatype executive_task_status =
    PROPOSED | READY | ASSIGNED | LAUNCH_CLAIMED | EXECUTION_STARTED | RUNNING | COMPLETION_PENDING | WAITING
  | REVIEW_REQUIRED | REPAIR_REQUIRED | TASK_COMPLETED | TASK_BLOCKED | TASK_FAILED | TASK_CANCELED | UNCERTAIN
  | SKIPPED

subsection \<open>Records\<close>

type_synonym iso_reader = "string \<Rightarrow> py_datetime option"

definition validate_timestamp :: "iso_reader \<Rightarrow> string \<Rightarrow> string \<Rightarrow> unit result" where
  "validate_timestamp fromiso val field_name =
     (case fromiso val of
        None \<Rightarrow> raise ValueError (field_name @ '' must be an ISO timestamp'')
      | Some (Naive t) \<Rightarrow> raise ValueError (field_name @ '' must be timezone aware'')
      | Some (Aware t) \<Rightarrow> ok ())"

definition validate_optional_timestamp :: "iso_reader \<Rightarrow> string option \<Rightarrow> string \<Rightarrow> unit result" where
  "validate_optional_timestamp fromiso val field_name =
     (case val of None \<Rightarrow> ok () | Some s \<Rightarrow> validate_timestamp fromiso s field_name)"

definition is_letter :: "char \<Rightarrow> bool" where
  "is_letter c \<longleftrightarrow> (let n = of_char c :: nat in 65 \<le> n \<and> n \<le> 90 \<or> 97 \<le> n \<and> n \<le> 122)"

definition currency_ok :: "string option \<Rightarrow> bool" where
  "currency_ok cur = (case cur of None \<Rightarrow> True | Some s \<Rightarrow> length s = 3 \<and> list_all is_letter s)"

text \<open>A value of an approval's limits, by its Python type.\<close>

datatype limit_value = LimitNone | LimitNumber py_float | LimitBool bool | LimitText string | LimitOther

record authority_envelope =
  ae_allowed_actions :: "string list"
  ae_separately_approvable_actions :: "string list"
  ae_denied_actions :: "string list"
  ae_allowed_workspaces :: "string list"
  ae_allowed_tools :: "string list"
  ae_allowed_providers :: "string list"
  ae_maximum_cost :: py_float
  ae_risk_limit :: string
  ae_data_classifications :: "string list"
  ae_expires_at :: "string option"
  ae_currency :: "string option"

definition check_authority_envelope :: "iso_reader \<Rightarrow> authority_envelope \<Rightarrow> unit result" where
  "check_authority_envelope fromiso e =
     raise_if (float_less (ae_maximum_cost e) (Fin 0)) ValueError ''maximum_cost cannot be negative''
     (bind_result (validate_optional_timestamp fromiso (ae_expires_at e) ''expires_at'') (\<lambda>_.
      raise_if (\<not> currency_ok (ae_currency e)) ValueError ''currency must be a three-letter code''
      (bind_result (map_result action_category_of
         (ae_allowed_actions e @ ae_separately_approvable_actions e @ ae_denied_actions e)) (\<lambda>_. ok ()))))"

record project_record =
  pr_project_id :: string
  pr_name :: string
  pr_project_type :: string
  pr_state :: executive_state
  pr_active_charter_id :: "string option"
  pr_active_charter_revision :: "int option"
  pr_pause_reason :: "string option"
  pr_created_at :: string
  pr_updated_at :: string

definition check_project_record :: "iso_reader \<Rightarrow> project_record \<Rightarrow> unit result" where
  "check_project_record fromiso p =
     bind_result (validate_timestamp fromiso (pr_created_at p) ''created_at'') (\<lambda>_.
     validate_timestamp fromiso (pr_updated_at p) ''updated_at'')"

record project_charter =
  ch_charter_id :: string
  ch_project_id :: string
  ch_title :: string
  ch_project_type :: string
  ch_purpose :: string
  ch_problem_statement :: string
  ch_desired_outcome :: string
  ch_deliverables :: "string list"
  ch_non_goals :: "string list"
  ch_success_criteria :: "string list"
  ch_constraints :: "string list"
  ch_assumptions :: "string list"
  ch_unresolved_questions :: "string list"
  ch_timeline :: "string option"
  ch_budget_policy :: string
  ch_budget_limit :: py_float
  ch_approved_tools :: "string list"
  ch_approved_providers :: "string list"
  ch_prohibited_tools :: "string list"
  ch_prohibited_providers :: "string list"
  ch_workspaces :: "string list"
  ch_data_privacy_restrictions :: "string list"
  ch_risk_classification :: string
  ch_delegation_mode :: delegation_mode
  ch_authority_envelope :: authority_envelope
  ch_escalation_rules :: "string list"
  ch_review_requirements :: "string list"
  ch_evidence_requirements :: "string list"
  ch_completion_definition :: "string list"
  ch_revision :: int
  ch_status :: charter_status
  ch_supersedes_charter_id :: "string option"
  ch_change_reason :: "string option"
  ch_differences :: "string list"
  ch_founder_approval_identity :: "string option"
  ch_founder_approval_record_id :: "string option"
  ch_created_at :: string
  ch_updated_at :: string
  ch_founder_approval_event_id :: "string option"
  ch_founder_approval_event_digest :: "string option"
  ch_founder_authenticated_session_id :: "string option"
  ch_founder_authorization_capability :: "string option"
  ch_founder_authorization_capability_digest :: "string option"

text \<open>\<open>not x\<close> for an optional text.\<close>

definition falsy :: "string option \<Rightarrow> bool" where
  "falsy x \<longleftrightarrow> x = None \<or> x = Some []"

definition check_project_charter :: "iso_reader \<Rightarrow> project_charter \<Rightarrow> unit result" where
  "check_project_charter fromiso c =
     raise_if (ch_revision c < 1 \<or> float_less (ch_budget_limit c) (Fin 0)) ValueError
       ''charter revision and budget must be valid''
     (bind_result (validate_timestamp fromiso (ch_created_at c) ''created_at'') (\<lambda>_.
      bind_result (validate_timestamp fromiso (ch_updated_at c) ''updated_at'') (\<lambda>_.
      raise_if (ch_status c \<in> {CS_APPROVED, CS_ACTIVE} \<and>
         (falsy (ch_founder_approval_identity c) \<or> falsy (ch_founder_approval_record_id c) \<or>
          ch_founder_authorization_capability c = None \<or> falsy (ch_founder_authorization_capability_digest c)))
        ValueError ''approved charters require a Founder approval and capability'' (ok ()))))"

record approval_record =
  ap_approval_id :: string
  ap_project_id :: string
  ap_charter_id :: string
  ap_charter_revision :: int
  ap_kind :: approval_kind
  ap_action_category :: "string option"
  ap_approver :: string
  ap_scope :: "string list"
  ap_limits :: "(string \<times> limit_value) list"
  ap_approved_at :: string
  ap_expires_at :: "string option"
  ap_revoked_at :: "string option"
  ap_consumed_at :: "string option"
  ap_evidence_digest :: string
  ap_source_interaction_id :: string

definition check_approval_record :: "iso_reader \<Rightarrow> approval_record \<Rightarrow> unit result" where
  "check_approval_record fromiso a =
     bind_result (case ap_action_category a of None \<Rightarrow> ok ()
       | Some s \<Rightarrow> bind_result (action_category_of s) (\<lambda>_. ok ())) (\<lambda>_.
     bind_result (validate_timestamp fromiso (ap_approved_at a) ''approved_at'') (\<lambda>_.
     bind_result (validate_optional_timestamp fromiso (ap_expires_at a) ''expires_at'') (\<lambda>_.
     bind_result (validate_optional_timestamp fromiso (ap_revoked_at a) ''revoked_at'') (\<lambda>_.
     validate_optional_timestamp fromiso (ap_consumed_at a) ''consumed_at''))))"

record action_effects =
  fx_side_effect_classes :: "string list"
  fx_execution_environment :: string
  fx_external_visibility :: string
  fx_publication_effect :: string
  fx_deployment_effect :: string
  fx_production_effect :: string
  fx_spending_effect :: string
  fx_git_mutation :: string
  fx_security_boundary_effect :: string
  fx_credential_requirement :: string
  fx_financial_effect :: string
  fx_target_resource :: string
  fx_workspace :: "string option"
  fx_provider :: "string option"
  fx_tool :: "string option"
  fx_reversible :: bool
  fx_data_classification :: string

definition ALLOWED_EFFECT_VALUES :: "(string \<times> (action_effects \<Rightarrow> string) \<times> string list) list" where
  "ALLOWED_EFFECT_VALUES =
     [(''execution_environment'', fx_execution_environment,
        [''LOCAL'', ''STAGING'', ''PRODUCTION'', ''EXTERNAL'', ''UNKNOWN'']),
      (''external_visibility'', fx_external_visibility,
        [''INTERNAL'', ''PRIVATE'', ''PUBLIC'', ''CUSTOMER_FACING'', ''UNKNOWN'']),
      (''publication_effect'', fx_publication_effect, [''NONE'', ''PRIVATE'', ''PUBLIC'', ''UNKNOWN'']),
      (''deployment_effect'', fx_deployment_effect, [''NONE'', ''STAGING'', ''PRODUCTION'', ''UNKNOWN'']),
      (''production_effect'', fx_production_effect, [''NONE'', ''LIVE'', ''UNKNOWN'']),
      (''spending_effect'', fx_spending_effect, [''NONE'', ''INCLUDED_PLAN'', ''PAID'', ''UNKNOWN'']),
      (''git_mutation'', fx_git_mutation, [''NONE'', ''COMMIT'', ''PUSH'', ''HISTORY_REWRITE'', ''UNKNOWN'']),
      (''security_boundary_effect'', fx_security_boundary_effect, [''NONE'', ''CHANGE'', ''UNKNOWN'']),
      (''credential_requirement'', fx_credential_requirement, [''NONE'', ''REQUIRED'', ''UNKNOWN'']),
      (''financial_effect'', fx_financial_effect, [''NONE'', ''LIVE_TRADING'', ''AUTHORITY_CHANGE'', ''UNKNOWN''])]"

definition check_action_effects :: "action_effects \<Rightarrow> unit result" where
  "check_action_effects fx =
     bind_result (map_result action_effect_of (fx_side_effect_classes fx)) (\<lambda>_.
     bind_result (map_result (\<lambda>(field_name, get, vals).
        raise_if (get fx \<notin> set vals) ValueError (''invalid structured action effect: '' @ field_name) (ok ()))
        ALLOWED_EFFECT_VALUES) (\<lambda>_.
     raise_if (fx_target_resource fx = [] \<or> fx_data_classification fx = []) ValueError
       ''structured action target and data classification are required'' (ok ())))"

record proposed_action =
  pa_action_id :: string
  pa_project_id :: string
  pa_charter_revision :: int
  pa_category :: string
  pa_target_resource :: string
  pa_provider :: "string option"
  pa_tool :: "string option"
  pa_workspace :: "string option"
  pa_scope :: "string list"
  pa_cost :: "py_float option"
  pa_reversible :: bool
  pa_risk :: string
  pa_data_classification :: string
  pa_external_side_effect :: bool
  pa_objective :: string
  pa_currency :: "string option"
  pa_publication :: bool
  pa_deployment :: bool
  pa_spending :: bool
  pa_git_mutation :: "string option"
  pa_security_boundary_impact :: bool
  pa_trusted_source :: string
  pa_effect_classes :: "string list"
  pa_repository :: "string option"
  pa_branch :: "string option"

definition check_proposed_action :: "proposed_action \<Rightarrow> unit result" where
  "check_proposed_action a =
     bind_result (action_category_of (pa_category a)) (\<lambda>_.
     raise_if (case pa_cost a of None \<Rightarrow> False | Some c \<Rightarrow> float_less c (Fin 0)) ValueError
       ''action cost cannot be negative''
     (raise_if (\<not> currency_ok (pa_currency a)) ValueError ''currency must be a three-letter code''
     (bind_result (map_result action_effect_of (pa_effect_classes a)) (\<lambda>_. ok ()))))"

record authority_decision =
  ad_outcome :: authority_outcome
  ad_rule :: string
  ad_charter_field :: string
  ad_limits :: "(string \<times> limit_value) list"
  ad_reason :: string
  ad_required_next_step :: string
  ad_approval_id :: "string option"

record specialist_profile =
  sl_provider_id :: string
  sl_model_id :: string
  sl_session_id :: string
  sl_capabilities :: "string list"
  sl_project_types :: "string list"
  sl_qualified :: bool
  sl_available :: bool
  sl_independence_identity :: string
  sl_cost_tier :: int
  sl_effort_levels :: "string list"
  sl_credential_available :: bool
  sl_prior_success_rate :: py_float
  sl_pricing_identity :: "string option"
  sl_pricing_version :: "string option"
  sl_currency :: "string option"
  sl_estimated_cost :: "py_float option"
  sl_maximum_cost :: "py_float option"
  sl_billing_unit :: "string option"
  sl_included_plan :: bool
  sl_marginally_free :: bool
  sl_quote_timestamp :: "string option"
  sl_quote_expiration :: "string option"
  sl_pricing_source :: "string option"
  sl_billing_mode :: "string option"
  sl_incremental_charge_authorized :: bool
  sl_api_billing_authorized :: bool
  sl_paid_fallback_authorized :: bool
  sl_capacity_bounded :: bool
  sl_role_eligibility :: "string list"

definition check_specialist_profile :: "iso_reader \<Rightarrow> specialist_profile \<Rightarrow> unit result" where
  "check_specialist_profile fromiso s =
     raise_if (\<exists>amount\<in>set [sl_estimated_cost s, sl_maximum_cost s].
        case amount of None \<Rightarrow> False | Some x \<Rightarrow> float_less x (Fin 0)) ValueError ''provider pricing cannot be negative''
     (bind_result (validate_optional_timestamp fromiso (sl_quote_timestamp s) ''quote_timestamp'') (\<lambda>_.
      bind_result (validate_optional_timestamp fromiso (sl_quote_expiration s) ''quote_expiration'') (\<lambda>_.
      raise_if (\<not> currency_ok (sl_currency s)) ValueError
        ''provider pricing currency must be a three-letter code'' (ok ()))))"

record executive_task =
  et_task_id :: string
  et_project_id :: string
  et_charter_id :: string
  et_charter_revision :: int
  et_workflow_id :: string
  et_stage_id :: string
  et_title :: string
  et_objective :: string
  et_role :: string
  et_required_capabilities :: "string list"
  et_instructions :: "string list"
  et_constraints :: "string list"
  et_dependencies :: "string list"
  et_provider_id :: "string option"
  et_model_id :: "string option"
  et_session_id :: "string option"
  et_status :: executive_task_status
  et_authority_category :: string
  et_inputs :: "string list"
  et_expected_outputs :: "string list"
  et_evidence_requirements :: "string list"
  et_review_requirements :: "string list"
  et_retry_count :: int
  et_max_retries :: int
  et_attempt_history :: "(string \<times> limit_value) list list"
  et_result_disposition :: "string option"
  et_created_at :: string
  et_updated_at :: string
  et_revision :: int
  et_authority_attempt_id :: "string option"
  et_artifact_digest :: "string option"
  et_review_attempt_id :: "string option"
  et_late_result :: bool
  et_action_effects :: "action_effects option"

definition check_executive_task :: "iso_reader \<Rightarrow> executive_task \<Rightarrow> unit result" where
  "check_executive_task fromiso t =
     bind_result (action_category_of (et_authority_category t)) (\<lambda>_.
     raise_if (case et_action_effects t of None \<Rightarrow> False | Some fx \<Rightarrow> fx_target_resource fx \<noteq> et_objective t)
       ValueError ''action effect target must match the task objective''
     (raise_if (et_retry_count t < 0 \<or> et_max_retries t < 0) ValueError ''retry counts cannot be negative''
     (raise_if (et_revision t < 1) ValueError ''task revision must be positive''
     (bind_result (validate_timestamp fromiso (et_created_at t) ''created_at'') (\<lambda>_.
      validate_timestamp fromiso (et_updated_at t) ''updated_at'')))))"

subsection \<open>Transitions\<close>

fun project_transitions :: "executive_state \<Rightarrow> executive_state list" where
  "project_transitions INTAKE = [CLARIFICATION_REQUIRED, CHARTER_DRAFT, CANCELED]"
| "project_transitions CLARIFICATION_REQUIRED = [INTAKE, CHARTER_DRAFT, CANCELED]"
| "project_transitions CHARTER_DRAFT = [AWAITING_CHARTER_APPROVAL, INTAKE, CANCELED]"
| "project_transitions AWAITING_CHARTER_APPROVAL = [CHARTER_DRAFT, ACTIVE, CANCELED]"
| "project_transitions ACTIVE = [PLANNING, PAUSED, CANCELED]"
| "project_transitions PLANNING =
     [EXECUTING, BLOCKED, PAUSED, WAITING_FOR_PROVIDER, WAITING_FOR_CREDENTIAL, CANCELED, FAILED]"
| "project_transitions EXECUTING =
     [REVIEWING, BLOCKED, PAUSED, WAITING_FOR_PROVIDER, WAITING_FOR_USAGE_RESET, WAITING_FOR_FOUNDER,
      WAITING_FOR_CREDENTIAL, WAITING_FOR_EXTERNAL_SYSTEM, COMPLETED, CANCELED, FAILED]"
| "project_transitions REVIEWING = [EXECUTING, BLOCKED, PAUSED, WAITING_FOR_FOUNDER, COMPLETED, CANCELED, FAILED]"
| "project_transitions BLOCKED = [PLANNING, EXECUTING, PAUSED, CANCELED]"
| "project_transitions PAUSED = [ACTIVE, AWAITING_CHARTER_APPROVAL, PLANNING, EXECUTING, CANCELED]"
| "project_transitions WAITING_FOR_PROVIDER = [EXECUTING, PAUSED, CANCELED]"
| "project_transitions WAITING_FOR_USAGE_RESET = [EXECUTING, PAUSED, CANCELED]"
| "project_transitions WAITING_FOR_FOUNDER = [CHARTER_DRAFT, ACTIVE, EXECUTING, PAUSED, CANCELED]"
| "project_transitions WAITING_FOR_CREDENTIAL = [EXECUTING, PAUSED, CANCELED]"
| "project_transitions WAITING_FOR_EXTERNAL_SYSTEM = [EXECUTING, PAUSED, CANCELED]"
| "project_transitions COMPLETED = []"
| "project_transitions CANCELED = []"
| "project_transitions FAILED = []"

fun task_transitions :: "executive_task_status \<Rightarrow> executive_task_status list" where
  "task_transitions PROPOSED = [READY, TASK_BLOCKED, TASK_CANCELED, SKIPPED]"
| "task_transitions READY = [ASSIGNED, LAUNCH_CLAIMED, TASK_BLOCKED, TASK_CANCELED]"
| "task_transitions ASSIGNED = [RUNNING, WAITING, TASK_BLOCKED, TASK_CANCELED]"
| "task_transitions LAUNCH_CLAIMED = [EXECUTION_STARTED, TASK_CANCELED, UNCERTAIN]"
| "task_transitions EXECUTION_STARTED = [RUNNING, COMPLETION_PENDING, TASK_CANCELED, UNCERTAIN]"
| "task_transitions RUNNING =
     [COMPLETION_PENDING, REVIEW_REQUIRED, WAITING, TASK_BLOCKED, TASK_FAILED, TASK_CANCELED, UNCERTAIN]"
| "task_transitions COMPLETION_PENDING = [REVIEW_REQUIRED, TASK_CANCELED, UNCERTAIN]"
| "task_transitions WAITING = [READY, ASSIGNED, RUNNING, TASK_BLOCKED, TASK_CANCELED]"
| "task_transitions REVIEW_REQUIRED = [TASK_COMPLETED, REPAIR_REQUIRED, TASK_BLOCKED, TASK_FAILED]"
| "task_transitions REPAIR_REQUIRED = [ASSIGNED, LAUNCH_CLAIMED, RUNNING, TASK_BLOCKED, TASK_FAILED]"
| "task_transitions TASK_COMPLETED = []"
| "task_transitions TASK_BLOCKED = [READY, TASK_CANCELED, TASK_FAILED]"
| "task_transitions TASK_FAILED = []"
| "task_transitions TASK_CANCELED = []"
| "task_transitions UNCERTAIN = [EXECUTION_STARTED, REVIEW_REQUIRED, TASK_CANCELED]"
| "task_transitions SKIPPED = []"

definition PAUSE_STATES :: "executive_state list" where
  "PAUSE_STATES = [BLOCKED, PAUSED, WAITING_FOR_PROVIDER, WAITING_FOR_USAGE_RESET, WAITING_FOR_FOUNDER,
     WAITING_FOR_CREDENTIAL, WAITING_FOR_EXTERNAL_SYSTEM]"

definition transition_project ::
    "string \<Rightarrow> executive_state \<Rightarrow> string option \<Rightarrow> project_record \<Rightarrow> project_record result" where
  "transition_project utc_now target reason project =
     raise_if (target \<notin> set (project_transitions (pr_state project))) PermissionError ''invalid executive transition''
     (ok (project\<lparr>pr_state := target, pr_pause_reason := (if target \<in> set PAUSE_STATES then reason else None),
        pr_updated_at := utc_now\<rparr>))"

definition transition_task :: "string \<Rightarrow> executive_task_status \<Rightarrow> executive_task \<Rightarrow> executive_task result" where
  "transition_task utc_now target task =
     raise_if (target \<notin> set (task_transitions (et_status task))) PermissionError ''invalid task transition''
     (ok (task\<lparr>et_status := target, et_revision := et_revision task + 1, et_updated_at := utc_now\<rparr>))"

end
