(* ===== verification/Executive_Authority.thy ===== *)
theory Executive_Authority
  imports Executive_Models "HOL-Library.Sublist"
begin

text \<open>
  The authority decisions of the Keeper executive (\<open>keeper/executive/authority.py\<close>): the evaluator that
  every launch asks, the classifier that derives the facts of an action from the durable task, and the
  reading of objectives.  The evaluator's world supplies the reading of ISO timestamps and the resolution of
  paths, to their components or an \<open>OSError\<close>.
\<close>

record authority_world =
  aw_fromisoformat :: iso_reader
  aw_resolve :: "string \<Rightarrow> string list option"

subsection \<open>Texts\<close>

text \<open>\<open>re.sub("[class]+", " ", s)\<close>: each run of characters of the class becomes one blank.\<close>

function sub_runs :: "(char \<Rightarrow> bool) \<Rightarrow> string \<Rightarrow> string" where
  "sub_runs P [] = []"
| "sub_runs P (c # s) = (if P c then CHR '' '' # sub_runs P (dropWhile P s) else c # sub_runs P s)"
  by pat_completeness auto
termination by (relation "measure (length \<circ> snd)") (auto simp: le_imp_less_Suc length_dropWhile_le)

definition plain_char :: "char \<Rightarrow> bool" where
  "plain_char c \<longleftrightarrow> (let n = of_char c :: nat in
     97 \<le> n \<and> n \<le> 122 \<or> 48 \<le> n \<and> n \<le> 57 \<or> c \<in> set ''/ ._-'')"

lemma plain_char_bits [code]:
  "plain_char (Char b0 b1 b2 b3 b4 b5 b6 b7) \<longleftrightarrow> \<not> b7 \<and>
     (if b6 then (if b5 then (b0 \<or> b1 \<or> b2 \<or> b3 \<or> b4) \<and> \<not> (b4 \<and> b3 \<and> (b2 \<or> b1 \<and> b0)) else b0 \<and> b1 \<and> b2 \<and> b3 \<and> b4)
      else b5 \<and> (if b4 then \<not> (b3 \<and> (b2 \<or> b1)) else if b3 then b2 \<and> (b0 \<or> b1) else \<not> (b0 \<or> b1 \<or> b2)))"
  by (cases b0; cases b1; cases b2; cases b3; cases b4; cases b5; cases b6; cases b7)
    (simp_all add: plain_char_def of_char_def)
definition normalized :: "string \<Rightarrow> string" where
  "normalized val = strip (sub_runs is_space (sub_runs (\<lambda>c. \<not> plain_char c) (lower val)))"

definition contains_any :: "string \<Rightarrow> string list \<Rightarrow> bool" where
  "contains_any val phrases \<longleftrightarrow> list_ex (\<lambda>phrase. sublist phrase val) phrases"

fun join_blank :: "string list \<Rightarrow> string" where
  "join_blank [] = []"
| "join_blank [s] = s"
| "join_blank (s # ss) = s @ CHR '' '' # join_blank ss"

text \<open>\<open>value.split()\<close>\<close>

function split_words :: "string \<Rightarrow> string list" where
  "split_words s =
     (let t = dropWhile is_space s in
      if t = [] then []
      else takeWhile (\<lambda>c. \<not> is_space c) t # split_words (dropWhile (\<lambda>c. \<not> is_space c) t))"
  by pat_completeness auto
termination
proof (relation "measure length")
  fix s t :: string
  assume t: "t = dropWhile is_space s" "t \<noteq> []"
  then have "\<not> is_space (hd t)" by (simp add: hd_dropWhile)
  with t(2) have "length (dropWhile (\<lambda>c. \<not> is_space c) t) < length t"
    by (cases t) (auto simp: le_imp_less_Suc length_dropWhile_le)
  also have "length t \<le> length s" by (simp add: t(1) length_dropWhile_le)
  finally show "(dropWhile (\<lambda>c. \<not> is_space c) t, s) \<in> measure length" by simp
qed simp

declare split_words.simps [simp del]

definition OBJECTIVE_EFFECTS :: "(string list \<times> action_effect list) list" where
  "OBJECTIVE_EFFECTS =
     [([''production deployment'', ''deploy production'', ''deploy to production'',
        ''release the service on the customer-facing environment'', ''release to customer-facing environment'',
        ''ship to customers'', ''promote the build''], [EFF_DEPLOY_PRODUCTION]),
      ([''publish externally'', ''external publication'', ''public release'', ''publish the final artifact'',
        ''make available to users'', ''ship to users''], [EFF_PUBLISH_PUBLIC]),
      ([''purchase'', ''buy access''], [EFF_PURCHASE, EFF_PAID_PROVIDER_USE]),
      ([''paid provider'', ''premium provider'', ''spend money''], [EFF_PAID_PROVIDER_USE]),
      ([''rewrite history'', ''force push'', ''reset --hard'', ''replace remote branch history''],
       [EFF_HISTORY_REWRITE]),
      ([''change security boundary'', ''disable authentication''], [EFF_SECURITY_BOUNDARY_CHANGE]),
      ([''enable live trading'', ''place live trade'', ''authorize real trades'', ''activate live execution''],
       [EFF_LIVE_TRADING])]"

definition effects_required_by_objective :: "string \<Rightarrow> action_effect list" where
  "effects_required_by_objective val =
     remdups (concat (map snd (filter (\<lambda>(phrases, effects). contains_any val phrases) OBJECTIVE_EFFECTS)))"

definition ambiguous_external_effect :: "string \<Rightarrow> bool" where
  "ambiguous_external_effect val =
     contains_any val [''external environment'', ''live environment'', ''release environment'', ''make available'',
       ''ship '', ''promote '', ''activate '']"

subsection \<open>Decisions\<close>

definition NON_DELEGABLE :: "action_category list" where
  "NON_DELEGABLE = [IRREVERSIBLE_DELETE, HISTORY_REWRITE, CREDENTIAL_ACCESS, SECURITY_BOUNDARY_CHANGE, LIVE_TRADING,
     FINANCIAL_AUTHORITY_CHANGE, CHANGE_GOVERNANCE]"

definition SEPARATELY_APPROVABLE :: "action_category list" where
  "SEPARATELY_APPROVABLE = [PUSH, DEPLOY_PRODUCTION, PUBLISH_PUBLIC, PURCHASE, SPENDING, COMMIT]"

definition ADVISORY_ACTIONS :: "action_category list" where
  "ADVISORY_ACTIONS = [ANALYZE, PLAN, DRAFT, READ]"

definition TERMINAL_STATES :: "executive_state list" where
  "TERMINAL_STATES = [COMPLETED, CANCELED, FAILED]"

definition decision :: "authority_outcome \<Rightarrow> string \<Rightarrow> string \<Rightarrow> string \<Rightarrow> string \<Rightarrow> authority_decision" where
  "decision outcome rule field reason next_step =
     \<lparr>ad_outcome = outcome, ad_rule = rule, ad_charter_field = field, ad_limits = [], ad_reason = reason,
      ad_required_next_step = next_step, ad_approval_id = None\<rparr>"

text \<open>The category that each protected effect requires.\<close>

definition REQUIRED_BY_EFFECT :: "(action_effect \<times> action_category) list" where
  "REQUIRED_BY_EFFECT =
     [(EFF_DEPLOY_PRODUCTION, DEPLOY_PRODUCTION), (EFF_PUBLISH_PUBLIC, PUBLISH_PUBLIC), (EFF_PURCHASE, PURCHASE),
      (EFF_PAID_PROVIDER_USE, SPENDING), (EFF_HISTORY_REWRITE, HISTORY_REWRITE),
      (EFF_SECURITY_BOUNDARY_CHANGE, SECURITY_BOUNDARY_CHANGE), (EFF_CREDENTIAL_ACCESS, CREDENTIAL_ACCESS),
      (EFF_LIVE_TRADING, LIVE_TRADING), (EFF_FINANCIAL_AUTHORITY_CHANGE, FINANCIAL_AUTHORITY_CHANGE),
      (EFF_IRREVERSIBLE_DELETE, IRREVERSIBLE_DELETE)]"

definition join_comma :: "string list \<Rightarrow> string" where
  "join_comma ss = concat (case ss of [] \<Rightarrow> [] | s # rest \<Rightarrow> s # map (\<lambda>r. '', '' @ r) rest)"

definition classification_error :: "proposed_action \<Rightarrow> authority_decision option result" where
  "classification_error action =
     bind_result (action_category_of (pa_category action)) (\<lambda>category.
     bind_result (map_result action_effect_of (pa_effect_classes action)) (\<lambda>effects.
     case find (\<lambda>(effect, required). effect \<in> set effects \<and> category \<noteq> required) REQUIRED_BY_EFFECT of
       Some (effect, required) \<Rightarrow>
         ok (Some (decision DENIED ''classification-mismatch'' ''action_effects''
           (''structured action facts require '' @ category_value required @ '', not '' @ category_value category)
           ''correct the durable workflow classification''))
     | None \<Rightarrow>
         let obj = normalized (join_blank (pa_objective action # pa_target_resource action # pa_scope action));
             expected = effects_required_by_objective obj;
             missing = filter (\<lambda>e. e \<notin> set effects) expected
         in if missing \<noteq> [] then
              ok (Some (decision DENIED ''classification-mismatch'' ''action_effects''
                (''objective requires protected structured effects: '' @ join_comma (sort (map effect_value missing)))
                ''correct the durable workflow classification''))
            else if ambiguous_external_effect obj \<and> expected = [] then
              ok (Some (decision INDETERMINATE ''ambiguous-external-effect'' ''action_effects''
                ''external effect is ambiguous and cannot default to WRITE''
                ''supply explicit trusted action effects or revise the charter''))
            else ok None))"

definition action_matches_non_goal :: "proposed_action \<Rightarrow> string \<Rightarrow> bool result" where
  "action_matches_non_goal action non_goal =
     (let denied = normalized non_goal in
      if denied = [] then ok False
      else
        let denied_effects = effects_required_by_objective denied in
        bind_result (map_result action_effect_of (pa_effect_classes action)) (\<lambda>effects.
        if \<exists>e\<in>set denied_effects. e \<in> set effects then ok True
        else
          let material = normalized (join_blank
                (pa_objective action # pa_target_resource action # pa_category action # pa_scope action))
          in if sublist denied material then ok True
             else
               let denied_tokens = filter (\<lambda>t. 3 < length t \<and> t \<notin> set [''with'', ''from'', ''that'', ''this''])
                     (split_words denied);
                   material_tokens = split_words material
               in ok (denied_tokens \<noteq> [] \<and> (\<forall>t\<in>set denied_tokens. t \<in> set material_tokens))))"

fun any_result :: "('a \<Rightarrow> bool result) \<Rightarrow> 'a list \<Rightarrow> bool result" where
  "any_result f [] = ok False"
| "any_result f (x # xs) = bind_result (f x) (\<lambda>b. if b then ok True else any_result f xs)"

text \<open>\<open>(action.cost or 0)\<close>\<close>

definition cost_or_zero :: "py_float option \<Rightarrow> py_float" where
  "cost_or_zero cost = (case cost of None \<Rightarrow> Fin 0 | Some c \<Rightarrow> c)"

definition listed :: "string option \<Rightarrow> string list \<Rightarrow> string list \<Rightarrow> string list \<Rightarrow> bool" where
  "listed x prohibited approved allowed \<longleftrightarrow>
     (case x of None \<Rightarrow> True | Some s \<Rightarrow> s = [] \<or> s \<notin> set prohibited \<and> s \<in> set approved \<and> s \<in> set allowed)"

definition workspace_error :: "authority_world \<Rightarrow> authority_envelope \<Rightarrow> string option \<Rightarrow> authority_decision option" where
  "workspace_error w envelope workspace =
     (if falsy workspace then None
      else case (aw_resolve w (the workspace), those (map (aw_resolve w) (ae_allowed_workspaces envelope))) of
        (Some target, Some roots) \<Rightarrow>
          if \<exists>root\<in>set roots. target = root \<or> prefix root target then None
          else Some (decision DENIED ''workspace-containment'' ''workspaces'' ''workspace is outside approved roots''
            ''use an approved workspace'')
      | _ \<Rightarrow> Some (decision INDETERMINATE ''workspace-canonicalization'' ''workspaces''
          ''workspace cannot be canonicalized'' ''pause and verify the workspace''))"

definition constraint_error :: "authority_world \<Rightarrow> project_charter \<Rightarrow> proposed_action \<Rightarrow> authority_decision option" where
  "constraint_error w charter action =
     (let envelope = ch_authority_envelope charter;
          pays = (pa_spending action \<or> pa_cost action = None \<or> float_less (Fin 0) (cost_or_zero (pa_cost action)))
      in if pays \<and> pa_cost action = None then
           Some (decision DENIED ''unknown-cost'' ''cost'' ''paid or potentially paid work requires a known cost''
             ''supply a trusted exact cost before approval'')
         else if pays \<and> (float_le (ch_budget_limit charter) (Fin 0) \<or> float_le (ae_maximum_cost envelope) (Fin 0) \<or>
             ae_currency envelope = None) then
           Some (decision DENIED ''absent-spending-authority'' ''budget_policy''
             ''delegation does not itself grant spending authority'' ''obtain explicit Founder spending authority'')
         else if pays \<and> pa_currency action \<noteq> ae_currency envelope then
           Some (decision DENIED ''currency-mismatch'' ''authority_envelope.currency''
             ''implicit currency conversion is not permitted'' ''use the approved canonical currency'')
         else if float_less (float_min (ch_budget_limit charter) (ae_maximum_cost envelope)) (cost_or_zero (pa_cost action)) then
           Some (decision DENIED ''budget-limit'' ''budget_limit'' ''action cost exceeds the approved budget''
             ''reduce cost or revise the charter'')
         else if \<not> listed (pa_provider action) (ch_prohibited_providers charter) (ch_approved_providers charter)
             (ae_allowed_providers envelope) then
           Some (decision DENIED ''provider-allowlist'' ''approved_providers'' ''provider is not approved''
             ''select an approved provider'')
         else if \<not> listed (pa_tool action) (ch_prohibited_tools charter) (ch_approved_tools charter)
             (ae_allowed_tools envelope) then
           Some (decision DENIED ''tool-allowlist'' ''approved_tools'' ''tool is not approved'' ''select an approved tool'')
         else case workspace_error w envelope (pa_workspace action) of
           Some d \<Rightarrow> Some d
         | None \<Rightarrow>
             if pa_data_classification action \<notin> set (ae_data_classifications envelope) then
               Some (decision DENIED ''data-classification'' ''data_privacy_restrictions''
                 ''data classification is not approved'' ''revise data authority'')
             else None)"

subsection \<open>Approvals\<close>

datatype approval_match = Matched approval_record | MatchRevoked | MatchExpired | NoMatch

text \<open>\<open>datetime.fromisoformat(text) <= now\<close>\<close>

definition passed_by :: "authority_world \<Rightarrow> string \<Rightarrow> instant \<Rightarrow> bool result" where
  "passed_by w s now =
     (case aw_fromisoformat w s of
        None \<Rightarrow> raise ValueError ''Invalid isoformat string''
      | Some (Naive t) \<Rightarrow> raise TypeError ''can't compare offset-naive and offset-aware datetimes''
      | Some (Aware t) \<Rightarrow> ok (t \<le> now))"

definition expired_by :: "authority_world \<Rightarrow> string option \<Rightarrow> instant \<Rightarrow> bool result" where
  "expired_by w expires_at now = (case expires_at of None \<Rightarrow> ok False | Some s \<Rightarrow> passed_by w s now)"

text \<open>The approval is about this charter revision, this category and this scope.\<close>

definition approval_concerns :: "project_charter \<Rightarrow> proposed_action \<Rightarrow> action_category \<Rightarrow> approval_record \<Rightarrow> bool result" where
  "approval_concerns charter action category approval =
     (if ap_project_id approval \<noteq> ch_project_id charter \<or> ap_charter_id approval \<noteq> ch_charter_id charter \<or>
         ap_charter_revision approval \<noteq> ch_revision charter then ok False
      else bind_result (case ap_action_category approval of None \<Rightarrow> ok True
          | Some s \<Rightarrow> bind_result (action_category_of s) (\<lambda>c. ok (c = category))) (\<lambda>same.
        ok (same \<and> set (pa_scope action) \<subseteq> set (ap_scope approval))))"

fun limit_amount :: "limit_value option \<Rightarrow> py_float option" where
  "limit_amount (Some (LimitNumber x)) = Some x"
| "limit_amount (Some (LimitBool b)) = Some (Fin (if b then 1 else 0))"
| "limit_amount _ = None"

definition limit_binds :: "limit_value option \<Rightarrow> string option \<Rightarrow> bool" where
  "limit_binds limit actual \<longleftrightarrow>
     (case limit of None \<Rightarrow> True | Some LimitNone \<Rightarrow> True | Some (LimitText s) \<Rightarrow> actual = Some s | _ \<Rightarrow> False)"

definition within_limits :: "proposed_action \<Rightarrow> approval_record \<Rightarrow> bool" where
  "within_limits action approval \<longleftrightarrow>
     (case limit_amount (map_of (ap_limits approval) ''maximum_cost'') of
        None \<Rightarrow> True
      | Some amount \<Rightarrow> (case pa_cost action of None \<Rightarrow> False | Some c \<Rightarrow> \<not> float_less amount c)) \<and>
     limit_binds (map_of (ap_limits approval) ''provider'') (pa_provider action) \<and>
     limit_binds (map_of (ap_limits approval) ''workspace'') (pa_workspace action)"

fun match_loop ::
    "authority_world \<Rightarrow> project_charter \<Rightarrow> proposed_action \<Rightarrow> action_category \<Rightarrow> instant \<Rightarrow> bool \<Rightarrow> bool
      \<Rightarrow> approval_record list \<Rightarrow> approval_match result" where
  "match_loop w charter action category now revoked expired [] =
     ok (if revoked then MatchRevoked else if expired then MatchExpired else NoMatch)"
| "match_loop w charter action category now revoked expired (approval # approvals) =
     (if ap_kind approval = CHARTER_DURATION then match_loop w charter action category now revoked expired approvals
      else bind_result (approval_concerns charter action category approval) (\<lambda>concerns.
        if \<not> concerns then match_loop w charter action category now revoked expired approvals
        else if ap_revoked_at approval \<noteq> None then match_loop w charter action category now True expired approvals
        else bind_result (expired_by w (ap_expires_at approval) now) (\<lambda>over.
          if over then match_loop w charter action category now revoked True approvals
          else if ap_kind approval = ONE_TIME \<and> ap_consumed_at approval \<noteq> None
          then match_loop w charter action category now revoked expired approvals
          else if \<not> within_limits action approval
          then match_loop w charter action category now revoked expired approvals
          else ok (Matched approval))))"

definition matching_approval ::
    "authority_world \<Rightarrow> project_charter \<Rightarrow> proposed_action \<Rightarrow> approval_record list \<Rightarrow> instant \<Rightarrow> approval_match result" where
  "matching_approval w charter action approvals now =
     bind_result (action_category_of (pa_category action)) (\<lambda>category.
     match_loop w charter action category now False False approvals)"

subsection \<open>The evaluator\<close>

definition float_truthy :: "py_float option \<Rightarrow> bool" where
  "float_truthy x \<longleftrightarrow> (case x of None \<Rightarrow> False | Some c \<Rightarrow> c \<noteq> Fin 0)"

text \<open>The last rules, when no approval decides: the charter's mode, the separate approvals and its envelope.\<close>

definition evaluate_delegation :: "project_charter \<Rightarrow> proposed_action \<Rightarrow> action_category \<Rightarrow> authority_decision result" where
  "evaluate_delegation charter action category =
     (let mode = ch_delegation_mode charter; envelope = ch_authority_envelope charter in
      if mode = ADVISORY \<and> category \<notin> set ADVISORY_ACTIONS then
        ok (decision REQUIRES_FOUNDER_APPROVAL ''advisory-mode'' ''delegation_mode''
          ''Advisory mode cannot execute material actions'' ''request one-time or charter approval'')
      else if category \<in> set SEPARATELY_APPROVABLE \<or> pa_external_side_effect action then
        ok (decision REQUIRES_FOUNDER_APPROVAL ''separate-approval'' ''authority_envelope.separately_approvable_actions''
          ''the action requires separate Founder approval'' ''request a bound approval'')
      else bind_result (map_result action_category_of (ae_allowed_actions envelope)) (\<lambda>allowed_actions.
        if category \<notin> set allowed_actions then
          ok (decision (if mode = DELEGATED then REQUIRES_FOUNDER_APPROVAL else DENIED) ''allowed-action-list''
            ''authority_envelope.allowed_actions'' ''the action is not in the approved authority envelope''
            ''request approval or revise the charter'')
        else ok \<lparr>ad_outcome = (if float_truthy (pa_cost action) \<or> \<not> falsy (pa_workspace action)
              then ALLOWED_WITHIN_LIMIT else ALLOWED),
            ad_rule = ''delegation-envelope'', ad_charter_field = ''authority_envelope'',
            ad_limits = [(''maximum_cost'', LimitNumber (ae_maximum_cost envelope)),
              (''risk_limit'', LimitText (ae_risk_limit envelope))],
            ad_reason = ''deterministic charter policy permits the action'',
            ad_required_next_step = ''execute and preserve evidence'', ad_approval_id = None\<rparr>))"

definition evaluate_approval ::
    "authority_world \<Rightarrow> project_charter \<Rightarrow> proposed_action \<Rightarrow> action_category \<Rightarrow> approval_record list \<Rightarrow> instant
      \<Rightarrow> authority_decision result" where
  "evaluate_approval w charter action category approvals now =
     bind_result (matching_approval w charter action approvals now) (\<lambda>found.
     case found of
       MatchRevoked \<Rightarrow> ok (decision REVOKED ''approval-revocation'' ''approval.revoked_at''
         ''matching authority was revoked'' ''pause and request new Founder direction'')
     | MatchExpired \<Rightarrow> ok (decision EXPIRED ''approval-expiration'' ''approval.expires_at''
         ''matching approval expired'' ''request renewed Founder approval'')
     | Matched approval \<Rightarrow> ok \<lparr>ad_outcome = ALLOWED_WITHIN_LIMIT, ad_rule = ''bound-founder-approval'',
         ad_charter_field = ''approval'', ad_limits = ap_limits approval,
         ad_reason = ''a current approval authorizes this action'',
         ad_required_next_step = ''execute within the recorded limits'', ad_approval_id = Some (ap_approval_id approval)\<rparr>
     | NoMatch \<Rightarrow> evaluate_delegation charter action category)"

text \<open>The rules on the scope and the content of the action.\<close>

definition evaluate_scope ::
    "authority_world \<Rightarrow> project_charter \<Rightarrow> proposed_action \<Rightarrow> action_category \<Rightarrow> approval_record list \<Rightarrow> instant
      \<Rightarrow> authority_decision result" where
  "evaluate_scope w charter action category approvals now =
     (if category = EXPAND_SCOPE \<or> \<not> set (pa_scope action) \<subseteq> set (ch_deliverables charter) then
        ok (decision CHARTER_REVISION_REQUIRED ''scope-containment'' ''deliverables''
          ''the action expands or does not map to charter scope'' ''create a charter amendment'')
      else (case constraint_error w charter action of
          Some d \<Rightarrow> ok d
        | None \<Rightarrow> evaluate_approval w charter action category approvals now))"

definition evaluate_content ::
    "authority_world \<Rightarrow> project_charter \<Rightarrow> proposed_action \<Rightarrow> action_category \<Rightarrow> approval_record list \<Rightarrow> instant
      \<Rightarrow> authority_decision result" where
  "evaluate_content w charter action category approvals now =
     (if category \<in> set NON_DELEGABLE then
        ok (decision DENIED ''non-delegable-action'' ''authority_envelope.denied_actions''
          ''this action class cannot be delegated'' ''Founder must perform the action outside Keeper'')
      else bind_result (map_result action_category_of (ae_denied_actions (ch_authority_envelope charter))) (\<lambda>denied_actions.
        if category \<in> set denied_actions then
          ok (decision DENIED ''charter-denial'' ''authority_envelope.denied_actions''
            ''the active charter explicitly denies this action'' ''revise the charter'')
        else bind_result (any_result (action_matches_non_goal action) (ch_non_goals charter)) (\<lambda>non_goal.
        if non_goal then
          ok (decision DENIED ''explicit-non-goal'' ''non_goals''
            ''the action targets or materially contributes to an explicit non-goal''
            ''remove the action or obtain a charter revision'')
        else bind_result (classification_error action) (\<lambda>mismatch.
        case mismatch of Some d \<Rightarrow> ok d
        | None \<Rightarrow> evaluate_scope w charter action category approvals now))))"

definition evaluate ::
    "authority_world \<Rightarrow> project_record \<Rightarrow> project_charter \<Rightarrow> proposed_action \<Rightarrow> approval_record list \<Rightarrow> instant
      \<Rightarrow> authority_decision result" where
  "evaluate w project charter action approvals now =
     bind_result (action_category_of (pa_category action)) (\<lambda>category.
     if pr_project_id project \<noteq> pa_project_id action \<or> ch_project_id charter \<noteq> pr_project_id project then
       ok (decision INDETERMINATE ''identity-binding'' ''project_id'' ''project identity does not match'' ''reject the action'')
     else if pr_state project \<in> set TERMINAL_STATES then
       ok (decision DENIED ''terminal-project'' ''state'' ''terminal projects cannot launch actions'' ''create a new project'')
     else if pr_state project \<in> set PAUSE_STATES then
       ok (decision DENIED ''non-executable-project-state'' ''state'' ''the project is paused or waiting''
         ''resolve the pause before launching work'')
     else if pr_active_charter_revision project \<noteq> Some (pa_charter_revision action) \<or>
         ch_revision charter \<noteq> pa_charter_revision action then
       ok (decision CHARTER_REVISION_REQUIRED ''active-revision'' ''revision''
         ''action is bound to a stale charter revision'' ''bind the action to the active charter'')
     else if ch_status charter \<noteq> CS_ACTIVE \<or> pr_active_charter_id project \<noteq> Some (ch_charter_id charter) then
       ok (decision DENIED ''active-charter'' ''status'' ''charter is not the active approved revision''
         ''activate an approved charter'')
     else bind_result (expired_by w (ae_expires_at (ch_authority_envelope charter)) now) (\<lambda>expired.
       if expired then
         ok (decision EXPIRED ''envelope-expiration'' ''authority_envelope.expires_at'' ''charter authority has expired''
           ''obtain a charter revision'')
       else evaluate_content w charter action category approvals now))"

subsection \<open>The classifier\<close>

definition validate_durable_task_effects :: "executive_task \<Rightarrow> unit result" where
  "validate_durable_task_effects task =
     (case et_action_effects task of
        None \<Rightarrow> raise PermissionError ''durable structured action effects are missing''
      | Some fx \<Rightarrow>
          bind_result (map_result action_effect_of (fx_side_effect_classes fx)) (\<lambda>declared.
          let obj = normalized (join_blank (et_title task # et_objective task # et_instructions task));
              required = effects_required_by_objective obj;
              missing = filter (\<lambda>e. e \<notin> set declared) required
          in raise_if (missing \<noteq> []) PermissionError
               (''task objective is inconsistent with structured action effects: '' @
                join_comma (sort (map effect_value missing)))
             (raise_if (ambiguous_external_effect obj \<and> required = []) PermissionError
               ''ambiguous external-effect task fails closed''
             (bind_result (action_category_of (et_authority_category task)) (\<lambda>category.
              case find (\<lambda>(effect, expected). effect \<in> set declared \<and> category \<noteq> expected) REQUIRED_BY_EFFECT of
                Some (effect, expected) \<Rightarrow>
                  raise PermissionError (effect_value effect @ '' requires '' @ category_value expected)
              | None \<Rightarrow> ok ())))))"

definition price_is :: "rat \<Rightarrow> py_float option \<Rightarrow> bool" where
  "price_is r x \<longleftrightarrow> x = Some (Fin r)"

definition trusted_provider_cost :: "authority_world \<Rightarrow> instant \<Rightarrow> specialist_profile \<Rightarrow> py_float result" where
  "trusted_provider_cost w now s =
     raise_if (list_ex falsy [sl_pricing_identity s, sl_pricing_version s, sl_billing_unit s, sl_quote_timestamp s,
         sl_quote_expiration s, sl_pricing_source s]) PermissionError ''trusted provider pricing is unavailable''
     (bind_result (passed_by w (the (sl_quote_expiration s)) now) (\<lambda>expired.
      raise_if expired PermissionError ''trusted provider quote is expired''
      (raise_if (sl_currency s = None) PermissionError ''trusted provider pricing currency is unavailable''
      (if sl_billing_mode s = Some ''included-subscription'' then
         raise_if (\<not> sl_included_plan s \<or> sl_marginally_free s \<or> sl_incremental_charge_authorized s \<or>
             sl_api_billing_authorized s \<or> sl_paid_fallback_authorized s \<or> \<not> sl_capacity_bounded s \<or>
             sl_cost_tier s \<noteq> 0 \<or> \<not> price_is 0 (sl_estimated_cost s) \<or> \<not> price_is 0 (sl_maximum_cost s))
           PermissionError ''included-subscription pricing is contradictory'' (ok (Fin 0))
       else if sl_included_plan s \<and> sl_marginally_free s then
         raise_if (0 < sl_cost_tier s) PermissionError ''positive provider cost tier cannot become zero-cost usage''
         (raise_if (\<not> price_is 0 (sl_estimated_cost s) \<or> \<not> price_is 0 (sl_maximum_cost s)) PermissionError
           ''included-plan pricing is inconsistent'' (ok (Fin 0)))
       else case sl_maximum_cost s of
         None \<Rightarrow> raise PermissionError ''paid or unknown provider pricing fails closed''
       | Some maximum_cost \<Rightarrow>
           raise_if (float_le maximum_cost (Fin 0)) PermissionError ''paid or unknown provider pricing fails closed''
           (raise_if (sl_cost_tier s \<le> 0) PermissionError ''paid pricing conflicts with provider cost tier''
           (ok maximum_cost))))))"

definition LOCAL_EFFECTS :: "action_effect list" where
  "LOCAL_EFFECTS = [LOCAL_READ, LOCAL_WRITE, SOURCE_EDIT, TEST_EXECUTION]"

definition task_action ::
    "executive_task \<Rightarrow> project_charter \<Rightarrow> specialist_profile \<Rightarrow> action_effects \<Rightarrow> action_effect list \<Rightarrow> py_float \<Rightarrow> proposed_action"
  where
  "task_action task charter specialist effects declared quoted_cost =
     (let paid = float_less (Fin 0) quoted_cost;
          effect_classes = (if paid \<and> EFF_PAID_PROVIDER_USE \<notin> set declared
            then declared @ [EFF_PAID_PROVIDER_USE] else declared)
      in \<lparr>pa_action_id = ''task-action:'' @ et_task_id task, pa_project_id = et_project_id task,
      pa_charter_revision = et_charter_revision task,
      pa_category = (if paid then category_value SPENDING else et_authority_category task),
      pa_target_resource = et_objective task, pa_provider = Some (sl_provider_id specialist),
      pa_tool = Some (hd (ch_approved_tools charter)), pa_workspace = Some (hd (ch_workspaces charter)),
      pa_scope = ch_deliverables charter, pa_cost = Some quoted_cost,
      pa_reversible = fx_reversible effects, pa_risk = ch_risk_classification charter,
      pa_data_classification = hd (ae_data_classifications (ch_authority_envelope charter)),
      pa_external_side_effect = list_ex (\<lambda>e. e \<notin> set LOCAL_EFFECTS) effect_classes,
      pa_objective = et_objective task, pa_currency = ae_currency (ch_authority_envelope charter),
      pa_publication = (fx_publication_effect effects = ''PUBLIC''),
      pa_deployment = (fx_deployment_effect effects = ''PRODUCTION''),
      pa_spending = (fx_spending_effect effects = ''PAID'' \<or> paid),
      pa_git_mutation = (if fx_git_mutation effects = ''NONE'' then None else Some (fx_git_mutation effects)),
      pa_security_boundary_impact = (fx_security_boundary_effect effects = ''CHANGE''),
      pa_trusted_source = ''DURABLE_WORKFLOW_TASK'',
      pa_effect_classes = sort (map effect_value (remdups effect_classes)), pa_repository = None,
      pa_branch = None\<rparr>)"

definition classify ::
    "authority_world \<Rightarrow> instant \<Rightarrow> executive_task \<Rightarrow> project_charter \<Rightarrow> specialist_profile \<Rightarrow> proposed_action result" where
  "classify w now task charter specialist =
     raise_if (et_project_id task \<noteq> ch_project_id charter \<or> et_charter_id task \<noteq> ch_charter_id charter)
       PermissionError ''task and charter identity do not match''
     (bind_result (validate_durable_task_effects task) (\<lambda>_.
      raise_if (length (ch_workspaces charter) \<noteq> 1 \<or> length (ch_approved_tools charter) \<noteq> 1) PermissionError
        ''workflow launch requires one explicit workspace and tool''
      (raise_if (ae_data_classifications (ch_authority_envelope charter) = []) PermissionError
        ''workflow data classification is missing''
      (case et_action_effects task of
         None \<Rightarrow> raise PermissionError ''durable structured action effects are missing''
       | Some fx \<Rightarrow>
           raise_if (fx_workspace fx \<noteq> Some (hd (ch_workspaces charter)) \<or>
               fx_tool fx \<noteq> Some (hd (ch_approved_tools charter)) \<or>
               fx_provider fx \<notin> {None, Some (sl_provider_id specialist)}) PermissionError
             ''structured action target binding is invalid''
           (bind_result (map_result action_effect_of (fx_side_effect_classes fx)) (\<lambda>declared.
            bind_result (trusted_provider_cost w now specialist) (\<lambda>quoted_cost.
            let action = task_action task charter specialist fx declared quoted_cost in
            bind_result (check_proposed_action action) (\<lambda>_.
            bind_result (classification_error action) (\<lambda>mismatch.
            case mismatch of Some d \<Rightarrow> raise PermissionError (ad_reason d) | None \<Rightarrow> ok action)))))))))"

subsection \<open>What an allowing decision rests on\<close>

definition allows :: "authority_decision \<Rightarrow> bool" where
  "allows d \<longleftrightarrow> ad_outcome d \<in> {ALLOWED, ALLOWED_WITHIN_LIMIT}"

lemma allows_decision [simp]: "allows (decision out rule field reason next_step) \<longleftrightarrow> out \<in> {ALLOWED, ALLOWED_WITHIN_LIMIT}"
  by (simp add: allows_def decision_def)

lemma evaluate_allows:
  assumes "evaluate w project charter action approvals now = Inr d" and "allows d"
  obtains category where "action_category_of (pa_category action) = Inr category"
    "pr_project_id project = pa_project_id action" "ch_project_id charter = pr_project_id project"
    "pr_state project \<notin> set TERMINAL_STATES" "pr_state project \<notin> set PAUSE_STATES"
    "pr_active_charter_revision project = Some (pa_charter_revision action)"
    "ch_revision charter = pa_charter_revision action" "ch_status charter = CS_ACTIVE"
    "pr_active_charter_id project = Some (ch_charter_id charter)"
    "expired_by w (ae_expires_at (ch_authority_envelope charter)) now = Inr False"
    "evaluate_content w charter action category approvals now = Inr d"
  using assms unfolding evaluate_def bind_result_Inr by (auto simp: bind_result_Inr split: if_splits)

lemma classification_error_None:
  assumes "classification_error action = Inr None"
  obtains category effects where "action_category_of (pa_category action) = Inr category"
    "map_result action_effect_of (pa_effect_classes action) = Inr effects"
    "\<And>e c. (e, c) \<in> set REQUIRED_BY_EFFECT \<Longrightarrow> e \<in> set effects \<Longrightarrow> c = category"
    "set (effects_required_by_objective (normalized (join_blank
       (pa_objective action # pa_target_resource action # pa_scope action)))) \<subseteq> set effects"
proof -
  let ?required = "effects_required_by_objective (normalized (join_blank
       (pa_objective action # pa_target_resource action # pa_scope action)))"
  from assms obtain category effects where c: "action_category_of (pa_category action) = Inr category"
      and e: "map_result action_effect_of (pa_effect_classes action) = Inr effects"
      and none: "find (\<lambda>(effect, required). effect \<in> set effects \<and> category \<noteq> required) REQUIRED_BY_EFFECT = None"
      and missing: "filter (\<lambda>e. e \<notin> set effects) ?required = []"
    unfolding classification_error_def bind_result_Inr Let_def by (fastforce split: option.splits if_splits)
  show ?thesis
  proof (rule that [OF c e])
    show "c = category" if "(x, c) \<in> set REQUIRED_BY_EFFECT" "x \<in> set effects" for x c
      using none that by (auto simp: find_None_iff)
    show "set ?required \<subseteq> set effects" using missing by (auto simp: filter_empty_conv)
  qed
qed

lemma classification_error_Some: "classification_error action = Inr (Some d) \<Longrightarrow> \<not> allows d"
  unfolding classification_error_def bind_result_Inr Let_def by (auto split: option.splits if_splits)

lemma workspace_error_Some: "workspace_error w envelope x = Some d \<Longrightarrow> \<not> allows d"
  unfolding workspace_error_def by (auto split: option.splits if_splits)

lemma if_decision_Some:
  "(if b then Some (decision out rule field reason next_step) else rest) = Some d \<Longrightarrow>
     out \<notin> {ALLOWED, ALLOWED_WITHIN_LIMIT} \<Longrightarrow> (rest = Some d \<Longrightarrow> \<not> allows d) \<Longrightarrow> \<not> allows d"
  by (cases b) auto

lemma constraint_error_Some: "constraint_error w charter action = Some d \<Longrightarrow> \<not> allows d"
  unfolding constraint_error_def Let_def
  by ((erule if_decision_Some, simp)+, cases "workspace_error w (ch_authority_envelope charter) (pa_workspace action)")
    (simp_all only: option.case workspace_error_Some, erule if_decision_Some, simp_all)

lemma constraint_error_None:
  assumes "constraint_error w charter action = None"
  shows "\<exists>c. pa_cost action = Some c \<and>
      \<not> float_less (float_min (ch_budget_limit charter) (ae_maximum_cost (ch_authority_envelope charter))) c \<and>
      (float_less (Fin 0) c \<or> pa_spending action \<longrightarrow> pa_currency action \<noteq> None \<and>
         pa_currency action = ae_currency (ch_authority_envelope charter))"
    and "listed (pa_provider action) (ch_prohibited_providers charter) (ch_approved_providers charter)
      (ae_allowed_providers (ch_authority_envelope charter))"
    and "listed (pa_tool action) (ch_prohibited_tools charter) (ch_approved_tools charter)
      (ae_allowed_tools (ch_authority_envelope charter))"
    and "workspace_error w (ch_authority_envelope charter) (pa_workspace action) = None"
    and "pa_data_classification action \<in> set (ae_data_classifications (ch_authority_envelope charter))"
  using assms unfolding constraint_error_def Let_def
  by (auto simp: cost_or_zero_def split: option.splits if_splits)

lemma evaluate_content_allows:
  assumes "evaluate_content w charter action category approvals now = Inr d" and "allows d"
  shows "category \<notin> set NON_DELEGABLE"
    and "\<And>s. s \<in> set (ae_denied_actions (ch_authority_envelope charter)) \<Longrightarrow> action_category_of s \<noteq> Inr category"
    and "any_result (action_matches_non_goal action) (ch_non_goals charter) = Inr False"
    and "classification_error action = Inr None"
    and "category \<noteq> EXPAND_SCOPE" and "set (pa_scope action) \<subseteq> set (ch_deliverables charter)"
    and "constraint_error w charter action = None"
    and "evaluate_approval w charter action category approvals now = Inr d"
proof -
  from assms obtain denied where denied: "map_result action_category_of (ae_denied_actions (ch_authority_envelope charter)) = Inr denied"
      "category \<notin> set denied"
    and rest: "category \<notin> set NON_DELEGABLE" "any_result (action_matches_non_goal action) (ch_non_goals charter) = Inr False"
      "classification_error action = Inr None" "category \<noteq> EXPAND_SCOPE" "set (pa_scope action) \<subseteq> set (ch_deliverables charter)"
      "constraint_error w charter action = None" "evaluate_approval w charter action category approvals now = Inr d"
  proof -
    from assms obtain denied m where "category \<notin> set NON_DELEGABLE" "category \<notin> set denied"
        "map_result action_category_of (ae_denied_actions (ch_authority_envelope charter)) = Inr denied"
        "any_result (action_matches_non_goal action) (ch_non_goals charter) = Inr False"
        and m: "classification_error action = Inr m"
        and rest: "(case m of Some d \<Rightarrow> ok d
          | None \<Rightarrow> evaluate_scope w charter action category approvals now) = Inr d"
      unfolding evaluate_content_def by (auto simp: bind_result_Inr split: if_splits)
    moreover have "m = None" using m rest assms(2) classification_error_Some [of action d] by (cases m) auto
    moreover from this rest have scope: "evaluate_scope w charter action category approvals now = Inr d" by simp
    moreover from scope have "category \<noteq> EXPAND_SCOPE" "set (pa_scope action) \<subseteq> set (ch_deliverables charter)"
        "constraint_error w charter action = None" "evaluate_approval w charter action category approvals now = Inr d"
      using assms(2) constraint_error_Some [of w charter action d]
      by (auto simp: evaluate_scope_def split: if_splits option.splits)
    ultimately show ?thesis using that m by simp
  qed
  show "action_category_of s \<noteq> Inr category" if "s \<in> set (ae_denied_actions (ch_authority_envelope charter))" for s
  proof
    assume s: "action_category_of s = Inr category"
    from that obtain i where i: "i < length (ae_denied_actions (ch_authority_envelope charter))"
        "ae_denied_actions (ch_authority_envelope charter) ! i = s" by (auto simp: in_set_conv_nth)
    from map_result_Inr_nth [OF denied(1) i(1)] i(2) s have "denied ! i = category" by simp
    with i(1) map_result_Inr_length [OF denied(1)] denied(2) show False by (auto simp: in_set_conv_nth)
  qed
  from rest show "category \<notin> set NON_DELEGABLE"
    "any_result (action_matches_non_goal action) (ch_non_goals charter) = Inr False"
    "classification_error action = Inr None" "category \<noteq> EXPAND_SCOPE"
    "set (pa_scope action) \<subseteq> set (ch_deliverables charter)" "constraint_error w charter action = None"
    "evaluate_approval w charter action category approvals now = Inr d" by simp_all
qed

text \<open>An approval that decides is on record, current, and about this very action.\<close>

definition approval_covers ::
    "authority_world \<Rightarrow> project_charter \<Rightarrow> proposed_action \<Rightarrow> action_category \<Rightarrow> instant \<Rightarrow> approval_record \<Rightarrow> bool" where
  "approval_covers w charter action category now a \<longleftrightarrow>
     ap_kind a \<noteq> CHARTER_DURATION \<and> ap_project_id a = ch_project_id charter \<and> ap_charter_id a = ch_charter_id charter \<and>
     ap_charter_revision a = ch_revision charter \<and> set (pa_scope action) \<subseteq> set (ap_scope a) \<and>
     (\<forall>s. ap_action_category a = Some s \<longrightarrow> action_category_of s = Inr category) \<and>
     ap_revoked_at a = None \<and> expired_by w (ap_expires_at a) now = Inr False \<and>
     (ap_kind a = ONE_TIME \<longrightarrow> ap_consumed_at a = None) \<and> within_limits action a"

lemma approval_concerns_True:
  "approval_concerns charter action category a = Inr True \<Longrightarrow>
     ap_project_id a = ch_project_id charter \<and> ap_charter_id a = ch_charter_id charter \<and>
     ap_charter_revision a = ch_revision charter \<and> set (pa_scope action) \<subseteq> set (ap_scope a) \<and>
     (\<forall>s. ap_action_category a = Some s \<longrightarrow> action_category_of s = Inr category)"
  by (auto simp: approval_concerns_def bind_result_Inr split: if_splits option.splits)

lemma match_loop_Matched:
  "match_loop w charter action category now revoked expired approvals = Inr (Matched a) \<Longrightarrow>
     a \<in> set approvals \<and> approval_covers w charter action category now a"
proof (induction approvals arbitrary: revoked expired)
  case (Cons b approvals)
  show ?case
  proof (cases "a = b \<and> approval_concerns charter action category b = Inr True \<and> ap_kind b \<noteq> CHARTER_DURATION \<and>
      ap_revoked_at b = None \<and> expired_by w (ap_expires_at b) now = Inr False \<and>
      \<not> (ap_kind b = ONE_TIME \<and> ap_consumed_at b \<noteq> None) \<and> within_limits action b")
    case True
    then show ?thesis using approval_concerns_True [of charter action category b] by (auto simp: approval_covers_def)
  next
    case False
    with Cons.prems have "\<exists>r e. match_loop w charter action category now r e approvals = Inr (Matched a)"
      by (auto simp: bind_result_Inr split: if_splits)
    with Cons.IH show ?thesis by auto
  qed
qed (auto split: if_splits)

definition delegated :: "project_charter \<Rightarrow> proposed_action \<Rightarrow> action_category \<Rightarrow> bool" where
  "delegated charter action category \<longleftrightarrow>
     (ch_delegation_mode charter = ADVISORY \<longrightarrow> category \<in> set ADVISORY_ACTIONS) \<and>
     category \<notin> set SEPARATELY_APPROVABLE \<and> \<not> pa_external_side_effect action \<and>
     (\<exists>s\<in>set (ae_allowed_actions (ch_authority_envelope charter)). action_category_of s = Inr category)"

lemma evaluate_delegation_allows:
  assumes "evaluate_delegation charter action category = Inr d" and "allows d"
  shows "delegated charter action category" and "ad_approval_id d = None"
proof -
  from assms obtain cs where cs: "map_result action_category_of (ae_allowed_actions (ch_authority_envelope charter)) = Inr cs"
      "category \<in> set cs" and d: "ad_approval_id d = None" and rest: "category \<notin> set SEPARATELY_APPROVABLE"
      "\<not> pa_external_side_effect action" "ch_delegation_mode charter = ADVISORY \<longrightarrow> category \<in> set ADVISORY_ACTIONS"
    unfolding evaluate_delegation_def Let_def by (auto simp: bind_result_Inr split: if_splits)
  from map_result_Inr_set [OF cs] rest show "delegated charter action category" by (simp add: delegated_def)
  from d show "ad_approval_id d = None" .
qed

lemma evaluate_approval_allows:
  assumes "evaluate_approval w charter action category approvals now = Inr d" and "allows d"
    and "action_category_of (pa_category action) = Inr category"
  shows "case ad_approval_id d of
      Some i \<Rightarrow> \<exists>a\<in>set approvals. ap_approval_id a = i \<and> approval_covers w charter action category now a
    | None \<Rightarrow> delegated charter action category"
proof -
  from assms(1) obtain m where m: "match_loop w charter action category now False False approvals = Inr m"
    and d: "(case m of
       MatchRevoked \<Rightarrow> ok (decision REVOKED ''approval-revocation'' ''approval.revoked_at''
         ''matching authority was revoked'' ''pause and request new Founder direction'')
     | MatchExpired \<Rightarrow> ok (decision EXPIRED ''approval-expiration'' ''approval.expires_at''
         ''matching approval expired'' ''request renewed Founder approval'')
     | Matched approval \<Rightarrow> ok \<lparr>ad_outcome = ALLOWED_WITHIN_LIMIT, ad_rule = ''bound-founder-approval'',
         ad_charter_field = ''approval'', ad_limits = ap_limits approval,
         ad_reason = ''a current approval authorizes this action'',
         ad_required_next_step = ''execute within the recorded limits'', ad_approval_id = Some (ap_approval_id approval)\<rparr>
     | NoMatch \<Rightarrow> evaluate_delegation charter action category) = Inr d"
    unfolding evaluate_approval_def matching_approval_def bind_result_Inr assms(3) by auto
  show ?thesis
  proof (cases m)
    case (Matched a)
    with m d match_loop_Matched show ?thesis by fastforce
  next
    case NoMatch
    with d assms(2) evaluate_delegation_allows [of charter action category d] show ?thesis by simp
  qed (use d assms(2) in auto)
qed

end
