(* ===== verification/Authority_Properties.thy ===== *)
theory Authority_Properties
  imports Executive_Authority
begin

text \<open>
  What holds of the executive's authority decisions as a whole: what an allowing decision proves, what no
  charter and no approval can allow, that validated records always get a decision, and how a classified
  task with a price is decided.
\<close>

subsection \<open>Totality\<close>

lemma map_result_succeeds: "succeeds (map_result f xs) \<longleftrightarrow> (\<forall>x\<in>set xs. succeeds (f x))"
  by (simp add: succeeds_def map_result_ok_iff)

lemma bind_result_ok_D: "bind_result r f = Inr y \<Longrightarrow> \<exists>x. r = Inr x \<and> f x = Inr y"
  by (simp add: bind_result_Inr)

lemma check_envelope_lists:
  assumes "check_authority_envelope fromiso e = Inr u"
  shows "succeeds (map_result action_category_of (ae_allowed_actions e))"
    and "succeeds (map_result action_category_of (ae_denied_actions e))"
    and "validate_optional_timestamp fromiso (ae_expires_at e) ''expires_at'' = Inr ()"
proof -
  from assms have step: "bind_result (validate_optional_timestamp fromiso (ae_expires_at e) ''expires_at'') (\<lambda>_.
      raise_if (\<not> currency_ok (ae_currency e)) ValueError ''currency must be a three-letter code''
      (bind_result (map_result action_category_of
         (ae_allowed_actions e @ ae_separately_approvable_actions e @ ae_denied_actions e)) (\<lambda>_. ok ()))) = Inr u"
    unfolding check_authority_envelope_def raise_if_Inr by blast
  from bind_result_ok_D [OF this] obtain v where time: "validate_optional_timestamp fromiso (ae_expires_at e) ''expires_at'' = Inr v"
    and rest: "raise_if (\<not> currency_ok (ae_currency e)) ValueError ''currency must be a three-letter code''
      (bind_result (map_result action_category_of
         (ae_allowed_actions e @ ae_separately_approvable_actions e @ ae_denied_actions e)) (\<lambda>_. ok ())) = Inr u"
    by blast
  from rest obtain cs where "map_result action_category_of
      (ae_allowed_actions e @ ae_separately_approvable_actions e @ ae_denied_actions e) = Inr cs"
    unfolding raise_if_Inr by (blast dest: bind_result_ok_D)
  then have "succeeds (map_result action_category_of
      (ae_allowed_actions e @ ae_separately_approvable_actions e @ ae_denied_actions e))" by simp
  then show "succeeds (map_result action_category_of (ae_allowed_actions e))"
    "succeeds (map_result action_category_of (ae_denied_actions e))" by (simp_all add: map_result_succeeds)
  from time show "validate_optional_timestamp fromiso (ae_expires_at e) ''expires_at'' = Inr ()" by simp
qed

lemma expired_by_succeeds:
  "validate_optional_timestamp (aw_fromisoformat w) t field = Inr () \<Longrightarrow> succeeds (expired_by w t now)"
  by (auto simp: validate_optional_timestamp_def validate_timestamp_def expired_by_def passed_by_def
      split: option.splits py_datetime.splits)

lemma check_action_parts:
  assumes "check_proposed_action action = Inr u"
  shows "succeeds (action_category_of (pa_category action))"
    and "succeeds (map_result action_effect_of (pa_effect_classes action))"
  using assms by (auto simp: check_proposed_action_def bind_result_Inr)

lemma classification_succeeds:
  "check_proposed_action action = Inr u \<Longrightarrow> succeeds (classification_error action)"
  unfolding classification_error_def
  by (intro succeeds_bind) (auto simp: check_action_parts Let_def split: option.splits)

lemma any_result_succeeds: "(\<And>x. x \<in> set xs \<Longrightarrow> succeeds (f x)) \<Longrightarrow> succeeds (any_result f xs)"
  by (induction xs) auto

lemma non_goal_succeeds:
  "check_proposed_action action = Inr u \<Longrightarrow> succeeds (action_matches_non_goal action non_goal)"
  unfolding action_matches_non_goal_def Let_def
  by (intro succeeds_if succeeds_bind succeeds_ok) (rule check_action_parts)

lemma check_approval_parts:
  assumes "check_approval_record fromiso a = Inr u"
  shows "validate_optional_timestamp fromiso (ap_expires_at a) ''expires_at'' = Inr ()"
    and "ap_action_category a = Some s \<Longrightarrow> succeeds (action_category_of s)"
  using assms by (auto simp: check_approval_record_def bind_result_Inr)

lemma approval_concerns_succeeds:
  "check_approval_record fromiso a = Inr u \<Longrightarrow> succeeds (approval_concerns charter action category a)"
  unfolding approval_concerns_def
  by (cases "ap_action_category a") (auto intro!: succeeds_bind dest: check_approval_parts(2))

lemma match_loop_succeeds:
  assumes "\<And>a. a \<in> set approvals \<Longrightarrow> check_approval_record (aw_fromisoformat w) a = Inr ()"
  shows "succeeds (match_loop w charter action category now revoked expired approvals)"
  using assms
proof (induction approvals arbitrary: revoked expired)
  case (Cons a approvals)
  then have rest: "succeeds (match_loop w charter action category now r e approvals)" for r e by simp
  have a: "check_approval_record (aw_fromisoformat w) a = Inr ()" using Cons.prems by simp
  show ?case
    by (simp only: match_loop.simps) (intro succeeds_if succeeds_bind rest succeeds_ok
      approval_concerns_succeeds [OF a] expired_by_succeeds [OF check_approval_parts(1) [OF a]])
qed simp

lemma evaluate_approval_succeeds:
  assumes "action_category_of (pa_category action) = Inr category"
    and "\<And>a. a \<in> set approvals \<Longrightarrow> check_approval_record (aw_fromisoformat w) a = Inr ()"
    and "check_authority_envelope fromiso (ch_authority_envelope charter) = Inr u"
  shows "succeeds (evaluate_approval w charter action category approvals now)"
proof -
  have "succeeds (evaluate_delegation charter action category)"
    unfolding evaluate_delegation_def Let_def
    by (intro succeeds_if succeeds_bind succeeds_ok check_envelope_lists(1) [OF assms(3)])
  then show ?thesis
    unfolding evaluate_approval_def matching_approval_def assms(1) bind_result.simps
    by (auto intro!: succeeds_bind match_loop_succeeds assms(2) split: approval_match.splits)
qed

lemma evaluate_content_succeeds:
  assumes "check_proposed_action action = Inr u" and "action_category_of (pa_category action) = Inr category"
    and "\<And>a. a \<in> set approvals \<Longrightarrow> check_approval_record (aw_fromisoformat w) a = Inr ()"
    and "check_authority_envelope fromiso (ch_authority_envelope charter) = Inr v"
  shows "succeeds (evaluate_content w charter action category approvals now)"
proof -
  have approval: "succeeds (evaluate_approval w charter action category approvals now)"
    by (rule evaluate_approval_succeeds) (fact assms)+
  have scope: "succeeds (evaluate_scope w charter action category approvals now)"
    unfolding evaluate_scope_def
    by (cases "constraint_error w charter action") (simp_all only: option.case succeeds_if succeeds_ok approval)
  show ?thesis
    unfolding evaluate_content_def
  proof (intro succeeds_if succeeds_bind succeeds_ok check_envelope_lists(2) [OF assms(4)] any_result_succeeds
      non_goal_succeeds [OF assms(1)] classification_succeeds [OF assms(1)])
    show "succeeds (case m of Some d \<Rightarrow> ok d | None \<Rightarrow> evaluate_scope w charter action category approvals now)" for m
      using scope by (cases m) simp_all
  qed
qed

subsection \<open>Protected effects\<close>

lemma required_category_unique:
  "(e, c) \<in> set REQUIRED_BY_EFFECT \<Longrightarrow> (e, c') \<in> set REQUIRED_BY_EFFECT \<Longrightarrow> c = c'"
  by (auto simp: REQUIRED_BY_EFFECT_def)

lemma purchase_objective_effects:
  "contains_any obj [''purchase'', ''buy access''] \<Longrightarrow> {EFF_PURCHASE, EFF_PAID_PROVIDER_USE} \<subseteq> set (effects_required_by_objective obj)"
  by (simp add: effects_required_by_objective_def OBJECTIVE_EFFECTS_def)

definition action_text :: "proposed_action \<Rightarrow> string" where
  "action_text action = normalized (join_blank (pa_objective action # pa_target_resource action # pa_scope action))"

definition action_effects_of :: "proposed_action \<Rightarrow> action_effect set" where
  "action_effects_of action = {e. \<exists>s\<in>set (pa_effect_classes action). action_effect_of s = Inr e}"

declare join_blank.simps [simp del]

lemma map_result_image: "map_result f xs = Inr ys \<Longrightarrow> set ys = {y. \<exists>x\<in>set xs. f x = Inr y}"
  by (induction xs arbitrary: ys) (auto simp: bind_result_Inr)

lemma evaluate_allows_classified:
  assumes "evaluate w project charter action approvals now = Inr d" and "allows d"
  obtains category where "action_category_of (pa_category action) = Inr category"
    "\<And>e c. (e, c) \<in> set REQUIRED_BY_EFFECT \<Longrightarrow> e \<in> action_effects_of action \<Longrightarrow> c = category"
    "set (effects_required_by_objective (action_text action)) \<subseteq> action_effects_of action"
proof -
  from evaluate_allows [OF assms] obtain category where
    content: "evaluate_content w charter action category approvals now = Inr d" by metis
  show ?thesis
  proof (rule classification_error_None [OF evaluate_content_allows(4) [OF content assms(2)]])
    fix category' effects
    assume c: "action_category_of (pa_category action) = Inr category'"
      and e: "map_result action_effect_of (pa_effect_classes action) = Inr effects"
      and req: "\<And>e c. (e, c) \<in> set REQUIRED_BY_EFFECT \<Longrightarrow> e \<in> set effects \<Longrightarrow> c = category'"
      and obj: "set (effects_required_by_objective (normalized (join_blank
         (pa_objective action # pa_target_resource action # pa_scope action)))) \<subseteq> set effects"
    have "set effects = action_effects_of action"
      using map_result_image [OF e] by (simp add: action_effects_of_def)
    with req obj show thesis by (intro that [OF c]) (simp_all add: action_text_def)
  qed
qed

text \<open>The policy that an allowing decision stands for, with the approval it names.\<close>

definition authorized ::
    "authority_world \<Rightarrow> project_record \<Rightarrow> project_charter \<Rightarrow> proposed_action \<Rightarrow> approval_record list \<Rightarrow> instant
      \<Rightarrow> string option \<Rightarrow> bool" where
  "authorized w project charter action approvals now approval_id \<longleftrightarrow>
     pr_project_id project = pa_project_id action \<and> ch_project_id charter = pa_project_id action \<and>
     pr_state project \<notin> set TERMINAL_STATES \<union> set PAUSE_STATES \<and>
     pr_active_charter_id project = Some (ch_charter_id charter) \<and>
     pr_active_charter_revision project = Some (ch_revision charter) \<and>
     pa_charter_revision action = ch_revision charter \<and> ch_status charter = CS_ACTIVE \<and>
     expired_by w (ae_expires_at (ch_authority_envelope charter)) now = Inr False \<and>
     set (pa_scope action) \<subseteq> set (ch_deliverables charter) \<and>
     set (effects_required_by_objective (action_text action)) \<subseteq> action_effects_of action \<and>
     constraint_error w charter action = None \<and>
     (\<exists>category. action_category_of (pa_category action) = Inr category \<and>
        category \<notin> set NON_DELEGABLE \<and> category \<noteq> EXPAND_SCOPE \<and>
        (\<forall>s\<in>set (ae_denied_actions (ch_authority_envelope charter)). action_category_of s \<noteq> Inr category) \<and>
        (\<forall>(e, c)\<in>set REQUIRED_BY_EFFECT. e \<in> action_effects_of action \<longrightarrow> c = category) \<and>
        (case approval_id of
           Some i \<Rightarrow> \<exists>a\<in>set approvals. ap_approval_id a = i \<and> approval_covers w charter action category now a
         | None \<Rightarrow> delegated charter action category))"

lemma evaluate_authorized:
  assumes "evaluate w project charter action approvals now = Inr d" and "allows d"
  shows "authorized w project charter action approvals now (ad_approval_id d)"
proof -
  from evaluate_allows [OF assms] obtain category where
    c: "action_category_of (pa_category action) = Inr category"
    and gates: "pr_project_id project = pa_project_id action" "ch_project_id charter = pr_project_id project"
      "pr_state project \<notin> set TERMINAL_STATES" "pr_state project \<notin> set PAUSE_STATES"
      "pr_active_charter_revision project = Some (pa_charter_revision action)"
      "ch_revision charter = pa_charter_revision action" "ch_status charter = CS_ACTIVE"
      "pr_active_charter_id project = Some (ch_charter_id charter)"
      "expired_by w (ae_expires_at (ch_authority_envelope charter)) now = Inr False"
    and content: "evaluate_content w charter action category approvals now = Inr d" by metis
  note facts = evaluate_content_allows [OF content assms(2)]
  have objective: "set (effects_required_by_objective (action_text action)) \<subseteq> action_effects_of action"
    and effects: "\<forall>(e, c)\<in>set REQUIRED_BY_EFFECT. e \<in> action_effects_of action \<longrightarrow> c = category"
  proof -
    obtain category' where "action_category_of (pa_category action) = Inr category'"
      and req: "\<And>e c. (e, c) \<in> set REQUIRED_BY_EFFECT \<Longrightarrow> e \<in> action_effects_of action \<Longrightarrow> c = category'"
      and obj: "set (effects_required_by_objective (action_text action)) \<subseteq> action_effects_of action"
      by (rule evaluate_allows_classified [OF assms]) blast
    with c have "category' = category" by simp
    with req show "\<forall>(e, c)\<in>set REQUIRED_BY_EFFECT. e \<in> action_effects_of action \<longrightarrow> c = category" by blast
    from obj show "set (effects_required_by_objective (action_text action)) \<subseteq> action_effects_of action" .
  qed
  have approval: "case ad_approval_id d of
      Some i \<Rightarrow> \<exists>a\<in>set approvals. ap_approval_id a = i \<and> approval_covers w charter action category now a
    | None \<Rightarrow> delegated charter action category"
    by (rule evaluate_approval_allows [OF facts(8) assms(2) c])
  show ?thesis
    unfolding authorized_def
    by (intro conjI exI [of _ category] ballI facts(1,2,5,6,7) c objective effects approval)
      (use gates in simp_all)
qed

text \<open>
C4: an action the evaluator allows is authorized: its project is executing under the active revision of an
unexpired charter, its category is delegable and not denied, its declared effects agree with its category
and its texts, it stays in the charter's scope and limits, and either a current approval on record covers
it (and is the one the decision names) or the charter delegates its category.
\<close>

theorem allowed_actions_are_authorized:
  assumes "evaluate w project charter action approvals now = Inr d" and "allows d"
  shows "authorized w project charter action approvals now (ad_approval_id d)"
  using assms by (rule evaluate_authorized)

definition EXAMPLE_ENVELOPE :: authority_envelope where
  "EXAMPLE_ENVELOPE =
     \<lparr>ae_allowed_actions = [''WRITE'', ''TEST''], ae_separately_approvable_actions = [''SPEND''],
      ae_denied_actions = [''PUSH''], ae_allowed_workspaces = [''/work''], ae_allowed_tools = [''editor''],
      ae_allowed_providers = [''local''], ae_maximum_cost = Fin 5, ae_risk_limit = ''LOW'',
      ae_data_classifications = [''internal''], ae_expires_at = None, ae_currency = Some ''USD''\<rparr>"

definition EXAMPLE_CHARTER :: project_charter where
  "EXAMPLE_CHARTER =
     \<lparr>ch_charter_id = ''c1'', ch_project_id = ''p1'', ch_title = ''Report'', ch_project_type = '''',
      ch_purpose = '''', ch_problem_statement = '''', ch_desired_outcome = '''',
      ch_deliverables = [''report''], ch_non_goals = [''trading''], ch_success_criteria = [],
      ch_constraints = [], ch_assumptions = [], ch_unresolved_questions = [], ch_timeline = None,
      ch_budget_policy = '''', ch_budget_limit = Fin 10, ch_approved_tools = [''editor''],
      ch_approved_providers = [''local''], ch_prohibited_tools = [], ch_prohibited_providers = [],
      ch_workspaces = [''/work''], ch_data_privacy_restrictions = [], ch_risk_classification = ''LOW'',
      ch_delegation_mode = DELEGATED, ch_authority_envelope = EXAMPLE_ENVELOPE, ch_escalation_rules = [],
      ch_review_requirements = [], ch_evidence_requirements = [], ch_completion_definition = [],
      ch_revision = 1, ch_status = CS_ACTIVE, ch_supersedes_charter_id = None, ch_change_reason = None,
      ch_differences = [], ch_founder_approval_identity = Some ''f'',
      ch_founder_approval_record_id = Some ''a0'', ch_created_at = ''t'', ch_updated_at = ''t'',
      ch_founder_approval_event_id = None, ch_founder_approval_event_digest = None,
      ch_founder_authenticated_session_id = None, ch_founder_authorization_capability = Some ''k'',
      ch_founder_authorization_capability_digest = Some ''d''\<rparr>"

definition EXAMPLE_PROJECT :: project_record where
  "EXAMPLE_PROJECT =
     \<lparr>pr_project_id = ''p1'', pr_name = ''Report'', pr_project_type = ''SOFTWARE'', pr_state = EXECUTING,
      pr_active_charter_id = Some ''c1'', pr_active_charter_revision = Some 1, pr_pause_reason = None,
      pr_created_at = ''t'', pr_updated_at = ''t''\<rparr>"

definition EXAMPLE_ACTION :: proposed_action where
  "EXAMPLE_ACTION =
     \<lparr>pa_action_id = ''a1'', pa_project_id = ''p1'', pa_charter_revision = 1, pa_category = ''WRITE'',
      pa_target_resource = ''report'', pa_provider = Some ''local'', pa_tool = Some ''editor'',
      pa_workspace = Some ''/work'', pa_scope = [''report''], pa_cost = Some (Fin 0),
      pa_reversible = True, pa_risk = ''LOW'', pa_data_classification = ''internal'',
      pa_external_side_effect = False, pa_objective = ''write it'', pa_currency = Some ''USD'',
      pa_publication = False, pa_deployment = False, pa_spending = False, pa_git_mutation = None,
      pa_security_boundary_impact = False, pa_trusted_source = ''T'',
      pa_effect_classes = [''LOCAL_WRITE''], pa_repository = None, pa_branch = None\<rparr>"

definition EXAMPLE_APPROVAL :: approval_record where
  "EXAMPLE_APPROVAL =
     \<lparr>ap_approval_id = ''s1'', ap_project_id = ''p1'', ap_charter_id = ''c1'', ap_charter_revision = 1,
      ap_kind = ONE_TIME, ap_action_category = Some ''SPENDING'', ap_approver = ''f'', ap_scope = [''report''],
      ap_limits = [(''maximum_cost'', LimitNumber (Fin 3))], ap_approved_at = ''t'', ap_expires_at = None,
      ap_revoked_at = None, ap_consumed_at = None, ap_evidence_digest = ''d'', ap_source_interaction_id = ''i''\<rparr>"

text \<open>Every text reads as the epoch and every path has one component.\<close>

definition EXAMPLE_WORLD :: authority_world where
  "EXAMPLE_WORLD = \<lparr>aw_fromisoformat = (\<lambda>s. Some (Aware 0)), aw_resolve = (\<lambda>s. Some [s])\<rparr>"

theorem allowed_actions_are_authorized_witness:
  "\<exists>d. evaluate EXAMPLE_WORLD EXAMPLE_PROJECT EXAMPLE_CHARTER EXAMPLE_ACTION [EXAMPLE_APPROVAL] 0 = Inr d \<and>
     authorized EXAMPLE_WORLD EXAMPLE_PROJECT EXAMPLE_CHARTER EXAMPLE_ACTION [EXAMPLE_APPROVAL] 0 (ad_approval_id d)"
proof -
  have "case evaluate EXAMPLE_WORLD EXAMPLE_PROJECT EXAMPLE_CHARTER EXAMPLE_ACTION [EXAMPLE_APPROVAL] 0 of
      Inl e \<Rightarrow> False | Inr d \<Rightarrow> allows d"
    by code_simp
  then obtain d where "evaluate EXAMPLE_WORLD EXAMPLE_PROJECT EXAMPLE_CHARTER EXAMPLE_ACTION [EXAMPLE_APPROVAL] 0 = Inr d"
      "allows d" by (auto split: sum.splits)
  then show ?thesis using allowed_actions_are_authorized by blast
qed

subsection \<open>Objectives that no approval can allow\<close>

text \<open>
An objective that mentions a purchase, or buying access, is never allowed, whatever the charter and the
approvals say: it requires both the purchase and the paid-provider effect, whose categories differ.
\<close>

theorem purchase_objectives_never_allowed:
  assumes "evaluate w project charter action approvals now = Inr d"
    and "contains_any (action_text action) [''purchase'', ''buy access'']"
  shows "\<not> allows d"
proof
  assume "allows d"
  with assms(1) obtain category where
    req: "\<And>e c. (e, c) \<in> set REQUIRED_BY_EFFECT \<Longrightarrow> e \<in> action_effects_of action \<Longrightarrow> c = category"
    and "set (effects_required_by_objective (action_text action)) \<subseteq> action_effects_of action"
    by (rule evaluate_allows_classified) blast
  with purchase_objective_effects [OF assms(2)] have "EFF_PURCHASE \<in> action_effects_of action"
    "EFF_PAID_PROVIDER_USE \<in> action_effects_of action" by auto
  then have "PURCHASE = category" "SPENDING = category"
    by (auto intro!: req simp: REQUIRED_BY_EFFECT_def)
  then show False by simp
qed

text \<open>An approved purchase, declared with both effects it needs: the approval is not enough.\<close>

subsection \<open>Every request is decided\<close>

text \<open>
On a validated action, charter envelope and approvals the evaluator returns a decision: no combination
of categories, timestamps, costs or scopes makes it raise.
\<close>

theorem validated_requests_are_decided:
  assumes "check_proposed_action action = Inr ()"
    and "check_authority_envelope (aw_fromisoformat w) (ch_authority_envelope charter) = Inr ()"
    and "\<forall>a\<in>set approvals. check_approval_record (aw_fromisoformat w) a = Inr ()"
  shows "\<exists>d. evaluate w project charter action approvals now = Inr d"
proof -
  have "succeeds (evaluate w project charter action approvals now)"
    unfolding evaluate_def
    by (intro succeeds_bind succeeds_if succeeds_ok check_action_parts(1) [OF assms(1)]
      expired_by_succeeds [OF check_envelope_lists(3) [OF assms(2)]]
      evaluate_content_succeeds [OF assms(1) _ _ assms(2)]) (use assms(3) in auto)
  then show ?thesis by (simp add: succeeds_def)
qed

subsection \<open>Classified tasks\<close>

lemma nan_incomparable: "float_less x NotANumber = False" "float_less NotANumber x = False"
  by (cases x; simp)+

lemma below_float_min: "\<not> float_less (float_min b m) c \<Longrightarrow> \<not> float_less b c"
  by (cases b; cases m; cases c) (auto simp: float_min_def split: if_splits)

lemma classify_parts:
  assumes "classify w now task charter specialist = Inr action"
  obtains fx declared cost where "et_action_effects task = Some fx"
    "map_result action_effect_of (fx_side_effect_classes fx) = Inr declared"
    "trusted_provider_cost w now specialist = Inr cost"
    "action = task_action task charter specialist fx declared cost"
    "check_proposed_action action = Inr ()" "classification_error action = Inr None"
  using assms unfolding classify_def bind_result_Inr raise_if_Inr Let_def
  by (cases "et_action_effects task") (auto simp: bind_result_Inr split: option.splits)

lemma task_action_simps [simp]:
  "pa_cost (task_action task charter specialist fx declared cost) = Some cost"
  "pa_category (task_action task charter specialist fx declared cost) =
     (if float_less (Fin 0) cost then category_value SPENDING else et_authority_category task)"
  "pa_spending (task_action task charter specialist fx declared cost) \<longleftrightarrow>
     fx_spending_effect fx = ''PAID'' \<or> float_less (Fin 0) cost"
  by (simp_all add: task_action_def Let_def)

lemma category_of_value: "action_category_of (category_value SPENDING) = Inr SPENDING"
  by code_simp

text \<open>
A durable task on a provider that charges a positive quote is classified as spending, and is allowed
only by a current approval on record that covers the classified action; no charter's delegation suffices.
\<close>

theorem charged_tasks_need_approval:
  assumes "classify w quoted task charter specialist = Inr action"
    and "trusted_provider_cost w quoted specialist = Inr cost" and "float_less (Fin 0) cost"
    and "evaluate w project charter action approvals now = Inr d" and "allows d"
  shows "\<exists>a\<in>set approvals. ad_approval_id d = Some (ap_approval_id a) \<and>
    approval_covers w charter action SPENDING now a \<and> \<not> float_less (ch_budget_limit charter) cost"
proof -
  from assms(1) obtain fx declared where action: "action = task_action task charter specialist fx declared cost"
    by (rule classify_parts) (use assms(2) in auto)
  with assms(3) have spending: "action_category_of (pa_category action) = Inr SPENDING" "pa_cost action = Some cost"
    by (simp_all add: category_of_value)
  from evaluate_allows [OF assms(4,5)] spending(1)
  have content: "evaluate_content w charter action SPENDING approvals now = Inr d" by (metis Inr_inject)
  note facts = evaluate_content_allows [OF content assms(5)]
  have "\<not> delegated charter action SPENDING" by (simp add: delegated_def SEPARATELY_APPROVABLE_def)
  with evaluate_approval_allows [OF facts(8) assms(5) spending(1)] obtain a where "a \<in> set approvals"
    "ad_approval_id d = Some (ap_approval_id a)" "approval_covers w charter action SPENDING now a"
    by (auto split: option.splits)
  moreover have "\<not> float_less (float_min (ch_budget_limit charter) (ae_maximum_cost (ch_authority_envelope charter))) cost"
    using constraint_error_None(1) [OF facts(7)] spending(2) by auto
  then have "\<not> float_less (ch_budget_limit charter) cost" by (rule below_float_min)
  ultimately show ?thesis by blast
qed

definition EXAMPLE_EFFECTS :: action_effects where
  "EXAMPLE_EFFECTS =
     \<lparr>fx_side_effect_classes = [''LOCAL_WRITE''], fx_execution_environment = ''LOCAL'',
      fx_external_visibility = ''INTERNAL'', fx_publication_effect = ''NONE'', fx_deployment_effect = ''NONE'',
      fx_production_effect = ''NONE'', fx_spending_effect = ''NONE'', fx_git_mutation = ''NONE'',
      fx_security_boundary_effect = ''NONE'', fx_credential_requirement = ''NONE'', fx_financial_effect = ''NONE'',
      fx_target_resource = ''write it'', fx_workspace = Some ''/work'', fx_provider = None,
      fx_tool = Some ''editor'', fx_reversible = True, fx_data_classification = ''internal''\<rparr>"

definition EXAMPLE_TASK :: executive_task where
  "EXAMPLE_TASK =
     \<lparr>et_task_id = ''t1'', et_project_id = ''p1'', et_charter_id = ''c1'', et_charter_revision = 1,
      et_workflow_id = '''', et_stage_id = '''', et_title = ''report'', et_objective = ''write it'',
      et_role = '''', et_required_capabilities = [], et_instructions = [], et_constraints = [],
      et_dependencies = [], et_provider_id = None, et_model_id = None, et_session_id = None,
      et_status = READY, et_authority_category = ''WRITE'', et_inputs = [], et_expected_outputs = [],
      et_evidence_requirements = [], et_review_requirements = [], et_retry_count = 0, et_max_retries = 1,
      et_attempt_history = [], et_result_disposition = None, et_created_at = ''t'',
      et_updated_at = ''t'', et_revision = 1, et_authority_attempt_id = None, et_artifact_digest = None,
      et_review_attempt_id = None, et_late_result = False, et_action_effects = Some EXAMPLE_EFFECTS\<rparr>"

definition EXAMPLE_SPECIALIST :: specialist_profile where
  "EXAMPLE_SPECIALIST =
     \<lparr>sl_provider_id = ''local'', sl_model_id = '''', sl_session_id = '''', sl_capabilities = [],
      sl_project_types = [], sl_qualified = False, sl_available = False, sl_independence_identity = '''',
      sl_cost_tier = 1, sl_effort_levels = [], sl_credential_available = False,
      sl_prior_success_rate = Fin 1, sl_pricing_identity = Some ''i'', sl_pricing_version = Some ''1'',
      sl_currency = Some ''USD'', sl_estimated_cost = Some (Fin 2), sl_maximum_cost = Some (Fin 2),
      sl_billing_unit = Some ''call'', sl_included_plan = False, sl_marginally_free = False,
      sl_quote_timestamp = Some ''t'', sl_quote_expiration = Some ''t'', sl_pricing_source = Some ''s'',
      sl_billing_mode = None, sl_incremental_charge_authorized = False,
      sl_api_billing_authorized = False, sl_paid_fallback_authorized = False,
      sl_capacity_bounded = False, sl_role_eligibility = []\<rparr>"

definition EXAMPLE_CLASSIFIED :: proposed_action where
  "EXAMPLE_CLASSIFIED = task_action EXAMPLE_TASK EXAMPLE_CHARTER EXAMPLE_SPECIALIST EXAMPLE_EFFECTS [LOCAL_WRITE] (Fin 2)"

theorem charged_tasks_need_approval_witness:
  "\<exists>d. evaluate EXAMPLE_WORLD EXAMPLE_PROJECT EXAMPLE_CHARTER EXAMPLE_CLASSIFIED [EXAMPLE_APPROVAL] 0 = Inr d \<and>
     (\<exists>a\<in>set [EXAMPLE_APPROVAL]. ad_approval_id d = Some (ap_approval_id a))"
proof -
  have classified: "classify EXAMPLE_WORLD (- 1) EXAMPLE_TASK EXAMPLE_CHARTER EXAMPLE_SPECIALIST = Inr EXAMPLE_CLASSIFIED"
    by code_simp
  have quote: "trusted_provider_cost EXAMPLE_WORLD (- 1) EXAMPLE_SPECIALIST = Inr (Fin 2)" by code_simp
  have "case evaluate EXAMPLE_WORLD EXAMPLE_PROJECT EXAMPLE_CHARTER EXAMPLE_CLASSIFIED [EXAMPLE_APPROVAL] 0 of
      Inl e \<Rightarrow> False | Inr d \<Rightarrow> allows d"
    by code_simp
  then obtain d where d: "evaluate EXAMPLE_WORLD EXAMPLE_PROJECT EXAMPLE_CHARTER EXAMPLE_CLASSIFIED [EXAMPLE_APPROVAL] 0 = Inr d"
      "allows d" by (auto split: sum.splits)
  from charged_tasks_need_approval [OF classified quote _ d] d(1) show ?thesis by auto
qed

text \<open>
A price that is not a number passes for free: a task quoted at it, whose effects do not declare paid
spending, keeps its own category, and no budget of the charter or its envelope changes the verdict on it.
\<close>

theorem nan_quotes_ignore_budgets:
  assumes "classify w quoted task charter specialist = Inr action" and "pa_cost action = Some NotANumber"
    and "et_action_effects task = Some fx" and "fx_spending_effect fx \<noteq> ''PAID''"
  shows "pa_category action = et_authority_category task \<and>
    constraint_error w (charter\<lparr>ch_budget_limit := b,
      ch_authority_envelope := (ch_authority_envelope charter)\<lparr>ae_maximum_cost := m\<rparr>\<rparr>) action =
    constraint_error w charter action"
proof -
  from assms(1) obtain declared cost where "action = task_action task charter specialist fx declared cost"
    by (rule classify_parts) (use assms(3) in auto)
  with assms(2,4) have "pa_category action = et_authority_category task" "\<not> pa_spending action" by simp_all
  then show ?thesis using assms(2)
    by (simp add: constraint_error_def cost_or_zero_def workspace_error_def nan_incomparable Let_def)
qed

end
