(* ===== verification/Executive_Lifecycle.thy ===== *)
theory Executive_Lifecycle
  imports Executive_Models
begin

text \<open>
  Runs of \<open>transition_project\<close> and \<open>transition_task\<close> (\<open>keeper/executive/state.py\<close>): what the order of the
  transitions guarantees of a project that executes and of a task that is complete.
\<close>

subsection \<open>Projects\<close>

definition project_run ::
    "project_record \<Rightarrow> (string \<times> executive_state \<times> string option) list \<Rightarrow> project_record result" where
  "project_run project steps =
     fold_result (\<lambda>p (utc_now, target, reason). transition_project utc_now target reason p) project steps"

lemma project_run_snoc:
  "project_run p (steps @ [(utc_now, target, reason)]) = Inr r \<longleftrightarrow>
     (\<exists>q. project_run p steps = Inr q \<and> transition_project utc_now target reason q = Inr r)"
  by (simp add: project_run_def fold_result_append bind_result_Inr)

lemma transition_project_Inr:
  "transition_project utc_now target reason p = Inr q \<longleftrightarrow> target \<in> set (project_transitions (pr_state p)) \<and>
     q = p\<lparr>pr_state := target, pr_pause_reason := (if target \<in> set PAUSE_STATES then reason else None), pr_updated_at := utc_now\<rparr>"
  by (auto simp: transition_project_def)

definition BEFORE_APPROVAL :: "executive_state list" where
  "BEFORE_APPROVAL = [INTAKE, CLARIFICATION_REQUIRED, CHARTER_DRAFT]"

lemma early_transitions:
  "target \<in> set (project_transitions s) \<Longrightarrow> s \<in> set BEFORE_APPROVAL \<Longrightarrow>
     target \<in> set BEFORE_APPROVAL \<union> {AWAITING_CHARTER_APPROVAL, CANCELED}"
  by (auto simp: BEFORE_APPROVAL_def)

lemma awaiting_transitions:
  "target \<in> set (project_transitions AWAITING_CHARTER_APPROVAL) \<Longrightarrow>
     target \<in> set BEFORE_APPROVAL \<union> {ACTIVE, CANCELED}"
  by (auto simp: BEFORE_APPROVAL_def)

lemma approval_comes_first:
  assumes "project_run p steps = Inr q" and "pr_state p = INTAKE"
  shows "pr_state q \<in> set BEFORE_APPROVAL \<union> {CANCELED} \<or>
    AWAITING_CHARTER_APPROVAL \<in> fst ` snd ` set steps \<and>
      (pr_state q = AWAITING_CHARTER_APPROVAL \<or> ACTIVE \<in> fst ` snd ` set steps)"
  using assms(1)
proof (induction steps arbitrary: q rule: rev_induct)
  case Nil
  with assms(2) show ?case by (simp add: project_run_def BEFORE_APPROVAL_def)
next
  case (snoc step steps)
  obtain t target reason where step: "step = (t, target, reason)" by (cases step)
  with snoc.prems obtain r where r: "project_run p steps = Inr r"
    and target: "target \<in> set (project_transitions (pr_state r))" "pr_state q = target"
    by (auto simp: project_run_snoc transition_project_Inr)
  from snoc.IH [OF r] consider "pr_state r \<in> set BEFORE_APPROVAL" | "pr_state r = CANCELED"
    | "pr_state r = AWAITING_CHARTER_APPROVAL" "AWAITING_CHARTER_APPROVAL \<in> fst ` snd ` set steps"
    | "AWAITING_CHARTER_APPROVAL \<in> fst ` snd ` set steps" "ACTIVE \<in> fst ` snd ` set steps"
    by blast
  then show ?case
  proof cases
    case 1
    from early_transitions [OF target(1) this] target(2) step show ?thesis by auto
  next
    case 2
    with target(1) show ?thesis by simp
  next
    case 3
    with awaiting_transitions target step show ?thesis by fastforce
  next
    case 4
    then show ?thesis by auto
  qed
qed

text \<open>
Whatever the transitions a project taken from intake goes through, it is planning, executing,
reviewing, waiting, blocked, paused, failed or complete only if it awaited the charter's approval and was
activated on the way.
\<close>

theorem execution_follows_charter_approval:
  assumes "project_run p steps = Inr q" and "pr_state p = INTAKE"
    and "pr_state q \<notin> {INTAKE, CLARIFICATION_REQUIRED, CHARTER_DRAFT, AWAITING_CHARTER_APPROVAL, CANCELED}"
  shows "AWAITING_CHARTER_APPROVAL \<in> fst ` snd ` set steps \<and> ACTIVE \<in> fst ` snd ` set steps"
  using approval_comes_first [OF assms(1,2)] assms(3) by (auto simp: BEFORE_APPROVAL_def)

definition NEW_PROJECT :: project_record where
  "NEW_PROJECT =
     \<lparr>pr_project_id = ''p1'', pr_name = ''Report'', pr_project_type = ''SOFTWARE'', pr_state = INTAKE,
      pr_active_charter_id = None, pr_active_charter_revision = None, pr_pause_reason = None,
      pr_created_at = ''t'', pr_updated_at = ''t''\<rparr>"

theorem execution_follows_charter_approval_witness:
  "\<exists>q. project_run NEW_PROJECT [(''1'', CHARTER_DRAFT, None), (''2'', AWAITING_CHARTER_APPROVAL, None),
       (''3'', ACTIVE, None), (''4'', PLANNING, None)] = Inr q \<and> pr_state q = PLANNING \<and>
     AWAITING_CHARTER_APPROVAL \<in> {CHARTER_DRAFT, AWAITING_CHARTER_APPROVAL, ACTIVE, PLANNING}"
proof -
  let ?steps = "[(''1'', CHARTER_DRAFT, None), (''2'', AWAITING_CHARTER_APPROVAL, None),
       (''3'', ACTIVE, None), (''4'', PLANNING, None)]"
  have run: "project_run NEW_PROJECT ?steps = Inr (NEW_PROJECT\<lparr>pr_state := PLANNING, pr_updated_at := ''4''\<rparr>)"
    by code_simp
  from execution_follows_charter_approval [OF run] run show ?thesis by (simp add: NEW_PROJECT_def)
qed

subsection \<open>Tasks\<close>

definition task_run :: "executive_task \<Rightarrow> (string \<times> executive_task_status) list \<Rightarrow> executive_task result" where
  "task_run task steps = fold_result (\<lambda>t (utc_now, target). transition_task utc_now target t) task steps"

lemma task_run_Nil [simp]: "task_run t [] = Inr t"
  by (simp add: task_run_def)

lemma task_run_snoc:
  "task_run t (steps @ [(utc_now, target)]) = Inr u \<longleftrightarrow>
     (\<exists>s. task_run t steps = Inr s \<and> target \<in> set (task_transitions (et_status s)) \<and>
       u = s\<lparr>et_status := target, et_revision := et_revision s + 1, et_updated_at := utc_now\<rparr>)"
  by (auto simp: task_run_def fold_result_append bind_result_Inr transition_task_def)

lemma task_run_revision: "task_run t steps = Inr u \<Longrightarrow> et_revision u = et_revision t + int (length steps)"
proof (induction steps arbitrary: u rule: rev_induct)
  case (snoc step steps)
  then show ?case by (cases step) (auto simp: task_run_snoc)
qed simp

text \<open>Until a task is launched it has only been proposed, readied, blocked, or dropped.\<close>

lemma task_launched:
  assumes "task_run t steps = Inr u" and "et_status t = PROPOSED"
  shows "et_status u \<in> {PROPOSED, READY, TASK_BLOCKED, TASK_CANCELED, TASK_FAILED, SKIPPED} \<or>
    READY \<in> snd ` set steps \<and> snd ` set steps \<inter> {ASSIGNED, LAUNCH_CLAIMED} \<noteq> {}"
    and "et_status u = READY \<Longrightarrow> READY \<in> snd ` set steps"
  using assms(1)
proof (induction steps arbitrary: u rule: rev_induct)
  case Nil
  { case 1 with assms(2) show ?case by simp next case 2 with assms(2) show ?case by simp }
next
  case (snoc step steps)
  obtain now target where step: "step = (now, target)" by (cases step)
  {
    case 1
    with step obtain s where s: "task_run t steps = Inr s" "target \<in> set (task_transitions (et_status s))" "et_status u = target"
      by (auto simp: task_run_snoc)
    from snoc.IH(1) [OF s(1)] show ?case
    proof
      assume "et_status s \<in> {PROPOSED, READY, TASK_BLOCKED, TASK_CANCELED, TASK_FAILED, SKIPPED}"
      with s(2,3) snoc.IH(2) [OF _ s(1)] step show ?thesis by auto
    qed auto
  next
    case 2
    with step show ?case by (auto simp: task_run_snoc)
  }
qed

text \<open>
A proposed task that is complete was made ready, was launched or assigned, and was up for review
immediately before it completed; its revision has counted every transition.
\<close>

theorem completed_tasks_were_reviewed:
  assumes "task_run t steps = Inr u" and "et_status t = PROPOSED" and "et_status u = TASK_COMPLETED"
  shows "\<exists>before t1 t2. steps = before @ [(t1, REVIEW_REQUIRED), (t2, TASK_COMPLETED)] \<and>
    READY \<in> snd ` set before \<and> snd ` set before \<inter> {ASSIGNED, LAUNCH_CLAIMED} \<noteq> {} \<and>
    et_revision u = et_revision t + int (length steps)"
proof -
  have launched: "READY \<in> snd ` set steps" "snd ` set steps \<inter> {ASSIGNED, LAUNCH_CLAIMED} \<noteq> {}"
    using task_launched(1) [OF assms(1,2)] assms(3) by auto
  from launched(1) obtain steps1 t2 target2 where 1: "steps = steps1 @ [(t2, target2)]"
    by (cases steps rule: rev_cases) auto
  with assms(1,3) obtain s where s: "task_run t steps1 = Inr s" "target2 = TASK_COMPLETED"
      "target2 \<in> set (task_transitions (et_status s))"
    by (auto simp: task_run_snoc)
  then have review: "et_status s = REVIEW_REQUIRED" by (cases "et_status s") auto
  with s(1) assms(2) obtain before t1 target1 where 2: "steps1 = before @ [(t1, target1)]"
    by (cases steps1 rule: rev_cases) auto
  with s(1) review have "target1 = REVIEW_REQUIRED" by (auto simp: task_run_snoc)
  with 1 2 s(2) launched task_run_revision [OF assms(1)] show ?thesis by auto
qed

definition NEW_TASK :: executive_task where
  "NEW_TASK =
     \<lparr>et_task_id = ''t1'', et_project_id = ''p1'', et_charter_id = ''c1'', et_charter_revision = 1,
      et_workflow_id = '''', et_stage_id = '''', et_title = ''report'', et_objective = ''write it'',
      et_role = '''', et_required_capabilities = [], et_instructions = [], et_constraints = [],
      et_dependencies = [], et_provider_id = None, et_model_id = None, et_session_id = None,
      et_status = PROPOSED, et_authority_category = ''WRITE'', et_inputs = [], et_expected_outputs = [],
      et_evidence_requirements = [], et_review_requirements = [], et_retry_count = 0, et_max_retries = 1,
      et_attempt_history = [], et_result_disposition = None, et_created_at = ''t'',
      et_updated_at = ''t'', et_revision = 1, et_authority_attempt_id = None, et_artifact_digest = None,
      et_review_attempt_id = None, et_late_result = False, et_action_effects = None\<rparr>"

theorem completed_tasks_were_reviewed_witness:
  "\<exists>u. task_run NEW_TASK [(''1'', READY), (''2'', LAUNCH_CLAIMED), (''3'', UNCERTAIN), (''4'', REVIEW_REQUIRED),
     (''5'', TASK_COMPLETED)] = Inr u \<and> et_revision u = 6"
proof -
  let ?steps = "[(''1'', READY), (''2'', LAUNCH_CLAIMED), (''3'', UNCERTAIN), (''4'', REVIEW_REQUIRED), (''5'', TASK_COMPLETED)]"
  have run: "task_run NEW_TASK ?steps = Inr (NEW_TASK\<lparr>et_status := TASK_COMPLETED, et_revision := 6, et_updated_at := ''5''\<rparr>)"
    by code_simp
  from completed_tasks_were_reviewed [OF run] run show ?thesis by (simp add: NEW_TASK_def)
qed

end
