(* ===== verification/Executive_Planning.thy ===== *)
theory Executive_Planning
  imports Authority_Properties
begin

text \<open>
  From an approved charter to tasks that may run (\<open>keeper/executive/planning.py\<close>): the stage templates of
  each kind of project, the planner that turns them into a chain of proposed tasks, and the readiness
  check that a task passes before it is launched.  The repository is asked for the charter and the earlier
  workflows and told to save; its answers, the new identity and the clock are the planner's world.
\<close>

subsection \<open>Templates\<close>

datatype stage_template =
  StageTemplate (sg_title: string) (sg_role: string) (sg_purpose: string) (sg_rationale: string)
    (sg_capability: string) (sg_review: string) (sg_milestone: bool)

definition WORKLOAD_STRATEGIES :: "(string \<times> stage_template list) list" where
  "WORKLOAD_STRATEGIES =
    [(''software'',
      [StageTemplate ''Requirements'' ''requirements analyst'' ''Define behavior and boundaries.''
         ''Implementation needs testable scope.'' ''requirements'' ''automated'' False,
       StageTemplate ''Architecture'' ''architect'' ''Design components and trust boundaries.''
         ''The solution needs a coherent structure before changes.'' ''architecture'' ''independent specialist'' False,
       StageTemplate ''Implementation'' ''builder'' ''Create the approved application.''
         ''The charter requires a working application.'' ''implementation'' ''automated'' False,
       StageTemplate ''Tests'' ''test specialist'' ''Verify behavior and failure paths.''
         ''Success criteria require deterministic evidence.'' ''testing'' ''independent specialist'' False,
       StageTemplate ''Security review'' ''security reviewer'' ''Review trust and data boundaries.''
         ''Software actions can create security exposure.'' ''security'' ''independent specialist'' False,
       StageTemplate ''Packaging'' ''release specialist'' ''Prepare a reproducible package.''
         ''The deliverable must be usable outside development.'' ''packaging'' ''automated'' False,
       StageTemplate ''Pilot'' ''acceptance reviewer'' ''Exercise the end-to-end outcome.''
         ''Completion requires user-visible proof.'' ''acceptance'' ''founder'' True]),
     (''research'',
      [StageTemplate ''Question definition'' ''research lead'' ''Bound the research questions.''
         ''Focused questions prevent an unbounded source search.'' ''research design'' ''self verification'' False,
       StageTemplate ''Source collection'' ''source researcher'' ''Collect relevant sources.''
         ''Claims require traceable source evidence.'' ''source collection'' ''automated'' False,
       StageTemplate ''Source quality review'' ''source reviewer'' ''Evaluate provenance and credibility.''
         ''Low-quality sources must not silently drive conclusions.'' ''source review'' ''independent specialist'' False,
       StageTemplate ''Synthesis'' ''research synthesist'' ''Integrate supported findings.''
         ''The audience needs a coherent answer.'' ''synthesis'' ''self verification'' False,
       StageTemplate ''Contradiction analysis'' ''critical reviewer'' ''Surface disagreement and uncertainty.''
         ''Contradictions materially affect confidence.'' ''critical analysis'' ''independent specialist'' False,
       StageTemplate ''Final report'' ''editor'' ''Produce the approved report package.''
         ''The charter requires a durable usable output.'' ''report writing'' ''founder'' True]),
     (''video'',
      [StageTemplate ''Concept'' ''creative director'' ''Define audience, message, and format.''
         ''Creative work needs a shared north star.'' ''creative direction'' ''self verification'' False,
       StageTemplate ''Script'' ''script writer'' ''Write the narrative and spoken content.''
         ''Production needs an approved content spine.'' ''script writing'' ''independent specialist'' False,
       StageTemplate ''Storyboard'' ''visual planner'' ''Plan shots, scenes, and transitions.''
         ''Visual dependencies should be decided before asset work.'' ''storyboarding'' ''self verification'' False,
       StageTemplate ''Asset creation'' ''asset specialist'' ''Create approved source assets.''
         ''The edit depends on complete licensed inputs.'' ''asset creation'' ''automated'' False,
       StageTemplate ''Edit'' ''video editor'' ''Assemble the program.''
         ''The charter requires a finished viewing experience.'' ''video editing'' ''self verification'' False,
       StageTemplate ''Quality review'' ''media reviewer'' ''Check content, audio, visuals, and constraints.''
         ''Independent viewing catches production defects.'' ''media review'' ''independent specialist'' False,
       StageTemplate ''Export'' ''delivery specialist'' ''Create the delivery package.''
         ''Completion requires usable target-format files.'' ''media export'' ''founder'' True]),
     (''music'',
      [StageTemplate ''Creative brief'' ''creative director'' ''Define intent, references, and constraints.''
         ''Musical decisions need an approved direction.'' ''music direction'' ''self verification'' False,
       StageTemplate ''Composition'' ''composer'' ''Create the core musical material.''
         ''The project outcome depends on original structure.'' ''composition'' ''self verification'' False,
       StageTemplate ''Arrangement'' ''arranger'' ''Develop instrumentation and form.''
         ''The composition must translate into a complete production.'' ''arrangement'' ''independent specialist'' False,
       StageTemplate ''Recording'' ''recording specialist'' ''Create performance source material.''
         ''The mix requires complete source tracks.'' ''recording'' ''automated'' False,
       StageTemplate ''Mix'' ''mix engineer'' ''Balance and process the production.''
         ''The work needs a coherent listening experience.'' ''mixing'' ''self verification'' False,
       StageTemplate ''Mastering'' ''mastering reviewer'' ''Prepare consistent delivery masters.''
         ''Independent final processing protects translation quality.'' ''mastering'' ''independent specialist'' False,
       StageTemplate ''Release package'' ''delivery specialist'' ''Assemble masters and metadata.''
         ''Completion requires an organized handoff.'' ''music delivery'' ''founder'' True]),
     (''writing'',
      [StageTemplate ''Brief'' ''editor'' ''Define audience, voice, and structure.''
         ''A clear editorial brief controls scope.'' ''editorial planning'' ''self verification'' False,
       StageTemplate ''Outline'' ''outliner'' ''Create the content structure.''
         ''The draft needs a coherent progression.'' ''outlining'' ''self verification'' False,
       StageTemplate ''Draft'' ''writer'' ''Produce the manuscript.''
         ''The charter requires complete written content.'' ''writing'' ''self verification'' False,
       StageTemplate ''Developmental review'' ''developmental editor'' ''Review structure and argument.''
         ''Independent critique improves coherence.'' ''developmental editing'' ''independent specialist'' False,
       StageTemplate ''Revision'' ''writer'' ''Address review findings.''
         ''Accepted findings must be resolved.'' ''revision'' ''automated'' False,
       StageTemplate ''Copy edit'' ''copy editor'' ''Correct language and consistency.''
         ''Delivery quality requires a clean manuscript.'' ''copy editing'' ''independent specialist'' False,
       StageTemplate ''Final package'' ''publishing specialist'' ''Prepare the requested formats.''
         ''Completion requires usable artifacts.'' ''document production'' ''founder'' True])]"


definition DEFAULT_STRATEGY :: "stage_template list" where
  "DEFAULT_STRATEGY =
    [StageTemplate ''Define'' ''project lead'' ''Define the work.''
       ''The charter must become actionable.'' ''planning'' ''self verification'' False,
     StageTemplate ''Produce'' ''specialist'' ''Create the deliverables.''
       ''The approved outcome requires production.'' ''production'' ''automated'' False,
     StageTemplate ''Review'' ''independent reviewer'' ''Validate the outputs.''
       ''Completion requires independent evidence.'' ''review'' ''independent specialist'' True]"

definition strategy_for :: "string \<Rightarrow> stage_template list" where
  "strategy_for project_type =
     (case map_of WORKLOAD_STRATEGIES project_type of None \<Rightarrow> DEFAULT_STRATEGY | Some templates \<Rightarrow> templates)"

definition template_category :: "stage_template \<Rightarrow> action_category" where
  "template_category template =
     (if sublist ''review'' (sg_role template) \<or> sublist ''review'' (lower (sg_title template)) then REVIEW
      else if sg_capability template = ''testing'' then TEST
      else WRITE)"

definition side_effect_of :: "action_category \<Rightarrow> action_effect" where
  "side_effect_of category = (case category of READ \<Rightarrow> LOCAL_READ | TEST \<Rightarrow> TEST_EXECUTION | _ \<Rightarrow> LOCAL_WRITE)"

subsection \<open>Workflows\<close>

record workflow_stage =
  wg_stage_id :: string
  wg_title :: string
  wg_purpose :: string
  wg_rationale :: string
  wg_dependencies :: "string list"
  wg_milestone :: bool

record workflow_record =
  wr_workflow_id :: string
  wr_project_id :: string
  wr_charter_id :: string
  wr_charter_revision :: int
  wr_revision :: int
  wr_strategy :: string
  wr_explanation :: string
  wr_stages :: "workflow_stage list"
  wr_created_at :: string

record planner_world =
  pw_fromiso :: iso_reader
  pw_charter :: "string \<Rightarrow> project_charter result"
  pw_workflows :: "string \<Rightarrow> workflow_record list result"
  pw_new_id :: string
  pw_now :: string
  pw_save_workflow :: "workflow_record \<Rightarrow> unit result"
  pw_save_task :: "executive_task \<Rightarrow> unit result"

definition numbered :: "string \<Rightarrow> string \<Rightarrow> nat \<Rightarrow> string" where
  "numbered workflow_id kind index = workflow_id @ ''-'' @ kind @ ''-'' @ show_nat index"

definition output_of :: "string \<Rightarrow> string" where
  "output_of task_id = task_id @ '':output''"

text \<open>\<open>(x,) if x else ()\<close>, and \<open>xs[0] if len(xs) == 1 else None\<close>\<close>

definition optional_list :: "string option \<Rightarrow> string list" where
  "optional_list x = (if falsy x then [] else [the x])"

definition only :: "string list \<Rightarrow> string option" where
  "only xs = (case xs of [x] \<Rightarrow> Some x | _ \<Rightarrow> None)"

definition template_stage :: "string \<Rightarrow> nat \<Rightarrow> string option \<Rightarrow> stage_template \<Rightarrow> workflow_stage" where
  "template_stage workflow_id index prior_stage template =
     \<lparr>wg_stage_id = numbered workflow_id ''stage'' index, wg_title = sg_title template, wg_purpose = sg_purpose template,
      wg_rationale = sg_rationale template, wg_dependencies = optional_list prior_stage,
      wg_milestone = sg_milestone template\<rparr>"

definition template_effects :: "project_charter \<Rightarrow> stage_template \<Rightarrow> action_effects result" where
  "template_effects charter template =
     (case ae_data_classifications (ch_authority_envelope charter) of
        [] \<Rightarrow> raise IndexError ''tuple index out of range''
      | classification # _ \<Rightarrow>
          let fx = \<lparr>fx_side_effect_classes = [effect_value (side_effect_of (template_category template))],
                fx_execution_environment = ''LOCAL'', fx_external_visibility = ''INTERNAL'',
                fx_publication_effect = ''NONE'', fx_deployment_effect = ''NONE'', fx_production_effect = ''NONE'',
                fx_spending_effect = ''NONE'', fx_git_mutation = ''NONE'', fx_security_boundary_effect = ''NONE'',
                fx_credential_requirement = ''NONE'', fx_financial_effect = ''NONE'',
                fx_target_resource = sg_purpose template, fx_workspace = only (ch_workspaces charter),
                fx_provider = None, fx_tool = only (ch_approved_tools charter), fx_reversible = True,
                fx_data_classification = classification\<rparr>
          in bind_result (check_action_effects fx) (\<lambda>_. ok fx))"

definition template_task ::
    "planner_world \<Rightarrow> project_record \<Rightarrow> project_charter \<Rightarrow> nat \<Rightarrow> string option \<Rightarrow> stage_template \<Rightarrow> executive_task result" where
  "template_task w project charter index prior_task template =
     bind_result (template_effects charter template) (\<lambda>fx.
     let task_id = numbered (pw_new_id w) ''task'' index;
         task = \<lparr>et_task_id = task_id, et_project_id = pr_project_id project, et_charter_id = ch_charter_id charter,
           et_charter_revision = ch_revision charter, et_workflow_id = pw_new_id w,
           et_stage_id = numbered (pw_new_id w) ''stage'' index, et_title = sg_title template,
           et_objective = sg_purpose template, et_role = sg_role template,
           et_required_capabilities = [sg_capability template],
           et_instructions = [sg_purpose template, ''Work only within charter revision '' @ show_int (ch_revision charter) @ ''.''],
           et_constraints = ch_constraints charter, et_dependencies = optional_list prior_task, et_provider_id = None,
           et_model_id = None, et_session_id = None, et_status = PROPOSED,
           et_authority_category = category_value (template_category template),
           et_inputs = map output_of (optional_list prior_task), et_expected_outputs = [output_of task_id],
           et_evidence_requirements = ch_evidence_requirements charter, et_review_requirements = [sg_review template],
           et_retry_count = 0, et_max_retries = 2, et_attempt_history = [], et_result_disposition = None,
           et_created_at = pw_now w, et_updated_at = pw_now w, et_revision = 1, et_authority_attempt_id = None,
           et_artifact_digest = None, et_review_attempt_id = None, et_late_result = False,
           et_action_effects = Some fx\<rparr>
     in bind_result (check_executive_task (pw_fromiso w) task) (\<lambda>_. ok task))"

fun plan_stages ::
    "planner_world \<Rightarrow> project_record \<Rightarrow> project_charter \<Rightarrow> nat \<Rightarrow> string option \<Rightarrow> string option \<Rightarrow> stage_template list
      \<Rightarrow> (workflow_stage \<times> executive_task) list result" where
  "plan_stages w project charter index prior_stage prior_task [] = ok []"
| "plan_stages w project charter index prior_stage prior_task (template # templates) =
     bind_result (template_task w project charter index prior_task template) (\<lambda>task.
     let stage = template_stage (pw_new_id w) index prior_stage template in
     bind_result (plan_stages w project charter (Suc index) (Some (wg_stage_id stage)) (Some (et_task_id task)) templates)
       (\<lambda>rest. ok ((stage, task) # rest)))"

definition plan_workflow :: "planner_world \<Rightarrow> project_record \<Rightarrow> project_charter \<Rightarrow> workflow_stage list \<Rightarrow> workflow_record result" where
  "plan_workflow w project charter stages =
     bind_result (pw_workflows w (pr_project_id project)) (\<lambda>prior_workflows.
     let workflow = \<lparr>wr_workflow_id = pw_new_id w, wr_project_id = pr_project_id project,
           wr_charter_id = ch_charter_id charter, wr_charter_revision = ch_revision charter,
           wr_revision = (if prior_workflows = [] then 0 else Max (wr_revision ` set prior_workflows)) + 1,
           wr_strategy = ch_project_type charter @ ''-aware'',
           wr_explanation = ''Generated '' @ show_nat (length stages) @ '' stages from the active '' @ ch_project_type charter @
             '' charter; each stage exists to satisfy a deliverable, review, or evidence need.'',
           wr_stages = stages, wr_created_at = pw_now w\<rparr>
     in bind_result (validate_timestamp (pw_fromiso w) (wr_created_at workflow) ''created_at'') (\<lambda>_. ok workflow))"

definition plan_generate ::
    "planner_world \<Rightarrow> project_record \<Rightarrow> project_charter \<Rightarrow> (workflow_record \<times> executive_task list) result" where
  "plan_generate w project given =
     bind_result (pw_charter w (ch_charter_id given)) (\<lambda>charter.
     raise_if (pr_active_charter_id project \<noteq> Some (ch_charter_id charter) \<or> ch_status charter \<noteq> CS_ACTIVE) PermissionError
       ''planning requires the active approved charter''
     (bind_result (plan_stages w project charter 1 None None (strategy_for (ch_project_type charter))) (\<lambda>planned.
      bind_result (plan_workflow w project charter (map fst planned)) (\<lambda>workflow.
      bind_result (pw_save_workflow w workflow) (\<lambda>_.
      bind_result (map_result (pw_save_task w) (map snd planned)) (\<lambda>_.
      ok (workflow, map snd planned)))))))"

subsection \<open>Readiness\<close>

definition outcome_value :: "authority_outcome \<Rightarrow> string" where
  "outcome_value out =
     (case out of
        ALLOWED \<Rightarrow> ''ALLOWED'' | ALLOWED_WITHIN_LIMIT \<Rightarrow> ''ALLOWED_WITHIN_LIMIT''
      | REQUIRES_FOUNDER_APPROVAL \<Rightarrow> ''REQUIRES_FOUNDER_APPROVAL'' | DENIED \<Rightarrow> ''DENIED''
      | CHARTER_REVISION_REQUIRED \<Rightarrow> ''CHARTER_REVISION_REQUIRED'' | EXPIRED \<Rightarrow> ''EXPIRED''
      | REVOKED \<Rightarrow> ''REVOKED'' | INDETERMINATE \<Rightarrow> ''INDETERMINATE'')"

definition dependency_met :: "executive_task list \<Rightarrow> string \<Rightarrow> bool" where
  "dependency_met all_tasks dependency =
     (case find (\<lambda>t. et_task_id t = dependency) (rev all_tasks) of
        None \<Rightarrow> False | Some t \<Rightarrow> et_status t = TASK_COMPLETED)"

definition specialist_reasons :: "executive_task \<Rightarrow> project_charter \<Rightarrow> specialist_profile \<Rightarrow> string list" where
  "specialist_reasons task charter s =
     (if sl_qualified s then [] else [''assigned specialist is not qualified'']) @
     (if sl_available s then [] else [''assigned specialist is unavailable'']) @
     (if sl_credential_available s then [] else [''assigned specialist credential is unavailable'']) @
     (if set (et_required_capabilities task) \<subseteq> set (sl_capabilities s) then []
      else [''assigned specialist lacks required capabilities'']) @
     (if sl_provider_id s \<in> set (ch_approved_providers charter) then [] else [''assigned provider is outside the charter''])"

text \<open>The classifier's and the evaluator's clocks are read one after the other.\<close>

definition authority_reasons ::
    "authority_world \<Rightarrow> instant \<Rightarrow> instant \<Rightarrow> executive_task \<Rightarrow> project_record \<Rightarrow> project_charter \<Rightarrow> specialist_profile
      \<Rightarrow> approval_record list \<Rightarrow> string list result" where
  "authority_reasons w quoted_at now task project charter s approvals =
     (case classify w quoted_at task charter s of
        Inl e \<Rightarrow> if err_class e = PermissionError then ok [''trusted action classification failed: '' @ err_text e] else Inl e
      | Inr action \<Rightarrow>
          bind_result (evaluate w project charter action approvals now) (\<lambda>d.
          ok (if allows d then [] else [''authority is not present: '' @ outcome_value (ad_outcome d)])))"

definition readiness ::
    "authority_world \<Rightarrow> instant \<Rightarrow> instant \<Rightarrow> executive_task \<Rightarrow> executive_task list \<Rightarrow> project_record \<Rightarrow> project_charter
      \<Rightarrow> specialist_profile option \<Rightarrow> string list \<Rightarrow> approval_record list \<Rightarrow> string list result" where
  "readiness w quoted_at now task all_tasks project charter specialist inputs approvals =
     (let reasons =
        (if list_all (dependency_met all_tasks) (et_dependencies task) then [] else [''dependencies are incomplete'']) @
        (if set (et_inputs task) \<subseteq> set inputs then [] else [''required inputs are unavailable'']) @
        (case specialist of None \<Rightarrow> [''no specialist is assigned''] | Some s \<Rightarrow> specialist_reasons task charter s)
      in case specialist of
           None \<Rightarrow> ok reasons
         | Some s \<Rightarrow> bind_result (authority_reasons w quoted_at now task project charter s approvals) (\<lambda>more. ok (reasons @ more)))"

definition mark_ready :: "string \<Rightarrow> executive_task \<Rightarrow> string list \<Rightarrow> executive_task result" where
  "mark_ready utc_now task reasons =
     raise_if (reasons \<noteq> []) PermissionError (concat (case reasons of [] \<Rightarrow> [] | r # rs \<Rightarrow> r # map (\<lambda>x. ''; '' @ x) rs))
     (ok (task\<lparr>et_status := READY, et_revision := et_revision task + 1, et_updated_at := utc_now\<rparr>))"

text \<open>The inputs the runtime offers: the outputs of the completed tasks (\<open>executive/runtime.py\<close>).\<close>

definition available_inputs :: "executive_task list \<Rightarrow> string list" where
  "available_inputs tasks = concat (map et_expected_outputs (filter (\<lambda>t. et_status t = TASK_COMPLETED) tasks))"

end
