(* ===== verification/Planning_Properties.thy ===== *)
theory Planning_Properties
  imports Executive_Planning
begin

text \<open>
  What a generated plan guarantees: its tasks form a chain, they can only start in the order of the chain,
  and only with the authority of the charter.
\<close>

subsection \<open>The chain\<close>

definition previous :: "string \<Rightarrow> string \<Rightarrow> nat \<Rightarrow> nat \<Rightarrow> string option \<Rightarrow> string option" where
  "previous workflow_id kind index i first = (if i = 0 then first else Some (numbered workflow_id kind (index + i - 1)))"

lemma template_task_id: "template_task w project charter index prior template = Inr task \<Longrightarrow>
    et_task_id task = numbered (pw_new_id w) ''task'' index"
  by (auto simp: template_task_def bind_result_Inr Let_def)

lemma plan_stages_nth:
  assumes "plan_stages w project charter index prior_stage prior_task templates = Inr planned"
  shows "length planned = length templates \<and> (\<forall>i<length templates.
    fst (planned ! i) = template_stage (pw_new_id w) (index + i) (previous (pw_new_id w) ''stage'' index i prior_stage) (templates ! i) \<and>
    template_task w project charter (index + i) (previous (pw_new_id w) ''task'' index i prior_task) (templates ! i) =
      Inr (snd (planned ! i)))"
  using assms
proof (induction templates arbitrary: index prior_stage prior_task planned)
  case (Cons template templates)
  from Cons.prems obtain task rest where task: "template_task w project charter index prior_task template = Inr task"
    and rest: "plan_stages w project charter (Suc index) (Some (numbered (pw_new_id w) ''stage'' index))
        (Some (et_task_id task)) templates = Inr rest"
    and planned: "planned = (template_stage (pw_new_id w) index prior_stage template, task) # rest"
    by (auto simp: bind_result_Inr Let_def template_stage_def)
  note ih = Cons.IH [OF rest]
  show ?case
  proof (intro conjI allI impI)
    show "length planned = length (template # templates)" using ih by (simp add: planned)
    fix i assume i: "i < length (template # templates)"
    have shift: "previous (pw_new_id w) kind index (Suc j) first =
        previous (pw_new_id w) kind (Suc index) j (Some (numbered (pw_new_id w) kind index))" for kind j first
      by (simp add: previous_def)
    show "fst (planned ! i) = template_stage (pw_new_id w) (index + i)
        (previous (pw_new_id w) ''stage'' index i prior_stage) ((template # templates) ! i)"
      using i ih by (cases i) (simp_all add: planned shift, simp add: previous_def)
    show "template_task w project charter (index + i) (previous (pw_new_id w) ''task'' index i prior_task)
        ((template # templates) ! i) = Inr (snd (planned ! i))"
      using i ih task by (cases i) (simp_all add: planned shift template_task_id [OF task], simp add: previous_def)
  qed
qed simp

lemma template_task_fields:
  assumes "template_task w project charter index prior template = Inr task"
  shows "et_task_id task = numbered (pw_new_id w) ''task'' index \<and> et_stage_id task = numbered (pw_new_id w) ''stage'' index \<and>
    et_project_id task = pr_project_id project \<and> et_charter_id task = ch_charter_id charter \<and>
    et_charter_revision task = ch_revision charter \<and> et_dependencies task = optional_list prior \<and>
    et_inputs task = map output_of (optional_list prior) \<and> et_expected_outputs task = [output_of (et_task_id task)] \<and>
    et_status task = PROPOSED \<and> et_title task = sg_title template \<and>
    check_executive_task (pw_fromiso w) task = ok ()"
  using assms by (auto simp: template_task_def bind_result_Inr Let_def)

definition chained :: "executive_task list \<Rightarrow> bool" where
  "chained tasks \<longleftrightarrow> distinct (map et_task_id tasks) \<and>
     (\<forall>i<length tasks. if i = 0 then et_dependencies (tasks ! i) = [] \<and> et_inputs (tasks ! i) = []
        else et_dependencies (tasks ! i) = [et_task_id (tasks ! (i - 1))] \<and>
          et_inputs (tasks ! i) = et_expected_outputs (tasks ! (i - 1)))"

lemma numbered_inject: "numbered w k i = numbered w k j \<longleftrightarrow> i = j"
  by (auto simp: numbered_def show_nat_inject)

lemma plan_stages_chained:
  assumes "plan_stages w project charter 1 None None templates = Inr planned"
  shows "chained (map snd planned)"
proof -
  note plan = plan_stages_nth [OF assms]
  have task: "template_task w project charter (Suc i) (previous (pw_new_id w) ''task'' 1 i None) (templates ! i) =
      Inr (snd (planned ! i))" if "i < length templates" for i using plan that by simp
  note f = template_task_fields [OF task]
  have "distinct (map et_task_id (map snd planned))"
    using plan f by (auto simp: distinct_conv_nth numbered_inject)
  moreover have "et_dependencies (snd (planned ! i)) = optional_list (previous (pw_new_id w) ''task'' 1 i None) \<and>
      et_inputs (snd (planned ! i)) = map output_of (optional_list (previous (pw_new_id w) ''task'' 1 i None))"
    if "i < length templates" for i using f [OF that] by simp
  moreover have "optional_list (previous (pw_new_id w) ''task'' 1 i None) =
      (if i = 0 then [] else [et_task_id (snd (planned ! (i - 1)))])" if "i < length templates" for i
    using f [of "i - 1"] that by (auto simp: optional_list_def falsy_def previous_def numbered_def)
  moreover have "et_expected_outputs (snd (planned ! i)) = [output_of (et_task_id (snd (planned ! i)))]"
    if "i < length templates" for i using f [OF that] by simp
  ultimately show ?thesis using plan by (simp add: chained_def)
qed

lemma plan_generate_parts:
  assumes "plan_generate w project given = Inr (workflow, tasks)"
  obtains charter planned where "pw_charter w (ch_charter_id given) = Inr charter"
    "pr_active_charter_id project = Some (ch_charter_id charter)" "ch_status charter = CS_ACTIVE"
    "plan_stages w project charter 1 None None (strategy_for (ch_project_type charter)) = Inr planned"
    "tasks = map snd planned" "wr_stages workflow = map fst planned"
  using assms by (auto simp: plan_generate_def bind_result_Inr raise_if_Inr plan_workflow_def Let_def)

text \<open>
C28: planning an active charter yields one valid, proposed task per stage of the charter's kind, bound to the
charter's present revision; the tasks have distinct identities and form a chain, each depending on, and
taking as its input the output of, exactly the one before it.
\<close>

theorem plans_are_chains:
  assumes "plan_generate w project given = Inr (workflow, tasks)"
  shows "\<exists>charter. pw_charter w (ch_charter_id given) = Inr charter \<and> ch_status charter = CS_ACTIVE \<and>
    map et_title tasks = map sg_title (strategy_for (ch_project_type charter)) \<and>
    map wg_stage_id (wr_stages workflow) = map et_stage_id tasks \<and> chained tasks \<and>
    list_all (\<lambda>t. et_status t = PROPOSED \<and> et_project_id t = pr_project_id project \<and>
      et_charter_id t = ch_charter_id charter \<and> et_charter_revision t = ch_revision charter \<and>
      check_executive_task (pw_fromiso w) t = ok ()) tasks"
proof -
  obtain charter planned where c: "pw_charter w (ch_charter_id given) = Inr charter" "ch_status charter = CS_ACTIVE"
    and plan: "plan_stages w project charter 1 None None (strategy_for (ch_project_type charter)) = Inr planned"
    and tasks: "tasks = map snd planned" and stages: "wr_stages workflow = map fst planned"
    by (rule plan_generate_parts [OF assms]) blast
  note nth = plan_stages_nth [OF plan]
  have "et_title (snd (planned ! i)) = sg_title (strategy_for (ch_project_type charter) ! i) \<and>
      wg_stage_id (fst (planned ! i)) = et_stage_id (snd (planned ! i)) \<and>
      et_status (snd (planned ! i)) = PROPOSED \<and> et_project_id (snd (planned ! i)) = pr_project_id project \<and>
      et_charter_id (snd (planned ! i)) = ch_charter_id charter \<and>
      et_charter_revision (snd (planned ! i)) = ch_revision charter \<and>
      check_executive_task (pw_fromiso w) (snd (planned ! i)) = ok ()"
    if "i < length planned" for i
    using nth that template_task_fields by (fastforce simp: template_stage_def)
  moreover note plan_stages_chained [OF plan]
  ultimately show ?thesis using c nth
    by (intro exI [of _ charter]) (auto simp: tasks stages list_all_length list_eq_iff_nth_eq)
qed

subsection \<open>Readiness\<close>

lemma dependency_metD: "dependency_met tasks d \<Longrightarrow> \<exists>t\<in>set tasks. et_task_id t = d \<and> et_status t = TASK_COMPLETED"
  by (auto simp: dependency_met_def find_Some_iff split: option.splits) (metis length_rev nth_mem set_rev)

lemma ready_parts:
  assumes "readiness w quoted_at now task all_tasks project charter specialist inputs approvals = Inr []"
  obtains s action d where "specialist = Some s" "list_all (dependency_met all_tasks) (et_dependencies task)"
    "set (et_inputs task) \<subseteq> set inputs" "specialist_reasons task charter s = []"
    "classify w quoted_at task charter s = Inr action" "evaluate w project charter action approvals now = Inr d" "allows d"
proof (cases specialist)
  case None
  with assms show thesis by (simp add: readiness_def Let_def)
next
  case (Some s)
  with assms have "authority_reasons w quoted_at now task project charter s approvals = Inr []"
    and rest: "list_all (dependency_met all_tasks) (et_dependencies task)" "set (et_inputs task) \<subseteq> set inputs"
      "specialist_reasons task charter s = []"
    by (auto simp: readiness_def Let_def bind_result_Inr split: if_splits)
  then show thesis using Some that
    by (auto simp: authority_reasons_def bind_result_Inr split: sum.splits if_splits)
qed

text \<open>
C10: a task found ready has all its dependencies completed and all its inputs available, its specialist is
qualified, available, capable and of an approved provider, and the action that the classifier derives
from the task's durable effects is authorized under the active charter, by delegation or by an approval.
\<close>

theorem ready_tasks_are_authorized:
  assumes "readiness w quoted_at now task all_tasks project charter specialist inputs approvals = Inr []"
  shows "(\<forall>i\<in>set (et_dependencies task). \<exists>t\<in>set all_tasks. et_task_id t = i \<and> et_status t = TASK_COMPLETED) \<and>
    set (et_inputs task) \<subseteq> set inputs \<and>
    (\<exists>s action approval_id. specialist = Some s \<and> sl_qualified s \<and> sl_available s \<and> sl_credential_available s \<and>
       set (et_required_capabilities task) \<subseteq> set (sl_capabilities s) \<and>
       sl_provider_id s \<in> set (ch_approved_providers charter) \<and> classify w quoted_at task charter s = Inr action \<and>
       authorized w project charter action approvals now approval_id)"
proof -
  obtain s action d where s: "specialist = Some s" and deps: "list_all (dependency_met all_tasks) (et_dependencies task)"
    and inputs: "set (et_inputs task) \<subseteq> set inputs" and reasons: "specialist_reasons task charter s = []"
    and action: "classify w quoted_at task charter s = Inr action"
    and d: "evaluate w project charter action approvals now = Inr d" "allows d"
    by (rule ready_parts [OF assms]) blast
  from deps have "\<forall>i\<in>set (et_dependencies task). \<exists>t\<in>set all_tasks. et_task_id t = i \<and> et_status t = TASK_COMPLETED"
    by (auto simp: list_all_iff dest: dependency_metD)
  moreover from reasons have "sl_qualified s \<and> sl_available s \<and> sl_credential_available s \<and>
      set (et_required_capabilities task) \<subseteq> set (sl_capabilities s) \<and> sl_provider_id s \<in> set (ch_approved_providers charter)"
    by (simp add: specialist_reasons_def split: if_splits)
  moreover note evaluate_authorized [OF d]
  ultimately show ?thesis using s inputs action by blast
qed

subsection \<open>Order\<close>

text \<open>
  The changes of a plan's tasks: a waiting task is found ready against the present tasks, or a task moves
  along the transition table otherwise.
\<close>

inductive plan_step :: "executive_task list \<Rightarrow> executive_task list \<Rightarrow> bool" where
  ready: "i < length ts \<Longrightarrow> et_status (ts ! i) \<in> {PROPOSED, TASK_BLOCKED, WAITING} \<Longrightarrow>
    readiness w quoted_at now (ts ! i) ts project charter specialist (available_inputs ts) approvals = Inr reasons \<Longrightarrow>
    mark_ready stamp (ts ! i) reasons = Inr t \<Longrightarrow> plan_step ts (ts[i := t])"
| moves: "i < length ts \<Longrightarrow> target \<noteq> READY \<Longrightarrow> transition_task stamp target (ts ! i) = Inr t \<Longrightarrow> plan_step ts (ts[i := t])"

definition STARTED :: "executive_task_status list" where
  "STARTED = [READY, ASSIGNED, LAUNCH_CLAIMED, EXECUTION_STARTED, RUNNING, COMPLETION_PENDING, WAITING,
     REVIEW_REQUIRED, REPAIR_REQUIRED, UNCERTAIN, TASK_COMPLETED]"

definition in_order :: "executive_task list \<Rightarrow> bool" where
  "in_order ts \<longleftrightarrow> chained ts \<and>
     (\<forall>i<length ts. i \<noteq> 0 \<longrightarrow> et_status (ts ! i) \<in> set STARTED \<longrightarrow> et_status (ts ! (i - 1)) = TASK_COMPLETED)"

definition relabelled :: "executive_task \<Rightarrow> executive_task \<Rightarrow> bool" where
  "relabelled t u \<longleftrightarrow> et_task_id u = et_task_id t \<and> et_dependencies u = et_dependencies t \<and>
     et_inputs u = et_inputs t \<and> et_expected_outputs u = et_expected_outputs t"

lemma chained_relabelled: "chained ts \<Longrightarrow> i < length ts \<Longrightarrow> relabelled (ts ! i) t \<Longrightarrow> chained (ts[i := t])"
proof -
  assume c: "chained ts" and i: "i < length ts" and r: "relabelled (ts ! i) t"
  have same: "relabelled (ts ! j) (ts[i := t] ! j)" for j
    using r i by (cases "i = j") (auto simp: relabelled_def)
  have "map et_task_id (ts[i := t]) = map et_task_id ts"
    using same by (simp add: list_eq_iff_nth_eq relabelled_def)
  with c same show ?thesis unfolding chained_def relabelled_def by (simp cong: if_cong)
qed

lemma started_moves:
  "target \<in> set (task_transitions s) \<Longrightarrow> target \<noteq> READY \<Longrightarrow> target \<in> set STARTED \<Longrightarrow> s \<in> set STARTED"
  by (cases s) (auto simp: STARTED_def)

lemma completed_is_final: "task_transitions TASK_COMPLETED = []" by simp

lemma in_order_update:
  assumes "in_order ts" and "i < length ts" and "relabelled (ts ! i) t" and "et_status (ts ! i) \<noteq> TASK_COMPLETED"
    and "et_status t \<in> set STARTED \<Longrightarrow> i \<noteq> 0 \<Longrightarrow> et_status (ts ! (i - 1)) = TASK_COMPLETED"
  shows "in_order (ts[i := t])"
proof -
  have "et_status (ts[i := t] ! (j - 1)) = TASK_COMPLETED"
    if j: "j < length ts" "j \<noteq> 0" "et_status (ts[i := t] ! j) \<in> set STARTED" for j
  proof (cases "j = i")
    case True
    then have "et_status t \<in> set STARTED" using j by simp
    with assms(5) True j show ?thesis by simp
  next
    case False
    with j assms(1) have "et_status (ts ! (j - 1)) = TASK_COMPLETED" by (simp add: in_order_def)
    with assms(4) show ?thesis by (cases "j - 1 = i") auto
  qed
  moreover have "chained (ts[i := t])"
    using assms(1-3) by (intro chained_relabelled) (auto simp: in_order_def)
  ultimately show ?thesis by (simp add: in_order_def)
qed

lemma in_order_step: "plan_step ts us \<Longrightarrow> in_order ts \<Longrightarrow> in_order us"
proof (induction rule: plan_step.induct)
  case (ready i ts w quoted_at now project charter specialist approvals reasons stamp t)
  then have t: "t = (ts ! i)\<lparr>et_status := READY, et_revision := et_revision (ts ! i) + 1, et_updated_at := stamp\<rparr>"
    and reasons: "reasons = []" by (auto simp: mark_ready_def raise_if_Inr)
  from ready(3) [unfolded reasons] have deps: "list_all (dependency_met ts) (et_dependencies (ts ! i))"
    by (rule ready_parts)
  show ?case
  proof (rule in_order_update [OF ready.prems ready(1)])
    show "relabelled (ts ! i) t" by (simp add: t relabelled_def)
    show "et_status (ts ! i) \<noteq> TASK_COMPLETED" using ready(2) by auto
    assume "i \<noteq> 0"
    with ready.prems ready(1) have "et_dependencies (ts ! i) = [et_task_id (ts ! (i - 1))]"
      and distinct: "distinct (map et_task_id ts)"
      by (simp_all add: in_order_def chained_def)
    with deps obtain u where u: "u \<in> set ts" "et_task_id u = et_task_id (ts ! (i - 1))" "et_status u = TASK_COMPLETED"
      by (auto dest: dependency_metD)
    moreover from u(1,2) distinct ready(1) have "u = ts ! (i - 1)"
      by (auto simp: distinct_map dest: inj_onD)
    ultimately show "et_status (ts ! (i - 1)) = TASK_COMPLETED" by simp
  qed
next
  case (moves i ts target stamp t)
  then have target: "target \<in> set (task_transitions (et_status (ts ! i)))"
    and t: "t = (ts ! i)\<lparr>et_status := target, et_revision := et_revision (ts ! i) + 1, et_updated_at := stamp\<rparr>"
    by (auto simp: transition_task_def raise_if_Inr)
  show ?case
  proof (rule in_order_update [OF moves.prems moves(1)])
    show "relabelled (ts ! i) t" by (simp add: t relabelled_def)
    show "et_status (ts ! i) \<noteq> TASK_COMPLETED" using target by auto
    assume "et_status t \<in> set STARTED" "i \<noteq> 0"
    with started_moves [OF target moves(2)] moves.prems moves(1)
    show "et_status (ts ! (i - 1)) = TASK_COMPLETED" by (simp add: t in_order_def)
  qed
qed

lemma in_order_reachable: "plan_step\<^sup>*\<^sup>* ts us \<Longrightarrow> in_order ts \<Longrightarrow> in_order us"
  by (induction rule: rtranclp_induct) (auto intro: in_order_step)

lemma in_order_earlier:
  assumes "in_order ts" and "i < length ts" and "et_status (ts ! i) \<in> set STARTED" and "j < i"
  shows "et_status (ts ! j) = TASK_COMPLETED"
  using assms(2-4)
proof (induction i)
  case (Suc i)
  with assms(1) have "et_status (ts ! i) = TASK_COMPLETED" by (auto simp: in_order_def)
  with Suc show ?case by (cases "j = i") (auto simp: STARTED_def)
qed simp

text \<open>
C9: whatever specialists, approvals and clocks the readiness checks see, a task of a plan has started (is
ready, in progress or done) only when every task before it in the plan is completed.
\<close>

theorem plans_run_in_order:
  assumes "plan_generate w project given = Inr (workflow, tasks)" and "plan_step\<^sup>*\<^sup>* tasks ts"
    and "i < length ts" and "et_status (ts ! i) \<in> set STARTED" and "j < i"
  shows "et_status (ts ! j) = TASK_COMPLETED"
proof -
  obtain charter planned where plan: "plan_stages w project charter 1 None None (strategy_for (ch_project_type charter)) = Inr planned"
    and tasks: "tasks = map snd planned"
    by (rule plan_generate_parts [OF assms(1)]) blast
  have "et_status (tasks ! k) = PROPOSED" if "k < length tasks" for k
    using plan_stages_nth [OF plan] template_task_fields that by (fastforce simp: tasks)
  with plan_stages_chained [OF plan] have "in_order tasks"
    by (auto simp: in_order_def tasks STARTED_def)
  from in_order_earlier [OF in_order_reachable [OF assms(2) this] assms(3-5)] show ?thesis .
qed

subsection \<open>Charters without a data classification\<close>

text \<open>
C33: planning an active charter whose envelope names no data classification raises an index error, although
the classifier has its own permission error for this case; nothing is saved.
\<close>

theorem planning_needs_classification:
  assumes "pw_charter w (ch_charter_id given) = Inr charter" and "pr_active_charter_id project = Some (ch_charter_id charter)"
    and "ch_status charter = CS_ACTIVE" and "ae_data_classifications (ch_authority_envelope charter) = []"
  shows "plan_generate w project given = raise IndexError ''tuple index out of range''"
proof -
  have "strategy_for project_type \<noteq> []" for project_type
    by (auto simp: strategy_for_def DEFAULT_STRATEGY_def WORKLOAD_STRATEGIES_def split: if_splits option.splits)
  then obtain template templates where "strategy_for (ch_project_type charter) = template # templates"
    by (cases "strategy_for (ch_project_type charter)") auto
  with assms show ?thesis by (simp add: plan_generate_def template_task_def template_effects_def)
qed

subsection \<open>An example plan\<close>

definition EXAMPLE_PLANNER :: planner_world where
  "EXAMPLE_PLANNER =
     \<lparr>pw_fromiso = (\<lambda>s. Some (Aware 0)), pw_charter = (\<lambda>i. ok EXAMPLE_CHARTER), pw_workflows = (\<lambda>p. ok []),
      pw_new_id = ''w'', pw_now = ''t'', pw_save_workflow = (\<lambda>x. ok ()), pw_save_task = (\<lambda>x. ok ())\<rparr>"

definition EXAMPLE_AGENT :: specialist_profile where
  "EXAMPLE_AGENT = EXAMPLE_SPECIALIST\<lparr>sl_capabilities := [''planning'', ''production''], sl_qualified := True,
     sl_available := True, sl_credential_available := True, sl_cost_tier := 0, sl_estimated_cost := Some (Fin 0),
     sl_maximum_cost := Some (Fin 0), sl_included_plan := True, sl_marginally_free := True\<rparr>"

definition EXAMPLE_PLAN :: "executive_task list" where
  "EXAMPLE_PLAN = snd (projr (plan_generate EXAMPLE_PLANNER EXAMPLE_PROJECT EXAMPLE_CHARTER))"

lemma example_plan:
  obtains workflow where "plan_generate EXAMPLE_PLANNER EXAMPLE_PROJECT EXAMPLE_CHARTER = Inr (workflow, EXAMPLE_PLAN)"
    and "length EXAMPLE_PLAN = 3" and "list_all (\<lambda>t. et_status t = PROPOSED) EXAMPLE_PLAN"
proof -
  have "\<not> isl (plan_generate EXAMPLE_PLANNER EXAMPLE_PROJECT EXAMPLE_CHARTER) \<and> length EXAMPLE_PLAN = 3 \<and>
      list_all (\<lambda>t. et_status t = PROPOSED) EXAMPLE_PLAN" by code_simp
  then show thesis
    using that by (cases "plan_generate EXAMPLE_PLANNER EXAMPLE_PROJECT EXAMPLE_CHARTER") (auto simp: EXAMPLE_PLAN_def)
qed

theorem plans_are_chains_witness:
  "chained EXAMPLE_PLAN \<and> list_all (\<lambda>t. et_status t = PROPOSED) EXAMPLE_PLAN"
proof -
  obtain workflow where "plan_generate EXAMPLE_PLANNER EXAMPLE_PROJECT EXAMPLE_CHARTER = Inr (workflow, EXAMPLE_PLAN)"
    by (rule example_plan)
  from plans_are_chains [OF this] show ?thesis by (auto simp: list_all_iff)
qed

definition finished :: "executive_task \<Rightarrow> executive_task" where
  "finished t = t\<lparr>et_status := TASK_COMPLETED, et_revision := et_revision t + 5, et_updated_at := ''t''\<rparr>"

lemma ready_tasks_finish:
  assumes "i < length ts" and "et_status (ts ! i) = READY"
  shows "plan_step\<^sup>*\<^sup>* ts (ts[i := finished (ts ! i)])"
proof -
  have move: "plan_step us (us[i := (us ! i)\<lparr>et_status := s, et_revision := et_revision (us ! i) + 1, et_updated_at := ''t''\<rparr>])"
    if "length us = length ts" "s \<noteq> READY" "s \<in> set (task_transitions (et_status (us ! i)))" for us s
    using that assms(1) by (intro plan_step.moves) (simp_all add: transition_task_def)
  have "plan_step\<^sup>*\<^sup>* ts (ts[i := (ts ! i)\<lparr>et_status := s, et_revision := et_revision (ts ! i) + k, et_updated_at := ''t''\<rparr>])"
    if "(k, s) \<in> set [(1, LAUNCH_CLAIMED), (2, EXECUTION_STARTED), (3, COMPLETION_PENDING), (4, REVIEW_REQUIRED),
      (5, TASK_COMPLETED)]" for k s
  proof -
    let ?at = "\<lambda>k s. ts[i := (ts ! i)\<lparr>et_status := s, et_revision := et_revision (ts ! i) + k, et_updated_at := ''t''\<rparr>]"
    have 1: "plan_step\<^sup>*\<^sup>* ts (?at 1 LAUNCH_CLAIMED)"
      using move [of ts LAUNCH_CLAIMED] assms by auto
    have onward: "plan_step\<^sup>*\<^sup>* ts (?at (k + 1) s')"
      if "plan_step\<^sup>*\<^sup>* ts (?at k s)" "s' \<noteq> READY" "s' \<in> set (task_transitions s)" for k s s'
      using that(1) move [of "?at k s" s'] that(2,3) assms(1) by (auto simp: ac_simps intro: rtranclp.rtrancl_into_rtrancl)
    have 2: "plan_step\<^sup>*\<^sup>* ts (?at 2 EXECUTION_STARTED)" using onward [OF 1, of EXECUTION_STARTED] by simp
    have 3: "plan_step\<^sup>*\<^sup>* ts (?at 3 COMPLETION_PENDING)" using onward [OF 2, of COMPLETION_PENDING] by simp
    have 4: "plan_step\<^sup>*\<^sup>* ts (?at 4 REVIEW_REQUIRED)" using onward [OF 3, of REVIEW_REQUIRED] by simp
    have 5: "plan_step\<^sup>*\<^sup>* ts (?at 5 TASK_COMPLETED)" using onward [OF 4, of TASK_COMPLETED] by simp
    from 1 2 3 4 5 that show ?thesis by auto
  qed
  from this [of 5 TASK_COMPLETED] show ?thesis by (simp add: finished_def)
qed

definition made_ready :: "executive_task \<Rightarrow> executive_task" where
  "made_ready t = t\<lparr>et_status := READY, et_revision := et_revision t + 1, et_updated_at := ''t''\<rparr>"

definition FIRST_DONE :: "executive_task list" where
  "FIRST_DONE = EXAMPLE_PLAN[0 := finished (made_ready (EXAMPLE_PLAN ! 0))]"

lemma first_is_ready:
  "readiness EXAMPLE_WORLD (- 1) 0 (EXAMPLE_PLAN ! 0) EXAMPLE_PLAN EXAMPLE_PROJECT EXAMPLE_CHARTER (Some EXAMPLE_AGENT)
     (available_inputs EXAMPLE_PLAN) [] = Inr []"
  by code_simp

lemma second_is_ready:
  "readiness EXAMPLE_WORLD (- 1) 0 (FIRST_DONE ! 1) FIRST_DONE EXAMPLE_PROJECT EXAMPLE_CHARTER (Some EXAMPLE_AGENT)
     (available_inputs FIRST_DONE) [] = Inr []"
  by code_simp

theorem ready_tasks_are_authorized_witness:
  "\<exists>action approval_id. classify EXAMPLE_WORLD (- 1) (EXAMPLE_PLAN ! 0) EXAMPLE_CHARTER EXAMPLE_AGENT = Inr action \<and>
     authorized EXAMPLE_WORLD EXAMPLE_PROJECT EXAMPLE_CHARTER action [] 0 approval_id"
  using ready_tasks_are_authorized [OF first_is_ready] by blast

theorem plans_run_in_order_witness:
  "plan_step\<^sup>*\<^sup>* EXAMPLE_PLAN (FIRST_DONE[1 := made_ready (FIRST_DONE ! 1)]) \<and>
     et_status (FIRST_DONE[1 := made_ready (FIRST_DONE ! 1)] ! 0) = TASK_COMPLETED"
proof -
  obtain workflow where plan: "plan_generate EXAMPLE_PLANNER EXAMPLE_PROJECT EXAMPLE_CHARTER = Inr (workflow, EXAMPLE_PLAN)"
    and length: "length EXAMPLE_PLAN = 3" and all: "list_all (\<lambda>t. et_status t = PROPOSED) EXAMPLE_PLAN"
    by (rule example_plan)
  have proposed: "et_status (EXAMPLE_PLAN ! i) = PROPOSED" if "i < 3" for i
    using all that length by (simp add: list_all_length)
  let ?first = "EXAMPLE_PLAN[0 := made_ready (EXAMPLE_PLAN ! 0)]"
  have "plan_step EXAMPLE_PLAN ?first"
    by (rule plan_step.ready [OF _ _ first_is_ready]) (use length proposed in \<open>simp_all add: mark_ready_def made_ready_def\<close>)
  moreover have "plan_step\<^sup>*\<^sup>* ?first FIRST_DONE"
    using ready_tasks_finish [of 0 ?first] length by (simp add: FIRST_DONE_def made_ready_def)
  moreover have "plan_step FIRST_DONE (FIRST_DONE[1 := made_ready (FIRST_DONE ! 1)])"
    by (rule plan_step.ready [OF _ _ second_is_ready])
      (use length proposed in \<open>simp_all add: FIRST_DONE_def mark_ready_def made_ready_def\<close>)
  ultimately have run: "plan_step\<^sup>*\<^sup>* EXAMPLE_PLAN (FIRST_DONE[1 := made_ready (FIRST_DONE ! 1)])"
    by (meson converse_rtranclp_into_rtranclp rtranclp.rtrancl_into_rtrancl)
  from plans_run_in_order [OF plan this, of 1 0] length run show ?thesis
    by (simp add: FIRST_DONE_def made_ready_def STARTED_def)
qed

theorem planning_needs_classification_witness:
  "plan_generate (EXAMPLE_PLANNER\<lparr>pw_charter := \<lambda>i. ok (EXAMPLE_CHARTER\<lparr>ch_authority_envelope :=
     EXAMPLE_ENVELOPE\<lparr>ae_data_classifications := []\<rparr>\<rparr>)\<rparr>) EXAMPLE_PROJECT EXAMPLE_CHARTER =
   raise IndexError ''tuple index out of range''"
  by (rule planning_needs_classification [where charter =
        "EXAMPLE_CHARTER\<lparr>ch_authority_envelope := EXAMPLE_ENVELOPE\<lparr>ae_data_classifications := []\<rparr>\<rparr>"])
    (simp_all add: EXAMPLE_PLANNER_def EXAMPLE_CHARTER_def EXAMPLE_PROJECT_def)

end
