(* ===== verification/Executive_Store.thy ===== *)
theory Executive_Store
  imports Executive_Planning Market_Data
begin

text \<open>
  The executive's durable records (\<open>keeper/executive/repository.py\<close>): the tables, the writes of projects,
  workflows and tasks, and the approvals of single actions from their challenge to their use.  A transaction
  is one step that leaves the store as it was when it raises.  A table lists the row written last first, the
  order of \<open>ORDER BY updated_at DESC\<close>; its payloads come read, so the checks that a stored payload is
  intact are left out, as is the table of relationships, which is only written.  The founder's
  authenticator, SHA-256 of the canonical JSON of a record, and the clock are given.
\<close>

subsection \<open>Tables\<close>

type_synonym 'a table = "(string \<times> 'a) list"

definition entity :: "string \<Rightarrow> 'a table \<Rightarrow> string \<Rightarrow> 'a result" where
  "entity name t k = (case map_of t k of None \<Rightarrow> raise KeyError (name @ '' record not found'') | Some x \<Rightarrow> ok x)"

definition put_row :: "string \<Rightarrow> 'a \<Rightarrow> 'a table \<Rightarrow> 'a table" where
  "put_row k x t = (k, x) # filter (\<lambda>(i, _). i \<noteq> k) t"

definition insert_entity :: "string \<Rightarrow> string \<Rightarrow> 'a \<Rightarrow> 'a table \<Rightarrow> 'a table result" where
  "insert_entity name k x t =
     raise_if (map_of t k \<noteq> None) PermissionError (''immutable '' @ name @ '' record already exists'') (ok (put_row k x t))"

lemma map_of_put_row [simp]: "map_of (put_row k x t) = (map_of t)(k \<mapsto> x)"
proof (rule ext)
  fix i
  have "i \<noteq> k \<Longrightarrow> map_of (filter (\<lambda>(i, _). i \<noteq> k) t) i = map_of t i" by (induction t) auto
  then show "map_of (put_row k x t) i = ((map_of t)(k \<mapsto> x)) i" by (simp add: put_row_def)
qed

lemma entity_Inr [simp]: "entity name t k = Inr x \<longleftrightarrow> map_of t k = Some x"
  by (auto simp: entity_def split: option.splits)

lemma insert_entity_Inr [simp]: "insert_entity name k x t = Inr u \<longleftrightarrow> map_of t k = None \<and> u = put_row k x t"
  by (auto simp: insert_entity_def)

lemma distinct_put_row [simp]: "distinct (map fst t) \<Longrightarrow> distinct (map fst (put_row k x t))"
  by (induction t) (auto simp: put_row_def)

subsection \<open>Records\<close>

datatype approval_intent = APPROVE_CHARTER | APPROVE_ACTION

text \<open>What a founder is asked to approve: one action, within limits.\<close>

record action_binding =
  ab_project_id :: string
  ab_charter_id :: string
  ab_charter_revision :: int
  ab_kind :: approval_kind
  ab_action :: proposed_action
  ab_scope :: "string list"
  ab_limits :: "(string \<times> limit_value) list"
  ab_expires_at :: "string option"

record approval_challenge =
  fc_challenge_id :: string
  fc_project_id :: string
  fc_charter_id :: string
  fc_charter_revision :: int
  fc_charter_digest :: string
  fc_approval_action :: approval_intent
  fc_approval_binding :: "action_binding option"
  fc_nonce :: string
  fc_requested_at :: string
  fc_expires_at :: string
  fc_state :: string
  fc_consumed_event_id :: "string option"

record approval_event =
  fe_event_id :: string
  fe_authenticated_identity :: string
  fe_authentication_method :: string
  fe_authenticated_account :: string
  fe_authenticated_session_id :: string
  fe_machine_identity :: string
  fe_application_identity :: string
  fe_project_id :: string
  fe_charter_id :: string
  fe_charter_revision :: int
  fe_charter_digest :: string
  fe_approval_action :: approval_intent
  fe_explicit_intent :: approval_intent
  fe_challenge_id :: string
  fe_challenge_response_digest :: string
  fe_proof_version :: int
  fe_source_user_interaction_id :: string
  fe_confirmed_at :: string
  fe_expires_at :: "string option"

definition check_approval_event :: "iso_reader \<Rightarrow> approval_event \<Rightarrow> unit result" where
  "check_approval_event fromiso e =
     raise_if (take 4 (fe_authenticated_identity e) \<noteq> ''S-1-'' \<or>
         fe_authentication_method e \<notin> {''WINDOWS_CREDENTIAL_LOGON'', ''TEST_CHALLENGE_HMAC''} \<or>
         fe_authenticated_account e = [] \<or> fe_authenticated_session_id e = [] \<or> fe_machine_identity e = [] \<or>
         fe_application_identity e \<noteq> ''KEEPER_EXECUTIVE'' \<or> fe_proof_version e \<noteq> 2 \<or>
         fe_source_user_interaction_id e = []) ValueError ''Founder approval event is invalid''
     (bind_result (validate_timestamp fromiso (fe_confirmed_at e) ''confirmed_at'') (\<lambda>_.
      validate_optional_timestamp fromiso (fe_expires_at e) ''expires_at''))"

record founder_session =
  fs_session_id :: string
  fs_principal_sid :: string
  fs_account_name :: string
  fs_authentication_method :: string
  fs_authenticated_at :: string
  fs_expires_at :: string
  fs_machine_identity :: string
  fs_application_identity :: string
  fs_process_identity :: string
  fs_challenge_id :: string
  fs_project_id :: string
  fs_charter_id :: string
  fs_charter_revision :: int
  fs_approval_action :: approval_intent
  fs_bound_digest :: string
  fs_proof_digest :: string
  fs_state :: string
  fs_revoked_at :: "string option"
  fs_consumed_at :: "string option"

record approval_confirmation =
  cf_proof_digest :: string
  cf_proof_version :: int
  cf_source_user_interaction_id :: string

text \<open>The plan of a launch: its identity and bindings, of which the repository reads these.\<close>

record execution_plan =
  xp_authority_attempt_id :: string
  xp_project_id :: string
  xp_charter_id :: string
  xp_charter_revision :: int
  xp_workflow_id :: string
  xp_task_id :: string
  xp_task_revision :: int
  xp_provider_id :: string
  xp_model_id :: string
  xp_session_id :: string
  xp_registration_id :: string
  xp_qualification_id :: string
  xp_artifact_revision_digest :: "string option"
  xp_workspace :: string
  xp_subscription_contract :: bool

record execution_attempt =
  xa_plan :: execution_plan
  xa_state :: string
  xa_created_at :: string
  xa_updated_at :: string
  xa_completion_digest :: "string option"
  xa_artifact_digest :: "string option"
  xa_action_id :: string
  xa_approval_id :: "string option"
  xa_budget_reservation_id :: "string option"
  xa_artifact_identity :: "string option"
  xa_artifact_files :: "string list option"
  xa_evidence_digest :: "string option"

record review_record =
  rv_review_attempt_id :: string
  rv_review_task_id :: string
  rv_project_id :: string
  rv_charter_id :: string
  rv_charter_revision :: int
  rv_workflow_id :: string
  rv_task_id :: string
  rv_task_revision :: int
  rv_artifact_revision_digest :: "string option"
  rv_author_attempt_id :: "string option"
  rv_author_provider_id :: "string option"
  rv_author_session_id :: "string option"
  rv_reviewer_provider_id :: string
  rv_reviewer_model_id :: string
  rv_reviewer_session_id :: string
  rv_reviewer_registration_id :: string
  rv_reviewer_qualification_id :: string
  rv_state :: string
  rv_findings_digest :: "string option"
  rv_disposition :: "string option"
  rv_created_at :: string
  rv_updated_at :: string
  rv_plan :: execution_plan
  rv_completion_digest :: "string option"
  rv_evidence_digest :: "string option"

text \<open>What the authority returns of an execution, as far as the repository reads it.\<close>

record execution_result =
  xr_authority_attempt_id :: string
  xr_task_id :: string
  xr_session_id :: string
  xr_registration_id :: string
  xr_terminal_disposition :: string
  xr_artifact_identity :: "string option"
  xr_artifact_digest :: "string option"
  xr_artifact_files :: "string list"
  xr_evidence_digest :: string
  xr_review_disposition :: "string option"
  xr_structured_review_digest :: "string option"
  xr_author_attempt_id :: "string option"
  xr_completion_digest :: string
  xr_authenticated :: bool

record late_result =
  lt_result :: execution_result
  lt_project_id :: string
  lt_original_task_id :: string
  lt_history_kind :: "string option"
  lt_recorded_at :: string
  lt_task_state :: "executive_task_status option"
  lt_project_state :: "executive_state option"

record approval_consumption =
  ac_approval_id :: string
  ac_project_id :: string
  ac_charter_id :: string
  ac_charter_revision :: int
  ac_action_id :: string
  ac_task_id :: "string option"
  ac_consumed_at :: string

record budget_reservation =
  br_reservation_id :: string
  br_project_id :: string
  br_charter_id :: string
  br_charter_revision :: int
  br_approval_id :: string
  br_action_id :: string
  br_task_id :: "string option"
  br_amount_minor :: int
  br_currency :: string
  br_state :: string
  br_reserved_at :: string

text \<open>An approval comes with the binding that its limits hold under \<open>action_binding\<close>, if they hold one.\<close>

record executive_store =
  xs_projects :: "project_record table"
  xs_charters :: "project_charter table"
  xs_workflows :: "workflow_record table"
  xs_tasks :: "executive_task table"
  xs_approvals :: "(approval_record \<times> action_binding option) table"
  xs_challenges :: "approval_challenge table"
  xs_events :: "approval_event table"
  xs_sessions :: "founder_session table"
  xs_attempts :: "execution_attempt table"
  xs_reviews :: "review_record table"
  xs_late_results :: "late_result table"
  xs_consumptions :: "approval_consumption list"
  xs_reservations :: "budget_reservation list"

record store_world =
  sw_authority :: authority_world
  sw_binding_digest :: "action_binding \<Rightarrow> string"
  sw_action_digest :: "proposed_action \<Rightarrow> string"
  sw_event_digest :: "approval_event \<Rightarrow> string"
  sw_task_digest :: "executive_task \<Rightarrow> string"
  sw_charter_digest :: "project_charter \<Rightarrow> string"
  sw_verify :: "approval_challenge \<Rightarrow> approval_confirmation \<Rightarrow> founder_session result"

subsection \<open>Projects, workflows and tasks\<close>

definition project_of :: "executive_store \<Rightarrow> string \<Rightarrow> project_record result" where
  "project_of st = entity ''executive_projects'' (xs_projects st)"

definition charter_of :: "executive_store \<Rightarrow> string \<Rightarrow> project_charter result" where
  "charter_of st = entity ''project_charters'' (xs_charters st)"

definition task_of :: "executive_store \<Rightarrow> string \<Rightarrow> executive_task result" where
  "task_of st = entity ''executive_tasks'' (xs_tasks st)"

definition tasks_of :: "executive_store \<Rightarrow> string \<Rightarrow> executive_task list" where
  "tasks_of st project_id = filter (\<lambda>t. et_project_id t = project_id) (map snd (xs_tasks st))"

definition workflows_of :: "executive_store \<Rightarrow> string \<Rightarrow> workflow_record list" where
  "workflows_of st project_id = filter (\<lambda>x. wr_project_id x = project_id) (map snd (xs_workflows st))"

definition approvals_of :: "executive_store \<Rightarrow> string \<Rightarrow> int option \<Rightarrow> approval_record list" where
  "approvals_of st project_id charter_revision =
     filter (\<lambda>a. ap_project_id a = project_id \<and> (charter_revision = None \<or> charter_revision = Some (ap_charter_revision a)))
       (map (fst \<circ> snd) (xs_approvals st))"

definition save_project :: "project_record option \<Rightarrow> project_record \<Rightarrow> executive_store \<Rightarrow> executive_store result" where
  "save_project expected project st =
     (case map_of (xs_projects st) (pr_project_id project) of
        None \<Rightarrow>
          raise_if (pr_state project \<notin> {INTAKE, CLARIFICATION_REQUIRED}) PermissionError
            ''new projects must begin in intake or clarification''
          (ok (st\<lparr>xs_projects := put_row (pr_project_id project) project (xs_projects st)\<rparr>))
      | Some prior \<Rightarrow>
          raise_if (expected \<noteq> Some prior) PermissionError ''project write is stale or lacks exact CAS''
          (raise_if (pr_state project = executive_state.ACTIVE \<and> pr_state prior \<noteq> executive_state.ACTIVE \<or> pr_name project \<noteq> pr_name prior \<or>
              pr_project_type project \<noteq> pr_project_type prior \<or> pr_created_at project \<noteq> pr_created_at prior \<or>
              pr_active_charter_id project \<noteq> pr_active_charter_id prior \<or>
              pr_active_charter_revision project \<noteq> pr_active_charter_revision prior) PermissionError
            ''project identity and charter binding are trusted-state only''
          (raise_if (pr_state project \<noteq> pr_state prior \<and>
              pr_state project \<notin> set (project_transitions (pr_state prior))) PermissionError
            ''repository rejected executive transition''
          (ok (st\<lparr>xs_projects := put_row (pr_project_id project) project (xs_projects st)\<rparr>)))))"

text \<open>What a charter says, without its state and its approval.\<close>

definition charter_content :: "project_charter \<Rightarrow> project_charter" where
  "charter_content c = c\<lparr>ch_status := CS_DRAFT, ch_founder_approval_identity := None, ch_founder_approval_record_id := None,
     ch_founder_approval_event_id := None, ch_founder_approval_event_digest := None,
     ch_founder_authenticated_session_id := None, ch_founder_authorization_capability := None,
     ch_founder_authorization_capability_digest := None, ch_updated_at := []\<rparr>"

definition save_charter :: "store_world \<Rightarrow> project_charter option \<Rightarrow> project_charter \<Rightarrow> executive_store \<Rightarrow> executive_store result" where
  "save_charter w expected charter st =
     (case map_of (xs_charters st) (ch_charter_id charter) of
        None \<Rightarrow>
          raise_if (ch_status charter \<noteq> CS_DRAFT) PermissionError ''new charters must begin as drafts''
          (raise_if (map_of (xs_projects st) (ch_project_id charter) = None) PermissionError ''charter project does not exist''
          (ok (st\<lparr>xs_charters := put_row (ch_charter_id charter) charter (xs_charters st)\<rparr>)))
      | Some prior \<Rightarrow>
          raise_if (expected \<noteq> Some prior) PermissionError ''charter write is stale or lacks an exact CAS record''
          (raise_if (ch_project_id prior \<noteq> ch_project_id charter \<or> ch_revision prior \<noteq> ch_revision charter \<or>
              sw_charter_digest w (charter_content prior) \<noteq> sw_charter_digest w (charter_content charter)) PermissionError
            ''charter identity and approved content are immutable''
          (raise_if (ch_status prior \<noteq> CS_DRAFT \<or> ch_status charter \<noteq> CS_PROPOSED) PermissionError
            ''repository rejected charter transition''
          (ok (st\<lparr>xs_charters := put_row (ch_charter_id charter) charter (xs_charters st)\<rparr>)))))"

definition save_workflow :: "workflow_record \<Rightarrow> executive_store \<Rightarrow> executive_store result" where
  "save_workflow workflow st =
     bind_result (project_of st (wr_project_id workflow)) (\<lambda>project.
     bind_result (charter_of st (wr_charter_id workflow)) (\<lambda>charter.
     raise_if (ch_project_id charter \<noteq> wr_project_id workflow \<or> ch_revision charter \<noteq> wr_charter_revision workflow \<or>
         pr_active_charter_id project \<noteq> Some (wr_charter_id workflow) \<or>
         pr_active_charter_revision project \<noteq> Some (wr_charter_revision workflow)) PermissionError
       ''workflow parent-child ownership is invalid''
     (bind_result (insert_entity ''executive_workflows'' (wr_workflow_id workflow) workflow (xs_workflows st)) (\<lambda>ws.
      ok (st\<lparr>xs_workflows := ws\<rparr>)))))"

text \<open>What a task is defined to be, without the fields of its progress.\<close>

definition task_definition :: "executive_task \<Rightarrow> executive_task" where
  "task_definition t = t\<lparr>et_provider_id := None, et_model_id := None, et_session_id := None, et_status := PROPOSED,
     et_retry_count := 0, et_attempt_history := [], et_result_disposition := None, et_updated_at := [],
     et_revision := 0, et_authority_attempt_id := None, et_artifact_digest := None, et_review_attempt_id := None,
     et_late_result := False\<rparr>"

definition check_parentage :: "executive_task \<Rightarrow> executive_store \<Rightarrow> unit result" where
  "check_parentage task st =
     bind_result (project_of st (et_project_id task)) (\<lambda>project.
     raise_if (case find (\<lambda>x. wr_workflow_id x = et_workflow_id task) (workflows_of st (et_project_id task)) of
         None \<Rightarrow> True
       | Some workflow \<Rightarrow> wr_charter_id workflow \<noteq> et_charter_id task \<or>
           wr_charter_revision workflow \<noteq> et_charter_revision task \<or>
           pr_active_charter_id project \<noteq> Some (et_charter_id task) \<or>
           pr_active_charter_revision project \<noteq> Some (et_charter_revision task) \<or>
           et_stage_id task \<notin> set (map wg_stage_id (wr_stages workflow))) PermissionError
       ''task parent-child ownership is invalid'' (ok ()))"

definition save_task :: "store_world \<Rightarrow> executive_task option \<Rightarrow> executive_task \<Rightarrow> executive_store \<Rightarrow> executive_store result" where
  "save_task w expected task st =
     bind_result (validate_durable_task_effects task) (\<lambda>_.
     case map_of (xs_tasks st) (et_task_id task) of
       None \<Rightarrow>
         raise_if (et_status task \<noteq> PROPOSED \<or> et_revision task \<noteq> 1) PermissionError
           ''new tasks must begin proposed at revision one''
         (bind_result (check_parentage task st) (\<lambda>_.
          ok (st\<lparr>xs_tasks := put_row (et_task_id task) task (xs_tasks st)\<rparr>)))
     | Some prior \<Rightarrow>
         raise_if (expected \<noteq> Some prior) PermissionError ''task write is stale or lacks exact CAS''
         (raise_if (et_revision task \<noteq> et_revision prior + 1 \<or>
             et_status task \<notin> set (task_transitions (et_status prior)) \<or>
             et_project_id task \<noteq> et_project_id prior \<or> et_charter_id task \<noteq> et_charter_id prior \<or>
             et_charter_revision task \<noteq> et_charter_revision prior \<or> et_workflow_id task \<noteq> et_workflow_id prior \<or>
             sw_task_digest w (task_definition task) \<noteq> sw_task_digest w (task_definition prior)) PermissionError
           ''repository rejected task transition''
         (ok (st\<lparr>xs_tasks := put_row (et_task_id task) task (xs_tasks st)\<rparr>))))"

subsection \<open>Approvals of actions\<close>

text \<open>\<open>datetime.fromisoformat(a) > datetime.fromisoformat(b)\<close>\<close>

definition later_than :: "authority_world \<Rightarrow> string \<Rightarrow> string \<Rightarrow> bool result" where
  "later_than w a b =
     (case (aw_fromisoformat w a, aw_fromisoformat w b) of
        (Some (Aware s), Some (Aware t)) \<Rightarrow> ok (s > t)
      | (Some (Naive s), Some (Naive t)) \<Rightarrow> ok (s > t)
      | (Some _, Some _) \<Rightarrow> raise TypeError ''can't compare offset-naive and offset-aware datetimes''
      | _ \<Rightarrow> raise ValueError ''Invalid isoformat string'')"

definition create_action_challenge ::
    "store_world \<Rightarrow> string \<Rightarrow> string \<Rightarrow> string \<Rightarrow> string \<Rightarrow> instant \<Rightarrow> proposed_action \<Rightarrow> string \<Rightarrow> approval_kind
      \<Rightarrow> string list \<Rightarrow> (string \<times> limit_value) list \<Rightarrow> string option \<Rightarrow> executive_store
      \<Rightarrow> (approval_challenge \<times> executive_store) result" where
  "create_action_challenge w fresh nonce requested expires now action charter_id kind scope limits expires_at st =
     raise_if (kind = CHARTER_DURATION) PermissionError ''action approval kind is invalid''
     (bind_result (charter_of st charter_id) (\<lambda>charter.
      raise_if (ch_project_id charter \<noteq> pa_project_id action \<or> ch_revision charter \<noteq> pa_charter_revision action \<or>
          ch_status charter \<noteq> CS_ACTIVE \<or> \<not> set scope \<subseteq> set (ch_deliverables charter)) PermissionError
        ''action approval is outside the active charter''
      (bind_result (case expires_at of None \<Rightarrow> ok False
          | Some s \<Rightarrow> (case aw_fromisoformat (sw_authority w) s of
              None \<Rightarrow> raise ValueError ''Invalid isoformat string''
            | Some (Naive t) \<Rightarrow> ok True
            | Some (Aware t) \<Rightarrow> ok (t \<le> now))) (\<lambda>invalid.
       raise_if invalid PermissionError ''action approval expiration is invalid''
       (let binding = \<lparr>ab_project_id = pa_project_id action, ab_charter_id = charter_id,
              ab_charter_revision = pa_charter_revision action, ab_kind = kind, ab_action = action, ab_scope = scope,
              ab_limits = limits, ab_expires_at = expires_at\<rparr>;
            challenge = \<lparr>fc_challenge_id = fresh, fc_project_id = pa_project_id action, fc_charter_id = charter_id,
              fc_charter_revision = pa_charter_revision action, fc_charter_digest = sw_binding_digest w binding,
              fc_approval_action = APPROVE_ACTION, fc_approval_binding = Some binding, fc_nonce = nonce,
              fc_requested_at = requested, fc_expires_at = expires, fc_state = ''PENDING'',
              fc_consumed_event_id = None\<rparr>
        in bind_result (insert_entity ''executive_founder_approval_challenges'' fresh challenge (xs_challenges st)) (\<lambda>cs.
           ok (challenge, st\<lparr>xs_challenges := cs\<rparr>)))))))"

fun put_limit :: "string \<Rightarrow> limit_value \<Rightarrow> (string \<times> limit_value) list \<Rightarrow> (string \<times> limit_value) list" where
  "put_limit k v [] = [(k, v)]"
| "put_limit k v ((i, x) # kvs) = (if i = k then (k, v) # kvs else (i, x) # put_limit k v kvs)"

definition confirm_action_approval ::
    "store_world \<Rightarrow> string \<Rightarrow> string \<Rightarrow> string \<Rightarrow> instant \<Rightarrow> string \<Rightarrow> approval_confirmation option \<Rightarrow> approval_intent
      \<Rightarrow> executive_store \<Rightarrow> ((approval_record \<times> approval_event) \<times> executive_store) result" where
  "confirm_action_approval w event_id approval_id timestamp now challenge_id confirmed intent st =
     (case confirmed of None \<Rightarrow> raise PermissionError ''explicit action approval intent is required''
      | Some confirmation \<Rightarrow>
      raise_if (intent \<noteq> APPROVE_ACTION) PermissionError ''explicit action approval intent is required''
      (bind_result (entity ''executive_founder_approval_challenges'' (xs_challenges st) challenge_id) (\<lambda>challenge.
       raise_if (fc_state challenge \<noteq> ''PENDING'' \<or> fc_approval_action challenge \<noteq> APPROVE_ACTION \<or>
           fc_approval_binding challenge = None) PermissionError ''action approval challenge is stale''
       (bind_result (passed_by (sw_authority w) (fc_expires_at challenge) now) (\<lambda>over.
        raise_if over PermissionError ''action approval challenge is stale''
        (bind_result (sw_verify w challenge confirmation) (\<lambda>session.
         bind_result (entity ''executive_founder_authenticated_sessions'' (xs_sessions st) (fs_session_id session)) (\<lambda>stored.
         raise_if (stored \<noteq> session \<or> fs_state stored \<noteq> ''ACTIVE'' \<or> fs_revoked_at stored \<noteq> None) PermissionError
           ''authenticated Founder session is stale''
         (bind_result (passed_by (sw_authority w) (fs_expires_at stored) now) (\<lambda>gone.
          raise_if gone PermissionError ''authenticated Founder session is stale''
          (let binding = the (fc_approval_binding challenge); action = ab_action binding in
           raise_if (sw_binding_digest w binding \<noteq> fc_charter_digest challenge) PermissionError
             ''action approval binding was modified''
           (bind_result (charter_of st (fc_charter_id challenge)) (\<lambda>charter.
            raise_if (ch_project_id charter \<noteq> fc_project_id challenge \<or> ch_revision charter \<noteq> fc_charter_revision challenge \<or>
                ch_status charter \<noteq> CS_ACTIVE) PermissionError ''action charter is no longer active''
            (raise_if (pa_project_id action \<noteq> fc_project_id challenge \<or>
                pa_charter_revision action \<noteq> fc_charter_revision challenge) PermissionError
              ''action approval binding is invalid''
            (let event = \<lparr>fe_event_id = event_id, fe_authenticated_identity = fs_principal_sid session,
                   fe_authentication_method = fs_authentication_method session,
                   fe_authenticated_account = fs_account_name session, fe_authenticated_session_id = fs_session_id session,
                   fe_machine_identity = fs_machine_identity session,
                   fe_application_identity = fs_application_identity session, fe_project_id = fc_project_id challenge,
                   fe_charter_id = fc_charter_id challenge, fe_charter_revision = fc_charter_revision challenge,
                   fe_charter_digest = fc_charter_digest challenge, fe_approval_action = APPROVE_ACTION,
                   fe_explicit_intent = intent, fe_challenge_id = fc_challenge_id challenge,
                   fe_challenge_response_digest = cf_proof_digest confirmation,
                   fe_proof_version = cf_proof_version confirmation,
                   fe_source_user_interaction_id = cf_source_user_interaction_id confirmation,
                   fe_confirmed_at = timestamp, fe_expires_at = ab_expires_at binding\<rparr>;
                 limits = put_limit ''action_binding'' LimitOther
                   (put_limit ''approval_event_digest'' (LimitText (sw_event_digest w event))
                   (put_limit ''authenticated_session_id'' (LimitText (fs_session_id session))
                   (put_limit ''authentication_method'' (LimitText (fs_authentication_method session)) (ab_limits binding))));
                 approval = \<lparr>ap_approval_id = approval_id, ap_project_id = fc_project_id challenge,
                   ap_charter_id = fc_charter_id challenge, ap_charter_revision = fc_charter_revision challenge,
                   ap_kind = ab_kind binding, ap_action_category = Some (pa_category action),
                   ap_approver = fs_principal_sid session, ap_scope = ab_scope binding, ap_limits = limits,
                   ap_approved_at = timestamp, ap_expires_at = fe_expires_at event, ap_revoked_at = None,
                   ap_consumed_at = None, ap_evidence_digest = fc_charter_digest challenge,
                   ap_source_interaction_id = event_id\<rparr>
             in bind_result (check_approval_event (aw_fromisoformat (sw_authority w)) event) (\<lambda>_.
                bind_result (check_approval_record (aw_fromisoformat (sw_authority w)) approval) (\<lambda>_.
                bind_result (insert_entity ''executive_founder_approval_events'' event_id event (xs_events st)) (\<lambda>es.
                bind_result (insert_entity ''executive_approvals'' approval_id (approval, Some binding) (xs_approvals st)) (\<lambda>aps.
                ok ((approval, event), st\<lparr>xs_events := es, xs_approvals := aps,
                  xs_challenges := put_row challenge_id
                    (challenge\<lparr>fc_state := ''CONSUMED'', fc_consumed_event_id := Some event_id\<rparr>) (xs_challenges st),
                  xs_sessions := put_row (fs_session_id session)
                    (session\<lparr>fs_state := ''CONSUMED'', fs_consumed_at := Some timestamp\<rparr>) (xs_sessions st)\<rparr>))))))))))))))))))))"

definition revoke_approval :: "string \<Rightarrow> string \<Rightarrow> executive_store \<Rightarrow> (approval_record \<times> executive_store) result" where
  "revoke_approval approval_id revoked_at st =
     bind_result (entity ''executive_approvals'' (xs_approvals st) approval_id) (\<lambda>(approval, binding).
     raise_if (ap_revoked_at approval \<noteq> None) PermissionError ''approval is already revoked''
     (let updated = approval\<lparr>ap_revoked_at := Some revoked_at\<rparr>
      in ok (updated, st\<lparr>xs_approvals := put_row approval_id (updated, binding) (xs_approvals st)\<rparr>)))"

subsection \<open>The use of an approval\<close>

definition limit_text :: "(string \<times> limit_value) list \<Rightarrow> string \<Rightarrow> string \<Rightarrow> bool" where
  "limit_text limits k s \<longleftrightarrow> map_of limits k = Some (LimitText s)"

text \<open>The conditions that are read before the times are compared, and those after.\<close>

definition approval_unbound ::
    "approval_record \<Rightarrow> project_charter \<Rightarrow> approval_event \<Rightarrow> founder_session \<Rightarrow> proposed_action \<Rightarrow> bool" where
  "approval_unbound approval charter event session action \<longleftrightarrow>
     ap_project_id approval \<noteq> pa_project_id action \<or> ap_charter_id approval \<noteq> ch_charter_id charter \<or>
     ap_charter_revision approval \<noteq> pa_charter_revision action \<or> ch_revision charter \<noteq> pa_charter_revision action \<or>
     ch_status charter \<noteq> CS_ACTIVE \<or> ap_approver approval \<noteq> fs_principal_sid session \<or>
     (\<exists>s. ap_action_category approval = Some s \<and> action_category_of s \<noteq> action_category_of (pa_category action)) \<or>
     \<not> set (pa_scope action) \<subseteq> set (ap_scope approval) \<or> ap_revoked_at approval \<noteq> None \<or>
     ap_consumed_at approval \<noteq> None \<or> fe_event_id event \<noteq> ap_source_interaction_id approval \<or>
     fe_authenticated_identity event \<noteq> fs_principal_sid session \<or>
     fe_authenticated_session_id event \<noteq> fs_session_id session \<or> fe_project_id event \<noteq> pa_project_id action \<or>
     fe_charter_id event \<noteq> ch_charter_id charter \<or> fe_charter_revision event \<noteq> ch_revision charter \<or>
     fe_approval_action event \<noteq> APPROVE_ACTION \<or> fe_explicit_intent event \<noteq> APPROVE_ACTION \<or>
     fe_charter_digest event \<noteq> ap_evidence_digest approval \<or>
     fe_challenge_response_digest event \<noteq> fs_proof_digest session \<or>
     fe_confirmed_at event \<noteq> ap_approved_at approval \<or> fe_expires_at event \<noteq> ap_expires_at approval"

definition challenge_unbound ::
    "store_world \<Rightarrow> approval_record \<Rightarrow> action_binding \<Rightarrow> approval_event \<Rightarrow> approval_challenge \<Rightarrow> founder_session
      \<Rightarrow> proposed_action \<Rightarrow> bool" where
  "challenge_unbound w approval binding event challenge session action \<longleftrightarrow>
     fc_challenge_id challenge \<noteq> fe_challenge_id event \<or> fc_state challenge \<noteq> ''CONSUMED'' \<or>
     fc_consumed_event_id challenge \<noteq> Some (fe_event_id event) \<or> fc_approval_binding challenge \<noteq> Some binding \<or>
     fc_charter_digest challenge \<noteq> ap_evidence_digest approval \<or> fs_state session \<noteq> ''CONSUMED'' \<or>
     fs_consumed_at session = None \<or> fs_revoked_at session \<noteq> None \<or>
     fs_challenge_id session \<noteq> fc_challenge_id challenge \<or> fs_bound_digest session \<noteq> ap_evidence_digest approval \<or>
     \<not> limit_text (ap_limits approval) ''authentication_method'' (fs_authentication_method session) \<or>
     \<not> limit_text (ap_limits approval) ''authenticated_session_id'' (fs_session_id session) \<or>
     \<not> limit_text (ap_limits approval) ''approval_event_digest'' (sw_event_digest w event) \<or>
     ap_evidence_digest approval \<noteq> sw_binding_digest w binding \<or>
     sw_action_digest w (ab_action binding) \<noteq> sw_action_digest w action"

definition validate_action_approval ::
    "store_world \<Rightarrow> approval_record \<times> action_binding option \<Rightarrow> project_charter \<Rightarrow> approval_event \<Rightarrow> approval_challenge
      \<Rightarrow> founder_session \<Rightarrow> proposed_action \<Rightarrow> string \<Rightarrow> unit result" where
  "validate_action_approval w stored charter event challenge session action timestamp =
     (let (approval, bound) = stored; a = sw_authority w; limits = ap_limits approval in
      case bound of None \<Rightarrow> raise PermissionError ''action approval binding is invalid''
      | Some binding \<Rightarrow>
        raise_if (approval_unbound approval charter event session action) PermissionError ''action approval binding is invalid''
        (bind_result (later_than a (fe_confirmed_at event) (fs_expires_at session)) (\<lambda>late.
         raise_if (late \<or> challenge_unbound w approval binding event challenge session action) PermissionError
           ''action approval binding is invalid''
         (bind_result (case ap_expires_at approval of None \<Rightarrow> ok False
             | Some s \<Rightarrow> bind_result (later_than a s timestamp) (\<lambda>later. ok (\<not> later))) (\<lambda>over.
          raise_if over PermissionError ''action approval is expired''
          (raise_if (\<not> limit_binds (map_of limits ''provider'') (pa_provider action) \<or>
              \<not> limit_binds (map_of limits ''tool'') (pa_tool action) \<or>
              \<not> limit_binds (map_of limits ''workspace'') (pa_workspace action) \<or>
              \<not> limit_binds (map_of limits ''repository'') (pa_repository action) \<or>
              \<not> limit_binds (map_of limits ''branch'') (pa_branch action) \<or>
              \<not> limit_binds (map_of limits ''action_id'') (Some (pa_action_id action))) PermissionError
            ''action approval limits do not match'' (ok ())))))))"

end
