(* ===== verification/Specialists.thy ===== *)
theory Specialists
  imports Planning_Properties "HOL-Library.List_Lexorder" "HOL-Library.Char_ord" "HOL-Library.Product_Lexorder"
begin

text \<open>
  Choosing specialists, giving them their assignment, and reviewing what they return
  (\<open>keeper/executive/specialists.py\<close>).  The gateway that runs a specialist and the readings of the clock are given.
\<close>

subsection \<open>Selection\<close>

definition ROLE_NAMES :: "(string \<times> string) list" where
  "ROLE_NAMES =
     [(''author'', ''builder''), (''implementer'', ''builder''), (''executive_builder'', ''builder''),
      (''executive_reviewer'', ''reviewer''), (''executive_post_repair_reviewer'', ''post_repair_reviewer'')]"

definition normalized_role :: "string \<Rightarrow> string" where
  "normalized_role role =
     (let raw_role = lower role in
      case map_of ROLE_NAMES raw_role of
        Some r \<Rightarrow> r
      | None \<Rightarrow>
          if contains_any raw_role [''review''] then ''reviewer''
          else if contains_any raw_role [''repair''] then ''repairer''
          else ''builder'')"

definition eligible_specialist ::
    "executive_task \<Rightarrow> project_charter \<Rightarrow> specialist_profile option \<Rightarrow> bool \<Rightarrow> string \<Rightarrow> specialist_profile \<Rightarrow> bool" where
  "eligible_specialist task charter author apart effort_level s \<longleftrightarrow>
     sl_qualified s \<and> sl_available s \<and> sl_credential_available s \<and>
     sl_provider_id s \<in> set (ch_approved_providers charter) \<and>
     set (sl_capabilities s) \<inter> set (et_required_capabilities task) \<noteq> {} \<and>
     (ch_project_type charter \<in> set (sl_project_types s) \<or> ''general'' \<in> set (sl_project_types s)) \<and>
     effort_level \<in> set (sl_effort_levels s) \<and>
     (sl_role_eligibility s = [] \<or> normalized_role (et_role task) \<in> set (sl_role_eligibility s)) \<and>
     (\<not> apart \<or> author = None \<or> sl_independence_identity s \<noteq> sl_independence_identity (the author))"

fun float_neg :: "py_float \<Rightarrow> py_float" where
  "float_neg (Fin x) = Fin (- x)"
| "float_neg NotANumber = NotANumber"
| "float_neg PosInf = NegInf"
| "float_neg NegInf = PosInf"

text \<open>
  \<open><\<close> of the sort keys: tuples are compared at the first place where they are not equal, and a
  not-a-number is equal to nothing.
\<close>

definition float_equal :: "py_float \<Rightarrow> py_float \<Rightarrow> bool" where
  "float_equal x y \<longleftrightarrow> x = y \<and> x \<noteq> NotANumber"

definition preferred :: "specialist_profile \<Rightarrow> specialist_profile \<Rightarrow> bool" where
  "preferred a b \<longleftrightarrow>
     (if sl_cost_tier a \<noteq> sl_cost_tier b then sl_cost_tier a < sl_cost_tier b
      else if \<not> float_equal (float_neg (sl_prior_success_rate a)) (float_neg (sl_prior_success_rate b))
      then float_less (float_neg (sl_prior_success_rate a)) (float_neg (sl_prior_success_rate b))
      else if sl_provider_id a \<noteq> sl_provider_id b then sl_provider_id a < sl_provider_id b
      else if sl_model_id a \<noteq> sl_model_id b then sl_model_id a < sl_model_id b
      else sl_session_id a < sl_session_id b)"

text \<open>\<open>min\<close>: the first of the least.\<close>

definition first_least :: "specialist_profile \<Rightarrow> specialist_profile list \<Rightarrow> specialist_profile" where
  "first_least s ss = foldl (\<lambda>best item. if preferred item best then item else best) s ss"

definition select_specialist ::
    "executive_task \<Rightarrow> project_charter \<Rightarrow> specialist_profile list \<Rightarrow> specialist_profile option \<Rightarrow> bool \<Rightarrow> string
      \<Rightarrow> specialist_profile option" where
  "select_specialist task charter candidates author apart effort_level =
     (case filter (eligible_specialist task charter author apart effort_level) candidates of
        [] \<Rightarrow> None | s # ss \<Rightarrow> Some (first_least s ss))"

subsection \<open>Assignments\<close>

record global_brief =
  gb_project_id :: string
  gb_charter_revision :: int
  gb_title :: string
  gb_purpose :: string
  gb_desired_outcome :: string
  gb_deliverables :: "string list"
  gb_constraints :: "string list"
  gb_non_goals :: "string list"
  gb_definitions :: "string list"

record task_guidance =
  tg_task_id :: string
  tg_role :: string
  tg_objective :: string
  tg_allowed_scope :: "string list"
  tg_prohibited_scope :: "string list"
  tg_required_tools :: "string list"
  tg_instructions :: "string list"
  tg_required_outputs :: "string list"
  tg_evidence_requirements :: "string list"
  tg_review_criteria :: "string list"
  tg_handoff_expectations :: "string list"

definition build_brief :: "project_charter \<Rightarrow> global_brief" where
  "build_brief charter =
     \<lparr>gb_project_id = ch_project_id charter, gb_charter_revision = ch_revision charter, gb_title = ch_title charter,
      gb_purpose = ch_purpose charter, gb_desired_outcome = ch_desired_outcome charter,
      gb_deliverables = ch_deliverables charter, gb_constraints = ch_constraints charter,
      gb_non_goals = ch_non_goals charter,
      gb_definitions =
        [''The active Project Charter is the authority boundary.'',
         ''Model output is untrusted until deterministic validation completes.'',
         ''Do not claim completion without the required evidence.'']\<rparr>"

definition build_guidance :: "executive_task \<Rightarrow> project_charter \<Rightarrow> task_guidance" where
  "build_guidance task charter =
     \<lparr>tg_task_id = et_task_id task, tg_role = et_role task, tg_objective = et_objective task,
      tg_allowed_scope = et_title task # ch_deliverables charter,
      tg_prohibited_scope = ch_non_goals charter @
        [''Changing the Project Charter'', ''Changing this assignment or role'',
         ''Granting tools, authority, or permissions'', ''Approving this output where independence is required''],
      tg_required_tools = ch_approved_tools charter, tg_instructions = et_instructions task,
      tg_required_outputs = et_expected_outputs task, tg_evidence_requirements = et_evidence_requirements task,
      tg_review_criteria = et_review_requirements task,
      tg_handoff_expectations =
        [''Return only scoped outputs and evidence references.'', ''Surface blockers and uncertainty explicitly.'']\<rparr>"

text \<open>A result; of its claims, which of them are true.\<close>

record specialist_result =
  sr_task_id :: string
  sr_provider_id :: string
  sr_model_id :: string
  sr_session_id :: string
  sr_status :: string
  sr_outputs :: "string list"
  sr_evidence :: "string list"
  sr_claims :: "string list"
  sr_requested_scope :: "string list"
  sr_requested_role :: string
  sr_verification :: "string list"

definition check_result :: "executive_task \<Rightarrow> specialist_result \<Rightarrow> project_charter \<Rightarrow> unit result" where
  "check_result task r charter =
     raise_if (sr_task_id r \<noteq> et_task_id task \<or> Some (sr_provider_id r) \<noteq> et_provider_id task \<or>
         Some (sr_model_id r) \<noteq> et_model_id task \<or> Some (sr_session_id r) \<noteq> et_session_id task)
       PermissionError ''specialist result identity does not match assignment''
     (raise_if (sr_requested_role r \<noteq> et_role task) PermissionError ''specialist attempted to alter its assigned role''
     (raise_if (\<not> set (sr_requested_scope r) \<subseteq> insert (et_title task) (set (ch_deliverables charter)))
       PermissionError ''specialist attempted to expand task scope''
     (raise_if (''charter_change'' \<in> set (sr_claims r) \<or> ''self_approved'' \<in> set (sr_claims r))
       PermissionError ''specialist attempted to grant itself authority''
     (raise_if (sr_status r = ''COMPLETED'' \<and>
         (\<not> set (et_expected_outputs task) \<subseteq> set (sr_outputs r) \<or> sr_evidence r = []))
       PermissionError ''specialist claimed completion without outputs and evidence'' (ok ())))))"

type_synonym specialist_gateway = "specialist_profile \<Rightarrow> global_brief \<Rightarrow> task_guidance \<Rightarrow> specialist_result result"

definition attempt_entry :: "string \<Rightarrow> specialist_profile \<Rightarrow> specialist_result \<Rightarrow> (string \<times> limit_value) list" where
  "attempt_entry utc_now s r =
     [(''provider_id'', LimitText (sl_provider_id s)), (''model_id'', LimitText (sl_model_id s)),
      (''session_id'', LimitText (sl_session_id s)), (''status'', LimitText (sr_status r)),
      (''outputs'', LimitOther), (''evidence'', LimitOther), (''recorded_at'', LimitText utc_now)]"

definition run_specialist ::
    "string \<Rightarrow> string \<Rightarrow> string \<Rightarrow> specialist_gateway \<Rightarrow> executive_task \<Rightarrow> project_charter \<Rightarrow> specialist_profile
      \<Rightarrow> (executive_task \<times> specialist_result) result" where
  "run_specialist started recorded returned gateway task charter s =
     raise_if (et_status task \<notin> {READY, REPAIR_REQUIRED}) PermissionError ''only ready or repair tasks may be assigned''
     (let assigned = task\<lparr>et_provider_id := Some (sl_provider_id s), et_model_id := Some (sl_model_id s),
            et_session_id := Some (sl_session_id s), et_status := RUNNING, et_updated_at := started\<rparr> in
      bind_result (gateway s (build_brief charter) (build_guidance assigned charter)) (\<lambda>r.
      bind_result (check_result assigned r charter) (\<lambda>_.
      ok (assigned\<lparr>et_status := REVIEW_REQUIRED,
            et_attempt_history := et_attempt_history assigned @ [attempt_entry recorded s r],
            et_updated_at := returned\<rparr>, r))))"

subsection \<open>Review\<close>

record review_result =
  rs_accepted :: bool
  rs_disposition :: string
  rs_failed_criteria :: "string list"
  rs_evidence :: "string list"
  rs_repair_instructions :: "string list"
  rs_review_policy :: string

definition requires_independent :: "executive_task \<Rightarrow> bool" where
  "requires_independent task \<longleftrightarrow> (\<exists>item\<in>set (et_review_requirements task). contains_any (lower item) [''independent''])"

definition failed_criteria :: "executive_task \<Rightarrow> specialist_result \<Rightarrow> string list \<Rightarrow> string list" where
  "failed_criteria task r deterministic_checks =
     (if set (et_expected_outputs task) \<subseteq> set (sr_outputs r) then [] else [''expected outputs are incomplete'']) @
     (if sr_evidence r = [] then [''required evidence is missing''] else []) @
     (if ''failed'' \<in> set deterministic_checks then [''deterministic verification failed''] else [])"

definition evaluate_review ::
    "executive_task \<Rightarrow> specialist_result \<Rightarrow> specialist_profile option \<Rightarrow> specialist_profile option \<Rightarrow> string list
      \<Rightarrow> review_result result" where
  "evaluate_review task r reviewer author deterministic_checks =
     raise_if (et_status task \<noteq> REVIEW_REQUIRED) PermissionError ''task is not ready for review''
     (if requires_independent task \<and> (reviewer = None \<or> author = None \<or>
          sl_independence_identity (the reviewer) = sl_independence_identity (the author))
      then ok \<lparr>rs_accepted = False, rs_disposition = ''INDEPENDENCE_REQUIRED'',
             rs_failed_criteria = [''independent reviewer identity is missing''], rs_evidence = [],
             rs_repair_instructions = [''Assign a qualified reviewer with an independent identity.''],
             rs_review_policy = ''INDEPENDENT_SPECIALIST''\<rparr>
      else (let failed = failed_criteria task r deterministic_checks in
        if failed \<noteq> [] then ok \<lparr>rs_accepted = False, rs_disposition = ''REPAIR_REQUIRED'', rs_failed_criteria = failed,
             rs_evidence = sr_evidence r @ deterministic_checks,
             rs_repair_instructions = map (\<lambda>item. ''Correct: '' @ item @ ''.'') failed, rs_review_policy = ''AUTOMATED''\<rparr>
        else ok \<lparr>rs_accepted = True, rs_disposition = ''ACCEPTED'', rs_failed_criteria = [],
             rs_evidence = sr_evidence r @ deterministic_checks, rs_repair_instructions = [],
             rs_review_policy = (if requires_independent task then ''INDEPENDENT_SPECIALIST'' else ''AUTOMATED'')\<rparr>))"

definition apply_review :: "string \<Rightarrow> executive_task \<Rightarrow> review_result \<Rightarrow> executive_task" where
  "apply_review utc_now task review =
     (if rs_accepted review then
        task\<lparr>et_status := TASK_COMPLETED, et_result_disposition := Some (rs_disposition review), et_updated_at := utc_now\<rparr>
      else if rs_disposition review = ''INDEPENDENCE_REQUIRED'' then
        task\<lparr>et_status := TASK_BLOCKED, et_result_disposition := Some (rs_disposition review), et_updated_at := utc_now\<rparr>
      else if et_max_retries task \<le> et_retry_count task then
        task\<lparr>et_status := TASK_FAILED, et_result_disposition := Some ''RETRY_LIMIT_EXCEEDED'', et_updated_at := utc_now\<rparr>
      else
        task\<lparr>et_status := REPAIR_REQUIRED, et_retry_count := et_retry_count task + 1,
             et_result_disposition := Some (rs_disposition review), et_updated_at := utc_now\<rparr>)"

record repair_request =
  rq_task_id :: string
  rq_failed_criteria :: "string list"
  rq_supporting_evidence :: "string list"
  rq_expected_corrections :: "string list"
  rq_preserve :: "string list"
  rq_remaining_retries :: int
  rq_repair_assignment :: string

definition request_repair ::
    "executive_task \<Rightarrow> review_result \<Rightarrow> string list \<Rightarrow> bool \<Rightarrow> repair_request result" where
  "request_repair task review preserve use_different_specialist =
     raise_if (rs_accepted review) ValueError ''accepted work does not need repair''
     (ok \<lparr>rq_task_id = et_task_id task, rq_failed_criteria = rs_failed_criteria review,
          rq_supporting_evidence = rs_evidence review, rq_expected_corrections = rs_repair_instructions review,
          rq_preserve = preserve, rq_remaining_retries = max (et_max_retries task - et_retry_count task) 0,
          rq_repair_assignment = (if use_different_specialist then ''different specialist'' else ''original specialist'')\<rparr>)"

subsection \<open>The choice is the best of the eligible\<close>

text \<open>The key as a value of a linear order, where the success rate is a number.\<close>

definition choice_key :: "specialist_profile \<Rightarrow> int \<times> rat \<times> string \<times> string \<times> string" where
  "choice_key s = (sl_cost_tier s, - (case sl_prior_success_rate s of Fin x \<Rightarrow> x | _ \<Rightarrow> 0), sl_provider_id s, sl_model_id s, sl_session_id s)"

definition rated :: "specialist_profile \<Rightarrow> bool" where
  "rated s \<longleftrightarrow> (\<exists>x. sl_prior_success_rate s = Fin x)"

lemma preferred_key: "rated a \<Longrightarrow> rated b \<Longrightarrow> preferred a b \<longleftrightarrow> choice_key a < choice_key b"
  by (auto simp: rated_def preferred_def choice_key_def float_equal_def)

lemma first_least_best:
  assumes "rated s" and "\<forall>t\<in>set ss. rated t"
  shows "first_least s ss \<in> set (s # ss) \<and> (\<forall>t\<in>set (s # ss). choice_key (first_least s ss) \<le> choice_key t)"
  using assms
proof (induction ss arbitrary: s)
  case (Cons t ss)
  show ?case
  proof (cases "preferred t s")
    case True
    with Cons.prems have "choice_key t < choice_key s" by (simp add: preferred_key)
    with Cons.IH [of t] Cons.prems True show ?thesis by (auto simp: first_least_def)
  next
    case False
    with Cons.prems have "choice_key s \<le> choice_key t" by (simp add: preferred_key not_less)
    with Cons.IH [of s] Cons.prems False show ?thesis by (auto simp: first_least_def)
  qed
qed (simp add: first_least_def)


subsection \<open>Choice and readiness\<close>

lemma eligible_reasons:
  assumes "eligible_specialist task charter author apart effort_level s"
  shows "specialist_reasons task charter s =
    (if set (et_required_capabilities task) \<subseteq> set (sl_capabilities s) then [] else [''assigned specialist lacks required capabilities''])"
  using assms by (auto simp: eligible_specialist_def specialist_reasons_def)

text \<open>
  The choice and the readiness check do not ask for the same capabilities: where a task needs several, a
  specialist with one of them is eligible, and when it comes first it is chosen; the readiness check then
  refuses it for the capabilities it lacks, although an eligible specialist with all of them was there.
\<close>

lemma choice_may_lack_capabilities:
  assumes "eligible_specialist task charter author apart effort_level a"
    and "eligible_specialist task charter author apart effort_level b"
    and "\<not> preferred b a"
    and "\<not> set (et_required_capabilities task) \<subseteq> set (sl_capabilities a)"
    and "set (et_required_capabilities task) \<subseteq> set (sl_capabilities b)"
  shows "select_specialist task charter [a, b] author apart effort_level = Some a \<and>
    specialist_reasons task charter a = [''assigned specialist lacks required capabilities''] \<and>
    specialist_reasons task charter b = []"
  using assms eligible_reasons [OF assms(1)] eligible_reasons [OF assms(2)]
  by (simp add: select_specialist_def first_least_def)

lemma selected_is_eligible:
  "select_specialist task charter candidates author apart effort_level = Some s \<Longrightarrow>
    s \<in> set candidates \<and> eligible_specialist task charter author apart effort_level s"
proof -
  have mem: "first_least x xs \<in> set (x # xs)" for x xs
    by (induction xs arbitrary: x) (auto simp: first_least_def)
  assume "select_specialist task charter candidates author apart effort_level = Some s"
  then obtain x xs where "filter (eligible_specialist task charter author apart effort_level) candidates = x # xs"
    and "s = first_least x xs" by (auto simp: select_specialist_def split: list.splits)
  with mem [of x xs] have "s \<in> set (filter (eligible_specialist task charter author apart effort_level) candidates)" by simp
  then show ?thesis by simp
qed

text \<open>
C30: Planner, selector and readiness check fit together: to a specialist chosen for a task of a generated
plan the readiness check has no objection: it is qualified, available, has its credentials and every
required capability, and its provider is one the charter approves.
\<close>

theorem chosen_specialists_fit_the_plan:
  assumes "plan_generate w project given = Inr (workflow, tasks)" and "task \<in> set tasks"
    and "select_specialist task charter candidates author apart effort_level = Some s"
  shows "s \<in> set candidates \<and> specialist_reasons task charter s = []"
proof -
  obtain charter' planned where
    plan: "plan_stages w project charter' 1 None None (strategy_for (ch_project_type charter')) = Inr planned"
    and tasks: "tasks = map snd planned"
    by (rule plan_generate_parts [OF assms(1)]) blast
  from assms(2) obtain i where "i < length planned" "task = snd (planned ! i)"
    by (auto simp: tasks in_set_conv_nth)
  with plan_stages_nth [OF plan] obtain index prior template
    where "template_task w project charter' index prior template = Inr task" by auto
  then have "et_required_capabilities task = [sg_capability template]"
    by (auto simp: template_task_def bind_result_Inr Let_def)
  with selected_is_eligible [OF assms(3)] show ?thesis
    by (auto simp: eligible_reasons) (auto simp: eligible_specialist_def)
qed

subsection \<open>Accepted work\<close>

text \<open>
C31: Work is accepted exactly when it awaits review, has every expected output and some evidence, no
deterministic check failed, and, where a review requirement asks for independence, a reviewer is named
whose identity is not the author's; and only accepted work completes a task.
\<close>

theorem accepted_work_is_complete:
  "(\<exists>review. evaluate_review task r reviewer author checks = Inr review \<and> et_status (apply_review utc_now task review) = TASK_COMPLETED)
   \<longleftrightarrow> et_status task = REVIEW_REQUIRED \<and> set (et_expected_outputs task) \<subseteq> set (sr_outputs r) \<and> sr_evidence r \<noteq> [] \<and>
      ''failed'' \<notin> set checks \<and>
      (requires_independent task \<longrightarrow> (\<exists>p q. reviewer = Some p \<and> author = Some q \<and>
         sl_independence_identity p \<noteq> sl_independence_identity q))"
proof -
  have "failed_criteria task r checks = [] \<longleftrightarrow> set (et_expected_outputs task) \<subseteq> set (sr_outputs r) \<and> sr_evidence r \<noteq> [] \<and> ''failed'' \<notin> set checks"
    by (auto simp: failed_criteria_def)
  then show ?thesis
    by (cases reviewer; cases author) (auto simp: evaluate_review_def apply_review_def Let_def)
qed

subsection \<open>Repair ends\<close>

text \<open>One round: a specialist runs, its result is reviewed, and the review is applied.\<close>

inductive review_round :: "project_charter \<Rightarrow> executive_task \<Rightarrow> executive_task \<Rightarrow> bool" for charter where
  round: "run_specialist started recorded ended gateway task charter s = Inr (returned, r) \<Longrightarrow>
    evaluate_review returned r reviewer author checks = Inr review \<Longrightarrow>
    review_round charter task (apply_review reviewed returned review)"

lemma review_round_effect:
  assumes "review_round charter t u"
  shows "et_status t \<in> {READY, REPAIR_REQUIRED} \<and> et_max_retries u = et_max_retries t \<and>
    (et_status u \<in> {TASK_COMPLETED, TASK_BLOCKED, TASK_FAILED} \<or>
     et_status u = REPAIR_REQUIRED \<and> et_retry_count u = et_retry_count t + 1 \<and> et_retry_count t < et_max_retries t)"
  using assms
  by cases (auto simp: run_specialist_def result_simps Let_def apply_review_def)

lemma rounds_bounded:
  assumes "(review_round charter ^^ n) t u"
  shows "int n \<le> max 0 (et_max_retries t - et_retry_count t) + 1 \<and> et_max_retries u = et_max_retries t \<and>
    (n = 0 \<or> et_status u \<in> {TASK_COMPLETED, TASK_BLOCKED, TASK_FAILED} \<or>
     et_status u = REPAIR_REQUIRED \<and> et_retry_count u = et_retry_count t + int n \<and> et_retry_count u \<le> et_max_retries t)"
  using assms
proof (induction n arbitrary: u)
  case (Suc n)
  then obtain m where m: "(review_round charter ^^ n) t m" "review_round charter m u" by auto
  note IH = Suc.IH [OF m(1)] and effect = review_round_effect [OF m(2)]
  show ?case
  proof (cases n)
    case 0
    with m effect show ?thesis by auto
  next
    case (Suc k)
    with IH effect have "et_status m = REPAIR_REQUIRED" "et_retry_count m = et_retry_count t + int n" by auto
    with IH effect Suc show ?thesis by auto
  qed
qed simp

text \<open>
C32: The repair of a task ends: whatever the specialists return and however they are reviewed, a task goes
through at most one round more than its remaining retries, and the last round it can go through leaves it
completed, blocked or failed.
\<close>

theorem repair_rounds_end:
  assumes "(review_round charter ^^ n) t u"
  shows "int n \<le> max 0 (et_max_retries t - et_retry_count t) + 1 \<and>
    (int n = max 0 (et_max_retries t - et_retry_count t) + 1 \<longrightarrow> et_status u \<in> {TASK_COMPLETED, TASK_BLOCKED, TASK_FAILED})"
  using rounds_bounded [OF assms] by auto

subsection \<open>Witnesses\<close>

definition EXAMPLE_AUTHOR :: specialist_profile where
  "EXAMPLE_AUTHOR = EXAMPLE_AGENT\<lparr>sl_project_types := [''general''], sl_effort_levels := [''medium''],
     sl_independence_identity := ''i1''\<rparr>"

definition EXAMPLE_REVIEWER :: specialist_profile where
  "EXAMPLE_REVIEWER = EXAMPLE_AUTHOR\<lparr>sl_session_id := ''s2'', sl_independence_identity := ''i2''\<rparr>"

definition EXAMPLE_WORK :: executive_task where
  "EXAMPLE_WORK = EXAMPLE_TASK\<lparr>et_required_capabilities := [''production''], et_expected_outputs := [''o''],
     et_review_requirements := [''Independent review'']\<rparr>"

definition EXAMPLE_RESULT :: specialist_result where
  "EXAMPLE_RESULT =
     \<lparr>sr_task_id = ''t1'', sr_provider_id = ''local'', sr_model_id = '''', sr_session_id = '''', sr_status = ''PARTIAL'',
      sr_outputs = [], sr_evidence = [''e''], sr_claims = [], sr_requested_scope = [''report''], sr_requested_role = '''',
      sr_verification = []\<rparr>"


theorem chosen_specialists_fit_the_plan_witness:
  "specialist_reasons (EXAMPLE_PLAN ! 0) EXAMPLE_CHARTER EXAMPLE_AUTHOR = []"
proof -
  obtain workflow where plan: "plan_generate EXAMPLE_PLANNER EXAMPLE_PROJECT EXAMPLE_CHARTER = Inr (workflow, EXAMPLE_PLAN)"
    and length: "length EXAMPLE_PLAN = 3" by (rule example_plan)
  have "select_specialist (EXAMPLE_PLAN ! 0) EXAMPLE_CHARTER [EXAMPLE_AUTHOR] None False ''medium'' = Some EXAMPLE_AUTHOR"
    by code_simp
  with chosen_specialists_fit_the_plan [OF plan nth_mem] length show ?thesis by fastforce
qed

theorem accepted_work_is_complete_witness:
  "\<not> (\<exists>review. evaluate_review (EXAMPLE_WORK\<lparr>et_status := REVIEW_REQUIRED\<rparr>) (EXAMPLE_RESULT\<lparr>sr_outputs := [''o'']\<rparr>)
       (Some EXAMPLE_AUTHOR) (Some EXAMPLE_AUTHOR) [''passed''] = Inr review \<and>
     et_status (apply_review ''t'' (EXAMPLE_WORK\<lparr>et_status := REVIEW_REQUIRED\<rparr>) review) = TASK_COMPLETED) \<and>
   (\<exists>review. evaluate_review (EXAMPLE_WORK\<lparr>et_status := REVIEW_REQUIRED\<rparr>) (EXAMPLE_RESULT\<lparr>sr_outputs := [''o'']\<rparr>)
       (Some EXAMPLE_REVIEWER) (Some EXAMPLE_AUTHOR) [''passed''] = Inr review \<and>
     et_status (apply_review ''t'' (EXAMPLE_WORK\<lparr>et_status := REVIEW_REQUIRED\<rparr>) review) = TASK_COMPLETED)"
proof -
  have "requires_independent (EXAMPLE_WORK\<lparr>et_status := REVIEW_REQUIRED\<rparr>)" by code_simp
  then show ?thesis
    unfolding accepted_work_is_complete
    by (simp add: EXAMPLE_WORK_def EXAMPLE_TASK_def EXAMPLE_RESULT_def EXAMPLE_AUTHOR_def EXAMPLE_REVIEWER_def)
qed

definition EXAMPLE_ROUND :: "executive_task \<Rightarrow> executive_task" where
  "EXAMPLE_ROUND task =
     (let (returned, r) = projr (run_specialist ''1'' ''2'' ''3'' (\<lambda>s brief guidance. ok EXAMPLE_RESULT) task EXAMPLE_CHARTER EXAMPLE_AUTHOR)
      in apply_review ''4'' returned (projr (evaluate_review returned r (Some EXAMPLE_REVIEWER) (Some EXAMPLE_AUTHOR) [])))"

lemma example_round:
  assumes "\<not> isl (run_specialist ''1'' ''2'' ''3'' (\<lambda>s brief guidance. ok EXAMPLE_RESULT) task EXAMPLE_CHARTER EXAMPLE_AUTHOR)"
  shows "review_round EXAMPLE_CHARTER task (EXAMPLE_ROUND task)"
proof -
  from assms obtain returned r where run:
    "run_specialist ''1'' ''2'' ''3'' (\<lambda>s brief guidance. ok EXAMPLE_RESULT) task EXAMPLE_CHARTER EXAMPLE_AUTHOR = Inr (returned, r)"
    by (cases "run_specialist ''1'' ''2'' ''3'' (\<lambda>s brief guidance. ok EXAMPLE_RESULT) task EXAMPLE_CHARTER EXAMPLE_AUTHOR") auto
  then have "et_status returned = REVIEW_REQUIRED" by (auto simp: run_specialist_def result_simps Let_def)
  then obtain review where
    review: "evaluate_review returned r (Some EXAMPLE_REVIEWER) (Some EXAMPLE_AUTHOR) [] = Inr review"
    by (cases "evaluate_review returned r (Some EXAMPLE_REVIEWER) (Some EXAMPLE_AUTHOR) []")
      (auto simp: evaluate_review_def result_simps raise_if_def Let_def split: if_splits)
  from review_round.round [OF run review, of "''4''"] run review show ?thesis by (simp add: EXAMPLE_ROUND_def)
qed

theorem repair_rounds_end_witness:
  "et_status (EXAMPLE_ROUND (EXAMPLE_ROUND EXAMPLE_WORK)) \<in> {TASK_COMPLETED, TASK_BLOCKED, TASK_FAILED}"
proof -
  have "\<not> isl (run_specialist ''1'' ''2'' ''3'' (\<lambda>s brief guidance. ok EXAMPLE_RESULT) EXAMPLE_WORK EXAMPLE_CHARTER EXAMPLE_AUTHOR)"
    by code_simp
  moreover have "\<not> isl (run_specialist ''1'' ''2'' ''3'' (\<lambda>s brief guidance. ok EXAMPLE_RESULT) (EXAMPLE_ROUND EXAMPLE_WORK)
      EXAMPLE_CHARTER EXAMPLE_AUTHOR)" by code_simp
  ultimately have "(review_round EXAMPLE_CHARTER ^^ 2) EXAMPLE_WORK (EXAMPLE_ROUND (EXAMPLE_ROUND EXAMPLE_WORK))"
    using example_round by (auto simp: numeral_2_eq_2)
  from repair_rounds_end [OF this] show ?thesis by (simp add: EXAMPLE_WORK_def EXAMPLE_TASK_def)
qed

end
