(* ===== verification/Execution_Store.thy ===== *)
theory Execution_Store
  imports Executive_Store Specialists
begin

text \<open>
  Claims of launches in the executive's repository (\<open>keeper/executive/repository.py\<close>): a task is claimed with
  its approval and its budget, moved through its execution, released, paused, completed and reviewed, and a
  project is cancelled or loses its delegation.  Every operation is one transaction.
\<close>

subsection \<open>Budgets\<close>

text \<open>\<open>Decimal(str(x))\<close> of a float, and of a value of an approval's limits where it is a number.\<close>

fun float_decimal :: "py_float \<Rightarrow> py_float" where
  "float_decimal (Fin x) = Fin (float_repr x)"
| "float_decimal x = x"

definition text_decimal :: "string \<Rightarrow> py_float option" where
  "text_decimal s =
     (case parse_decimal (strip s) of
        None \<Rightarrow> None
      | Some (Finite x) \<Rightarrow> Some (Fin x)
      | Some NaN \<Rightarrow> Some NotANumber
      | Some Infinite \<Rightarrow> Some (if fst (split_sign (filter (\<lambda>c. c \<noteq> CHR ''_'') (strip s))) then NegInf else PosInf))"

fun limit_decimal :: "limit_value option \<Rightarrow> py_float option" where
  "limit_decimal (Some (LimitNumber x)) = Some (float_decimal x)"
| "limit_decimal (Some (LimitText s)) = text_decimal s"
| "limit_decimal _ = None"

definition spending_action :: "proposed_action \<Rightarrow> bool" where
  "spending_action action \<longleftrightarrow> pa_spending action \<or>
     (case pa_cost action of None \<Rightarrow> True | Some c \<Rightarrow> float_less (Fin 0) c)"

fun minor_amount :: "py_float \<Rightarrow> int result" where
  "minor_amount (Fin x) =
     (let y = dmul (float_repr x) 100
      in raise_if (y \<noteq> of_int \<lfloor>y\<rfloor>) PermissionError ''spending amount has unsupported precision'' (ok \<lfloor>y\<rfloor>))"
| "minor_amount NotANumber = raise PermissionError ''spending amount has unsupported precision''"
| "minor_amount _ = raise OverflowError ''cannot convert Infinity to integer''"

definition minor_limit :: "project_charter \<Rightarrow> py_float \<Rightarrow> int result" where
  "minor_limit charter approval_limit =
     (let budget = float_decimal (ch_budget_limit charter);
          envelope = float_decimal (ae_maximum_cost (ch_authority_envelope charter))
      in raise_if (NotANumber \<in> {budget, envelope, approval_limit}) InvalidOperation ''comparison involving NaN''
         (case float_min (float_min budget envelope) approval_limit of
            Fin x \<Rightarrow> ok (trunc_rat (dmul x 100))
          | _ \<Rightarrow> raise OverflowError ''cannot convert Infinity to integer''))"

definition HELD :: "string list" where
  "HELD = [''RESERVED'', ''CROSSED'']"

definition held_amount :: "string \<Rightarrow> string \<Rightarrow> int \<Rightarrow> string \<Rightarrow> budget_reservation list \<Rightarrow> int" where
  "held_amount project_id charter_id charter_revision cur rs =
     (\<Sum>r\<leftarrow>filter (\<lambda>r. br_project_id r = project_id \<and> br_charter_id r = charter_id \<and>
        br_charter_revision r = charter_revision \<and> br_currency r = cur \<and> br_state r \<in> set HELD) rs. br_amount_minor r)"

definition reserve_budget ::
    "string \<Rightarrow> project_charter \<Rightarrow> approval_record \<Rightarrow> proposed_action \<Rightarrow> string option \<Rightarrow> string
      \<Rightarrow> budget_reservation list \<Rightarrow> (string option \<times> budget_reservation list) result" where
  "reserve_budget fresh charter approval action task_id timestamp rs =
     (if \<not> spending_action action then ok (None, rs)
      else case pa_cost action of None \<Rightarrow> raise PermissionError ''unknown action cost fails closed''
      | Some cost \<Rightarrow>
        raise_if (pa_currency action = None \<or> pa_currency action \<noteq> ae_currency (ch_authority_envelope charter) \<or>
            \<not> limit_text (ap_limits approval) ''currency'' (the (pa_currency action))) PermissionError
          ''spending currency is not explicitly approved''
        (bind_result (minor_amount cost) (\<lambda>amount.
         case limit_decimal (map_of (ap_limits approval) ''maximum_cost'') of
           None \<Rightarrow> raise PermissionError ''spending approval limit is invalid''
         | Some approval_limit \<Rightarrow>
           raise_if (amount \<le> 0) PermissionError ''spending reservation must be positive''
           (bind_result (minor_limit charter approval_limit) (\<lambda>limit_minor.
            raise_if (limit_minor < held_amount (pa_project_id action) (ch_charter_id charter) (ch_revision charter)
                (the (pa_currency action)) rs + amount) PermissionError
              ''cumulative spending would exceed the approved limit''
            (raise_if (\<exists>r\<in>set rs. br_reservation_id r = fresh \<or> br_action_id r = pa_action_id action) PermissionError
              ''spending action already has a reservation''
            (ok (Some fresh, \<lparr>br_reservation_id = fresh, br_project_id = pa_project_id action,
               br_charter_id = ch_charter_id charter, br_charter_revision = ch_revision charter,
               br_approval_id = ap_approval_id approval, br_action_id = pa_action_id action, br_task_id = task_id,
               br_amount_minor = amount, br_currency = the (pa_currency action), br_state = ''RESERVED'',
               br_reserved_at = timestamp\<rparr> # rs))))))))"

text \<open>\<open>UPDATE ... SET state=? WHERE reservation_id=? AND state IN (...)\<close>\<close>

definition set_hold :: "string \<Rightarrow> string \<Rightarrow> string list \<Rightarrow> budget_reservation list \<Rightarrow> budget_reservation list" where
  "set_hold reservation_id target from_states rs =
     map (\<lambda>r. if br_reservation_id r = reservation_id \<and> br_state r \<in> set from_states then r\<lparr>br_state := target\<rparr> else r) rs"

definition holds_in :: "string \<Rightarrow> string list \<Rightarrow> budget_reservation list \<Rightarrow> bool" where
  "holds_in reservation_id from_states rs \<longleftrightarrow> (\<exists>r\<in>set rs. br_reservation_id r = reservation_id \<and> br_state r \<in> set from_states)"

definition mark_budget_boundary :: "string \<Rightarrow> executive_store \<Rightarrow> executive_store result" where
  "mark_budget_boundary reservation_id st =
     raise_if (\<not> holds_in reservation_id [''RESERVED''] (xs_reservations st)) PermissionError
       ''budget reservation is not crossable''
     (ok (st\<lparr>xs_reservations := set_hold reservation_id ''CROSSED'' [''RESERVED''] (xs_reservations st)\<rparr>))"

definition release_budget_reservation :: "string \<Rightarrow> executive_store \<Rightarrow> executive_store result" where
  "release_budget_reservation reservation_id st =
     raise_if (\<not> holds_in reservation_id [''RESERVED''] (xs_reservations st)) PermissionError
       ''crossed or missing budget reservation cannot be released''
     (ok (st\<lparr>xs_reservations := set_hold reservation_id ''RELEASED'' [''RESERVED''] (xs_reservations st)\<rparr>))"

subsection \<open>Consuming an approval\<close>

definition consume_once ::
    "proposed_action \<Rightarrow> string \<Rightarrow> string option \<Rightarrow> string \<Rightarrow> approval_record \<times> action_binding option \<Rightarrow> executive_store
      \<Rightarrow> (approval_record \<times> executive_store) result" where
  "consume_once action approval_id task_id timestamp stored st =
     (let (approval, binding) = stored; consumed = approval\<lparr>ap_consumed_at := Some timestamp\<rparr> in
      if ap_kind approval \<noteq> ONE_TIME then ok (approval, st)
      else raise_if (\<exists>c\<in>set (xs_consumptions st). ac_approval_id c = approval_id \<or> ac_action_id c = pa_action_id action)
          PermissionError ''one-time approval was already consumed''
        (ok (consumed, st\<lparr>xs_approvals := put_row approval_id (consumed, binding) (xs_approvals st),
           xs_consumptions := \<lparr>ac_approval_id = approval_id, ac_project_id = pa_project_id action,
             ac_charter_id = ap_charter_id approval, ac_charter_revision = pa_charter_revision action,
             ac_action_id = pa_action_id action, ac_task_id = task_id, ac_consumed_at = timestamp\<rparr> # xs_consumptions st\<rparr>)))"

definition consume_action_authority ::
    "store_world \<Rightarrow> string \<Rightarrow> proposed_action \<Rightarrow> string \<Rightarrow> string option \<Rightarrow> string \<Rightarrow> executive_store
      \<Rightarrow> ((approval_record \<times> string option) \<times> executive_store) result" where
  "consume_action_authority w fresh action approval_id task_id timestamp st =
     bind_result (entity ''executive_approvals'' (xs_approvals st) approval_id) (\<lambda>(approval, binding).
     bind_result (charter_of st (ap_charter_id approval)) (\<lambda>charter.
     bind_result (entity ''executive_founder_approval_events'' (xs_events st) (ap_source_interaction_id approval)) (\<lambda>event.
     bind_result (entity ''executive_founder_approval_challenges'' (xs_challenges st) (fe_challenge_id event)) (\<lambda>challenge.
     bind_result (entity ''executive_founder_authenticated_sessions'' (xs_sessions st) (fe_authenticated_session_id event))
       (\<lambda>session.
     bind_result (validate_action_approval w (approval, binding) charter event challenge session action timestamp) (\<lambda>_.
     bind_result (consume_once action approval_id task_id timestamp (approval, binding) st) (\<lambda>(consumed, st1).
     bind_result (reserve_budget fresh charter approval action task_id timestamp (xs_reservations st1)) (\<lambda>(reservation_id, rs).
     ok ((consumed, reservation_id), st1\<lparr>xs_reservations := rs\<rparr>)))))))))"

definition reserve_action_authority ::
    "store_world \<Rightarrow> string \<Rightarrow> string \<Rightarrow> proposed_action \<Rightarrow> string \<Rightarrow> string option \<Rightarrow> executive_store
      \<Rightarrow> ((approval_record \<times> string option) \<times> executive_store) result" where
  "reserve_action_authority w fresh timestamp action approval_id task_id st =
     raise_if (pa_trusted_source action \<noteq> ''DURABLE_WORKFLOW_TASK'') PermissionError
       ''caller-classified action facts are not consumable''
     (consume_action_authority w fresh action approval_id task_id timestamp st)"

subsection \<open>Claims\<close>

definition history_entry :: "(string \<times> string) list \<Rightarrow> (string \<times> limit_value) list" where
  "history_entry kvs = map (\<lambda>(k, v). (k, LimitText v)) kvs"

definition put_task :: "executive_task \<Rightarrow> executive_store \<Rightarrow> executive_store" where
  "put_task task st = st\<lparr>xs_tasks := put_row (et_task_id task) task (xs_tasks st)\<rparr>"

definition put_attempt :: "string \<Rightarrow> execution_attempt \<Rightarrow> executive_store \<Rightarrow> executive_store" where
  "put_attempt attempt_id attempt st = st\<lparr>xs_attempts := put_row attempt_id attempt (xs_attempts st)\<rparr>"

definition attempt_of :: "executive_store \<Rightarrow> string \<Rightarrow> execution_attempt result" where
  "attempt_of st = entity ''executive_execution_attempts'' (xs_attempts st)"

text \<open>Is the task still as the plan was made for, and may its project launch it?\<close>

definition claim_stale :: "int \<Rightarrow> execution_plan \<Rightarrow> executive_task \<Rightarrow> bool" where
  "claim_stale expected_revision plan task \<longleftrightarrow>
     et_revision task \<noteq> expected_revision \<or> et_status task \<notin> {READY, REPAIR_REQUIRED} \<or>
     et_authority_attempt_id task \<noteq> None \<or> xp_project_id plan \<noteq> et_project_id task \<or>
     xp_charter_id plan \<noteq> et_charter_id task \<or> xp_charter_revision plan \<noteq> et_charter_revision task \<or>
     xp_workflow_id plan \<noteq> et_workflow_id task \<or> xp_task_id plan \<noteq> et_task_id task \<or>
     xp_task_revision plan \<noteq> et_revision task"

definition launchable :: "executive_task \<Rightarrow> project_record \<Rightarrow> project_charter \<Rightarrow> bool" where
  "launchable task project charter \<longleftrightarrow>
     pr_state project = EXECUTING \<and> pr_active_charter_id project = Some (et_charter_id task) \<and>
     pr_active_charter_revision project = Some (et_charter_revision task) \<and> ch_status charter = CS_ACTIVE"

definition claim_authority ::
    "store_world \<Rightarrow> string \<Rightarrow> string \<Rightarrow> proposed_action \<Rightarrow> string option \<Rightarrow> string \<Rightarrow> executive_store
      \<Rightarrow> (string option \<times> executive_store) result" where
  "claim_authority w fresh timestamp action approval_id task_id st =
     (case approval_id of
        Some i \<Rightarrow> bind_result (consume_action_authority w fresh action i (Some task_id) timestamp st)
          (\<lambda>((_, reservation_id), st1). ok (reservation_id, st1))
      | None \<Rightarrow> raise_if (spending_action action) PermissionError ''spending claim lacks a bound action approval''
          (ok (None, st)))"

definition claimed_task :: "string \<Rightarrow> execution_plan \<Rightarrow> executive_task \<Rightarrow> executive_task" where
  "claimed_task timestamp plan task =
     task\<lparr>et_provider_id := Some (xp_provider_id plan), et_model_id := Some (xp_model_id plan),
       et_session_id := Some (xp_session_id plan), et_status := LAUNCH_CLAIMED,
       et_authority_attempt_id := Some (xp_authority_attempt_id plan), et_revision := et_revision task + 1,
       et_attempt_history := et_attempt_history task @ [history_entry
         [(''authority_attempt_id'', xp_authority_attempt_id plan), (''state'', ''LAUNCH_CLAIMED''), (''recorded_at'', timestamp)]],
       et_updated_at := timestamp\<rparr>"

definition claim_attempt ::
    "string \<Rightarrow> execution_plan \<Rightarrow> proposed_action \<Rightarrow> string option \<Rightarrow> string option \<Rightarrow> execution_attempt" where
  "claim_attempt timestamp plan action approval_id reservation_id =
     \<lparr>xa_plan = plan, xa_state = ''LAUNCH_CLAIMED'', xa_created_at = timestamp, xa_updated_at = timestamp,
      xa_completion_digest = None, xa_artifact_digest = None, xa_action_id = pa_action_id action,
      xa_approval_id = approval_id, xa_budget_reservation_id = reservation_id, xa_artifact_identity = None,
      xa_artifact_files = None, xa_evidence_digest = None\<rparr>"

definition claim_execution ::
    "store_world \<Rightarrow> string \<Rightarrow> string \<Rightarrow> string \<Rightarrow> int \<Rightarrow> execution_plan \<Rightarrow> proposed_action \<Rightarrow> string option
      \<Rightarrow> executive_store \<Rightarrow> (executive_task \<times> executive_store) result" where
  "claim_execution w fresh timestamp task_id expected_revision plan action approval_id st =
     bind_result (task_of st task_id) (\<lambda>task.
     raise_if (claim_stale expected_revision plan task) PermissionError ''task execution claim is stale or misbound''
     (bind_result (project_of st (et_project_id task)) (\<lambda>project.
      bind_result (charter_of st (et_charter_id task)) (\<lambda>charter.
      raise_if (\<not> launchable task project charter) PermissionError ''project is not launchable''
      (raise_if (pa_project_id action \<noteq> et_project_id task \<or> pa_charter_revision action \<noteq> et_charter_revision task \<or>
          pa_trusted_source action \<noteq> ''DURABLE_WORKFLOW_TASK'') PermissionError ''execution claim action facts are misbound''
      (bind_result (claim_authority w fresh timestamp action approval_id (et_task_id task) st) (\<lambda>(reservation_id, st1).
       bind_result (insert_entity ''executive_execution_attempts'' (xp_authority_attempt_id plan)
          (claim_attempt timestamp plan action approval_id reservation_id) (xs_attempts st1)) (\<lambda>attempts.
       ok (claimed_task timestamp plan task, put_task (claimed_task timestamp plan task) (st1\<lparr>xs_attempts := attempts\<rparr>))))))))))"

definition transition_execution ::
    "string \<Rightarrow> string \<Rightarrow> int \<Rightarrow> executive_task_status \<Rightarrow> executive_task_status \<Rightarrow> string \<Rightarrow> executive_store
      \<Rightarrow> (executive_task \<times> executive_store) result" where
  "transition_execution timestamp task_id expected_revision expected_status target_status attempt_state st =
     bind_result (task_of st task_id) (\<lambda>task.
     case et_authority_attempt_id task of None \<Rightarrow> raise PermissionError ''execution transition is stale''
     | Some attempt_id \<Rightarrow>
       raise_if (et_revision task \<noteq> expected_revision \<or> et_status task \<noteq> expected_status \<or>
           target_status \<notin> set (task_transitions expected_status)) PermissionError ''execution transition is stale''
       (bind_result (attempt_of st attempt_id) (\<lambda>attempt.
        let updated = task\<lparr>et_status := target_status, et_revision := et_revision task + 1, et_updated_at := timestamp\<rparr>
        in ok (updated, put_task updated
             (put_attempt attempt_id (attempt\<lparr>xa_state := attempt_state, xa_updated_at := timestamp\<rparr>) st)))))"

definition restore_once ::
    "executive_task \<Rightarrow> execution_attempt \<Rightarrow> string \<Rightarrow> approval_record \<times> action_binding option \<Rightarrow> executive_store
      \<Rightarrow> executive_store result" where
  "restore_once task attempt approval_id stored st =
     (if ap_kind (fst stored) \<noteq> ONE_TIME then ok st
      else raise_if (case find (\<lambda>c. ac_approval_id c = approval_id) (xs_consumptions st) of
          None \<Rightarrow> True
        | Some c \<Rightarrow> ac_task_id c \<noteq> Some (et_task_id task) \<or> ac_action_id c \<noteq> xa_action_id attempt) PermissionError
          ''one-time approval consumption is not releasable''
        (ok (st\<lparr>xs_consumptions := filter (\<lambda>c. ac_approval_id c \<noteq> approval_id) (xs_consumptions st),
           xs_approvals := put_row approval_id ((fst stored)\<lparr>ap_consumed_at := None\<rparr>, snd stored) (xs_approvals st)\<rparr>)))"

definition restore_approval :: "executive_task \<Rightarrow> execution_attempt \<Rightarrow> executive_store \<Rightarrow> executive_store result" where
  "restore_approval task attempt st =
     (case xa_approval_id attempt of None \<Rightarrow> ok st
      | Some approval_id \<Rightarrow>
        bind_result (entity ''executive_approvals'' (xs_approvals st) approval_id) (\<lambda>stored.
        restore_once task attempt approval_id stored st))"

definition released_task :: "string \<Rightarrow> string \<Rightarrow> executive_task \<Rightarrow> executive_task" where
  "released_task timestamp attempt_id task =
     task\<lparr>et_provider_id := None, et_model_id := None, et_session_id := None, et_status := READY,
       et_authority_attempt_id := None, et_revision := et_revision task + 1,
       et_result_disposition := Some ''PRELAUNCH_AUTHORITY_RELEASED'',
       et_attempt_history := et_attempt_history task @ [history_entry
         [(''authority_attempt_id'', attempt_id), (''state'', ''PRELAUNCH_RELEASED''), (''recorded_at'', timestamp)]],
       et_updated_at := timestamp\<rparr>"

definition release_hold :: "string option \<Rightarrow> executive_store \<Rightarrow> executive_store result" where
  "release_hold reservation st =
     (case reservation of None \<Rightarrow> ok st
      | Some reservation_id \<Rightarrow>
          raise_if (\<not> holds_in reservation_id [''RESERVED''] (xs_reservations st)) PermissionError
            ''budget hold is not releasable''
          (ok (st\<lparr>xs_reservations := set_hold reservation_id ''RELEASED'' [''RESERVED''] (xs_reservations st)\<rparr>)))"

definition release_prelaunch_claim ::
    "string \<Rightarrow> string \<Rightarrow> int \<Rightarrow> executive_store \<Rightarrow> (executive_task \<times> executive_store) result" where
  "release_prelaunch_claim timestamp task_id expected_revision st =
     bind_result (task_of st task_id) (\<lambda>task.
     case et_authority_attempt_id task of None \<Rightarrow> raise PermissionError ''prelaunch claim release is stale''
     | Some attempt_id \<Rightarrow>
       raise_if (et_revision task \<noteq> expected_revision \<or> et_status task \<noteq> LAUNCH_CLAIMED) PermissionError
         ''prelaunch claim release is stale''
       (bind_result (attempt_of st attempt_id) (\<lambda>attempt.
        raise_if (xa_state attempt \<noteq> ''LAUNCH_CLAIMED'') PermissionError ''launch boundary was already crossed''
        (bind_result (release_hold (xa_budget_reservation_id attempt) st) (\<lambda>st1.
         bind_result (restore_approval task attempt st1) (\<lambda>st2.
         ok (released_task timestamp attempt_id task, put_task (released_task timestamp attempt_id task)
              (put_attempt attempt_id (attempt\<lparr>xa_state := ''PRELAUNCH_RELEASED'', xa_updated_at := timestamp\<rparr>) st2))))))))"

definition waiting_task :: "string \<Rightarrow> string \<Rightarrow> string \<Rightarrow> executive_task \<Rightarrow> executive_task" where
  "waiting_task timestamp attempt_id reason task =
     task\<lparr>et_status := WAITING, et_result_disposition := Some ''AUTHORITY_WAITING_FOR_USAGE_RESET'',
       et_revision := et_revision task + 1,
       et_attempt_history := et_attempt_history task @ [history_entry
         [(''authority_attempt_id'', attempt_id), (''state'', ''WAITING_FOR_USAGE_RESET''), (''reason'', reason),
          (''recorded_at'', timestamp)]],
       et_updated_at := timestamp\<rparr>"

definition drop_hold :: "string option \<Rightarrow> executive_store \<Rightarrow> executive_store" where
  "drop_hold reservation st =
     (case reservation of None \<Rightarrow> st
      | Some reservation_id \<Rightarrow> st\<lparr>xs_reservations := set_hold reservation_id ''RELEASED'' HELD (xs_reservations st)\<rparr>)"

definition wait_for_usage ::
    "string \<Rightarrow> string \<Rightarrow> int \<Rightarrow> string \<Rightarrow> executive_store \<Rightarrow> (executive_task \<times> executive_store) result" where
  "wait_for_usage timestamp task_id expected_revision reason st =
     bind_result (task_of st task_id) (\<lambda>task.
     case et_authority_attempt_id task of None \<Rightarrow> raise PermissionError ''usage-wait transition is stale''
     | Some attempt_id \<Rightarrow>
       raise_if (et_revision task \<noteq> expected_revision \<or> et_status task \<notin> {EXECUTION_STARTED, RUNNING, UNCERTAIN})
         PermissionError ''usage-wait transition is stale''
       (bind_result (attempt_of st attempt_id) (\<lambda>attempt.
        raise_if (\<not> xp_subscription_contract (xa_plan attempt)) PermissionError
          ''usage-wait release is limited to included subscriptions''
        (ok (waiting_task timestamp attempt_id reason task, put_task (waiting_task timestamp attempt_id reason task)
              (put_attempt attempt_id (attempt\<lparr>xa_state := ''WAITING_FOR_USAGE_RESET'', xa_updated_at := timestamp\<rparr>)
                (drop_hold (xa_budget_reservation_id attempt) st)))))))"

subsection \<open>Completions\<close>

text \<open>\<open>str(terminal or "UNCERTAIN")\<close>\<close>

definition terminal_state :: "execution_result \<Rightarrow> string" where
  "terminal_state r = (if xr_terminal_disposition r = [] then ''UNCERTAIN'' else xr_terminal_disposition r)"

definition record_late :: "string \<Rightarrow> late_result \<Rightarrow> executive_store \<Rightarrow> executive_store" where
  "record_late late_id late st =
     (case insert_entity ''executive_late_results'' late_id late (xs_late_results st) of
        Inl _ \<Rightarrow> st | Inr lates \<Rightarrow> st\<lparr>xs_late_results := lates\<rparr>)"

definition late_task :: "string \<Rightarrow> executive_task \<Rightarrow> executive_task" where
  "late_task timestamp task = task\<lparr>et_late_result := True, et_revision := et_revision task + 1, et_updated_at := timestamp\<rparr>"

definition completion_task :: "string \<Rightarrow> executive_task_status \<Rightarrow> string \<Rightarrow> (string \<times> string) list \<Rightarrow> executive_task \<Rightarrow> executive_task" where
  "completion_task timestamp status disposition entry task =
     task\<lparr>et_status := status, et_result_disposition := Some disposition, et_revision := et_revision task + 1,
       et_attempt_history := et_attempt_history task @ [history_entry entry], et_updated_at := timestamp\<rparr>"

definition failed_completion ::
    "string \<Rightarrow> execution_result \<Rightarrow> executive_task \<Rightarrow> execution_attempt \<Rightarrow> executive_task \<times> execution_attempt" where
  "failed_completion timestamp r task attempt =
     (completion_task timestamp
        (if xr_terminal_disposition r = ''CANCELED'' then TASK_CANCELED
         else if xr_terminal_disposition r = ''WAITING_FOR_USAGE_RESET'' then WAITING else TASK_FAILED)
        (''AUTHORITY_'' @ terminal_state r)
        [(''authority_attempt_id'', xr_authority_attempt_id r), (''state'', terminal_state r),
         (''completion_digest'', xr_completion_digest r), (''recorded_at'', timestamp)] task,
      attempt\<lparr>xa_state := terminal_state r, xa_completion_digest := Some (xr_completion_digest r),
        xa_evidence_digest := Some (xr_evidence_digest r), xa_updated_at := timestamp\<rparr>)"

definition successful_completion ::
    "string \<Rightarrow> execution_result \<Rightarrow> executive_task \<Rightarrow> execution_attempt \<Rightarrow> executive_task \<times> execution_attempt" where
  "successful_completion timestamp r task attempt =
     ((completion_task timestamp REVIEW_REQUIRED ''AUTHORITY_COMPLETED''
        [(''authority_attempt_id'', xr_authority_attempt_id r), (''state'', ''COMPLETED''),
         (''artifact_digest'', the (xr_artifact_digest r)), (''completion_digest'', xr_completion_digest r),
         (''recorded_at'', timestamp)] task)\<lparr>et_artifact_digest := xr_artifact_digest r\<rparr>,
      attempt\<lparr>xa_state := ''COMPLETED'', xa_completion_digest := Some (xr_completion_digest r),
        xa_artifact_digest := xr_artifact_digest r, xa_artifact_identity := xr_artifact_identity r,
        xa_artifact_files := Some (xr_artifact_files r), xa_evidence_digest := Some (xr_evidence_digest r),
        xa_updated_at := timestamp\<rparr>)"

definition import_completion ::
    "string \<Rightarrow> execution_result \<Rightarrow> executive_task \<Rightarrow> execution_attempt \<Rightarrow> (executive_task \<times> execution_attempt) result" where
  "import_completion timestamp r task attempt =
     (if xr_terminal_disposition r \<noteq> ''SUCCEEDED'' then ok (failed_completion timestamp r task attempt)
      else raise_if ((case xr_artifact_digest r of None \<Rightarrow> True | Some d \<Rightarrow> length d \<noteq> 64) \<or>
          xr_artifact_identity r = None \<or> xr_artifact_files r = []) PermissionError
          ''successful completion has no authenticated artifact''
        (ok (successful_completion timestamp r task attempt)))"

definition already_imported :: "execution_result \<Rightarrow> executive_task \<Rightarrow> execution_attempt \<Rightarrow> bool" where
  "already_imported r task attempt \<longleftrightarrow> xa_state attempt = ''COMPLETED'' \<and>
     et_status task \<in> {REVIEW_REQUIRED, REPAIR_REQUIRED, TASK_COMPLETED, TASK_FAILED} \<and>
     xa_completion_digest attempt = Some (xr_completion_digest r)"

definition late_author :: "string \<Rightarrow> execution_result \<Rightarrow> executive_task \<Rightarrow> project_record \<Rightarrow> late_result" where
  "late_author timestamp r task project =
     \<lparr>lt_result = r, lt_project_id = et_project_id task, lt_original_task_id = et_task_id task,
      lt_history_kind = None, lt_recorded_at = timestamp, lt_task_state = Some (et_status task),
      lt_project_state = Some (pr_state project)\<rparr>"

definition import_author ::
    "string \<Rightarrow> int \<Rightarrow> execution_result \<Rightarrow> executive_task \<Rightarrow> project_record \<Rightarrow> execution_attempt \<Rightarrow> executive_store
      \<Rightarrow> (executive_task \<times> executive_store) result" where
  "import_author timestamp expected_revision r task project attempt st =
     (if already_imported r task attempt then ok (task, st)
      else if pr_state project = CANCELED \<or> et_status task = TASK_CANCELED then
        ok (late_task timestamp task, put_task (late_task timestamp task)
          (record_late (''late-result:'' @ xr_authority_attempt_id r) (late_author timestamp r task project) st))
      else raise_if (et_revision task \<noteq> expected_revision \<or>
          et_status task \<notin> {EXECUTION_STARTED, RUNNING, COMPLETION_PENDING, UNCERTAIN}) PermissionError
          ''completion import is stale''
        (bind_result (import_completion timestamp r task attempt) (\<lambda>(u, x).
         ok (u, put_task u (put_attempt (xr_authority_attempt_id r) x st)))))"

definition accept_author_completion ::
    "string \<Rightarrow> string \<Rightarrow> int \<Rightarrow> execution_result \<Rightarrow> executive_store \<Rightarrow> (executive_task \<times> executive_store) result" where
  "accept_author_completion timestamp task_id expected_revision r st =
     bind_result (task_of st task_id) (\<lambda>task.
     bind_result (project_of st (et_project_id task)) (\<lambda>project.
     raise_if (et_authority_attempt_id task \<noteq> Some (xr_authority_attempt_id r) \<or> xr_task_id r \<noteq> et_task_id task \<or>
         \<not> xr_authenticated r) PermissionError ''completion does not bind to the task attempt''
     (bind_result (attempt_of st (xr_authority_attempt_id r)) (\<lambda>attempt.
      import_author timestamp expected_revision r task project attempt st))))"

definition mark_execution_uncertain ::
    "store_world \<Rightarrow> string \<Rightarrow> string \<Rightarrow> int \<Rightarrow> string \<Rightarrow> executive_store \<Rightarrow> (executive_task \<times> executive_store) result" where
  "mark_execution_uncertain w timestamp task_id expected_revision reason st =
     bind_result (task_of st task_id) (\<lambda>task.
     raise_if (et_revision task \<noteq> expected_revision) PermissionError ''uncertain execution write is stale''
     (raise_if (UNCERTAIN \<notin> set (task_transitions (et_status task))) PermissionError ''task cannot become uncertain''
     (let uncertain = task\<lparr>et_status := UNCERTAIN, et_result_disposition := Some reason,
            et_revision := et_revision task + 1, et_updated_at := timestamp\<rparr>
      in bind_result (save_task w (Some task) uncertain st) (\<lambda>st1. ok (uncertain, st1)))))"

subsection \<open>Reviews\<close>

definition review_of :: "executive_store \<Rightarrow> string \<Rightarrow> review_record result" where
  "review_of st = entity ''executive_reviews'' (xs_reviews st)"

definition put_review :: "string \<Rightarrow> review_record \<Rightarrow> executive_store \<Rightarrow> executive_store" where
  "put_review review_attempt_id review st = st\<lparr>xs_reviews := put_row review_attempt_id review (xs_reviews st)\<rparr>"

definition review_claim_stale :: "int \<Rightarrow> execution_plan \<Rightarrow> executive_task \<Rightarrow> bool" where
  "review_claim_stale expected_revision plan task \<longleftrightarrow>
     et_revision task \<noteq> expected_revision \<or> et_status task \<noteq> REVIEW_REQUIRED \<or> et_artifact_digest task = None \<or>
     et_review_attempt_id task \<noteq> None \<or> xp_artifact_revision_digest plan \<noteq> et_artifact_digest task \<or>
     xp_project_id plan \<noteq> et_project_id task \<or> xp_charter_id plan \<noteq> et_charter_id task \<or>
     xp_charter_revision plan \<noteq> et_charter_revision task \<or> xp_workflow_id plan \<noteq> et_workflow_id task \<or>
     Some (xp_session_id plan) = et_session_id task \<or> Some (xp_authority_attempt_id plan) = et_authority_attempt_id task"

definition new_review :: "string \<Rightarrow> execution_plan \<Rightarrow> executive_task \<Rightarrow> review_record" where
  "new_review timestamp plan task =
     \<lparr>rv_review_attempt_id = xp_authority_attempt_id plan, rv_review_task_id = xp_task_id plan,
      rv_project_id = et_project_id task, rv_charter_id = et_charter_id task,
      rv_charter_revision = et_charter_revision task, rv_workflow_id = et_workflow_id task,
      rv_task_id = et_task_id task, rv_task_revision = et_revision task,
      rv_artifact_revision_digest = et_artifact_digest task, rv_author_attempt_id = et_authority_attempt_id task,
      rv_author_provider_id = et_provider_id task, rv_author_session_id = et_session_id task,
      rv_reviewer_provider_id = xp_provider_id plan, rv_reviewer_model_id = xp_model_id plan,
      rv_reviewer_session_id = xp_session_id plan, rv_reviewer_registration_id = xp_registration_id plan,
      rv_reviewer_qualification_id = xp_qualification_id plan, rv_state = ''LAUNCH_CLAIMED'',
      rv_findings_digest = None, rv_disposition = None, rv_created_at = timestamp, rv_updated_at = timestamp,
      rv_plan = plan, rv_completion_digest = None, rv_evidence_digest = None\<rparr>"

definition claim_review ::
    "string \<Rightarrow> string \<Rightarrow> int \<Rightarrow> execution_plan \<Rightarrow> executive_store \<Rightarrow> (executive_task \<times> executive_store) result" where
  "claim_review timestamp task_id expected_revision plan st =
     bind_result (task_of st task_id) (\<lambda>task.
     raise_if (review_claim_stale expected_revision plan task) PermissionError ''review claim is stale or not independent''
     (let claimed = task\<lparr>et_review_attempt_id := Some (xp_authority_attempt_id plan), et_revision := et_revision task + 1,
            et_updated_at := timestamp\<rparr>
      in bind_result (insert_entity ''executive_reviews'' (xp_authority_attempt_id plan) (new_review timestamp plan task)
           (xs_reviews st)) (\<lambda>reviews.
         ok (claimed, put_task claimed (st\<lparr>xs_reviews := reviews\<rparr>)))))"

definition transition_review :: "string \<Rightarrow> string \<Rightarrow> string \<Rightarrow> string \<Rightarrow> executive_store \<Rightarrow> executive_store result" where
  "transition_review timestamp review_attempt_id expected_state target_state st =
     bind_result (review_of st review_attempt_id) (\<lambda>review.
     raise_if (rv_state review \<noteq> expected_state) PermissionError ''review transition is stale''
     (ok (put_review review_attempt_id (review\<lparr>rv_state := target_state, rv_updated_at := timestamp\<rparr>) st)))"

text \<open>A task sent back to its author's work, which a new attempt and a new review will do.\<close>

definition repair_task :: "string \<Rightarrow> executive_task_status \<Rightarrow> string \<Rightarrow> executive_task \<Rightarrow> executive_task" where
  "repair_task timestamp status disposition task =
     task\<lparr>et_status := status, et_provider_id := None, et_model_id := None, et_session_id := None,
       et_authority_attempt_id := None, et_artifact_digest := None, et_review_attempt_id := None,
       et_retry_count := et_retry_count task + 1, et_result_disposition := Some disposition,
       et_revision := et_revision task + 1, et_updated_at := timestamp\<rparr>"

definition settle_task :: "string \<Rightarrow> executive_task_status \<Rightarrow> string \<Rightarrow> executive_task \<Rightarrow> executive_task" where
  "settle_task timestamp status disposition task =
     task\<lparr>et_status := status, et_result_disposition := Some disposition, et_revision := et_revision task + 1,
       et_updated_at := timestamp\<rparr>"

definition review_unbound :: "executive_task \<Rightarrow> review_record \<Rightarrow> execution_result \<Rightarrow> bool" where
  "review_unbound task review r \<longleftrightarrow>
     rv_state review \<notin> {''EXECUTION_STARTED'', ''COMPLETION_PENDING'', ''UNCERTAIN''} \<or>
     Some (rv_reviewer_session_id review) = rv_author_session_id review \<or>
     Some (rv_review_attempt_id review) = rv_author_attempt_id review \<or>
     rv_artifact_revision_digest review \<noteq> et_artifact_digest task \<or>
     xr_author_attempt_id r \<noteq> rv_author_attempt_id review \<or> xr_artifact_digest r \<noteq> et_artifact_digest task \<or>
     xr_structured_review_digest r = None \<or>
     xr_review_disposition r \<notin> Some ` {''ACCEPTED'', ''REPAIR_REQUIRED'', ''REJECTED'', ''INDETERMINATE''}"

definition reviewed_task :: "string \<Rightarrow> bool \<Rightarrow> executive_task \<Rightarrow> executive_task" where
  "reviewed_task timestamp accepted task =
     (if accepted then settle_task timestamp TASK_COMPLETED ''INDEPENDENT_REVIEW_ACCEPTED'' task
      else if et_max_retries task \<le> et_retry_count task then
        settle_task timestamp TASK_FAILED ''RETRY_LIMIT_EXCEEDED'' task
      else repair_task timestamp REPAIR_REQUIRED ''INDEPENDENT_REVIEW_REPAIR_REQUIRED'' task)"

definition failed_review :: "string \<Rightarrow> execution_result \<Rightarrow> executive_task \<Rightarrow> review_record \<Rightarrow> executive_task \<times> review_record" where
  "failed_review timestamp r task review =
     (repair_task timestamp (if et_max_retries task \<le> et_retry_count task then TASK_FAILED else REPAIR_REQUIRED)
        ''INDEPENDENT_REVIEW_PROCESS_FAILED'' task,
      review\<lparr>rv_state := terminal_state r, rv_completion_digest := Some (xr_completion_digest r),
        rv_evidence_digest := Some (xr_evidence_digest r), rv_disposition := Some ''INDETERMINATE'',
        rv_updated_at := timestamp\<rparr>)"

definition completed_review :: "string \<Rightarrow> execution_result \<Rightarrow> executive_task \<Rightarrow> review_record \<Rightarrow> executive_task \<times> review_record" where
  "completed_review timestamp r task review =
     (reviewed_task timestamp (xr_review_disposition r = Some ''ACCEPTED'') task,
      review\<lparr>rv_state := ''COMPLETED'', rv_findings_digest := xr_structured_review_digest r,
        rv_completion_digest := Some (xr_completion_digest r), rv_evidence_digest := Some (xr_evidence_digest r),
        rv_disposition := xr_review_disposition r, rv_updated_at := timestamp\<rparr>)"

definition import_review ::
    "string \<Rightarrow> execution_result \<Rightarrow> executive_task \<Rightarrow> review_record \<Rightarrow> (executive_task \<times> review_record) result" where
  "import_review timestamp r task review =
     raise_if (xr_task_id r \<noteq> rv_review_task_id review \<or> xr_session_id r \<noteq> rv_reviewer_session_id review \<or>
         xr_registration_id r \<noteq> rv_reviewer_registration_id review) PermissionError
       ''review completion identity binding is invalid''
     (if xr_terminal_disposition r \<noteq> ''SUCCEEDED'' then ok (failed_review timestamp r task review)
      else raise_if (review_unbound task review r) PermissionError
          ''review completion independence or artifact binding is invalid''
        (ok (completed_review timestamp r task review)))"

definition late_review :: "string \<Rightarrow> execution_result \<Rightarrow> executive_task \<Rightarrow> late_result" where
  "late_review timestamp r task =
     \<lparr>lt_result = r, lt_project_id = et_project_id task, lt_original_task_id = et_task_id task,
      lt_history_kind = Some ''LATE_REVIEW_RESULT'', lt_recorded_at = timestamp, lt_task_state = None,
      lt_project_state = None\<rparr>"

definition import_reviewed ::
    "string \<Rightarrow> int \<Rightarrow> execution_result \<Rightarrow> executive_task \<Rightarrow> project_record \<Rightarrow> string \<Rightarrow> executive_store
      \<Rightarrow> (executive_task \<times> executive_store) result" where
  "import_reviewed timestamp expected_revision r task project review_attempt_id st =
     (if (pr_state project = CANCELED \<or> et_status task = TASK_CANCELED) \<and>
          xr_authority_attempt_id r = review_attempt_id \<and> xr_authenticated r then
        ok (late_task timestamp task, put_task (late_task timestamp task)
          (record_late (''late-review:'' @ review_attempt_id) (late_review timestamp r task) st))
      else raise_if (et_revision task \<noteq> expected_revision \<or> et_status task \<noteq> REVIEW_REQUIRED \<or>
          xr_authority_attempt_id r \<noteq> review_attempt_id \<or> \<not> xr_authenticated r) PermissionError
          ''review completion import is stale''
        (bind_result (review_of st review_attempt_id) (\<lambda>review.
         bind_result (import_review timestamp r task review) (\<lambda>(u, v).
         ok (u, put_task u (put_review review_attempt_id v st))))))"

definition accept_review_completion ::
    "string \<Rightarrow> string \<Rightarrow> int \<Rightarrow> execution_result \<Rightarrow> executive_store \<Rightarrow> (executive_task \<times> executive_store) result" where
  "accept_review_completion timestamp task_id expected_revision r st =
     bind_result (task_of st task_id) (\<lambda>task.
     bind_result (project_of st (et_project_id task)) (\<lambda>project.
     case et_review_attempt_id task of
       None \<Rightarrow> raise PermissionError ''review completion import is stale''
     | Some review_attempt_id \<Rightarrow> import_reviewed timestamp expected_revision r task project review_attempt_id st))"

definition complete_automated_review ::
    "store_world \<Rightarrow> string \<Rightarrow> string \<Rightarrow> int \<Rightarrow> executive_store \<Rightarrow> (executive_task \<times> executive_store) result" where
  "complete_automated_review w timestamp task_id expected_revision st =
     bind_result (task_of st task_id) (\<lambda>task.
     raise_if (et_revision task \<noteq> expected_revision \<or> et_status task \<noteq> REVIEW_REQUIRED \<or>
         et_artifact_digest task = None \<or> requires_independent task) PermissionError
       ''local review cannot complete this task''
     (let completed = settle_task timestamp TASK_COMPLETED ''AUTHORITY_EVIDENCE_ACCEPTED'' task
      in bind_result (save_task w (Some task) completed st) (\<lambda>st1. ok (completed, st1))))"

subsection \<open>Cancelling and revoking\<close>

definition cancelled_task :: "string \<Rightarrow> executive_task \<Rightarrow> executive_task" where
  "cancelled_task timestamp task =
     task\<lparr>et_status := TASK_CANCELED, et_revision := et_revision task + 1, et_updated_at := timestamp\<rparr>"

definition cancel_project_execution ::
    "string \<Rightarrow> string \<Rightarrow> executive_store \<Rightarrow> ((project_record \<times> string list) \<times> executive_store) result" where
  "cancel_project_execution timestamp project_id st =
     bind_result (project_of st project_id) (\<lambda>project.
     raise_if (CANCELED \<notin> set (project_transitions (pr_state project))) PermissionError ''project cannot be canceled''
     (let cancelled = project\<lparr>pr_state := CANCELED, pr_pause_reason := None, pr_updated_at := timestamp\<rparr>;
          affected = filter (\<lambda>t. et_project_id t = project_id \<and>
            et_status t \<notin> {TASK_COMPLETED, TASK_FAILED, TASK_CANCELED, SKIPPED}) (map snd (xs_tasks st));
          attempt_ids = concat (map (\<lambda>t. optional_list (et_authority_attempt_id t) @ optional_list (et_review_attempt_id t)) affected)
      in ok ((cancelled, attempt_ids),
           foldl (\<lambda>s t. put_task (cancelled_task timestamp t) s)
             (st\<lparr>xs_projects := put_row project_id cancelled (xs_projects st)\<rparr>) affected)))"

definition IN_FLIGHT :: "executive_task_status set" where
  "IN_FLIGHT = {LAUNCH_CLAIMED, EXECUTION_STARTED, RUNNING, COMPLETION_PENDING, UNCERTAIN}"

definition revoke_rows ::
    "string \<Rightarrow> string \<Rightarrow> (approval_record \<times> action_binding option) table \<Rightarrow> (approval_record \<times> action_binding option) table" where
  "revoke_rows timestamp project_id t =
     foldl (\<lambda>u (i, approval, binding). put_row i (approval\<lparr>ap_revoked_at := Some timestamp\<rparr>, binding) u) t
       (filter (\<lambda>(_, approval, _). ap_project_id approval = project_id \<and> ap_revoked_at approval = None) t)"

definition revoke_project_launch ::
    "string \<Rightarrow> string \<Rightarrow> executive_store \<Rightarrow> ((project_record \<times> string list) \<times> executive_store) result" where
  "revoke_project_launch timestamp project_id st =
     bind_result (project_of st project_id) (\<lambda>project.
     raise_if (pr_state project \<in> {CANCELED, COMPLETED, FAILED}) PermissionError
       ''terminal project authority cannot be revoked''
     (let revoked = project\<lparr>pr_state := PAUSED, pr_pause_reason := Some ''Founder revoked delegation.'',
            pr_updated_at := timestamp\<rparr>;
          launched = (\<lambda>t. \<not> falsy (et_authority_attempt_id t) \<and> et_status t \<in> IN_FLIGHT);
          own = filter (\<lambda>t. et_project_id t = project_id) (map snd (xs_tasks st));
          attempt_ids = concat (map (\<lambda>t. (if launched t then [the (et_authority_attempt_id t)] else []) @
            optional_list (et_review_attempt_id t)) own)
      in ok ((revoked, rev (remdups (rev attempt_ids))),
           foldl (\<lambda>s t. put_task ((cancelled_task timestamp t)\<lparr>et_result_disposition := Some ''DELEGATION_REVOKED''\<rparr>) s)
             (st\<lparr>xs_projects := put_row project_id revoked (xs_projects st),
                 xs_approvals := revoke_rows timestamp project_id (xs_approvals st)\<rparr>)
             (filter launched own))))"

end
