(* ===== verification/Transition_Systems.thy ===== *)
theory Transition_Systems
  imports Prelude
begin

text \<open>
  Components with a life of their own, such as stores and schedulers: a set of initial states and a
  step relation.  The locale states what an invariant needs; a component interprets it once and has the
  invariant in every state it can reach.
\<close>

inductive reachable :: "('s \<Rightarrow> 's \<Rightarrow> bool) \<Rightarrow> 's \<Rightarrow> 's \<Rightarrow> bool" for step where
  start: "reachable step s s"
| next_step: "reachable step s t \<Longrightarrow> step t u \<Longrightarrow> reachable step s u"

inductive_cases next_stepE: "reachable step s t"

lemma reachable_trans: "reachable step s t \<Longrightarrow> reachable step t u \<Longrightarrow> reachable step s u"
  by (rotate_tac, induction rule: reachable.induct) (auto intro: reachable.intros)

lemma reachable_step: "step s t \<Longrightarrow> reachable step s t"
  by (rule next_step [OF start])

locale invariant_system =
  fixes initial :: "'s \<Rightarrow> bool" and step :: "'s \<Rightarrow> 's \<Rightarrow> bool" and inv :: "'s \<Rightarrow> bool"
  assumes inv_initial: "initial s \<Longrightarrow> inv s"
    and inv_step: "inv s \<Longrightarrow> step s t \<Longrightarrow> inv t"
begin

lemma inv_preserved: "reachable step s t \<Longrightarrow> inv s \<Longrightarrow> inv t"
  by (induction rule: reachable.induct) (auto intro: inv_step)

lemma inv_reachable: "initial s \<Longrightarrow> reachable step s t \<Longrightarrow> inv t"
  by (blast intro: inv_initial inv_preserved)

end

text \<open>A relation between an earlier and a later state that every step keeps, as long as the invariant holds.\<close>

locale history_system = invariant_system +
  fixes evolves :: "'a \<Rightarrow> 'a \<Rightarrow> bool"
  assumes evolves_refl: "inv s \<Longrightarrow> evolves s s"
    and evolves_step: "inv s \<Longrightarrow> step s t \<Longrightarrow> evolves s t"
    and evolves_trans: "evolves s t \<Longrightarrow> evolves t u \<Longrightarrow> evolves s u"
begin

lemma evolves_reachable: "reachable step s t \<Longrightarrow> inv s \<Longrightarrow> evolves s t"
proof (induction rule: reachable.induct)
  case (start s)
  then show ?case by (rule evolves_refl)
next
  case (next_step s t u)
  from inv_preserved [OF next_step.hyps(1) next_step.prems] next_step.hyps(2) have "evolves t u" by (rule evolves_step)
  with next_step.IH [OF next_step.prems] show ?case by (rule evolves_trans)
qed

end

end
