(* ===== verification/Run_Lifecycle.thy ===== *)
theory Run_Lifecycle
  imports Transition_Systems
begin

text \<open>
  The durable life of a run (\<open>keeper/app/lifecycle.py\<close>): the rows of the table \<open>runs\<close>, with the fields
  the controller reads or writes and those the coordinator keeps beside them, and its operations.  A row that fails the store's integrity check is an
  error in its place.  An operation that raises leaves the store as it was.
\<close>

subsection \<open>Stages\<close>

datatype run_stage =
    INTAKE | SCOPE_VALIDATION | RISK_CLASSIFICATION | AUTHORIZATION_RESOLUTION | PROVIDER_SELECTION
  | WORKTREE_PREPARATION | AUTHOR_EXECUTION | AUTHOR_SELF_VERIFICATION | STAGE_AUDIT | REPAIR_EXECUTION
  | POST_REPAIR_VERIFICATION | FINAL_VALIDATION | APPROVAL_DECISION | AUTHORIZED_COMMIT | AUTHORIZED_PUSH
  | EVIDENCE_FINALIZATION | STAGE_CLOSED | STAGE_INTERRUPTED | STAGE_CANCELLED | STAGE_BLOCKED

fun stage_value :: "run_stage \<Rightarrow> string" where
  "stage_value INTAKE = ''intake''"
| "stage_value SCOPE_VALIDATION = ''scope_validation''"
| "stage_value RISK_CLASSIFICATION = ''risk_classification''"
| "stage_value AUTHORIZATION_RESOLUTION = ''authorization_resolution''"
| "stage_value PROVIDER_SELECTION = ''provider_selection''"
| "stage_value WORKTREE_PREPARATION = ''worktree_preparation''"
| "stage_value AUTHOR_EXECUTION = ''author_execution''"
| "stage_value AUTHOR_SELF_VERIFICATION = ''author_self_verification''"
| "stage_value STAGE_AUDIT = ''independent_audit''"
| "stage_value REPAIR_EXECUTION = ''repair_execution''"
| "stage_value POST_REPAIR_VERIFICATION = ''post_repair_verification''"
| "stage_value FINAL_VALIDATION = ''final_validation''"
| "stage_value APPROVAL_DECISION = ''approval_decision''"
| "stage_value AUTHORIZED_COMMIT = ''authorized_commit''"
| "stage_value AUTHORIZED_PUSH = ''authorized_push''"
| "stage_value EVIDENCE_FINALIZATION = ''evidence_finalization''"
| "stage_value STAGE_CLOSED = ''closed''"
| "stage_value STAGE_INTERRUPTED = ''interrupted''"
| "stage_value STAGE_CANCELLED = ''cancelled''"
| "stage_value STAGE_BLOCKED = ''blocked''"

definition RUN_STAGES :: "run_stage list" where
  "RUN_STAGES =
     [INTAKE, SCOPE_VALIDATION, RISK_CLASSIFICATION, AUTHORIZATION_RESOLUTION, PROVIDER_SELECTION,
      WORKTREE_PREPARATION, AUTHOR_EXECUTION, AUTHOR_SELF_VERIFICATION, STAGE_AUDIT, REPAIR_EXECUTION,
      POST_REPAIR_VERIFICATION, FINAL_VALIDATION, APPROVAL_DECISION, AUTHORIZED_COMMIT, AUTHORIZED_PUSH,
      EVIDENCE_FINALIZATION, STAGE_CLOSED, STAGE_INTERRUPTED, STAGE_CANCELLED, STAGE_BLOCKED]"

text \<open>\<open>RunStage(value)\<close>: nothing where it raises \<open>ValueError\<close>.\<close>

definition stage_named :: "string \<Rightarrow> run_stage option" where
  "stage_named v = find (\<lambda>s. stage_value s = v) RUN_STAGES"

definition TERMINAL_STAGES :: "run_stage list" where
  "TERMINAL_STAGES = [STAGE_CLOSED, STAGE_CANCELLED, STAGE_BLOCKED]"

definition RETRYABLE_STAGES :: "run_stage list" where
  "RETRYABLE_STAGES =
     [AUTHOR_EXECUTION, AUTHOR_SELF_VERIFICATION, STAGE_AUDIT, REPAIR_EXECUTION, POST_REPAIR_VERIFICATION,
      FINAL_VALIDATION]"

fun forward :: "run_stage \<Rightarrow> run_stage list" where
  "forward INTAKE = [SCOPE_VALIDATION]"
| "forward SCOPE_VALIDATION = [RISK_CLASSIFICATION]"
| "forward RISK_CLASSIFICATION = [AUTHORIZATION_RESOLUTION]"
| "forward AUTHORIZATION_RESOLUTION = [PROVIDER_SELECTION]"
| "forward PROVIDER_SELECTION = [WORKTREE_PREPARATION]"
| "forward WORKTREE_PREPARATION = [AUTHOR_EXECUTION]"
| "forward AUTHOR_EXECUTION = [AUTHOR_SELF_VERIFICATION]"
| "forward AUTHOR_SELF_VERIFICATION = [STAGE_AUDIT]"
| "forward STAGE_AUDIT = [REPAIR_EXECUTION, FINAL_VALIDATION]"
| "forward REPAIR_EXECUTION = [POST_REPAIR_VERIFICATION]"
| "forward POST_REPAIR_VERIFICATION = [STAGE_AUDIT]"
| "forward FINAL_VALIDATION = [APPROVAL_DECISION]"
| "forward APPROVAL_DECISION = [AUTHORIZED_COMMIT, EVIDENCE_FINALIZATION]"
| "forward AUTHORIZED_COMMIT = [AUTHORIZED_PUSH, EVIDENCE_FINALIZATION]"
| "forward AUTHORIZED_PUSH = [EVIDENCE_FINALIZATION]"
| "forward EVIDENCE_FINALIZATION = [STAGE_CLOSED]"
| "forward STAGE_CLOSED = []"
| "forward STAGE_INTERRUPTED = []"
| "forward STAGE_CANCELLED = []"
| "forward STAGE_BLOCKED = []"

subsection \<open>Rows\<close>

record run_event =
  ev_sequence :: int
  ev_from :: string
  ev_to :: string
  ev_retry :: bool
  ev_stage_attempt_id :: "string option"

record retry_entry =
  rt_stage :: string
  rt_reason :: string
  rt_authorizer :: string
  rt_prior_attempt_id :: "string option"
  rt_stage_attempt_id :: string

record recovery_note =
  rv_classification :: string
  rv_previous_process_running :: bool
  rv_retry_safe :: bool
  rv_detected_at :: string

record approval_note =
  ap_decision :: string
  ap_approving_authority :: string
  ap_reason :: string
  ap_timestamp :: string

record run_row =
  rw_id :: string
  rw_task_id :: "string option"
  rw_stage :: "string option"
  rw_sequence :: "int option"
  rw_status :: string
  rw_history :: "run_event list"
  rw_interrupted_from :: "string option"
  rw_stopped_from :: "string option"
  rw_stage_attempt_counts :: "string \<Rightarrow> int option"
  rw_active_stage_attempt_id :: "string option"
  rw_retry_history :: "retry_entry list"
  rw_recovery :: "recovery_note option"
  rw_approval :: "approval_note option"
  rw_failure_reason :: "string option"
  rw_ended_at :: "string option"

type_synonym run_store = "string \<Rightarrow> run_row result option"

record transition_result =
  tr_run_id :: string
  tr_previous :: run_stage
  tr_current :: run_stage
  tr_sequence :: int

definition new_run_row :: "string \<Rightarrow> string \<Rightarrow> run_row" where
  "new_run_row run_id task_id =
     \<lparr>rw_id = run_id, rw_task_id = Some task_id, rw_stage = Some (stage_value INTAKE), rw_sequence = Some 0,
      rw_status = ''running'', rw_history = [], rw_interrupted_from = None, rw_stopped_from = None,
      rw_stage_attempt_counts = (\<lambda>_. None), rw_active_stage_attempt_id = None, rw_retry_history = [],
      rw_recovery = None, rw_approval = None, rw_failure_reason = None, rw_ended_at = None\<rparr>"

definition create_run :: "string \<Rightarrow> string \<Rightarrow> run_store \<Rightarrow> (run_row \<times> run_store) result" where
  "create_run run_id task_id st =
     (case st run_id of
        Some (Inl e) \<Rightarrow> Inl e
      | Some (Inr existing) \<Rightarrow>
          raise_if (rw_task_id existing \<noteq> Some task_id) ValueError
            ''run identifier is already bound to another task'' (ok (existing, st))
      | None \<Rightarrow> (let row = new_run_row run_id task_id in ok (row, st(run_id \<mapsto> Inr row))))"

text \<open>\<open>_record\<close>: the row with its stage and its sequence number.\<close>

definition row_of :: "string \<Rightarrow> run_store \<Rightarrow> (run_row \<times> run_stage \<times> int) result" where
  "row_of run_id st =
     (case st run_id of
        None \<Rightarrow> raise LookupError ''run not found''
      | Some (Inl e) \<Rightarrow> Inl e
      | Some (Inr row) \<Rightarrow>
          (case (Option.bind (rw_stage row) stage_named, rw_sequence row) of
             (Some stage, Some sequence) \<Rightarrow> ok (row, stage, sequence)
           | _ \<Rightarrow> raise RuntimeError ''run state is corrupt''))"

text \<open>\<open>f"{run_id}:{stage}:{count}"\<close>\<close>

definition stage_attempt_name :: "string \<Rightarrow> run_stage \<Rightarrow> int \<Rightarrow> string" where
  "stage_attempt_name run_id stage n = run_id @ '':'' @ stage_value stage @ '':'' @ show_int n"

subsection \<open>Transitions\<close>

definition leave_stage :: "run_stage \<Rightarrow> run_stage \<Rightarrow> run_row \<Rightarrow> run_row result" where
  "leave_stage previous target row =
     (if target = STAGE_INTERRUPTED then
        raise_if (previous \<in> set TERMINAL_STAGES) ValueError ''terminal run cannot be interrupted''
        (ok (row\<lparr>rw_interrupted_from := Some (stage_value previous)\<rparr>))
      else if target \<in> {STAGE_CANCELLED, STAGE_BLOCKED} then
        raise_if (previous \<in> set TERMINAL_STAGES) ValueError ''terminal run cannot change state''
        (ok (row\<lparr>rw_stopped_from := Some (stage_value previous)\<rparr>))
      else if previous = STAGE_INTERRUPTED then
        raise_if (Some (stage_value target) \<noteq> rw_interrupted_from row) ValueError
          ''interrupted run may resume only at its recorded stage''
        (ok (row\<lparr>rw_interrupted_from := None\<rparr>))
      else
        raise_if (target \<notin> set (forward previous)) ValueError
          (''forbidden Keeper transition: '' @ stage_value previous @ '' -> '' @ stage_value target)
        (ok row))"

definition count_attempt :: "string \<Rightarrow> run_stage \<Rightarrow> run_row \<Rightarrow> run_row" where
  "count_attempt run_id target row =
     (if target \<in> set RETRYABLE_STAGES then
        (let number = (case rw_stage_attempt_counts row (stage_value target) of None \<Rightarrow> 0 | Some n \<Rightarrow> n) + 1
         in row\<lparr>rw_stage_attempt_counts := (rw_stage_attempt_counts row)(stage_value target \<mapsto> number),
                rw_active_stage_attempt_id := Some (stage_attempt_name run_id target number)\<rparr>)
      else row)"

definition status_at :: "run_stage \<Rightarrow> string" where
  "status_at target =
     (if target = STAGE_CLOSED then ''completed''
      else if target \<in> set TERMINAL_STAGES then stage_value target
      else ''running'')"

definition enter_stage :: "run_stage \<Rightarrow> run_stage \<Rightarrow> int \<Rightarrow> run_row \<Rightarrow> run_row" where
  "enter_stage previous target sequence row =
     row\<lparr>rw_stage := Some (stage_value target), rw_sequence := Some sequence,
         rw_history := rw_history row @ [\<lparr>ev_sequence = sequence, ev_from = stage_value previous,
           ev_to = stage_value target, ev_retry = False, ev_stage_attempt_id = None\<rparr>],
         rw_status := status_at target\<rparr>"

definition transition_run :: "string \<Rightarrow> run_stage \<Rightarrow> run_store \<Rightarrow> (transition_result \<times> run_store) result" where
  "transition_run run_id target st =
     bind_result (row_of run_id st) (\<lambda>(row, previous, sequence).
     if previous = target then
       ok (\<lparr>tr_run_id = run_id, tr_previous = previous, tr_current = target, tr_sequence = sequence\<rparr>, st)
     else
       bind_result (leave_stage previous target row) (\<lambda>row.
       ok (\<lparr>tr_run_id = run_id, tr_previous = previous, tr_current = target, tr_sequence = sequence + 1\<rparr>,
           st(run_id \<mapsto> Inr (enter_stage previous target (sequence + 1) (count_attempt run_id target row))))))"

subsection \<open>Retries\<close>

definition retried_row ::
    "string \<Rightarrow> run_stage \<Rightarrow> string \<Rightarrow> string \<Rightarrow> run_stage \<Rightarrow> int \<Rightarrow> run_row \<Rightarrow> run_row" where
  "retried_row run_id target reason authorizer previous sequence row =
     (let number = (case rw_stage_attempt_counts row (stage_value target) of None \<Rightarrow> 1 | Some n \<Rightarrow> n) + 1;
          attempt = stage_attempt_name run_id target number
      in row\<lparr>rw_stage := Some (stage_value target), rw_sequence := Some sequence, rw_status := ''running'',
             rw_history := rw_history row @ [\<lparr>ev_sequence = sequence, ev_from = stage_value previous,
               ev_to = stage_value target, ev_retry = True, ev_stage_attempt_id = Some attempt\<rparr>],
             rw_interrupted_from := None, rw_stopped_from := None,
             rw_stage_attempt_counts := (rw_stage_attempt_counts row)(stage_value target \<mapsto> number),
             rw_active_stage_attempt_id := Some attempt,
             rw_retry_history := rw_retry_history row @ [\<lparr>rt_stage = stage_value target, rt_reason = reason,
               rt_authorizer = authorizer, rt_prior_attempt_id = rw_active_stage_attempt_id row,
               rt_stage_attempt_id = attempt\<rparr>]\<rparr>)"

definition recovery_check :: "recovery_note option \<Rightarrow> unit result" where
  "recovery_check note =
     (case note of
        None \<Rightarrow> ok ()
      | Some r \<Rightarrow>
          raise_if (\<not> rv_retry_safe r) PermissionError ''stage recovery is not safe to retry''
          (raise_if (rv_previous_process_running r) PermissionError ''provider process state is still uncertain''
          (ok ())))"

definition retry_stage ::
    "string \<Rightarrow> run_stage \<Rightarrow> string \<Rightarrow> string \<Rightarrow> run_store \<Rightarrow> (run_row \<times> run_store) result" where
  "retry_stage run_id target reason authorizer st =
     raise_if (target \<notin> set RETRYABLE_STAGES) PermissionError ''selected stage is not retryable''
     (raise_if (blank reason \<or> blank authorizer) ValueError ''retry reason and authorizer are required''
     (bind_result (row_of run_id st) (\<lambda>(row, previous, sequence).
      raise_if (previous \<notin> {STAGE_INTERRUPTED, STAGE_BLOCKED, STAGE_CANCELLED}) PermissionError
        ''run is not stopped at a retryable stage''
      (let expected = (if previous = STAGE_INTERRUPTED then rw_interrupted_from row else rw_stopped_from row) in
       raise_if (expected \<noteq> Some (stage_value target)) PermissionError
         ''retry authorization does not match the failed stage''
       (bind_result (recovery_check (rw_recovery row)) (\<lambda>_.
        let row = retried_row run_id target reason authorizer previous (sequence + 1) row
        in ok (row, st(run_id \<mapsto> Inr row))))))))"

end
