(* ===== verification/Run_Properties.thy ===== *)
theory Run_Properties
  imports Run_Lifecycle "HOL-Library.Sublist"
begin

text \<open>
  What holds of every run, whatever is done to it: the store's steps, the invariant of its rows as an
  interpretation of \<open>invariant_system\<close>, and the properties of closed and of retried runs.
\<close>

subsection \<open>Stages and names\<close>

lemma stage_named_value [simp]: "stage_named (stage_value s) = Some s"
  by (cases s) (simp_all add: stage_named_def RUN_STAGES_def)

lemma stage_value_inject [simp]: "stage_value s = stage_value t \<longleftrightarrow> s = t"
  by (metis stage_named_value option.inject)

lemma stage_named_inverse: "stage_named v = Some s \<Longrightarrow> v = stage_value s"
  unfolding stage_named_def by (auto simp: find_Some_iff)

lemma stage_value_no_colon: "CHR '':'' \<notin> set (stage_value s)"
  by (cases s) auto

lemma stage_attempt_name_inject [simp]:
  "stage_attempt_name r s m = stage_attempt_name r t n \<longleftrightarrow> s = t \<and> m = n"
proof
  assume same: "stage_attempt_name r s m = stage_attempt_name r t n"
  have upto: "takeWhile (\<lambda>c. c \<noteq> CHR '':'') (stage_value u @ CHR '':'' # rest) = stage_value u" for u rest
    using stage_value_no_colon [of u] by (simp add: takeWhile_append2 takeWhile_tail) (metis append_Nil2 takeWhile_eq_all_conv takeWhile_tail)
  from same have "stage_value s @ CHR '':'' # show_int m = stage_value t @ CHR '':'' # show_int n"
    by (simp add: stage_attempt_name_def)
  with upto [of s "show_int m"] upto [of t "show_int n"] show "s = t \<and> m = n" by auto
qed auto

subsection \<open>Steps\<close>

text \<open>
  A run is created, moved or retried; the coordinator also writes notes on a row, which the controller does
  not manage: the status shown and what is known of a recovery.
\<close>

inductive run_step :: "run_store \<Rightarrow> run_store \<Rightarrow> bool" where
  created: "create_run run_id task_id st = Inr (row, st') \<Longrightarrow> run_step st st'"
| moved: "transition_run run_id target st = Inr (result, st') \<Longrightarrow> run_step st st'"
| retried: "retry_stage run_id target reason authorizer st = Inr (row, st') \<Longrightarrow> run_step st st'"
| annotated: "st run_id = Some (Inr row) \<Longrightarrow>
    run_step st (st(run_id \<mapsto> Inr (row\<lparr>rw_status := status, rw_recovery := remark,
      rw_approval := approval, rw_failure_reason := failure, rw_ended_at := ended\<rparr>)))"

definition no_runs :: "run_store \<Rightarrow> bool" where
  "no_runs st \<longleftrightarrow> (\<forall>run_id. st run_id = None)"

text \<open>The stage whose work a run is at, also while it is interrupted or after it was stopped.\<close>

definition working_stage :: "run_row \<Rightarrow> string option" where
  "working_stage row =
     (let resting = (if rw_stage row \<in> {Some ''blocked'', Some ''cancelled''} then rw_stopped_from row else rw_stage row)
      in if resting = Some ''interrupted'' then rw_interrupted_from row else resting)"

definition forward_move :: "string \<Rightarrow> string \<Rightarrow> bool" where
  "forward_move a b \<longleftrightarrow> (case stage_named a of None \<Rightarrow> False | Some s \<Rightarrow> b \<in> set (map stage_value (forward s)))"

text \<open>The stages a run entered by the forward table, in order.\<close>

definition forward_path :: "run_row \<Rightarrow> string list" where
  "forward_path row = map ev_to (filter (\<lambda>e. forward_move (ev_from e) (ev_to e)) (rw_history row))"

fun walks :: "string \<Rightarrow> string list \<Rightarrow> string \<Rightarrow> bool" where
  "walks a [] b \<longleftrightarrow> a = b"
| "walks a (x # xs) b \<longleftrightarrow> forward_move a x \<and> walks x xs b"

lemma walks_snoc: "walks a (xs @ [x]) b \<longleftrightarrow> (\<exists>c. walks a xs c \<and> forward_move c x \<and> x = b)"
  by (induction xs arbitrary: a) auto

lemma walks_append: "walks a (xs @ ys) b \<longleftrightarrow> (\<exists>c. walks a xs c \<and> walks c ys b)"
  by (induction xs arbitrary: a) auto

definition well_chained :: "run_row \<Rightarrow> bool" where
  "well_chained row \<longleftrightarrow>
     map ev_sequence (rw_history row) = [1..int (length (rw_history row))] \<and>
     rw_sequence row = Some (int (length (rw_history row))) \<and>
     map ev_from (rw_history row) @ [the (rw_stage row)] = stage_value INTAKE # map ev_to (rw_history row)"

definition issued :: "run_row \<Rightarrow> string \<Rightarrow> bool" where
  "issued row i \<longleftrightarrow> (\<exists>s n m. i = stage_attempt_name (rw_id row) s n \<and>
     rw_stage_attempt_counts row (stage_value s) = Some m \<and> n \<le> m)"

definition attempts_named :: "run_row \<Rightarrow> bool" where
  "attempts_named row \<longleftrightarrow>
     (\<forall>i\<in>set (map rt_stage_attempt_id (rw_retry_history row)). issued row i) \<and>
     (\<forall>i. rw_active_stage_attempt_id row = Some i \<longrightarrow> issued row i) \<and>
     distinct (map rt_stage_attempt_id (rw_retry_history row)) \<and>
     (\<forall>e\<in>set (rw_retry_history row). rt_prior_attempt_id e \<noteq> Some (rt_stage_attempt_id e))"

definition sound_row :: "string \<Rightarrow> run_row \<Rightarrow> bool" where
  "sound_row run_id row \<longleftrightarrow> rw_id row = run_id \<and> well_chained row \<and> attempts_named row \<and>
     (\<exists>s. rw_stage row = Some (stage_value s)) \<and>
     (\<exists>s. working_stage row = Some (stage_value s) \<and> s \<notin> {STAGE_INTERRUPTED, STAGE_CANCELLED, STAGE_BLOCKED} \<and>
        walks (stage_value INTAKE) (forward_path row) (stage_value s))"

definition sound_runs :: "run_store \<Rightarrow> bool" where
  "sound_runs st \<longleftrightarrow> (\<forall>run_id row. st run_id = Some (Inr row) \<longrightarrow> sound_row run_id row)"

subsection \<open>The invariant\<close>

lemma sound_new_run_row: "sound_row run_id (new_run_row run_id task_id)"
  by (auto simp: sound_row_def well_chained_def attempts_named_def working_stage_def forward_path_def new_run_row_def
      intro!: exI [of _ INTAKE])

lemma sound_annotated:
  assumes "sound_row run_id row"
  shows "sound_row run_id (row\<lparr>rw_status := status, rw_recovery := remark,
      rw_approval := approval, rw_failure_reason := failure, rw_ended_at := ended\<rparr>)" (is "sound_row run_id ?row")
proof -
  have "well_chained ?row = well_chained row" "attempts_named ?row = attempts_named row"
    "working_stage ?row = working_stage row" "forward_path ?row = forward_path row"
    by (simp_all add: well_chained_def attempts_named_def working_stage_def Let_def forward_path_def issued_def)
  with assms show ?thesis by (simp add: sound_row_def)
qed

text \<open>An event appended to a history that ends at the event's origin.\<close>

lemma well_chained_snoc:
  assumes "well_chained row" and "rw_stage row = Some (ev_from e)"
    and "rw_sequence row = Some n" and "ev_sequence e = n + 1"
    and "rw_history row' = rw_history row @ [e]" "rw_sequence row' = Some (n + 1)" "rw_stage row' = Some (ev_to e)"
  shows "well_chained row'"
proof -
  have "[1..int (length (rw_history row)) + 1] = [1..int (length (rw_history row))] @ [int (length (rw_history row)) + 1]"
    by (simp add: upto_rec2)
  with assms show ?thesis by (auto simp: well_chained_def add.commute)
qed

lemma forward_path_snoc:
  assumes "rw_history row' = rw_history row @ [e]"
  shows "forward_path row' = forward_path row @ (if forward_move (ev_from e) (ev_to e) then [ev_to e] else [])"
  using assms by (simp add: forward_path_def)

lemma forward_move_values [simp]: "forward_move (stage_value s) (stage_value t) \<longleftrightarrow> t \<in> set (forward s)"
  by (auto simp: forward_move_def)

lemma row_of_sound:
  assumes "sound_runs st" and "row_of run_id st = Inr (row, stage, sequence)"
  shows "sound_row run_id row \<and> rw_stage row = Some (stage_value stage) \<and> rw_sequence row = Some sequence"
  using assms by (auto simp: row_of_def sound_runs_def result_simps bind_eq_Some_conv dest!: stage_named_inverse split: option.splits sum.splits)

lemma sound_update: "sound_runs st \<Longrightarrow> sound_row run_id row \<Longrightarrow> sound_runs (st(run_id \<mapsto> Inr row))"
  by (simp add: sound_runs_def)

lemma special_values:
  "stage_value s = ''interrupted'' \<longleftrightarrow> s = STAGE_INTERRUPTED"
  "stage_value s = ''blocked'' \<longleftrightarrow> s = STAGE_BLOCKED"
  "stage_value s = ''cancelled'' \<longleftrightarrow> s = STAGE_CANCELLED"
  by (cases s; simp)+

lemma working_stage_moved:
  assumes leave: "leave_stage previous target row = Inr row'" and distinct: "previous \<noteq> target"
    and at: "rw_stage row = Some (stage_value previous)"
    and entered: "rw_stage row'' = Some (stage_value target)" "rw_stopped_from row'' = rw_stopped_from row'"
      "rw_interrupted_from row'' = rw_interrupted_from row'"
  shows "working_stage row'' = (if target \<in> set (forward previous) then Some (stage_value target) else working_stage row)"
proof -
  have stopped: "forward STAGE_INTERRUPTED = []" "forward STAGE_BLOCKED = []" "forward STAGE_CANCELLED = []" by simp_all
  have targets: "t \<notin> set (forward previous)" if "t \<in> {STAGE_INTERRUPTED, STAGE_CANCELLED, STAGE_BLOCKED}" for t
    using that by (cases previous) auto
  show ?thesis
    using leave distinct at entered stopped targets [of target]
    by (auto simp: leave_stage_def working_stage_def special_values TERMINAL_STAGES_def split: if_splits)
qed


lemma attempts_named_moved:
  assumes "attempts_named row" and "rw_id row = run_id"
    and "rw_retry_history row' = rw_retry_history row" "rw_stage_attempt_counts row' = rw_stage_attempt_counts row"
      "rw_active_stage_attempt_id row' = rw_active_stage_attempt_id row" "rw_id row' = rw_id row"
  shows "attempts_named (count_attempt run_id target row')"
proof (cases "target \<in> set RETRYABLE_STAGES")
  case True
  let ?row = "count_attempt run_id target row'"
  have kept: "issued ?row i" if i: "issued row i" for i
  proof -
    from i obtain s n m where "i = stage_attempt_name run_id s n" "rw_stage_attempt_counts row (stage_value s) = Some m" "n \<le> m"
      by (auto simp: issued_def assms(2))
    then show ?thesis using True assms
      by (auto simp: issued_def count_attempt_def Let_def intro!: exI [of _ s] exI [of _ n])
  qed
  moreover have "issued ?row i" if "rw_active_stage_attempt_id ?row = Some i" for i
    using that True assms by (auto simp: issued_def count_attempt_def Let_def)
  ultimately show ?thesis
    using assms(1,3) True by (auto simp: attempts_named_def count_attempt_def Let_def)
next
  case False
  with assms show ?thesis by (simp add: attempts_named_def issued_def count_attempt_def)
qed

lemma sound_transition:
  assumes sound: "sound_runs st" and move: "transition_run run_id target st = Inr (result, st')"
  shows "sound_runs st'"
proof -
  from move obtain row previous n where row: "row_of run_id st = Inr (row, previous, n)" by (auto simp: transition_run_def result_simps)
  from row_of_sound [OF sound row] have old: "sound_row run_id row" "rw_stage row = Some (stage_value previous)"
    "rw_sequence row = Some n" by simp_all
  show ?thesis
  proof (cases "previous = target")
    case True
    with move row sound show ?thesis by (simp add: transition_run_def)
  next
    case False
    with move row obtain row1 where leave: "leave_stage previous target row = Inr row1"
      and st': "st' = st(run_id \<mapsto> Inr (enter_stage previous target (n + 1) (count_attempt run_id target row1)))"
      by (auto simp: transition_run_def result_simps)
    let ?event = "\<lparr>ev_sequence = n + 1, ev_from = stage_value previous, ev_to = stage_value target,
        ev_retry = False, ev_stage_attempt_id = None\<rparr>"
    let ?row = "enter_stage previous target (n + 1) (count_attempt run_id target row1)"
    from leave have same: "rw_id row1 = rw_id row" "rw_history row1 = rw_history row" "rw_retry_history row1 = rw_retry_history row"
      "rw_stage_attempt_counts row1 = rw_stage_attempt_counts row" "rw_active_stage_attempt_id row1 = rw_active_stage_attempt_id row"
      by (auto simp: leave_stage_def split: if_splits)
    have counted: "rw_history (count_attempt run_id target r) = rw_history r" "rw_id (count_attempt run_id target r) = rw_id r"
      "rw_stopped_from (count_attempt run_id target r) = rw_stopped_from r"
      "rw_interrupted_from (count_attempt run_id target r) = rw_interrupted_from r" for r
      by (simp_all add: count_attempt_def Let_def)
    have chained: "well_chained ?row"
      by (rule well_chained_snoc [of row ?event n]) (use old same in \<open>simp_all add: sound_row_def enter_stage_def counted\<close>)
    have "attempts_named (count_attempt run_id target row1)"
      by (rule attempts_named_moved) (use old same in \<open>auto simp: sound_row_def\<close>)
    then have named: "attempts_named ?row" by (simp add: attempts_named_def issued_def enter_stage_def)
    have working: "working_stage ?row = (if target \<in> set (forward previous) then Some (stage_value target) else working_stage row)"
      by (rule working_stage_moved [OF leave False old(2)]) (simp_all add: enter_stage_def counted)
    have path: "forward_path ?row = forward_path row @ (if target \<in> set (forward previous) then [stage_value target] else [])"
      by (subst forward_path_snoc [of _ row ?event]) (simp_all add: enter_stage_def counted same)
    have source: "working_stage row = Some (stage_value previous)"
      "target \<notin> {STAGE_INTERRUPTED, STAGE_CANCELLED, STAGE_BLOCKED}" if "target \<in> set (forward previous)"
      using that old(2) by (cases previous; auto simp: working_stage_def)+
    have "sound_row run_id ?row"
      unfolding sound_row_def using chained named working path source old(1)
      by (auto simp: sound_row_def walks_snoc enter_stage_def counted same)
    with sound st' show ?thesis by (simp add: sound_update)
  qed
qed


lemma sound_retry:
  assumes sound: "sound_runs st" and retry: "retry_stage run_id target reason authorizer st = Inr (row', st')"
  shows "sound_runs st'"
proof -
  from retry obtain row previous n where row: "row_of run_id st = Inr (row, previous, n)"
    and stopped: "previous \<in> {STAGE_INTERRUPTED, STAGE_BLOCKED, STAGE_CANCELLED}"
    and expected: "(if previous = STAGE_INTERRUPTED then rw_interrupted_from row else rw_stopped_from row) = Some (stage_value target)"
    and retryable: "target \<in> set RETRYABLE_STAGES"
    and row': "row' = retried_row run_id target reason authorizer previous (n + 1) row" "st' = st(run_id \<mapsto> Inr row')"
    by (auto simp: retry_stage_def result_simps Let_def split: if_splits)
  from row_of_sound [OF sound row] have old: "sound_row run_id row" "rw_stage row = Some (stage_value previous)"
    "rw_sequence row = Some n" by simp_all
  obtain number where number: "number = (case rw_stage_attempt_counts row (stage_value target) of None \<Rightarrow> 1 | Some n \<Rightarrow> n) + 1"
    by simp
  let ?event = "\<lparr>ev_sequence = n + 1, ev_from = stage_value previous, ev_to = stage_value target,
        ev_retry = True, ev_stage_attempt_id = Some (stage_attempt_name run_id target number)\<rparr>"
  have chained: "well_chained row'"
    by (rule well_chained_snoc [of row ?event n])
      (use old in \<open>simp_all add: sound_row_def row' retried_row_def Let_def number\<close>)
  have kept: "issued row' i" if "issued row i" for i
    using that old(1) by (fastforce simp: issued_def row' retried_row_def Let_def sound_row_def)
  have fresh: "\<not> issued row (stage_attempt_name run_id target number)"
    using old(1) by (auto simp: issued_def number sound_row_def)
  have "issued row' (stage_attempt_name run_id target number)"
    using old(1) by (auto simp: issued_def number row' retried_row_def Let_def sound_row_def)
  with kept fresh old(1) have named: "attempts_named row'"
    by (auto simp: attempts_named_def sound_row_def row' retried_row_def Let_def simp flip: number)
  have normal: "target \<notin> {STAGE_INTERRUPTED, STAGE_CANCELLED, STAGE_BLOCKED}"
    using retryable by (auto simp: RETRYABLE_STAGES_def)
  then have working: "working_stage row' = Some (stage_value target)" "working_stage row = Some (stage_value target)"
    using old(2) stopped expected by (auto simp: working_stage_def row' retried_row_def Let_def special_values split: if_splits)
  have path: "forward_path row' = forward_path row"
    by (subst forward_path_snoc [of _ row ?event]) (use stopped forward_move_values in \<open>auto simp: row' retried_row_def Let_def number forward_move_def\<close>)
  have "sound_row run_id row'"
    unfolding sound_row_def using chained named working path normal old(1)
    by (auto simp: sound_row_def) (auto simp: row' retried_row_def Let_def)
  with sound row' show ?thesis by (simp add: sound_update)
qed

interpretation runs: invariant_system no_runs run_step sound_runs
proof (unfold_locales)
  show "sound_runs st" if "no_runs st" for st
    using that by (simp add: no_runs_def sound_runs_def)
  show "sound_runs st'" if "sound_runs st" "run_step st st'" for st st'
    using that(2,1)
  proof cases
    case (created run_id task_id row)
    then show ?thesis using that(1) sound_update [OF that(1) sound_new_run_row]
      by (auto simp: create_run_def Let_def split: option.splits sum.splits)
  next
    case (moved run_id target result)
    with that(1) show ?thesis by (rule_tac sound_transition)
  next
    case (retried run_id target reason authorizer row)
    with that(1) show ?thesis by (rule_tac sound_retry)
  next
    case (annotated run_id row status remark approval failure ended)
    with that(1) have "sound_row run_id row" by (simp add: sound_runs_def)
    then show ?thesis using annotated(1) sound_update [OF that(1) sound_annotated] by simp
  qed
qed


subsection \<open>Runs on the forward table\<close>

text \<open>What a run at a stage has still to enter before it closes.\<close>

definition MAIN_PATH :: "run_stage list" where
  "MAIN_PATH =
     [INTAKE, SCOPE_VALIDATION, RISK_CLASSIFICATION, AUTHORIZATION_RESOLUTION, PROVIDER_SELECTION,
      WORKTREE_PREPARATION, AUTHOR_EXECUTION, AUTHOR_SELF_VERIFICATION, STAGE_AUDIT, FINAL_VALIDATION,
      APPROVAL_DECISION, EVIDENCE_FINALIZATION, STAGE_CLOSED]"

definition gates_after :: "run_stage \<Rightarrow> run_stage list" where
  "gates_after s =
     (if s = REPAIR_EXECUTION then [POST_REPAIR_VERIFICATION, STAGE_AUDIT] else [])
     @ (if s = POST_REPAIR_VERIFICATION then [STAGE_AUDIT] else [])
     @ tl (dropWhile (\<lambda>t. t \<noteq> (if s \<in> {REPAIR_EXECUTION, POST_REPAIR_VERIFICATION} then STAGE_AUDIT
         else if s \<in> {AUTHORIZED_COMMIT, AUTHORIZED_PUSH} then APPROVAL_DECISION else s)) MAIN_PATH)"

lemma gates_after_forward:
  "t \<in> set (forward s) \<Longrightarrow> subseq (gates_after s) (t # gates_after t)"
  by (cases s) (auto simp: gates_after_def MAIN_PATH_def)

lemma walks_through_gates:
  "walks (stage_value s) path ''closed'' \<Longrightarrow> subseq (map stage_value (gates_after s)) path"
proof (induction path arbitrary: s)
  case Nil
  then have "s = STAGE_CLOSED" by (cases s) auto
  then show ?case by (simp add: gates_after_def MAIN_PATH_def)
next
  case (Cons x path)
  then obtain t where t: "t \<in> set (forward s)" "x = stage_value t" and rest: "walks (stage_value t) path ''closed''"
    by (auto simp: forward_move_def)
  from gates_after_forward [OF t(1)] have "subseq (map stage_value (gates_after s)) (x # map stage_value (gates_after t))"
    using t(2) by (metis list.simps(9) subseq_map)
  also have "subseq \<dots> (x # path)" using Cons.IH [OF rest] by simp
  finally show ?case .
qed

lemma reached_rows_are_sound:
  assumes "no_runs st0" and "reachable run_step st0 st" and "st run_id = Some (Inr row)"
  shows "sound_row run_id row"
  using runs.inv_reachable [OF assms(1,2)] assms(3) by (simp add: sound_runs_def)



text \<open>
Every retry of a run gets an attempt identifier that no other retry of it has, and that differs from the
identifier of the attempt it replaces, whatever interruptions and resumptions come between.
\<close>

theorem retries_have_their_own_attempts:
  assumes "no_runs st0" and "reachable run_step st0 st" and "st run_id = Some (Inr row)"
  shows "distinct (map rt_stage_attempt_id (rw_retry_history row)) \<and>
    (\<forall>e\<in>set (rw_retry_history row). rt_prior_attempt_id e \<noteq> Some (rt_stage_attempt_id e))"
  using reached_rows_are_sound [OF assms] by (auto simp: sound_row_def attempts_named_def)

subsection \<open>An example\<close>

fun transition_all :: "string \<Rightarrow> run_stage list \<Rightarrow> run_store \<Rightarrow> run_store result" where
  "transition_all run_id [] st = ok st"
| "transition_all run_id (target # targets) st =
     bind_result (transition_run run_id target st) (\<lambda>(_, st). transition_all run_id targets st)"

lemma reachable_transition_all:
  "transition_all run_id targets st = Inr st' \<Longrightarrow> reachable run_step st st'"
proof (induction run_id targets st arbitrary: st' rule: transition_all.induct)
  case (2 run_id target targets st)
  then obtain result mid where "transition_run run_id target st = Inr (result, mid)"
    and "transition_all run_id targets mid = Inr st'" by (auto simp: result_simps)
  then show ?case by (metis 2(1) moved reachable_step reachable_trans)
qed (simp add: reachable.start)

text \<open>A run that is interrupted at its repair, stopped, retried, and closed in the end.\<close>

definition EXAMPLE_STOPPED_RUN :: "run_store result" where
  "EXAMPLE_STOPPED_RUN =
     bind_result (create_run ''r'' ''t'' (\<lambda>_. None)) (\<lambda>(_, st).
     transition_all ''r'' [SCOPE_VALIDATION, RISK_CLASSIFICATION, AUTHORIZATION_RESOLUTION, PROVIDER_SELECTION,
       WORKTREE_PREPARATION, AUTHOR_EXECUTION, AUTHOR_SELF_VERIFICATION, STAGE_AUDIT, REPAIR_EXECUTION,
       STAGE_INTERRUPTED, REPAIR_EXECUTION, STAGE_BLOCKED] st)"

definition EXAMPLE_CLOSED_RUN :: "run_store result" where
  "EXAMPLE_CLOSED_RUN =
     bind_result EXAMPLE_STOPPED_RUN (\<lambda>st.
     bind_result (retry_stage ''r'' REPAIR_EXECUTION ''again'' ''owner'' st) (\<lambda>(_, st).
     transition_all ''r'' [POST_REPAIR_VERIFICATION, STAGE_AUDIT, FINAL_VALIDATION, APPROVAL_DECISION,
       EVIDENCE_FINALIZATION, STAGE_CLOSED] st))"

lemmas run_evaluation = transition_run_def retry_stage_def create_run_def new_run_row_def row_of_def leave_stage_def
  count_attempt_def enter_stage_def retried_row_def recovery_check_def TERMINAL_STAGES_def RETRYABLE_STAGES_def Let_def

lemma example_closed:
  "\<exists>st row. EXAMPLE_CLOSED_RUN = Inr st \<and> st ''r'' = Some (Inr row) \<and> rw_stage row = Some (stage_value STAGE_CLOSED) \<and>
     map rt_stage_attempt_id (rw_retry_history row) = [stage_attempt_name ''r'' REPAIR_EXECUTION 3] \<and>
     forward_path row = map stage_value [SCOPE_VALIDATION, RISK_CLASSIFICATION, AUTHORIZATION_RESOLUTION,
       PROVIDER_SELECTION, WORKTREE_PREPARATION, AUTHOR_EXECUTION, AUTHOR_SELF_VERIFICATION, STAGE_AUDIT] @
       stage_value REPAIR_EXECUTION # map stage_value [POST_REPAIR_VERIFICATION, STAGE_AUDIT, FINAL_VALIDATION,
       APPROVAL_DECISION, EVIDENCE_FINALIZATION, STAGE_CLOSED]"
  by (simp add: EXAMPLE_CLOSED_RUN_def EXAMPLE_STOPPED_RUN_def run_evaluation blank_def strip_def lstrip_def is_space_def forward_path_def del: stage_value.simps)

lemma example_reachable:
  assumes "EXAMPLE_CLOSED_RUN = Inr st"
  shows "reachable run_step (\<lambda>_. None) st"
proof -
  note [simp del] = transition_all.simps
  from assms obtain b where b: "EXAMPLE_STOPPED_RUN = Inr b" and rest: "bind_result
      (retry_stage ''r'' REPAIR_EXECUTION ''again'' ''owner'' b) (\<lambda>(_, st). transition_all ''r'' [POST_REPAIR_VERIFICATION,
        STAGE_AUDIT, FINAL_VALIDATION, APPROVAL_DECISION, EVIDENCE_FINALIZATION, STAGE_CLOSED] st) = Inr st"
    unfolding EXAMPLE_CLOSED_RUN_def bind_result_Inr by blast
  from b obtain row a where "create_run ''r'' ''t'' (\<lambda>_. None) = Inr (row, a)" and a: "reachable run_step a b"
    unfolding EXAMPLE_STOPPED_RUN_def bind_result_Inr by (auto dest: reachable_transition_all)
  then have first: "reachable run_step (\<lambda>_. None) b" by (metis created reachable_step reachable_trans)
  from rest obtain row' c where "retry_stage ''r'' REPAIR_EXECUTION ''again'' ''owner'' b = Inr (row', c)"
    and "reachable run_step c st"
    unfolding bind_result_Inr by (auto dest: reachable_transition_all)
  with first show ?thesis by (metis retried reachable_step reachable_trans)
qed



theorem retries_have_their_own_attempts_witness:
  "\<exists>st row e. EXAMPLE_CLOSED_RUN = Inr st \<and> st ''r'' = Some (Inr row) \<and> e \<in> set (rw_retry_history row) \<and>
     rt_prior_attempt_id e \<noteq> Some (rt_stage_attempt_id e)"
proof -
  obtain st row where st: "EXAMPLE_CLOSED_RUN = Inr st" "st ''r'' = Some (Inr row)"
    and "map rt_stage_attempt_id (rw_retry_history row) = [stage_attempt_name ''r'' REPAIR_EXECUTION 3]" using example_closed by auto
  then obtain e where "e \<in> set (rw_retry_history row)" by (cases "rw_retry_history row") auto
  with st show ?thesis
    using retries_have_their_own_attempts [OF _ example_reachable [OF st(1)] st(2)] by (auto simp: no_runs_def)
qed

end
