(* ===== verification/Run_Workflow.thy ===== *)
theory Run_Workflow
  imports Run_Properties
begin

text \<open>
  The coordinator of the desktop application (\<open>keeper/app/workflow.py\<close>) as far as it moves runs: cancelling,
  pausing, resuming, deciding and retrying a run, the observer that turns the engine's events into stages,
  and what a failed worker leaves behind.  An operation returns its result beside the state, which it may
  have changed before it raised.  Events of a thread are flags of the run's entry; the notices are listed.
\<close>

record active_run =
  ar_alive :: bool
  ar_cancel_requested :: bool
  ar_pause_requested :: bool
  ar_approval_ready :: bool
  ar_approval_decision :: "string option"
  ar_cancel_callbacks :: "unit result list"

record coordinator =
  co_runs :: run_store
  co_tasks :: "string \<Rightarrow> bool"
  co_active :: "string \<Rightarrow> active_run option"
  co_notices :: "(string \<times> string \<times> string) list"

definition post_notice :: "string \<Rightarrow> string \<Rightarrow> string \<Rightarrow> coordinator \<Rightarrow> coordinator" where
  "post_notice event title run_id c = c\<lparr>co_notices := co_notices c @ [(event, title, ''Run '' @ run_id)]\<rparr>"

definition set_active :: "string \<Rightarrow> active_run \<Rightarrow> coordinator \<Rightarrow> coordinator" where
  "set_active run_id a c = c\<lparr>co_active := (co_active c)(run_id \<mapsto> a)\<rparr>"

text \<open>\<open>_run\<close>\<close>

definition stored_run :: "string \<Rightarrow> run_store \<Rightarrow> run_row result" where
  "stored_run run_id st = (case st run_id of None \<Rightarrow> raise LookupError ''run not found'' | Some r \<Rightarrow> r)"

definition active_run_of :: "string \<Rightarrow> coordinator \<Rightarrow> active_run result" where
  "active_run_of run_id c =
     (case co_active c run_id of None \<Rightarrow> raise ValueError ''run is not active'' | Some a \<Rightarrow> ok a)"

definition named_stage :: "string \<Rightarrow> run_stage result" where
  "named_stage v = (case stage_named v of None \<Rightarrow> raise ValueError ''value is not a valid RunStage'' | Some s \<Rightarrow> ok s)"

definition move_run :: "string \<Rightarrow> run_stage \<Rightarrow> coordinator \<Rightarrow> unit result \<times> coordinator" where
  "move_run run_id target c =
     (case transition_run run_id target (co_runs c) of
        Inl e \<Rightarrow> (Inl e, c) | Inr (_, st) \<Rightarrow> (ok (), c\<lparr>co_runs := st\<rparr>))"

subsection \<open>Requests\<close>

definition cancel_run :: "string \<Rightarrow> coordinator \<Rightarrow> unit result \<times> coordinator" where
  "cancel_run run_id c =
     (case co_active c run_id of
        None \<Rightarrow> (raise ValueError ''run is not active'', c)
      | Some a \<Rightarrow>
          if \<not> ar_alive a then (raise ValueError ''run is not active'', c)
          else
            (let c = set_active run_id (a\<lparr>ar_cancel_requested := True, ar_approval_ready := True\<rparr>) c in
             case fold_result (\<lambda>_ answer. answer) () (ar_cancel_callbacks a) of
               Inl e \<Rightarrow> (Inl e, c)
             | Inr _ \<Rightarrow>
                 (case move_run run_id STAGE_CANCELLED c of
                    (Inl e, c) \<Rightarrow> (Inl e, c)
                  | (Inr _, c) \<Rightarrow> (ok (), post_notice ''run_cancelled'' ''Run cancelled'' run_id c))))"

definition pause_run :: "string \<Rightarrow> coordinator \<Rightarrow> unit result \<times> coordinator" where
  "pause_run run_id c =
     (case active_run_of run_id c of
        Inl e \<Rightarrow> (Inl e, c)
      | Inr a \<Rightarrow>
          if ar_pause_requested a then (ok (), c)
          else
            (case move_run run_id STAGE_INTERRUPTED (set_active run_id (a\<lparr>ar_pause_requested := True\<rparr>) c) of
               (Inl e, c) \<Rightarrow> (Inl e, c)
             | (Inr _, c) \<Rightarrow> (ok (), post_notice ''workflow_blocked'' ''Workflow paused'' run_id c)))"

definition resume_run :: "string \<Rightarrow> coordinator \<Rightarrow> unit result \<times> coordinator" where
  "resume_run run_id c =
     (case bind_result (active_run_of run_id c) (\<lambda>a.
           bind_result (stored_run run_id (co_runs c)) (\<lambda>row.
           case rw_interrupted_from row of
             None \<Rightarrow> raise ValueError ''run is not paused''
           | Some v \<Rightarrow> raise_if (v = []) ValueError ''run is not paused''
               (bind_result (named_stage v) (\<lambda>s. ok (a, s))))) of
        Inl e \<Rightarrow> (Inl e, c)
      | Inr (a, s) \<Rightarrow>
          (case move_run run_id s c of
             (Inl e, c) \<Rightarrow> (Inl e, c)
           | (Inr _, c) \<Rightarrow> (ok (), set_active run_id (a\<lparr>ar_pause_requested := False\<rparr>) c)))"

text \<open>\<open>approve\<close> and \<open>reject\<close>\<close>

definition decide_run :: "string \<Rightarrow> string \<Rightarrow> string \<Rightarrow> string \<Rightarrow> string \<Rightarrow> coordinator \<Rightarrow> unit result \<times> coordinator" where
  "decide_run now run_id authority decision reason c =
     (case raise_if (blank authority \<or> decision = ''rejected'' \<and> blank reason) ValueError
             ''approval identity and rejection reason are required''
           (bind_result (active_run_of run_id c) (\<lambda>a.
            bind_result (stored_run run_id (co_runs c)) (\<lambda>row.
            raise_if (rw_stage row \<noteq> Some (stage_value APPROVAL_DECISION)) ValueError ''run is not awaiting approval''
            (ok (a, row))))) of
        Inl e \<Rightarrow> (Inl e, c)
      | Inr (a, row) \<Rightarrow>
          (let row = row\<lparr>rw_approval := Some \<lparr>ap_decision = decision, ap_approving_authority = authority,
                 ap_reason = reason, ap_timestamp = now\<rparr>\<rparr>
           in (ok (), set_active run_id (a\<lparr>ar_approval_decision := Some decision, ar_approval_ready := True\<rparr>)
                 (c\<lparr>co_runs := (co_runs c)(run_id \<mapsto> Inr row)\<rparr>))))"

definition approve_run :: "string \<Rightarrow> string \<Rightarrow> string \<Rightarrow> coordinator \<Rightarrow> unit result \<times> coordinator" where
  "approve_run now run_id authority = decide_run now run_id authority ''approved'' []"

definition reject_run :: "string \<Rightarrow> string \<Rightarrow> string \<Rightarrow> string \<Rightarrow> coordinator \<Rightarrow> unit result \<times> coordinator" where
  "reject_run now run_id authority reason = decide_run now run_id authority ''rejected'' reason"

text \<open>The retry is on record before the task is looked up and before an active worker is noticed.\<close>

definition FRESH_RUN :: active_run where
  "FRESH_RUN = \<lparr>ar_alive = True, ar_cancel_requested = False, ar_pause_requested = False,
     ar_approval_ready = False, ar_approval_decision = None, ar_cancel_callbacks = []\<rparr>"

definition selected_stage :: "string option \<Rightarrow> run_row \<Rightarrow> string" where
  "selected_stage stage row =
     (let expected = (if rw_stage row = Some (stage_value STAGE_INTERRUPTED) then rw_interrupted_from row else rw_stopped_from row)
      in case stage of
           Some (c # cs) \<Rightarrow> c # cs
         | _ \<Rightarrow> (case expected of None \<Rightarrow> [] | Some v \<Rightarrow> v))"

definition retry_run ::
    "string \<Rightarrow> string \<Rightarrow> string option \<Rightarrow> string \<Rightarrow> coordinator \<Rightarrow> run_row result \<times> coordinator" where
  "retry_run run_id reason stage authorizer c =
     (case bind_result (stored_run run_id (co_runs c)) (\<lambda>previous.
           let selected = selected_stage stage previous in
           raise_if (selected = []) PermissionError ''failed stage could not be identified''
           (bind_result (named_stage selected) (\<lambda>target.
            bind_result (retry_stage run_id target reason authorizer (co_runs c)) (\<lambda>(current, st).
            ok (previous, current, st))))) of
        Inl e \<Rightarrow> (Inl e, c)
      | Inr (previous, current, st) \<Rightarrow>
          (let c = c\<lparr>co_runs := st\<rparr> in
           case rw_task_id previous of
             None \<Rightarrow> (raise KeyError ''task_id'', c)
           | Some task_id \<Rightarrow>
               if \<not> co_tasks c task_id then (raise LookupError ''task not found'', c)
               else if co_active c run_id \<noteq> None then (raise RuntimeError ''stage retry is already active'', c)
               else (ok current, set_active run_id FRESH_RUN c)))"

subsection \<open>The observer\<close>

definition EVENT_STAGES :: "(string \<times> run_stage) list" where
  "EVENT_STAGES =
     [(''BUILDING'', AUTHOR_EXECUTION), (''SELF_VERIFYING'', AUTHOR_SELF_VERIFICATION),
      (''INDEPENDENT_AUDIT'', STAGE_AUDIT), (''REPAIRING'', REPAIR_EXECUTION),
      (''POST_REPAIR_REVIEWING'', POST_REPAIR_VERIFICATION), (''FINAL_VERIFY'', FINAL_VALIDATION)]"

text \<open>The stage changes that one event of the engine brings.\<close>

definition follow_event :: "string \<Rightarrow> run_store \<Rightarrow> string \<Rightarrow> run_store result" where
  "follow_event run_id st event =
     (case map_of EVENT_STAGES event of
        None \<Rightarrow> ok st
      | Some target \<Rightarrow>
          (case st run_id of
             None \<Rightarrow> raise TypeError ''NoneType object is not subscriptable''
           | Some (Inl e) \<Rightarrow> Inl e
           | Some (Inr row) \<Rightarrow>
               (case rw_stage row of
                  None \<Rightarrow> raise KeyError ''stage''
                | Some v \<Rightarrow>
                    bind_result (named_stage v) (\<lambda>current.
                    bind_result (if target = FINAL_VALIDATION \<and> current = POST_REPAIR_VERIFICATION
                       then bind_result (transition_run run_id STAGE_AUDIT st) (\<lambda>(_, st). ok st) else ok st) (\<lambda>st.
                    bind_result (transition_run run_id target st) (\<lambda>(_, st). ok st))))))"

definition event_notices :: "string \<Rightarrow> string \<Rightarrow> coordinator \<Rightarrow> coordinator" where
  "event_notices run_id event c =
     (let target = map_of EVENT_STAGES event;
          c = (if target = Some REPAIR_EXECUTION then post_notice ''blocking_finding'' ''Critical/High finding'' run_id c else c)
      in if target = Some POST_REPAIR_VERIFICATION then post_notice ''repair_completed'' ''Repair completed'' run_id c else c)"

text \<open>One look at the flags: the call waits, and answers nothing yet, while the run is paused.\<close>

definition observer_call :: "string \<Rightarrow> active_run \<Rightarrow> string \<Rightarrow> coordinator \<Rightarrow> (unit result \<times> coordinator) option" where
  "observer_call run_id flags event c =
     (if ar_cancel_requested flags then Some (raise RuntimeError ''run cancellation requested'', c)
      else if ar_pause_requested flags then None
      else
        (let c = event_notices run_id event c in
         case follow_event run_id (co_runs c) event of
           Inl e \<Rightarrow> Some (Inl e, c) | Inr st \<Rightarrow> Some (ok (), c\<lparr>co_runs := st\<rparr>)))"

definition finish_validation :: "string \<Rightarrow> run_store \<Rightarrow> run_store result" where
  "finish_validation run_id st =
     bind_result (stored_run run_id st) (\<lambda>row.
     case rw_stage row of
       None \<Rightarrow> raise KeyError ''stage''
     | Some v \<Rightarrow>
         bind_result (named_stage v) (\<lambda>current.
         raise_if (current \<noteq> FINAL_VALIDATION) RuntimeError ''orchestrator completed without final validation''
         (bind_result (transition_run run_id APPROVAL_DECISION st) (\<lambda>(_, st). ok st))))"

subsection \<open>A failed worker\<close>

definition add_recovery :: "string \<Rightarrow> run_row \<Rightarrow> run_row" where
  "add_recovery now row =
     row\<lparr>rw_recovery := Some \<lparr>rv_classification = ''recoverable'', rv_previous_process_running = False,
       rv_retry_safe = (case rw_stopped_from row of None \<Rightarrow> [] | Some v \<Rightarrow> v) \<notin>
         set (map stage_value [AUTHORIZED_COMMIT, AUTHORIZED_PUSH, EVIDENCE_FINALIZATION]),
       rv_detected_at = now\<rparr>\<rparr>"

text \<open>What \<open>_execute_guarded\<close> puts on the row when the worker raised \<open>failure\<close>.\<close>

definition record_failure :: "string \<Rightarrow> string \<Rightarrow> string \<Rightarrow> run_store \<Rightarrow> run_store result" where
  "record_failure now run_id failure st =
     bind_result (stored_run run_id st) (\<lambda>row.
     bind_result (if rw_stage row \<in> {Some (stage_value STAGE_CANCELLED), Some (stage_value STAGE_BLOCKED)} then ok st
        else bind_result (transition_run run_id STAGE_BLOCKED st) (\<lambda>(_, st). ok st)) (\<lambda>st.
     bind_result (stored_run run_id st) (\<lambda>row.
     ok (st(run_id \<mapsto> Inr (add_recovery now (row\<lparr>rw_failure_reason := Some failure, rw_ended_at := Some now\<rparr>)))))))"

end
