(* ===== verification/Launch_Store.thy ===== *)
theory Launch_Store
  imports Transition_Systems Py_Decimal "HOL-Library.Sublist"
begin

text \<open>
  The provider host's durable journal (\<open>provider_host/replay_store.py\<close>): the tables of the SQLite store
  with their keys, and every operation.  Each operation is one transaction, so an exception leaves the
  store as it was.  Paths are POSIX paths; the file system that resolves them, the reading of ISO
  timestamps, the text of the current time and SHA-256 are given by the host.
\<close>

subsection \<open>Paths\<close>

definition is_absolute :: "string \<Rightarrow> bool" where
  "is_absolute p \<longleftrightarrow> p \<noteq> [] \<and> hd p = CHR ''/''"

fun split_on :: "char \<Rightarrow> string \<Rightarrow> string list" where
  "split_on d [] = [[]]"
| "split_on d (c # s) = (let parts = split_on d s in
     if c = d then [] # parts else (c # hd parts) # tl parts)"

text \<open>\<open>os.path.abspath\<close> of an absolute path: empty and dot components vanish, dot-dot takes one back.\<close>

fun push_component :: "string list \<Rightarrow> string \<Rightarrow> string list" where
  "push_component done part =
     (if part = [] \<or> part = ''.'' then done
      else if part = ''..'' then butlast done
      else done @ [part])"

definition components :: "string \<Rightarrow> string list" where
  "components p = foldl push_component [] (split_on (CHR ''/'') p)"

definition join_path :: "string list \<Rightarrow> string" where
  "join_path cs = (if cs = [] then ''/'' else concat (map (\<lambda>c. CHR ''/'' # c) cs))"

text \<open>Exactly two leading slashes are kept.\<close>

definition abspath :: "string \<Rightarrow> string" where
  "abspath p =
     (if take 2 p = ''//'' \<and> take 3 p \<noteq> ''///'' then CHR ''/'' # join_path (components p) else join_path (components p))"

definition commonpath :: "string \<Rightarrow> string \<Rightarrow> string" where
  "commonpath l r = join_path (longest_common_prefix (filter (\<lambda>c. c \<noteq> []) (split_on (CHR ''/'') l))
     (filter (\<lambda>c. c \<noteq> []) (split_on (CHR ''/'') r)))"

definition paths_overlap :: "string \<Rightarrow> string \<Rightarrow> bool" where
  "paths_overlap left right =
     (let left_path = abspath left; right_path = abspath right;
          common = commonpath left_path right_path
      in common \<in> {left_path, right_path})"

subsection \<open>The store\<close>

datatype launch_state = CLAIMED | STARTED | RUNNING | UNCERTAIN | COMPLETED | FAILED | CANCELLED

fun parse_launch_state :: "string \<Rightarrow> launch_state option" where
  "parse_launch_state s =
     map_of [(''CLAIMED'', CLAIMED), (''STARTED'', STARTED), (''RUNNING'', RUNNING), (''UNCERTAIN'', UNCERTAIN),
       (''COMPLETED'', COMPLETED), (''FAILED'', FAILED), (''CANCELLED'', CANCELLED)] s"

fun launch_transitions :: "launch_state \<Rightarrow> launch_state list" where
  "launch_transitions CLAIMED = [STARTED, FAILED, UNCERTAIN]"
| "launch_transitions STARTED = [RUNNING, FAILED, CANCELLED, UNCERTAIN]"
| "launch_transitions RUNNING = [COMPLETED, FAILED, CANCELLED, UNCERTAIN]"
| "launch_transitions UNCERTAIN = []"
| "launch_transitions COMPLETED = []"
| "launch_transitions FAILED = []"
| "launch_transitions CANCELLED = []"

definition launch_active :: "launch_state \<Rightarrow> bool" where
  "launch_active s \<longleftrightarrow> s \<in> {CLAIMED, STARTED, RUNNING, UNCERTAIN}"

record replay_row =
  rr_authority_id :: string
  rr_nonce :: string
  rr_sequence :: int
  rr_expires_at :: string

record launch_row =
  lr_launch_id :: string
  lr_authority_attempt_id :: string
  lr_envelope_digest :: string
  lr_workspace_path :: string
  lr_state :: launch_state
  lr_detail :: string
  lr_updated_at :: string

record message_row =
  mr_channel :: string
  mr_authority_id :: string
  mr_nonce :: string
  mr_sequence :: int
  mr_expires_at :: string

record host_row =
  hr_state :: string
  hr_detail :: string
  hr_updated_at :: string

record binding_row =
  br_payload :: string
  br_payload_hash :: string
  br_updated_at :: string

record host_store =
  hs_replay :: "replay_row list"
  hs_launches :: "launch_row list"
  hs_messages :: "message_row list"
  hs_host_state :: "host_row option"
  hs_binding :: "binding_row option"
  hs_schema_version :: "string option"

record host =
  ho_fromisoformat :: "string \<Rightarrow> py_datetime option"
  ho_resolve :: "string \<Rightarrow> string option"
  ho_now :: string
  ho_sha256 :: "string \<Rightarrow> string"

definition parse_utc :: "host \<Rightarrow> string \<Rightarrow> instant result" where
  "parse_utc h val =
     (case ho_fromisoformat h val of
        None \<Rightarrow> raise PermissionError ''Provider Host timestamp is invalid''
      | Some (Naive t) \<Rightarrow> raise PermissionError ''Provider Host timestamp is not UTC-aware''
      | Some (Aware t) \<Rightarrow> ok t)"

definition canonical_workspace :: "host \<Rightarrow> string \<Rightarrow> string result" where
  "canonical_workspace h val =
     raise_if (val = [] \<or> CHR 0x00 \<in> set val) PermissionError ''Provider Host workspace is invalid''
     (raise_if (\<not> is_absolute val) PermissionError ''Provider Host workspace is not absolute''
     (case ho_resolve h val of
        None \<Rightarrow> raise PermissionError ''Provider Host workspace cannot be resolved''
      | Some resolved \<Rightarrow>
          raise_if (abspath val \<noteq> resolved) PermissionError ''Provider Host workspace is not canonical''
          (ok resolved)))"

text \<open>The inserts, with the keys of the tables; a Python integer must fit SQLite's 64 bits.\<close>

definition sql_integer :: "int \<Rightarrow> bool" where
  "sql_integer n \<longleftrightarrow> - (2 ^ 63) \<le> n \<and> n < 2 ^ 63"

definition insert_replay :: "replay_row \<Rightarrow> host_store \<Rightarrow> host_store result" where
  "insert_replay row st =
     raise_if (\<not> sql_integer (rr_sequence row)) OverflowError ''Python int too large to convert to SQLite INTEGER''
     (raise_if (rr_nonce row \<in> rr_nonce ` set (hs_replay st)) IntegrityError ''UNIQUE constraint failed: replay.nonce''
     (raise_if ((rr_authority_id row, rr_sequence row) \<in> (\<lambda>r. (rr_authority_id r, rr_sequence r)) ` set (hs_replay st))
        IntegrityError ''UNIQUE constraint failed: replay.authority_id, replay.sequence''
     (ok (st\<lparr>hs_replay := hs_replay st @ [row]\<rparr>))))"

definition insert_launch :: "launch_row \<Rightarrow> host_store \<Rightarrow> host_store result" where
  "insert_launch row st =
     raise_if (lr_launch_id row \<in> lr_launch_id ` set (hs_launches st)) IntegrityError
       ''UNIQUE constraint failed: launches.launch_id''
     (raise_if (lr_authority_attempt_id row \<in> lr_authority_attempt_id ` set (hs_launches st)) IntegrityError
       ''UNIQUE constraint failed: launches.authority_attempt_id''
     (ok (st\<lparr>hs_launches := hs_launches st @ [row]\<rparr>)))"

definition insert_message :: "message_row \<Rightarrow> host_store \<Rightarrow> host_store result" where
  "insert_message row st =
     raise_if (\<not> sql_integer (mr_sequence row)) OverflowError ''Python int too large to convert to SQLite INTEGER''
     (raise_if (mr_nonce row \<in> mr_nonce ` set (hs_messages st)) IntegrityError
        ''UNIQUE constraint failed: message_replay.nonce''
     (raise_if ((mr_channel row, mr_authority_id row, mr_sequence row) \<in>
          (\<lambda>r. (mr_channel r, mr_authority_id r, mr_sequence r)) ` set (hs_messages st))
        IntegrityError ''UNIQUE constraint failed: message_replay.channel, message_replay.authority_id''
     (ok (st\<lparr>hs_messages := hs_messages st @ [row]\<rparr>))))"

text \<open>\<open>SELECT MAX(sequence)\<close>: nothing when no row matches.\<close>

definition max_sequence :: "int list \<Rightarrow> int option" where
  "max_sequence ns = (if ns = [] then None else Some (Max (set ns)))"

definition stale_sequence :: "int list \<Rightarrow> int \<Rightarrow> bool" where
  "stale_sequence ns sequence = (case max_sequence ns of None \<Rightarrow> False | Some prior \<Rightarrow> sequence \<le> prior)"

subsection \<open>Claims\<close>

record launch_claim =
  lc_authority_id :: string
  lc_nonce :: string
  lc_sequence :: int
  lc_issued_at :: string
  lc_expires_at :: string
  lc_now :: instant
  lc_maximum_ttl :: duration
  lc_maximum_future_skew :: duration
  lc_launch_id :: string
  lc_authority_attempt_id :: string
  lc_envelope_digest :: string
  lc_workspace_path :: string

definition claim_launch :: "host \<Rightarrow> launch_claim \<Rightarrow> host_store \<Rightarrow> host_store result" where
  "claim_launch h c st =
     bind_result (parse_utc h (lc_issued_at c)) (\<lambda>issued.
     bind_result (parse_utc h (lc_expires_at c)) (\<lambda>expires.
     raise_if (lc_now c + lc_maximum_future_skew c < issued) PermissionError
       ''Provider Host launch was issued in the future''
     (raise_if (expires \<le> lc_now c) PermissionError ''Provider Host launch is expired''
     (raise_if (lc_maximum_ttl c < expires - issued) PermissionError ''Provider Host launch TTL exceeds policy''
     (bind_result (canonical_workspace h (lc_workspace_path c)) (\<lambda>workspace.
     raise_if (lc_nonce c \<in> rr_nonce ` set (hs_replay st)) PermissionError ''Provider Host nonce is replayed''
     (raise_if (stale_sequence [rr_sequence r. r \<leftarrow> hs_replay st, rr_authority_id r = lc_authority_id c] (lc_sequence c))
        PermissionError ''Provider Host sequence is stale''
     (raise_if (\<exists>r\<in>set (hs_launches st). lr_launch_id r = lc_launch_id c \<or>
          lr_authority_attempt_id r = lc_authority_attempt_id c) PermissionError ''Provider Host launch is duplicated''
     (raise_if (\<exists>r\<in>set (hs_launches st). launch_active (lr_state r) \<and>
          paths_overlap (lr_workspace_path r) workspace) PermissionError ''Provider Host workspace overlaps''
     (bind_result (insert_replay \<lparr>rr_authority_id = lc_authority_id c, rr_nonce = lc_nonce c,
          rr_sequence = lc_sequence c, rr_expires_at = lc_expires_at c\<rparr> st) (\<lambda>st'.
      insert_launch \<lparr>lr_launch_id = lc_launch_id c, lr_authority_attempt_id = lc_authority_attempt_id c,
          lr_envelope_digest = lc_envelope_digest c, lr_workspace_path = workspace, lr_state = CLAIMED,
          lr_detail = [], lr_updated_at = ho_now h\<rparr> st')))))))))))"

record peer_message =
  pm_channel :: string
  pm_authority_id :: string
  pm_nonce :: string
  pm_sequence :: int
  pm_issued_at :: string
  pm_expires_at :: string
  pm_now :: instant
  pm_maximum_ttl :: duration
  pm_maximum_future_skew :: duration

definition claim_peer_message :: "host \<Rightarrow> peer_message \<Rightarrow> host_store \<Rightarrow> host_store result" where
  "claim_peer_message h m st =
     raise_if (pm_channel m = [] \<or> pm_nonce m = [] \<or> pm_sequence m \<le> 0) PermissionError
       ''Provider Host peer message is invalid''
     (bind_result (parse_utc h (pm_issued_at m)) (\<lambda>issued.
     bind_result (parse_utc h (pm_expires_at m)) (\<lambda>expires.
     raise_if (pm_now m + pm_maximum_future_skew m < issued) PermissionError
       ''Provider Host peer message is future-issued''
     (raise_if (expires \<le> pm_now m \<or> pm_maximum_ttl m < expires - issued) PermissionError
       ''Provider Host peer message lifetime is invalid''
     (raise_if (stale_sequence [mr_sequence r. r \<leftarrow> hs_messages st,
          mr_channel r = pm_channel m \<and> mr_authority_id r = pm_authority_id m] (pm_sequence m)) PermissionError
        ''Provider Host peer message is stale''
     (case insert_message \<lparr>mr_channel = pm_channel m, mr_authority_id = pm_authority_id m, mr_nonce = pm_nonce m,
          mr_sequence = pm_sequence m, mr_expires_at = pm_expires_at m\<rparr> st of
        Inr st' \<Rightarrow> ok st'
      | Inl e \<Rightarrow> if err_class e = IntegrityError
          then raise PermissionError ''Provider Host peer message is replayed'' else Inl e))))))"

subsection \<open>Launch states\<close>

definition store_transition ::
    "host \<Rightarrow> string \<Rightarrow> string list \<Rightarrow> string \<Rightarrow> string \<Rightarrow> host_store \<Rightarrow> host_store result" where
  "store_transition h launch_id expected_states target detail st =
     (case (parse_launch_state target, those (map parse_launch_state expected_states)) of
        (Some target_state, Some expected) \<Rightarrow>
          raise_if (\<exists>s\<in>set expected. target_state \<notin> set (launch_transitions s)) ValueError
            ''Provider Host launch state transition is invalid''
          (let hit = (\<lambda>r. lr_launch_id r = launch_id \<and> lr_state r \<in> set expected) in
           raise_if (length (filter hit (hs_launches st)) \<noteq> 1) PermissionError
             ''Provider Host state transition rejected''
           (ok (st\<lparr>hs_launches := map (\<lambda>r. if hit r then
              r\<lparr>lr_state := target_state, lr_detail := take 500 detail, lr_updated_at := ho_now h\<rparr> else r)
              (hs_launches st)\<rparr>)))
      | _ \<Rightarrow> raise ValueError ''Provider Host launch state is invalid'')"

definition in_flight :: "launch_state \<Rightarrow> bool" where
  "in_flight s \<longleftrightarrow> s \<in> {CLAIMED, STARTED, RUNNING}"

definition recover_uncertain :: "host \<Rightarrow> string \<Rightarrow> host_store \<Rightarrow> host_store \<times> nat" where
  "recover_uncertain h reason st =
     (st\<lparr>hs_launches := map (\<lambda>r. if in_flight (lr_state r) then
         r\<lparr>lr_state := UNCERTAIN, lr_detail := take 500 reason, lr_updated_at := ho_now h\<rparr> else r) (hs_launches st)\<rparr>,
      length (filter (\<lambda>r. in_flight (lr_state r)) (hs_launches st)))"

definition get_launch :: "string \<Rightarrow> host_store \<Rightarrow> launch_row result" where
  "get_launch launch_id st =
     (case find (\<lambda>r. lr_launch_id r = launch_id) (hs_launches st) of
        None \<Rightarrow> raise KeyError launch_id | Some r \<Rightarrow> ok r)"

definition list_active :: "host_store \<Rightarrow> launch_row list" where
  "list_active st = sort_key lr_launch_id (filter (\<lambda>r. launch_active (lr_state r)) (hs_launches st))"

subsection \<open>Host state, binding and schema\<close>

definition HOST_STATES :: "string list" where
  "HOST_STATES = [''STARTING'', ''READY'', ''PREPARING'', ''CLAIMED'', ''STARTED'', ''RUNNING'', ''LOCKED'',
     ''DRAINING'', ''STOPPED'', ''STALE'']"

definition set_host_state :: "host \<Rightarrow> string \<Rightarrow> string \<Rightarrow> host_store \<Rightarrow> host_store result" where
  "set_host_state h state detail st =
     raise_if (state \<notin> set HOST_STATES) ValueError ''Provider Host lifecycle state is invalid''
     (ok (st\<lparr>hs_host_state := Some \<lparr>hr_state = state, hr_detail = take 500 detail, hr_updated_at = ho_now h\<rparr>\<rparr>))"

text \<open>The argument is the canonical JSON text of the value.\<close>

definition bind_provider :: "host \<Rightarrow> string \<Rightarrow> host_store \<Rightarrow> host_store result" where
  "bind_provider h serialized st =
     (case hs_binding st of
        Some row \<Rightarrow>
          raise_if (ho_sha256 h (br_payload row) \<noteq> br_payload_hash row) RuntimeError
            ''Provider Host provider binding integrity failed''
          (raise_if (br_payload row \<noteq> serialized) PermissionError ''Provider Host provider binding conflicts'' (ok st))
      | None \<Rightarrow>
          ok (st\<lparr>hs_binding := Some \<lparr>br_payload = serialized, br_payload_hash = ho_sha256 h serialized,
            br_updated_at = ho_now h\<rparr>\<rparr>))"

definition provider_binding :: "host \<Rightarrow> host_store \<Rightarrow> string option result" where
  "provider_binding h st =
     (case hs_binding st of
        None \<Rightarrow> ok None
      | Some row \<Rightarrow>
          raise_if (ho_sha256 h (br_payload row) \<noteq> br_payload_hash row) RuntimeError
            ''Provider Host provider binding integrity failed'' (ok (Some (br_payload row))))"

definition migrate :: "host_store \<Rightarrow> host_store result" where
  "migrate st =
     (case hs_schema_version st of
        None \<Rightarrow> ok (st\<lparr>hs_schema_version := Some ''2''\<rparr>)
      | Some v \<Rightarrow>
          if v = ''1'' then ok (st\<lparr>hs_schema_version := Some ''2''\<rparr>)
          else if v \<noteq> ''2'' then raise RuntimeError ''Provider Host store schema is incompatible''
          else ok st)"

definition empty_store :: host_store where
  "empty_store = \<lparr>hs_replay = [], hs_launches = [], hs_messages = [], hs_host_state = None, hs_binding = None,
     hs_schema_version = None\<rparr>"

subsection \<open>Paths and sequences\<close>

lemma longest_common_prefix_commute: "longest_common_prefix xs ys = longest_common_prefix ys xs"
proof (induction xs arbitrary: ys)
  case (Cons x xs)
  then show ?case by (cases ys) auto
qed (case_tac ys; simp)

lemma paths_overlap_commute: "paths_overlap l r = paths_overlap r l"
  unfolding paths_overlap_def Let_def commonpath_def by (subst longest_common_prefix_commute) auto

lemma stale_sequence_iff: "stale_sequence ns n \<longleftrightarrow> (\<exists>m\<in>set ns. n \<le> m)"
  by (auto simp: stale_sequence_def max_sequence_def Max_ge_iff)

subsection \<open>What each operation does\<close>

lemma parse_utc_error: "parse_utc h s = Inl e \<Longrightarrow> err_class e = PermissionError"
  by (auto simp: parse_utc_def split: option.splits py_datetime.splits)

lemma canonical_workspace_error: "canonical_workspace h s = Inl e \<Longrightarrow> err_class e = PermissionError"
  by (auto simp: canonical_workspace_def result_simps split: option.splits)

definition authority_sequences :: "string \<Rightarrow> host_store \<Rightarrow> int list" where
  "authority_sequences a st = [rr_sequence r. r \<leftarrow> hs_replay st, rr_authority_id r = a]"

lemma authority_sequences_map: "authority_sequences a st = map rr_sequence (filter (\<lambda>r. rr_authority_id r = a) (hs_replay st))"
proof -
  have "[rr_sequence r. r \<leftarrow> rs, rr_authority_id r = a] = map rr_sequence (filter (\<lambda>r. rr_authority_id r = a) rs)" for rs
    by (induction rs) auto
  then show ?thesis by (simp add: authority_sequences_def)
qed

definition claim_admissible :: "launch_claim \<Rightarrow> string \<Rightarrow> host_store \<Rightarrow> bool" where
  "claim_admissible c workspace st \<longleftrightarrow>
     lc_nonce c \<notin> rr_nonce ` set (hs_replay st) \<and>
     (\<forall>m\<in>set (authority_sequences (lc_authority_id c) st). m < lc_sequence c) \<and>
     (\<forall>r\<in>set (hs_launches st). lr_launch_id r \<noteq> lc_launch_id c \<and>
        lr_authority_attempt_id r \<noteq> lc_authority_attempt_id c) \<and>
     (\<forall>r\<in>set (hs_launches st). launch_active (lr_state r) \<longrightarrow> \<not> paths_overlap (lr_workspace_path r) workspace)"

definition claimed_store :: "host \<Rightarrow> launch_claim \<Rightarrow> string \<Rightarrow> host_store \<Rightarrow> host_store" where
  "claimed_store h c workspace st =
     st\<lparr>hs_replay := hs_replay st @ [\<lparr>rr_authority_id = lc_authority_id c, rr_nonce = lc_nonce c,
          rr_sequence = lc_sequence c, rr_expires_at = lc_expires_at c\<rparr>],
        hs_launches := hs_launches st @ [\<lparr>lr_launch_id = lc_launch_id c,
          lr_authority_attempt_id = lc_authority_attempt_id c, lr_envelope_digest = lc_envelope_digest c,
          lr_workspace_path = workspace, lr_state = CLAIMED, lr_detail = [], lr_updated_at = ho_now h\<rparr>]\<rparr>"

text \<open>The checks in front of the inserts make the inserts succeed, but for the width of the number.\<close>

lemma claim_inserts:
  assumes "claim_admissible c workspace st"
  shows "bind_result (insert_replay \<lparr>rr_authority_id = lc_authority_id c, rr_nonce = lc_nonce c,
          rr_sequence = lc_sequence c, rr_expires_at = lc_expires_at c\<rparr> st) (insert_launch \<lparr>lr_launch_id = lc_launch_id c,
          lr_authority_attempt_id = lc_authority_attempt_id c, lr_envelope_digest = lc_envelope_digest c,
          lr_workspace_path = workspace, lr_state = CLAIMED, lr_detail = [], lr_updated_at = ho_now h\<rparr>) =
    (if sql_integer (lc_sequence c) then ok (claimed_store h c workspace st)
     else raise OverflowError ''Python int too large to convert to SQLite INTEGER'')"
proof -
  have "(lc_authority_id c, lc_sequence c) \<notin> (\<lambda>r. (rr_authority_id r, rr_sequence r)) ` set (hs_replay st)"
    using assms by (auto simp: claim_admissible_def authority_sequences_def)
  with assms show ?thesis
    by (auto simp: claim_admissible_def insert_replay_def insert_launch_def claimed_store_def raise_if_def)
qed

lemma claim_launch_cases:
  obtains (refused) e where "claim_launch h c st = Inl e" "err_class e = PermissionError"
  | (reaches) workspace where "canonical_workspace h (lc_workspace_path c) = Inr workspace"
      "claim_admissible c workspace st"
      "claim_launch h c st = (if sql_integer (lc_sequence c) then ok (claimed_store h c workspace st)
         else raise OverflowError ''Python int too large to convert to SQLite INTEGER'')"
proof (cases "parse_utc h (lc_issued_at c)")
  case (Inl e)
  then show ?thesis using refused parse_utc_error [OF Inl] by (simp add: claim_launch_def)
next
  case issued: (Inr issued)
  show ?thesis
  proof (cases "parse_utc h (lc_expires_at c)")
    case (Inl e)
    then show ?thesis using refused parse_utc_error [OF Inl] issued by (simp add: claim_launch_def)
  next
    case expires: (Inr expires)
    show ?thesis
    proof (cases "canonical_workspace h (lc_workspace_path c)")
      case (Inl e)
      then have "\<exists>e. claim_launch h c st = Inl e \<and> err_class e = PermissionError"
        using canonical_workspace_error [OF Inl] issued expires by (simp add: claim_launch_def raise_if_def)
      with refused show ?thesis by blast
    next
      case (Inr workspace)
      show ?thesis
      proof (cases "claim_launch h c st = bind_result (insert_replay \<lparr>rr_authority_id = lc_authority_id c,
          rr_nonce = lc_nonce c, rr_sequence = lc_sequence c, rr_expires_at = lc_expires_at c\<rparr> st)
          (insert_launch \<lparr>lr_launch_id = lc_launch_id c,
          lr_authority_attempt_id = lc_authority_attempt_id c, lr_envelope_digest = lc_envelope_digest c,
          lr_workspace_path = workspace, lr_state = CLAIMED, lr_detail = [], lr_updated_at = ho_now h\<rparr>) \<and>
          claim_admissible c workspace st")
        case True
        then show ?thesis using reaches [OF Inr] claim_inserts by metis
      next
        case False
        then have "\<exists>e. claim_launch h c st = Inl e \<and> err_class e = PermissionError"
          using issued expires Inr
          by (auto simp: claim_launch_def raise_if_def claim_admissible_def authority_sequences_def [symmetric]
              stale_sequence_iff not_le split: if_splits)
        with refused show ?thesis by blast
      qed
    qed
  qed
qed

lemma claim_launch_ok:
  assumes "claim_launch h c st = Inr st'"
  obtains workspace where "canonical_workspace h (lc_workspace_path c) = Inr workspace"
    "claim_admissible c workspace st" "st' = claimed_store h c workspace st"
  using assms by (cases rule: claim_launch_cases [of h c st]) (auto split: if_splits)

lemma claim_peer_message_ok:
  assumes "claim_peer_message h m st = Inr st'"
  shows "\<exists>row. st' = st\<lparr>hs_messages := hs_messages st @ [row]\<rparr> \<and> mr_nonce row \<notin> mr_nonce ` set (hs_messages st) \<and>
     mr_nonce row = pm_nonce m \<and> mr_sequence row = pm_sequence m \<and> mr_channel row = pm_channel m \<and>
     mr_authority_id row = pm_authority_id m \<and>
     (\<forall>r\<in>set (hs_messages st). mr_channel r = pm_channel m \<and> mr_authority_id r = pm_authority_id m \<longrightarrow>
        mr_sequence r < pm_sequence m)"
  using assms
  by (auto simp: claim_peer_message_def result_simps insert_message_def stale_sequence_iff not_le raise_if_def
      split: sum.splits if_splits)

text \<open>A launch as it was and as it is later.\<close>

inductive state_path :: "launch_state \<Rightarrow> launch_state \<Rightarrow> bool" where
  path_refl: "state_path s s"
| path_step: "state_path s t \<Longrightarrow> u \<in> set (launch_transitions t) \<Longrightarrow> state_path s u"

lemma state_path_trans: "state_path t u \<Longrightarrow> state_path s t \<Longrightarrow> state_path s u"
  by (induction rule: state_path.induct) (auto intro: state_path.intros)

definition final_state :: "launch_state \<Rightarrow> bool" where
  "final_state s \<longleftrightarrow> launch_transitions s = []"

definition row_evolves :: "launch_row \<Rightarrow> launch_row \<Rightarrow> bool" where
  "row_evolves r r' \<longleftrightarrow> lr_launch_id r' = lr_launch_id r \<and>
     lr_authority_attempt_id r' = lr_authority_attempt_id r \<and> lr_envelope_digest r' = lr_envelope_digest r \<and>
     lr_workspace_path r' = lr_workspace_path r \<and> state_path (lr_state r) (lr_state r') \<and>
     (final_state (lr_state r) \<longrightarrow> r' = r)"

lemma row_evolves_refl: "row_evolves r r"
  by (simp add: row_evolves_def path_refl)

lemma row_evolves_trans: "row_evolves r s \<Longrightarrow> row_evolves s t \<Longrightarrow> row_evolves r t"
  by (auto simp: row_evolves_def intro: state_path_trans)

text \<open>Both updates of launches change some rows along one transition.\<close>

lemma transition_updates:
  assumes "store_transition h i expected target detail st = Inr st'"
  obtains f where "st' = st\<lparr>hs_launches := map f (hs_launches st)\<rparr>" "\<And>r. row_evolves r (f r)"
    "\<And>r. lr_state (f r) = lr_state r \<or> lr_state (f r) \<in> set (launch_transitions (lr_state r))"
proof -
  from assms obtain ts es where parse: "parse_launch_state target = Some ts" "those (map parse_launch_state expected) = Some es"
    and allowed: "\<And>s. s \<in> set es \<Longrightarrow> ts \<in> set (launch_transitions s)"
    and st': "st' = st\<lparr>hs_launches := map (\<lambda>r. if lr_launch_id r = i \<and> lr_state r \<in> set es then
              r\<lparr>lr_state := ts, lr_detail := take 500 detail, lr_updated_at := ho_now h\<rparr> else r) (hs_launches st)\<rparr>"
    unfolding store_transition_def Let_def by (auto split: option.splits)
  show ?thesis
  proof (rule that [OF st'])
    fix r
    show "row_evolves r (if lr_launch_id r = i \<and> lr_state r \<in> set es then
        r\<lparr>lr_state := ts, lr_detail := take 500 detail, lr_updated_at := ho_now h\<rparr> else r)"
      using allowed [of "lr_state r"] path_step [OF path_refl, of ts "lr_state r"]
      by (auto simp: row_evolves_def final_state_def path_refl)
  qed (use allowed in auto)
qed

lemma recover_updates:
  obtains f where "fst (recover_uncertain h reason st) = st\<lparr>hs_launches := map f (hs_launches st)\<rparr>"
    "\<And>r. row_evolves r (f r)"
    "\<And>r. lr_state (f r) = lr_state r \<or> lr_state (f r) \<in> set (launch_transitions (lr_state r))"
proof (rule that)
  show "fst (recover_uncertain h reason st) = st\<lparr>hs_launches := map (\<lambda>r. if in_flight (lr_state r) then
      r\<lparr>lr_state := UNCERTAIN, lr_detail := take 500 reason, lr_updated_at := ho_now h\<rparr> else r) (hs_launches st)\<rparr>"
    by (simp add: recover_uncertain_def)
  fix r
  have allowed: "in_flight s \<Longrightarrow> UNCERTAIN \<in> set (launch_transitions s)" for s by (cases s) (auto simp: in_flight_def)
  then show "row_evolves r (if in_flight (lr_state r) then
      r\<lparr>lr_state := UNCERTAIN, lr_detail := take 500 reason, lr_updated_at := ho_now h\<rparr> else r)"
  proof (cases "in_flight (lr_state r)")
    case True
    from allowed [OF this] have "launch_transitions (lr_state r) \<noteq> []" "state_path (lr_state r) UNCERTAIN"
      using path_step [OF path_refl] by auto
    with True show ?thesis by (simp add: row_evolves_def final_state_def)
  qed (simp add: row_evolves_refl)
  show "lr_state (if in_flight (lr_state r) then
      r\<lparr>lr_state := UNCERTAIN, lr_detail := take 500 reason, lr_updated_at := ho_now h\<rparr> else r) = lr_state r \<or>
    lr_state (if in_flight (lr_state r) then
      r\<lparr>lr_state := UNCERTAIN, lr_detail := take 500 reason, lr_updated_at := ho_now h\<rparr> else r) \<in>
      set (launch_transitions (lr_state r))" using allowed by simp
qed

subsection \<open>Steps and invariant\<close>

text \<open>A step is a successful operation; a refused one leaves the store.\<close>

inductive host_step :: "host_store \<Rightarrow> host_store \<Rightarrow> bool" where
  step_migrate: "migrate st = Inr st' \<Longrightarrow> host_step st st'"
| step_claim: "claim_launch h c st = Inr st' \<Longrightarrow> host_step st st'"
| step_message: "claim_peer_message h m st = Inr st' \<Longrightarrow> host_step st st'"
| step_transition: "store_transition h i expected target detail st = Inr st' \<Longrightarrow> host_step st st'"
| step_recover: "recover_uncertain h reason st = (st', n) \<Longrightarrow> host_step st st'"
| step_host_state: "set_host_state h state detail st = Inr st' \<Longrightarrow> host_step st st'"
| step_bind: "bind_provider h serialized st = Inr st' \<Longrightarrow> host_step st st'"

definition store_inv :: "host_store \<Rightarrow> bool" where
  "store_inv st \<longleftrightarrow>
     distinct (map rr_nonce (hs_replay st)) \<and>
     (\<forall>a. sorted_wrt (<) (authority_sequences a st)) \<and>
     distinct (map lr_launch_id (hs_launches st)) \<and>
     distinct (map lr_authority_attempt_id (hs_launches st)) \<and>
     (\<forall>r\<in>set (hs_launches st). \<forall>r'\<in>set (hs_launches st). lr_launch_id r \<noteq> lr_launch_id r' \<and>
        launch_active (lr_state r) \<and> launch_active (lr_state r') \<longrightarrow>
        \<not> paths_overlap (lr_workspace_path r) (lr_workspace_path r')) \<and>
     distinct (map mr_nonce (hs_messages st))"

lemma store_inv_empty: "store_inv empty_store"
  by (simp add: store_inv_def empty_store_def authority_sequences_def)

lemma active_before: "u \<in> set (launch_transitions s) \<Longrightarrow> launch_active u \<Longrightarrow> launch_active s"
  by (cases s) (auto simp: launch_active_def)

lemma store_inv_update:
  assumes "store_inv st" and "\<And>r. row_evolves r (f r)"
    and "\<And>r. lr_state (f r) = lr_state r \<or> lr_state (f r) \<in> set (launch_transitions (lr_state r))"
  shows "store_inv (st\<lparr>hs_launches := map f (hs_launches st)\<rparr>)"
proof -
  have keys: "lr_launch_id (f r) = lr_launch_id r" "lr_authority_attempt_id (f r) = lr_authority_attempt_id r"
    "lr_workspace_path (f r) = lr_workspace_path r" for r
    using assms(2) [of r] by (auto simp: row_evolves_def)
  have active: "launch_active (lr_state (f r)) \<Longrightarrow> launch_active (lr_state r)" for r
    using assms(3) [of r] active_before by auto
  have "lr_launch_id \<circ> f = lr_launch_id" "lr_authority_attempt_id \<circ> f = lr_authority_attempt_id"
    by (auto simp: keys)
  with assms(1) active show ?thesis
    by (auto simp: store_inv_def authority_sequences_def keys)
qed

lemma store_inv_claim:
  assumes "store_inv st" and "claim_admissible c workspace st"
  shows "store_inv (claimed_store h c workspace st)"
proof -
  have "authority_sequences a (claimed_store h c workspace st) =
      authority_sequences a st @ (if a = lc_authority_id c then [lc_sequence c] else [])" for a
    by (simp add: authority_sequences_def claimed_store_def)
  then have "sorted_wrt (<) (authority_sequences a (claimed_store h c workspace st))" for a
    using assms by (auto simp: store_inv_def claim_admissible_def sorted_wrt_append)
  moreover have "\<not> paths_overlap workspace (lr_workspace_path r)"
    if "r \<in> set (hs_launches st)" "launch_active (lr_state r)" for r
    using assms(2) that by (simp add: claim_admissible_def paths_overlap_commute [of workspace])
  moreover have "hs_replay (claimed_store h c workspace st) = hs_replay st @ [\<lparr>rr_authority_id = lc_authority_id c,
      rr_nonce = lc_nonce c, rr_sequence = lc_sequence c, rr_expires_at = lc_expires_at c\<rparr>]"
    "hs_messages (claimed_store h c workspace st) = hs_messages st"
    "hs_launches (claimed_store h c workspace st) = hs_launches st @ [\<lparr>lr_launch_id = lc_launch_id c,
      lr_authority_attempt_id = lc_authority_attempt_id c, lr_envelope_digest = lc_envelope_digest c,
      lr_workspace_path = workspace, lr_state = CLAIMED, lr_detail = [], lr_updated_at = ho_now h\<rparr>]"
    by (simp_all add: claimed_store_def)
  ultimately show ?thesis
    using assms by (auto simp: store_inv_def claim_admissible_def)
qed

definition store_evolves :: "host_store \<Rightarrow> host_store \<Rightarrow> bool" where
  "store_evolves st st' \<longleftrightarrow> prefix (hs_replay st) (hs_replay st') \<and> prefix (hs_messages st) (hs_messages st') \<and>
     (\<forall>r\<in>set (hs_launches st). \<exists>r'\<in>set (hs_launches st'). row_evolves r r')"

lemma store_evolves_refl: "store_evolves st st"
  by (auto simp: store_evolves_def intro: row_evolves_refl)

lemma store_evolves_trans: "store_evolves s t \<Longrightarrow> store_evolves t u \<Longrightarrow> store_evolves s u"
  unfolding store_evolves_def by (meson prefix_order.trans row_evolves_trans)

lemma store_evolves_update:
  "(\<And>r. row_evolves r (f r)) \<Longrightarrow> store_evolves st (st\<lparr>hs_launches := map f (hs_launches st)\<rparr>)"
  by (auto simp: store_evolves_def)

lemma host_step_keeps:
  assumes "host_step st st'" and "store_inv st"
  shows "store_inv st' \<and> store_evolves st st'"
  using assms
proof (induction rule: host_step.induct)
  case (step_claim h c st st')
  then obtain workspace where "claim_admissible c workspace st" "st' = claimed_store h c workspace st"
    by (blast elim: claim_launch_ok)
  then show ?case using store_inv_claim [OF step_claim.prems]
    by (auto simp: store_evolves_def claimed_store_def intro: row_evolves_refl)
next
  case (step_message h m st st')
  from claim_peer_message_ok [OF step_message.hyps] step_message.prems show ?case
    by (auto simp: store_evolves_def store_inv_def authority_sequences_def intro: row_evolves_refl)
next
  case (step_transition h i expected target detail st st')
  then show ?case by (metis transition_updates store_inv_update store_evolves_update)
next
  case (step_recover h reason st st' n)
  then show ?case by (metis fst_conv recover_updates store_inv_update store_evolves_update)
next
  case (step_migrate st st')
  then have "store_inv st' = store_inv st" "store_evolves st st' = store_evolves st st"
    by (auto simp: migrate_def store_inv_def store_evolves_def authority_sequences_def split: option.splits if_splits)
  with step_migrate show ?case by (simp add: store_evolves_refl)
next
  case (step_host_state h state detail st st')
  then have "store_inv st' = store_inv st" "store_evolves st st' = store_evolves st st"
    by (auto simp: set_host_state_def store_inv_def store_evolves_def authority_sequences_def)
  with step_host_state show ?case by (simp add: store_evolves_refl)
next
  case (step_bind h serialized st st')
  then have "store_inv st' = store_inv st" "store_evolves st st' = store_evolves st st"
    by (auto simp: bind_provider_def store_inv_def store_evolves_def authority_sequences_def split: option.splits)
  with step_bind show ?case by (simp add: store_evolves_refl)
qed

interpretation journal: history_system "\<lambda>st. st = empty_store" host_step store_inv store_evolves
  by unfold_locales (auto simp: store_inv_empty store_evolves_refl dest: host_step_keeps intro: store_evolves_trans)


subsection \<open>A sample host\<close>

definition sample_host :: host where
  "sample_host = \<lparr>ho_fromisoformat = (\<lambda>s. map_option Aware (map_of [(''t0'', 0), (''t9'', 9)] s)),
     ho_resolve = Some, ho_now = ''now'', ho_sha256 = id\<rparr>"

definition sample_claim :: "string \<Rightarrow> int \<Rightarrow> string \<Rightarrow> string \<Rightarrow> launch_claim" where
  "sample_claim nonce sequence launch path =
     \<lparr>lc_authority_id = ''authority'', lc_nonce = nonce, lc_sequence = sequence, lc_issued_at = ''t0'',
      lc_expires_at = ''t9'', lc_now = 1, lc_maximum_ttl = 10, lc_maximum_future_skew = 0, lc_launch_id = launch,
      lc_authority_attempt_id = launch, lc_envelope_digest = ''d'', lc_workspace_path = path\<rparr>"

definition sample_store :: host_store where
  "sample_store = projr (claim_launch sample_host (sample_claim ''n1'' 1 ''l1'' ''/work/a'') empty_store)"

definition sample_later :: host_store where
  "sample_later = fst (recover_uncertain sample_host ''restart'' sample_store)"

lemma sample_store_claimed:
  "claim_launch sample_host (sample_claim ''n1'' 1 ''l1'' ''/work/a'') empty_store = Inr sample_store"
  by code_simp

lemma sample_store_reachable: "reachable host_step empty_store sample_store"
  by (rule reachable_step, rule step_claim, rule sample_store_claimed)

lemma sample_later_reachable: "reachable host_step sample_store sample_later"
  by (rule reachable_step, rule step_recover [where h = sample_host and reason = "''restart''" and n = 1]) code_simp

subsection \<open>Properties of the journal\<close>

text \<open>
C5: The journal's invariant.  In every state that any sequence of operations can reach, with any arguments
and any failures in between, no nonce was accepted twice, the sequence numbers of each authority are strictly
increasing, no launch or authority attempt is recorded twice, and no two live launches (claimed, started,
running or of uncertain fate) have overlapping workspaces.  Hence the table keys never reject a launch: a
claim is refused with a permission error or, for a number beyond 64 bits, an overflow error.
\<close>

theorem journal_stays_exclusive:
  assumes "reachable host_step empty_store st"
  shows "distinct (map rr_nonce (hs_replay st)) \<and> (\<forall>a. sorted_wrt (<) (authority_sequences a st)) \<and>
    distinct (map lr_launch_id (hs_launches st)) \<and> distinct (map lr_authority_attempt_id (hs_launches st)) \<and>
    (\<forall>r\<in>set (hs_launches st). \<forall>r'\<in>set (hs_launches st). r \<noteq> r' \<and>
       launch_active (lr_state r) \<and> launch_active (lr_state r') \<longrightarrow>
       \<not> paths_overlap (lr_workspace_path r) (lr_workspace_path r')) \<and>
    (\<forall>e. claim_launch h c st = Inl e \<longrightarrow> err_class e = PermissionError \<or>
       err_class e = OverflowError \<and> \<not> sql_integer (lc_sequence c))"
proof -
  from journal.inv_reachable [OF refl assms] have inv: "store_inv st" .
  have ids: "r \<noteq> r' \<Longrightarrow> lr_launch_id r \<noteq> lr_launch_id r'"
    if "r \<in> set (hs_launches st)" "r' \<in> set (hs_launches st)" for r r'
    using inv that by (auto simp: store_inv_def distinct_map inj_on_def)
  have "err_class e = PermissionError \<or> err_class e = OverflowError \<and> \<not> sql_integer (lc_sequence c)"
    if "claim_launch h c st = Inl e" for e
    using that by (cases rule: claim_launch_cases [of h c st]) (auto split: if_splits)
  with inv ids show ?thesis by (simp add: store_inv_def)
qed

theorem journal_stays_exclusive_witness:
  "distinct (map rr_nonce (hs_replay sample_store)) \<and> hs_launches sample_store \<noteq> []"
proof -
  have "hs_launches sample_store \<noteq> []" by code_simp
  with journal_stays_exclusive [OF sample_store_reachable] show ?thesis by blast
qed

text \<open>
C12: No replay.  Once a launch has been claimed, every later state refuses, with a permission error, each
claim that reuses its nonce, its launch id or its authority attempt, or that does not raise the authority's
sequence number, whatever happened in between and whatever the new claim's other fields are.
\<close>

theorem launch_never_replayed:
  assumes "reachable host_step empty_store st" and "claim_launch h c st = Inr st'" and "reachable host_step st' later"
    and "lc_nonce c' = lc_nonce c \<or> lc_launch_id c' = lc_launch_id c \<or>
      lc_authority_attempt_id c' = lc_authority_attempt_id c \<or>
      lc_authority_id c' = lc_authority_id c \<and> lc_sequence c' \<le> lc_sequence c"
  shows "\<exists>e. claim_launch h' c' later = Inl e \<and> err_class e = PermissionError"
proof (cases rule: claim_launch_cases [of h' c' later])
  case (reaches workspace)
  obtain w where st': "st' = claimed_store h c w st" using assms(2) by (rule claim_launch_ok)
  have "store_inv st'"
    using journal.inv_reachable [OF refl assms(1)] journal.inv_step step_claim [OF assms(2)] by blast
  from journal.evolves_reachable [OF assms(3) this] have later: "store_evolves st' later" .
  have "set (hs_replay st') \<subseteq> set (hs_replay later)"
    using later by (simp add: store_evolves_def set_mono_prefix)
  then obtain q where q: "q \<in> set (hs_replay later)" "rr_nonce q = lc_nonce c" "rr_authority_id q = lc_authority_id c"
      "rr_sequence q = lc_sequence c"
    by (auto simp: st' claimed_store_def)
  have "\<exists>r\<in>set (hs_launches later). lr_launch_id r = lc_launch_id c \<and>
      lr_authority_attempt_id r = lc_authority_attempt_id c"
    using later by (auto simp: store_evolves_def st' claimed_store_def row_evolves_def)
  then obtain r where r: "r \<in> set (hs_launches later)" "lr_launch_id r = lc_launch_id c"
      "lr_authority_attempt_id r = lc_authority_attempt_id c" by blast
  have "lc_sequence c \<in> set (authority_sequences (lc_authority_id c) later)"
    using q by (force simp: authority_sequences_map)
  then have "\<not> claim_admissible c' workspace later"
    using assms(4) q(1,2) r unfolding claim_admissible_def by (metis image_eqI not_le)
  with reaches(2) show ?thesis by simp
qed blast

theorem launch_never_replayed_witness:
  "\<exists>e. claim_launch sample_host (sample_claim ''n2'' 1 ''l2'' ''/work/b'') sample_later = Inl e \<and>
     err_class e = PermissionError"
  by (rule launch_never_replayed [OF start sample_store_claimed sample_later_reachable]) (simp add: sample_claim_def)

text \<open>
The life of a launch.  Between two reachable states no launch disappears or changes its identity, digest
or workspace; its state moves only along the declared transitions; and once it is completed, failed,
cancelled or of uncertain fate its row never changes again, so that a later claim for a workspace that
overlaps one of uncertain fate is always refused.
\<close>

theorem launch_lifecycle:
  assumes "reachable host_step empty_store st" and "reachable host_step st later" and "r \<in> set (hs_launches st)"
  shows "\<exists>r'\<in>set (hs_launches later). lr_launch_id r' = lr_launch_id r \<and>
    lr_authority_attempt_id r' = lr_authority_attempt_id r \<and> lr_envelope_digest r' = lr_envelope_digest r \<and>
    lr_workspace_path r' = lr_workspace_path r \<and> state_path (lr_state r) (lr_state r') \<and>
    (lr_state r \<in> {COMPLETED, FAILED, CANCELLED, UNCERTAIN} \<longrightarrow> r' = r) \<and>
    (lr_state r = UNCERTAIN \<and> canonical_workspace h (lc_workspace_path c) = Inr workspace \<and>
       paths_overlap (lr_workspace_path r) workspace \<longrightarrow>
       (\<exists>e. claim_launch h c later = Inl e \<and> err_class e = PermissionError))"
proof -
  from journal.evolves_reachable [OF assms(2) journal.inv_reachable [OF refl assms(1)]] assms(3)
  obtain r' where r': "r' \<in> set (hs_launches later)" "row_evolves r r'" by (auto simp: store_evolves_def)
  have final: "lr_state r \<in> {COMPLETED, FAILED, CANCELLED, UNCERTAIN} \<longrightarrow> r' = r"
    using r'(2) by (auto simp: row_evolves_def final_state_def)
  have "\<exists>e. claim_launch h c later = Inl e \<and> err_class e = PermissionError"
    if u: "lr_state r = UNCERTAIN" "canonical_workspace h (lc_workspace_path c) = Inr workspace"
      "paths_overlap (lr_workspace_path r) workspace"
  proof (cases rule: claim_launch_cases [of h c later])
    case (reaches w)
    with u r' final show ?thesis by (auto simp: claim_admissible_def launch_active_def)
  qed blast
  with r' final show ?thesis by (auto simp: row_evolves_def)
qed

theorem launch_lifecycle_witness:
  "\<exists>r'\<in>set (hs_launches sample_later). lr_launch_id r' = ''l1'' \<and> state_path CLAIMED (lr_state r')"
proof -
  have "hd (hs_launches sample_store) \<in> set (hs_launches sample_store)"
    "lr_launch_id (hd (hs_launches sample_store)) = ''l1''" "lr_state (hd (hs_launches sample_store)) = CLAIMED"
    by code_simp+
  with launch_lifecycle [OF sample_store_reachable sample_later_reachable this(1)] show ?thesis by metis
qed

end
