(* ===== verification/Path_Policies.thy ===== *)
theory Path_Policies
  imports Launch_Store
begin

text \<open>
  The policies a Keeper task runs under (\<open>keeper/policies.py\<close>): safe repository-relative paths, the scope of
  a change, the single-use authorizations of protected capabilities, provider assignment and the
  environment passed to tools; and the files \<open>git status\<close> reports as changed
  (\<open>keeper/workspace.py\<close>).  Paths are pure POSIX paths.
\<close>

subsection \<open>Repository-relative paths\<close>

text \<open>\<open>s.rstrip(" .")\<close> and \<open>s.rstrip("/")\<close>\<close>

definition rstrip_chars :: "char set \<Rightarrow> string \<Rightarrow> string" where
  "rstrip_chars cs s = rev (dropWhile (\<lambda>c. c \<in> cs) (rev s))"

definition pure_parts :: "string \<Rightarrow> string list" where
  "pure_parts s = filter (\<lambda>p. p \<noteq> [] \<and> p \<noteq> ''.'') (split_on (CHR ''/'') s)"

definition join_slash :: "string list \<Rightarrow> string" where
  "join_slash cs = concat (case cs of [] \<Rightarrow> [] | c # rest \<Rightarrow> c # map (\<lambda>r. CHR ''/'' # r) rest)"

text \<open>\<open>PurePosixPath(s).as_posix()\<close> of a relative path\<close>

definition as_posix :: "string list \<Rightarrow> string" where
  "as_posix parts = (if parts = [] then ''.'' else join_slash parts)"

definition DEVICE_NAMES :: "string list" where
  "DEVICE_NAMES = [''CON'', ''PRN'', ''AUX'', ''NUL'',
     ''COM1'', ''COM2'', ''COM3'', ''COM4'', ''COM5'', ''COM6'', ''COM7'', ''COM8'', ''COM9'',
     ''LPT1'', ''LPT2'', ''LPT3'', ''LPT4'', ''LPT5'', ''LPT6'', ''LPT7'', ''LPT8'', ''LPT9'']"

definition unsafe_part :: "string \<Rightarrow> bool" where
  "unsafe_part part \<longleftrightarrow> upper (rstrip_chars {CHR '' '', CHR ''.''} part) \<in> set DEVICE_NAMES \<or>
     part \<noteq> rstrip_chars {CHR '' '', CHR ''.''} part"

function drop_dot_slash :: "string \<Rightarrow> string" where
  "drop_dot_slash s = (if take 2 s = ''./'' then drop_dot_slash (drop 2 s) else s)"
  by pat_completeness auto
termination
proof (relation "measure length")
  show "(drop 2 s, s) \<in> measure length" if "take 2 s = ''./''" for s :: string
    using that by (cases s) auto
qed simp

declare drop_dot_slash.simps [simp del]

definition normalize_relative_path :: "string \<Rightarrow> string result" where
  "normalize_relative_path val =
     (let normalized_input = map (\<lambda>c. if c = CHR 0x5C then CHR ''/'' else c) val;
          parts = pure_parts normalized_input
      in raise_if (val = [] \<or> CHR 0x00 \<in> set val \<or> is_absolute normalized_input \<or> ''..'' \<in> set parts \<or>
             CHR '':'' \<in> set normalized_input \<or> list_ex unsafe_part parts) ValueError ''unsafe repository-relative path''
         (let normalized = drop_dot_slash (as_posix parts) in
          raise_if (normalized = []) ValueError ''empty path is not allowed'' (ok normalized)))"

definition under :: "string \<Rightarrow> string \<Rightarrow> bool" where
  "under path item \<longleftrightarrow> path = item \<or> prefix (item @ ''/'') path"

fun enforce_each :: "string list \<Rightarrow> string list \<Rightarrow> string list \<Rightarrow> unit result" where
  "enforce_each safe_allowed safe_blocked [] = ok ()"
| "enforce_each safe_allowed safe_blocked (raw # changed) =
     bind_result (normalize_relative_path raw) (\<lambda>path.
     raise_if (list_ex (under path) safe_blocked) PermissionError ''changed path is blocked''
     (raise_if (\<not> list_ex (under path) safe_allowed) PermissionError ''changed path is outside allowed scope''
     (enforce_each safe_allowed safe_blocked changed)))"

definition safe_root :: "string \<Rightarrow> string result" where
  "safe_root item = bind_result (normalize_relative_path item) (\<lambda>p. ok (rstrip_chars {CHR ''/''} p))"

definition enforce_path_scope :: "string list \<Rightarrow> string list \<Rightarrow> string list \<Rightarrow> unit result" where
  "enforce_path_scope changed allowed blocked =
     bind_result (map_result safe_root allowed) (\<lambda>safe_allowed.
     bind_result (map_result safe_root blocked) (\<lambda>safe_blocked.
     enforce_each safe_allowed safe_blocked changed))"

text \<open>The lines of \<open>git status --porcelain --untracked-files=all\<close>, each a two-letter code, a blank and a path.\<close>

definition changed_files :: "string list \<Rightarrow> string list" where
  "changed_files lines =
     map (\<lambda>line. map (\<lambda>c. if c = CHR 0x5C then CHR ''/'' else c) (drop 3 line)) (filter (\<lambda>line. 3 < length line) lines)"

subsection \<open>Scopes by components\<close>

text \<open>A path is its components; a root holds it when its components begin with the base's.\<close>

definition slash_free :: "string list \<Rightarrow> bool" where
  "slash_free cs \<longleftrightarrow> (\<forall>c\<in>set cs. c \<noteq> [] \<and> c \<noteq> ''.'' \<and> CHR ''/'' \<notin> set c)"

definition terminated :: "string list \<Rightarrow> string" where
  "terminated cs = concat (map (\<lambda>c. c @ ''/'') cs)"

lemma split_on_nonempty: "split_on d s \<noteq> []"
  by (cases s) (simp_all add: Let_def)

lemma split_on_no_delimiter: "p \<in> set (split_on d s) \<Longrightarrow> d \<notin> set p"
proof (induction s arbitrary: p)
  case (Cons c s)
  with Cons split_on_nonempty [of d s] show ?case by (cases "split_on d s") (auto simp: Let_def split: if_splits)
qed simp

lemma pure_parts_slash_free: "slash_free (pure_parts s)"
  by (auto simp: slash_free_def pure_parts_def dest: split_on_no_delimiter)

lemma join_slash_terminated: "cs \<noteq> [] \<Longrightarrow> join_slash cs @ ''/'' = terminated cs"
proof -
  have "concat (map (\<lambda>r. CHR ''/'' # r) cs) @ ''/'' = ''/'' @ terminated cs" for cs
    by (induction cs) (simp_all add: terminated_def)
  then show "cs \<noteq> [] \<Longrightarrow> join_slash cs @ ''/'' = terminated cs"
    by (cases cs) (simp_all add: join_slash_def terminated_def)
qed

lemma prefix_delimited:
  "d \<notin> set a \<Longrightarrow> d \<notin> set c \<Longrightarrow> prefix (a @ d # x) (c @ d # y) \<longleftrightarrow> a = c \<and> prefix x y"
proof (induction a arbitrary: c)
  case Nil
  then show ?case by (cases c) auto
next
  case (Cons b a)
  then show ?case by (cases c) auto
qed

lemma prefix_terminated:
  "slash_free as \<Longrightarrow> slash_free cs \<Longrightarrow> prefix (terminated as) (terminated cs) \<longleftrightarrow> prefix as cs"
proof (induction as arbitrary: cs)
  case (Cons a as)
  show ?case
  proof (cases cs)
    case Nil
    then show ?thesis by (simp add: terminated_def)
  next
    case (Cons c cs')
    with Cons.prems Cons.IH [of cs'] show ?thesis
      using prefix_delimited [of "CHR ''/''" a c "terminated as" "terminated cs'"]
      by (simp add: terminated_def slash_free_def)
  qed
qed (simp add: terminated_def)

lemma under_terminated: "under p i \<longleftrightarrow> prefix (i @ ''/'') (p @ ''/'')"
  by (auto simp: under_def prefix_snoc)

definition in_scope :: "string list \<Rightarrow> string list \<Rightarrow> bool" where
  "in_scope parts base \<longleftrightarrow> (if base = [] then parts = [] else prefix base parts)"

lemma as_posix_terminated: "as_posix cs @ ''/'' = terminated (if cs = [] then [''.''] else cs)"
  by (simp add: as_posix_def join_slash_terminated) (simp add: terminated_def)

lemma under_as_posix:
  assumes "slash_free cs" and "slash_free base"
  shows "under (as_posix cs) (as_posix base) \<longleftrightarrow> in_scope cs base"
proof (cases "cs = [] \<or> base = []")
  case False
  with assms show ?thesis
    by (simp add: under_terminated as_posix_terminated in_scope_def prefix_terminated)
next
  case True
  have dot: "prefix (terminated [''.'']) (terminated cs) \<longleftrightarrow> False" if "cs \<noteq> []" "slash_free cs" for cs
  proof (cases cs)
    case (Cons c cs')
    with that prefix_delimited [of "CHR ''/''" "''.''" c "[]" "terminated cs'"] show ?thesis
      by (auto simp: terminated_def slash_free_def)
  qed (use that in simp)
  have dot': "prefix (terminated base) (terminated [''.'']) \<longleftrightarrow> False" if "base \<noteq> []" "slash_free base" for base
  proof (cases base)
    case (Cons c cs')
    with that prefix_delimited [of "CHR ''/''" c "''.''" "terminated cs'" "[]"] show ?thesis
      by (auto simp: terminated_def slash_free_def)
  qed (use that in simp)
  from True assms show ?thesis
    by (auto simp: under_terminated as_posix_terminated in_scope_def dot dot')
qed

lemma as_posix_no_dot_slash: "slash_free cs \<Longrightarrow> drop_dot_slash (as_posix cs) = as_posix cs"
proof -
  assume "slash_free cs"
  moreover have "drop_dot_slash ''.'' = ''.''" by (simp add: drop_dot_slash.simps)
  moreover have "take 2 (join_slash cs) \<noteq> ''./''" if "slash_free cs" "cs \<noteq> []"
  proof
    assume "take 2 (join_slash cs) = ''./''"
    then have "prefix (terminated [''.'']) (terminated cs)"
      using join_slash_terminated [OF that(2)] take_is_prefix [of 2 "join_slash cs"]
      by (metis (no_types, lifting) append_Cons append_Nil concat.simps list.simps(8,9) prefix_prefix prefix_def terminated_def append_Nil2 append.assoc)
    then show False
    proof (cases cs)
      case (Cons c cs')
      with \<open>prefix (terminated [''.'']) (terminated cs)\<close> that
        prefix_delimited [of "CHR ''/''" "''.''" c "[]" "terminated cs'"] show ?thesis
        by (auto simp: terminated_def slash_free_def)
    qed (use that in simp)
  qed
  ultimately show ?thesis
    by (cases "cs = []") (simp_all add: as_posix_def drop_dot_slash.simps)
qed

definition slashes :: "string \<Rightarrow> string" where
  "slashes val = map (\<lambda>c. if c = CHR 0x5C then CHR ''/'' else c) val"

definition path_parts :: "string \<Rightarrow> string list" where
  "path_parts val = pure_parts (slashes val)"

definition relative_safe :: "string \<Rightarrow> bool" where
  "relative_safe val \<longleftrightarrow> val \<noteq> [] \<and> CHR 0x00 \<notin> set val \<and> \<not> is_absolute (slashes val) \<and>
     ''..'' \<notin> set (path_parts val) \<and> CHR '':'' \<notin> set (slashes val) \<and> \<not> list_ex unsafe_part (path_parts val)"

lemma normalize_relative_path_closed:
  "normalize_relative_path val =
     (if relative_safe val then ok (as_posix (path_parts val)) else raise ValueError ''unsafe repository-relative path'')"
proof -
  have free: "slash_free (path_parts val)" by (simp add: path_parts_def pure_parts_slash_free)
  have "as_posix cs \<noteq> []" if "slash_free cs" for cs
    using that by (cases cs) (auto simp: as_posix_def join_slash_def slash_free_def)
  with free have "as_posix (path_parts val) \<noteq> []" by blast
  with as_posix_no_dot_slash [OF free] show ?thesis
    unfolding normalize_relative_path_def Let_def slashes_def [symmetric] path_parts_def [symmetric]
    by (auto simp: relative_safe_def raise_if_def)
qed

lemma rstrip_slash_as_posix: "slash_free cs \<Longrightarrow> rstrip_chars {CHR ''/''} (as_posix cs) = as_posix cs"
proof -
  assume free: "slash_free cs"
  have "last (join_slash cs) \<noteq> CHR ''/''" if ne: "cs \<noteq> []"
  proof
    obtain xs x where cs: "cs = xs @ [x]" using ne by (cases cs rule: rev_cases) auto
    have nonempty: "join_slash cs \<noteq> []" using that free by (cases cs) (auto simp: join_slash_def slash_free_def)
    assume "last (join_slash cs) = CHR ''/''"
    with nonempty obtain s where "join_slash cs = s @ ''/''" by (metis append_butlast_last_id)
    then have "terminated cs = s @ ''//''" using join_slash_terminated [OF that] by simp
    with cs have "terminated xs @ x = s @ ''/''" by (simp add: terminated_def)
    moreover from free cs have "x \<noteq> []" "CHR ''/'' \<notin> set x" by (auto simp: slash_free_def)
    then obtain y c where "x = y @ [c]" "c \<noteq> CHR ''/''" by (cases x rule: rev_cases) auto
    ultimately show False by simp
  qed
  then show ?thesis
    by (cases "cs = []"; cases "join_slash cs" rule: rev_cases) (simp_all add: rstrip_chars_def as_posix_def)
qed

lemma safe_root_closed:
  "safe_root item = (if relative_safe item then ok (as_posix (path_parts item))
     else raise ValueError ''unsafe repository-relative path'')"
  by (simp add: safe_root_def normalize_relative_path_closed rstrip_slash_as_posix path_parts_def pure_parts_slash_free)

lemma safe_roots: "map_result safe_root items = Inr bases \<longleftrightarrow>
    list_all relative_safe items \<and> bases = map (\<lambda>i. as_posix (path_parts i)) items"
  by (induction items arbitrary: bases) (auto simp: safe_root_closed bind_result_Inr)

lemma under_list: "list_ex (under (as_posix (path_parts raw))) (map (\<lambda>i. as_posix (path_parts i)) items) \<longleftrightarrow>
    list_ex (\<lambda>i. in_scope (path_parts raw) (path_parts i)) items"
  by (simp add: list_ex_iff under_as_posix path_parts_def pure_parts_slash_free)

lemma enforce_each_ok:
  "enforce_each (map (\<lambda>i. as_posix (path_parts i)) allowed) (map (\<lambda>i. as_posix (path_parts i)) blocked) changed = Inr u \<longleftrightarrow>
     list_all (\<lambda>raw. relative_safe raw \<and> list_ex (\<lambda>i. in_scope (path_parts raw) (path_parts i)) allowed \<and>
       \<not> list_ex (\<lambda>i. in_scope (path_parts raw) (path_parts i)) blocked) changed"
  by (induction changed) (auto simp: normalize_relative_path_closed under_list bind_result_Inr)

text \<open>
C14: a change is in scope exactly when every root and every changed path is a safe relative path (no device
name, drive, dot-dot or trailing dot anywhere), and each changed path lies, component by component, under
an allowed root and under no blocked one: a root never covers a sibling that merely shares its letters.
\<close>

theorem path_scope_is_by_component:
  "enforce_path_scope changed allowed blocked = ok () \<longleftrightarrow>
     list_all relative_safe (allowed @ blocked) \<and>
     list_all (\<lambda>raw. relative_safe raw \<and> list_ex (\<lambda>i. in_scope (path_parts raw) (path_parts i)) allowed \<and>
       \<not> list_ex (\<lambda>i. in_scope (path_parts raw) (path_parts i)) blocked) changed"
  by (auto simp: enforce_path_scope_def bind_result_Inr safe_roots enforce_each_ok)

text \<open>A rename in \<open>git status\<close> is one line, with both names.\<close>

lemma split_on_append:
  "split_on d (s @ t) = butlast (split_on d s) @ (last (split_on d s) @ hd (split_on d t)) # tl (split_on d t)"
proof (induction s)
  case Nil
  with split_on_nonempty [of d t] show ?case by simp
next
  case (Cons c s)
  with Cons split_on_nonempty [of d s] show ?case by (cases "split_on d s") (auto simp: Let_def)
qed

definition renamed_line :: "string \<Rightarrow> string \<Rightarrow> string" where
  "renamed_line old new = ''R  '' @ old @ '' -> '' @ new"

lemma slashes_plain: "CHR 0x5C \<notin> set s \<Longrightarrow> slashes s = s"
  by (auto simp: slashes_def intro: map_idI)

lemma rstrip_append: "rstrip_chars cs d = d \<Longrightarrow> d \<noteq> [] \<Longrightarrow> rstrip_chars cs (s @ d) = s @ d"
proof (cases d rule: rev_cases)
  case (snoc ys y)
  assume "rstrip_chars cs d = d"
  then have "length (rstrip_chars cs d) = Suc (length ys)" by (simp add: snoc)
  then have "y \<notin> cs"
    using length_dropWhile_le [of "\<lambda>c. c \<in> cs" "rev ys"] by (auto simp: rstrip_chars_def snoc split: if_splits)
  then show ?thesis by (simp add: rstrip_chars_def snoc)
qed simp

lemma upper_rename: "upper (''a.py -> '' @ d) = ''A.PY -> '' @ upper d"
proof -
  have "upper ''a.py -> '' = ''A.PY -> ''" by code_simp
  then show ?thesis unfolding upper_def map_append by (rule arg_cong)
qed

text \<open>
The scope check reads a staged rename as a change of the old name alone: moving a file out of the
allowed directory is accepted, whatever plain path it moves to, even a blocked one.
\<close>

theorem renames_leave_the_scope:
  assumes "relative_safe dst" and "\<not> in_scope (path_parts dst) [''keeper'']" and "CHR 0x5C \<notin> set dst" and "path_parts dst = split_on (CHR ''/'') dst"
  shows "enforce_path_scope (changed_files [renamed_line ''keeper/a.py'' dst]) [''keeper/''] [dst] = ok ()"
proof -
  obtain d ds where dst: "split_on (CHR ''/'') dst = d # ds" using split_on_nonempty by (metis list.exhaust)
  have line: "changed_files [renamed_line ''keeper/a.py'' dst] = [''keeper/a.py -> '' @ dst]"
    using assms(3) by (simp add: changed_files_def renamed_line_def slashes_plain slashes_def [symmetric])
  have plain: "slashes (''keeper/a.py -> '' @ dst) = ''keeper/a.py -> '' @ dst"
    using assms(3) by (intro slashes_plain) simp
  have split_line: "split_on (CHR ''/'') (''keeper/a.py -> '' @ dst) = ''keeper'' # (''a.py -> '' @ d) # ds"
    by (simp only: split_on_append dst) simp
  have plain_parts: "set (d # ds) \<subseteq> {p. p \<noteq> [] \<and> p \<noteq> ''.''}"
    using assms(4) dst pure_parts_slash_free [of "slashes dst"]
    by (auto simp: path_parts_def slash_free_def)
  then have parts: "path_parts (''keeper/a.py -> '' @ dst) = ''keeper'' # (''a.py -> '' @ d) # ds"
    by (simp only: path_parts_def plain pure_parts_def split_line) (auto simp: filter_id_conv)
  have d: "\<not> unsafe_part d" "d \<noteq> []" "\<not> list_ex unsafe_part ds" "''..'' \<notin> set ds" "CHR '':'' \<notin> set dst" "CHR 0x00 \<notin> set dst"
    using assms(1,4) dst plain_parts slashes_plain [OF assms(3)] by (auto simp: relative_safe_def)
  have "\<not> unsafe_part (''a.py -> '' @ d)"
  proof -
    have kept: "rstrip_chars {CHR '' '', CHR ''.''} (''a.py -> '' @ d) = ''a.py -> '' @ d"
      using d(1,2) by (intro rstrip_append) (auto simp: unsafe_part_def)
    show ?thesis unfolding unsafe_part_def kept upper_rename by (simp add: DEVICE_NAMES_def)
  qed
  moreover have "\<not> unsafe_part ''keeper''" by code_simp
  ultimately have safe: "relative_safe (''keeper/a.py -> '' @ dst)"
    unfolding relative_safe_def plain parts using d by (simp add: is_absolute_def)
  have keeper: "relative_safe ''keeper/''" "path_parts ''keeper/'' = [''keeper'']" by code_simp+
  have "\<not> in_scope (path_parts (''keeper/a.py -> '' @ dst)) (path_parts dst)"
    unfolding parts in_scope_def using assms(2,4) dst by (auto simp: in_scope_def)
  moreover have "in_scope (path_parts (''keeper/a.py -> '' @ dst)) (path_parts ''keeper/'')"
    unfolding parts keeper(2) in_scope_def by simp
  ultimately show ?thesis
    unfolding path_scope_is_by_component line using safe keeper(1) assms(1)
    by simp
qed

text \<open>A safe path of its own directory, spelled without dots, backslashes or empty components.\<close>

theorem renames_leave_the_scope_witness:
  "enforce_path_scope (changed_files [renamed_line ''keeper/a.py'' ''backend/app/b.py'']) [''keeper/''] [''backend/app/b.py''] = ok ()"
  by (rule renames_leave_the_scope; code_simp)

subsection \<open>Protected capabilities\<close>

definition PROTECTED_ACTIONS :: "string list" where
  "PROTECTED_ACTIONS =
     [''force_push'', ''rewrite_history'', ''delete_repository'', ''delete_backup_branch'', ''publish_secret'',
      ''spend_money'', ''create_paid_resource'', ''deploy_production'', ''enable_live_trading'', ''place_real_trade'',
      ''weaken_security'', ''disable_required_test'', ''major_architecture_change'', ''brokerage_access'',
      ''authentication_change'', ''authorization_change'', ''credential_access'', ''financial_operation'',
      ''database_migration'', ''destructive_database_operation'', ''delete_branch'', ''delete_worktree'',
      ''unrestricted_shell'', ''outside_repository_scope'']"

definition KNOWN_CAPABILITIES :: "string list" where
  "KNOWN_CAPABILITIES = PROTECTED_ACTIONS @ [''repository_read'', ''repository_write'', ''run_verification'']"

definition require_unprotected :: "string \<Rightarrow> unit result" where
  "require_unprotected action =
     raise_if (action \<in> set PROTECTED_ACTIONS) PermissionError ''protected action requires explicit authorization'' (ok ())"

text \<open>An entry of the authorization store; a field is \<open>None\<close> when it is missing or not a text.\<close>

record authorization =
  az_capability :: "string option"
  az_task_id :: "string option"
  az_attempt_id :: "string option"
  az_repository :: "string option"
  az_approving_authority :: "string option"
  az_expires_at :: "string option"
  az_consumed_at :: "string option"

definition parse_aware_timestamp :: "(string \<Rightarrow> py_datetime option) \<Rightarrow> string \<Rightarrow> instant result" where
  "parse_aware_timestamp fromiso val =
     (case fromiso (if val \<noteq> [] \<and> last val = CHR ''Z'' then butlast val @ ''+00:00'' else val) of
        None \<Rightarrow> raise ValueError ''Invalid isoformat string''
      | Some (Naive t) \<Rightarrow> raise ValueError ''timestamp must include an unambiguous timezone''
      | Some (Aware t) \<Rightarrow> ok t)"

definition authorizes ::
    "(string \<Rightarrow> py_datetime option) \<Rightarrow> string \<Rightarrow> string \<Rightarrow> string \<Rightarrow> instant \<Rightarrow> string \<Rightarrow> authorization \<Rightarrow> bool" where
  "authorizes fromiso task_id attempt_id repository now_timestamp capability item \<longleftrightarrow>
     az_capability item = Some capability \<and> az_task_id item = Some task_id \<and> az_attempt_id item = Some attempt_id \<and>
     az_repository item = Some repository \<and> az_approving_authority item \<notin> {None, Some []} \<and>
     (case az_expires_at item of None \<Rightarrow> False
      | Some s \<Rightarrow> (case parse_aware_timestamp fromiso s of Inl e \<Rightarrow> False | Inr t \<Rightarrow> now_timestamp < t)) \<and>
     az_consumed_at item = None"

definition validate_capabilities ::
    "(string \<Rightarrow> py_datetime option) \<Rightarrow> string list \<Rightarrow> string \<Rightarrow> string \<Rightarrow> string \<Rightarrow> authorization list \<Rightarrow> string
      \<Rightarrow> authorization list result" where
  "validate_capabilities fromiso capabilities task_id attempt_id repository authorizations now =
     (case parse_aware_timestamp fromiso now of
        Inl e \<Rightarrow> raise PermissionError ''authorization validation time is invalid''
      | Inr now_timestamp \<Rightarrow>
          raise_if (\<not> set capabilities \<subseteq> set KNOWN_CAPABILITIES) PermissionError ''unknown task capabilities''
          (map_result (\<lambda>capability.
             let matches = filter (authorizes fromiso task_id attempt_id repository now_timestamp capability) authorizations
             in raise_if (length matches \<noteq> 1) PermissionError
                  ''protected capability requires one valid scoped authorization'' (ok (hd matches)))
             (filter (\<lambda>c. c \<in> set PROTECTED_ACTIONS) capabilities)))"

text \<open>
  \<open>Keeper._authorize_task\<close>: the matched entries are marked consumed in the store.  An entry that is equal to
  a matched one would have matched too, so equality picks out the matched objects.
\<close>

definition authorize_task ::
    "(string \<Rightarrow> py_datetime option) \<Rightarrow> string list \<Rightarrow> string \<Rightarrow> string \<Rightarrow> string \<Rightarrow> string \<Rightarrow> string
      \<Rightarrow> authorization list \<Rightarrow> authorization list result" where
  "authorize_task fromiso capabilities task_id attempt_id repository now consumed_now authorizations =
     bind_result (validate_capabilities fromiso capabilities task_id attempt_id repository authorizations now) (\<lambda>consumed.
     ok (map (\<lambda>item. if item \<in> set consumed then item\<lparr>az_consumed_at := Some consumed_now\<rparr> else item) authorizations))"

lemma validate_capabilities_ok:
  assumes "validate_capabilities fromiso caps task_id attempt_id repo auths now = Inr consumed"
  shows "\<exists>t. parse_aware_timestamp fromiso now = Inr t \<and> (\<forall>c\<in>set caps. c \<in> set PROTECTED_ACTIONS \<longrightarrow>
    (\<exists>a\<in>set consumed. filter (authorizes fromiso task_id attempt_id repo t c) auths = [a]))"
proof -
  from assms obtain t where t: "parse_aware_timestamp fromiso now = Inr t"
    and all: "map_result (\<lambda>capability.
             let matches = filter (authorizes fromiso task_id attempt_id repo t capability) auths
             in raise_if (length matches \<noteq> 1) PermissionError
                  ''protected capability requires one valid scoped authorization'' (ok (hd matches)))
             (filter (\<lambda>c. c \<in> set PROTECTED_ACTIONS) caps) = Inr consumed"
    by (auto simp: validate_capabilities_def split: sum.splits)
  have "\<exists>a\<in>set consumed. filter (authorizes fromiso task_id attempt_id repo t c) auths = [a]"
    if "c \<in> set caps" "c \<in> set PROTECTED_ACTIONS" for c
  proof -
    from that obtain i where i: "i < length (filter (\<lambda>c. c \<in> set PROTECTED_ACTIONS) caps)"
      "filter (\<lambda>c. c \<in> set PROTECTED_ACTIONS) caps ! i = c"
      using in_set_conv_nth [of c "filter (\<lambda>c. c \<in> set PROTECTED_ACTIONS) caps"] by auto
    from map_result_Inr_nth [OF all i(1)] i(2)
    have "length (filter (authorizes fromiso task_id attempt_id repo t c) auths) = 1"
      and "consumed ! i = hd (filter (authorizes fromiso task_id attempt_id repo t c) auths)" by (simp_all add: Let_def)
    moreover have "consumed ! i \<in> set consumed" using i(1) map_result_Inr_length [OF all] by simp
    ultimately show ?thesis by (auto simp: length_Suc_conv)
  qed
  with t show ?thesis by blast
qed

lemma capabilities_denied:
  assumes "validate_capabilities fromiso caps task_id attempt_id repo auths now = Inl e"
  shows "err_class e = PermissionError"
  using assms by (auto simp: validate_capabilities_def raise_if_Inl Let_def dest!: map_result_Inl split: sum.splits)

text \<open>
C16: an authorization is single-use: once a task attempt has been authorized for a protected capability, the
store it leaves authorizes that attempt for that capability at no later time, alone or with others.
\<close>

theorem authorization_is_single_use:
  assumes "authorize_task fromiso caps task_id attempt_id repo now consumed_now auths = Inr auths'"
    and "parse_aware_timestamp fromiso now = Inr t" and "parse_aware_timestamp fromiso later = Inr t'" and "t \<le> t'"
    and "c \<in> set caps" and "c \<in> set PROTECTED_ACTIONS" and "c \<in> set caps'"
  shows "\<exists>msg. authorize_task fromiso caps' task_id attempt_id repo later consumed_later auths' = raise PermissionError msg"
proof -
  from assms(1) obtain consumed where consumed: "validate_capabilities fromiso caps task_id attempt_id repo auths now = Inr consumed"
    and auths': "auths' = map (\<lambda>item. if item \<in> set consumed then item\<lparr>az_consumed_at := Some consumed_now\<rparr> else item) auths"
    by (auto simp: authorize_task_def bind_result_Inr)
  from validate_capabilities_ok [OF consumed] assms(2,5,6) obtain a where a: "a \<in> set consumed"
    and only: "filter (authorizes fromiso task_id attempt_id repo t c) auths = [a]" by auto
  have "\<not> authorizes fromiso task_id attempt_id repo t' c item" if "item \<in> set auths'" for item
  proof
    assume auth: "authorizes fromiso task_id attempt_id repo t' c item"
    then have "az_consumed_at item = None" by (simp add: authorizes_def)
    with that have item: "item \<in> set auths" "item \<notin> set consumed" by (auto simp: auths' split: if_splits)
    from auth assms(4) have "authorizes fromiso task_id attempt_id repo t c item"
      by (auto simp: authorizes_def split: option.splits sum.splits)
    with item(1) have "item \<in> set (filter (authorizes fromiso task_id attempt_id repo t c) auths)" by simp
    with only a item(2) show False by simp
  qed
  then have "filter (authorizes fromiso task_id attempt_id repo t' c) auths' = []" by (simp add: filter_empty_conv)
  then have "validate_capabilities fromiso caps' task_id attempt_id repo auths' later \<noteq> Inr consumed'" for consumed'
    using validate_capabilities_ok [of fromiso caps' task_id attempt_id repo auths' later consumed'] assms(3,6,7) by fastforce
  then obtain e where e: "validate_capabilities fromiso caps' task_id attempt_id repo auths' later = Inl e"
    by (cases "validate_capabilities fromiso caps' task_id attempt_id repo auths' later") auto
  with capabilities_denied [OF e] show ?thesis
    by (cases e) (simp add: authorize_task_def)
qed

definition EXAMPLE_AUTHORIZATION :: authorization where
  "EXAMPLE_AUTHORIZATION =
     \<lparr>az_capability = Some ''delete_branch'', az_task_id = Some ''t'', az_attempt_id = Some ''t-attempt-1'',
      az_repository = Some ''/r'', az_approving_authority = Some ''f'', az_expires_at = Some ''9'', az_consumed_at = None\<rparr>"

definition EXAMPLE_READER :: "string \<Rightarrow> py_datetime option" where
  "EXAMPLE_READER s = Some (Aware (int (length s) + (if s = ''9'' then 9 else 0)))"

theorem authorization_is_single_use_witness:
  "\<exists>auths' msg. authorize_task EXAMPLE_READER [''delete_branch''] ''t'' ''t-attempt-1'' ''/r'' ''1'' ''1'' [EXAMPLE_AUTHORIZATION] = Inr auths' \<and>
     authorize_task EXAMPLE_READER [''run_verification'', ''delete_branch''] ''t'' ''t-attempt-1'' ''/r'' ''22'' ''22'' auths' = raise PermissionError msg"
proof -
  let ?used = "[EXAMPLE_AUTHORIZATION\<lparr>az_consumed_at := Some ''1''\<rparr>]"
  have first: "authorize_task EXAMPLE_READER [''delete_branch''] ''t'' ''t-attempt-1'' ''/r'' ''1'' ''1'' [EXAMPLE_AUTHORIZATION] = Inr ?used"
    by code_simp
  have times: "parse_aware_timestamp EXAMPLE_READER ''1'' = Inr 1" "parse_aware_timestamp EXAMPLE_READER ''22'' = Inr 2" by code_simp+
  have protected: "''delete_branch'' \<in> set PROTECTED_ACTIONS" by code_simp
  have "\<exists>msg. authorize_task EXAMPLE_READER [''run_verification'', ''delete_branch''] ''t'' ''t-attempt-1'' ''/r'' ''22'' ''22'' ?used = raise PermissionError msg"
    by (rule authorization_is_single_use [OF first times _ _ protected]) simp_all
  with first show ?thesis by blast
qed

subsection \<open>Providers, reasoning and environment\<close>

definition DISABLED_PROVIDERS :: "string list" where
  "DISABLED_PROVIDERS = [''qwen2.5-coder:14b'']"

definition LIMITED_PROVIDER_COMPONENTS :: "string list" where
  "LIMITED_PROVIDER_COMPONENTS =
     [''authentication'', ''authorization'', ''secrets'', ''financial-calculation'', ''risk'', ''trade-validation'',
      ''execution'', ''broker'', ''database-migration'', ''deployment'', ''live-trading'']"

definition validate_provider_assignment :: "string \<Rightarrow> string \<Rightarrow> string \<Rightarrow> string \<Rightarrow> unit result" where
  "validate_provider_assignment provider risk task_size component =
     raise_if (provider \<in> set DISABLED_PROVIDERS) PermissionError ''provider is disabled by policy'' (ok ())"

definition validate_provider_role :: "string \<Rightarrow> string \<Rightarrow> unit result" where
  "validate_provider_role provider role =
     raise_if (provider \<in> set DISABLED_PROVIDERS) PermissionError ''provider is disabled by policy'' (ok ())"

definition is_high_risk_component :: "string \<Rightarrow> bool" where
  "is_high_risk_component component \<longleftrightarrow>
     map (\<lambda>c. if c \<in> {CHR ''_'', CHR '' ''} then CHR ''-'' else c) (lower component) \<in> set LIMITED_PROVIDER_COMPONENTS"

definition is_qwen_provider :: "string \<Rightarrow> bool" where
  "is_qwen_provider provider \<longleftrightarrow> prefix ''qwen'' (lower provider)"

definition select_reasoning_level :: "nat \<Rightarrow> bool \<Rightarrow> nat \<Rightarrow> bool \<Rightarrow> bool \<Rightarrow> bool \<Rightarrow> bool \<Rightarrow> bool \<Rightarrow> string" where
  "select_reasoning_level important_file_count changes_architecture_or_workflow test_failure_count
       qwen_authored_important_area sensitive_area live_or_brokerage unresolved_critical crosses_major_boundaries =
     (if live_or_brokerage \<or> unresolved_critical \<or> crosses_major_boundaries then ''extra-high''
      else if 5 < important_file_count \<or> changes_architecture_or_workflow \<or> 2 \<le> test_failure_count \<or>
          qwen_authored_important_area \<or> sensitive_area then ''high''
      else ''medium'')"

definition SENSITIVE_ENV_MARKERS :: "string list" where
  "SENSITIVE_ENV_MARKERS =
     [''TOKEN'', ''SECRET'', ''PASSWORD'', ''PASSWD'', ''API_KEY'', ''PRIVATE_KEY'', ''COOKIE'', ''CREDENTIAL'']"

definition filtered_environment :: "(string \<times> string) list \<Rightarrow> (string \<times> string) list" where
  "filtered_environment environment =
     filter (\<lambda>(key, val). \<not> list_ex (\<lambda>marker. sublist marker (upper key)) SENSITIVE_ENV_MARKERS) environment"

end
