(* ===== verification/Review_Output.thy ===== *)
theory Review_Output
  imports Prelude
begin

text \<open>
  What Keeper accepts from the agents it runs: the structured output of a provider
  (\<open>keeper/provider_output.py\<close>), the findings of a review and their disposition after a repair
  (\<open>keeper/models/finding.py\<close>, \<open>keeper/reviewer.py\<close>).  JSON values come parsed; the parser, the printer and
  Python's \<open>str\<close> of a value that is not a text are parameters.
\<close>

subsection \<open>JSON values\<close>

text \<open>A float that is not finite is \<open>None\<close>; the keys of an object are distinct.\<close>

datatype json = JNull | JBool bool | JInt int | JFloat "rat option" | JText string | JArray "json list"
  | JObject "(string \<times> json) list"

definition truthy :: "json \<Rightarrow> bool" where
  "truthy v \<longleftrightarrow> v \<notin> {JNull, JBool False, JInt 0, JFloat (Some 0), JText [], JArray [], JObject []}"

text \<open>\<open>value.get(key)\<close>\<close>

definition get_field :: "(string \<times> json) list \<Rightarrow> string \<Rightarrow> json" where
  "get_field obj key = (case map_of obj key of None \<Rightarrow> JNull | Some v \<Rightarrow> v)"

fun is_text :: "json \<Rightarrow> bool" where
  "is_text (JText s) = True"
| "is_text _ = False"

fun is_object :: "json \<Rightarrow> bool" where
  "is_object (JObject kvs) = True"
| "is_object _ = False"

fun is_array :: "json \<Rightarrow> bool" where
  "is_array (JArray vs) = True"
| "is_array _ = False"

fun elements :: "json \<Rightarrow> json list" where
  "elements (JArray vs) = vs"
| "elements _ = []"

fun members :: "json \<Rightarrow> (string \<times> json) list" where
  "members (JObject kvs) = kvs"
| "members _ = []"

definition hashable :: "json \<Rightarrow> bool" where
  "hashable v \<longleftrightarrow> \<not> is_array v \<and> \<not> is_object v"

text \<open>\<open>value in a_set_of_texts\<close>: an unhashable value raises.\<close>

definition in_texts :: "json \<Rightarrow> string list \<Rightarrow> bool result" where
  "in_texts v texts =
     raise_if (\<not> hashable v) TypeError ''unhashable type''
     (ok (case v of JText s \<Rightarrow> s \<in> set texts | _ \<Rightarrow> False))"

definition SUCCESS_STATUSES :: "string list" where
  "SUCCESS_STATUSES = [''completed'', ''resolved'']"

subsection \<open>Provider output\<close>

definition check_finding_id :: "json \<Rightarrow> unit result" where
  "check_finding_id finding =
     raise_if (\<not> is_object finding \<or> \<not> is_text (get_field (members finding) ''finding_id'')) ValueError
       ''every review finding requires a stable finding_id'' (ok ())"

definition check_disposition :: "json \<Rightarrow> unit result" where
  "check_disposition disposition =
     (let d = members disposition in
      raise_if (\<not> is_object disposition \<or> \<not> is_text (get_field d ''finding_id'')) ValueError
        ''invalid post-repair finding disposition''
      (bind_result (in_texts (get_field d ''status'') [''resolved'', ''open'']) (\<lambda>known.
       raise_if (\<not> known \<or> (case get_field d ''justification'' of JText s \<Rightarrow> blank s | _ \<Rightarrow> True)) ValueError
         ''invalid post-repair finding disposition'' (ok ()))))"

definition validate_review_fields :: "string \<Rightarrow> (string \<times> json) list \<Rightarrow> unit result" where
  "validate_review_fields role obj =
     (if role \<notin> {''reviewer'', ''post_repair_reviewer''} then ok ()
      else
        let findings = get_field obj ''findings'' in
        raise_if (\<not> is_array findings) ValueError ''review output requires a findings array''
        (bind_result (map_result check_finding_id (elements findings)) (\<lambda>_.
         if role \<noteq> ''post_repair_reviewer'' then ok ()
         else
           let dispositions = get_field obj ''dispositions'' in
           raise_if (\<not> is_array dispositions) ValueError ''post-repair review requires a dispositions array''
           (bind_result (map_result check_disposition (elements dispositions)) (\<lambda>_. ok ())))))"

definition validate_provider_output :: "(string \<Rightarrow> json option) \<Rightarrow> string \<Rightarrow> string \<Rightarrow> nat \<Rightarrow> json result" where
  "validate_provider_output loads role raw maximum_bytes =
     raise_if (raw = []) ValueError ''provider output is empty''
     (raise_if (maximum_bytes < length raw) ValueError ''provider stdout exceeds configured size limit''
     (case loads raw of
        None \<Rightarrow> raise ValueError ''provider output is not exactly one JSON object''
      | Some val \<Rightarrow>
          raise_if (\<not> is_object val) ValueError ''provider output must be a JSON object''
          (let obj = members val in
           bind_result (in_texts (get_field obj ''status'') SUCCESS_STATUSES) (\<lambda>success.
           raise_if (\<not> success) ValueError ''unsupported provider status''
           (raise_if (truthy (get_field obj ''failure_reason'') \<or> truthy (get_field obj ''error'')) ValueError
              ''successful provider output contains failure details''
           (let changed = get_field obj ''files_changed'' in
            raise_if (\<not> is_array changed \<or> \<not> list_all is_text (elements changed)) ValueError
              ''provider output requires a files_changed string array''
            (bind_result (validate_review_fields role obj) (\<lambda>_. ok val))))))))"

subsection \<open>Findings\<close>

datatype severity = CRITICAL | HIGH | MEDIUM | LOW | MINOR

definition SEVERITIES :: "(string \<times> severity) list" where
  "SEVERITIES = [(''Critical'', CRITICAL), (''High'', HIGH), (''Medium'', MEDIUM), (''Low'', LOW), (''Minor'', MINOR)]"

definition severity_of :: "json \<Rightarrow> severity result" where
  "severity_of v =
     (case v of
        JText s \<Rightarrow> (case map_of SEVERITIES s of Some x \<Rightarrow> ok x | None \<Rightarrow> raise ValueError ''not a valid Severity'')
      | _ \<Rightarrow> raise ValueError ''not a valid Severity'')"

fun severity_value :: "severity \<Rightarrow> string" where
  "severity_value CRITICAL = ''Critical''"
| "severity_value HIGH = ''High''"
| "severity_value MEDIUM = ''Medium''"
| "severity_value LOW = ''Low''"
| "severity_value MINOR = ''Minor''"

record finding =
  fi_finding_id :: string
  fi_severity :: severity
  fi_title :: string
  fi_description :: string
  fi_file :: json
  fi_line :: json

text \<open>\<open>str(value)\<close> and \<open>data[key]\<close>\<close>

definition str_of :: "(json \<Rightarrow> string) \<Rightarrow> json \<Rightarrow> string" where
  "str_of render v = (case v of JText s \<Rightarrow> s | _ \<Rightarrow> render v)"

definition item_of :: "json \<Rightarrow> string \<Rightarrow> json result" where
  "item_of data key =
     (case data of
        JObject kvs \<Rightarrow> (case map_of kvs key of Some v \<Rightarrow> ok v | None \<Rightarrow> raise KeyError key)
      | _ \<Rightarrow> raise TypeError ''indices'')"

definition finding_from_dict :: "(json \<Rightarrow> string) \<Rightarrow> json \<Rightarrow> finding result" where
  "finding_from_dict render data =
     bind_result (item_of data ''finding_id'') (\<lambda>finding_id.
     bind_result (item_of data ''severity'') (\<lambda>sev.
     bind_result (severity_of sev) (\<lambda>severity.
     bind_result (item_of data ''title'') (\<lambda>title.
     bind_result (item_of data ''description'') (\<lambda>description.
     ok \<lparr>fi_finding_id = str_of render finding_id, fi_severity = severity, fi_title = str_of render title,
         fi_description = str_of render description, fi_file = get_field (members data) ''file'',
         fi_line = get_field (members data) ''line''\<rparr>)))))"

definition finding_to_dict :: "finding \<Rightarrow> json" where
  "finding_to_dict f = JObject
     [(''finding_id'', JText (fi_finding_id f)), (''severity'', JText (severity_value (fi_severity f))),
      (''title'', JText (fi_title f)), (''description'', JText (fi_description f)),
      (''file'', fi_file f), (''line'', fi_line f)]"

subsection \<open>Reviews\<close>

definition BLOCKING_SEVERITIES :: "severity list" where
  "BLOCKING_SEVERITIES = [CRITICAL, HIGH]"

definition parse_review_output :: "(json \<Rightarrow> string) \<Rightarrow> json \<Rightarrow> finding list result" where
  "parse_review_output render val =
     raise_if (\<not> is_object val) AttributeError ''get''
     (let raw_findings = get_field (members val) ''findings'' in
      raise_if (\<not> is_array raw_findings) ValueError ''review output must contain a findings array''
      (map_result (finding_from_dict render) (elements raw_findings)))"

definition blocking_findings :: "finding list \<Rightarrow> finding list" where
  "blocking_findings findings = filter (\<lambda>f. fi_severity f \<in> set BLOCKING_SEVERITIES) findings"

definition disposition_ids :: "json list \<Rightarrow> json list" where
  "disposition_ids dispositions = map (\<lambda>d. get_field (members d) ''finding_id'') dispositions"

text \<open>The lengths are compared before the identities are hashed.\<close>

definition validate_post_repair_review ::
    "(json \<Rightarrow> string) \<Rightarrow> json \<Rightarrow> finding list \<Rightarrow> (finding list \<times> json list) result" where
  "validate_post_repair_review render val original_blockers =
     bind_result (parse_review_output render val) (\<lambda>findings.
     let raw_dispositions = get_field (members val) ''dispositions'' in
     raise_if (\<not> is_array raw_dispositions \<or> \<not> list_all is_object (elements raw_dispositions)) ValueError
       ''post-repair review must contain a dispositions array''
     (let dispositions = elements raw_dispositions;
          expected_ids = remdups (map fi_finding_id original_blockers);
          ids = disposition_ids dispositions
      in raise_if (length ids \<noteq> length expected_ids) ValueError
           ''post-repair dispositions do not resolve each original blocker exactly once''
         (raise_if (\<not> list_all hashable ids) TypeError ''unhashable type''
         (raise_if (\<not> distinct ids \<or> set ids \<noteq> JText ` set expected_ids \<or>
             list_ex (\<lambda>d. get_field (members d) ''status'' \<noteq> JText ''resolved'') dispositions) ValueError
            ''post-repair dispositions do not resolve each original blocker exactly once''
         (raise_if (blocking_findings findings \<noteq> []) ValueError ''post-repair review reported a new blocking finding''
         (ok (findings, dispositions)))))))"

record cleanup_item =
  cl_task_id :: string
  cl_finding :: finding
  cl_status :: string

definition record_cleanup :: "finding list \<Rightarrow> string \<Rightarrow> cleanup_item list \<Rightarrow> cleanup_item list" where
  "record_cleanup findings task_id register =
     register @ map (\<lambda>f. \<lparr>cl_task_id = task_id, cl_finding = f, cl_status = ''open''\<rparr>)
       (filter (\<lambda>f. fi_severity f \<notin> set BLOCKING_SEVERITIES) findings)"

subsection \<open>What is accepted\<close>

lemma severity_round_trip: "severity_of (JText (severity_value s)) = Inr s"
  by (cases s) (simp_all add: severity_of_def SEVERITIES_def)

text \<open>
A finding written to a run record reads back as the same finding, whatever its file and line.
\<close>

theorem finding_round_trip: "finding_from_dict render (finding_to_dict f) = ok f"
  by (simp add: finding_from_dict_def finding_to_dict_def item_of_def severity_round_trip str_of_def get_field_def)

lemma image_JText_distinct: "distinct xs \<Longrightarrow> set xs = JText ` set ys \<Longrightarrow>
    y \<in> set ys \<Longrightarrow> \<exists>!i. i < length xs \<and> xs ! i = JText y"
  by (metis distinct_Ex1 image_eqI)

text \<open>
C27: an accepted post-repair review reports no blocking finding, and disposes of the original blockers
exactly: each has one disposition under its identity, that disposition is resolved, and there is no other.
\<close>

theorem post_repair_review_resolves_blockers:
  assumes "validate_post_repair_review render val blockers = Inr (findings, dispositions)" and "b \<in> set blockers"
  shows "blocking_findings findings = [] \<and>
    (\<exists>!i. i < length dispositions \<and> get_field (members (dispositions ! i)) ''finding_id'' = JText (fi_finding_id b)) \<and>
    list_all (\<lambda>d. get_field (members d) ''status'' = JText ''resolved'' \<and>
      get_field (members d) ''finding_id'' \<in> JText ` fi_finding_id ` set blockers) dispositions"
proof -
  from assms(1) have ids: "distinct (disposition_ids dispositions)"
      "set (disposition_ids dispositions) = JText ` set (remdups (map fi_finding_id blockers))"
    and resolved: "\<not> list_ex (\<lambda>d. get_field (members d) ''status'' \<noteq> JText ''resolved'') dispositions"
    and none: "blocking_findings findings = []"
    unfolding validate_post_repair_review_def by (auto simp: bind_result_Inr Let_def)
  from assms(2) have "fi_finding_id b \<in> set (remdups (map fi_finding_id blockers))" by simp
  from image_JText_distinct [OF ids this]
  have "\<exists>!i. i < length dispositions \<and> get_field (members (dispositions ! i)) ''finding_id'' = JText (fi_finding_id b)"
    by (simp add: disposition_ids_def cong: conj_cong)
  moreover have "get_field (members d) ''finding_id'' \<in> JText ` fi_finding_id ` set blockers" if "d \<in> set dispositions" for d
    using ids(2) that by (auto simp: disposition_ids_def)
  ultimately show ?thesis using none resolved by (auto simp: list_all_iff list_ex_iff)
qed

definition EXAMPLE_REVIEW :: json where
  "EXAMPLE_REVIEW = JObject [(''findings'', JArray []), (''dispositions'', JArray [JObject [(''finding_id'', JText ''F1''),
     (''status'', JText ''resolved''), (''justification'', JText ''fixed'')]])]"

definition EXAMPLE_FINDING :: finding where
  "EXAMPLE_FINDING = \<lparr>fi_finding_id = ''F1'', fi_severity = HIGH, fi_title = ''t'', fi_description = ''d'',
     fi_file = JNull, fi_line = JNull\<rparr>"

theorem post_repair_review_resolves_blockers_witness:
  "\<exists>findings dispositions. validate_post_repair_review (\<lambda>v. []) EXAMPLE_REVIEW [EXAMPLE_FINDING] = Inr (findings, dispositions) \<and>
     (\<exists>!i. i < length dispositions \<and> get_field (members (dispositions ! i)) ''finding_id'' = JText ''F1'')"
proof -
  let ?ds = "elements (get_field (members EXAMPLE_REVIEW) ''dispositions'')"
  have ok: "validate_post_repair_review (\<lambda>v. []) EXAMPLE_REVIEW [EXAMPLE_FINDING] = Inr ([], ?ds)" by code_simp
  from post_repair_review_resolves_blockers [OF ok, of EXAMPLE_FINDING] ok show ?thesis
    by (auto simp: EXAMPLE_FINDING_def)
qed

lemma in_texts_Inl [simp]: "in_texts v texts = Inl e \<longleftrightarrow> \<not> hashable v \<and> e = Err TypeError ''unhashable type''"
  by (auto simp: in_texts_def raise_if_Inl)

lemma check_disposition_Inl:
  "check_disposition d = Inl e \<Longrightarrow> err_class e = ValueError \<or>
     err_class e = TypeError \<and> \<not> hashable (get_field (members d) ''status'')"
  by (auto simp: check_disposition_def Let_def raise_if_Inl bind_result_Inl)

lemma validate_review_fields_Inl:
  "validate_review_fields role obj = Inl e \<Longrightarrow> err_class e = ValueError \<or>
     err_class e = TypeError \<and> role = ''post_repair_reviewer'' \<and>
       list_ex (\<lambda>d. \<not> hashable (get_field (members d) ''status'')) (elements (get_field obj ''dispositions''))"
  by (fastforce simp: validate_review_fields_def Let_def raise_if_Inl bind_result_Inl list_ex_iff check_finding_id_def
      dest!: map_result_Inl check_disposition_Inl split: if_splits)

text \<open>
A provider's output is rejected with a value error, except that a status that is a list or an object,
its own or a disposition's, raises a type error instead.
\<close>

theorem provider_output_errors:
  assumes "validate_provider_output loads role raw maximum_bytes = Inl e"
  shows "err_class e = ValueError \<or> err_class e = TypeError \<and> (\<exists>obj. loads raw = Some (JObject obj) \<and>
    (\<not> hashable (get_field obj ''status'') \<or> role = ''post_repair_reviewer'' \<and>
      list_ex (\<lambda>d. \<not> hashable (get_field (members d) ''status'')) (elements (get_field obj ''dispositions''))))"
proof (cases "loads raw")
  case (Some v)
  show ?thesis
  proof (cases v)
    case (JObject obj)
    with Some assms show ?thesis
      by (auto simp: validate_provider_output_def Let_def raise_if_Inl bind_result_Inl dest!: validate_review_fields_Inl)
  qed (use Some assms in \<open>auto simp: validate_provider_output_def raise_if_Inl\<close>)
qed (use assms in \<open>auto simp: validate_provider_output_def raise_if_Inl\<close>)

theorem provider_output_errors_witness:
  "\<exists>e. validate_provider_output (\<lambda>s. Some (JObject [(''status'', JArray [])])) ''builder'' ''{}'' 10 = Inl e \<and> err_class e = TypeError"
proof -
  have e: "validate_provider_output (\<lambda>s. Some (JObject [(''status'', JArray [])])) ''builder'' ''{}'' 10 =
      Inl (Err TypeError ''unhashable type'')"
    by code_simp
  from provider_output_errors [OF e] e show ?thesis by simp
qed

end
