(* ===== verification/Verification_Policy.thy ===== *)
theory Verification_Policy
  imports Path_Policies
begin

text \<open>
  What counts as verification of a task: the semantic bindings of commands to categories with their waivers
  (\<open>keeper/app/verification_policy.py\<close>), the verifier's loop over the commands (\<open>keeper/verifier.py\<close>) and the
  reading of its results against the specifications (\<open>Keeper._verify\<close> in \<open>keeper/orchestrator.py\<close>).  The
  file system, the digests and the running of a registered command are given by the host.
\<close>

subsection \<open>Specifications and waivers\<close>

record verification_spec =
  vs_category :: string
  vs_arguments :: "string list"
  vs_validator :: string
  vs_required :: bool
  vs_waiver_id :: "string option"
  vs_registration_id :: "string option"
  vs_expected_sha256 :: "string option"
  vs_expected_executable_sha256 :: "string option"

record verification_waiver =
  wv_waiver_id :: string
  wv_category :: string
  wv_task_id :: string
  wv_approving_authority :: string
  wv_reason :: string
  wv_expires_at :: string
  wv_revoked_at :: "string option"

record verification_host =
  vh_fromisoformat :: "string \<Rightarrow> py_datetime option"
  vh_is_file :: "string \<Rightarrow> bool"
  vh_is_symlink :: "string \<Rightarrow> bool"
  vh_resolve :: "string \<Rightarrow> string"
  vh_sha256 :: "string \<Rightarrow> string"
  vh_python :: string

definition REGISTERED_CATEGORIES :: "(string \<times> string) list" where
  "REGISTERED_CATEGORIES =
     [(''tests'', ''pytest''), (''typing'', ''mypy''), (''compilation'', ''compileall''),
      (''foundation'', ''foundation-script''), (''task'', ''file-equals''), (''security'', ''security-scan''),
      (''packaging'', ''package-smoke'')]"

definition validate_waiver ::
    "verification_host \<Rightarrow> verification_waiver \<Rightarrow> string \<Rightarrow> string \<Rightarrow> instant \<Rightarrow> unit result" where
  "validate_waiver h waiver task_id category now =
     (case vh_fromisoformat h (wv_expires_at waiver) of
        None \<Rightarrow> raise PermissionError ''verification waiver expiration is malformed''
      | Some (Naive t) \<Rightarrow> raise PermissionError ''verification waiver expiration must be timezone-aware''
      | Some (Aware expires) \<Rightarrow>
          raise_if (wv_task_id waiver \<noteq> task_id \<or> wv_category waiver \<noteq> category \<or>
              blank (wv_approving_authority waiver) \<or> blank (wv_reason waiver) \<or> wv_revoked_at waiver \<noteq> None \<or>
              expires \<le> now) PermissionError ''verification waiver is invalid for this task and category'' (ok ()))"

definition trusted_bash_launcher :: "verification_host \<Rightarrow> string option" where
  "trusted_bash_launcher h =
     map_option (vh_resolve h)
       (find (\<lambda>candidate. vh_is_file h candidate \<and> \<not> vh_is_symlink h candidate) [''/bin/bash'', ''/usr/bin/bash''])"

definition PYTHON_REGISTRATIONS :: "(string \<times> string \<times> string list) list" where
  "PYTHON_REGISTRATIONS =
     [(''pytest'', ''keeper:tests:v1'', [''{python}'', ''-m'', ''pytest'', ''-q'']),
      (''mypy'', ''keeper:typing:v1'', [''{python}'', ''-m'', ''mypy'', ''--strict'', ''keeper'', ''tests/keeper'']),
      (''compileall'', ''keeper:compilation:v1'',
        [''{python}'', ''-m'', ''compileall'', ''-q'', ''keeper'', ''tests/keeper''])]"

definition foundation_registered :: "verification_host \<Rightarrow> string \<Rightarrow> verification_spec \<Rightarrow> bool" where
  "foundation_registered h trusted_root spec \<longleftrightarrow>
     (let launcher = vs_arguments spec ! 0; script = vs_arguments spec ! 1;
          expected_script = vh_resolve h trusted_root @ ''/scripts/verify-foundation.sh''
      in vs_expected_sha256 spec \<noteq> None \<and> vs_expected_executable_sha256 spec \<noteq> None \<and>
         is_absolute launcher \<and> \<not> vh_is_symlink h launcher \<and> vh_is_file h launcher \<and>
         trusted_bash_launcher h = Some (vh_resolve h launcher) \<and>
         is_absolute script \<and> \<not> vh_is_symlink h script \<and> vh_is_file h script \<and>
         vh_resolve h script = vh_resolve h expected_script)"

definition validate_command_pattern :: "verification_host \<Rightarrow> verification_spec \<Rightarrow> string option \<Rightarrow> unit result" where
  "validate_command_pattern h spec trusted_root =
     (let argument = map (\<lambda>c. if c = CHR 0x5C then CHR ''/'' else c) (lower (hd (vs_arguments spec))) in
      raise_if (case map_of PYTHON_REGISTRATIONS (vs_validator spec) of
            None \<Rightarrow> False
          | Some (registration_id, registered_arguments) \<Rightarrow>
              vs_registration_id spec \<noteq> Some registration_id \<or> vs_arguments spec \<noteq> registered_arguments \<or>
              vs_expected_executable_sha256 spec \<noteq> Some (vh_sha256 h (vh_resolve h (vh_python h))))
        PermissionError ''command does not match its immutable registration''
      (bind_result
        (if vs_validator spec \<noteq> ''foundation-script'' then ok ()
         else case trusted_root of
             None \<Rightarrow> raise PermissionError ''foundation registration is missing or malformed''
           | Some base \<Rightarrow>
               raise_if (vs_registration_id spec \<noteq> Some ''keeper:foundation:v1'' \<or> length (vs_arguments spec) \<noteq> 2)
                 PermissionError ''foundation registration is missing or malformed''
               (raise_if (\<not> foundation_registered h base spec) PermissionError
                  ''foundation launcher and script must match the immutable registration''
               (raise_if (Some (vh_sha256 h (vs_arguments spec ! 0)) \<noteq> vs_expected_executable_sha256 spec \<or>
                    Some (vh_sha256 h (vs_arguments spec ! 1)) \<noteq> vs_expected_sha256 spec)
                  PermissionError ''foundation launcher or script digest is stale'' (ok ())))) (\<lambda>_.
       raise_if (vs_validator spec = ''file-equals'' \<and> argument \<noteq> ''keeper:file-equals'') ValueError
         ''file-equals validator requires the Keeper registered command''
       (raise_if (vs_validator spec = ''registered-command'') PermissionError
         ''unknown registered commands are not trusted'' (ok ())))))"

text \<open>Of waivers with one identity the last counts.\<close>

definition spec_covers ::
    "verification_host \<Rightarrow> verification_waiver list \<Rightarrow> string \<Rightarrow> instant \<Rightarrow> verification_spec \<Rightarrow> string list result" where
  "spec_covers h waivers task_id now spec =
     (if \<not> vs_required spec then ok []
      else case vs_waiver_id spec of
          None \<Rightarrow> ok [vs_category spec]
        | Some waiver_id \<Rightarrow>
            (case find (\<lambda>w. wv_waiver_id w = waiver_id) (rev waivers) of
               None \<Rightarrow> raise PermissionError ''verification waiver is missing or malformed''
             | Some waiver \<Rightarrow>
                 bind_result (validate_waiver h waiver task_id (vs_category spec) now) (\<lambda>_. ok [vs_category spec])))"

fun bind_specs ::
    "verification_host \<Rightarrow> verification_waiver list \<Rightarrow> string \<Rightarrow> instant \<Rightarrow> string option
      \<Rightarrow> string list list \<Rightarrow> string list \<Rightarrow> verification_spec list \<Rightarrow> string list result" where
  "bind_specs h waivers task_id now trusted_root seen_commands covered [] = ok covered"
| "bind_specs h waivers task_id now trusted_root seen_commands covered (spec # specs) =
     raise_if (vs_arguments spec = []) ValueError ''verification command cannot be empty''
     (raise_if (map_of REGISTERED_CATEGORIES (vs_category spec) \<noteq> Some (vs_validator spec)) ValueError
        ''validator cannot satisfy category''
     (bind_result (validate_command_pattern h spec trusted_root) (\<lambda>_.
      raise_if (vs_arguments spec \<in> set seen_commands) ValueError ''the same command cannot be counted more than once''
      (bind_result (spec_covers h waivers task_id now spec) (\<lambda>cs.
       bind_specs h waivers task_id now trusted_root (vs_arguments spec # seen_commands) (covered @ cs) specs)))))"

definition validate_semantic_bindings ::
    "verification_host \<Rightarrow> verification_spec list \<Rightarrow> string list \<Rightarrow> verification_waiver list \<Rightarrow> string \<Rightarrow> instant
      \<Rightarrow> string option \<Rightarrow> unit result" where
  "validate_semantic_bindings h specs required_categories waivers task_id now trusted_root =
     raise_if (specs = []) ValueError ''verification specification cannot be empty''
     (bind_result (bind_specs h waivers task_id now trusted_root [] [] specs) (\<lambda>covered.
      raise_if (\<not> set required_categories \<subseteq> set covered) ValueError
        ''mandatory verification categories are unsatisfied'' (ok ())))"

subsection \<open>The verifier\<close>

record verification_command =
  vc_arguments :: "string list"
  vc_required :: bool
  vc_validator :: "string option"
  vc_registration_id :: "string option"
  vc_expected_sha256 :: "string option"
  vc_expected_executable_sha256 :: "string option"

record verification_result =
  vr_arguments :: "string list"
  vr_required :: bool
  vr_exit_code :: int
  vr_timed_out :: bool

definition vr_passed :: "verification_result \<Rightarrow> bool" where
  "vr_passed r \<longleftrightarrow> vr_exit_code r = 0"

text \<open>
  A workspace: the content of a file below it (the empty text when there is none, an error when the path
  leaves it), and the running of a registered command, which may be refused.
\<close>

record verification_site =
  site_content :: "string \<Rightarrow> string result"
  site_execute :: "verification_command \<Rightarrow> (int \<times> bool) result"

definition run_command :: "verification_site \<Rightarrow> verification_command \<Rightarrow> verification_result result" where
  "run_command site command =
     (let arguments = vc_arguments command in
      raise_if (arguments = []) ValueError ''verification command cannot be empty''
      (if hd arguments = ''keeper:file-equals'' then
         raise_if (length arguments \<noteq> 3) ValueError ''keeper:file-equals requires a path and expected content''
         (bind_result (normalize_relative_path (arguments ! 1)) (\<lambda>relative.
          bind_result (site_content site relative) (\<lambda>actual.
          ok \<lparr>vr_arguments = arguments, vr_required = vc_required command,
             vr_exit_code = (if actual = arguments ! 2 then 0 else 1), vr_timed_out = False\<rparr>)))
       else
         bind_result (site_execute site command) (\<lambda>(exit_code, timed_out).
         ok \<lparr>vr_arguments = arguments, vr_required = vc_required command, vr_exit_code = exit_code,
            vr_timed_out = timed_out\<rparr>)))"

fun run_commands :: "verification_site \<Rightarrow> verification_command list \<Rightarrow> verification_result list result" where
  "run_commands site [] = ok []"
| "run_commands site (command # commands) =
     bind_result (run_command site command) (\<lambda>r.
     if vr_required r \<and> \<not> vr_passed r then ok [r]
     else bind_result (run_commands site commands) (\<lambda>rs. ok (r # rs)))"

definition verifier_run :: "verification_site \<Rightarrow> verification_command list \<Rightarrow> verification_result list result" where
  "verifier_run site commands =
     raise_if (commands = []) ValueError ''at least one mandatory verification command is required''
     (run_commands site commands)"

definition required_passed :: "verification_result list \<Rightarrow> bool" where
  "required_passed results \<longleftrightarrow>
     results \<noteq> [] \<and> list_ex vr_required results \<and> list_all vr_passed (filter vr_required results)"

subsection \<open>Evidence\<close>

definition command_of_spec :: "verification_spec \<Rightarrow> verification_command" where
  "command_of_spec spec =
     \<lparr>vc_arguments = vs_arguments spec, vc_required = vs_required spec, vc_validator = Some (vs_validator spec),
      vc_registration_id = vs_registration_id spec, vc_expected_sha256 = vs_expected_sha256 spec,
      vc_expected_executable_sha256 = vs_expected_executable_sha256 spec\<rparr>"

definition executable_specs :: "verification_spec list \<Rightarrow> verification_spec list" where
  "executable_specs specs = filter (\<lambda>s. vs_waiver_id s = None) specs"

text \<open>The results are consumed with \<open>next\<close>, which raises when they run out.\<close>

fun classify_results :: "verification_spec list \<Rightarrow> verification_result list \<Rightarrow> string list result" where
  "classify_results [] results = ok []"
| "classify_results (spec # specs) results =
     (if vs_waiver_id spec \<noteq> None then
        bind_result (classify_results specs results) (\<lambda>cs. ok (''waived'' # cs))
      else case results of
          [] \<Rightarrow> raise StopIteration ''next''
        | r # rest \<Rightarrow>
            bind_result (classify_results specs rest) (\<lambda>cs.
            ok ((if vr_passed r then ''passed'' else if vr_exit_code r = 127 then ''unavailable'' else ''failed'') # cs)))"

definition semantic_passed :: "verification_spec list \<Rightarrow> verification_result list \<Rightarrow> bool result" where
  "semantic_passed specs results =
     bind_result (classify_results specs results) (\<lambda>cs. ok (list_all (\<lambda>c. c \<in> {''passed'', ''waived''}) cs))"

subsection \<open>Every category is covered\<close>

definition covers ::
    "verification_host \<Rightarrow> verification_waiver list \<Rightarrow> string \<Rightarrow> instant \<Rightarrow> string option \<Rightarrow> string \<Rightarrow> verification_spec \<Rightarrow> bool" where
  "covers h waivers task_id now trusted_root category spec \<longleftrightarrow>
     vs_required spec \<and> vs_category spec = category \<and> map_of REGISTERED_CATEGORIES category = Some (vs_validator spec) \<and>
     validate_command_pattern h spec trusted_root = ok () \<and>
     (case vs_waiver_id spec of
        None \<Rightarrow> True
      | Some i \<Rightarrow> \<exists>w\<in>set waivers. wv_waiver_id w = i \<and> wv_task_id w = task_id \<and> wv_category w = category \<and>
          wv_revoked_at w = None \<and> (\<exists>t. vh_fromisoformat h (wv_expires_at w) = Some (Aware t) \<and> now < t))"

lemma validate_waiver_ok:
  "validate_waiver h w task_id category now = Inr u \<Longrightarrow> wv_task_id w = task_id \<and> wv_category w = category \<and>
     wv_revoked_at w = None \<and> (\<exists>t. vh_fromisoformat h (wv_expires_at w) = Some (Aware t) \<and> now < t)"
  by (auto simp: validate_waiver_def split: option.splits py_datetime.splits)

lemma find_Some_member: "find P xs = Some x \<Longrightarrow> x \<in> set xs \<and> P x"
  by (induction xs) (auto split: if_splits)

lemma spec_covers_ok:
  assumes "spec_covers h waivers task_id now spec = Inr cs" and "c \<in> set cs"
    and "map_of REGISTERED_CATEGORIES (vs_category spec) = Some (vs_validator spec)"
    and "validate_command_pattern h spec trusted_root = Inr u"
  shows "covers h waivers task_id now trusted_root c spec"
proof (cases "vs_waiver_id spec")
  case None
  with assms show ?thesis by (auto simp: spec_covers_def covers_def split: if_splits)
next
  case (Some i)
  with assms obtain w where w: "find (\<lambda>w. wv_waiver_id w = i) (rev waivers) = Some w"
      "validate_waiver h w task_id (vs_category spec) now = Inr ()" "c = vs_category spec" "vs_required spec"
    by (auto simp: spec_covers_def bind_result_Inr split: if_splits option.splits)
  from find_Some_member [OF w(1)] have "w \<in> set waivers" "wv_waiver_id w = i" by simp_all
  with validate_waiver_ok [OF w(2)] w assms(3,4) Some show ?thesis by (auto simp: covers_def)
qed

lemma bind_specs_ok:
  assumes "bind_specs h waivers task_id now trusted_root seen covered specs = Inr out"
  shows "distinct (map vs_arguments specs) \<and> set (map vs_arguments specs) \<inter> set seen = {} \<and>
    (\<forall>c\<in>set out. c \<in> set covered \<or> list_ex (covers h waivers task_id now trusted_root c) specs)"
  using assms
proof (induction specs arbitrary: seen covered)
  case (Cons spec specs)
  from Cons.prems obtain u cs where
    step: "map_of REGISTERED_CATEGORIES (vs_category spec) = Some (vs_validator spec)"
      "validate_command_pattern h spec trusted_root = Inr u" "spec_covers h waivers task_id now spec = Inr cs"
      "vs_arguments spec \<notin> set seen"
    and rest: "bind_specs h waivers task_id now trusted_root (vs_arguments spec # seen) (covered @ cs) specs = Inr out"
    by (auto simp: bind_result_Inr)
  from Cons.IH [OF rest] step spec_covers_ok [OF step(3) _ step(1,2)] show ?case by auto
qed simp


definition EXAMPLE_VHOST :: verification_host where
  "EXAMPLE_VHOST = \<lparr>vh_fromisoformat = (\<lambda>s. Some (Aware 5)), vh_is_file = (\<lambda>p. True), vh_is_symlink = (\<lambda>p. False),
     vh_resolve = id, vh_sha256 = id, vh_python = ''py''\<rparr>"

definition EXAMPLE_SPEC :: "string \<Rightarrow> string \<Rightarrow> string list \<Rightarrow> string option \<Rightarrow> string \<Rightarrow> verification_spec" where
  "EXAMPLE_SPEC category validator arguments waiver registration =
     \<lparr>vs_category = category, vs_arguments = arguments, vs_validator = validator, vs_required = True,
      vs_waiver_id = waiver, vs_registration_id = Some registration, vs_expected_sha256 = None,
      vs_expected_executable_sha256 = Some ''py''\<rparr>"

definition EXAMPLE_SPECS :: "verification_spec list" where
  "EXAMPLE_SPECS =
     [EXAMPLE_SPEC ''tests'' ''pytest'' [''{python}'', ''-m'', ''pytest'', ''-q''] None ''keeper:tests:v1'',
      EXAMPLE_SPEC ''task'' ''file-equals'' [''keeper:file-equals'', ''a'', ''b''] None ''k'',
      EXAMPLE_SPEC ''security'' ''security-scan'' [''waived''] (Some ''w'') ''k'']"

definition EXAMPLE_WAIVER :: verification_waiver where
  "EXAMPLE_WAIVER = \<lparr>wv_waiver_id = ''w'', wv_category = ''security'', wv_task_id = ''t'', wv_approving_authority = ''f'',
     wv_reason = ''r'', wv_expires_at = ''e'', wv_revoked_at = None\<rparr>"


subsection \<open>What a verification that passes has run\<close>

lemma run_command_required: "run_command site command = Inr r \<Longrightarrow> vr_required r = vc_required command"
  by (auto simp: run_command_def Let_def bind_result_Inr split: if_splits prod.splits)

lemma run_commands_length:
  assumes "run_commands site commands = Inr results"
  shows "length results \<le> length commands"
    and "map vr_required results = map vc_required (take (length results) commands)"
    and "list_all vr_passed (filter vr_required (butlast results))"
    and "length results = length commands \<or> results \<noteq> [] \<and> vr_required (last results) \<and> \<not> vr_passed (last results)"
  using assms
proof (induction commands arbitrary: results)
  case (Cons command commands)
  {
    fix results assume "run_commands site (command # commands) = Inr results"
    then have "(\<exists>r. run_command site command = Inr r \<and> results = [r] \<and> vr_required r \<and> \<not> vr_passed r) \<or>
      (\<exists>r rs. run_command site command = Inr r \<and> run_commands site commands = Inr rs \<and> results = r # rs \<and>
         (vr_required r \<longrightarrow> vr_passed r))"
      by (auto simp: bind_result_Inr split: if_splits)
  } note step = this
  {
    case 1 with step [OF this] Cons.IH(1) show ?case by auto
  next
    case 2 with step [OF this] Cons.IH(2) run_command_required show ?case by auto
  next
    case 3 with step [OF this] Cons.IH(3) show ?case by auto
  next
    case 4 with step [OF this] Cons.IH(4) show ?case by auto
  }
qed simp_all

text \<open>
A verification passes only if every command of it was run, in order, at least one was required, and
every required one exited with zero; the verifier stops right after the first required failure.
\<close>

theorem passed_verification_ran_everything:
  assumes "verifier_run site commands = Inr results"
  shows "required_passed results \<longleftrightarrow> length results = length commands \<and> list_ex vc_required commands \<and>
    list_all (\<lambda>r. vr_required r \<longrightarrow> vr_exit_code r = 0) results"
proof -
  from assms have ne: "commands \<noteq> []" and run: "run_commands site commands = Inr results" by (simp_all add: verifier_run_def)
  have required: "list_ex vr_required results = list_ex vc_required commands" if "length results = length commands"
  proof -
    have any: "list_ex f xs \<longleftrightarrow> True \<in> set (map f xs)" for f :: "'z \<Rightarrow> bool" and xs by (auto simp: list_ex_iff)
    from run_commands_length(2) [OF run] that have "map vr_required results = map vc_required commands" by simp
    then show ?thesis unfolding any by simp
  qed
  show ?thesis
  proof
    assume passed: "required_passed results"
    then have "results \<noteq> []" "vr_required (last results) \<longrightarrow> vr_passed (last results)"
      by (auto simp: required_passed_def list_all_iff)
    with run_commands_length(4) [OF run] have "length results = length commands" by blast
    with passed required show "length results = length commands \<and> list_ex vc_required commands \<and>
        list_all (\<lambda>r. vr_required r \<longrightarrow> vr_exit_code r = 0) results"
      by (auto simp: required_passed_def list_all_iff vr_passed_def)
  next
    assume "length results = length commands \<and> list_ex vc_required commands \<and>
        list_all (\<lambda>r. vr_required r \<longrightarrow> vr_exit_code r = 0) results"
    with required ne show "required_passed results"
      by (auto simp: required_passed_def list_all_iff vr_passed_def)
  qed
qed

theorem passed_verification_ran_everything_witness:
  "\<exists>results. verifier_run \<lparr>site_content = (\<lambda>p. ok ''b''), site_execute = (\<lambda>c. ok (0, False))\<rparr>
       (map command_of_spec (executable_specs EXAMPLE_SPECS)) = Inr results \<and> required_passed results"
proof -
  let ?site = "\<lparr>site_content = (\<lambda>p. ok ''b''), site_execute = (\<lambda>c. ok (0, False))\<rparr>"
  let ?rs = "map (\<lambda>s. \<lparr>vr_arguments = vs_arguments s, vr_required = True, vr_exit_code = 0, vr_timed_out = False\<rparr>)
     (executable_specs EXAMPLE_SPECS)"
  have run: "verifier_run ?site (map command_of_spec (executable_specs EXAMPLE_SPECS)) = Inr ?rs" by code_simp
  moreover have "length ?rs = length (map command_of_spec (executable_specs EXAMPLE_SPECS)) \<and>
      list_ex vc_required (map command_of_spec (executable_specs EXAMPLE_SPECS)) \<and>
      list_all (\<lambda>r. vr_required r \<longrightarrow> vr_exit_code r = 0) ?rs"
    by code_simp
  ultimately show ?thesis using passed_verification_ran_everything by blast
qed

subsection \<open>Evidence after an early failure\<close>

lemma classify_short:
  "length results < length (executable_specs specs) \<Longrightarrow> classify_results specs results = raise StopIteration ''next''"
proof (induction specs results rule: classify_results.induct)
  case (2 spec specs results)
  then show ?case by (cases results) (auto simp: executable_specs_def)
qed (simp add: executable_specs_def)

text \<open>
When a required command other than the last one fails, collecting the evidence does not report a
failure: it raises \<open>StopIteration\<close>, because the verifier stopped early and the specifications that follow
have no result.
\<close>

theorem early_failure_breaks_evidence:
  assumes "verifier_run site (map command_of_spec (executable_specs specs)) = Inr results"
    and "i < length results" and "vr_required (results ! i)" and "\<not> vr_passed (results ! i)"
    and "Suc i < length (executable_specs specs)"
  shows "semantic_passed specs results = raise StopIteration ''next''"
proof -
  from assms(1) have run: "run_commands site (map command_of_spec (executable_specs specs)) = Inr results"
    by (simp add: verifier_run_def)
  have "\<not> i < length (butlast results)"
  proof
    assume i: "i < length (butlast results)"
    then have "butlast results ! i \<in> set (butlast results)" by (rule nth_mem)
    with run_commands_length(3) [OF run] assms(3,4) i show False by (auto simp: list_all_iff nth_butlast)
  qed
  with assms(2) have "length results = Suc i" by simp
  with assms(5) show ?thesis by (simp add: semantic_passed_def classify_short)
qed

text \<open>Tests fail before the file check has run.\<close>

theorem early_failure_breaks_evidence_witness:
  "\<exists>results. verifier_run \<lparr>site_content = (\<lambda>p. ok ''b''), site_execute = (\<lambda>c. ok (1, False))\<rparr>
       (map command_of_spec (executable_specs EXAMPLE_SPECS)) = Inr results \<and>
     semantic_passed EXAMPLE_SPECS results = raise StopIteration ''next''"
proof -
  let ?site = "\<lparr>site_content = (\<lambda>p. ok ''b''), site_execute = (\<lambda>c. ok (1, False))\<rparr>"
  let ?rs = "[\<lparr>vr_arguments = [''{python}'', ''-m'', ''pytest'', ''-q''], vr_required = True, vr_exit_code = 1, vr_timed_out = False\<rparr>]"
  have run: "verifier_run ?site (map command_of_spec (executable_specs EXAMPLE_SPECS)) = Inr ?rs" by code_simp
  have more: "Suc 0 < length (executable_specs EXAMPLE_SPECS)" by code_simp
  have "semantic_passed EXAMPLE_SPECS ?rs = raise StopIteration ''next''"
    by (rule early_failure_breaks_evidence [OF run _ _ _ more]) (simp_all add: vr_passed_def)
  with run show ?thesis by blast
qed

end
