(* ===== verification/Task_Queue.thy ===== *)
theory Task_Queue
  imports Path_Policies Review_Output Verification_Policy
begin

text \<open>
  Keeper's tasks: the state machine of a task (\<open>keeper/state_machine.py\<close>), its record with the validations of
  its reading (\<open>keeper/models/task.py\<close>) and the queue that picks the next one (\<open>keeper/task_queue.py\<close>).
\<close>

subsection \<open>The state machine\<close>

datatype task_status =
    BACKLOG | READY | BUILDING | SELF_VERIFYING | INDEPENDENT_AUDIT | REPAIRING | FINAL_VERIFY | APPROVED
  | COMPLETED | BLOCKED | FAILED | PAUSED | CANCELLED

fun status_transitions :: "task_status \<Rightarrow> task_status list" where
  "status_transitions BACKLOG = [READY, BLOCKED, CANCELLED]"
| "status_transitions READY = [BUILDING, BLOCKED, PAUSED, CANCELLED]"
| "status_transitions BUILDING = [SELF_VERIFYING, FAILED, BLOCKED, PAUSED]"
| "status_transitions SELF_VERIFYING = [INDEPENDENT_AUDIT, REPAIRING, FAILED, BLOCKED]"
| "status_transitions INDEPENDENT_AUDIT = [REPAIRING, FINAL_VERIFY, FAILED, BLOCKED]"
| "status_transitions REPAIRING = [FINAL_VERIFY, FAILED, BLOCKED]"
| "status_transitions FINAL_VERIFY = [APPROVED, FAILED, BLOCKED]"
| "status_transitions APPROVED = [COMPLETED]"
| "status_transitions PAUSED = [READY, BUILDING, BLOCKED, CANCELLED]"
| "status_transitions FAILED =
     [READY, BUILDING, SELF_VERIFYING, INDEPENDENT_AUDIT, REPAIRING, FINAL_VERIFY, BLOCKED]"
| "status_transitions BLOCKED =
     [READY, BUILDING, SELF_VERIFYING, INDEPENDENT_AUDIT, REPAIRING, FINAL_VERIFY, CANCELLED]"
| "status_transitions COMPLETED = []"
| "status_transitions CANCELLED = []"

definition status_transition :: "task_status \<Rightarrow> task_status \<Rightarrow> task_status result" where
  "status_transition current target =
     raise_if (target \<notin> set (status_transitions current)) ValueError ''invalid task transition'' (ok target)"

subsection \<open>Tasks and their queue\<close>

record history_entry =
  he_from :: task_status
  he_to :: task_status
  he_timestamp :: string

record task =
  tk_id :: string
  tk_title :: string
  tk_description :: string
  tk_phase :: string
  tk_sequence :: int
  tk_status :: task_status
  tk_priority :: int
  tk_risk :: string
  tk_component :: string
  tk_dependencies :: "string list"
  tk_acceptance_criteria :: "string list"
  tk_verification_commands :: "string list list"
  tk_final_verification_commands :: "string list list"
  tk_verification_specs :: "verification_spec list"
  tk_final_verification_specs :: "verification_spec list"
  tk_verification_waivers :: "verification_waiver list"
  tk_required_verification_categories :: "string list"
  tk_capabilities :: "string list"
  tk_allowed_paths :: "string list"
  tk_blocked_paths :: "string list"
  tk_maximum_attempts :: int
  tk_provider :: string
  tk_size :: string
  tk_created_timestamp :: string
  tk_updated_timestamp :: string
  tk_attempts :: int
  tk_transition_history :: "history_entry list"
  tk_active_attempt_id :: "string option"
  tk_active_run_stage :: "string option"
  tk_workspace_path :: "string option"
  tk_branch_name :: "string option"

text \<open>The validations of \<open>Task.from_dict\<close> on values of the right types.\<close>

definition check_task :: "task \<Rightarrow> unit result" where
  "check_task t =
     raise_if ([] \<in> set (tk_verification_commands t)) ValueError ''verification_commands must be non-empty argument arrays''
     (raise_if ([] \<in> set (tk_final_verification_commands t)) ValueError
        ''final_verification_commands must be non-empty argument arrays''
     (raise_if (tk_required_verification_categories t = [] \<or> list_ex blank (tk_required_verification_categories t))
        ValueError ''required_verification_categories must be a non-empty string array''
     (raise_if (tk_verification_commands t \<noteq> [] \<and>
          length (tk_verification_commands t) < length (tk_required_verification_categories t)) ValueError
        ''verification_commands do not cover all required verification categories''
     (raise_if (list_ex blank (tk_capabilities t)) ValueError ''capabilities must be a string array''
     (raise_if (tk_maximum_attempts t < 1) ValueError ''maximum_attempts must be positive'' (ok ()))))))"

text \<open>The queue over the parsed task files, in the order of their names.\<close>

definition queue_load :: "task list \<Rightarrow> task list result" where
  "queue_load tasks = raise_if (\<not> distinct (map tk_id tasks)) ValueError ''task IDs must be unique'' (ok tasks)"

definition queue_key :: "task \<Rightarrow> string \<times> int \<times> int \<times> string" where
  "queue_key t = (tk_phase t, tk_sequence t, tk_priority t, tk_id t)"

definition completed_ids :: "task list \<Rightarrow> string list" where
  "completed_ids tasks = map tk_id (filter (\<lambda>t. tk_status t = COMPLETED) tasks)"

definition eligible :: "task list \<Rightarrow> task list" where
  "eligible tasks =
     sort_key queue_key (filter (\<lambda>t. tk_status t \<in> {BACKLOG, READY, FAILED} \<and>
       set (tk_dependencies t) \<subseteq> set (completed_ids tasks) \<and> tk_attempts t < tk_maximum_attempts t) tasks)"

definition next_task :: "task list \<Rightarrow> task option result" where
  "next_task tasks =
     bind_result (queue_load tasks) (\<lambda>loaded. ok (case eligible loaded of [] \<Rightarrow> None | t # ts \<Rightarrow> Some t))"

text \<open>
The queue's next task is exactly the least one, by phase, sequence, priority and identity, among the
tasks that are waiting or failed, have attempts left and depend on completed tasks only; there is none
exactly when no task qualifies.
\<close>

theorem next_task_is_least_eligible:
  assumes "distinct (map tk_id tasks)"
  shows "next_task tasks = ok (Some t) \<longleftrightarrow>
    t \<in> set tasks \<and> tk_status t \<in> {BACKLOG, READY, FAILED} \<and> tk_attempts t < tk_maximum_attempts t \<and>
    (\<forall>d\<in>set (tk_dependencies t). \<exists>u\<in>set tasks. tk_id u = d \<and> tk_status u = COMPLETED) \<and>
    (\<forall>u\<in>set tasks. tk_status u \<in> {BACKLOG, READY, FAILED} \<and> tk_attempts u < tk_maximum_attempts u \<and>
       set (tk_dependencies u) \<subseteq> set (completed_ids tasks) \<longrightarrow> queue_key t \<le> queue_key u)"
proof -
  let ?P = "\<lambda>t. tk_status t \<in> {BACKLOG, READY, FAILED} \<and>
       set (tk_dependencies t) \<subseteq> set (completed_ids tasks) \<and> tk_attempts t < tk_maximum_attempts t"
  have ids: "u = v" if "u \<in> set tasks" "v \<in> set tasks" "queue_key u = queue_key v" for u v
    using assms that by (auto simp: queue_key_def distinct_map dest: inj_onD)
  have deps: "set (tk_dependencies t) \<subseteq> set (completed_ids tasks) \<longleftrightarrow>
      (\<forall>d\<in>set (tk_dependencies t). \<exists>u\<in>set tasks. tk_id u = d \<and> tk_status u = COMPLETED)" for t
    by (auto simp: completed_ids_def)
  have next_is: "next_task tasks = ok (Some t) \<longleftrightarrow> (\<exists>ts. eligible tasks = t # ts)"
    using assms by (auto simp: next_task_def queue_load_def split: list.splits)
  have sorted: "sorted (map queue_key (eligible tasks))" and set: "set (eligible tasks) = {t \<in> set tasks. ?P t}"
    by (auto simp: eligible_def)
  have "(\<exists>ts. eligible tasks = t # ts) \<longleftrightarrow> t \<in> set tasks \<and> ?P t \<and> (\<forall>u\<in>set tasks. ?P u \<longrightarrow> queue_key t \<le> queue_key u)"
  proof
    assume "\<exists>ts. eligible tasks = t # ts"
    then obtain ts where ts: "eligible tasks = t # ts" by blast
    with set have "t \<in> set tasks \<and> ?P t" by auto
    moreover have "queue_key t \<le> queue_key u" if "u \<in> set tasks" "?P u" for u
      using that set sorted ts by (cases "u = t") auto
    ultimately show "t \<in> set tasks \<and> ?P t \<and> (\<forall>u\<in>set tasks. ?P u \<longrightarrow> queue_key t \<le> queue_key u)" by blast
  next
    assume t: "t \<in> set tasks \<and> ?P t \<and> (\<forall>u\<in>set tasks. ?P u \<longrightarrow> queue_key t \<le> queue_key u)"
    then have "t \<in> set (eligible tasks)" using set by blast
    then obtain v vs where v: "eligible tasks = v # vs" by (cases "eligible tasks") auto
    then have "v \<in> set tasks" "?P v" using set by auto
    with t have "queue_key t \<le> queue_key v" by blast
    moreover have "queue_key v \<le> queue_key t" using v sorted \<open>t \<in> set (eligible tasks)\<close> by auto
    ultimately have "t = v" using ids t \<open>v \<in> set tasks\<close> by simp
    with v show "\<exists>ts. eligible tasks = t # ts" by blast
  qed
  then show ?thesis unfolding next_is deps by blast
qed

definition EXAMPLE_ENGINE_TASK :: task where
  "EXAMPLE_ENGINE_TASK =
     \<lparr>tk_id = ''t'', tk_title = ''t'', tk_description = ''d'', tk_phase = ''1'', tk_sequence = 1, tk_status = BACKLOG,
      tk_priority = 100, tk_risk = ''low'', tk_component = ''docs'', tk_dependencies = [], tk_acceptance_criteria = [],
      tk_verification_commands = [[''keeper:file-equals'', ''keeper/a.py'', ''x'']], tk_final_verification_commands = [],
      tk_verification_specs = [], tk_final_verification_specs = [], tk_verification_waivers = [],
      tk_required_verification_categories = [''task''], tk_capabilities = [], tk_allowed_paths = [''keeper/''],
      tk_blocked_paths = [], tk_maximum_attempts = 2, tk_provider = ''local'', tk_size = ''small'',
      tk_created_timestamp = ''now'', tk_updated_timestamp = ''now'', tk_attempts = 0, tk_transition_history = [],
      tk_active_attempt_id = None, tk_active_run_stage = None, tk_workspace_path = None, tk_branch_name = None\<rparr>"

theorem next_task_is_least_eligible_witness:
  "next_task [EXAMPLE_ENGINE_TASK\<lparr>tk_id := ''u'', tk_phase := ''2''\<rparr>, EXAMPLE_ENGINE_TASK] = ok (Some EXAMPLE_ENGINE_TASK)"
  by (rule next_task_is_least_eligible [THEN iffD2])
    (auto simp: EXAMPLE_ENGINE_TASK_def queue_key_def completed_ids_def less_eq_char_def)

end
