(* ===== verification/Task_Engine.thy ===== *)
theory Task_Engine
  imports Task_Queue
begin

text \<open>
  The orchestrator that takes a task from its first attempt to completion (\<open>keeper/orchestrator.py\<close>), with
  the runs of the agents (\<open>keeper/agent_runner.py\<close>, \<open>keeper/providers/routing.py\<close>).  What agents, git and
  the verification commands answer is a world of functions of a clock that every outside call advances, so
  that one question may have different answers at different times.  A method is an action on the engine's
  state; one that raises keeps what it had changed.  A provider run's record is saved where the code saves it.
\<close>

subsection \<open>The world and the engine's state\<close>

record provider =
  pv_name :: string
  pv_instance_id :: string
  pv_validate :: "unit result"

text \<open>The answer of a provider's process, and its standard output as logged.\<close>

record provider_reply =
  rp_exit_code :: int
  rp_timed_out :: bool
  rp_output :: json
  rp_log :: "string result"
  rp_stderr_size :: nat

record router =
  ro_routes :: "string \<Rightarrow> string option"
  ro_providers :: "string \<Rightarrow> provider option"

record world =
  w_now :: "nat \<Rightarrow> string"
  w_instant :: "nat \<Rightarrow> instant"
  w_fromisoformat :: "string \<Rightarrow> py_datetime option"
  w_repository :: string
  w_host :: verification_host
  w_runner_provider :: provider
  w_router :: "router option"
  w_maximum_output_bytes :: nat
  w_run_id :: "nat \<Rightarrow> string"
  w_reply :: "nat \<Rightarrow> string \<Rightarrow> provider_reply result"
  w_loads :: "string \<Rightarrow> json option"
  w_dumps :: "json \<Rightarrow> string"
  w_render :: "json \<Rightarrow> string"
  w_create :: "nat \<Rightarrow> (string \<times> string) result"
  w_exists :: "string \<Rightarrow> bool"
  w_status :: "nat \<Rightarrow> string list result"
  w_diff :: "nat \<Rightarrow> unit result"
  w_identity :: "nat \<Rightarrow> (string \<times> string) result"
  w_site :: "nat \<Rightarrow> verification_site"
  w_observe :: "nat \<Rightarrow> string \<Rightarrow> unit result"

text \<open>
  A provider run's record, without the fields that only repeat where its evidence lies and how its provider
  was registered: the engine neither reads nor writes them after the run.
\<close>

record run_record =
  rn_run_id :: string
  rn_task_id :: string
  rn_role :: string
  rn_provider_name :: string
  rn_provider_instance_id :: string
  rn_reasoning_level :: string
  rn_status :: string
  rn_process_exit_code :: "int option"
  rn_failure_reason :: "string option"
  rn_files_changed :: "json list"
  rn_verification_passed :: "bool option"
  rn_review_findings :: "finding list"
  rn_accepted_findings :: "json list"
  rn_rejected_findings :: "json list"
  rn_repair_history :: "string list"
  rn_final_approval_authority :: "string option"
  rn_review_tree_identity :: "string option"

record engine =
  en_clock :: nat
  en_task :: task
  en_saved :: "task option"
  en_runs :: "run_record list"
  en_authorizations :: "authorization list"
  en_cleanup :: "cleanup_item list"
  en_observed :: "string list"

subsection \<open>Actions\<close>

type_synonym 'a action = "engine \<Rightarrow> 'a result \<times> engine"

definition give :: "'a \<Rightarrow> 'a action" where
  "give x s = (Inr x, s)"

definition follow :: "'a action \<Rightarrow> ('a \<Rightarrow> 'b action) \<Rightarrow> 'b action" where
  "follow m f s = (case m s of (Inl e, s') \<Rightarrow> (Inl e, s') | (Inr x, s') \<Rightarrow> f x s')"

definition lift_result :: "'a result \<Rightarrow> 'a action" where
  "lift_result r s = (r, s)"

text \<open>One outside call: its answer at the present tick of the clock.\<close>

definition outside :: "(nat \<Rightarrow> 'a result) \<Rightarrow> 'a action" where
  "outside f s = (f (en_clock s), s\<lparr>en_clock := Suc (en_clock s)\<rparr>)"

definition modify :: "(engine \<Rightarrow> engine) \<Rightarrow> unit action" where
  "modify f s = (Inr (), f s)"

definition reading :: "(engine \<Rightarrow> 'a) \<Rightarrow> 'a action" where
  "reading f s = (Inr (f s), s)"

text \<open>\<open>try ... except (classes)\<close>\<close>

definition rescue :: "'a action \<Rightarrow> exc_class list \<Rightarrow> (error \<Rightarrow> 'a action) \<Rightarrow> 'a action" where
  "rescue m classes handler s =
     (case m s of
        (Inl e, s') \<Rightarrow> if err_class e \<in> set classes then handler e s' else (Inl e, s')
      | (Inr x, s') \<Rightarrow> (Inr x, s'))"

text \<open>A step that may end the method: \<open>None\<close> is its \<open>return\<close>.\<close>

definition go_on :: "'a option action \<Rightarrow> ('a \<Rightarrow> 'b option action) \<Rightarrow> 'b option action" where
  "go_on m f = follow m (\<lambda>r. case r of None \<Rightarrow> give None | Some x \<Rightarrow> f x)"

text \<open>\<open>ValueError\<close> has \<open>UnicodeDecodeError\<close> below it, and \<open>OSError\<close> \<open>PermissionError\<close>.\<close>

definition VALUE_ERRORS :: "exc_class list" where
  "VALUE_ERRORS = [ValueError, UnicodeDecodeError]"

definition OS_ERRORS :: "exc_class list" where
  "OS_ERRORS = [OSError, PermissionError]"

subsection \<open>Saving and status\<close>

definition change_task :: "(task \<Rightarrow> task) \<Rightarrow> unit action" where
  "change_task f = modify (\<lambda>s. s\<lparr>en_task := f (en_task s)\<rparr>)"

definition save_task :: "world \<Rightarrow> unit action" where
  "save_task w =
     follow (outside (\<lambda>n. ok (w_now w n))) (\<lambda>now.
     modify (\<lambda>s. let t = (en_task s)\<lparr>tk_updated_timestamp := now\<rparr> in s\<lparr>en_task := t, en_saved := Some t\<rparr>))"

definition notify_observer :: "world \<Rightarrow> string \<Rightarrow> unit action" where
  "notify_observer w event =
     follow (modify (\<lambda>s. s\<lparr>en_observed := en_observed s @ [event]\<rparr>)) (\<lambda>_.
     outside (\<lambda>n. w_observe w n event))"

definition STATUS_VALUES :: "(task_status \<times> string) list" where
  "STATUS_VALUES =
     [(BACKLOG, ''BACKLOG''), (READY, ''READY''), (BUILDING, ''BUILDING''), (SELF_VERIFYING, ''SELF_VERIFYING''),
      (INDEPENDENT_AUDIT, ''INDEPENDENT_AUDIT''), (REPAIRING, ''REPAIRING''), (FINAL_VERIFY, ''FINAL_VERIFY''),
      (APPROVED, ''APPROVED''), (COMPLETED, ''COMPLETED''), (BLOCKED, ''BLOCKED''), (FAILED, ''FAILED''),
      (PAUSED, ''PAUSED''), (CANCELLED, ''CANCELLED'')]"

definition set_status :: "world \<Rightarrow> task_status \<Rightarrow> unit action" where
  "set_status w target =
     follow (reading (\<lambda>s. tk_status (en_task s))) (\<lambda>previous.
     follow (lift_result (status_transition previous target)) (\<lambda>status.
     follow (change_task (\<lambda>t. t\<lparr>tk_status := status\<rparr>)) (\<lambda>_.
     follow (outside (\<lambda>n. ok (w_now w n))) (\<lambda>now.
     follow (change_task (\<lambda>t. t\<lparr>tk_transition_history := tk_transition_history t @
       [\<lparr>he_from = previous, he_to = target, he_timestamp = now\<rparr>]\<rparr>)) (\<lambda>_.
     follow (save_task w) (\<lambda>_.
     notify_observer w (the (map_of STATUS_VALUES target))))))))"

definition set_stage :: "world \<Rightarrow> string \<Rightarrow> unit action" where
  "set_stage w stage =
     follow (change_task (\<lambda>t. t\<lparr>tk_active_run_stage := Some stage\<rparr>)) (\<lambda>_.
     follow (save_task w) (\<lambda>_.
     notify_observer w stage))"

text \<open>The run records are kept in the order of their last writing.\<close>

definition save_run :: "run_record \<Rightarrow> unit action" where
  "save_run r = modify (\<lambda>s. s\<lparr>en_runs := filter (\<lambda>x. rn_run_id x \<noteq> rn_run_id r) (en_runs s) @ [r]\<rparr>)"

definition latest_run :: "string \<Rightarrow> string list \<Rightarrow> run_record action" where
  "latest_run task_id roles =
     follow (reading (\<lambda>s. filter (\<lambda>r. rn_task_id r = task_id \<and> rn_role r \<in> set roles) (en_runs s))) (\<lambda>candidates.
     lift_result (raise_if (candidates = []) RuntimeError ''durable checkpoint is missing for roles'' (ok (last candidates))))"

definition identity_of :: "world \<Rightarrow> (string \<times> string) action" where
  "identity_of w = outside (w_identity w)"

definition changed_in :: "world \<Rightarrow> string list action" where
  "changed_in w = follow (outside (w_status w)) (\<lambda>lines. give (changed_files lines))"

subsection \<open>Agents\<close>

definition for_role :: "router \<Rightarrow> string \<Rightarrow> provider result" where
  "for_role ro role =
     (case ro_routes ro role of
        None \<Rightarrow> raise RuntimeError ''no provider is explicitly configured for role''
      | Some provider_id \<Rightarrow>
          (case ro_providers ro provider_id of
             None \<Rightarrow> raise RuntimeError ''configured provider is unavailable''
           | Some p \<Rightarrow>
               bind_result (validate_provider_role (pv_name p) role) (\<lambda>_.
               bind_result (pv_validate p) (\<lambda>_. ok p))))"

definition provider_for :: "world \<Rightarrow> string \<Rightarrow> provider result" where
  "provider_for w role = (case w_router w of None \<Rightarrow> ok (w_runner_provider w) | Some ro \<Rightarrow> for_role ro role)"

definition reasoning_for :: "task \<Rightarrow> string" where
  "reasoning_for t =
     select_reasoning_level (length (tk_allowed_paths t))
       (lower (tk_component t) \<in> {''architecture'', ''workflow'', ''keeper''}) 0
       (is_qwen_provider (tk_provider t) \<and> lower (tk_risk t) \<noteq> ''low'') (is_high_risk_component (tk_component t))
       (lower (tk_component t) \<in> {''live-trading'', ''broker'', ''brokerage''}) False False"

text \<open>The record after the process has ended; a type error in the validation escapes.\<close>

definition finished_run :: "world \<Rightarrow> string \<Rightarrow> provider_reply \<Rightarrow> run_record \<Rightarrow> run_record result" where
  "finished_run w role reply r0 =
     (let r1 = r0\<lparr>rn_process_exit_code := Some (rp_exit_code reply),
            rn_status := (if rp_exit_code reply = 0 then ''completed'' else ''failed''),
            rn_failure_reason := (if rp_exit_code reply = 0 then rn_failure_reason r0
              else Some (if rp_timed_out reply then ''agent process timed out'' else ''agent process failed''))\<rparr>;
          r2 = (if w_maximum_output_bytes w < rp_stderr_size reply
            then r1\<lparr>rn_status := ''failed'', rn_process_exit_code := Some 65,
              rn_failure_reason := Some ''provider stderr exceeds configured size limit''\<rparr> else r1)
      in if rp_exit_code reply \<noteq> 0 then ok r2
         else
           case bind_result (if truthy (rp_output reply) then ok (w_dumps w (rp_output reply)) else rp_log reply) (\<lambda>raw.
                validate_provider_output (w_loads w) role raw (w_maximum_output_bytes w)) of
             Inr output \<Rightarrow> ok (r2\<lparr>rn_files_changed := elements (get_field (members output) ''files_changed'')\<rparr>)
           | Inl e \<Rightarrow>
               if err_class e \<in> set (OS_ERRORS @ VALUE_ERRORS)
               then ok (r2\<lparr>rn_status := ''failed'', rn_process_exit_code := Some 65,
                 rn_failure_reason := Some ''invalid structured provider output''\<rparr>)
               else Inl e)"

text \<open>\<open>_run_agent\<close>: the finished record, and the log as it can be read afterwards.\<close>

definition run_agent :: "world \<Rightarrow> string \<Rightarrow> (run_record \<times> string result) action" where
  "run_agent w role =
     follow (lift_result (provider_for w role)) (\<lambda>p.
     follow (reading en_task) (\<lambda>t.
     follow (outside (\<lambda>n. ok (w_run_id w n))) (\<lambda>run_id.
     let r0 = \<lparr>rn_run_id = run_id, rn_task_id = tk_id t, rn_role = role, rn_provider_name = pv_name p,
           rn_provider_instance_id = pv_instance_id p, rn_reasoning_level = reasoning_for t, rn_status = ''running'',
           rn_process_exit_code = None, rn_failure_reason = None, rn_files_changed = [], rn_verification_passed = None,
           rn_review_findings = [], rn_accepted_findings = [], rn_rejected_findings = [], rn_repair_history = [],
           rn_final_approval_authority = None, rn_review_tree_identity = None\<rparr>
     in follow (save_run r0) (\<lambda>_.
        follow (outside (\<lambda>n. w_reply w n role)) (\<lambda>reply.
        follow (lift_result (finished_run w role reply r0)) (\<lambda>r.
        follow (save_run r) (\<lambda>_.
        give (r, rp_log reply))))))))"

definition failed_run :: "run_record \<Rightarrow> bool" where
  "failed_run r \<longleftrightarrow> rn_process_exit_code r \<notin> {None, Some 0}"

text \<open>\<open>json.loads(log.read_text())\<close>\<close>

definition read_log :: "world \<Rightarrow> string result \<Rightarrow> json result" where
  "read_log w logged = bind_result logged (\<lambda>s. case w_loads w s of None \<Rightarrow> raise ValueError ''JSON'' | Some v \<Rightarrow> ok v)"

subsection \<open>Verification\<close>

definition plain_command :: "string list \<Rightarrow> verification_command" where
  "plain_command arguments =
     \<lparr>vc_arguments = arguments, vc_required = True, vc_validator = None, vc_registration_id = None,
      vc_expected_sha256 = None, vc_expected_executable_sha256 = None\<rparr>"

text \<open>The workspace's identity is the same before and after the commands.\<close>

definition collect_results :: "world \<Rightarrow> verification_command list \<Rightarrow> verification_result list action" where
  "collect_results w commands =
     follow (identity_of w) (\<lambda>before.
     follow (if commands = [] then give [] else outside (\<lambda>n. verifier_run (w_site w n) commands)) (\<lambda>results.
     follow (identity_of w) (\<lambda>after.
     lift_result (raise_if (before \<noteq> after) RuntimeError ''workspace changed while verification evidence was collected''
       (ok results)))))"

definition verify_task :: "world \<Rightarrow> bool \<Rightarrow> bool action" where
  "verify_task w final =
     follow (reading en_task) (\<lambda>t.
     follow (lift_result (raise_if (tk_verification_commands t = []) ValueError
       ''executable task requires mandatory verification commands'' (ok ()))) (\<lambda>_.
     let raw_specs = (if final \<and> tk_final_verification_specs t \<noteq> [] then tk_final_verification_specs t
           else tk_verification_specs t)
     in if raw_specs \<noteq> [] then
          follow (outside (\<lambda>n. validate_semantic_bindings (w_host w) raw_specs (tk_required_verification_categories t)
            (tk_verification_waivers t) (tk_id t) (w_instant w n) (Some (w_repository w)))) (\<lambda>_.
          follow (collect_results w (map command_of_spec (executable_specs raw_specs))) (\<lambda>results.
          lift_result (semantic_passed raw_specs results)))
        else
          let commands = map plain_command (if final \<and> tk_final_verification_commands t \<noteq> []
                then tk_final_verification_commands t else tk_verification_commands t)
          in follow (lift_result (raise_if (length commands < length (tk_required_verification_categories t)) ValueError
               ''mandatory verification categories are incomplete'' (ok ()))) (\<lambda>_.
             follow (collect_results w commands) (\<lambda>results. give (required_passed results)))))"

subsection \<open>Starting an attempt\<close>

definition STAGES :: "(string \<times> nat) list" where
  "STAGES = [(''author_execution'', 0), (''author_self_verification'', 1), (''independent_audit'', 2),
     (''repair_execution'', 3), (''post_repair_verification'', 4), (''final_validation'', 5)]"

definition authorize :: "world \<Rightarrow> unit action" where
  "authorize w =
     follow (reading (\<lambda>s. (en_task s, en_authorizations s))) (\<lambda>(t, authorizations).
     follow (outside (\<lambda>n. ok (w_now w n))) (\<lambda>now.
     follow (outside (\<lambda>n. ok (w_now w n))) (\<lambda>consumed_now.
     follow (lift_result (authorize_task (w_fromisoformat w) (tk_capabilities t) (tk_id t)
       (case tk_active_attempt_id t of None \<Rightarrow> [] | Some a \<Rightarrow> a) (w_repository w) now consumed_now authorizations)) (\<lambda>left.
     modify (\<lambda>s. s\<lparr>en_authorizations := left\<rparr>)))))"

text \<open>\<open>f"{task.id}-attempt-{task.attempts}"\<close>\<close>

definition attempt_name :: "string \<Rightarrow> int \<Rightarrow> string" where
  "attempt_name task_id attempts = task_id @ ''-attempt-'' @ show_int attempts"

definition start_attempt :: "world \<Rightarrow> bool \<Rightarrow> string option \<Rightarrow> unit option action" where
  "start_attempt w retrying stage_attempt_id =
     follow (reading en_task) (\<lambda>t.
     if retrying then
       follow (lift_result (raise_if (tk_status t \<notin> {FAILED, BLOCKED}) PermissionError
         ''task is not stopped for stage retry'' (ok ()))) (\<lambda>_.
       follow (lift_result (raise_if (stage_attempt_id \<in> {None, Some []}) ValueError
         ''stage retry requires a stage-attempt ID'' (ok ()))) (\<lambda>_.
       follow (change_task (\<lambda>t. t\<lparr>tk_active_attempt_id := stage_attempt_id\<rparr>)) (\<lambda>_.
       follow (save_task w) (\<lambda>_. give (Some ())))))
     else if tk_maximum_attempts t \<le> tk_attempts t then
       follow (if tk_status t = FAILED then set_status w BLOCKED else give ()) (\<lambda>_. give None)
     else
       follow (if tk_status t \<in> {BACKLOG, FAILED} then set_status w READY else give ()) (\<lambda>_.
       follow (change_task (\<lambda>t. t\<lparr>tk_attempts := tk_attempts t + 1,
         tk_active_attempt_id := Some (attempt_name (tk_id t) (tk_attempts t + 1))\<rparr>)) (\<lambda>_.
       follow (save_task w) (\<lambda>_. give (Some ())))))"

definition admission_checks :: "world \<Rightarrow> bool \<Rightarrow> unit action" where
  "admission_checks w retrying =
     follow (reading en_task) (\<lambda>t.
     follow (lift_result (raise_if (tk_verification_commands t = []) ValueError
       ''executable task requires mandatory verification commands'' (ok ()))) (\<lambda>_.
     follow (if retrying then give () else authorize w) (\<lambda>_.
     follow (lift_result (validate_provider_assignment (tk_provider t) (tk_risk t) (tk_size t) (tk_component t))) (\<lambda>_.
     follow (lift_result (case w_router w of
         None \<Rightarrow> pv_validate (w_runner_provider w)
       | Some ro \<Rightarrow> bind_result (for_role ro ''builder'') (\<lambda>_. ok ()))) (\<lambda>_.
     give ())))))"

definition admit :: "world \<Rightarrow> bool \<Rightarrow> unit option action" where
  "admit w retrying =
     rescue (follow (admission_checks w retrying) (\<lambda>_. give (Some ())))
       (PermissionError # RuntimeError # VALUE_ERRORS) (\<lambda>_. follow (set_status w BLOCKED) (\<lambda>_. give None))"

definition open_workspace :: "world \<Rightarrow> bool \<Rightarrow> unit action" where
  "open_workspace w retrying =
     follow (reading en_task) (\<lambda>t.
     if retrying then
       lift_result (raise_if (tk_workspace_path t \<in> {None, Some []} \<or> tk_branch_name t \<in> {None, Some []}) RuntimeError
         ''stage retry has no durable workspace checkpoint''
         (raise_if (\<not> w_exists w (the (tk_workspace_path t))) RuntimeError ''stage retry workspace is missing'' (ok ())))
     else
       follow (outside (w_create w)) (\<lambda>(path, branch).
       follow (change_task (\<lambda>t. t\<lparr>tk_workspace_path := Some path, tk_branch_name := Some branch\<rparr>)) (\<lambda>_.
       save_task w)))"

definition check_scope :: "world \<Rightarrow> unit action" where
  "check_scope w =
     follow (changed_in w) (\<lambda>changed.
     follow (reading en_task) (\<lambda>t.
     lift_result (enforce_path_scope changed (tk_allowed_paths t) (tk_blocked_paths t))))"

definition stop_with :: "world \<Rightarrow> task_status \<Rightarrow> 'a option action" where
  "stop_with w target = follow (set_status w target) (\<lambda>_. give None)"

subsection \<open>The stages\<close>

definition build_stage :: "world \<Rightarrow> nat \<Rightarrow> run_record option action" where
  "build_stage w start =
     (if start \<le> 0 then
        follow (set_status w BUILDING) (\<lambda>_.
        follow (set_stage w ''BUILDING'') (\<lambda>_.
        follow (run_agent w ''builder'') (\<lambda>(run, logged).
        if failed_run run then stop_with w FAILED
        else follow (check_scope w) (\<lambda>_. give (Some run)))))
      else
        follow (reading (\<lambda>s. tk_id (en_task s))) (\<lambda>task_id.
        follow (latest_run task_id [''builder'']) (\<lambda>run. give (Some run))))"

definition self_verify_stage :: "world \<Rightarrow> nat \<Rightarrow> run_record \<Rightarrow> run_record option action" where
  "self_verify_stage w start run =
     (if start \<le> 1 then
        follow (set_status w SELF_VERIFYING) (\<lambda>_.
        follow (set_stage w ''SELF_VERIFYING'') (\<lambda>_.
        follow (verify_task w False) (\<lambda>passed.
        let run = run\<lparr>rn_verification_passed := Some passed\<rparr> in
        follow (save_run run) (\<lambda>_.
        if passed then give (Some run) else stop_with w FAILED))))
      else give (Some run))"

definition independent :: "task \<Rightarrow> run_record \<Rightarrow> run_record \<Rightarrow> bool" where
  "independent t run review \<longleftrightarrow>
     rn_provider_instance_id review \<noteq> rn_provider_instance_id run \<and>
     \<not> (is_qwen_provider (rn_provider_name run) \<and> rn_provider_name review = rn_provider_name run) \<and>
     \<not> (is_qwen_provider (rn_provider_name run) \<and> is_high_risk_component (tk_component t) \<and>
        is_qwen_provider (rn_provider_name review))"

text \<open>The reviewer's findings, read from its log, are recorded with the tree they are about.\<close>

definition record_review :: "world \<Rightarrow> run_record \<Rightarrow> finding list \<Rightarrow> (run_record \<times> finding list) option action" where
  "record_review w review findings =
     (let blockers = blocking_findings findings in
      follow (identity_of w) (\<lambda>identity.
      let review = review\<lparr>rn_review_findings := findings, rn_accepted_findings := map finding_to_dict blockers,
            rn_rejected_findings := map finding_to_dict (filter (\<lambda>f. f \<notin> set blockers) findings),
            rn_review_tree_identity := Some (snd identity)\<rparr>
      in follow (save_run review) (\<lambda>_.
         follow (modify (\<lambda>s. s\<lparr>en_cleanup := record_cleanup findings (tk_id (en_task s)) (en_cleanup s)\<rparr>)) (\<lambda>_.
         give (Some (review, blockers))))))"

definition judge_review :: "world \<Rightarrow> run_record \<Rightarrow> run_record \<Rightarrow> string result \<Rightarrow> (run_record \<times> finding list) option action" where
  "judge_review w run review logged =
     (if failed_run review then stop_with w FAILED
      else follow (reading en_task) (\<lambda>t.
      if \<not> independent t run review then stop_with w BLOCKED
      else
        go_on (rescue
          (follow (lift_result (bind_result (read_log w logged) (parse_review_output (w_render w)))) (\<lambda>fs. give (Some fs)))
          (VALUE_ERRORS @ OS_ERRORS) (\<lambda>_. stop_with w FAILED))
        (record_review w review)))"

definition audit_stage :: "world \<Rightarrow> nat \<Rightarrow> run_record \<Rightarrow> (run_record \<times> finding list) option action" where
  "audit_stage w start run =
     (if start \<le> 2 then
        follow (set_status w INDEPENDENT_AUDIT) (\<lambda>_.
        follow (set_stage w ''REVIEWING'') (\<lambda>_.
        follow (outside (w_diff w)) (\<lambda>_.
        follow (run_agent w ''reviewer'') (\<lambda>(review, logged).
        judge_review w run review logged))))
      else
        follow (reading (\<lambda>s. tk_id (en_task s))) (\<lambda>task_id.
        follow (latest_run task_id [''reviewer'']) (\<lambda>review.
        follow (lift_result (map_result (finding_from_dict (w_render w)) (rn_accepted_findings review))) (\<lambda>blockers.
        give (Some (review, blockers))))))"

definition judge_repair :: "world \<Rightarrow> run_record \<Rightarrow> string \<times> string \<Rightarrow> run_record \<Rightarrow> run_record option action" where
  "judge_repair w review pre_repair_identity repair =
     (if failed_run repair then stop_with w BLOCKED
      else
        follow (identity_of w) (\<lambda>identity.
        if identity = pre_repair_identity then
          follow (save_run (repair\<lparr>rn_failure_reason := Some ''repairer reported success without changing workspace state''\<rparr>)) (\<lambda>_.
          stop_with w BLOCKED)
        else
          follow (save_run (review\<lparr>rn_repair_history := rn_repair_history review @ [rn_run_id repair]\<rparr>)) (\<lambda>_.
          give (Some repair))))"

definition repair_stage :: "world \<Rightarrow> nat \<Rightarrow> run_record \<Rightarrow> run_record option action" where
  "repair_stage w start review =
     (if start \<le> 3 then
        follow (set_status w REPAIRING) (\<lambda>_.
        follow (set_stage w ''REPAIRING'') (\<lambda>_.
        follow (identity_of w) (\<lambda>pre_repair_identity.
        follow (outside (w_diff w)) (\<lambda>_.
        follow (run_agent w ''repairer'') (\<lambda>(repair, logged).
        judge_repair w review pre_repair_identity repair)))))
      else
        follow (reading (\<lambda>s. tk_id (en_task s))) (\<lambda>task_id.
        follow (latest_run task_id [''repairer'']) (\<lambda>repair. give (Some repair))))"

definition record_post_review :: "world \<Rightarrow> run_record \<Rightarrow> finding list \<times> json list \<Rightarrow> run_record option action" where
  "record_post_review w post_review outcome =
     follow (identity_of w) (\<lambda>identity.
     let post_review = post_review\<lparr>rn_review_findings := fst outcome, rn_accepted_findings := snd outcome,
           rn_rejected_findings := map finding_to_dict (fst outcome), rn_review_tree_identity := Some (snd identity)\<rparr>
     in follow (save_run post_review) (\<lambda>_.
        follow (modify (\<lambda>s. s\<lparr>en_cleanup := record_cleanup (fst outcome) (tk_id (en_task s)) (en_cleanup s)\<rparr>)) (\<lambda>_.
        give (Some post_review))))"

definition judge_post_review ::
    "world \<Rightarrow> run_record \<Rightarrow> run_record \<Rightarrow> finding list \<Rightarrow> run_record \<Rightarrow> string result \<Rightarrow> run_record option action" where
  "judge_post_review w run repair blockers post_review logged =
     (if failed_run post_review then stop_with w FAILED
      else if rn_provider_instance_id post_review \<in> {rn_provider_instance_id run, rn_provider_instance_id repair}
      then stop_with w BLOCKED
      else
        go_on (rescue
          (follow (lift_result (bind_result (read_log w logged) (\<lambda>val.
             validate_post_repair_review (w_render w) val blockers))) (\<lambda>r. give (Some r)))
          (VALUE_ERRORS @ OS_ERRORS @ [KeyError, TypeError]) (\<lambda>_. stop_with w FAILED))
        (record_post_review w post_review))"

definition post_repair_stage ::
    "world \<Rightarrow> nat \<Rightarrow> run_record \<Rightarrow> run_record \<Rightarrow> finding list \<Rightarrow> run_record option action" where
  "post_repair_stage w start run repair blockers =
     (if start \<le> 4 then
        follow (if start = 4 then
            follow (change_task (\<lambda>t. t\<lparr>tk_status := REPAIRING\<rparr>)) (\<lambda>_. save_task w)
          else give ()) (\<lambda>_.
        follow (set_stage w ''POST_REPAIR_REVIEWING'') (\<lambda>_.
        follow (outside (w_diff w)) (\<lambda>_.
        follow (run_agent w ''post_repair_reviewer'') (\<lambda>(post_review, logged).
        judge_post_review w run repair blockers post_review logged))))
      else
        follow (reading (\<lambda>s. tk_id (en_task s))) (\<lambda>task_id.
        follow (latest_run task_id [''post_repair_reviewer'']) (\<lambda>post_review. give (Some post_review))))"

text \<open>The review that the final verification rests on.\<close>

definition settle_blockers ::
    "world \<Rightarrow> nat \<Rightarrow> run_record \<Rightarrow> run_record \<Rightarrow> finding list \<Rightarrow> run_record option action" where
  "settle_blockers w start run review blockers =
     (if blockers \<noteq> [] then
        go_on (repair_stage w start review) (\<lambda>repair.
        post_repair_stage w start run repair blockers)
      else if start \<in> {3, 4} then
        lift_result (raise PermissionError ''selected repair stage has no accepted blockers'')
      else if 2 < start then
        follow (reading (\<lambda>s. tk_id (en_task s))) (\<lambda>task_id.
        follow (latest_run task_id [''post_repair_reviewer'', ''reviewer'']) (\<lambda>review. give (Some review)))
      else give (Some review))"

definition approve :: "world \<Rightarrow> run_record \<Rightarrow> unit option action" where
  "approve w review =
     follow (set_status w APPROVED) (\<lambda>_.
     follow (save_run (review\<lparr>rn_final_approval_authority := Some (rn_provider_name review)\<rparr>)) (\<lambda>_.
     follow (set_status w COMPLETED) (\<lambda>_.
     follow (change_task (\<lambda>t. t\<lparr>tk_active_run_stage := None\<rparr>)) (\<lambda>_.
     follow (save_task w) (\<lambda>_.
     give (Some ()))))))"

definition tree_unchanged :: "world \<Rightarrow> run_record \<Rightarrow> bool action" where
  "tree_unchanged w review =
     (case rn_review_tree_identity review of
        None \<Rightarrow> give True
      | Some tree \<Rightarrow> follow (identity_of w) (\<lambda>identity. give (snd identity = tree)))"

definition final_stage :: "world \<Rightarrow> run_record \<Rightarrow> unit option action" where
  "final_stage w review =
     follow (set_status w FINAL_VERIFY) (\<lambda>_.
     follow (set_stage w ''FINAL_VERIFYING'') (\<lambda>_.
     follow (check_scope w) (\<lambda>_.
     follow (tree_unchanged w review) (\<lambda>unchanged.
     if \<not> unchanged then stop_with w BLOCKED
     else
       follow (verify_task w True) (\<lambda>passed.
       let review = review\<lparr>rn_verification_passed := Some passed\<rparr> in
       follow (save_run review) (\<lambda>_.
       if \<not> passed then stop_with w FAILED else approve w review))))))"

definition run_task :: "world \<Rightarrow> string option \<Rightarrow> string option \<Rightarrow> unit option action" where
  "run_task w retry_stage stage_attempt_id =
     (let retrying = (retry_stage \<noteq> None);
          stage = map_of STAGES (case retry_stage of None \<Rightarrow> ''author_execution'' | Some st \<Rightarrow> st)
      in follow (lift_result (raise_if (stage = None) ValueError ''unsupported retry stage'' (ok (the stage)))) (\<lambda>start.
         go_on (start_attempt w retrying stage_attempt_id) (\<lambda>_.
         go_on (admit w retrying) (\<lambda>_.
         follow (open_workspace w retrying) (\<lambda>_.
         go_on (build_stage w start) (\<lambda>run.
         go_on (self_verify_stage w start run) (\<lambda>run.
         go_on (audit_stage w start run) (\<lambda>(review, blockers).
         go_on (settle_blockers w start run review blockers) (\<lambda>review.
         final_stage w review)))))))))"

end
