(* ===== verification/Task_Properties.thy ===== *)
theory Task_Properties
  imports Task_Engine
begin

text \<open>
  What holds of every run of a task by the engine, whatever the agents, git and the commands answer and
  whenever an exception ends it: the recorded history of a task is a path of the state machine, and a task
  is completed only past every gate.
\<close>

subsection \<open>Relations that every action keeps\<close>

named_theorems stays_intros \<open>actions that keep a relation between the state before and after\<close>

definition stays :: "(engine \<Rightarrow> engine \<Rightarrow> bool) \<Rightarrow> 'a action \<Rightarrow> bool" where
  "stays R m \<longleftrightarrow> (\<forall>s. R s (snd (m s)))"

lemma staysD: "stays R m \<Longrightarrow> m s = (r, s') \<Longrightarrow> R s s'"
  by (metis snd_conv stays_def)

locale kept_relation =
  fixes R :: "engine \<Rightarrow> engine \<Rightarrow> bool"
  assumes refl: "R s s" and trans: "R s t \<Longrightarrow> R t u \<Longrightarrow> R s u"
    and tick: "R s (s\<lparr>en_clock := Suc (en_clock s)\<rparr>)"
begin

lemma stays_give: "stays R (give x)"
  by (simp add: stays_def give_def refl)

lemma stays_lift: "stays R (lift_result r)"
  by (simp add: stays_def lift_result_def refl)

lemma stays_reading: "stays R (reading f)"
  by (simp add: stays_def reading_def refl)

lemma stays_outside: "stays R (outside f)"
  by (simp add: stays_def outside_def tick)

lemma stays_modify: "(\<And>s. R s (f s)) \<Longrightarrow> stays R (modify f)"
  by (simp add: stays_def modify_def)

lemma stays_follow: "stays R m \<Longrightarrow> (\<And>x. stays R (f x)) \<Longrightarrow> stays R (follow m f)"
  unfolding stays_def follow_def by (auto split: prod.splits sum.splits) (metis snd_conv trans)+

lemma stays_rescue: "stays R m \<Longrightarrow> (\<And>e. stays R (h e)) \<Longrightarrow> stays R (rescue m classes h)"
  unfolding stays_def rescue_def by (auto split: prod.splits sum.splits) (metis snd_conv trans)+

lemma stays_go_on: "stays R m \<Longrightarrow> (\<And>x. stays R (f x)) \<Longrightarrow> stays R (go_on m f)"
  unfolding go_on_def by (rule stays_follow) (auto split: option.splits simp: stays_give)

lemma stays_if: "(b \<Longrightarrow> stays R m) \<Longrightarrow> (\<not> b \<Longrightarrow> stays R n) \<Longrightarrow> stays R (if b then m else n)"
  by simp

lemma stays_let: "(\<And>x. stays R (f x)) \<Longrightarrow> stays R (let x = v in f x)"
  by simp

lemma stays_prod: "(\<And>x y. stays R (f x y)) \<Longrightarrow> stays R (case p of (x, y) \<Rightarrow> f x y)"
  by (cases p) simp

lemma stays_option: "stays R m \<Longrightarrow> (\<And>x. stays R (f x)) \<Longrightarrow> stays R (case v of None \<Rightarrow> m | Some x \<Rightarrow> f x)"
  by (cases v) simp_all

lemmas stays_rules = stays_give stays_lift stays_reading stays_outside stays_follow stays_rescue stays_go_on
  stays_if stays_let stays_prod stays_option

end

subsection \<open>The recorded history\<close>

definition legal_history :: "history_entry list \<Rightarrow> bool" where
  "legal_history h \<longleftrightarrow> list_all (\<lambda>e. he_to e \<in> set (status_transitions (he_from e))) h"

definition history_grows :: "engine \<Rightarrow> engine \<Rightarrow> bool" where
  "history_grows s t \<longleftrightarrow> (\<exists>new. tk_transition_history (en_task t) = tk_transition_history (en_task s) @ new \<and> legal_history new)"

interpretation history: kept_relation history_grows
proof
  show "history_grows s s" for s by (simp add: history_grows_def legal_history_def)
  show "history_grows s u" if "history_grows s t" "history_grows t u" for s t u
    using that by (auto simp: history_grows_def legal_history_def)
  show "history_grows s (s\<lparr>en_clock := Suc (en_clock s)\<rparr>)" for s by (simp add: history_grows_def legal_history_def)
qed

lemma grows_change_task:
  "(\<And>t. tk_transition_history (f t) = tk_transition_history t) \<Longrightarrow> stays history_grows (change_task f)"
  unfolding change_task_def by (rule history.stays_modify) (simp add: history_grows_def legal_history_def)

lemma grows_same_task: "(\<And>s. en_task (f s) = en_task s) \<Longrightarrow> stays history_grows (modify f)"
  by (rule history.stays_modify) (simp add: history_grows_def legal_history_def)

lemma grows_save_task: "stays history_grows (save_task w)"
  unfolding save_task_def
  by (intro history.stays_rules history.stays_modify) (simp add: history_grows_def legal_history_def Let_def)

lemma grows_observe: "stays history_grows (notify_observer w event)"
  unfolding notify_observer_def by (intro history.stays_rules grows_same_task) simp

lemma grows_set_stage: "stays history_grows (set_stage w stage)"
  unfolding set_stage_def by (intro history.stays_rules grows_change_task grows_save_task grows_observe) simp

lemma grows_save_run: "stays history_grows (save_run r)"
  unfolding save_run_def by (rule grows_same_task) simp

lemma grows_set_status: "stays history_grows (set_status w target)"
proof -
  have step: "stays history_grows (follow (lift_result (status_transition previous target)) (\<lambda>status.
     follow (change_task (\<lambda>t. t\<lparr>tk_status := status\<rparr>)) (\<lambda>_.
     follow (outside (\<lambda>n. ok (w_now w n))) (\<lambda>now.
     follow (change_task (\<lambda>t. t\<lparr>tk_transition_history := tk_transition_history t @
       [\<lparr>he_from = previous, he_to = target, he_timestamp = now\<rparr>]\<rparr>)) (\<lambda>_.
     follow (save_task w) (\<lambda>_.
     notify_observer w (the (map_of STATUS_VALUES target))))))))" for previous
  proof (cases "target \<in> set (status_transitions previous)")
    case True
    have append: "stays history_grows (change_task (\<lambda>t. t\<lparr>tk_transition_history := tk_transition_history t @
       [\<lparr>he_from = previous, he_to = target, he_timestamp = now\<rparr>]\<rparr>))" for now
      unfolding change_task_def
      by (rule history.stays_modify) (use True in \<open>simp add: history_grows_def legal_history_def\<close>)
    show ?thesis
      by (intro history.stays_rules append grows_save_task grows_observe) (rule grows_change_task, simp)
  next
    case False
    then show ?thesis
      by (simp add: stays_def follow_def lift_result_def status_transition_def history.refl)
  qed
  show ?thesis unfolding set_status_def by (rule history.stays_follow [OF history.stays_reading step])
qed

lemmas grows_basic = grows_save_task grows_observe grows_set_stage grows_save_run grows_set_status

lemma grows_latest_run: "stays history_grows (latest_run task_id roles)"
  unfolding latest_run_def by (intro history.stays_rules)

lemma grows_run_agent: "stays history_grows (run_agent w role)"
  unfolding run_agent_def by (intro history.stays_rules grows_basic)

lemma grows_verify_task: "stays history_grows (verify_task w final)"
  unfolding verify_task_def collect_results_def identity_of_def by (intro history.stays_rules)

lemma grows_check_scope: "stays history_grows (check_scope w)"
  unfolding check_scope_def changed_in_def by (intro history.stays_rules)

lemma grows_stop_with: "stays history_grows (stop_with w target)"
  unfolding stop_with_def by (intro history.stays_rules grows_basic)

lemmas grows_calls = grows_latest_run grows_run_agent grows_verify_task grows_check_scope grows_stop_with

lemma grows_start_attempt: "stays history_grows (start_attempt w retrying stage_attempt_id)"
  unfolding start_attempt_def by (intro history.stays_rules grows_basic grows_change_task) simp_all

lemma grows_admit: "stays history_grows (admit w retrying)"
  unfolding admit_def admission_checks_def authorize_def
  by (intro history.stays_rules grows_basic grows_same_task) simp_all

lemma grows_open_workspace: "stays history_grows (open_workspace w retrying)"
  unfolding open_workspace_def by (intro history.stays_rules grows_basic grows_change_task) simp_all

lemma grows_build_stage: "stays history_grows (build_stage w start)"
  unfolding build_stage_def by (intro history.stays_rules grows_basic grows_calls)

lemma grows_self_verify_stage: "stays history_grows (self_verify_stage w start run)"
  unfolding self_verify_stage_def by (intro history.stays_rules grows_basic grows_calls)

lemma grows_audit_stage: "stays history_grows (audit_stage w start run)"
  unfolding audit_stage_def judge_review_def record_review_def identity_of_def
  by (intro history.stays_rules grows_basic grows_calls grows_same_task) simp_all

lemma grows_settle_blockers: "stays history_grows (settle_blockers w start run review blockers)"
  unfolding settle_blockers_def repair_stage_def judge_repair_def post_repair_stage_def judge_post_review_def
    record_post_review_def identity_of_def
  by (intro history.stays_rules grows_basic grows_calls grows_same_task grows_change_task) simp_all

lemma grows_final_stage: "stays history_grows (final_stage w review)"
  unfolding final_stage_def tree_unchanged_def approve_def identity_of_def
  by (intro history.stays_rules grows_basic grows_calls grows_change_task) simp_all

lemma grows_run_task: "stays history_grows (run_task w retry_stage stage_attempt_id)"
  unfolding run_task_def
  by (intro history.stays_rules grows_start_attempt grows_admit grows_open_workspace grows_build_stage
      grows_self_verify_stage grows_audit_stage grows_settle_blockers grows_final_stage)

text \<open>
C22: whatever the agents, git and the verification answer, and however a run of a task ends, by returning or
by an exception, the run only appends to the task's history, and every transition it records is one of the
state machine's.
\<close>

theorem recorded_history_is_legal:
  "\<exists>new. tk_transition_history (en_task (snd (run_task w retry_stage stage_attempt_id s))) =
      tk_transition_history (en_task s) @ new \<and> list_all (\<lambda>e. he_to e \<in> set (status_transitions (he_from e))) new"
  using grows_run_task [of w retry_stage stage_attempt_id]
  by (simp add: stays_def history_grows_def legal_history_def)

subsection \<open>Outcomes\<close>

text \<open>What holds when an action returns, and when it raises.\<close>

definition wp :: "'a action \<Rightarrow> ('a \<Rightarrow> engine \<Rightarrow> bool) \<Rightarrow> (error \<Rightarrow> engine \<Rightarrow> bool) \<Rightarrow> engine \<Rightarrow> bool" where
  "wp m Q E s \<longleftrightarrow> (case m s of (Inl e, t) \<Rightarrow> E e t | (Inr x, t) \<Rightarrow> Q x t)"

lemma wp_give [simp]: "wp (give x) Q E s = Q x s"
  by (simp add: wp_def give_def)

lemma wp_if [simp]: "wp (if b then m else n) Q E s = (if b then wp m Q E s else wp n Q E s)"
  by simp

lemma wp_prod [simp]: "wp (case p of (x, y) \<Rightarrow> f x y) Q E s = (case p of (x, y) \<Rightarrow> wp (f x y) Q E s)"
  by (cases p) simp

lemma wp_lift [simp]: "wp (lift_result r) Q E s = (case r of Inl e \<Rightarrow> E e s | Inr x \<Rightarrow> Q x s)"
  by (simp add: wp_def lift_result_def split: sum.split)

lemma wp_modify [simp]: "wp (modify f) Q E s = Q () (f s)"
  by (simp add: wp_def modify_def)

lemma wp_reading [simp]: "wp (reading f) Q E s = Q (f s) s"
  by (simp add: wp_def reading_def)

lemma wp_outside [simp]: "wp (outside f) Q E s =
    (case f (en_clock s) of Inl e \<Rightarrow> E e (s\<lparr>en_clock := Suc (en_clock s)\<rparr>) | Inr x \<Rightarrow> Q x (s\<lparr>en_clock := Suc (en_clock s)\<rparr>))"
  by (simp add: wp_def outside_def split: sum.split)

lemma wp_follow [simp]: "wp (follow m f) Q E s = wp m (\<lambda>x. wp (f x) Q E) E s"
  by (auto simp: wp_def follow_def split: sum.splits prod.splits)

lemma wp_go_on [simp]: "wp (go_on m f) Q E s = wp m (\<lambda>r t. case r of None \<Rightarrow> Q None t | Some x \<Rightarrow> wp (f x) Q E t) E s"
proof -
  have "wp (case r of None \<Rightarrow> give None | Some x \<Rightarrow> f x) Q E = (\<lambda>t. case r of None \<Rightarrow> Q None t | Some x \<Rightarrow> wp (f x) Q E t)" for r
    by (rule ext) (simp split: option.split)
  then show ?thesis by (simp add: go_on_def)
qed

lemma wp_rescue [simp]: "wp (rescue m classes h) Q E s =
    wp m Q (\<lambda>e t. if err_class e \<in> set classes then wp (h e) Q E t else E e t) s"
  by (auto simp: wp_def rescue_def split: sum.splits prod.splits)

lemma wp_mono: "wp m Q E s \<Longrightarrow> (\<And>x t. Q x t \<Longrightarrow> Q' x t) \<Longrightarrow> (\<And>e t. E e t \<Longrightarrow> E' e t) \<Longrightarrow> wp m Q' E' s"
  by (auto simp: wp_def split: sum.splits prod.splits)

lemma wp_stays: "stays R m \<Longrightarrow> (\<And>x t. R s t \<Longrightarrow> Q x t) \<Longrightarrow> (\<And>e t. R s t \<Longrightarrow> E e t) \<Longrightarrow> wp m Q E s"
  by (auto simp: wp_def stays_def split: sum.splits prod.splits) (metis snd_conv)+

subsection \<open>Actions that leave records and status\<close>

definition quiet :: "engine \<Rightarrow> engine \<Rightarrow> bool" where
  "quiet s t \<longleftrightarrow> en_runs t = en_runs s \<and> en_clock s \<le> en_clock t \<and> tk_id (en_task t) = tk_id (en_task s) \<and>
     tk_status (en_task t) = tk_status (en_task s)"

interpretation quiet: kept_relation quiet
  by unfold_locales (auto simp: quiet_def)

lemma quiet_change_task:
  "(\<And>t. tk_id (f t) = tk_id t \<and> tk_status (f t) = tk_status t) \<Longrightarrow> stays quiet (change_task f)"
  unfolding change_task_def by (rule quiet.stays_modify) (simp add: quiet_def)

lemma quiet_modify:
  "(\<And>s. en_runs (f s) = en_runs s \<and> en_clock (f s) = en_clock s \<and> en_task (f s) = en_task s) \<Longrightarrow> stays quiet (modify f)"
  by (rule quiet.stays_modify) (simp add: quiet_def)

lemma quiet_save_task: "stays quiet (save_task w)"
  unfolding save_task_def
  by (intro quiet.stays_rules quiet.stays_modify) (simp add: quiet_def Let_def)

lemma quiet_observe: "stays quiet (notify_observer w event)"
  unfolding notify_observer_def by (intro quiet.stays_rules quiet_modify) simp

lemma quiet_set_stage: "stays quiet (set_stage w stage)"
  unfolding set_stage_def by (intro quiet.stays_rules quiet_change_task quiet_save_task quiet_observe) simp

lemma quiet_latest_run: "stays quiet (latest_run task_id roles)"
  unfolding latest_run_def by (intro quiet.stays_rules)

lemma quiet_verify_task: "stays quiet (verify_task w final)"
  unfolding verify_task_def collect_results_def identity_of_def by (intro quiet.stays_rules)

lemma quiet_check_scope: "stays quiet (check_scope w)"
  unfolding check_scope_def changed_in_def by (intro quiet.stays_rules)

lemma quiet_identity: "stays quiet (identity_of w)"
  unfolding identity_of_def by (rule quiet.stays_outside)

lemma quiet_admission: "stays quiet (admission_checks w retrying)"
  unfolding admission_checks_def authorize_def
  by (intro quiet.stays_rules quiet_modify) simp_all

lemma quiet_open_workspace: "stays quiet (open_workspace w retrying)"
  unfolding open_workspace_def by (intro quiet.stays_rules quiet_change_task quiet_save_task) simp_all

lemmas quiet_calls = quiet_save_task quiet_observe quiet_set_stage quiet_latest_run quiet_verify_task
  quiet_check_scope quiet_identity quiet_admission quiet_open_workspace

text \<open>A change of status: done, or refused before it or interrupted after it.\<close>

definition moved :: "task_status set \<Rightarrow> engine \<Rightarrow> engine \<Rightarrow> bool" where
  "moved targets s t \<longleftrightarrow> en_runs t = en_runs s \<and> en_clock s \<le> en_clock t \<and> tk_id (en_task t) = tk_id (en_task s) \<and>
     tk_status (en_task t) \<in> targets"

lemma wp_set_status:
  assumes "\<And>t. moved {target} s t \<Longrightarrow> Q () t" and "\<And>e t. moved {tk_status (en_task s), target} s t \<Longrightarrow> E e t"
  shows "wp (set_status w target) Q E s"
proof (cases "target \<in> set (status_transitions (tk_status (en_task s)))")
  case True
  let ?rest = "\<lambda>previous. follow (outside (\<lambda>n. ok (w_now w n))) (\<lambda>now.
     follow (change_task (\<lambda>t. t\<lparr>tk_transition_history := tk_transition_history t @
       [\<lparr>he_from = previous, he_to = target, he_timestamp = now\<rparr>]\<rparr>)) (\<lambda>_.
     follow (save_task w) (\<lambda>_.
     notify_observer w (the (map_of STATUS_VALUES target)))))"
  have rest: "stays quiet (?rest previous)" for previous
    by (intro quiet.stays_rules quiet_change_task quiet_save_task quiet_observe) simp
  have "wp (set_status w target) Q E s =
      wp (?rest (tk_status (en_task s))) Q E (s\<lparr>en_task := (en_task s)\<lparr>tk_status := target\<rparr>\<rparr>)"
    using True unfolding set_status_def by (simp add: status_transition_def change_task_def)
  also have "\<dots>" by (rule wp_stays [OF rest]) (auto simp: quiet_def moved_def intro: assms)
  finally show ?thesis by simp
next
  case False
  then show ?thesis unfolding set_status_def
    by (simp add: status_transition_def assms(2) moved_def)
qed

lemma wp_stop_with:
  assumes "\<And>t. moved {target} s t \<Longrightarrow> Q None t" and "\<And>e t. moved {tk_status (en_task s), target} s t \<Longrightarrow> E e t"
  shows "wp (stop_with w target) Q E s"
  unfolding stop_with_def wp_follow by (rule wp_set_status) (simp_all add: assms)

subsection \<open>Runs on record\<close>

text \<open>A run of this engine: on record, with an identity drawn from the world before now.\<close>

definition known :: "world \<Rightarrow> run_record \<Rightarrow> engine \<Rightarrow> bool" where
  "known w r s \<longleftrightarrow> r \<in> set (en_runs s) \<and> (\<exists>n<en_clock s. rn_run_id r = w_run_id w n)"

lemma known_quiet: "quiet s t \<Longrightarrow> known w r s \<Longrightarrow> known w r t"
  by (auto simp: quiet_def known_def intro: less_le_trans)

lemma known_moved: "moved T s t \<Longrightarrow> known w r s \<Longrightarrow> known w r t"
  by (auto simp: moved_def known_def intro: less_le_trans)

definition resave :: "run_record \<Rightarrow> engine \<Rightarrow> engine" where
  "resave r s = s\<lparr>en_runs := filter (\<lambda>x. rn_run_id x \<noteq> rn_run_id r) (en_runs s) @ [r]\<rparr>"

lemma wp_save_run [simp]: "wp (save_run r) Q E s = Q () (resave r s)"
  by (simp add: save_run_def resave_def)

lemma known_resave:
  "known w r s \<Longrightarrow> rn_run_id r' = rn_run_id r \<Longrightarrow> known w r' (resave r' s)"
  "known w r s \<Longrightarrow> rn_run_id r' \<noteq> rn_run_id r \<Longrightarrow> known w r (resave r' s)"
  by (auto simp: known_def resave_def)

lemma resave_simps [simp]:
  "en_task (resave r s) = en_task s" "en_clock (resave r s) = en_clock s"
  by (simp_all add: resave_def)

definition ran :: "world \<Rightarrow> string \<Rightarrow> engine \<Rightarrow> engine \<Rightarrow> run_record \<Rightarrow> bool" where
  "ran w role s t r \<longleftrightarrow> tk_id (en_task t) = tk_id (en_task s) \<and> tk_status (en_task t) = tk_status (en_task s) \<and>
     known w r t \<and> rn_role r = role \<and> rn_task_id r = tk_id (en_task s) \<and>
     (\<forall>old. known w old s \<longrightarrow> known w old t \<and> rn_run_id old \<noteq> rn_run_id r)"

definition undisturbed :: "world \<Rightarrow> engine \<Rightarrow> engine \<Rightarrow> bool" where
  "undisturbed w s t \<longleftrightarrow> tk_id (en_task t) = tk_id (en_task s) \<and> tk_status (en_task t) = tk_status (en_task s) \<and>
     (\<forall>old. known w old s \<longrightarrow> known w old t)"

lemma finished_run_fields:
  assumes "finished_run w role reply r0 = Inr r"
  shows "rn_run_id r = rn_run_id r0 \<and> rn_role r = rn_role r0 \<and> rn_task_id r = rn_task_id r0"
  using assms by (auto simp: finished_run_def Let_def split: if_splits sum.splits)

lemma wp_run_agent:
  assumes inj: "inj (w_run_id w)"
    and Q: "\<And>r logged t. ran w role s t r \<Longrightarrow> Q (r, logged) t"
    and E: "\<And>e t. undisturbed w s t \<Longrightarrow> E e t"
  shows "wp (run_agent w role) Q E s"
proof -
  have fresh: "rn_run_id old \<noteq> w_run_id w n" if "known w old s" "en_clock s \<le> n" for old n
  proof -
    from that(1) obtain k where k: "k < en_clock s" "rn_run_id old = w_run_id w k" by (auto simp: known_def)
    with that(2) have "k \<noteq> n" by simp
    with k(2) inj show ?thesis by (simp add: inj_eq)
  qed
  have saved: "ran w role s t r" if "rn_run_id r0 = w_run_id w (en_clock s)" "rn_run_id r = rn_run_id r0" "rn_role r = role"
    "rn_task_id r = tk_id (en_task s)" "en_task t = en_task s" "en_clock s < en_clock t"
    "en_runs t = en_runs (resave r (resave r0 s))" for r0 r t
  proof -
    have "known w old t \<and> rn_run_id old \<noteq> rn_run_id r" if old: "known w old s" for old
    proof -
      from fresh [OF old, of "en_clock s"] have ne: "rn_run_id old \<noteq> rn_run_id r" using \<open>rn_run_id r0 = _\<close> \<open>rn_run_id r = _\<close> by simp
      moreover from old obtain n where "old \<in> set (en_runs s)" "n < en_clock s" "rn_run_id old = w_run_id w n"
        by (auto simp: known_def)
      ultimately show ?thesis
        using \<open>en_runs t = _\<close> \<open>en_clock s < _\<close> \<open>rn_run_id r = _\<close>
        by (auto simp: known_def resave_def intro: less_trans)
    qed
    then show ?thesis using that by (auto simp: ran_def known_def resave_def)
  qed
  have started: "undisturbed w s t" if "rn_run_id r0 = w_run_id w (en_clock s)" "en_task t = en_task s"
    "en_clock s < en_clock t" "en_runs t = en_runs (resave r0 s)" for r0 t
  proof -
    have "known w old t" if old: "known w old s" for old
    proof -
      from fresh [OF old, of "en_clock s"] have "rn_run_id old \<noteq> rn_run_id r0" using \<open>rn_run_id r0 = _\<close> by simp
      with old show ?thesis using \<open>en_runs t = _\<close> \<open>en_clock s < _\<close>
        by (auto simp: known_def resave_def intro: less_trans)
    qed
    then show ?thesis using that by (simp add: undisturbed_def)
  qed
  have same: "undisturbed w s s" "undisturbed w s (s\<lparr>en_clock := Suc (en_clock s)\<rparr>)"
    by (auto simp: undisturbed_def known_def intro: less_SucI)
  show ?thesis
    unfolding run_agent_def Let_def
    by (auto simp: E same split: sum.splits intro!: Q saved E started dest!: finished_run_fields) (auto simp: resave_def)
qed

subsection \<open>The gates\<close>

definition underway :: "string \<Rightarrow> engine \<Rightarrow> bool" where
  "underway i s \<longleftrightarrow> tk_id (en_task s) = i \<and> tk_status (en_task s) \<noteq> COMPLETED"

text \<open>Every action but the completion itself: the task stays itself and stays incomplete, and runs stay on record.\<close>

definition progress :: "world \<Rightarrow> engine \<Rightarrow> engine \<Rightarrow> bool" where
  "progress w s t \<longleftrightarrow> tk_id (en_task t) = tk_id (en_task s) \<and>
     (tk_status (en_task s) \<noteq> COMPLETED \<longrightarrow> tk_status (en_task t) \<noteq> COMPLETED) \<and> (\<forall>r. known w r s \<longrightarrow> known w r t)"

interpretation progress: kept_relation "progress w" for w
proof
  show "progress w s (s\<lparr>en_clock := Suc (en_clock s)\<rparr>)" for s
    by (auto simp: progress_def known_def intro: less_SucI)
qed (auto simp: progress_def)

lemma underway_progress: "progress w s t \<Longrightarrow> underway i s \<Longrightarrow> underway i t"
  by (simp add: progress_def underway_def)

lemma known_progress: "progress w s t \<Longrightarrow> known w r s \<Longrightarrow> known w r t"
  by (simp add: progress_def)

lemma progress_quiet: "stays quiet m \<Longrightarrow> stays (progress w) m"
  by (auto simp: stays_def progress_def quiet_def known_def intro: less_le_trans)

lemma stays_wp:
  assumes "\<And>s. wp m (\<lambda>x t. R s t) (\<lambda>e t. R s t) s"
  shows "stays R m"
  unfolding stays_def
proof
  fix s
  show "R s (snd (m s))"
    using assms [of s] by (cases "m s"; cases "fst (m s)") (simp_all add: wp_def)
qed

lemma progress_set_status: "target \<noteq> COMPLETED \<Longrightarrow> stays (progress w) (set_status w target)"
  by (rule stays_wp, rule wp_set_status) (auto simp: progress_def moved_def known_def intro: less_le_trans)

lemma progress_stop_with: "target \<noteq> COMPLETED \<Longrightarrow> stays (progress w) (stop_with w target)"
  unfolding stop_with_def by (intro progress.stays_rules progress_set_status)

lemma progress_run_agent: "inj (w_run_id w) \<Longrightarrow> stays (progress w) (run_agent w role)"
  by (rule stays_wp, rule wp_run_agent) (auto simp: progress_def ran_def undisturbed_def)

definition built :: "string \<Rightarrow> run_record \<Rightarrow> bool" where
  "built i run \<longleftrightarrow> rn_role run = ''builder'' \<and> rn_task_id run = i \<and> \<not> failed_run run"

definition verified :: "string \<Rightarrow> run_record \<Rightarrow> bool" where
  "verified i run \<longleftrightarrow> built i run \<and> rn_verification_passed run = Some True"

definition reviewed :: "string \<Rightarrow> run_record \<Rightarrow> run_record \<Rightarrow> bool" where
  "reviewed i run review \<longleftrightarrow> rn_role review \<in> {''reviewer'', ''post_repair_reviewer''} \<and> rn_task_id review = i \<and>
     \<not> failed_run review \<and> rn_provider_instance_id review \<noteq> rn_provider_instance_id run \<and>
     rn_run_id review \<noteq> rn_run_id run \<and> rn_review_tree_identity review \<noteq> None"

lemma underway_ran: "ran w role s t r \<Longrightarrow> underway i s \<Longrightarrow> underway i t"
  by (simp add: ran_def underway_def)

lemma undisturbed_underway: "undisturbed w s t \<Longrightarrow> underway i s \<Longrightarrow> underway i t"
  by (simp add: undisturbed_def underway_def)

lemma known_ran: "ran w role s t r \<Longrightarrow> known w old s \<Longrightarrow> known w old t"
  by (simp add: ran_def)

text \<open>An action that makes progress goes on from a later state, still underway.\<close>

lemma wp_progress:
  assumes "stays (progress w) m" and "underway i s"
    and "\<And>x t. underway i t \<Longrightarrow> (\<And>r. known w r s \<Longrightarrow> known w r t) \<Longrightarrow> Q x t"
    and "\<And>e t. underway i t \<Longrightarrow> E e t"
  shows "wp m Q E s"
  by (rule wp_stays [OF assms(1)]) (auto intro: assms(3,4) underway_progress [OF _ assms(2)] known_progress)

lemma wp_step:
  assumes "stays (progress w) m" and "underway i s"
    and "\<And>x t. underway i t \<Longrightarrow> (\<And>r. known w r s \<Longrightarrow> known w r t) \<Longrightarrow> wp (f x) Q (\<lambda>e. underway i) t"
  shows "wp (follow m f) Q (\<lambda>e. underway i) s"
  unfolding wp_follow by (rule wp_progress [OF assms(1,2)]) (auto intro: assms(3))

lemmas wp_quiet_step = wp_step [OF progress_quiet]

lemma wp_agent_step:
  assumes "inj (w_run_id w)" and "underway i s"
    and "\<And>r logged t. underway i t \<Longrightarrow> known w r t \<Longrightarrow> rn_role r = role \<Longrightarrow> rn_task_id r = i \<Longrightarrow>
      (\<And>old. known w old s \<Longrightarrow> known w old t \<and> rn_run_id old \<noteq> rn_run_id r) \<Longrightarrow> wp (f (r, logged)) Q (\<lambda>e. underway i) t"
  shows "wp (follow (run_agent w role) f) Q (\<lambda>e. underway i) s"
  unfolding wp_follow
proof (rule wp_run_agent [OF assms(1)])
  show "underway i t" if "undisturbed w s t" for t using that assms(2) by (simp add: undisturbed_def underway_def)
  show "wp (f (r, logged)) Q (\<lambda>e. underway i) t" if "ran w role s t r" for r logged t
    by (rule assms(3)) (use that assms(2) in \<open>auto simp: ran_def underway_def\<close>)
qed

lemma wp_stop:
  "target \<noteq> COMPLETED \<Longrightarrow> underway i s \<Longrightarrow> (\<And>t. underway i t \<Longrightarrow> Q None t) \<Longrightarrow> wp (stop_with w target) Q (\<lambda>e. underway i) s"
  unfolding stop_with_def by (rule wp_step [OF progress_set_status]) auto

lemma progress_start_attempt: "stays (progress w) (start_attempt w retrying a)"
  unfolding start_attempt_def
  by (intro progress.stays_rules progress_set_status progress_quiet [OF quiet_change_task] progress_quiet [OF quiet_save_task])
    simp_all

lemma progress_admit: "stays (progress w) (admit w retrying)"
  unfolding admit_def
  by (intro progress.stays_rules progress_set_status progress_quiet [OF quiet_admission]) simp

lemma wp_build_stage:
  assumes inj: "inj (w_run_id w)" and "underway i s"
  shows "wp (build_stage w 0) (\<lambda>r t. underway i t \<and> (case r of None \<Rightarrow> True | Some run \<Rightarrow> known w run t \<and> built i run))
    (\<lambda>e. underway i) s"
  unfolding build_stage_def if_P [OF order_refl]
proof (rule wp_step [OF progress_set_status assms(2)], simp, rule wp_quiet_step [OF quiet_set_stage], assumption,
    rule wp_agent_step [OF inj], assumption, unfold prod.case)
  fix r t assume r: "underway i t" "known w r t" "rn_role r = ''builder''" "rn_task_id r = i"
  show "wp (if failed_run r then stop_with w FAILED else follow (check_scope w) (\<lambda>_. give (Some r)))
      (\<lambda>r t. underway i t \<and> (case r of None \<Rightarrow> True | Some run \<Rightarrow> known w run t \<and> built i run)) (\<lambda>e. underway i) t"
  proof (cases "failed_run r")
    case True
    with r(1) show ?thesis by (auto intro: wp_stop)
  next
    case False
    show ?thesis unfolding if_not_P [OF False]
      by (rule wp_quiet_step [OF quiet_check_scope r(1)]) (use r False in \<open>auto simp: built_def\<close>)
  qed
qed

lemma known_resave_same: "known w r s \<Longrightarrow> rn_run_id r' = rn_run_id r \<Longrightarrow> underway i s \<Longrightarrow> underway i (resave r' s) \<and> known w r' (resave r' s)"
  by (simp add: known_resave underway_def)

lemma wp_self_verify_stage:
  assumes "underway i s" and "known w run s" and "built i run"
  shows "wp (self_verify_stage w 0 run)
    (\<lambda>r t. underway i t \<and> (case r of None \<Rightarrow> True | Some run \<Rightarrow> known w run t \<and> verified i run)) (\<lambda>e. underway i) s"
  unfolding self_verify_stage_def if_P [OF zero_le]
proof (rule wp_step [OF progress_set_status assms(1)], simp, rule wp_quiet_step [OF quiet_set_stage], assumption,
    rule wp_quiet_step [OF quiet_verify_task], assumption)
  fix u v x passed t
  assume u: "\<And>r. known w r s \<Longrightarrow> known w r u" and v: "\<And>r. known w r u \<Longrightarrow> known w r v"
    and t: "underway i t" "\<And>r. known w r v \<Longrightarrow> known w r t"
  let ?run = "run\<lparr>rn_verification_passed := Some passed\<rparr>"
  from assms(2) u v t(2) have "known w run t" by blast
  with t(1) have saved: "underway i (resave ?run t) \<and> known w ?run (resave ?run t)" by (intro known_resave_same) simp_all
  then show "wp (let run = ?run in follow (save_run run) (\<lambda>_. if passed then give (Some run) else stop_with w FAILED))
      (\<lambda>r t. underway i t \<and> (case r of None \<Rightarrow> True | Some run \<Rightarrow> known w run t \<and> verified i run)) (\<lambda>e. underway i) t"
    using assms(3) by (cases passed) (auto simp: Let_def verified_def built_def failed_run_def intro: wp_stop)
qed

lemma wp_reading_step: "wp (g (f s)) Q E s \<Longrightarrow> wp (follow (reading f) g) Q E s"
  by simp

lemma wp_record_review:
  assumes "underway i s" and "known w review s" and "known w run s" and "reviewed i run (review\<lparr>rn_review_tree_identity := Some []\<rparr>)"
  shows "wp (record_review w review findings) (\<lambda>r t. underway i t \<and> (case r of None \<Rightarrow> True
      | Some (review, blockers) \<Rightarrow> known w run t \<and> known w review t \<and> reviewed i run review \<and>
          blockers = blocking_findings (rn_review_findings review))) (\<lambda>e. underway i) s"
  unfolding record_review_def Let_def
proof (rule wp_quiet_step [OF quiet_identity assms(1)])
  fix x :: "string \<times> string" and v assume v: "underway i v" "\<And>r. known w r s \<Longrightarrow> known w r v"
  let ?review = "review\<lparr>rn_review_findings := findings, rn_accepted_findings := map finding_to_dict (blocking_findings findings),
      rn_rejected_findings := map finding_to_dict (filter (\<lambda>f. f \<notin> set (blocking_findings findings)) findings),
      rn_review_tree_identity := Some (snd x)\<rparr>"
  have "known w ?review (resave ?review v)" by (rule known_resave(1) [OF v(2) [OF assms(2)]]) simp
  moreover have "known w run (resave ?review v)"
    using assms(4) by (intro known_resave(2) v(2) assms(3)) (auto simp: reviewed_def)
  moreover have "reviewed i run ?review" using assms(4) by (simp add: reviewed_def failed_run_def)
  ultimately show "wp (follow (save_run ?review) (\<lambda>_.
      follow (modify (\<lambda>s. s\<lparr>en_cleanup := record_cleanup findings (tk_id (en_task s)) (en_cleanup s)\<rparr>)) (\<lambda>_.
      give (Some (?review, blocking_findings findings))))) (\<lambda>r t. underway i t \<and> (case r of None \<Rightarrow> True
      | Some (review, blockers) \<Rightarrow> known w run t \<and> known w review t \<and> reviewed i run review \<and>
          blockers = blocking_findings (rn_review_findings review))) (\<lambda>e. underway i) v"
    using v(1) by (simp add: underway_def known_def)
qed

lemma wp_judged:
  assumes "underway i s" and "\<And>x. r = Inr x \<Longrightarrow> wp (k x) Q (\<lambda>e. underway i) s" and "\<And>t. underway i t \<Longrightarrow> Q None t"
  shows "wp (go_on (rescue (follow (lift_result r) (\<lambda>x. give (Some x))) classes (\<lambda>_. stop_with w FAILED)) k)
    Q (\<lambda>e. underway i) s"
proof (cases r)
  case (Inl e)
  then show ?thesis using assms(1,3) by (auto intro: wp_stop)
next
  case (Inr x)
  then show ?thesis using assms(2) by simp
qed

abbreviation audited :: "world \<Rightarrow> string \<Rightarrow> run_record \<Rightarrow> (run_record \<times> finding list) option \<Rightarrow> engine \<Rightarrow> bool" where
  "audited w i run r t \<equiv> underway i t \<and> (case r of None \<Rightarrow> True
      | Some (review, blockers) \<Rightarrow> known w run t \<and> known w review t \<and> reviewed i run review \<and>
          blockers = blocking_findings (rn_review_findings review))"

lemma wp_judge_review:
  assumes "underway i s" and "known w review s" and "known w run s" and "rn_run_id run \<noteq> rn_run_id review"
    and "rn_role review = ''reviewer''" and "rn_task_id review = i"
  shows "wp (judge_review w run review logged) (audited w i run) (\<lambda>e. underway i) s"
proof (cases "failed_run review")
  case True
  then show ?thesis using assms(1) by (auto simp: judge_review_def intro: wp_stop)
next
  case False
  show ?thesis unfolding judge_review_def if_not_P [OF False]
  proof (rule wp_reading_step)
    show "wp (if \<not> independent (en_task s) run review then stop_with w BLOCKED
      else go_on (rescue
          (follow (lift_result (bind_result (read_log w logged) (parse_review_output (w_render w)))) (\<lambda>fs. give (Some fs)))
          (VALUE_ERRORS @ OS_ERRORS) (\<lambda>_. stop_with w FAILED))
        (record_review w review)) (audited w i run) (\<lambda>e. underway i) s"
    proof (cases "independent (en_task s) run review")
      case True
      with False assms(4-6) have rev: "reviewed i run (review\<lparr>rn_review_tree_identity := Some []\<rparr>)"
        by (auto simp: reviewed_def failed_run_def independent_def)
      from True show ?thesis
        by (simp only: not_True_eq_False if_False)
          (rule wp_judged [OF assms(1) wp_record_review [OF assms(1-3) rev]], simp)
    qed (use assms(1) in \<open>auto intro: wp_stop\<close>)
  qed
qed

lemma wp_audit_stage:
  assumes inj: "inj (w_run_id w)" and "underway i s" and "known w run s"
  shows "wp (audit_stage w 0 run) (audited w i run) (\<lambda>e. underway i) s"
  unfolding audit_stage_def if_P [OF zero_le]
proof (rule wp_step [OF progress_set_status assms(2)], simp, rule wp_quiet_step [OF quiet_set_stage], assumption,
    rule wp_step [OF progress.stays_outside], assumption, rule wp_agent_step [OF inj], assumption, unfold prod.case)
  fix u1 u2 u3 review logged t
  assume "\<And>r. known w r s \<Longrightarrow> known w r u1" "\<And>r. known w r u1 \<Longrightarrow> known w r u2" "\<And>r. known w r u2 \<Longrightarrow> known w r u3"
    and r: "underway i t" "known w review t" "rn_role review = ''reviewer''" "rn_task_id review = i"
    and "\<And>old. known w old u3 \<Longrightarrow> known w old t \<and> rn_run_id old \<noteq> rn_run_id review"
  with assms(3) have "known w run t" "rn_run_id run \<noteq> rn_run_id review" by blast+
  with r show "wp (judge_review w run review logged) (audited w i run) (\<lambda>e. underway i) t"
    by (intro wp_judge_review) auto
qed

lemma wp_record_post_review:
  assumes "underway i s" and "known w review s" and "known w run s" and "reviewed i run (review\<lparr>rn_review_tree_identity := Some []\<rparr>)"
  shows "wp (record_post_review w review outcome) (\<lambda>r t. underway i t \<and> (case r of None \<Rightarrow> True
      | Some review \<Rightarrow> known w run t \<and> known w review t \<and> reviewed i run review \<and>
          rn_review_findings review = fst outcome)) (\<lambda>e. underway i) s"
  unfolding record_post_review_def
proof (rule wp_quiet_step [OF quiet_identity assms(1)])
  fix x :: "string \<times> string" and v assume v: "underway i v" "\<And>r. known w r s \<Longrightarrow> known w r v"
  let ?review = "review\<lparr>rn_review_findings := fst outcome, rn_accepted_findings := snd outcome,
       rn_rejected_findings := map finding_to_dict (fst outcome), rn_review_tree_identity := Some (snd x)\<rparr>"
  have "known w ?review (resave ?review v)" by (rule known_resave(1) [OF v(2) [OF assms(2)]]) simp
  moreover have "known w run (resave ?review v)"
    using assms(4) by (intro known_resave(2) v(2) assms(3)) (auto simp: reviewed_def)
  moreover have "reviewed i run ?review" using assms(4) by (simp add: reviewed_def failed_run_def)
  ultimately show "wp (let post_review = ?review in follow (save_run post_review) (\<lambda>_.
      follow (modify (\<lambda>s. s\<lparr>en_cleanup := record_cleanup (fst outcome) (tk_id (en_task s)) (en_cleanup s)\<rparr>)) (\<lambda>_.
      give (Some post_review)))) (\<lambda>r t. underway i t \<and> (case r of None \<Rightarrow> True
      | Some review \<Rightarrow> known w run t \<and> known w review t \<and> reviewed i run review \<and>
          rn_review_findings review = fst outcome)) (\<lambda>e. underway i) v"
    using v(1) by (simp add: Let_def underway_def known_def)
qed

text \<open>A review that has cleared its task: the review the final verification rests on.\<close>

abbreviation cleared :: "world \<Rightarrow> string \<Rightarrow> run_record \<Rightarrow> run_record option \<Rightarrow> engine \<Rightarrow> bool" where
  "cleared w i run r t \<equiv> underway i t \<and> (case r of None \<Rightarrow> True
      | Some review \<Rightarrow> known w run t \<and> known w review t \<and> reviewed i run review \<and>
          blocking_findings (rn_review_findings review) = [])"

lemma post_review_clear:
  "validate_post_repair_review render val blockers = Inr outcome \<Longrightarrow> blocking_findings (fst outcome) = []"
  by (cases outcome) (auto simp: validate_post_repair_review_def bind_result_Inr Let_def)

lemma wp_judge_post_review:
  assumes "underway i s" and "known w review s" and "known w run s" and "rn_run_id run \<noteq> rn_run_id review"
    and "rn_role review = ''post_repair_reviewer''" and "rn_task_id review = i"
  shows "wp (judge_post_review w run repair blockers review logged) (cleared w i run) (\<lambda>e. underway i) s"
proof (cases "failed_run review \<or> rn_provider_instance_id review \<in> {rn_provider_instance_id run, rn_provider_instance_id repair}")
  case True
  then show ?thesis using assms(1) by (auto simp: judge_post_review_def intro: wp_stop)
next
  case False
  with assms(4-6) have rev: "reviewed i run (review\<lparr>rn_review_tree_identity := Some []\<rparr>)"
    by (auto simp: reviewed_def failed_run_def)
  from False have "judge_post_review w run repair blockers review logged = go_on (rescue
          (follow (lift_result (bind_result (read_log w logged) (\<lambda>val.
             validate_post_repair_review (w_render w) val blockers))) (\<lambda>r. give (Some r)))
          (VALUE_ERRORS @ OS_ERRORS @ [KeyError, TypeError]) (\<lambda>_. stop_with w FAILED))
        (record_post_review w review)"
    by (simp add: judge_post_review_def)
  moreover have "wp \<dots> (cleared w i run) (\<lambda>e. underway i) s"
  proof (rule wp_judged [OF assms(1)])
    fix outcome assume "bind_result (read_log w logged) (\<lambda>val. validate_post_repair_review (w_render w) val blockers) = Inr outcome"
    then have "blocking_findings (fst outcome) = []" by (auto simp: bind_result_Inr dest: post_review_clear)
    then show "wp (record_post_review w review outcome) (cleared w i run) (\<lambda>e. underway i) s"
      by (intro wp_mono [OF wp_record_post_review [OF assms(1-3) rev]]) (auto split: option.splits)
  qed simp
  ultimately show ?thesis by simp
qed

lemma wp_repair_stage:
  assumes inj: "inj (w_run_id w)" and "underway i s" and "known w run s" and "known w review s" and "rn_run_id run \<noteq> rn_run_id review"
  shows "wp (repair_stage w 0 review) (\<lambda>r t. underway i t \<and> (r \<noteq> None \<longrightarrow> known w run t)) (\<lambda>e. underway i) s"
  unfolding repair_stage_def if_P [OF zero_le]
proof (rule wp_step [OF progress_set_status assms(2)], simp, rule wp_quiet_step [OF quiet_set_stage], assumption,
    rule wp_quiet_step [OF quiet_identity], assumption, rule wp_step [OF progress.stays_outside], assumption,
    rule wp_agent_step [OF inj], assumption, unfold prod.case)
  fix u1 u2 u3 u4 t and repair :: run_record and logged and identity :: "string \<times> string"
  assume "\<And>r. known w r s \<Longrightarrow> known w r u1" "\<And>r. known w r u1 \<Longrightarrow> known w r u2" "\<And>r. known w r u2 \<Longrightarrow> known w r u3"
    "\<And>r. known w r u3 \<Longrightarrow> known w r u4"
    and t: "underway i t" and "\<And>old. known w old u4 \<Longrightarrow> known w old t \<and> rn_run_id old \<noteq> rn_run_id repair"
  with assms(3,4) have run: "known w run t" "rn_run_id run \<noteq> rn_run_id repair" "known w review t" by blast+
  show "wp (judge_repair w review identity repair) (\<lambda>r t. underway i t \<and> (r \<noteq> None \<longrightarrow> known w run t)) (\<lambda>e. underway i) t"
  proof (cases "failed_run repair")
    case True
    with t show ?thesis by (auto simp: judge_repair_def intro: wp_stop)
  next
    case False
    show ?thesis unfolding judge_repair_def if_not_P [OF False]
    proof (rule wp_quiet_step [OF quiet_identity t])
      fix x :: "string \<times> string" and v assume v: "underway i v" "\<And>r. known w r t \<Longrightarrow> known w r v"
      have "underway i (resave r v)" for r using v(1) by (simp add: underway_def)
      moreover have "known w run (resave (review\<lparr>rn_repair_history := h\<rparr>) v)" for h
        using assms(5) by (intro known_resave(2) v(2) run(1)) simp
      ultimately show "wp (if x = identity then
          follow (save_run (repair\<lparr>rn_failure_reason := Some ''repairer reported success without changing workspace state''\<rparr>)) (\<lambda>_.
          stop_with w BLOCKED)
        else
          follow (save_run (review\<lparr>rn_repair_history := rn_repair_history review @ [rn_run_id repair]\<rparr>)) (\<lambda>_.
          give (Some repair))) (\<lambda>r t. underway i t \<and> (r \<noteq> None \<longrightarrow> known w run t)) (\<lambda>e. underway i) v"
        by (cases "x = identity") (auto intro: wp_stop)
    qed
  qed
qed

lemma wp_post_repair_stage:
  assumes inj: "inj (w_run_id w)" and "underway i s" and "known w run s"
  shows "wp (post_repair_stage w 0 run repair blockers) (cleared w i run) (\<lambda>e. underway i) s"
proof -
  have start: "post_repair_stage w 0 run repair blockers =
        follow (give ()) (\<lambda>_.
        follow (set_stage w ''POST_REPAIR_REVIEWING'') (\<lambda>_.
        follow (outside (w_diff w)) (\<lambda>_.
        follow (run_agent w ''post_repair_reviewer'') (\<lambda>(post_review, logged).
        judge_post_review w run repair blockers post_review logged))))"
    by (simp add: post_repair_stage_def)
  show ?thesis unfolding start
  proof (rule wp_step [OF progress.stays_give assms(2)], rule wp_quiet_step [OF quiet_set_stage], assumption,
      rule wp_step [OF progress.stays_outside], assumption, rule wp_agent_step [OF inj], assumption, unfold prod.case)
    fix u1 u2 u3 review logged t
    assume "\<And>r. known w r s \<Longrightarrow> known w r u1" "\<And>r. known w r u1 \<Longrightarrow> known w r u2" "\<And>r. known w r u2 \<Longrightarrow> known w r u3"
      and r: "underway i t" "known w review t" "rn_role review = ''post_repair_reviewer''" "rn_task_id review = i"
      and "\<And>old. known w old u3 \<Longrightarrow> known w old t \<and> rn_run_id old \<noteq> rn_run_id review"
    with assms(3) have "known w run t" "rn_run_id run \<noteq> rn_run_id review" by blast+
    with r show "wp (judge_post_review w run repair blockers review logged) (cleared w i run) (\<lambda>e. underway i) t"
      by (intro wp_judge_post_review) auto
  qed
qed

lemma wp_settle_blockers:
  assumes inj: "inj (w_run_id w)" and "underway i s" and "known w run s" and "known w review s" and "reviewed i run review"
    and "blockers = blocking_findings (rn_review_findings review)"
  shows "wp (settle_blockers w 0 run review blockers) (cleared w i run) (\<lambda>e. underway i) s"
proof (cases "blockers = []")
  case True
  with assms show ?thesis by (simp add: settle_blockers_def)
next
  case False
  have ids: "rn_run_id run \<noteq> rn_run_id review" using assms(5) by (auto simp: reviewed_def)
  have "case r of None \<Rightarrow> cleared w i run None t
      | Some repair \<Rightarrow> wp (post_repair_stage w 0 run repair blockers) (cleared w i run) (\<lambda>e. underway i) t"
    if "underway i t \<and> (r \<noteq> None \<longrightarrow> known w run t)" for r t
    using that wp_post_repair_stage [OF inj] by (cases r) simp_all
  then show ?thesis unfolding settle_blockers_def if_P [OF False] wp_go_on
    by (rule wp_mono [OF wp_repair_stage [OF assms(1-4) ids]])
qed

subsection \<open>Completion\<close>

definition approved :: "string \<Rightarrow> run_record \<Rightarrow> run_record \<Rightarrow> bool" where
  "approved i run review \<longleftrightarrow> reviewed i run review \<and> blocking_findings (rn_review_findings review) = [] \<and>
     rn_verification_passed review = Some True \<and> rn_final_approval_authority review = Some (rn_provider_name review)"

definition gates_passed :: "world \<Rightarrow> string \<Rightarrow> engine \<Rightarrow> bool" where
  "gates_passed w i t \<longleftrightarrow> tk_id (en_task t) = i \<and> (tk_status (en_task t) = COMPLETED \<longrightarrow>
     (\<exists>run\<in>set (en_runs t). \<exists>review\<in>set (en_runs t). verified i run \<and> approved i run review))"

lemma gates_underway: "underway i t \<Longrightarrow> gates_passed w i t"
  by (simp add: gates_passed_def underway_def)

lemma gates_approved:
  "tk_id (en_task t) = i \<Longrightarrow> known w run t \<Longrightarrow> known w review t \<Longrightarrow> verified i run \<Longrightarrow> approved i run review \<Longrightarrow> gates_passed w i t"
  by (auto simp: gates_passed_def known_def)

lemma wp_approve:
  assumes "underway i s" and "known w run s" and "known w review s" and "verified i run"
    and "reviewed i run review" and "blocking_findings (rn_review_findings review) = []" and "rn_verification_passed review = Some True"
  shows "wp (approve w review) (\<lambda>r. gates_passed w i) (\<lambda>e. gates_passed w i) s"
proof -
  let ?review = "review\<lparr>rn_final_approval_authority := Some (rn_provider_name review)\<rparr>"
  have ok: "approved i run ?review" using assms(5-7) by (simp add: approved_def reviewed_def failed_run_def)
  have last: "stays quiet (follow (change_task (\<lambda>t. t\<lparr>tk_active_run_stage := None\<rparr>)) (\<lambda>_. follow (save_task w) (\<lambda>_. give (Some ()))))"
    by (intro quiet.stays_rules quiet_change_task quiet_save_task) simp
  have complete: "wp (follow (set_status w COMPLETED) (\<lambda>_. follow (change_task (\<lambda>t. t\<lparr>tk_active_run_stage := None\<rparr>)) (\<lambda>_.
      follow (save_task w) (\<lambda>_. give (Some ()))))) (\<lambda>r. gates_passed w i) (\<lambda>e. gates_passed w i) t"
    if "tk_id (en_task t) = i" "known w run t" "known w ?review t" for t
    unfolding wp_follow [of "set_status w COMPLETED"]
  proof (rule wp_set_status)
    show "gates_passed w i v" if "moved {tk_status (en_task t), COMPLETED} t v" for v
      using that \<open>tk_id (en_task t) = i\<close> known_moved [OF that] \<open>known w run t\<close> \<open>known w ?review t\<close> assms(4) ok
      by (intro gates_approved) (auto simp: moved_def)
    show "wp (follow (change_task (\<lambda>t. t\<lparr>tk_active_run_stage := None\<rparr>)) (\<lambda>_. follow (save_task w) (\<lambda>_. give (Some ()))))
        (\<lambda>r. gates_passed w i) (\<lambda>e. gates_passed w i) v" if "moved {COMPLETED} t v" for v
    proof -
      have "gates_passed w i u" if "quiet v u" for u
        using that \<open>moved {COMPLETED} t v\<close> \<open>tk_id (en_task t) = i\<close> \<open>known w run t\<close> \<open>known w ?review t\<close> assms(4) ok
        by (intro gates_approved known_quiet [OF that] known_moved [OF \<open>moved {COMPLETED} t v\<close>]) (auto simp: moved_def quiet_def)
      then show ?thesis by (intro wp_stays [OF last])
    qed
  qed
  show ?thesis
    unfolding approve_def
  proof (simp only: wp_follow [of "set_status w APPROVED"], rule wp_progress [OF progress_set_status assms(1)])
    fix x :: unit and t assume t: "underway i t" "\<And>r. known w r s \<Longrightarrow> known w r t"
    have "known w ?review (resave ?review t)" by (rule known_resave(1) [OF t(2) [OF assms(3)]]) simp
    moreover have "known w run (resave ?review t)"
      using assms(5) by (intro known_resave(2) t(2) assms(2)) (auto simp: reviewed_def)
    ultimately show "wp (follow (save_run ?review) (\<lambda>_. follow (set_status w COMPLETED) (\<lambda>_.
        follow (change_task (\<lambda>t. t\<lparr>tk_active_run_stage := None\<rparr>)) (\<lambda>_. follow (save_task w) (\<lambda>_. give (Some ()))))))
        (\<lambda>r. gates_passed w i) (\<lambda>e. gates_passed w i) t"
      using t(1) complete [of "resave ?review t"] by (simp add: underway_def del: wp_follow) simp
  qed (auto intro: gates_underway)
qed

text \<open>Sequencing before the completion: an exception or an early return leaves the task incomplete.\<close>

lemma gates_follow:
  assumes "stays (progress w) m" and "underway i s"
    and "\<And>x t. underway i t \<Longrightarrow> (\<And>r. known w r s \<Longrightarrow> known w r t) \<Longrightarrow> wp (f x) (\<lambda>r. gates_passed w i) (\<lambda>e. gates_passed w i) t"
  shows "wp (follow m f) (\<lambda>r. gates_passed w i) (\<lambda>e. gates_passed w i) s"
  unfolding wp_follow by (rule wp_progress [OF assms(1,2)]) (auto intro: assms(3) gates_underway)

lemma gates_go_on:
  assumes "wp m I (\<lambda>e. underway i) s" and "\<And>r t. I r t \<Longrightarrow> underway i t"
    and "\<And>x t. I (Some x) t \<Longrightarrow> wp (f x) (\<lambda>r. gates_passed w i) (\<lambda>e. gates_passed w i) t"
  shows "wp (go_on m f) (\<lambda>r. gates_passed w i) (\<lambda>e. gates_passed w i) s"
  unfolding wp_go_on
proof (rule wp_mono [OF assms(1)])
  show "case r of None \<Rightarrow> gates_passed w i t | Some x \<Rightarrow> wp (f x) (\<lambda>r. gates_passed w i) (\<lambda>e. gates_passed w i) t"
    if "I r t" for r t
    using that assms(3) gates_underway [OF assms(2) [OF that]] by (cases r) auto
qed (rule gates_underway)

lemma gates_stop: "target \<noteq> COMPLETED \<Longrightarrow> underway i s \<Longrightarrow> wp (stop_with w target) (\<lambda>r. gates_passed w i) (\<lambda>e. gates_passed w i) s"
  by (rule wp_progress [OF progress_stop_with]) (auto intro: gates_underway)

lemma wp_final_stage:
  assumes "underway i s" and "known w run s" and "known w review s" and "verified i run"
    and "reviewed i run review" and "blocking_findings (rn_review_findings review) = []"
  shows "wp (final_stage w review) (\<lambda>r. gates_passed w i) (\<lambda>e. gates_passed w i) s"
proof -
  have unchanged: "stays quiet (tree_unchanged w review)"
    unfolding tree_unchanged_def by (intro quiet.stays_rules quiet_identity)
  have judge: "wp (let review = review\<lparr>rn_verification_passed := Some passed\<rparr> in
       follow (save_run review) (\<lambda>_. if \<not> passed then stop_with w FAILED else approve w review))
      (\<lambda>r. gates_passed w i) (\<lambda>e. gates_passed w i) t"
    if t: "underway i t" "known w run t" "known w review t" for passed t
  proof -
    let ?review = "review\<lparr>rn_verification_passed := Some passed\<rparr>"
    have "known w ?review (resave ?review t)" by (rule known_resave(1) [OF t(3)]) simp
    moreover have "known w run (resave ?review t)" using assms(5) by (intro known_resave(2) t(2)) (auto simp: reviewed_def)
    moreover have "underway i (resave ?review t)" using t(1) by (simp add: underway_def)
    moreover have "reviewed i run ?review" using assms(5) by (simp add: reviewed_def failed_run_def)
    ultimately show ?thesis
      using assms(4,6) by (cases passed) (auto simp: Let_def intro!: wp_approve [where run = run] gates_stop)
  qed
  show ?thesis
    unfolding final_stage_def
  proof (rule gates_follow [OF progress_set_status assms(1)], simp, rule gates_follow [OF progress_quiet [OF quiet_set_stage]], assumption,
      rule gates_follow [OF progress_quiet [OF quiet_check_scope]], assumption,
      rule gates_follow [OF progress_quiet [OF unchanged]], assumption)
    fix u1 u2 u3 same t
    assume "\<And>r. known w r s \<Longrightarrow> known w r u1" "\<And>r. known w r u1 \<Longrightarrow> known w r u2" "\<And>r. known w r u2 \<Longrightarrow> known w r u3"
      "\<And>r. known w r u3 \<Longrightarrow> known w r t" and t: "underway i t"
    with assms(2,3) have "known w run t" "known w review t" by blast+
    with t show "wp (if \<not> same then stop_with w BLOCKED else follow (verify_task w True) (\<lambda>passed.
       let review = review\<lparr>rn_verification_passed := Some passed\<rparr> in
       follow (save_run review) (\<lambda>_. if \<not> passed then stop_with w FAILED else approve w review)))
      (\<lambda>r. gates_passed w i) (\<lambda>e. gates_passed w i) t"
      by (cases same) (auto simp del: wp_follow intro!: gates_stop gates_follow [OF progress_quiet [OF quiet_verify_task]] judge)
  qed
qed

lemma wp_run_task:
  assumes inj: "inj (w_run_id w)" and "underway i s"
  shows "wp (run_task w None a) (\<lambda>r. gates_passed w i) (\<lambda>e. gates_passed w i) s"
proof -
  have settled: "wp (go_on (settle_blockers w 0 run review blockers) (final_stage w)) (\<lambda>r. gates_passed w i) (\<lambda>e. gates_passed w i) t"
    if "audited w i run (Some (review, blockers)) t" "verified i run" for run review blockers t
    by (rule gates_go_on [OF wp_settle_blockers [OF inj]]) (use that in \<open>auto intro: wp_final_stage [where run = run]\<close>)
  have audit: "wp (go_on (audit_stage w 0 run) (\<lambda>(review, blockers). go_on (settle_blockers w 0 run review blockers) (final_stage w)))
      (\<lambda>r. gates_passed w i) (\<lambda>e. gates_passed w i) t"
    if "underway i t" "known w run t" "verified i run" for run t
    by (rule gates_go_on [OF wp_audit_stage [OF inj that(1,2)]]) (use settled that(3) in \<open>auto simp del: wp_go_on\<close>)
  have build: "wp (go_on (build_stage w 0) (\<lambda>run. go_on (self_verify_stage w 0 run) (\<lambda>run. go_on (audit_stage w 0 run) (\<lambda>(review, blockers).
      go_on (settle_blockers w 0 run review blockers) (final_stage w))))) (\<lambda>r. gates_passed w i) (\<lambda>e. gates_passed w i) t"
    if "underway i t" for t
  proof (rule gates_go_on [OF wp_build_stage [OF inj that]])
    fix run v assume v: "underway i v \<and> (case Some run of None \<Rightarrow> True | Some run \<Rightarrow> known w run v \<and> built i run)"
    show "wp (go_on (self_verify_stage w 0 run) (\<lambda>run. go_on (audit_stage w 0 run) (\<lambda>(review, blockers).
      go_on (settle_blockers w 0 run review blockers) (final_stage w)))) (\<lambda>r. gates_passed w i) (\<lambda>e. gates_passed w i) v"
      by (rule gates_go_on [OF wp_self_verify_stage]) (use v audit in \<open>auto simp del: wp_go_on\<close>)
  qed simp
  have open_it: "wp (follow (open_workspace w False) (\<lambda>_. go_on (build_stage w 0) (\<lambda>run. go_on (self_verify_stage w 0 run) (\<lambda>run.
      go_on (audit_stage w 0 run) (\<lambda>(review, blockers).
      go_on (settle_blockers w 0 run review blockers) (final_stage w)))))) (\<lambda>r. gates_passed w i) (\<lambda>e. gates_passed w i) t"
    if "underway i t" for t
    by (rule gates_follow [OF progress_quiet [OF quiet_open_workspace] that], rule build)
  have start: "wp (start_attempt w False a) (\<lambda>r. underway i) (\<lambda>e. underway i) t" if "underway i t" for t
    by (rule wp_progress [OF progress_start_attempt that])
  have admission: "wp (admit w False) (\<lambda>r. underway i) (\<lambda>e. underway i) t" if "underway i t" for t
    by (rule wp_progress [OF progress_admit that])
  have "run_task w None a = follow (give 0) (\<lambda>start. go_on (start_attempt w False a) (\<lambda>_. go_on (admit w False) (\<lambda>_.
      follow (open_workspace w False) (\<lambda>_. go_on (build_stage w start) (\<lambda>run. go_on (self_verify_stage w start run) (\<lambda>run.
      go_on (audit_stage w start run) (\<lambda>(review, blockers).
      go_on (settle_blockers w start run review blockers) (final_stage w))))))))"
    by (rule ext) (simp add: run_task_def STAGES_def lift_result_def give_def follow_def)
  then show ?thesis
    by (simp only: wp_follow wp_give)
      (rule gates_go_on [OF start [OF assms(2)]], assumption, rule gates_go_on [OF admission], assumption, assumption, rule open_it)
qed

end
