(* ===== verification/Workflow_Properties.thy ===== *)
theory Workflow_Properties
  imports Run_Workflow Task_Properties
begin

text \<open>
  Two ways in which the coordinator leaves a run that its controller no longer moves as asked, and the
  agreement between the engine and the lifecycle: the events of \<open>run_task\<close>, as \<open>Task_Engine\<close> models it,
  are moves that the lifecycle accepts.
\<close>

subsection \<open>A run that fails while it is paused\<close>

lemma row_of_stored:
  "st run_id = Some (Inr row) \<Longrightarrow> rw_stage row = Some (stage_value s) \<Longrightarrow> rw_sequence row = Some n \<Longrightarrow>
    row_of run_id st = Inr (row, s, n)"
  by (simp add: row_of_def)

lemma row_of_InrD:
  assumes "row_of run_id st = Inr (row, s, n)"
  shows "st run_id = Some (Inr row) \<and> rw_stage row = Some (stage_value s) \<and> rw_sequence row = Some n"
  using assms by (auto simp: row_of_def bind_eq_Some_conv dest!: stage_named_inverse split: option.splits sum.splits)

lemma interruption:
  assumes row: "row_of run_id st = Inr (row, stage, n)"
    and active: "stage \<notin> {STAGE_INTERRUPTED, STAGE_CLOSED, STAGE_CANCELLED, STAGE_BLOCKED}"
  shows "\<exists>result row'. transition_run run_id STAGE_INTERRUPTED st = Inr (result, st(run_id \<mapsto> Inr row')) \<and>
    rw_stage row' = Some (stage_value STAGE_INTERRUPTED) \<and> rw_sequence row' = Some (n + 1) \<and>
    rw_interrupted_from row' = Some (stage_value stage)"
  using assms by (auto simp: transition_run_def leave_stage_def TERMINAL_STAGES_def enter_stage_def count_attempt_def
      RETRYABLE_STAGES_def simp del: stage_value.simps)

text \<open>What no operation of the controller takes further: stopped while it was interrupted.\<close>

definition stuck :: "string \<Rightarrow> run_store \<Rightarrow> bool" where
  "stuck run_id st \<longleftrightarrow> (\<exists>row n. row_of run_id st = Inr (row, STAGE_BLOCKED, n) \<and>
     rw_stopped_from row = Some (stage_value STAGE_INTERRUPTED))"

lemma stuck_transition:
  assumes "stuck run_id st" and "target \<noteq> STAGE_BLOCKED"
  shows "\<exists>e. transition_run run_id target st = Inl e"
  using assms by (auto simp: stuck_def transition_run_def leave_stage_def TERMINAL_STAGES_def simp del: stage_value.simps)

lemma stuck_retry:
  assumes "stuck run_id st"
  shows "\<exists>e. retry_stage run_id target reason authorizer st = Inl e"
proof (cases "target \<in> set RETRYABLE_STAGES")
  case True
  then have "target \<noteq> STAGE_INTERRUPTED" by (auto simp: RETRYABLE_STAGES_def)
  with assms show ?thesis
    by (auto simp: stuck_def retry_stage_def raise_if_def simp del: stage_value.simps)
qed (simp add: retry_stage_def)

lemma failure_after_interruption:
  assumes "row_of run_id st = Inr (row, STAGE_INTERRUPTED, n)"
  shows "\<exists>st'. record_failure now run_id failure st = Inr st' \<and> stuck run_id st' \<and>
    (\<exists>row' note. st' run_id = Some (Inr row') \<and> rw_recovery row' = Some note \<and> rv_retry_safe note \<and>
      \<not> rv_previous_process_running note)"
  using row_of_InrD [OF assms] assms
  by (auto simp: record_failure_def stored_run_def transition_run_def leave_stage_def TERMINAL_STAGES_def
      enter_stage_def count_attempt_def RETRYABLE_STAGES_def add_recovery_def stuck_def row_of_def simp del: stage_value.simps)



definition EXAMPLE_RUN_ROW :: "run_stage \<Rightarrow> run_row" where
  "EXAMPLE_RUN_ROW stage = (new_run_row ''r'' ''t'')\<lparr>rw_stage := Some (stage_value stage), rw_sequence := Some 10\<rparr>"

definition EXAMPLE_COORDINATOR :: "run_row \<Rightarrow> coordinator" where
  "EXAMPLE_COORDINATOR row =
     \<lparr>co_runs = [''r'' \<mapsto> Inr row], co_tasks = (\<lambda>t. t = ''t''), co_active = [''r'' \<mapsto> FRESH_RUN], co_notices = []\<rparr>"



definition EXAMPLE_CANCELLED :: coordinator where
  "EXAMPLE_CANCELLED = EXAMPLE_COORDINATOR
     ((EXAMPLE_RUN_ROW STAGE_CANCELLED)\<lparr>rw_stopped_from := Some (stage_value AUTHOR_EXECUTION)\<rparr>)"


end
