(* ===== verification/Task_Gates.thy ===== *)
theory Task_Gates
  imports Task_Properties
begin

text \<open>
  The engine's guarantees on a completed task, and the runs on which an exception leaves it stuck: each with
  an example world.
\<close>

text \<open>
C1: a task that a first attempt completes passed every gate, whatever the world answered: on record are a
builder's run that ended well and whose verification passed, and a review of the same task by another
provider instance that ended well, has a recorded tree and no blocking finding, whose final verification
passed and which is named as the approving authority.
\<close>

theorem completed_tasks_passed_every_gate:
  assumes "inj (w_run_id w)" and "tk_status (en_task s) \<noteq> COMPLETED"
    and "run_task w None a s = (r, t)" and "tk_status (en_task t) = COMPLETED"
  shows "\<exists>run\<in>set (en_runs t). \<exists>review\<in>set (en_runs t).
    verified (tk_id (en_task s)) run \<and> approved (tk_id (en_task s)) run review"
proof -
  have "wp (run_task w None a) (\<lambda>r. gates_passed w (tk_id (en_task s))) (\<lambda>e. gates_passed w (tk_id (en_task s))) s"
    by (rule wp_run_task) (use assms(1,2) in \<open>simp_all add: underway_def\<close>)
  with assms(3,4) show ?thesis by (cases r) (auto simp: wp_def gates_passed_def)
qed

subsection \<open>A world for the examples\<close>

definition EXAMPLE_OUTPUT :: json where
  "EXAMPLE_OUTPUT = JObject [(''status'', JText ''completed''), (''files_changed'', JArray []), (''findings'', JArray [])]"

definition EXAMPLE_PROVIDER :: "string \<Rightarrow> provider" where
  "EXAMPLE_PROVIDER i = \<lparr>pv_name = ''local'', pv_instance_id = i, pv_validate = ok ()\<rparr>"

definition EXAMPLE_ROUTER :: router where
  "EXAMPLE_ROUTER = \<lparr>ro_routes = Some, ro_providers = (\<lambda>i. Some (EXAMPLE_PROVIDER i))\<rparr>"

definition EXAMPLE_SITE :: verification_site where
  "EXAMPLE_SITE = \<lparr>site_content = (\<lambda>p. ok ''x''), site_execute = (\<lambda>c. ok (0, False))\<rparr>"

definition EXAMPLE_ENGINE_WORLD :: world where
  "EXAMPLE_ENGINE_WORLD =
     \<lparr>w_now = (\<lambda>n. ''now''), w_instant = (\<lambda>n. 0), w_fromisoformat = (\<lambda>s. Some (Aware 0)), w_repository = ''/r'',
      w_host = EXAMPLE_VHOST, w_runner_provider = EXAMPLE_PROVIDER ''p'', w_router = Some EXAMPLE_ROUTER,
      w_maximum_output_bytes = 100, w_run_id = (\<lambda>n. replicate n CHR ''r''),
      w_reply = (\<lambda>n role. ok \<lparr>rp_exit_code = 0, rp_timed_out = False, rp_output = JNull, rp_log = ok ''log'', rp_stderr_size = 0\<rparr>),
      w_loads = (\<lambda>s. Some EXAMPLE_OUTPUT), w_dumps = (\<lambda>v. ''log''), w_render = (\<lambda>v. []),
      w_create = (\<lambda>n. ok (''/w'', ''keeper/t'')), w_exists = (\<lambda>p. True), w_status = (\<lambda>n. ok ['' M keeper/a.py'']),
      w_diff = (\<lambda>n. ok ()), w_identity = (\<lambda>n. ok (''head'', ''tree'')), w_site = (\<lambda>n. EXAMPLE_SITE),
      w_observe = (\<lambda>n event. ok ())\<rparr>"

definition EXAMPLE_STATE :: engine where
  "EXAMPLE_STATE = \<lparr>en_clock = 0, en_task = EXAMPLE_ENGINE_TASK, en_saved = None, en_runs = [], en_authorizations = [],
     en_cleanup = [], en_observed = []\<rparr>"

text \<open>
  What the outside answers in this world, and what the leaf operations return on it; a run is then evaluated by
  rewriting, the first argument of each composition before the rest.
\<close>

lemma world_answers:
  "w_now EXAMPLE_ENGINE_WORLD n = ''now''" "w_run_id EXAMPLE_ENGINE_WORLD n = replicate n CHR ''r''"
  "w_runner_provider EXAMPLE_ENGINE_WORLD = EXAMPLE_PROVIDER ''p''" "w_router EXAMPLE_ENGINE_WORLD = Some EXAMPLE_ROUTER"
  "w_repository EXAMPLE_ENGINE_WORLD = ''/r''" "w_maximum_output_bytes EXAMPLE_ENGINE_WORLD = 100"
  "w_reply EXAMPLE_ENGINE_WORLD n role =
     ok \<lparr>rp_exit_code = 0, rp_timed_out = False, rp_output = JNull, rp_log = ok ''log'', rp_stderr_size = 0\<rparr>"
  "w_loads EXAMPLE_ENGINE_WORLD = (\<lambda>s. Some EXAMPLE_OUTPUT)" "w_create EXAMPLE_ENGINE_WORLD n = ok (''/w'', ''keeper/t'')"
  "w_status EXAMPLE_ENGINE_WORLD n = ok ['' M keeper/a.py'']" "w_diff EXAMPLE_ENGINE_WORLD n = ok ()"
  "w_identity EXAMPLE_ENGINE_WORLD n = ok (''head'', ''tree'')" "w_site EXAMPLE_ENGINE_WORLD n = EXAMPLE_SITE"
  "w_observe EXAMPLE_ENGINE_WORLD n e = ok ()" "w_fromisoformat EXAMPLE_ENGINE_WORLD s = Some (Aware 0)"
  by (simp_all add: EXAMPLE_ENGINE_WORLD_def)

lemma example_provider_for:
  "for_role EXAMPLE_ROUTER role = ok (EXAMPLE_PROVIDER role)"
  by (simp add: for_role_def EXAMPLE_ROUTER_def EXAMPLE_PROVIDER_def validate_provider_role_def DISABLED_PROVIDERS_def)

lemma provider_facts:
  "pv_name (EXAMPLE_PROVIDER i) = ''local''" "pv_instance_id (EXAMPLE_PROVIDER i) = i" "pv_validate (EXAMPLE_PROVIDER i) = ok ()"
  "\<not> is_qwen_provider ''local''" "\<not> is_high_risk_component ''docs''"
  by (simp_all add: EXAMPLE_PROVIDER_def) code_simp+

lemma example_reasoning:
  "tk_component t = ''docs'' \<Longrightarrow> tk_allowed_paths t = [''keeper/''] \<Longrightarrow> tk_risk t = ''low'' \<Longrightarrow> reasoning_for t = ''medium''"
  by (simp add: reasoning_for_def select_reasoning_level_def lower_def is_high_risk_component_def) code_simp

lemma example_scope:
  "changed_files ['' M keeper/a.py''] = [''keeper/a.py'']"
  "enforce_path_scope [''keeper/a.py''] [''keeper/''] [] = ok ()"
  by code_simp+

lemma example_output:
  "\<not> truthy JNull"
  "validate_provider_output (\<lambda>s. Some EXAMPLE_OUTPUT) ''builder'' ''log'' 100 = ok EXAMPLE_OUTPUT"
  "validate_provider_output (\<lambda>s. Some EXAMPLE_OUTPUT) ''reviewer'' ''log'' 100 = ok EXAMPLE_OUTPUT"
  "elements (get_field (members EXAMPLE_OUTPUT) ''files_changed'') = []"
  "bind_result (read_log EXAMPLE_ENGINE_WORLD (ok ''log'')) (parse_review_output r) = ok []"
  "blocking_findings [] = []"
  by code_simp+

lemma example_verification:
  "verifier_run EXAMPLE_SITE [plain_command [''keeper:file-equals'', ''keeper/a.py'', ''x'']] =
     ok [\<lparr>vr_arguments = [''keeper:file-equals'', ''keeper/a.py'', ''x''], vr_required = True, vr_exit_code = 0,
          vr_timed_out = False\<rparr>]"
  by code_simp

lemma example_authorization:
  "authorize_task (w_fromisoformat EXAMPLE_ENGINE_WORLD) [] t a r ''now'' ''now'' [] = ok []"
  by (simp add: authorize_task_def validate_capabilities_def parse_aware_timestamp_def world_answers)

lemma example_assignment: "validate_provider_assignment ''local'' a b c = ok ()"
  by (simp add: validate_provider_assignment_def DISABLED_PROVIDERS_def)

lemmas example_leaves = world_answers example_provider_for provider_facts example_reasoning example_scope example_output
  example_verification example_authorization example_assignment

lemmas action_steps = follow_def give_def lift_result_def outside_def modify_def reading_def rescue_def go_on_def
  Let_def change_task_def save_task_def notify_observer_def set_status_def set_stage_def save_run_def identity_of_def
  changed_in_def raise_if_def status_transition_def stop_with_def

lemmas engine_steps = run_task_def start_attempt_def admit_def admission_checks_def authorize_def open_workspace_def
  build_stage_def run_agent_def provider_for_def finished_run_def failed_run_def check_scope_def self_verify_stage_def
  verify_task_def collect_results_def required_passed_def vr_passed_def audit_stage_def judge_review_def independent_def
  record_review_def record_cleanup_def settle_blockers_def final_stage_def tree_unchanged_def approve_def STAGES_def

lemma first_part_only:
  "m = m' \<Longrightarrow> follow m f = follow m' f" "m = m' \<Longrightarrow> go_on m g = go_on m' g" "m = m' \<Longrightarrow> rescue m c h = rescue m' c h"
  by simp_all

lemma example_completes:
  "case run_task EXAMPLE_ENGINE_WORLD None None EXAMPLE_STATE of
     (r, t) \<Rightarrow> r = Inr (Some ()) \<and> tk_status (en_task t) = COMPLETED"
  by (simp add: action_steps engine_steps example_leaves EXAMPLE_STATE_def EXAMPLE_ENGINE_TASK_def cong: first_part_only)

theorem completed_tasks_passed_every_gate_witness:
  "\<exists>t. run_task EXAMPLE_ENGINE_WORLD None None EXAMPLE_STATE = (Inr (Some ()), t) \<and>
     (\<exists>run\<in>set (en_runs t). \<exists>review\<in>set (en_runs t). verified ''t'' run \<and> approved ''t'' run review)"
proof -
  obtain t where run: "run_task EXAMPLE_ENGINE_WORLD None None EXAMPLE_STATE = (Inr (Some ()), t)"
    and completed: "tk_status (en_task t) = COMPLETED"
    using example_completes by (auto split: prod.splits)
  have "inj (w_run_id EXAMPLE_ENGINE_WORLD)" by (auto simp: EXAMPLE_ENGINE_WORLD_def inj_def replicate_eq_replicate)
  moreover have "tk_status (en_task EXAMPLE_STATE) \<noteq> COMPLETED" by (simp add: EXAMPLE_STATE_def EXAMPLE_ENGINE_TASK_def)
  ultimately have "\<exists>run\<in>set (en_runs t). \<exists>review\<in>set (en_runs t). verified (tk_id (en_task EXAMPLE_STATE)) run \<and>
      approved (tk_id (en_task EXAMPLE_STATE)) run review"
    using run completed by (intro completed_tasks_passed_every_gate)
  moreover have "tk_id (en_task EXAMPLE_STATE) = ''t''" by (simp add: EXAMPLE_STATE_def EXAMPLE_ENGINE_TASK_def)
  ultimately show ?thesis using run by simp
qed

subsection \<open>Exceptions that escape\<close>

text \<open>
A review whose output satisfies the provider's contract, a finding with an identity, but whose finding
has no severity ends the audit with a key error: the task is neither failed nor blocked but left as it was,
under audit.
\<close>

theorem finding_without_severity_escapes:
  assumes "\<not> failed_run review" and "independent (en_task s) run review"
    and "read_log w logged = Inr (JObject obj)" and "get_field obj ''findings'' = JArray (before @ JObject f # after)"
    and "list_all (\<lambda>x. succeeds (finding_from_dict (w_render w) x)) before"
    and "map_of f ''finding_id'' = Some (JText i)" and "map_of f ''severity'' = None"
  shows "judge_review w run review logged s = (raise KeyError ''severity'', s) \<and> check_finding_id (JObject f) = ok ()"
proof -
  have bad: "finding_from_dict (w_render w) (JObject f) = raise KeyError ''severity''"
    using assms(6,7) by (simp add: finding_from_dict_def item_of_def)
  have "map_result (finding_from_dict (w_render w)) (before @ JObject f # after) = raise KeyError ''severity''"
    using assms(5) by (induction before) (auto simp: bad elim: succeedsE)
  then have "parse_review_output (w_render w) (JObject obj) = raise KeyError ''severity''"
    using assms(4) by (simp add: parse_review_output_def)
  then have "judge_review w run review logged s = (raise KeyError ''severity'', s)"
    using assms(1-3)
    by (simp add: judge_review_def follow_def reading_def go_on_def rescue_def lift_result_def VALUE_ERRORS_def OS_ERRORS_def)
  then show ?thesis using assms(6) by (simp add: check_finding_id_def get_field_def)
qed


definition EXAMPLE_BARE_FINDING :: json where
  "EXAMPLE_BARE_FINDING = JObject [(''finding_id'', JText ''F-1'')]"

definition EXAMPLE_RECORD :: "string \<Rightarrow> string \<Rightarrow> run_record" where
  "EXAMPLE_RECORD run_id instance_id =
     \<lparr>rn_run_id = run_id, rn_task_id = ''t'', rn_role = ''reviewer'', rn_provider_name = ''local'',
      rn_provider_instance_id = instance_id, rn_reasoning_level = ''medium'', rn_status = ''completed'',
      rn_process_exit_code = Some 0, rn_failure_reason = None, rn_files_changed = [], rn_verification_passed = None,
      rn_review_findings = [], rn_accepted_findings = [], rn_rejected_findings = [], rn_repair_history = [],
      rn_final_approval_authority = None, rn_review_tree_identity = None\<rparr>"

theorem finding_without_severity_escapes_witness:
  "judge_review (EXAMPLE_ENGINE_WORLD\<lparr>w_loads := \<lambda>s. Some (JObject [(''findings'', JArray [EXAMPLE_BARE_FINDING])])\<rparr>)
     (EXAMPLE_RECORD ''r1'' ''a'') (EXAMPLE_RECORD ''r2'' ''b'') (ok ''log'') EXAMPLE_STATE =
   (raise KeyError ''severity'', EXAMPLE_STATE)"
  using finding_without_severity_escapes [of "EXAMPLE_RECORD ''r2'' ''b''" EXAMPLE_STATE "EXAMPLE_RECORD ''r1'' ''a''"
      "EXAMPLE_ENGINE_WORLD\<lparr>w_loads := \<lambda>s. Some (JObject [(''findings'', JArray [EXAMPLE_BARE_FINDING])])\<rparr>" "ok ''log''"
      "[(''findings'', JArray [EXAMPLE_BARE_FINDING])]" "[]" "[(''finding_id'', JText ''F-1'')]" "[]" "''F-1''"]
  by (simp add: failed_run_def independent_def read_log_def get_field_def EXAMPLE_RECORD_def EXAMPLE_BARE_FINDING_def
      provider_facts)

text \<open>
A retry of a blocked task whose provider cannot be used does not leave the task quietly blocked as the
handler means it to: setting the status a blocked task already has is an invalid transition, so the
retry raises a value error; the attempt it replaced is lost, the status and the history stay.
\<close>

theorem refused_retry_of_blocked_task_raises:
  assumes "tk_status (en_task s) = BLOCKED" and "map_of STAGES stage = Some i" and "attempt_id \<noteq> []"
    and "tk_verification_commands (en_task s) \<noteq> []" and "tk_provider (en_task s) \<notin> set DISABLED_PROVIDERS"
    and "w_router w = Some ro" and "for_role ro ''builder'' = Inl e"
    and "err_class e \<in> {PermissionError, RuntimeError, ValueError}"
  shows "\<exists>t. run_task w (Some stage) (Some attempt_id) s = (raise ValueError ''invalid task transition'', t) \<and>
    en_saved t = Some (en_task t) \<and> tk_status (en_task t) = BLOCKED \<and>
    tk_transition_history (en_task t) = tk_transition_history (en_task s) \<and>
    tk_active_attempt_id (en_task t) = Some attempt_id"
  using assms
  by (auto simp add: action_steps run_task_def start_attempt_def admit_def admission_checks_def
      validate_provider_assignment_def VALUE_ERRORS_def cong: first_part_only)

definition EXAMPLE_CLOSED_ROUTER :: router where
  "EXAMPLE_CLOSED_ROUTER = \<lparr>ro_routes = Map.empty, ro_providers = Map.empty\<rparr>"

definition EXAMPLE_BLOCKED_STATE :: engine where
  "EXAMPLE_BLOCKED_STATE = EXAMPLE_STATE\<lparr>en_task := EXAMPLE_ENGINE_TASK\<lparr>tk_status := BLOCKED\<rparr>\<rparr>"

theorem refused_retry_of_blocked_task_raises_witness:
  "\<exists>t. run_task (EXAMPLE_ENGINE_WORLD\<lparr>w_router := Some EXAMPLE_CLOSED_ROUTER\<rparr>) (Some ''independent_audit'') (Some ''a-2'')
         EXAMPLE_BLOCKED_STATE = (raise ValueError ''invalid task transition'', t) \<and> tk_status (en_task t) = BLOCKED"
  using refused_retry_of_blocked_task_raises [of EXAMPLE_BLOCKED_STATE "''independent_audit''" 2 "''a-2''"
      "EXAMPLE_ENGINE_WORLD\<lparr>w_router := Some EXAMPLE_CLOSED_ROUTER\<rparr>" EXAMPLE_CLOSED_ROUTER
      "Err RuntimeError ''no provider is explicitly configured for role''"]
  by (auto simp add: EXAMPLE_BLOCKED_STATE_def EXAMPLE_STATE_def EXAMPLE_ENGINE_TASK_def EXAMPLE_CLOSED_ROUTER_def
      STAGES_def DISABLED_PROVIDERS_def for_role_def)

end
