(* ===== verification/Engine_Events.thy ===== *)
theory Engine_Events
  imports Workflow_Properties Task_Gates
begin

text \<open>
  The engine (\<open>Task_Engine\<close>) and the lifecycle of its run agree: whatever the engine is answered, the events
  it gives its observer are moves the lifecycle accepts, from the stage at which the attempt starts.
\<close>

subsection \<open>Events as moves between stages\<close>

definition stage_after :: "run_stage \<Rightarrow> string \<Rightarrow> run_stage option" where
  "stage_after s event =
     (case map_of EVENT_STAGES event of
        None \<Rightarrow> Some s
      | Some t \<Rightarrow> if t = s \<or> t \<in> set (forward s) \<or> t = FINAL_VALIDATION \<and> s = POST_REPAIR_VERIFICATION then Some t else None)"

fun stages_after :: "run_stage \<Rightarrow> string list \<Rightarrow> run_stage option" where
  "stages_after s [] = Some s"
| "stages_after s (e # es) = (case stage_after s e of None \<Rightarrow> None | Some t \<Rightarrow> stages_after t es)"

lemma stages_after_snoc:
  "stages_after s (es @ [e]) = (case stages_after s es of None \<Rightarrow> None | Some t \<Rightarrow> stage_after t e)"
  by (induction es arbitrary: s) (auto split: option.splits)

definition ordinary :: "run_stage \<Rightarrow> bool" where
  "ordinary s \<longleftrightarrow> s \<notin> {STAGE_INTERRUPTED, STAGE_CANCELLED, STAGE_BLOCKED}"

lemma forward_transition:
  assumes "row_of run_id st = Inr (row, s, n)" and "ordinary s" and "ordinary t" and "t = s \<or> t \<in> set (forward s)"
  shows "\<exists>result st' row' n'. transition_run run_id t st = Inr (result, st') \<and> row_of run_id st' = Inr (row', t, n')"
proof (cases "t = s")
  case True
  with assms(1) show ?thesis by (simp add: transition_run_def)
next
  case False
  let ?row = "enter_stage s t (n + 1) (count_attempt run_id t row)"
  from False assms(2-4) have "leave_stage s t row = Inr row" by (auto simp: leave_stage_def ordinary_def)
  with False assms(1) have "\<exists>result. transition_run run_id t st = Inr (result, st(run_id \<mapsto> Inr ?row))"
    by (simp add: transition_run_def)
  moreover have "row_of run_id (st(run_id \<mapsto> Inr ?row)) = Inr (?row, t, n + 1)"
    by (rule row_of_stored) (simp_all add: enter_stage_def del: stage_value.simps)
  ultimately show ?thesis by blast
qed

lemma event_stages_ordinary: "map_of EVENT_STAGES event = Some t \<Longrightarrow> ordinary t"
  by (auto simp: EVENT_STAGES_def ordinary_def split: if_splits)

lemma stage_after_ordinary: "stage_after s event = Some t \<Longrightarrow> ordinary s \<Longrightarrow> ordinary t"
  by (auto simp: stage_after_def event_stages_ordinary split: option.splits if_splits)

lemma follow_event_accepts:
  assumes row: "row_of run_id st = Inr (row, s, n)" and s: "ordinary s" and after: "stage_after s event = Some t"
  shows "\<exists>st' row' n'. follow_event run_id st event = Inr st' \<and> row_of run_id st' = Inr (row', t, n')"
proof (cases "map_of EVENT_STAGES event")
  case None
  with after row show ?thesis by (simp add: stage_after_def follow_event_def)
next
  case (Some target)
  with after have t: "target = t" and move: "t = s \<or> t \<in> set (forward s) \<or> t = FINAL_VALIDATION \<and> s = POST_REPAIR_VERIFICATION"
    by (auto simp: stage_after_def split: if_splits)
  from row_of_InrD [OF row] have stored: "st run_id = Some (Inr row)" "rw_stage row = Some (stage_value s)" by simp_all
  have ordinary_t: "ordinary t" using Some t by (simp add: event_stages_ordinary)
  show ?thesis
  proof (cases "t = FINAL_VALIDATION \<and> s = POST_REPAIR_VERIFICATION")
    case True
    have "ordinary STAGE_AUDIT" by (simp add: ordinary_def)
    from forward_transition [OF row s this] True obtain r1 st1 row1 n1 where
      audit: "transition_run run_id STAGE_AUDIT st = Inr (r1, st1)" "row_of run_id st1 = Inr (row1, STAGE_AUDIT, n1)" by auto
    from forward_transition [OF audit(2) \<open>ordinary STAGE_AUDIT\<close> ordinary_t] True obtain r2 st2 row2 n2 where
      "transition_run run_id t st1 = Inr (r2, st2)" "row_of run_id st2 = Inr (row2, t, n2)" by auto
    with audit Some t stored True show ?thesis
      by (simp add: follow_event_def named_stage_def del: stage_value.simps)
  next
    case False
    with move have "t = s \<or> t \<in> set (forward s)" by blast
    from forward_transition [OF row s ordinary_t this] False Some t stored show ?thesis
      by (auto simp: follow_event_def named_stage_def simp del: stage_value.simps)
  qed
qed

lemma follow_events_accept:
  assumes "row_of run_id st = Inr (row, s, n)" and "ordinary s" and "stages_after s events = Some t"
  shows "\<exists>st' row' n'. fold_result (follow_event run_id) st events = Inr st' \<and> row_of run_id st' = Inr (row', t, n')"
  using assms
proof (induction events arbitrary: st row s n)
  case (Cons e events)
  then obtain u where u: "stage_after s e = Some u" "stages_after u events = Some t" by (auto split: option.splits)
  from follow_event_accepts [OF Cons.prems(1,2) u(1)] obtain st' row' n' where
    "follow_event run_id st e = Inr st'" "row_of run_id st' = Inr (row', u, n')" by blast
  with Cons.IH [OF this(2) stage_after_ordinary [OF u(1) Cons.prems(2)] u(2)] show ?case by auto
qed auto

subsection \<open>Where an action of the engine leaves the run\<close>

definition at_stage :: "run_stage \<Rightarrow> run_stage \<Rightarrow> engine \<Rightarrow> bool" where
  "at_stage origin s e \<longleftrightarrow> stages_after origin (en_observed e) = Some s"

text \<open>From a stage of \<open>U\<close> the action comes to one of \<open>V\<close>, or raises with all events accepted.\<close>

definition passes :: "run_stage \<Rightarrow> run_stage set \<Rightarrow> 'a action \<Rightarrow> run_stage set \<Rightarrow> bool" where
  "passes origin U m V \<longleftrightarrow> (\<forall>s. (\<exists>u\<in>U. at_stage origin u s) \<longrightarrow>
     wp m (\<lambda>_ t. \<exists>v\<in>V. at_stage origin v t) (\<lambda>_ t. \<exists>v. at_stage origin v t) s)"

text \<open>The same of a step that may end the method.\<close>

definition leads :: "run_stage \<Rightarrow> run_stage set \<Rightarrow> 'a option action \<Rightarrow> run_stage set \<Rightarrow> bool" where
  "leads origin U m V \<longleftrightarrow> (\<forall>s. (\<exists>u\<in>U. at_stage origin u s) \<longrightarrow>
     wp m (\<lambda>r t. if r = None then \<exists>v. at_stage origin v t else \<exists>v\<in>V. at_stage origin v t) (\<lambda>_ t. \<exists>v. at_stage origin v t) s)"

definition unobserved :: "engine \<Rightarrow> engine \<Rightarrow> bool" where
  "unobserved s t \<longleftrightarrow> en_observed t = en_observed s"

interpretation unobserved: kept_relation unobserved
  by unfold_locales (auto simp: unobserved_def)

lemma passes_unobserved: "stays unobserved m \<Longrightarrow> passes origin U m U"
  unfolding passes_def by (auto intro!: wp_stays simp: unobserved_def at_stage_def)

lemma passes_follow: "passes origin U m V \<Longrightarrow> (\<And>x. passes origin V (f x) W) \<Longrightarrow> passes origin U (follow m f) W"
  unfolding passes_def wp_follow by (blast intro: wp_mono)

lemma leads_follow: "passes origin U m V \<Longrightarrow> (\<And>x. leads origin V (f x) W) \<Longrightarrow> leads origin U (follow m f) W"
  unfolding passes_def leads_def wp_follow by (blast intro: wp_mono)

lemma leads_go_on:
  assumes "leads origin U m V" and "\<And>x. leads origin V (f x) W"
  shows "leads origin U (go_on m f) W"
  unfolding leads_def wp_go_on
proof (intro allI impI)
  fix s assume "\<exists>u\<in>U. at_stage origin u s"
  with assms(1) have "wp m (\<lambda>r t. if r = None then \<exists>v. at_stage origin v t else \<exists>v\<in>V. at_stage origin v t)
      (\<lambda>_ t. \<exists>v. at_stage origin v t) s" by (simp add: leads_def)
  then show "wp m (\<lambda>r t. case r of
        None \<Rightarrow> if None = None then \<exists>v. at_stage origin v t else \<exists>v\<in>W. at_stage origin v t
      | Some x \<Rightarrow> wp (f x) (\<lambda>r t. if r = None then \<exists>v. at_stage origin v t else \<exists>v\<in>W. at_stage origin v t)
          (\<lambda>_ t. \<exists>v. at_stage origin v t) t) (\<lambda>_ t. \<exists>v. at_stage origin v t) s"
    by (rule wp_mono) (use assms(2) in \<open>auto simp: leads_def split: option.split split del: if_split\<close>)
qed

lemma leads_rescue:
  assumes "leads origin U m V" and "\<And>e. leads origin UNIV (h e) V"
  shows "leads origin U (rescue m classes h) V"
  unfolding leads_def wp_rescue
proof (intro allI impI)
  fix s assume "\<exists>u\<in>U. at_stage origin u s"
  with assms(1) have "wp m (\<lambda>r t. if r = None then \<exists>v. at_stage origin v t else \<exists>v\<in>V. at_stage origin v t)
      (\<lambda>_ t. \<exists>v. at_stage origin v t) s" by (simp add: leads_def)
  then show "wp m (\<lambda>r t. if r = None then \<exists>v. at_stage origin v t else \<exists>v\<in>V. at_stage origin v t)
      (\<lambda>e t. if err_class e \<in> set classes
        then wp (h e) (\<lambda>r t. if r = None then \<exists>v. at_stage origin v t else \<exists>v\<in>V. at_stage origin v t)
          (\<lambda>_ t. \<exists>v. at_stage origin v t) t
        else \<exists>v. at_stage origin v t) s"
    by (rule wp_mono) (use assms(2) in \<open>auto simp: leads_def\<close>)
qed

lemma leads_give: "U \<subseteq> V \<Longrightarrow> leads origin U (give r) V"
  by (auto simp: leads_def)

lemma leads_lift: "U \<subseteq> V \<Longrightarrow> leads origin U (lift_result r) V"
  by (auto simp: leads_def split: sum.split)

lemma leads_if: "(b \<Longrightarrow> leads origin U m V) \<Longrightarrow> (\<not> b \<Longrightarrow> leads origin U n V) \<Longrightarrow> leads origin U (if b then m else n) V"
  by simp

lemma leads_prod: "(\<And>x y. leads origin U (f x y) V) \<Longrightarrow> leads origin U (case p of (x, y) \<Rightarrow> f x y) V"
  by (cases p) simp

lemma leads_let: "(\<And>x. leads origin U (f x) V) \<Longrightarrow> leads origin U (let x = v in f x) V"
  by simp

lemma leads_mono: "leads origin U m V \<Longrightarrow> U' \<subseteq> U \<Longrightarrow> V \<subseteq> V' \<Longrightarrow> leads origin U' m V'"
  unfolding leads_def by (fastforce intro: wp_mono)

lemma passes_set_status:
  assumes "\<And>u. u \<in> U \<Longrightarrow> \<exists>v\<in>V. stage_after u (the (map_of STATUS_VALUES target)) = Some v"
  shows "passes origin U (set_status w target) V"
  using assms
  by (fastforce simp: passes_def set_status_def save_task_def notify_observer_def change_task_def status_transition_def
      raise_if_def at_stage_def stages_after_snoc Let_def split: sum.split)

lemma passes_set_stage:
  assumes "\<And>u. u \<in> U \<Longrightarrow> \<exists>v\<in>V. stage_after u event = Some v"
  shows "passes origin U (set_stage w event) V"
  using assms
  by (fastforce simp: passes_def set_stage_def save_task_def notify_observer_def change_task_def at_stage_def
      stages_after_snoc Let_def split: sum.split)


subsection \<open>The engine's steps\<close>

definition unmapped :: "task_status list" where
  "unmapped = [READY, APPROVED, COMPLETED, BLOCKED, FAILED]"

lemma passes_unmapped_status: "target \<in> set unmapped \<Longrightarrow> passes origin U (set_status w target) U"
proof -
  assume "target \<in> set unmapped"
  then have "map_of EVENT_STAGES (the (map_of STATUS_VALUES target)) = None"
    by (auto simp: unmapped_def STATUS_VALUES_def EVENT_STAGES_def)
  then show "passes origin U (set_status w target) U"
    by (intro passes_set_status) (simp add: stage_after_def)
qed

lemma passes_unmapped_stage: "map_of EVENT_STAGES event = None \<Longrightarrow> passes origin U (set_stage w event) U"
  by (rule passes_set_stage) (auto simp: stage_after_def)

lemma leads_stop: "target \<in> set unmapped \<Longrightarrow> leads origin U (stop_with w target) V"
proof -
  assume "target \<in> set unmapped"
  from passes_unmapped_status [OF this, of origin U w] show "leads origin U (stop_with w target) V"
    unfolding stop_with_def by (rule leads_follow) (auto simp: leads_def)
qed

lemma unobserved_modify: "(\<And>s. en_observed (f s) = en_observed s) \<Longrightarrow> stays unobserved (modify f)"
  by (rule unobserved.stays_modify) (simp add: unobserved_def)

lemma unobserved_change_task: "stays unobserved (change_task f)"
  unfolding change_task_def by (rule unobserved_modify) simp

lemma unobserved_save_task: "stays unobserved (save_task w)"
  unfolding save_task_def by (intro unobserved.stays_rules unobserved_modify) (simp add: Let_def)

lemma unobserved_save_run: "stays unobserved (save_run r)"
  unfolding save_run_def by (rule unobserved_modify) simp

lemma unobserved_latest_run: "stays unobserved (latest_run task_id roles)"
  unfolding latest_run_def by (intro unobserved.stays_rules)

lemma unobserved_run_agent: "stays unobserved (run_agent w role)"
  unfolding run_agent_def by (intro unobserved.stays_rules unobserved_save_run)

lemma unobserved_verify_task: "stays unobserved (verify_task w final)"
  unfolding verify_task_def collect_results_def identity_of_def by (intro unobserved.stays_rules)

lemma unobserved_check_scope: "stays unobserved (check_scope w)"
  unfolding check_scope_def changed_in_def by (intro unobserved.stays_rules)

lemma unobserved_identity: "stays unobserved (identity_of w)"
  unfolding identity_of_def by (rule unobserved.stays_outside)

lemma unobserved_unchanged: "stays unobserved (tree_unchanged w review)"
  unfolding tree_unchanged_def by (intro unobserved.stays_rules unobserved_identity)

lemma unobserved_admission: "stays unobserved (admission_checks w retrying)"
  unfolding admission_checks_def authorize_def by (intro unobserved.stays_rules unobserved_modify) simp_all

lemma unobserved_open_workspace: "stays unobserved (open_workspace w retrying)"
  unfolding open_workspace_def by (intro unobserved.stays_rules unobserved_change_task unobserved_save_task)

lemmas unobserved_calls = unobserved_change_task unobserved_save_task unobserved_save_run unobserved_latest_run
  unobserved_run_agent unobserved_verify_task unobserved_check_scope unobserved_identity unobserved_unchanged
  unobserved_admission unobserved_open_workspace unobserved.stays_reading unobserved.stays_lift
  unobserved.stays_outside unobserved.stays_give

lemmas leads_silent = leads_follow [OF passes_unobserved]

lemma passes_if: "(b \<Longrightarrow> passes origin U m V) \<Longrightarrow> (\<not> b \<Longrightarrow> passes origin U n V) \<Longrightarrow> passes origin U (if b then m else n) V"
  by simp

lemma leads_start_attempt: "leads origin U (start_attempt w retrying attempt) U"
  unfolding start_attempt_def
  by (intro leads_silent leads_if unobserved_calls leads_give subset_refl
      leads_follow [where V = U, OF passes_if] passes_unmapped_status passes_unobserved)
    (simp_all add: unmapped_def)

lemma leads_admit: "leads origin U (admit w retrying) U"
  unfolding admit_def
  by (rule leads_rescue [OF leads_silent [OF unobserved_admission leads_give [OF subset_refl]]])
    (rule leads_stop [unfolded stop_with_def], simp add: unmapped_def)


lemma stage_after_events:
  "stage_after s ''BUILDING'' = (if s \<in> {WORKTREE_PREPARATION, AUTHOR_EXECUTION} then Some AUTHOR_EXECUTION else None)"
  "stage_after s ''SELF_VERIFYING'' =
     (if s \<in> {AUTHOR_EXECUTION, AUTHOR_SELF_VERIFICATION} then Some AUTHOR_SELF_VERIFICATION else None)"
  "stage_after s ''INDEPENDENT_AUDIT'' =
     (if s \<in> {AUTHOR_SELF_VERIFICATION, POST_REPAIR_VERIFICATION, STAGE_AUDIT} then Some STAGE_AUDIT else None)"
  "stage_after s ''REPAIRING'' = (if s \<in> {STAGE_AUDIT, REPAIR_EXECUTION} then Some REPAIR_EXECUTION else None)"
  "stage_after s ''POST_REPAIR_REVIEWING'' =
     (if s \<in> {REPAIR_EXECUTION, POST_REPAIR_VERIFICATION} then Some POST_REPAIR_VERIFICATION else None)"
  "stage_after s ''FINAL_VERIFY'' =
     (if s \<in> {STAGE_AUDIT, POST_REPAIR_VERIFICATION, FINAL_VALIDATION} then Some FINAL_VALIDATION else None)"
  by (cases s; simp add: stage_after_def EVENT_STAGES_def)+

text \<open>The stages at which a run may stand when the engine comes to a step, by the stage the attempt starts at.\<close>

definition before_build :: "nat \<Rightarrow> run_stage set" where
  "before_build start = (if start = 0 then {WORKTREE_PREPARATION, AUTHOR_EXECUTION}
     else {[AUTHOR_EXECUTION, AUTHOR_SELF_VERIFICATION, STAGE_AUDIT, REPAIR_EXECUTION, POST_REPAIR_VERIFICATION,
            FINAL_VALIDATION] ! start})"

definition after_step :: "nat \<Rightarrow> nat \<Rightarrow> run_stage set" where
  "after_step step start =
     {[AUTHOR_EXECUTION, AUTHOR_SELF_VERIFICATION, STAGE_AUDIT, REPAIR_EXECUTION, POST_REPAIR_VERIFICATION,
       FINAL_VALIDATION] ! max step start}"

lemmas step_sets = before_build_def after_step_def

lemma upto_five: "start \<le> 5 \<Longrightarrow> start = 0 \<or> start = 1 \<or> start = 2 \<or> start = 3 \<or> start = 4 \<or> start = (5::nat)"
  by linarith

lemma leads_enter:
  assumes "\<And>u. u \<in> U \<Longrightarrow> stage_after u (the (map_of STATUS_VALUES target)) = Some v"
    and "stage_after v event = Some v" and "leads origin {v} rest V"
  shows "leads origin U (follow (set_status w target) (\<lambda>_. follow (set_stage w event) (\<lambda>_. rest))) V"
  by (rule leads_follow [where V = "{v}"], rule passes_set_status, simp add: assms(1))
    (rule leads_follow [where V = "{v}"], rule passes_set_stage, simp_all add: assms(2,3))

lemmas leads_rest = leads_silent leads_prod leads_let leads_if leads_stop leads_give unobserved_calls

lemma leads_build:
  assumes "start \<le> 5"
  shows "leads origin (before_build start) (build_stage w start) (after_step 0 start)"
proof (cases "start = 0")
  case True
  then have sets: "before_build start = {WORKTREE_PREPARATION, AUTHOR_EXECUTION}" "after_step 0 start = {AUTHOR_EXECUTION}"
    by (simp_all add: step_sets)
  show ?thesis
    unfolding build_stage_def sets if_P [OF eq_imp_le [OF True]]
    by (intro leads_enter [where v = AUTHOR_EXECUTION] leads_rest)
      (auto simp: STATUS_VALUES_def stage_after_events unmapped_def)
next
  case False
  then show ?thesis
    unfolding build_stage_def using upto_five [OF assms]
    by (auto simp: step_sets intro!: leads_silent leads_give unobserved_calls)
qed

lemma leads_self_verify:
  assumes "start \<le> 5"
  shows "leads origin (after_step 0 start) (self_verify_stage w start run) (after_step 1 start)"
proof (cases "start \<le> 1")
  case True
  then have sets: "after_step 0 start \<subseteq> {AUTHOR_EXECUTION, AUTHOR_SELF_VERIFICATION}" "after_step 1 start = {AUTHOR_SELF_VERIFICATION}"
    by (auto simp: step_sets le_Suc_eq)
  show ?thesis
    unfolding self_verify_stage_def sets if_P [OF True]
    by (intro leads_enter [where v = AUTHOR_SELF_VERIFICATION] leads_rest)
      (use sets in \<open>auto simp: STATUS_VALUES_def stage_after_events unmapped_def\<close>)
next
  case False
  then show ?thesis
    unfolding self_verify_stage_def using upto_five [OF assms]
    by (auto simp: step_sets intro!: leads_give)
qed

lemma leads_record_review: "leads origin U (record_review w review findings) U"
  unfolding record_review_def by (intro leads_rest unobserved_modify) simp_all

lemma leads_judge_review: "leads origin U (judge_review w run review logged) U"
  unfolding judge_review_def
  by (intro leads_rest leads_go_on [where V = U] leads_rescue leads_record_review) (simp_all add: unmapped_def)

lemma leads_audit:
  assumes "start \<le> 5"
  shows "leads origin (after_step 1 start) (audit_stage w start run) (after_step 2 start)"
proof (cases "start \<le> 2")
  case True
  then have sets: "after_step 1 start \<subseteq> {AUTHOR_SELF_VERIFICATION, STAGE_AUDIT}" "after_step 2 start = {STAGE_AUDIT}"
    by (auto simp: step_sets le_Suc_eq numeral_2_eq_2)
  show ?thesis
    unfolding audit_stage_def sets if_P [OF True]
    by (intro leads_enter [where v = STAGE_AUDIT] leads_rest leads_judge_review)
      (use sets in \<open>auto simp: STATUS_VALUES_def stage_after_events unmapped_def stage_after_def EVENT_STAGES_def\<close>)
next
  case False
  then show ?thesis
    unfolding audit_stage_def using upto_five [OF assms]
    by (auto simp: step_sets intro!: leads_silent leads_give unobserved_calls)
qed


lemma leads_judge_repair: "leads origin U (judge_repair w review before repair) U"
  unfolding judge_repair_def by (intro leads_rest) (simp_all add: unmapped_def)

lemma leads_repair:
  assumes "start \<le> 5"
  shows "leads origin (after_step 2 start) (repair_stage w start review) (after_step 3 start)"
proof (cases "start \<le> 3")
  case True
  then have sets: "after_step 2 start \<subseteq> {STAGE_AUDIT, REPAIR_EXECUTION}" "after_step 3 start = {REPAIR_EXECUTION}"
    by (auto simp: step_sets le_Suc_eq numeral_2_eq_2 numeral_3_eq_3)
  show ?thesis
    unfolding repair_stage_def sets if_P [OF True]
    by (intro leads_enter [where v = REPAIR_EXECUTION] leads_rest leads_judge_repair)
      (use sets in \<open>auto simp: STATUS_VALUES_def stage_after_events\<close>)
next
  case False
  then show ?thesis
    unfolding repair_stage_def using upto_five [OF assms]
    by (auto simp: step_sets intro!: leads_silent leads_give unobserved_calls)
qed

lemma leads_judge_post_review: "leads origin U (judge_post_review w run repair blockers post logged) U"
  unfolding judge_post_review_def record_post_review_def
  by (intro leads_rest leads_go_on [where V = U] leads_rescue unobserved_modify) (simp_all add: unmapped_def)

lemma leads_post_repair:
  assumes "start \<le> 5"
  shows "leads origin (after_step 3 start) (post_repair_stage w start run repair blockers) (after_step 4 start)"
proof (cases "start \<le> 4")
  case True
  then have sets: "after_step 3 start \<subseteq> {REPAIR_EXECUTION, POST_REPAIR_VERIFICATION}" "after_step 4 start = {POST_REPAIR_VERIFICATION}"
    by (auto simp: step_sets le_Suc_eq numeral_3_eq_3 numeral_eq_Suc)
  show ?thesis
    unfolding post_repair_stage_def sets if_P [OF True]
    by (rule leads_silent, intro unobserved.stays_if unobserved.stays_follow unobserved_calls,
        rule leads_follow [where V = "{POST_REPAIR_VERIFICATION}"], rule passes_set_stage)
      (use sets in \<open>auto simp: stage_after_events intro!: leads_silent leads_prod leads_judge_post_review unobserved_calls\<close>)
next
  case False
  then show ?thesis
    unfolding post_repair_stage_def using upto_five [OF assms]
    by (auto simp: step_sets intro!: leads_silent leads_give unobserved_calls)
qed

definition before_final :: "nat \<Rightarrow> run_stage set" where
  "before_final start = (if start = 5 then {FINAL_VALIDATION} else {STAGE_AUDIT, POST_REPAIR_VERIFICATION})"

lemma leads_raise: "leads origin U (lift_result (Inl e)) V"
  by (auto simp: leads_def)

lemma leads_settle:
  assumes "start \<le> 5"
  shows "leads origin (after_step 2 start) (settle_blockers w start run review blockers) (before_final start)"
proof -
  have "after_step 4 start \<subseteq> before_final start" using upto_five [OF assms] by (auto simp: step_sets before_final_def)
  with leads_post_repair [OF assms] have post: "leads origin (after_step 3 start)
      (post_repair_stage w start run repair blockers) (before_final start)" for repair
    by (rule leads_mono [OF _ subset_refl])
  have "after_step 2 start \<subseteq> before_final start" if "start \<notin> {3, 4}"
    using that upto_five [OF assms] by (auto simp: step_sets before_final_def)
  then show ?thesis
    unfolding settle_blockers_def
    by (intro leads_if leads_go_on [OF leads_repair [OF assms] post] leads_raise leads_silent unobserved_calls leads_give) auto
qed

lemma leads_approve: "leads origin U (approve w review) U"
  unfolding approve_def
  by (rule leads_follow [OF passes_unmapped_status leads_silent [OF unobserved_save_run
        leads_follow [OF passes_unmapped_status]]])
    (auto simp: unmapped_def intro!: leads_silent leads_give unobserved_calls)

lemma leads_final:
  assumes "start \<le> 5"
  shows "leads origin (before_final start) (final_stage w review) {FINAL_VALIDATION}"
  unfolding final_stage_def
  by (intro leads_enter [where v = FINAL_VALIDATION] leads_rest leads_approve)
    (auto simp: before_final_def STATUS_VALUES_def stage_after_events stage_after_def EVENT_STAGES_def unmapped_def
      split: if_splits)

lemma leads_run_task:
  assumes "map_of STAGES (case retry of None \<Rightarrow> ''author_execution'' | Some st \<Rightarrow> st) = Some start"
  shows "leads origin (before_build start) (run_task w retry attempt) {FINAL_VALIDATION}"
proof -
  have five: "start \<le> 5" using assms by (auto simp: STAGES_def split: if_splits)
  have chosen: "follow (lift_result (raise_if (Some start = None) ValueError ''unsupported retry stage'' (ok (the (Some start))))) f = f start"
    for f :: "nat \<Rightarrow> unit option action" by (rule ext) (simp add: follow_def lift_result_def)
  show ?thesis
    unfolding run_task_def Let_def assms chosen
    by (intro leads_go_on [OF leads_start_attempt] leads_go_on [OF leads_admit] leads_silent [OF unobserved_open_workspace]
        leads_go_on [OF leads_build [OF five]] leads_go_on [OF leads_self_verify [OF five]]
        leads_go_on [OF leads_audit [OF five]] leads_prod leads_go_on [OF leads_settle [OF five]] leads_final [OF five])
qed

lemmas stage_names = stage_named_value [of AUTHOR_EXECUTION] stage_named_value [of AUTHOR_SELF_VERIFICATION]
  stage_named_value [of STAGE_AUDIT] stage_named_value [of REPAIR_EXECUTION]
  stage_named_value [of POST_REPAIR_VERIFICATION] stage_named_value [of FINAL_VALIDATION]

lemma attempt_origin:
  assumes "map_of STAGES (case retry of None \<Rightarrow> ''author_execution'' | Some v \<Rightarrow> v) = Some start"
  shows "(case retry of None \<Rightarrow> WORKTREE_PREPARATION | Some v \<Rightarrow> the (stage_named v)) \<in> before_build start \<inter> Collect ordinary"
proof (cases retry)
  case None
  with assms show ?thesis by (simp add: STAGES_def before_build_def ordinary_def)
next
  case (Some v)
  with assms have "(v, start) \<in> set STAGES" by (auto dest: map_of_SomeD)
  with Some stage_names show ?thesis by (auto simp: STAGES_def before_build_def ordinary_def numeral_eq_Suc)
qed

text \<open>
C6: Whatever the providers, the verification commands, the repository and the router answer, and wherever
the attempt ends, the events that the engine gives its observer are moves the lifecycle of the run accepts:
from worktree preparation on the first attempt, and from the retried stage on a retry.  When the engine
completes the task the run stands at final validation, so finishing the validation takes it to the
approval decision.
\<close>

theorem engine_events_follow_the_lifecycle:
  assumes "row_of run_id st = Inr (row, stage, n)" and "en_observed s = []"
    and "stage = (case retry of None \<Rightarrow> WORKTREE_PREPARATION | Some v \<Rightarrow> the (stage_named v))"
    and "map_of STAGES (case retry of None \<Rightarrow> ''author_execution'' | Some v \<Rightarrow> v) \<noteq> None"
    and "run_task w retry attempt s = (outcome, t)"
  shows "\<exists>st'. fold_result (follow_event run_id) st (en_observed t) = Inr st' \<and>
    (outcome = Inr (Some ()) \<longrightarrow> (\<exists>st'' row'' n''. finish_validation run_id st' = Inr st'' \<and>
      row_of run_id st'' = Inr (row'', APPROVAL_DECISION, n'')))"
proof -
  from assms(4) obtain start where start: "map_of STAGES (case retry of None \<Rightarrow> ''author_execution'' | Some v \<Rightarrow> v) = Some start"
    by blast
  from attempt_origin [OF start] have "stage \<in> before_build start \<and> ordinary stage"
    unfolding assms(3) by blast
  then have at: "\<exists>u\<in>before_build start. at_stage stage u s" and ordinary: "ordinary stage"
    using assms(2) by (auto simp: at_stage_def)
  from leads_run_task [OF start, of stage w attempt] at
  have "wp (run_task w retry attempt) (\<lambda>r t. if r = None then \<exists>v. at_stage stage v t else \<exists>v\<in>{FINAL_VALIDATION}. at_stage stage v t)
      (\<lambda>_ t. \<exists>v. at_stage stage v t) s" unfolding leads_def by blast
  then obtain v where v: "at_stage stage v t" "outcome = Inr (Some ()) \<Longrightarrow> v = FINAL_VALIDATION"
    using assms(5) by (auto simp: wp_def split: sum.splits if_splits)
  from follow_events_accept [OF assms(1) ordinary, of "en_observed t" v] v(1) obtain st' row' n' where
    st': "fold_result (follow_event run_id) st (en_observed t) = Inr st'" "row_of run_id st' = Inr (row', v, n')"
    by (auto simp: at_stage_def)
  have "\<exists>st'' row'' n''. finish_validation run_id st' = Inr st'' \<and> row_of run_id st'' = Inr (row'', APPROVAL_DECISION, n'')"
    if "outcome = Inr (Some ())"
  proof -
    have final: "row_of run_id st' = Inr (row', FINAL_VALIDATION, n')" using st'(2) v(2) [OF that] by simp
    from row_of_InrD [OF final] have "stored_run run_id st' = Inr row'" "rw_stage row' = Some (stage_value FINAL_VALIDATION)"
      by (simp_all add: stored_run_def)
    then show ?thesis
      using forward_transition [OF final, of APPROVAL_DECISION]
      by (auto simp: finish_validation_def named_stage_def ordinary_def simp del: stage_value.simps)
  qed
  with st'(1) show ?thesis by blast
qed

theorem engine_events_follow_the_lifecycle_witness:
  "\<exists>t st''. run_task EXAMPLE_ENGINE_WORLD None None EXAMPLE_STATE = (Inr (Some ()), t) \<and>
     (\<exists>st'. fold_result (follow_event ''r'') [''r'' \<mapsto> Inr (EXAMPLE_RUN_ROW WORKTREE_PREPARATION)] (en_observed t) = Inr st' \<and>
       finish_validation ''r'' st' = Inr st'')"
proof -
  obtain t where run: "run_task EXAMPLE_ENGINE_WORLD None None EXAMPLE_STATE = (Inr (Some ()), t)"
    using example_completes by (auto split: prod.splits)
  have "row_of ''r'' [''r'' \<mapsto> Inr (EXAMPLE_RUN_ROW WORKTREE_PREPARATION)] =
      Inr (EXAMPLE_RUN_ROW WORKTREE_PREPARATION, WORKTREE_PREPARATION, 10)"
    by (rule row_of_stored) (simp_all add: EXAMPLE_RUN_ROW_def)
  moreover have "en_observed EXAMPLE_STATE = []" by (simp add: EXAMPLE_STATE_def)
  moreover have "map_of STAGES ''author_execution'' \<noteq> None" by (simp add: STAGES_def)
  ultimately show ?thesis
    using engine_events_follow_the_lifecycle [where retry = None, OF _ _ _ _ run] run by fastforce
qed

end
