(* ===== verification/Spec2Isabelle.thy ===== *)
theory Spec2Isabelle
  imports Indicator_Engine Backtest_Properties Comparison Walk_Forward Replay Scan_Scoring Stooq
    Authority_Properties Executive_Lifecycle Planning_Properties Execution_Store Engine_Events
begin

text \<open>
  Verification development of DarkSage: the research backend, and Keeper, the program that runs agents on
  a repository under a founder's authority.

  \<^bold>\<open>The backend.\<close>  The backend under \<open>src/backend/app\<close> turns raw provider values into domain models
  (\<open>src/shared/models\<close>), computes technical indicators over candle series, scans a universe of symbols,
  backtests strategies and judges the results: performance metrics, robustness, comparison of
  experiments, walk-forward validation and replay of history.  Every part works on the same frozen
  candles; a part calls the parts below it and keeps no state between calls, except the portfolio and the
  engine during a run and the cursor of a replay.

  \<^bold>\<open>Keeper.\<close>  Under \<open>src/keeper\<close> live three machines.  The task engine (\<open>keeper/orchestrator.py\<close>) takes a task
  from a builder's run through verification, an independent review, a bounded repair and a second review to
  completion, and tells an observer what it does; the application (\<open>keeper/app\<close>) turns these events into the
  stages of a durable run, which a person pauses, cancels, retries and approves.  The executive
  (\<open>keeper/executive\<close>) plans a project from a charter the founder approved, chooses specialists, and asks an
  evaluator before every launch whether the charter and the approvals allow it.  The provider host
  (\<open>keeper/provider_host\<close>) keeps a journal of launches, so that no envelope is launched twice.

  \<^bold>\<open>Theories and sources\<close>, in the order of the imports.

    \<^item> \<open>Prelude\<close>: exceptions as values (\<open>Err\<close> class and text), \<open>bind_result\<close>, \<open>map_result\<close> and
      \<open>fold_result\<close> for the loops that may raise, string helpers.
    \<^item> \<open>Py_Decimal\<close>: \<open>decimal.Decimal\<close> in the default context, floats, timedelta and datetime.
    \<^item> \<open>Domain_Models\<close>: \<open>shared/models/*.py\<close>, one constructor function per validated model.
    \<^item> \<open>Market_Data\<close>: \<open>market_data/normalization.py\<close>, \<open>freshness.py\<close>, \<open>last_price.py\<close>.
    \<^item> \<open>Indicator_Core\<close>, \<open>Indicator_Library\<close>, \<open>Indicator_Engine\<close>: \<open>indicators/rolling.py\<close>, \<open>types.py\<close>,
      \<open>library/*.py\<close>, \<open>registry.py\<close> and \<open>engine.py\<close>.
    \<^item> \<open>Scanner\<close>, \<open>Scan_Scoring\<close>: \<open>scanner/types.py\<close>, \<open>filters.py\<close>, \<open>scanner.py\<close>, \<open>scoring.py\<close>.
    \<^item> \<open>Backtest_Config\<close>: \<open>backtesting/config.py\<close>, \<open>types.py\<close>, \<open>strategy/intent.py\<close>, \<open>execution/fill.py\<close>.
    \<^item> \<open>Execution_Sim\<close>: \<open>execution/simulator.py\<close> and \<open>portfolio.py\<close>.
    \<^item> \<open>Backtest_History\<close>: \<open>history.py\<close>, with the framed run identity.
    \<^item> \<open>Backtest_Engine\<close>, \<open>Reference_Strategy\<close>, \<open>Backtest_Properties\<close>: \<open>engine.py\<close>,
      \<open>strategy/context.py\<close> and \<open>strategy/reference.py\<close>, and what holds of a whole run.
    \<^item> \<open>Performance_Metrics\<close>: \<open>metrics.py\<close>.  \<open>Robustness\<close>: \<open>robustness.py\<close>.  \<open>Comparison\<close>:
      \<open>comparison.py\<close>.
    \<^item> \<open>Partitions\<close>, \<open>Walk_Forward\<close>: \<open>validation/partitions.py\<close>, \<open>validation/walkforward.py\<close>.
    \<^item> \<open>Replay\<close>: \<open>replay.py\<close>.
    \<^item> \<open>Market_Transport\<close>: \<open>market_data/transport.py\<close> and \<open>rate_limit.py\<close>.  \<open>Stooq\<close>:
      \<open>market_data/providers/stooq.py\<close>, with the parts of \<open>csv\<close>, \<open>strptime\<close> and \<open>quote\<close> it uses.
    \<^item> \<open>Transition_Systems\<close>: the locales of components with a life of their own.
    \<^item> \<open>Launch_Store\<close>: \<open>keeper/provider_host/replay_store.py\<close>.
    \<^item> \<open>Path_Policies\<close>: \<open>keeper/policies.py\<close> and the changed files of \<open>keeper/workspace.py\<close>.
      \<open>Review_Output\<close>: \<open>keeper/provider_output.py\<close>, \<open>models/finding.py\<close>, \<open>reviewer.py\<close>.
      \<open>Verification_Policy\<close>: \<open>keeper/app/verification_policy.py\<close> and \<open>keeper/verifier.py\<close>.
    \<^item> \<open>Task_Queue\<close>: \<open>keeper/state_machine.py\<close>, \<open>models/task.py\<close>, \<open>task_queue.py\<close>.  \<open>Task_Engine\<close>:
      \<open>keeper/orchestrator.py\<close> with \<open>agent_runner.py\<close> and \<open>providers/routing.py\<close>; \<open>Task_Properties\<close> and
      \<open>Task_Gates\<close> hold what is proved of it.
    \<^item> \<open>Run_Lifecycle\<close>, \<open>Run_Properties\<close>: \<open>keeper/app/lifecycle.py\<close>.  \<open>Run_Workflow\<close>,
      \<open>Workflow_Properties\<close>: the requests on runs, the observer and the record of a failure in
      \<open>keeper/app/workflow.py\<close>.  \<open>Engine_Events\<close>: the engine's events against the lifecycle.
    \<^item> \<open>Executive_Models\<close>, \<open>Executive_Lifecycle\<close>: \<open>keeper/executive/enums.py\<close>, \<open>models.py\<close>, \<open>state.py\<close>.
      \<open>Executive_Authority\<close>, \<open>Authority_Properties\<close>: \<open>authority.py\<close>.  \<open>Executive_Planning\<close>,
      \<open>Planning_Properties\<close>: \<open>planning.py\<close>.  \<open>Specialists\<close>: \<open>specialists.py\<close>.

  A frozen dataclass or pydantic model is a record with the source's fields, its validation a function
  \<open>mk_\<close>\<^emph>\<open>name\<close> that returns the record or raises; an enumeration is a datatype; a method is a function of
  the record.  An exception is a value of \<open>error\<close>, with its class and, where the text is fixed, its text.
  A loop is a fold, a primitive recursion, or a function with a termination proof.

  \<^bold>\<open>Lemma groups.\<close>
    \<^item> Arithmetic: rounding is monotone, idempotent and odd (locale \<open>rounding\<close>, interpreted for the decimal
      context and for floats), and exact on tick grids, so that money identities hold without error
      terms wherever prices are quoted in ticks.
    \<^item> Indicators: locale \<open>causal_indicator\<close> states what the engine needs of an indicator, that an answer
      exists exactly from the warm-up on and never changes when candles are appended; it is interpreted for
      every indicator of the library, and the absence of lookahead in the engine, the strategies, the
      replay and the walk-forward windows rests on it.
    \<^item> Backtests: an invariant of the pass over the bars (pending order, equity, trades), from which follow
      prefix stability, the prices of fills, conservation of cash and the complete list of failures.
    \<^item> Validation and research: exact cover of partitions, closed form of the windows, permutation and
      ordering facts for Monte Carlo paths and rankings, refinement of the replay.
    \<^item> Scanner: eligibility as an equivalence, isolation of the symbols of a universe, and the ranking.
    \<^item> Market data: the retry loop ends with the first decisive attempt, requests are spaced, and whatever the
      service answers only valid candles come out.
    \<^item> Stores and schedulers: locale \<open>invariant_system\<close> and its extension \<open>history_system\<close> give an invariant in
      every reachable state; they are interpreted for the journal of launches and for the store of runs.
    \<^item> The engine: a weakest-precondition calculus \<open>wp\<close> for its actions, and locale \<open>kept_relation\<close> for what
      every action keeps; its interpretations (the history only grows, the quiet steps, the progress) carry
      the proof that a completed task passed every gate.  The rules \<open>passes\<close> and \<open>leads\<close> follow the stage
      the observer has reached through the same actions.
    \<^item> Authority: what an allowing decision proves, what no charter allows, and how plans, specialists, the
      readiness check and reviews fit together.
    \<^item> Errors and faults: runs on which an exception leaves a task, a run or a plan in a state the code does not
      leave again are theorems, each with an example world evaluated by rewriting.

  \<^bold>\<open>Modelling decisions and bounds.\<close>
    \<^item> A \<open>Decimal\<close> is a rational and every operation rounds the exact result to 28 digits, half to even, as
      the default context does.  The exponent is unlimited: overflow and underflow (beyond \<open>10 ^ 999999\<close>)
      are not modelled, nor are NaN and infinities, which no model of the program admits; only the
      general power, which is a parameter, may signal them.
    \<^item> An aware datetime is its instant in microseconds, a naive one is marked as such; durations are
      integer microseconds.  The calendar is not modelled, nor its limits.
    \<^item> Text is a list of 8-bit characters; \<open>strip\<close> and \<open>upper\<close> work on ASCII.  Block reasons of the scanner
      quote decimals, dates and errors through a \<open>renderer\<close> parameter.
    \<^item> The SHA-256 of the run identity, the clock, the random generator and the decimal power are parameters
      of the definitions that use them; a clock is read as one value per run.
    \<^item> The list of all failures that pydantic reports is its first failure.
    \<^item> Keeper: paths are POSIX paths; a transaction of SQLite is one step that leaves the store as it was when it
      raises, a row is its fields that the code reads or writes.  JSON comes parsed, and the ISO reader, the
      file system, digests, the clock, git, agents and processes answer through a world given to the
      definitions; the world of the task engine is asked at successive times, so that the same question may
      have different answers.  A float may be not-a-number or infinite (\<open>py_float\<close>).  Exceptions keep the
      changes made before them.
    \<^item> The rate limiter's clock is a float: its spacing is exact on a grid of ticks, a hypothesis of the theorem
      that has a witness.  A sleep of the retry loop that is cancelled ends the fetch and is not modelled.
    \<^item> No definition uses fuel: all loops of the modelled code are bounded by their data, and the
      window loop, the integer square root, the retry loop and the readers of text have their own measures.

  \<^bold>\<open>Not modelled.\<close>  The backend's service glue (FastAPI, SQLAlchemy, settings), which only wires libraries.
  Of Keeper: the SQL repositories and founder sessions of the executive, the application's services, database
  and start of workers, the authority service, the provider-backed planning of \<open>pass_b\<close>, the Windows services,
  pipes, processes and certificates of the provider host, and the adapters to command-line tools: they are
  input and output of the operating system or long sequences of SQL around the decisions modelled here.
  The user interfaces and scripts present and build, and decide nothing.
\<close>

end
